(* ===== verification/Prelude.thy ===== *)
theory Prelude
  imports Main "HOL-Library.Code_Target_Numeral"
begin

text \<open>
  Generic lemmas, the collections of the development and the names of the types that every
  component shares. \<open>gostring\<close> is Go's \<open>string\<close>: an immutable sequence of bytes, kept as a list
  of \<open>char\<close>, one \<open>char\<close> per byte. Go's \<open>error\<close> values are represented by their
  message (the text of \<open>err.Error()\<close>), because that text is what the program stores, compares and
  forwards. A function that returns \<open>(T, error)\<close> has the result type \<open>error + 'a\<close>.
\<close>

type_synonym gostring = string
type_synonym gerror = string
type_synonym 'a result = "gerror + 'a"

named_theorems store_laws \<open>laws of the containers a component keeps\<close>
named_theorems step_simps \<open>equations that unfold one operation of a component\<close>
named_theorems inv_intros \<open>an operation keeps the invariant of its component\<close>

section \<open>Lists\<close>

text \<open>The last \<open>n\<close> elements: what a bounded history keeps.\<close>

definition lastN :: "nat \<Rightarrow> 'a list \<Rightarrow> 'a list" where
  "lastN n xs = drop (length xs - n) xs"

lemma length_lastN [simp]: "length (lastN n xs) = min n (length xs)"
  by (simp add: lastN_def)

lemma lastN_all [simp]: "length xs \<le> n \<Longrightarrow> lastN n xs = xs"
  by (simp add: lastN_def)

lemma lastN_Nil [simp]: "lastN n [] = []"
  by (simp add: lastN_def)

lemma lastN_lastN_snoc: "0 < n \<Longrightarrow> lastN n (lastN n xs @ [x]) = lastN n (xs @ [x])"
  by (cases "length xs \<le> n") (auto simp: lastN_def Suc_diff_le)

lemma lastN_lastN_append: "0 < n \<Longrightarrow> lastN n (lastN n xs @ ys) = lastN n (xs @ ys)"
  by (cases "length xs \<le> n") (auto simp: lastN_def add.commute)

lemma set_lastN: "set (lastN n xs) \<subseteq> set xs"
  by (simp add: lastN_def set_drop_subset)

lemma lastN_snoc_last: "0 < n \<Longrightarrow> x \<in> set (lastN n (xs @ [x]))"
  by (auto simp: lastN_def)

text \<open>Removing a prefix that satisfies a test at both ends.\<close>

definition trim_while :: "('a \<Rightarrow> bool) \<Rightarrow> 'a list \<Rightarrow> 'a list" where
  "trim_while P xs = rev (dropWhile P (rev (dropWhile P xs)))"

lemma trim_while_Nil [simp]: "trim_while P [] = []"
  by (simp add: trim_while_def)

lemma trim_while_empty: "trim_while P xs = [] \<longleftrightarrow> (\<forall>x \<in> set xs. P x)"
proof -
  have "trim_while P xs = [] \<longleftrightarrow> (\<forall>x \<in> set (dropWhile P xs). P x)"
    by (simp add: trim_while_def)
  also have "\<dots> \<longleftrightarrow> (\<forall>x \<in> set xs. P x)"
  proof
    assume *: "\<forall>x \<in> set (dropWhile P xs). P x"
    show "\<forall>x \<in> set xs. P x"
    proof (cases "dropWhile P xs")
      case Nil
      then show ?thesis by (simp add: dropWhile_eq_Nil_conv)
    next
      case (Cons y ys)
      then have "\<not> P y" by (metis hd_dropWhile list.discI list.sel(1))
      with * Cons show ?thesis by simp
    qed
  next
    assume "\<forall>x \<in> set xs. P x"
    then show "\<forall>x \<in> set (dropWhile P xs). P x" by (meson set_dropWhileD)
  qed
  finally show ?thesis .
qed

lemma trim_while_id:
  "\<lbrakk>xs \<noteq> [] \<Longrightarrow> \<not> P (hd xs); xs \<noteq> [] \<Longrightarrow> \<not> P (last xs)\<rbrakk> \<Longrightarrow> trim_while P xs = xs"
proof -
  assume h: "xs \<noteq> [] \<Longrightarrow> \<not> P (hd xs)" and l: "xs \<noteq> [] \<Longrightarrow> \<not> P (last xs)"
  have a: "dropWhile P xs = xs" using h by (cases xs) auto
  have b: "dropWhile P (rev xs) = rev xs"
    using l by (cases xs rule: rev_cases) auto
  show ?thesis by (simp add: trim_while_def a b)
qed

text \<open>Association lists in which a later entry overwrites an earlier one, as in a decoded JSON object.\<close>

definition assoc_last :: "('k \<times> 'v) list \<Rightarrow> 'k \<Rightarrow> 'v option" where
  "assoc_last xs k = map_of (rev xs) k"

lemma assoc_last_Nil [simp]: "assoc_last [] k = None"
  by (simp add: assoc_last_def)

lemma assoc_last_Cons [simp]:
  "assoc_last ((k, v) # xs) k' = (case assoc_last xs k' of Some w \<Rightarrow> Some w | None \<Rightarrow> if k' = k then Some v else None)"
  by (auto simp: assoc_last_def map_add_def split: option.splits)

end
