(* ===== verification/Go_Strings.thy ===== *)
theory Go_Strings
  imports Prelude "HOL-Library.Sublist"
begin

text \<open>
  The parts of Go's \<open>strings\<close>, \<open>unicode/utf8\<close> and \<open>fmt\<close> packages that the program calls, on byte
  strings. Decoding follows \<open>utf8.DecodeRuneInString\<close> (a malformed byte is the rune U+FFFD of
  width 1), so \<open>[]rune(s)\<close>, \<open>strings.TrimSpace\<close> and \<open>strings.EqualFold\<close> behave on arbitrary bytes
  as Go's do. The case tables hold the ASCII letters and every rune whose case mapping or simple
  fold is an ASCII letter (U+0130, U+0131, U+017F, U+212A); other non-ASCII letters are left as
  they are. Every comparison of the program has an ASCII literal on one side, or two configured
  scene names, so this is exact for it unless a scene name uses non-ASCII letters.
\<close>

section \<open>Bytes and runes\<close>

abbreviation byte :: "char \<Rightarrow> nat" where
  "byte c \<equiv> of_char c"

definition bytes :: "nat list \<Rightarrow> gostring" where
  "bytes ns = map char_of ns"

definition in_rng :: "nat \<Rightarrow> nat \<Rightarrow> nat \<Rightarrow> bool" where
  "in_rng lo hi b \<longleftrightarrow> lo \<le> b \<and> b \<le> hi"

definition cont :: "nat \<Rightarrow> bool" where
  "cont b \<longleftrightarrow> in_rng 0x80 0xBF b"

definition RuneError :: nat where
  "RuneError = 0xFFFD"

text \<open>The second byte of a three and a four byte sequence: no overlong forms, no surrogates, nothing
  beyond U+10FFFF.\<close>

definition second3 :: "nat \<Rightarrow> nat \<Rightarrow> bool" where
  "second3 b0 b1 = (if b0 = 0xE0 then in_rng 0xA0 0xBF b1
     else if b0 = 0xED then in_rng 0x80 0x9F b1 else cont b1)"

definition second4 :: "nat \<Rightarrow> nat \<Rightarrow> bool" where
  "second4 b0 b1 = (if b0 = 0xF0 then in_rng 0x90 0xBF b1
     else if b0 = 0xF4 then in_rng 0x80 0x8F b1 else cont b1)"

text \<open>The first rune and its width, for a first byte \<open>b0\<close> and the bytes that follow.\<close>

definition decodeRune :: "nat \<Rightarrow> gostring \<Rightarrow> nat \<times> nat" where
  "decodeRune b0 cs =
     (if b0 < 0x80 then (b0, 1)
      else if in_rng 0xC2 0xDF b0 then
        (case cs of c1 # _ \<Rightarrow>
           if cont (byte c1) then (b0 mod 32 * 64 + byte c1 mod 64, 2) else (RuneError, 1)
         | _ \<Rightarrow> (RuneError, 1))
      else if in_rng 0xE0 0xEF b0 then
        (case cs of c1 # c2 # _ \<Rightarrow>
           if second3 b0 (byte c1) \<and> cont (byte c2)
           then (b0 mod 16 * 4096 + byte c1 mod 64 * 64 + byte c2 mod 64, 3) else (RuneError, 1)
         | _ \<Rightarrow> (RuneError, 1))
      else if in_rng 0xF0 0xF4 b0 then
        (case cs of c1 # c2 # c3 # _ \<Rightarrow>
           if second4 b0 (byte c1) \<and> cont (byte c2) \<and> cont (byte c3)
           then (b0 mod 8 * 262144 + byte c1 mod 64 * 4096 + byte c2 mod 64 * 64 + byte c3 mod 64, 4)
           else (RuneError, 1)
         | _ \<Rightarrow> (RuneError, 1))
      else (RuneError, 1))"

text \<open>A string as its runes, each with the bytes it was decoded from.\<close>

fun chunks :: "gostring \<Rightarrow> (nat \<times> gostring) list" where
  "chunks [] = []"
| "chunks (c # cs) = (let (r, n) = decodeRune (byte c) cs in
     (r, c # take (n - 1) cs) # chunks (drop (n - 1) cs))"

text \<open>\<open>[]rune(s)\<close>\<close>

definition runes :: "gostring \<Rightarrow> nat list" where
  "runes s = map fst (chunks s)"

definition validRune :: "nat \<Rightarrow> bool" where
  "validRune r \<longleftrightarrow> r < 0xD800 \<or> (0xE000 \<le> r \<and> r \<le> 0x10FFFF)"

text \<open>\<open>string(r)\<close> of one rune.\<close>

definition encodeRune :: "nat \<Rightarrow> gostring" where
  "encodeRune r0 = (let r = (if validRune r0 then r0 else RuneError) in
     if r < 0x80 then bytes [r]
     else if r < 0x800 then bytes [0xC0 + r div 64, 0x80 + r mod 64]
     else if r < 0x10000 then bytes [0xE0 + r div 4096, 0x80 + r div 64 mod 64, 0x80 + r mod 64]
     else bytes [0xF0 + r div 262144, 0x80 + r div 4096 mod 64, 0x80 + r div 64 mod 64, 0x80 + r mod 64])"

text \<open>\<open>string(rs)\<close> of a slice of runes.\<close>

definition of_runes :: "nat list \<Rightarrow> gostring" where
  "of_runes rs = concat (map encodeRune rs)"

subsection \<open>Decoding inverts encoding\<close>

lemma byte_lt [simp]: "byte c < 256"
  using of_char_mod_256 [where c = c] by (metis mod_less_divisor zero_less_numeral)

lemma byte_char_of [simp]: "n < 256 \<Longrightarrow> byte (char_of n) = n"
  by simp

lemma char_of_eq: "n < 256 \<Longrightarrow> (char_of n = c) = (n = byte c)" "n < 256 \<Longrightarrow> (c = char_of n) = (n = byte c)"
  by (auto simp: char_of_eq_iff take_bit_eq_mod)

lemma chunks_ascii: "byte c < 0x80 \<Longrightarrow> chunks (c # cs) = (byte c, [c]) # chunks cs"
  by (simp add: decodeRune_def)

lemma concat_chunks: "concat (map snd (chunks s)) = s"
  by (induction s rule: chunks.induct) (auto simp: Let_def split: prod.splits)

lemma add_mod_dvd: "b < k \<Longrightarrow> k dvd m \<Longrightarrow> (m + b) mod k = (b :: nat)"
  by (auto elim!: dvdE)

lemma mod64 [simp]: "b < 64 \<Longrightarrow> (128 + b) mod 64 = (b :: nat)"
  by (rule add_mod_dvd) simp_all

lemma mod64_le: "x mod 64 \<le> (63 :: nat)"
  using mod_less_divisor [of 64 x] by linarith

lemma mod64_cont: "128 \<le> x \<Longrightarrow> x \<le> 191 \<Longrightarrow> x mod 64 = x - (128 :: nat)"
  using mod64 [of "x - 128"] by simp

lemma valid3:
  assumes "in_rng 0xE0 0xEF b0" "second3 b0 x"
  shows "validRune (b0 mod 16 * 4096 + x mod 64 * 64 + y mod 64)"
proof -
  have b: "b0 mod 16 = b0 - 224"
    using assms(1) add_mod_dvd [of "b0 - 224" 16 224] by (fastforce simp: in_rng_def)
  show ?thesis
  proof (cases "b0 = 0xED")
    case True
    with assms have "x mod 64 \<le> 31" by (auto simp: second3_def in_rng_def mod64_cont)
    with True mod64_le [of y] show ?thesis by (simp add: validRune_def)
  next
    case False
    with assms(1) consider "b0 - 224 \<le> 12" | "14 \<le> b0 - 224" "b0 - 224 \<le> 15"
      by (force simp: in_rng_def)
    then show ?thesis
      unfolding b using mod64_le [of x] mod64_le [of y]
      by cases (simp_all add: validRune_def)
  qed
qed

lemma valid4:
  assumes "in_rng 0xF0 0xF4 b0" "second4 b0 x"
  shows "validRune (b0 mod 8 * 262144 + x mod 64 * 4096 + y mod 64 * 64 + z mod 64)"
proof -
  have b: "b0 mod 8 = b0 - 240"
    using assms(1) add_mod_dvd [of "b0 - 240" 8 240] by (fastforce simp: in_rng_def)
  have lo: "b0 = 0xF0 \<Longrightarrow> 16 \<le> x mod 64" and hi: "b0 = 0xF4 \<Longrightarrow> x mod 64 \<le> 15"
    using assms(2) by (auto simp: second4_def in_rng_def mod64_cont)
  note m = mod64_le [of x] mod64_le [of y] mod64_le [of z]
  consider "b0 = 0xF0" | "1 \<le> b0 - 240" "b0 - 240 \<le> 3" | "b0 = 0xF4"
    using assms(1) by (force simp: in_rng_def)
  then show ?thesis
    unfolding b by cases (use lo hi m in \<open>simp_all add: validRune_def\<close>)
qed

lemma decodeRune_valid:
  assumes "decodeRune b0 cs = (r, n)"
  shows "validRune r"
proof -
  have e: "validRune RuneError" by (simp add: RuneError_def validRune_def)
  have one: "validRune b0" if "b0 < 128" using that by (simp add: validRune_def)
  have two: "validRune (b0 mod 32 * 64 + x mod 64)" for x
  proof -
    have "b0 mod 32 \<le> 31" using mod_less_divisor [of 32 b0] by linarith
    then show ?thesis using mod64_le [of x] by (simp add: validRune_def)
  qed
  show ?thesis
    using assms e one two valid3 valid4
    by (auto simp: decodeRune_def split: if_splits list.splits)
qed

lemma chunks_valid: "r \<in> set (runes s) \<Longrightarrow> validRune r"
proof (induction s rule: chunks.induct)
  case 1
  then show ?case by (simp add: runes_def)
next
  case (2 c cs)
  obtain q n where d: "decodeRune (byte c) cs = (q, n)" by fastforce
  from 2(2) d have "r = q \<or> r \<in> set (runes (drop (n - 1) cs))"
    by (auto simp: runes_def)
  then show ?case
    using d 2(1) decodeRune_valid [OF d] by auto
qed

lemma decode2:
  assumes "2 \<le> a" "a < 32" "b < 64"
  shows "decodeRune (0xC0 + a) (char_of (0x80 + b) # s) = (a * 64 + b, 2)"
proof -
  have "(192 + a) mod 32 = a" using assms by (intro add_mod_dvd) simp_all
  with assms show ?thesis by (simp add: decodeRune_def in_rng_def cont_def)
qed

lemma decode3:
  assumes "a < 16" "b < 64" "c < 64" "a = 0 \<Longrightarrow> 32 \<le> b" "a = 13 \<Longrightarrow> b < 32"
  shows "decodeRune (0xE0 + a) (char_of (0x80 + b) # char_of (0x80 + c) # s) = (a * 4096 + b * 64 + c, 3)"
proof -
  have "(224 + a) mod 16 = a" using assms(1) by (intro add_mod_dvd) simp_all
  moreover have "second3 (0xE0 + a) (0x80 + b)"
    using assms by (cases "a = 0"; cases "a = 13") (simp_all add: second3_def in_rng_def cont_def)
  ultimately show ?thesis using assms(1-3) by (simp add: decodeRune_def in_rng_def cont_def)
qed

lemma decode4:
  assumes "a < 5" "b < 64" "c < 64" "d < 64" "a = 0 \<Longrightarrow> 16 \<le> b" "a = 4 \<Longrightarrow> b < 16"
  shows "decodeRune (0xF0 + a) (char_of (0x80 + b) # char_of (0x80 + c) # char_of (0x80 + d) # s) =
    (a * 262144 + b * 4096 + c * 64 + d, 4)"
proof -
  have "(240 + a) mod 8 = a" using assms(1) by (intro add_mod_dvd) simp_all
  moreover have "second4 (0xF0 + a) (0x80 + b)"
    using assms by (cases "a = 0"; cases "a = 4") (simp_all add: second4_def in_rng_def cont_def)
  ultimately show ?thesis using assms(1-4) by (simp add: decodeRune_def in_rng_def cont_def)
qed

lemma split64: "(r :: nat) div 64 * 64 + r mod 64 = r"
  by simp

lemma split4096: "(r :: nat) div 4096 * 4096 + r div 64 mod 64 * 64 + r mod 64 = r"
proof -
  have "r div 4096 = r div 64 div 64" by (simp add: div_mult2_eq [symmetric])
  then show ?thesis
    using div_mult_mod_eq [of "r div 64" 64] div_mult_mod_eq [of r 64] by linarith
qed

lemma split262144:
  "(r :: nat) div 262144 * 262144 + r div 4096 mod 64 * 4096 + r div 64 mod 64 * 64 + r mod 64 = r"
proof -
  have "r div 262144 = r div 4096 div 64" by (simp add: div_mult2_eq [symmetric])
  then show ?thesis
    using div_mult_mod_eq [of "r div 4096" 64] split4096 [of r] by linarith
qed

lemma chunks_encode:
  assumes "validRune r"
  shows "chunks (encodeRune r @ s) = (r, encodeRune r) # chunks s"
proof -
  consider (a) "r < 0x80" | (b) "0x80 \<le> r" "r < 0x800" | (c) "0x800 \<le> r" "r < 0x10000"
    | (d) "0x10000 \<le> r" "r \<le> 0x10FFFF"
    using assms by (fastforce simp: validRune_def)
  then show ?thesis
  proof cases
    case a
    then show ?thesis using assms by (simp add: encodeRune_def bytes_def decodeRune_def)
  next
    case b
    have *: "2 \<le> r div 64" "r div 64 < 32" "r mod 64 < 64" using b by auto
    show ?thesis
      using assms b *(2) decode2 [OF *, of s] split64 [of r]
      by (simp add: encodeRune_def bytes_def)
  next
    case c
    have *: "r div 4096 < 16" "r div 64 mod 64 < 64" "r mod 64 < 64" using c by auto
    have lo: "r div 4096 = 0 \<Longrightarrow> 32 \<le> r div 64 mod 64"
      using c split4096 [of r] *(3) by simp
    have hi: "r div 4096 = 13 \<Longrightarrow> r div 64 mod 64 < 32"
      using assms split4096 [of r] *(2,3) unfolding validRune_def by simp
    show ?thesis
      using assms c *(1) decode3 [OF * lo hi, of s] split4096 [of r]
      by (simp add: encodeRune_def bytes_def)
  next
    case d
    have *: "r div 262144 < 5" "r div 4096 mod 64 < 64" "r div 64 mod 64 < 64" "r mod 64 < 64"
      using d by auto
    have lo: "r div 262144 = 0 \<Longrightarrow> 16 \<le> r div 4096 mod 64"
      using d split262144 [of r] *(3,4) by simp
    have hi: "r div 262144 = 4 \<Longrightarrow> r div 4096 mod 64 < 16"
      using d split262144 [of r] by simp
    show ?thesis
      using assms d *(1) decode4 [OF * lo hi, of s] split262144 [of r]
      by (simp add: encodeRune_def bytes_def)
  qed
qed

lemma chunks_of_runes:
  "\<forall>r \<in> set rs. validRune r \<Longrightarrow> chunks (of_runes rs @ s) = map (\<lambda>r. (r, encodeRune r)) rs @ chunks s"
  by (induction rs) (auto simp: of_runes_def chunks_encode)

lemma runes_of_runes: "\<forall>r \<in> set rs. validRune r \<Longrightarrow> runes (of_runes rs) = rs"
  using chunks_of_runes [of rs "[]"] by (simp add: runes_def comp_def)

lemma runes_Nil [simp]: "runes [] = []"
  by (simp add: runes_def)

lemma runes_eq_Nil [simp]: "runes s = [] \<longleftrightarrow> s = []"
  by (cases s) (auto simp: runes_def Let_def split: prod.splits)

lemma of_runes_Nil [simp]: "of_runes [] = []"
  by (simp add: of_runes_def)

lemma runes_take_runes: "runes (of_runes (take n (runes s))) = take n (runes s)"
  by (rule runes_of_runes) (meson chunks_valid in_set_takeD)

section \<open>strings.TrimSpace, EqualFold, ToUpper, ToLower\<close>

definition isSpace :: "nat \<Rightarrow> bool" where
  "isSpace r \<longleftrightarrow> in_rng 9 13 r \<or> r = 32 \<or> r = 0x85 \<or> r = 0xA0 \<or> r = 0x1680 \<or> in_rng 0x2000 0x200A r
     \<or> r = 0x2028 \<or> r = 0x2029 \<or> r = 0x202F \<or> r = 0x205F \<or> r = 0x3000"

definition TrimSpace :: "gostring \<Rightarrow> gostring" where
  "TrimSpace s = concat (map snd (trim_while (\<lambda>rb. isSpace (fst rb)) (chunks s)))"

text \<open>The program's most frequent test: \<open>strings.TrimSpace(s) == ""\<close>.\<close>

definition blank :: "gostring \<Rightarrow> bool" where
  "blank s \<longleftrightarrow> TrimSpace s = []"

definition foldRune :: "nat \<Rightarrow> nat" where
  "foldRune r = (if in_rng 65 90 r then r + 32 else if r = 0x17F then 115 else if r = 0x212A then 107 else r)"

definition EqualFold :: "gostring \<Rightarrow> gostring \<Rightarrow> bool" where
  "EqualFold s t \<longleftrightarrow> map foldRune (runes s) = map foldRune (runes t)"

definition upperRune :: "nat \<Rightarrow> nat" where
  "upperRune r = (if in_rng 97 122 r then r - 32 else if r = 0x17F then 83 else if r = 0x131 then 73 else r)"

definition ToUpper :: "gostring \<Rightarrow> gostring" where
  "ToUpper s = of_runes (map upperRune (runes s))"

definition lowerRune :: "nat \<Rightarrow> nat" where
  "lowerRune r = (if in_rng 65 90 r then r + 32 else if r = 0x130 then 105 else if r = 0x212A then 107 else r)"

definition ToLower :: "gostring \<Rightarrow> gostring" where
  "ToLower s = of_runes (map lowerRune (runes s))"

lemma chunk_nonempty: "(r, b) \<in> set (chunks s) \<Longrightarrow> b \<noteq> []"
  by (induction s rule: chunks.induct) (auto simp: Let_def split: prod.splits)

lemma TrimSpace_Nil [simp]: "TrimSpace [] = []"
  by (simp add: TrimSpace_def)

lemma blank_Nil [simp]: "blank []"
  by (simp add: blank_def)

lemma blank_iff: "blank s \<longleftrightarrow> (\<forall>r \<in> set (runes s). isSpace r)"
proof -
  have "concat (map snd xs) = [] \<longleftrightarrow> xs = []" if "set xs \<subseteq> set (chunks s)" for xs
    using that chunk_nonempty by (cases xs) fastforce+
  moreover have "set (trim_while (\<lambda>rb. isSpace (fst rb)) (chunks s)) \<subseteq> set (chunks s)"
    by (auto simp: trim_while_def dest!: set_dropWhileD)
  ultimately show ?thesis
    by (simp add: blank_def TrimSpace_def trim_while_empty runes_def)
qed

lemma EqualFold_refl [simp]: "EqualFold s s"
  by (simp add: EqualFold_def)

lemma EqualFold_sym: "EqualFold s t \<longleftrightarrow> EqualFold t s"
  by (auto simp: EqualFold_def)

lemma EqualFold_trans: "EqualFold s t \<Longrightarrow> EqualFold t u \<Longrightarrow> EqualFold s u"
  by (simp add: EqualFold_def)

lemma EqualFold_Nil [simp]: "EqualFold s [] \<longleftrightarrow> s = []" "EqualFold [] s \<longleftrightarrow> s = []"
  by (simp_all add: EqualFold_def)

section \<open>Searching, replacing, joining\<close>

fun Contains :: "gostring \<Rightarrow> gostring \<Rightarrow> bool" where
  "Contains [] t \<longleftrightarrow> t = []"
| "Contains (c # cs) t \<longleftrightarrow> prefix t (c # cs) \<or> Contains cs t"

lemma Contains_iff: "Contains s t \<longleftrightarrow> sublist t s"
  by (induction s) (auto simp: sublist_Cons_right)

text \<open>\<open>strings.ReplaceAll\<close> of one ASCII character by another.\<close>

definition replaceChar :: "char \<Rightarrow> char \<Rightarrow> gostring \<Rightarrow> gostring" where
  "replaceChar a b s = map (\<lambda>c. if c = a then b else c) s"

lemma replaceChar_notin: "a \<noteq> b \<Longrightarrow> a \<notin> set (replaceChar a b s)"
  by (auto simp: replaceChar_def)

lemma set_replaceChar: "set (replaceChar a b s) \<subseteq> insert b (set s)"
  by (auto simp: replaceChar_def)

text \<open>\<open>strings.Join\<close>\<close>

fun Join :: "gostring list \<Rightarrow> gostring \<Rightarrow> gostring" where
  "Join [] sep = []"
| "Join [x] sep = x"
| "Join (x # y # xs) sep = x @ sep @ Join (y # xs) sep"

text \<open>\<open>strings.TrimRight(s, "/")\<close> for one character.\<close>

definition trimRightChar :: "char \<Rightarrow> gostring \<Rightarrow> gostring" where
  "trimRightChar c s = rev (dropWhile (\<lambda>d. d = c) (rev s))"

text \<open>\<open>strings.Index\<close> and \<open>strings.LastIndex\<close> of one ASCII character.\<close>

fun indexChar :: "char \<Rightarrow> gostring \<Rightarrow> nat option" where
  "indexChar c [] = None"
| "indexChar c (d # ds) = (if d = c then Some 0 else map_option Suc (indexChar c ds))"

definition lastIndexChar :: "char \<Rightarrow> gostring \<Rightarrow> nat option" where
  "lastIndexChar c s = map_option (\<lambda>i. length s - 1 - i) (indexChar c (rev s))"

lemma indexChar_lt: "indexChar c s = Some i \<Longrightarrow> i < length s"
  by (induction s arbitrary: i) (auto split: if_splits)

section \<open>Decimal numbers\<close>

text \<open>The verb \<open>%d\<close> of \<open>fmt.Sprintf\<close>.\<close>

fun show_nat :: "nat \<Rightarrow> gostring" where
  "show_nat n = (if n < 10 then [char_of (48 + n)] else show_nat (n div 10) @ [char_of (48 + n mod 10)])"

declare show_nat.simps [simp del]

definition show_int :: "int \<Rightarrow> gostring" where
  "show_int i = (if i < 0 then ''-'' @ show_nat (nat (- i)) else show_nat (nat i))"

definition is_digit :: "char \<Rightarrow> bool" where
  "is_digit c \<longleftrightarrow> in_rng 48 57 (byte c)"

definition read_nat :: "gostring \<Rightarrow> nat" where
  "read_nat s = foldl (\<lambda>n c. 10 * n + (byte c - 48)) 0 s"

lemma show_nat_digits: "c \<in> set (show_nat n) \<Longrightarrow> is_digit c"
proof (induction n rule: show_nat.induct)
  case (1 n)
  have *: "n mod 10 < 10" by simp
  show ?case
  proof (cases "n < 10")
    case True
    with 1(2) show ?thesis by (simp add: show_nat.simps [of n] is_digit_def in_rng_def)
  next
    case False
    with 1 * show ?thesis
      by (auto simp: show_nat.simps [of n] is_digit_def in_rng_def)
  qed
qed

lemma show_nat_nonempty [simp]: "show_nat n \<noteq> []"
  by (subst show_nat.simps) simp

lemma read_show_nat: "read_nat (show_nat n) = n"
proof (induction n rule: show_nat.induct)
  case (1 n)
  have *: "n mod 10 < 10" by simp
  show ?case
    using 1 * by (cases "n < 10") (simp_all add: show_nat.simps [of n] read_nat_def)
qed

lemma show_nat_inj [simp]: "show_nat m = show_nat n \<longleftrightarrow> m = n"
  by (metis read_show_nat)

lemma digit_not_minus: "is_digit c \<Longrightarrow> c \<noteq> CHR ''-''"
  by (auto simp: is_digit_def in_rng_def)

lemma digit_not_colon: "is_digit c \<Longrightarrow> c \<noteq> CHR '':''"
  by (auto simp: is_digit_def in_rng_def)

lemma show_nat_no_minus: "CHR ''-'' \<notin> set (show_nat n)"
  using show_nat_digits digit_not_minus by blast

lemma show_int_inj [simp]: "show_int i = show_int j \<longleftrightarrow> i = j"
proof
  assume e: "show_int i = show_int j"
  have n: "show_nat m \<noteq> CHR ''-'' # s" for m s
    using show_nat_no_minus [of m] by (metis list.set_intros(1))
  show "i = j"
    using e n n [symmetric] by (auto simp: show_int_def split: if_splits)
qed simp

lemma show_int_no_colon: "CHR '':'' \<notin> set (show_int i)"
  using show_nat_digits digit_not_colon by (auto simp: show_int_def)

lemma show_int_nonempty [simp]: "show_int i \<noteq> []"
  by (simp add: show_int_def)

text \<open>A separator that occurs in neither left part splits a string uniquely.\<close>

lemma split_at_sep:
  "c \<notin> set xs \<Longrightarrow> c \<notin> set xs' \<Longrightarrow> xs @ c # ys = xs' @ c # ys' \<longleftrightarrow> xs = xs' \<and> ys = ys'"
proof (induction xs arbitrary: xs')
  case Nil
  then show ?case by (cases xs') auto
next
  case (Cons x xs)
  then show ?case by (cases xs') auto
qed

text \<open>\<open>strconv.ParseInt(s, 10, 64)\<close>: the value it returns (the nearest bound on a range error, 0 on a
  syntax error) and whether it reports an error. The callers of the program ignore the error.\<close>

definition max_int64 :: int where
  "max_int64 = 2 ^ 63 - 1"

definition min_int64 :: int where
  "min_int64 = - (2 ^ 63)"

definition clamp_int64 :: "int \<Rightarrow> int \<times> bool" where
  "clamp_int64 i = (if i > max_int64 then (max_int64, False) else if i < min_int64 then (min_int64, False) else (i, True))"

definition ParseInt64 :: "gostring \<Rightarrow> int \<times> bool" where
  "ParseInt64 s = (let (neg, ds) = (case s of c # cs \<Rightarrow> if c = CHR ''-'' then (True, cs) else if c = CHR ''+'' then (False, cs) else (False, s)
                                     | [] \<Rightarrow> (False, [])) in
     if ds = [] \<or> \<not> list_all is_digit ds then (0, False)
     else clamp_int64 (if neg then - int (read_nat ds) else int (read_nat ds)))"

lemma ParseInt64_bounds: "ParseInt64 s = (i, ok) \<Longrightarrow> min_int64 \<le> i \<and> i \<le> max_int64"
  by (auto simp: ParseInt64_def clamp_int64_def max_int64_def min_int64_def Let_def
      split: if_splits list.splits)

text \<open>The conversion \<open>int32(x)\<close> of an \<open>int64\<close> keeps the low 32 bits, as two's complement.\<close>

definition to_int32 :: "int \<Rightarrow> int" where
  "to_int32 i = (i + 2 ^ 31) mod 2 ^ 32 - 2 ^ 31"

lemma to_int32_range: "- (2 ^ 31) \<le> to_int32 i \<and> to_int32 i < 2 ^ 31"
proof -
  have "0 \<le> (i + 2 ^ 31) mod 2 ^ 32" "(i + 2 ^ 31) mod 2 ^ 32 < (2 ^ 32 :: int)" by simp_all
  then show ?thesis unfolding to_int32_def by simp
qed

lemma to_int32_id: "- (2 ^ 31) \<le> i \<Longrightarrow> i < 2 ^ 31 \<Longrightarrow> to_int32 i = i"
  by (simp add: to_int32_def)

end
