(* ===== verification/Context_Compose.thy ===== *)
theory Context_Compose
  imports Go_Strings
begin

text \<open>
  The package \<open>internal/contextx\<close>: the step records every part of the agent exchanges, the view of a
  session that the memory store hands out, and \<open>Compose\<close>, which fits a view into a prompt budget.
  Counts and limits are Go \<open>int\<close>s; none of them can come near the 64-bit bounds (they are at most
  the number of bytes held in memory), so they are modelled as \<open>int\<close>.

  The loop of \<open>Compose\<close> that drops the oldest step while the estimate is over the budget is the
  structural recursion \<open>drop_to_budget\<close>, so it ends on every input. The main result is that the steps
  it keeps are the longest suffix of the compacted steps that obeys both limits.
\<close>

section \<open>Data\<close>

record StepRecord =
  sr_Step :: int
  sr_ToolName :: gostring
  sr_Action :: gostring
  sr_Arguments :: gostring
  sr_Output :: gostring
  sr_Error :: gostring

record View =
  v_SessionID :: gostring
  v_ExecutionID :: gostring
  v_Task :: gostring
  v_Summary :: gostring
  v_RecentSteps :: "StepRecord list"

record Budget =
  b_MaxPromptTokens :: int
  b_MaxRecentSteps :: int
  b_MaxSummaryChars :: int

record CompressedContext =
  cc_SessionID :: gostring
  cc_Task :: gostring
  cc_Summary :: gostring
  cc_RecentSteps :: "StepRecord list"
  cc_EstimatedTokens :: int
  cc_Truncated :: bool

section \<open>Operations\<close>

definition DefaultBudget :: Budget where
  "DefaultBudget = \<lparr>b_MaxPromptTokens = 2000, b_MaxRecentSteps = 6, b_MaxSummaryChars = 1200\<rparr>"

definition ApproxTokens :: "gostring \<Rightarrow> int" where
  "ApproxTokens value = (if value = [] then 0 else int (length (runes value)) div 4 + 1)"

definition trimText :: "gostring \<Rightarrow> int \<Rightarrow> gostring" where
  "trimText value limit =
     (if limit \<le> 0 then value
      else let rs = runes value in
        if int (length rs) \<le> limit then value else of_runes (take (nat limit) rs))"

definition truncMarker :: gostring where
  "truncMarker = ''...[truncated]''"

definition trimPromptText :: "gostring \<Rightarrow> int \<Rightarrow> gostring" where
  "trimPromptText value limit =
     (if limit \<le> 0 then value
      else let rs = runes value; marker = runes truncMarker in
        if int (length rs) \<le> limit then value
        else if limit \<le> int (length marker) then of_runes (take (nat limit) rs)
        else of_runes (take (nat (limit - int (length marker))) rs) @ truncMarker)"

text \<open>The limit on a step's output by the tool that produced it (the \<open>switch\<close> of
  \<open>compactStepsForPrompt\<close>).\<close>

definition outputLimit :: "gostring \<Rightarrow> int" where
  "outputLimit tool =
     (if tool = ''retrieve_rag'' then 2600
      else if tool = ''get_review_evidence'' then 1800
      else if tool = ''get_review_stats'' then 1600
      else if tool = ''store_decision'' \<or> tool = ''llm'' then 1200
      else 1000)"

definition compactStep :: "StepRecord \<Rightarrow> StepRecord" where
  "compactStep step = step
     \<lparr> sr_Arguments := trimPromptText (sr_Arguments step) 800,
       sr_Error := trimPromptText (sr_Error step) 800,
       sr_Output := trimPromptText (sr_Output step) (outputLimit (sr_ToolName step)) \<rparr>"

definition compactStepsForPrompt :: "StepRecord list \<Rightarrow> StepRecord list" where
  "compactStepsForPrompt steps = map compactStep steps"

definition stepTokens :: "StepRecord \<Rightarrow> int" where
  "stepTokens step = ApproxTokens (sr_Action step) + ApproxTokens (sr_ToolName step)
     + ApproxTokens (sr_Arguments step) + ApproxTokens (sr_Output step) + ApproxTokens (sr_Error step)"

text \<open>The loop of \<open>Compose\<close>: steps left, estimate left, whether a step was dropped.\<close>

fun drop_to_budget :: "int \<Rightarrow> StepRecord list \<Rightarrow> int \<Rightarrow> bool \<Rightarrow> StepRecord list \<times> int \<times> bool" where
  "drop_to_budget limit [] estimated truncated = ([], estimated, truncated)"
| "drop_to_budget limit (removed # recent) estimated truncated =
     (if estimated > limit then drop_to_budget limit recent (estimated - stepTokens removed) True
      else (removed # recent, estimated, truncated))"

definition Compose :: "View \<Rightarrow> gostring \<Rightarrow> Budget \<Rightarrow> CompressedContext" where
  "Compose view task budget =
     (let summary = trimPromptText (v_Summary view) (b_MaxSummaryChars budget);
          recent0 = compactStepsForPrompt (v_RecentSteps view);
          over = b_MaxRecentSteps budget > 0 \<and> int (length recent0) > b_MaxRecentSteps budget;
          recent1 = (if over then drop (nat (int (length recent0) - b_MaxRecentSteps budget)) recent0 else recent0);
          estimated1 = foldl (\<lambda>e step. e + stepTokens step) (ApproxTokens task + ApproxTokens summary) recent1;
          (recent, estimated, truncated) =
            (if b_MaxPromptTokens budget > 0 \<and> estimated1 > b_MaxPromptTokens budget
             then drop_to_budget (b_MaxPromptTokens budget) recent1 estimated1 over
             else (recent1, estimated1, over))
      in \<lparr> cc_SessionID = v_SessionID view, cc_Task = task, cc_Summary = summary,
           cc_RecentSteps = recent, cc_EstimatedTokens = estimated, cc_Truncated = truncated \<rparr>)"

section \<open>Lemmas\<close>

definition stepsTokens :: "StepRecord list \<Rightarrow> int" where
  "stepsTokens steps = sum_list (map stepTokens steps)"

lemma ApproxTokens_nonneg [simp]: "0 \<le> ApproxTokens s"
  by (simp add: ApproxTokens_def)

lemma ApproxTokens_zero: "ApproxTokens s = 0 \<longleftrightarrow> s = []"
proof -
  have "0 \<le> int (length (runes s)) div 4" by simp
  then have "int (length (runes s)) div 4 + 1 \<noteq> 0" by linarith
  then show ?thesis by (simp add: ApproxTokens_def)
qed

lemma stepTokens_nonneg [simp]: "0 \<le> stepTokens s"
  by (simp add: stepTokens_def)

lemma stepsTokens_simps [simp]:
  "stepsTokens [] = 0" "stepsTokens (s # ss) = stepTokens s + stepsTokens ss"
  by (simp_all add: stepsTokens_def)

lemma stepsTokens_nonneg [simp]: "0 \<le> stepsTokens ss"
  by (induction ss) auto

lemma stepsTokens_append [simp]: "stepsTokens (xs @ ys) = stepsTokens xs + stepsTokens ys"
  by (induction xs) auto

lemma foldl_stepTokens: "foldl (\<lambda>e step. e + stepTokens step) e steps = e + stepsTokens steps"
  by (induction steps arbitrary: e) auto

lemma stepsTokens_suffix: "suffix ys xs \<Longrightarrow> stepsTokens ys \<le> stepsTokens xs"
  by (auto simp: suffix_def)

text \<open>What the dropping loop returns for a list \<open>xs\<close> and an estimate \<open>base + stepsTokens xs\<close>.\<close>

lemma drop_to_budget_spec:
  assumes "drop_to_budget limit xs (base + stepsTokens xs) tr = (ys, e, tr')"
  shows "suffix ys xs \<and> e = base + stepsTokens ys \<and> (e \<le> limit \<or> ys = []) \<and>
    (tr' \<longleftrightarrow> tr \<or> ys \<noteq> xs) \<and>
    (\<forall>zs. suffix zs xs \<and> base + stepsTokens zs \<le> limit \<longrightarrow> suffix zs ys)"
  using assms
proof (induction xs arbitrary: tr)
  case Nil
  then show ?case by auto
next
  case (Cons x xs)
  show ?case
  proof (cases "base + stepsTokens (x # xs) > limit")
    case True
    with Cons.prems have "drop_to_budget limit xs (base + stepsTokens xs) True = (ys, e, tr')"
      by (simp add: algebra_simps)
    from Cons.IH [OF this] have ih: "suffix ys xs" "e = base + stepsTokens ys" "e \<le> limit \<or> ys = []"
      "tr'" "\<forall>zs. suffix zs xs \<and> base + stepsTokens zs \<le> limit \<longrightarrow> suffix zs ys"
      by auto
    have ne: "ys \<noteq> x # xs" using ih(1) by (auto dest: suffix_length_le)
    have "suffix zs ys" if "suffix zs (x # xs)" "base + stepsTokens zs \<le> limit" for zs
      using that ih(5) True by (auto simp: suffix_Cons)
    then show ?thesis using ih(1-4) ne by (simp add: suffix_ConsI)
  next
    case False
    then show ?thesis using Cons.prems by auto
  qed
qed

text \<open>The steps \<open>Compose\<close> starts from once the count limit is applied.\<close>

definition countLimited :: "View \<Rightarrow> Budget \<Rightarrow> StepRecord list" where
  "countLimited view budget = (let steps = compactStepsForPrompt (v_RecentSteps view) in
     if b_MaxRecentSteps budget > 0 then lastN (nat (b_MaxRecentSteps budget)) steps else steps)"

lemma Compose_unfold:
  "\<exists>ys e tr. Compose view task budget =
      \<lparr> cc_SessionID = v_SessionID view, cc_Task = task,
        cc_Summary = trimPromptText (v_Summary view) (b_MaxSummaryChars budget),
        cc_RecentSteps = ys, cc_EstimatedTokens = e, cc_Truncated = tr \<rparr> \<and>
    (let base = ApproxTokens task + ApproxTokens (trimPromptText (v_Summary view) (b_MaxSummaryChars budget));
         xs = countLimited view budget; limit = b_MaxPromptTokens budget in
      suffix ys xs \<and> e = base + stepsTokens ys \<and> (limit > 0 \<longrightarrow> e \<le> limit \<or> ys = []) \<and>
      (tr \<longleftrightarrow> length ys < length (v_RecentSteps view)) \<and>
      (limit \<le> 0 \<longrightarrow> ys = xs) \<and>
      (\<forall>zs. suffix zs xs \<and> base + stepsTokens zs \<le> limit \<longrightarrow> suffix zs ys))"
proof -
  define base where "base = ApproxTokens task + ApproxTokens (trimPromptText (v_Summary view) (b_MaxSummaryChars budget))"
  define xs where "xs = countLimited view budget"
  define over where "over \<longleftrightarrow> b_MaxRecentSteps budget > 0 \<and> int (length (v_RecentSteps view)) > b_MaxRecentSteps budget"
  define limit where "limit = b_MaxPromptTokens budget"
  define res where "res = (if limit > 0 \<and> base + stepsTokens xs > limit
     then drop_to_budget limit xs (base + stepsTokens xs) over else (xs, base + stepsTokens xs, over))"
  obtain ys e tr where res: "res = (ys, e, tr)" by (cases res) auto
  have len: "over \<longleftrightarrow> length xs < length (v_RecentSteps view)"
    by (auto simp: over_def xs_def countLimited_def Let_def compactStepsForPrompt_def)
  have lx: "length xs \<le> length (v_RecentSteps view)"
    by (auto simp: xs_def countLimited_def Let_def compactStepsForPrompt_def)
  have recent: "(if over then drop (nat (int (length (v_RecentSteps view)) - b_MaxRecentSteps budget))
      (compactStepsForPrompt (v_RecentSteps view)) else compactStepsForPrompt (v_RecentSteps view)) = xs"
    by (auto simp: xs_def countLimited_def over_def lastN_def compactStepsForPrompt_def nat_diff_distrib Let_def)
  have l0: "length (compactStepsForPrompt (v_RecentSteps view)) = length (v_RecentSteps view)"
    by (simp add: compactStepsForPrompt_def)
  have eq: "Compose view task budget =
      \<lparr> cc_SessionID = v_SessionID view, cc_Task = task,
        cc_Summary = trimPromptText (v_Summary view) (b_MaxSummaryChars budget),
        cc_RecentSteps = ys, cc_EstimatedTokens = e, cc_Truncated = tr \<rparr>"
  proof -
    have "Compose view task budget = (case res of (recent, estimated, truncated) \<Rightarrow>
      \<lparr> cc_SessionID = v_SessionID view, cc_Task = task,
        cc_Summary = trimPromptText (v_Summary view) (b_MaxSummaryChars budget),
        cc_RecentSteps = recent, cc_EstimatedTokens = estimated, cc_Truncated = truncated \<rparr>)"
      unfolding Compose_def Let_def l0 foldl_stepTokens over_def [symmetric] recent
        base_def [symmetric] limit_def [symmetric] res_def by (rule refl)
    then show ?thesis by (simp add: res)
  qed
  have spec: "suffix ys xs \<and> e = base + stepsTokens ys \<and> (limit > 0 \<longrightarrow> e \<le> limit \<or> ys = []) \<and>
      (tr \<longleftrightarrow> over \<or> ys \<noteq> xs) \<and> (limit \<le> 0 \<longrightarrow> ys = xs) \<and>
      (\<forall>zs. suffix zs xs \<and> base + stepsTokens zs \<le> limit \<longrightarrow> suffix zs ys)"
  proof (cases "limit > 0 \<and> base + stepsTokens xs > limit")
    case True
    with res have "drop_to_budget limit xs (base + stepsTokens xs) over = (ys, e, tr)" by (simp add: res_def)
    from drop_to_budget_spec [OF this] True show ?thesis by auto
  next
    case False
    with res show ?thesis by (auto simp: res_def)
  qed
  have "(over \<or> ys \<noteq> xs) \<longleftrightarrow> length ys < length (v_RecentSteps view)"
  proof (cases "ys = xs")
    case True
    with len show ?thesis by simp
  next
    case False
    with spec have "length ys < length xs" by (auto simp: suffix_def)
    with False lx show ?thesis by simp
  qed
  with eq spec show ?thesis
    unfolding Let_def base_def [symmetric] limit_def [symmetric] xs_def [symmetric] by blast
qed


lemma length_runes_marker [simp]: "runes truncMarker = map byte truncMarker" "length truncMarker = 14"
  by (simp_all add: truncMarker_def runes_def decodeRune_def)

lemma runes_trimText: "runes (trimText value limit) = (if limit \<le> 0 then runes value else take (nat limit) (runes value))"
  by (auto simp: trimText_def Let_def runes_take_runes)

lemma runes_cut_marker:
  "runes (of_runes (take n (runes value)) @ truncMarker) = take n (runes value) @ map byte truncMarker"
proof -
  have "\<forall>r \<in> set (take n (runes value)). validRune r" using chunks_valid in_set_takeD by fastforce
  from chunks_of_runes [OF this, of truncMarker] show ?thesis
    by (simp add: runes_def comp_def flip: length_runes_marker(1))
qed

lemma runes_trimPromptText_length:
  "0 < limit \<Longrightarrow> int (length (runes (trimPromptText value limit))) = min limit (int (length (runes value)))"
  by (auto simp: trimPromptText_def Let_def runes_take_runes runes_cut_marker)

text \<open>Estimated size of a compacted step: what one step can cost at most in a prompt.\<close>

lemma ApproxTokens_bound: "int (length (runes s)) \<le> n \<Longrightarrow> 0 \<le> n \<Longrightarrow> ApproxTokens s \<le> n div 4 + 1"
  by (auto simp: ApproxTokens_def zdiv_mono1)

section \<open>Properties\<close>

text \<open>C20: \<open>Compose\<close> keeps the longest suffix of the compacted steps that obeys both limits: what it keeps
  is a suffix of the last \<open>MaxRecentSteps\<close> compacted steps, at most that many; its estimate (task, summary and
  steps) is the one reported and fits \<open>MaxPromptTokens\<close> unless no step is left; and every other suffix whose
  estimate fits is a suffix of what is kept.\<close>

theorem Compose_longest_suffix:
  assumes "0 < b_MaxPromptTokens budget" "0 < b_MaxRecentSteps budget"
  shows "let kept = cc_RecentSteps (Compose view task budget);
      newest = lastN (nat (b_MaxRecentSteps budget)) (compactStepsForPrompt (v_RecentSteps view));
      tokens = (\<lambda>zs. ApproxTokens task + ApproxTokens (cc_Summary (Compose view task budget)) + sum_list (map stepTokens zs))
    in suffix kept newest \<and> int (length kept) \<le> b_MaxRecentSteps budget \<and>
      cc_EstimatedTokens (Compose view task budget) = tokens kept \<and>
      (tokens kept \<le> b_MaxPromptTokens budget \<or> kept = []) \<and>
      (\<forall>zs. suffix zs newest \<and> tokens zs \<le> b_MaxPromptTokens budget \<longrightarrow> suffix zs kept)"
proof -
  have s: "suffix (cc_RecentSteps (Compose view task budget))
      (lastN (nat (b_MaxRecentSteps budget)) (compactStepsForPrompt (v_RecentSteps view)))"
    using Compose_unfold [of view task budget] assms by (auto simp: Let_def countLimited_def)
  then have "int (length (cc_RecentSteps (Compose view task budget))) \<le> b_MaxRecentSteps budget"
    using suffix_length_le [OF s] assms by (auto simp: lastN_def)
  with s Compose_unfold [of view task budget] assms show ?thesis
    by (auto simp: Let_def countLimited_def simp flip: stepsTokens_def)
qed

text \<open>\<open>Truncated\<close> is set exactly when at least one step of the view was left out.\<close>

theorem Compose_Truncated_iff:
  "cc_Truncated (Compose view task budget) \<longleftrightarrow>
     length (cc_RecentSteps (Compose view task budget)) < length (v_RecentSteps view)"
  using Compose_unfold [of view task budget] by (auto simp: Let_def)

text \<open>A positive limit of \<open>trimPromptText\<close> bounds the number of runes exactly (the shorter of the limit
  and the text), marker included, and a text within the limit is not touched.\<close>

theorem trimPromptText_runes:
  assumes "0 < limit"
  shows "int (length (runes (trimPromptText value limit))) = min limit (int (length (runes value))) \<and>
    (int (length (runes value)) \<le> limit \<longrightarrow> trimPromptText value limit = value)"
  using runes_trimPromptText_length [OF assms, of "value"] assms by (auto simp: trimPromptText_def)

section \<open>Witnesses\<close>

definition demoStep :: "gostring \<Rightarrow> StepRecord" where
  "demoStep out = \<lparr>sr_Step = 1, sr_ToolName = ''llm'', sr_Action = ''a'', sr_Arguments = [], sr_Output = out, sr_Error = []\<rparr>"

definition demoView :: View where
  "demoView = \<lparr>v_SessionID = ''s'', v_ExecutionID = ''e'', v_Task = [], v_Summary = ''sum'',
     v_RecentSteps = [demoStep ''one'', demoStep ''a longer output, forty bytes long, or so'', demoStep ''three'']\<rparr>"

definition demoBudget :: Budget where
  "demoBudget = \<lparr>b_MaxPromptTokens = 7, b_MaxRecentSteps = 2, b_MaxSummaryChars = 10\<rparr>"

lemma Compose_longest_suffix_witness:
  "cc_RecentSteps (Compose demoView ''t'' demoBudget) = [demoStep ''three''] \<and>
   cc_EstimatedTokens (Compose demoView ''t'' demoBudget) \<le> b_MaxPromptTokens demoBudget \<and>
   suffix (cc_RecentSteps (Compose demoView ''t'' demoBudget))
     (lastN (nat (b_MaxRecentSteps demoBudget)) (compactStepsForPrompt (v_RecentSteps demoView)))"
proof -
  have "cc_RecentSteps (Compose demoView ''t'' demoBudget) = [demoStep ''three'']" by code_simp
  moreover have "0 < b_MaxPromptTokens demoBudget" "0 < b_MaxRecentSteps demoBudget"
    by (simp_all add: demoBudget_def)
  ultimately show ?thesis using Compose_longest_suffix [of demoBudget demoView "''t''"] by (simp add: Let_def)
qed

lemma trimPromptText_runes_witness:
  "trimPromptText ''0123456789abcdefghij'' 16 = ''01...[truncated]'' \<and>
   int (length (runes (trimPromptText ''0123456789abcdefghij'' 16))) = 16"
proof -
  have "trimPromptText ''0123456789abcdefghij'' 16 = ''01...[truncated]''" by code_simp
  moreover have "length (runes ''0123456789abcdefghij'') = 20" by code_simp
  ultimately show ?thesis using trimPromptText_runes [of 16 "''0123456789abcdefghij''"] by simp
qed

end
