(* ===== verification/Session_Memory.thy ===== *)
theory Session_Memory
  imports Context_Compose
begin

text \<open>
  The contract of a session memory, as the agent relies on it: \<open>steps_at now k s\<close> are the recent steps
  a snapshot of key \<open>k\<close> shows at time \<open>now\<close>, and \<open>append now k x s\<close> is the store after
  \<open>AppendStep(k, x)\<close>. The predicate \<open>fits\<close> says that the store has room and that the clock readings
  considered lie within one time-to-live, so that no session expires or is evicted meanwhile.

  The lemma \<open>history\<close> is what a client gets from it: whatever the other executions append under their
  own keys in between, an execution reads back its own last \<open>cap\<close> steps, in order.
\<close>

locale session_memory =
  fixes fits :: "gostring set \<Rightarrow> int set \<Rightarrow> nat \<Rightarrow> 's \<Rightarrow> bool"
    and steps_at :: "int \<Rightarrow> gostring \<Rightarrow> 's \<Rightarrow> StepRecord list"
    and append :: "int \<Rightarrow> gostring \<Rightarrow> StepRecord \<Rightarrow> 's \<Rightarrow> 's"
  assumes append_fits: "\<lbrakk>fits K T cap s; k \<in> K; t \<in> T\<rbrakk> \<Longrightarrow> fits K T cap (append t k x s)"
    and append_same: "\<lbrakk>fits K T cap s; k \<in> K; t \<in> T; t' \<in> T\<rbrakk> \<Longrightarrow>
      steps_at t' k (append t k x s) = lastN cap (steps_at t k s @ [x])"
    and append_other: "\<lbrakk>fits K T cap s; k \<in> K; k' \<in> K; k' \<noteq> k; t \<in> T; t' \<in> T\<rbrakk> \<Longrightarrow>
      steps_at t' k' (append t k x s) = steps_at t' k' s"
    and steps_stable: "\<lbrakk>fits K T cap s; k \<in> K; t \<in> T; t' \<in> T\<rbrakk> \<Longrightarrow> steps_at t' k s = steps_at t k s"
    and cap_bound: "\<lbrakk>fits K T cap s; k \<in> K; t \<in> T\<rbrakk> \<Longrightarrow> 0 < cap \<and> length (steps_at t k s) \<le> cap"
begin

fun run :: "(int \<times> gostring \<times> StepRecord) list \<Rightarrow> 's \<Rightarrow> 's" where
  "run [] s = s"
| "run ((t, k, x) # ops) s = run ops (append t k x s)"

lemma run_fits: "\<lbrakk>fits K T cap s; \<forall>(t, k, x) \<in> set ops. t \<in> T \<and> k \<in> K\<rbrakk> \<Longrightarrow> fits K T cap (run ops s)"
  by (induction ops s rule: run.induct) (auto intro: append_fits)

lemma history:
  assumes "fits K T cap s" "\<forall>(t, k', x) \<in> set ops. t \<in> T \<and> k' \<in> K" "k \<in> K" "now \<in> T"
  shows "steps_at now k (run ops s) =
    lastN cap (steps_at now k s @ map (\<lambda>(t, k', x). x) (filter (\<lambda>(t, k', x). k' = k) ops))"
  using assms(1,2)
proof (induction ops s rule: run.induct)
  case (1 s)
  then show ?case using cap_bound [OF 1(1) assms(3,4)] by simp
next
  case (2 t k' x ops s)
  from 2(2,3) have f: "fits K T cap (append t k' x s)" and t: "t \<in> T" and k': "k' \<in> K"
    by (auto intro: append_fits)
  have ih: "steps_at now k (run ops (append t k' x s)) = lastN cap (steps_at now k (append t k' x s)
      @ map (\<lambda>(t, k', x). x) (filter (\<lambda>(t, k', x). k' = k) ops))"
    using 2(1) f 2(3) by simp
  have c: "0 < cap" using cap_bound [OF 2(2) assms(3,4)] by simp
  show ?case
  proof (cases "k' = k")
    case True
    have "steps_at now k (append t k' x s) = lastN cap (steps_at now k s @ [x])"
      using append_same [OF 2(2) assms(3) t assms(4), of x] steps_stable [OF 2(2) assms(3) t assms(4)] True
      by simp
    then show ?thesis using ih True c by (simp add: lastN_lastN_append)
  next
    case False
    then show ?thesis using ih append_other [OF 2(2) k' assms(3) _ t assms(4)] by simp
  qed
qed

lemma history_length:
  "\<lbrakk>fits K T cap s; \<forall>(t, k', x) \<in> set ops. t \<in> T \<and> k' \<in> K; k \<in> K; now \<in> T\<rbrakk> \<Longrightarrow>
     length (steps_at now k (run ops s)) \<le> cap"
  using cap_bound [OF run_fits] by blast

end

end
