(* ===== verification/Memory_Store.thy ===== *)
theory Memory_Store
  imports Session_Memory
begin

text \<open>
  The package \<open>internal/memory\<close>: the session state, the summary that dropped steps are folded into
  (\<open>summary.go\<close>) and the in-memory store (\<open>store.go\<close>). A store operation is a function of the store,
  of the clock reading \<open>now\<close> (nanoseconds) that \<open>time.Now()\<close> gives it and, where it iterates over the
  Go map, of the order \<open>ord\<close> of that iteration, which Go leaves open. The Go map is an association
  list, updated and searched with \<open>AList\<close>-style operations, so that its entries can be listed.
  The mutex of the store makes each operation atomic.
\<close>

section \<open>Data\<close>

record SessionState =
  ss_MemoryKey :: gostring
  ss_SessionID :: gostring
  ss_ExecutionID :: gostring
  ss_Task :: gostring
  ss_Summary :: gostring
  ss_RecentSteps :: "StepRecord list"
  ss_UpdatedAt :: int

record MemConfig =
  mc_MaxSessions :: int
  mc_MaxRecentSteps :: int
  mc_MaxSummaryChars :: int
  mc_SessionTTLSeconds :: int

text \<open>Go's zero value of \<open>SessionState\<close>; \<open>time.Time{}\<close> is far before every clock reading (year 1).\<close>

definition zeroTime :: int where
  "zeroTime = - 62135596800000000000"

definition emptyState :: SessionState where
  "emptyState = \<lparr>ss_MemoryKey = [], ss_SessionID = [], ss_ExecutionID = [], ss_Task = [], ss_Summary = [],
     ss_RecentSteps = [], ss_UpdatedAt = zeroTime\<rparr>"

type_synonym states = "(gostring \<times> SessionState) list"

record InMemoryStore =
  im_cfg :: MemConfig
  im_states :: states

text \<open>A Go map as a list of its entries: assignment, \<open>delete\<close>. Distinct keys are an invariant.\<close>

definition put :: "'k \<Rightarrow> 'v \<Rightarrow> ('k \<times> 'v) list \<Rightarrow> ('k \<times> 'v) list" where
  "put k v m = (k, v) # filter (\<lambda>e. fst e \<noteq> k) m"

definition del :: "'k \<Rightarrow> ('k \<times> 'v) list \<Rightarrow> ('k \<times> 'v) list" where
  "del k m = filter (\<lambda>e. fst e \<noteq> k) m"

section \<open>summary.go\<close>

definition truncate :: "gostring \<Rightarrow> int \<Rightarrow> gostring" where
  "truncate value limit =
     (if limit \<le> 0 then value
      else let rs = runes value in
        if int (length rs) \<le> limit then value else of_runes (take (nat limit) rs) @ ''...'')"

definition memTrimText :: "gostring \<Rightarrow> int \<Rightarrow> gostring" where
  "memTrimText value limit =
     (if limit \<le> 0 then value
      else let rs = runes value in
        if int (length rs) \<le> limit then value else of_runes (take (nat limit) rs))"

definition summarizeStep :: "StepRecord \<Rightarrow> gostring" where
  "summarizeStep step =
     ''[step '' @ show_int (sr_Step step) @ ''] tool='' @ sr_ToolName step @ '' action='' @ sr_Action step
     @ (if sr_Arguments step \<noteq> [] then '' args='' @ truncate (sr_Arguments step) 120 else [])
     @ (if sr_Output step \<noteq> [] then '' output='' @ truncate (sr_Output step) 180 else [])
     @ (if sr_Error step \<noteq> [] then '' error='' @ truncate (sr_Error step) 120 else [])
     @ ''\<newline>''"

definition summarizeSteps :: "StepRecord list \<Rightarrow> gostring" where
  "summarizeSteps steps = (if steps = [] then [] else TrimSpace (concat (map summarizeStep steps)))"

definition mergeSummary :: "gostring \<Rightarrow> gostring \<Rightarrow> gostring" where
  "mergeSummary current extra =
     (if current = [] then extra else if extra = [] then current else current @ ''\<newline>'' @ extra)"

section \<open>store.go\<close>

definition memConfigDefaults :: "MemConfig \<Rightarrow> MemConfig" where
  "memConfigDefaults cfg = \<lparr>
     mc_MaxSessions = (if mc_MaxSessions cfg \<le> 0 then 1000 else mc_MaxSessions cfg),
     mc_MaxRecentSteps = (if mc_MaxRecentSteps cfg \<le> 0 then 8 else mc_MaxRecentSteps cfg),
     mc_MaxSummaryChars = (if mc_MaxSummaryChars cfg \<le> 0 then 1200 else mc_MaxSummaryChars cfg),
     mc_SessionTTLSeconds = (if mc_SessionTTLSeconds cfg \<le> 0 then 1800 else mc_SessionTTLSeconds cfg) \<rparr>"

definition NewInMemoryStore :: "MemConfig \<Rightarrow> InMemoryStore" where
  "NewInMemoryStore cfg = \<lparr>im_cfg = memConfigDefaults cfg, im_states = []\<rparr>"

text \<open>\<open>time.Duration(n) * time.Second\<close>: an \<open>int64\<close> of nanoseconds, with its wrap-around.\<close>

definition wrap_int64 :: "int \<Rightarrow> int" where
  "wrap_int64 i = (i + 2 ^ 63) mod 2 ^ 64 - 2 ^ 63"

definition seconds :: "int \<Rightarrow> int" where
  "seconds n = wrap_int64 (n * 1000000000)"

definition memKey :: "gostring \<Rightarrow> gostring" where
  "memKey k = (if k = [] then ''default'' else k)"

text \<open>The overflow branch of \<open>normalizeState\<close> and \<open>AppendStep\<close>: the oldest steps go into the summary.\<close>

definition foldOverflow :: "MemConfig \<Rightarrow> SessionState \<Rightarrow> SessionState" where
  "foldOverflow cfg state =
     (if int (length (ss_RecentSteps state)) > mc_MaxRecentSteps cfg
      then let overflow = nat (int (length (ss_RecentSteps state)) - mc_MaxRecentSteps cfg);
               summary = mergeSummary (ss_Summary state) (summarizeSteps (take overflow (ss_RecentSteps state)))
           in state \<lparr> ss_RecentSteps := drop overflow (ss_RecentSteps state),
                      ss_Summary := memTrimText summary (mc_MaxSummaryChars cfg) \<rparr>
      else state)"

definition normalizeState :: "int \<Rightarrow> SessionState \<Rightarrow> MemConfig \<Rightarrow> SessionState" where
  "normalizeState now state cfg =
     foldOverflow cfg (state \<lparr> ss_UpdatedAt := now,
       ss_Summary := memTrimText (ss_Summary state) (mc_MaxSummaryChars cfg) \<rparr>)"

text \<open>The loop of \<open>evictIfNeeded\<close> over the entries in iteration order: the key chosen so far.\<close>

fun oldestKey :: "(gostring \<times> int) option \<Rightarrow> states \<Rightarrow> gostring" where
  "oldestKey best [] = (case best of None \<Rightarrow> [] | Some (k, _) \<Rightarrow> k)"
| "oldestKey best ((k, v) # es) =
     (case best of
        None \<Rightarrow> oldestKey (Some (k, ss_UpdatedAt v)) es
      | Some (bk, bt) \<Rightarrow>
          if ss_UpdatedAt v < bt then oldestKey (Some (k, ss_UpdatedAt v)) es
          else oldestKey (Some (bk, bt)) es)"

definition evictIfNeeded :: "(states \<Rightarrow> states) \<Rightarrow> InMemoryStore \<Rightarrow> InMemoryStore" where
  "evictIfNeeded ord s =
     (if int (length (im_states s)) \<le> mc_MaxSessions (im_cfg s) then s
      else s \<lparr> im_states := del (oldestKey None (ord (im_states s))) (im_states s) \<rparr>)"

definition Load :: "int \<Rightarrow> gostring \<Rightarrow> InMemoryStore \<Rightarrow> SessionState option \<times> InMemoryStore" where
  "Load now memoryKey s =
     (let key = memKey memoryKey in
      case map_of (im_states s) key of
        None \<Rightarrow> (None, s)
      | Some state \<Rightarrow>
          if ss_UpdatedAt state + seconds (mc_SessionTTLSeconds (im_cfg s)) < now
          then (None, s \<lparr> im_states := del key (im_states s) \<rparr>)
          else (Some (state \<lparr> ss_MemoryKey := key \<rparr>), s))"

definition Save :: "(states \<Rightarrow> states) \<Rightarrow> int \<Rightarrow> SessionState \<Rightarrow> InMemoryStore \<Rightarrow> InMemoryStore" where
  "Save ord now state0 s =
     (let state1 = (if ss_SessionID state0 = [] then state0 \<lparr> ss_SessionID := ''default'' \<rparr> else state0);
          key = (if ss_MemoryKey state1 = [] then ss_SessionID state1 else ss_MemoryKey state1);
          state2 = (normalizeState now state1 (im_cfg s)) \<lparr> ss_MemoryKey := key \<rparr>
      in evictIfNeeded ord (s \<lparr> im_states := put key state2 (im_states s) \<rparr>))"

definition ClearSession :: "gostring \<Rightarrow> InMemoryStore \<Rightarrow> InMemoryStore" where
  "ClearSession memoryKey s = s \<lparr> im_states := del (memKey memoryKey) (im_states s) \<rparr>"

definition AppendStep :: "(states \<Rightarrow> states) \<Rightarrow> int \<Rightarrow> gostring \<Rightarrow> StepRecord \<Rightarrow> InMemoryStore \<Rightarrow> InMemoryStore" where
  "AppendStep ord now memoryKey step s =
     (let key = memKey memoryKey;
          state0 = (case map_of (im_states s) key of Some st \<Rightarrow> st | None \<Rightarrow> emptyState);
          state1 = (if ss_SessionID state0 = [] then state0 \<lparr> ss_SessionID := key \<rparr> else state0);
          state2 = state1 \<lparr> ss_MemoryKey := key, ss_UpdatedAt := now,
                            ss_RecentSteps := ss_RecentSteps state1 @ [step] \<rparr>;
          state3 = foldOverflow (im_cfg s) state2
      in evictIfNeeded ord (s \<lparr> im_states := put key state3 (im_states s) \<rparr>))"

definition emptyView :: "gostring \<Rightarrow> View" where
  "emptyView memoryKey = \<lparr>v_SessionID = memoryKey, v_ExecutionID = [], v_Task = [], v_Summary = [], v_RecentSteps = []\<rparr>"

definition stateView :: "SessionState \<Rightarrow> View" where
  "stateView state = \<lparr>v_SessionID = ss_SessionID state, v_ExecutionID = ss_ExecutionID state,
     v_Task = ss_Task state, v_Summary = ss_Summary state, v_RecentSteps = ss_RecentSteps state\<rparr>"

definition Snapshot :: "int \<Rightarrow> gostring \<Rightarrow> InMemoryStore \<Rightarrow> View \<times> InMemoryStore" where
  "Snapshot now memoryKey s =
     (case Load now memoryKey s of
        (None, s') \<Rightarrow> (emptyView memoryKey, s')
      | (Some state, s') \<Rightarrow> (stateView state, s'))"

section \<open>Lemmas on the entries\<close>

lemma keys_put [store_laws]: "set (map fst (put k v m)) = insert k (set (map fst m))"
  by (auto simp: put_def)

lemma keys_del [store_laws]: "set (map fst (del k m)) = set (map fst m) - {k}"
  by (auto simp: del_def)

lemma distinct_put [store_laws]: "distinct (map fst m) \<Longrightarrow> distinct (map fst (put k v m))"
  by (induction m) (auto simp: put_def)

lemma distinct_del [store_laws]: "distinct (map fst m) \<Longrightarrow> distinct (map fst (del k m))"
  by (simp add: del_def distinct_map_filter)

lemma lookup_put [store_laws]: "map_of (put k v m) k' = (if k' = k then Some v else map_of m k')"
  by (induction m) (auto simp: put_def)

lemma lookup_del [store_laws]: "map_of (del k m) k' = (if k' = k then None else map_of m k')"
  by (induction m) (auto simp: del_def)

lemma length_put_le [store_laws]: "length (put k v m) \<le> Suc (length m)"
  by (simp add: put_def)

lemma length_del_le [store_laws]: "length (del k m) \<le> length m"
  by (simp add: del_def)

lemma length_del_in [store_laws]: "k \<in> set (map fst m) \<Longrightarrow> length (del k m) < length m"
  by (auto simp: del_def intro: length_filter_less)

lemma length_put_keys:
  "distinct (map fst m) \<Longrightarrow> length (put k v m) = card (insert k (set (map fst m)))"
  using distinct_card [OF distinct_put [of m k v]] keys_put [of k v m] by simp

section \<open>Bounds of the summary\<close>

lemma memTrimText_runes: "0 < limit \<Longrightarrow> int (length (runes (memTrimText s limit))) \<le> limit"
  by (auto simp: memTrimText_def Let_def runes_take_runes)

lemma memTrimText_Nil [simp]: "memTrimText [] limit = []"
  by (simp add: memTrimText_def)

section \<open>The invariant\<close>

definition stateOk :: "MemConfig \<Rightarrow> gostring \<Rightarrow> SessionState \<Rightarrow> bool" where
  "stateOk cfg k st \<longleftrightarrow> ss_MemoryKey st = k \<and> k \<noteq> [] \<and> ss_SessionID st \<noteq> []
     \<and> int (length (ss_RecentSteps st)) \<le> mc_MaxRecentSteps cfg
     \<and> int (length (runes (ss_Summary st))) \<le> mc_MaxSummaryChars cfg"

definition cfgOk :: "MemConfig \<Rightarrow> bool" where
  "cfgOk cfg \<longleftrightarrow> 0 < mc_MaxSessions cfg \<and> 0 < mc_MaxRecentSteps cfg \<and> 0 < mc_MaxSummaryChars cfg
     \<and> 0 < mc_SessionTTLSeconds cfg"

definition memInv :: "InMemoryStore \<Rightarrow> bool" where
  "memInv s \<longleftrightarrow> cfgOk (im_cfg s) \<and> distinct (map fst (im_states s))
     \<and> int (length (im_states s)) \<le> mc_MaxSessions (im_cfg s)
     \<and> (\<forall>(k, st) \<in> set (im_states s). stateOk (im_cfg s) k st)"

text \<open>\<open>memInv\<close> without the bound on the number of sessions: the store before \<open>evictIfNeeded\<close>.\<close>

definition memInv1 :: "InMemoryStore \<Rightarrow> bool" where
  "memInv1 s \<longleftrightarrow> cfgOk (im_cfg s) \<and> distinct (map fst (im_states s))
     \<and> int (length (im_states s)) \<le> mc_MaxSessions (im_cfg s) + 1
     \<and> (\<forall>(k, st) \<in> set (im_states s). stateOk (im_cfg s) k st)"

lemma foldOverflow_ok:
  "\<lbrakk>cfgOk cfg; ss_MemoryKey st = k; k \<noteq> []; ss_SessionID st \<noteq> [];
    int (length (runes (ss_Summary st))) \<le> mc_MaxSummaryChars cfg\<rbrakk> \<Longrightarrow> stateOk cfg k (foldOverflow cfg st)"
  by (auto simp: foldOverflow_def stateOk_def Let_def cfgOk_def memTrimText_runes)

lemma foldOverflow_fields [simp]:
  "ss_MemoryKey (foldOverflow cfg st) = ss_MemoryKey st"
  "ss_SessionID (foldOverflow cfg st) = ss_SessionID st"
  "ss_ExecutionID (foldOverflow cfg st) = ss_ExecutionID st"
  "ss_Task (foldOverflow cfg st) = ss_Task st"
  "ss_UpdatedAt (foldOverflow cfg st) = ss_UpdatedAt st"
  by (simp_all add: foldOverflow_def Let_def)

lemma foldOverflow_steps:
  "0 < mc_MaxRecentSteps cfg \<Longrightarrow>
     ss_RecentSteps (foldOverflow cfg st) = lastN (nat (mc_MaxRecentSteps cfg)) (ss_RecentSteps st)"
  by (auto simp: foldOverflow_def Let_def lastN_def nat_diff_distrib)

lemma put_inv1:
  "memInv s \<Longrightarrow> stateOk (im_cfg s) k st \<Longrightarrow> memInv1 (s\<lparr>im_states := put k st (im_states s)\<rparr>)"
proof -
  assume a: "memInv s" "stateOk (im_cfg s) k st"
  have "set (put k st (im_states s)) \<subseteq> insert (k, st) (set (im_states s))" by (auto simp: put_def)
  with a length_put_le [of k st "im_states s"] distinct_put [of "im_states s" k st] show ?thesis
    by (fastforce simp: memInv_def memInv1_def)
qed

text \<open>The key \<open>evictIfNeeded\<close> picks is one with the smallest \<open>UpdatedAt\<close>, whatever the iteration order.\<close>

lemma oldestKey_Some:
  "\<exists>t. (oldestKey (Some (bk, bt)) es, t) \<in> insert (bk, bt) ((\<lambda>(k, v). (k, ss_UpdatedAt v)) ` set es)
     \<and> t \<le> bt \<and> (\<forall>(k, v) \<in> set es. t \<le> ss_UpdatedAt v)"
proof (induction es arbitrary: bk bt)
  case Nil
  then show ?case by auto
next
  case (Cons e es)
  obtain k v where e: "e = (k, v)" by (cases e)
  show ?case
  proof (cases "ss_UpdatedAt v < bt")
    case True
    with Cons [of k "ss_UpdatedAt v"] show ?thesis by (auto simp: e)
  next
    case False
    with Cons [of bk bt] show ?thesis by (auto simp: e)
  qed
qed

lemma oldestKey_oldest:
  assumes "es \<noteq> []"
  obtains v where "(oldestKey None es, v) \<in> set es" "\<forall>(k', v') \<in> set es. ss_UpdatedAt v \<le> ss_UpdatedAt v'"
proof -
  from assms obtain k v es' where es: "es = (k, v) # es'" by (metis list.exhaust surj_pair)
  obtain t where
    t: "(oldestKey None es, t) \<in> (\<lambda>(k, v). (k, ss_UpdatedAt v)) ` set es" "\<forall>(k, v) \<in> set es. t \<le> ss_UpdatedAt v"
    using oldestKey_Some [of k "ss_UpdatedAt v" es'] unfolding es by (simp del: oldestKey.simps(2) add: oldestKey.simps(2) [of None]) blast
  from t(1) obtain w where w: "(oldestKey None es, w) \<in> set es" "t = ss_UpdatedAt w" by auto
  show thesis by (rule that [OF w(1)]) (use t(2) w(2) in auto)
qed

text \<open>An iteration order lists the entries of the map, each once.\<close>

definition iterates :: "(states \<Rightarrow> states) \<Rightarrow> bool" where
  "iterates ord \<longleftrightarrow> (\<forall>m. set (ord m) = set m)"

lemma evict_inv:
  assumes "iterates ord" "memInv1 s"
  shows "memInv (evictIfNeeded ord s)"
proof (cases "int (length (im_states s)) \<le> mc_MaxSessions (im_cfg s)")
  case True
  then show ?thesis using assms by (simp add: evictIfNeeded_def memInv1_def memInv_def)
next
  case False
  let ?m = "im_states s"
  have "?m \<noteq> []" using False assms(2) by (auto simp: memInv1_def cfgOk_def)
  then have "ord ?m \<noteq> []" using assms(1) unfolding iterates_def by (metis set_empty)
  then obtain v where "(oldestKey None (ord ?m), v) \<in> set (ord ?m)" by (rule oldestKey_oldest)
  then have "oldestKey None (ord ?m) \<in> set (map fst ?m)"
    using assms(1) by (force simp: iterates_def)
  from length_del_in [OF this] show ?thesis
    using False assms(2) distinct_del [of ?m "oldestKey None (ord ?m)"]
    by (auto simp: evictIfNeeded_def memInv1_def memInv_def) (auto simp: del_def)
qed

lemma evict_noop: "int (length (im_states s)) \<le> mc_MaxSessions (im_cfg s) \<Longrightarrow> evictIfNeeded ord s = s"
  by (simp add: evictIfNeeded_def)

lemma evict_cfg [simp]: "im_cfg (evictIfNeeded ord s) = im_cfg s"
  by (simp add: evictIfNeeded_def)

lemma memKey_nonempty [simp]: "memKey k \<noteq> []"
  by (simp add: memKey_def)

lemma stateOk_lookup: "memInv s \<Longrightarrow> map_of (im_states s) k = Some st \<Longrightarrow> stateOk (im_cfg s) k st"
  by (auto simp: memInv_def dest: map_of_SomeD)

text \<open>The state \<open>AppendStep\<close> stores.\<close>

definition appended :: "int \<Rightarrow> gostring \<Rightarrow> StepRecord \<Rightarrow> InMemoryStore \<Rightarrow> SessionState" where
  "appended now key step s =
     (let state0 = (case map_of (im_states s) key of Some st \<Rightarrow> st | None \<Rightarrow> emptyState);
          state1 = (if ss_SessionID state0 = [] then state0 \<lparr> ss_SessionID := key \<rparr> else state0)
      in foldOverflow (im_cfg s) (state1 \<lparr> ss_MemoryKey := key, ss_UpdatedAt := now,
           ss_RecentSteps := ss_RecentSteps state1 @ [step] \<rparr>))"

lemma AppendStep_eq:
  "AppendStep ord now k step s =
     evictIfNeeded ord (s \<lparr> im_states := put (memKey k) (appended now (memKey k) step s) (im_states s) \<rparr>)"
  by (simp add: AppendStep_def appended_def Let_def)

lemma appended_ok: "memInv s \<Longrightarrow> k \<noteq> [] \<Longrightarrow> stateOk (im_cfg s) k (appended now k step s)"
  unfolding appended_def Let_def
  by (rule foldOverflow_ok) (auto simp: memInv_def stateOk_def emptyState_def cfgOk_def
      split: option.splits dest!: map_of_SomeD)

lemma AppendStep_inv [inv_intros]: "iterates ord \<Longrightarrow> memInv s \<Longrightarrow> memInv (AppendStep ord now k step s)"
  unfolding AppendStep_eq by (intro evict_inv put_inv1 appended_ok) simp_all

lemma normalizeState_ok:
  "\<lbrakk>cfgOk cfg; k \<noteq> []; ss_SessionID st \<noteq> []\<rbrakk> \<Longrightarrow> stateOk cfg k ((normalizeState now st cfg) \<lparr> ss_MemoryKey := k \<rparr>)"
proof -
  assume a: "cfgOk cfg" "k \<noteq> []" "ss_SessionID st \<noteq> []"
  let ?st = "st \<lparr> ss_UpdatedAt := now, ss_Summary := memTrimText (ss_Summary st) (mc_MaxSummaryChars cfg),
     ss_MemoryKey := k \<rparr>"
  have "(normalizeState now st cfg) \<lparr> ss_MemoryKey := k \<rparr> = foldOverflow cfg ?st"
    by (simp add: normalizeState_def foldOverflow_def Let_def)
  moreover have "stateOk cfg k (foldOverflow cfg ?st)"
    by (rule foldOverflow_ok) (use a memTrimText_runes in \<open>auto simp: cfgOk_def\<close>)
  ultimately show ?thesis by simp
qed

lemma Save_inv [inv_intros]: "iterates ord \<Longrightarrow> memInv s \<Longrightarrow> memInv (Save ord now st s)"
  unfolding Save_def Let_def
  by (intro evict_inv put_inv1 normalizeState_ok) (auto simp: memInv_def)

lemma del_inv: "memInv s \<Longrightarrow> memInv (s \<lparr> im_states := del k (im_states s) \<rparr>)"
  using length_del_le [of k "im_states s"] distinct_del [of "im_states s" k]
  by (auto simp: memInv_def) (auto simp: del_def)

lemma ClearSession_inv [inv_intros]: "memInv s \<Longrightarrow> memInv (ClearSession k s)"
  by (simp add: ClearSession_def del_inv)

lemma Load_inv [inv_intros]: "memInv s \<Longrightarrow> memInv (snd (Load now k s))"
  by (auto simp: Load_def Let_def del_inv split: option.splits)

lemma Snapshot_snd: "snd (Snapshot now k s) = snd (Load now k s)"
  by (auto simp: Snapshot_def split: prod.splits option.splits)

lemma memConfigDefaults_ok: "cfgOk (memConfigDefaults cfg)"
  by (simp add: cfgOk_def memConfigDefaults_def)

lemma New_inv [inv_intros]: "memInv (NewInMemoryStore cfg)"
  using memConfigDefaults_ok [of cfg] by (simp add: memInv_def NewInMemoryStore_def cfgOk_def)

section \<open>The in-memory store is a session memory\<close>

definition fitsMem :: "gostring set \<Rightarrow> int set \<Rightarrow> nat \<Rightarrow> InMemoryStore \<Rightarrow> bool" where
  "fitsMem K T cap s \<longleftrightarrow> memInv s \<and> finite K \<and> int (card K) \<le> mc_MaxSessions (im_cfg s) \<and> [] \<notin> K
     \<and> set (map fst (im_states s)) \<subseteq> K \<and> cap = nat (mc_MaxRecentSteps (im_cfg s))
     \<and> (\<forall>t \<in> T. \<forall>t' \<in> T. t' \<le> t + seconds (mc_SessionTTLSeconds (im_cfg s)))
     \<and> (\<forall>(k, st) \<in> set (im_states s). ss_UpdatedAt st \<in> T)"

definition stepsMem :: "int \<Rightarrow> gostring \<Rightarrow> InMemoryStore \<Rightarrow> StepRecord list" where
  "stepsMem now k s = v_RecentSteps (fst (Snapshot now k s))"

lemma stepsMem_eq:
  "k \<noteq> [] \<Longrightarrow> stepsMem now k s = (case map_of (im_states s) k of
     None \<Rightarrow> []
   | Some st \<Rightarrow> if ss_UpdatedAt st + seconds (mc_SessionTTLSeconds (im_cfg s)) < now then [] else ss_RecentSteps st)"
  by (auto simp: stepsMem_def Snapshot_def Load_def Let_def memKey_def emptyView_def stateView_def split: option.splits)

lemma fits_alive:
  "\<lbrakk>fitsMem K T cap s; map_of (im_states s) k = Some st; t \<in> T\<rbrakk> \<Longrightarrow>
     \<not> ss_UpdatedAt st + seconds (mc_SessionTTLSeconds (im_cfg s)) < t"
  by (force simp: fitsMem_def not_less dest!: map_of_SomeD)

lemma stepsMem_fits:
  "\<lbrakk>fitsMem K T cap s; k \<in> K; t \<in> T\<rbrakk> \<Longrightarrow>
     stepsMem t k s = (case map_of (im_states s) k of None \<Rightarrow> [] | Some st \<Rightarrow> ss_RecentSteps st)"
proof -
  assume f: "fitsMem K T cap s" "k \<in> K" "t \<in> T"
  then have "k \<noteq> []" by (auto simp: fitsMem_def)
  then show ?thesis using fits_alive [OF f(1) _ f(3)] by (simp add: stepsMem_eq split: option.splits)
qed

lemma fits_append_eq:
  assumes "fitsMem K T cap s" "k \<in> K"
  shows "AppendStep ord t k x s = s \<lparr> im_states := put k (appended t k x s) (im_states s) \<rparr>"
    and "memInv (s \<lparr> im_states := put k (appended t k x s) (im_states s) \<rparr>)"
proof -
  have k: "memKey k = k" using assms by (auto simp: fitsMem_def memKey_def)
  have "card (insert k (set (map fst (im_states s)))) \<le> card K"
    using assms by (intro card_mono) (auto simp: fitsMem_def)
  moreover have "length (put k (appended t k x s) (im_states s)) = card (insert k (set (map fst (im_states s))))"
    using assms(1) by (intro length_put_keys) (simp add: fitsMem_def memInv_def)
  ultimately have l: "int (length (put k (appended t k x s) (im_states s))) \<le> mc_MaxSessions (im_cfg s)"
    using assms(1) by (simp add: fitsMem_def)
  then show "AppendStep ord t k x s = s \<lparr> im_states := put k (appended t k x s) (im_states s) \<rparr>"
    by (simp add: AppendStep_eq k evict_noop)
  have "memInv1 (s \<lparr> im_states := put k (appended t k x s) (im_states s) \<rparr>)"
    using assms by (intro put_inv1 appended_ok) (auto simp: fitsMem_def)
  with l show "memInv (s \<lparr> im_states := put k (appended t k x s) (im_states s) \<rparr>)"
    by (simp add: memInv_def memInv1_def)
qed

lemma appended_simps:
  "ss_UpdatedAt (appended t k x s) = t"
  "memInv s \<Longrightarrow> ss_RecentSteps (appended t k x s) = lastN (nat (mc_MaxRecentSteps (im_cfg s)))
     ((case map_of (im_states s) k of None \<Rightarrow> [] | Some st \<Rightarrow> ss_RecentSteps st) @ [x])"
  by (auto simp: appended_def Let_def foldOverflow_steps memInv_def cfgOk_def emptyState_def split: option.splits)

lemma stateOk_steps: "stateOk cfg k st \<Longrightarrow> length (ss_RecentSteps st) \<le> nat (mc_MaxRecentSteps cfg)"
  by (simp add: stateOk_def le_nat_iff)

interpretation mem: session_memory fitsMem stepsMem "AppendStep ord"
  for ord
proof unfold_locales
  fix K T cap s k t and x :: StepRecord
  assume f: "fitsMem K T cap s" "k \<in> K" "t \<in> T"
  note eq = fits_append_eq [OF f(1,2)]
  show fits': "fitsMem K T cap (AppendStep ord t k x s)"
    using f eq(2) [of t x] unfolding eq(1) by (auto simp: fitsMem_def put_def appended_simps)
  show "0 < cap \<and> length (stepsMem t k s) \<le> cap"
    using f stateOk_steps [OF stateOk_lookup [of s k]]
    by (auto simp: stepsMem_fits split: option.splits) (auto simp: fitsMem_def memInv_def cfgOk_def)
  fix t' assume t': "t' \<in> T"
  show "stepsMem t' k s = stepsMem t k s" using f t' by (simp add: stepsMem_fits)
  show "stepsMem t' k (AppendStep ord t k x s) = lastN cap (stepsMem t k s @ [x])"
    using f t' fits' by (simp add: stepsMem_fits) (auto simp: eq lookup_put appended_simps fitsMem_def)
  fix k' assume k': "k' \<in> K" "k' \<noteq> k"
  show "stepsMem t' k' (AppendStep ord t k x s) = stepsMem t' k' s"
    using f t' fits' k' by (simp add: stepsMem_fits) (auto simp: eq lookup_put)
qed

section \<open>Reachable stores\<close>

text \<open>One call of a method of the store, at any time and with any iteration order.\<close>

inductive memStep :: "InMemoryStore \<Rightarrow> InMemoryStore \<Rightarrow> bool" where
  step_Load: "memStep s (snd (Load now k s))"
| step_Save: "iterates ord \<Longrightarrow> memStep s (Save ord now st s)"
| step_Clear: "memStep s (ClearSession k s)"
| step_Append: "iterates ord \<Longrightarrow> memStep s (AppendStep ord now k x s)"
| step_Snapshot: "memStep s (snd (Snapshot now k s))"

inductive memReach :: "MemConfig \<Rightarrow> InMemoryStore \<Rightarrow> bool" for cfg where
  reach_New: "memReach cfg (NewInMemoryStore cfg)"
| reach_step: "memReach cfg s \<Longrightarrow> memStep s s' \<Longrightarrow> memReach cfg s'"

lemma ops_cfg [simp]:
  "im_cfg (snd (Load now k s)) = im_cfg s" "im_cfg (Save ord now st s) = im_cfg s"
  "im_cfg (ClearSession k s) = im_cfg s" "im_cfg (AppendStep ord now k x s) = im_cfg s"
  by (simp_all add: Load_def Save_def ClearSession_def AppendStep_def Let_def split: option.splits)

lemma memStep_inv: "memStep s s' \<Longrightarrow> memInv s \<Longrightarrow> memInv s' \<and> im_cfg s' = im_cfg s"
  by (induction rule: memStep.induct) (simp_all add: Snapshot_snd inv_intros)

lemma memReach_inv: "memReach cfg s \<Longrightarrow> memInv s \<and> im_cfg s = memConfigDefaults cfg"
  by (induction rule: memReach.induct)
    (use New_inv memStep_inv in \<open>force simp: NewInMemoryStore_def\<close>)+

lemma evicts:
  assumes ord: "iterates ord" and inv: "memInv s" and full: "int (length (im_states s)) = mc_MaxSessions (im_cfg s)"
    and new: "k \<notin> set (map fst (im_states s))" and old: "\<forall>(k', st') \<in> set (im_states s). ss_UpdatedAt st' < ss_UpdatedAt st"
  obtains k0 st0 where "map_of (im_states s) k0 = Some st0"
    "\<forall>(k', st') \<in> set (im_states s). ss_UpdatedAt st0 \<le> ss_UpdatedAt st'"
    "map_of (im_states (evictIfNeeded ord (s\<lparr>im_states := put k st (im_states s)\<rparr>))) = (map_of (im_states s))(k0 := None, k \<mapsto> st)"
proof -
  let ?m = "put k st (im_states s)"
  have put: "?m = (k, st) # im_states s"
    using new by (auto simp: put_def filter_id_conv)
  have "ord ?m \<noteq> []" using ord put unfolding iterates_def by (metis list.distinct(1) set_empty)
  then obtain v where v: "(oldestKey None (ord ?m), v) \<in> set ?m" "\<forall>(k', v') \<in> set ?m. ss_UpdatedAt v \<le> ss_UpdatedAt v'"
    using ord unfolding iterates_def by (metis oldestKey_oldest)
  define k0 where "k0 = oldestKey None (ord ?m)"
  have "im_states s \<noteq> []" using full inv by (auto simp: memInv_def cfgOk_def)
  then obtain k1 st1 where "(k1, st1) \<in> set (im_states s)" by (metis list.set_intros(1) neq_Nil_conv surj_pair)
  with old v(2) put have "v \<noteq> st" by fastforce
  with v(1) put have in_s: "(k0, v) \<in> set (im_states s)" by (auto simp: k0_def)
  then have ne: "k0 \<noteq> k" using new by force
  show thesis
  proof (rule that)
    show "map_of (im_states s) k0 = Some v" using in_s inv by (simp add: memInv_def)
    show "\<forall>(k', st') \<in> set (im_states s). ss_UpdatedAt v \<le> ss_UpdatedAt st'" using v(2) put by auto
    have "evictIfNeeded ord (s\<lparr>im_states := ?m\<rparr>) = s\<lparr>im_states := del k0 ?m\<rparr>"
      using full by (simp add: evictIfNeeded_def put k0_def)
    then show "map_of (im_states (evictIfNeeded ord (s\<lparr>im_states := ?m\<rparr>))) = (map_of (im_states s))(k0 := None, k \<mapsto> st)"
      using ne by (auto simp: lookup_del lookup_put fun_eq_iff)
  qed
qed

lemma run_fold: "mem.run ord ops s = fold (\<lambda>(t, k, x). AppendStep ord t k x) ops s"
  by (induction ops arbitrary: s) auto

section \<open>Properties\<close>

text \<open>C17: whatever sequence of calls built the store, it never holds more than \<open>MaxSessions\<close> sessions, no
  session more than \<open>MaxRecentSteps\<close> steps or a summary of more than \<open>MaxSummaryChars\<close> runes, every key
  is stored once and under its own name.\<close>

theorem memory_bounds:
  assumes "memReach cfg s"
  shows "distinct (map fst (im_states s)) \<and>
    int (length (im_states s)) \<le> mc_MaxSessions (memConfigDefaults cfg) \<and>
    (\<forall>(k, st) \<in> set (im_states s). ss_MemoryKey st = k \<and> k \<noteq> [] \<and>
       int (length (ss_RecentSteps st)) \<le> mc_MaxRecentSteps (memConfigDefaults cfg) \<and>
       int (length (runes (ss_Summary st))) \<le> mc_MaxSummaryChars (memConfigDefaults cfg))"
  using memReach_inv [OF assms] by (auto simp: memInv_def stateOk_def)

text \<open>C18: an execution reads back its own last steps in order, whatever other executions append to their
  own keys in between (as long as the store has room for the keys and no time-to-live runs out).\<close>

theorem memory_history:
  assumes "fitsMem K T cap s" "\<forall>(t, k', x) \<in> set ops. t \<in> T \<and> k' \<in> K" "k \<in> K" "now \<in> T"
  shows "v_RecentSteps (fst (Snapshot now k (fold (\<lambda>(t, k, x). AppendStep ord t k x) ops s))) =
    lastN cap (v_RecentSteps (fst (Snapshot now k s)) @ map (\<lambda>(t, k', x). x) (filter (\<lambda>(t, k', x). k' = k) ops))"
  using mem.history [OF assms, of ord] by (simp only: run_fold stepsMem_def)

text \<open>a session appended to a full store evicts one least recently updated session, keeps the new one
  and leaves every other session as it was, in whatever order Go iterates over the map.\<close>

theorem memory_evicts_oldest:
  assumes "iterates ord" "memInv s" "int (length (im_states s)) = mc_MaxSessions (im_cfg s)"
    and "k \<noteq> []" "k \<notin> set (map fst (im_states s))" "\<forall>(k', st') \<in> set (im_states s). ss_UpdatedAt st' < now"
  shows "\<exists>k0 st0 new. map_of (im_states s) k0 = Some st0 \<and>
    (\<forall>(k', st') \<in> set (im_states s). ss_UpdatedAt st0 \<le> ss_UpdatedAt st') \<and>
    ss_RecentSteps new = [x] \<and> ss_UpdatedAt new = now \<and>
    map_of (im_states (AppendStep ord now k x s)) = (map_of (im_states s))(k0 := None, k \<mapsto> new)"
proof -
  have k: "memKey k = k" using assms(4) by (simp add: memKey_def)
  have none: "map_of (im_states s) k = None" using assms(5) by (simp add: map_of_eq_None_iff)
  have u: "ss_UpdatedAt (appended now k x s) = now" "ss_RecentSteps (appended now k x s) = [x]"
    using assms(2) none by (auto simp: appended_simps lastN_def memInv_def cfgOk_def)
  have "\<forall>(k', st') \<in> set (im_states s). ss_UpdatedAt st' < ss_UpdatedAt (appended now k x s)"
    using assms(6) u by simp
  from evicts [OF assms(1-3,5) this] show ?thesis
    unfolding AppendStep_eq k using u by metis
qed

text \<open>C19: a state saved under its key is read back normalized (steps and summary cut to their limits) until
  its time-to-live has passed, and is gone after that.\<close>

theorem memory_save_load:
  assumes "memInv s" "ss_MemoryKey st = k" "k \<noteq> []" "ss_SessionID st \<noteq> []"
    and "k \<in> set (map fst (im_states s)) \<or> int (length (im_states s)) < mc_MaxSessions (im_cfg s)"
  shows "fst (Load t' k (Save ord t st s)) =
    (if t' \<le> t + seconds (mc_SessionTTLSeconds (im_cfg s)) then Some (normalizeState t st (im_cfg s)) else None)"
proof -
  let ?st = "normalizeState t st (im_cfg s)"
  have key: "ss_MemoryKey ?st = k" using assms(2) by (simp add: normalizeState_def)
  have up: "ss_UpdatedAt ?st = t" by (simp add: normalizeState_def)
  have "length (put k (?st\<lparr>ss_MemoryKey := k\<rparr>) (im_states s)) = card (insert k (set (map fst (im_states s))))"
    using assms(1) by (intro length_put_keys) (simp add: memInv_def)
  moreover have "card (set (map fst (im_states s))) = length (im_states s)"
    using assms(1) distinct_card [of "map fst (im_states s)"] by (simp add: memInv_def)
  ultimately have "int (length (put k (?st\<lparr>ss_MemoryKey := k\<rparr>) (im_states s))) \<le> mc_MaxSessions (im_cfg s)"
    using assms(1,5) by (cases "k \<in> set (map fst (im_states s))")
      (simp_all add: memInv_def insert_absorb card_insert_if del: set_map)
  then have "Save ord t st s = s\<lparr>im_states := put k (?st\<lparr>ss_MemoryKey := k\<rparr>) (im_states s)\<rparr>"
    using assms(2-4) by (simp add: Save_def Let_def evict_noop)
  then show ?thesis
    using assms(3) key up by (auto simp: Load_def Let_def memKey_def lookup_put)
qed

section \<open>Witnesses\<close>

definition demoCfg :: MemConfig where
  "demoCfg = \<lparr>mc_MaxSessions = 2, mc_MaxRecentSteps = 2, mc_MaxSummaryChars = 40, mc_SessionTTLSeconds = 60\<rparr>"

text \<open>Two sessions, appended to at times 10 and 20.\<close>

definition demoStore :: InMemoryStore where
  "demoStore = AppendStep rev 20 ''b'' (demoStep ''B'') (AppendStep rev 10 ''a'' (demoStep ''A'') (NewInMemoryStore demoCfg))"

lemma rev_iterates: "iterates rev"
  by (simp add: iterates_def)

lemma demoStore_reach: "memReach demoCfg demoStore"
  unfolding demoStore_def
  by (rule reach_step [OF reach_step [OF reach_New step_Append [OF rev_iterates]] step_Append [OF rev_iterates]])

lemmas memory_eval = demoStore_def demoCfg_def AppendStep_def NewInMemoryStore_def memConfigDefaults_def memKey_def
  foldOverflow_def evictIfNeeded_def put_def del_def Let_def emptyState_def seconds_def wrap_int64_def

lemma demoStore_eq: "map fst (im_states demoStore) = [''b'', ''a'']"
  "map (ss_UpdatedAt \<circ> snd) (im_states demoStore) = [20, 10]" "im_cfg demoStore = demoCfg"
  by (simp_all add: memory_eval)

lemma demoStore_inv: "memInv demoStore"
  using memReach_inv [OF demoStore_reach] by simp

lemma demoStore_times: "\<forall>(k, st) \<in> set (im_states demoStore). ss_UpdatedAt st \<in> {20, 10}"
  by (simp add: memory_eval)

lemma demoStore_fits: "fitsMem {''a'', ''b''} {10..30} 2 demoStore"
  unfolding fitsMem_def using demoStore_inv demoStore_eq demoStore_times
  by (auto simp: demoCfg_def seconds_def wrap_int64_def)

lemma memory_bounds_witness:
  "int (length (im_states demoStore)) = 2 \<and> int (length (im_states demoStore)) \<le> mc_MaxSessions (memConfigDefaults demoCfg)"
  using memory_bounds [OF demoStore_reach] by (simp add: memory_eval)

lemma memory_history_witness:
  "v_RecentSteps (fst (Snapshot 30 ''a'' (fold (\<lambda>(t, k, x). AppendStep rev t k x)
     [(25, ''a'', demoStep ''1''), (26, ''b'', demoStep ''2''), (27, ''a'', demoStep ''3'')] demoStore)))
   = [demoStep ''1'', demoStep ''3'']"
proof -
  have s: "v_RecentSteps (fst (Snapshot 30 ''a'' demoStore)) = [demoStep ''A'']"
    by (simp add: Snapshot_def Load_def stateView_def memory_eval)
  show ?thesis
    using memory_history [OF demoStore_fits,
      of "[(25, ''a'', demoStep ''1''), (26, ''b'', demoStep ''2''), (27, ''a'', demoStep ''3'')]" "''a''" 30 rev]
    unfolding s by (simp add: lastN_def)
qed

lemma memory_evicts_oldest_witness:
  "\<exists>new. map_of (im_states (AppendStep rev 30 ''c'' (demoStep ''C'') demoStore)) =
     (map_of (im_states demoStore))(''a'' := None, ''c'' \<mapsto> new)"
proof -
  have old: "\<forall>(k', st') \<in> set (im_states demoStore). ss_UpdatedAt st' < 30"
    using demoStore_times by fastforce
  have full: "int (length (im_states demoStore)) = mc_MaxSessions (im_cfg demoStore)"
    by (simp add: memory_eval)
  have new: "''c'' \<notin> set (map fst (im_states demoStore))"
    unfolding demoStore_eq by simp
  have ne: "(''c'' :: gostring) \<noteq> []" by simp
  from memory_evicts_oldest [OF rev_iterates demoStore_inv full ne new old, of "demoStep ''C''"]
  obtain k0 st0 new where *: "map_of (im_states demoStore) k0 = Some st0"
    "\<forall>(k', st') \<in> set (im_states demoStore). ss_UpdatedAt st0 \<le> ss_UpdatedAt st'"
    "map_of (im_states (AppendStep rev 30 ''c'' (demoStep ''C'') demoStore)) =
       (map_of (im_states demoStore))(k0 := None, ''c'' \<mapsto> new)" by blast
  from *(1,2) have "k0 = ''a''" by (auto simp: memory_eval split: if_splits)
  with *(3) show ?thesis by blast
qed

definition demoState :: SessionState where
  "demoState = emptyState \<lparr> ss_MemoryKey := ''k'', ss_SessionID := ''s'', ss_Summary := ''sum'' \<rparr>"

lemma memory_save_load_witness:
  "fst (Load 60000000005 ''k'' (Save rev 5 demoState (NewInMemoryStore demoCfg))) = Some (normalizeState 5 demoState demoCfg) \<and>
   fst (Load 60000000006 ''k'' (Save rev 5 demoState (NewInMemoryStore demoCfg))) = None"
proof -
  have "im_cfg (NewInMemoryStore demoCfg) = demoCfg" by (simp add: memory_eval)
  moreover have "fst (Load t' ''k'' (Save rev 5 demoState (NewInMemoryStore demoCfg))) =
    (if t' \<le> 5 + seconds (mc_SessionTTLSeconds (im_cfg (NewInMemoryStore demoCfg)))
     then Some (normalizeState 5 demoState (im_cfg (NewInMemoryStore demoCfg))) else None)" for t'
    by (rule memory_save_load [OF New_inv]) (simp_all add: demoState_def memory_eval)
  ultimately show ?thesis by (simp add: memory_eval)
qed

end
