(* ===== verification/Go_Json.thy ===== *)
theory Go_Json
  imports Go_Strings "HOL-Library.List_Lexorder" "HOL-Library.Char_ord"
begin

text \<open>
  The part of \<open>encoding/json\<close> the program relies on when it decodes a tool observation into
  \<open>map[string]any\<close>. A decoded value is a \<open>json\<close>; a number keeps its decimal literal
  \<open>m * 10 ^ e\<close> and is converted to \<open>float64\<close> (round to nearest, ties to even) where the program
  reads it, because every number that passes through \<open>any\<close> is a \<open>float64\<close> in Go. The parser is
  recursive descent with a fuel argument; \<open>pvalue_enough\<close> shows that the fuel of \<open>json_parse\<close> never
  runs out. Not modelled: the nesting limit of 10000.
\<close>

section \<open>Values\<close>

datatype json =
    JNull
  | JBool bool
  | JNum int int
  | JStr gostring
  | JArr "json list"
  | JObj "(gostring \<times> json) list"

type_synonym jobject = "(gostring \<times> json) list"

text \<open>\<open>m[k]\<close> on a \<open>map[string]any\<close>: nil for an absent key; a later duplicate wins.\<close>

definition jget :: "jobject \<Rightarrow> gostring \<Rightarrow> json" where
  "jget kvs k = (case assoc_last kvs k of Some v \<Rightarrow> v | None \<Rightarrow> JNull)"

text \<open>The type assertions \<open>v.(map[string]any)\<close> and \<open>v.([]any)\<close>.\<close>

fun as_obj :: "json \<Rightarrow> jobject option" where
  "as_obj (JObj kvs) = Some kvs"
| "as_obj _ = None"

fun as_arr :: "json \<Rightarrow> json list option" where
  "as_arr (JArr vs) = Some vs"
| "as_arr _ = None"

section \<open>float64\<close>

fun bitlen :: "nat \<Rightarrow> nat" where
  "bitlen n = (if n = 0 then 0 else Suc (bitlen (n div 2)))"

declare bitlen.simps [simp del]

text \<open>\<open>num / den\<close> rounded to an integer, ties to even.\<close>

definition rne :: "nat \<Rightarrow> nat \<Rightarrow> nat" where
  "rne num den = (let q = num div den; r = num mod den in
     if 2 * r < den \<or> (2 * r = den \<and> even q) then q else q + 1)"

text \<open>The magnitude \<open>num / den\<close> as a double: mantissa and binary exponent; \<open>None\<close> when it
  overflows (\<open>strconv.ParseFloat\<close> then reports a range error).\<close>

definition f64_of_frac :: "nat \<Rightarrow> nat \<Rightarrow> (nat \<times> int) option" where
  "f64_of_frac num den =
     (if num = 0 then Some (0, 0) else
      let l0 = int (bitlen num) - int (bitlen den);
          below = (if l0 \<ge> 0 then num < den * 2 ^ nat l0 else num * 2 ^ nat (- l0) < den);
          l = (if below then l0 - 1 else l0);
          k = max (l - 52) (- 1074);
          m = (if k \<ge> 0 then rne num (den * 2 ^ nat k) else rne (num * 2 ^ nat (- k)) den)
      in if int (bitlen m) + k > 1024 then None else Some (m, k))"

definition f64_of_lit :: "int \<Rightarrow> int \<Rightarrow> (nat \<times> int) option" where
  "f64_of_lit m e = (if e \<ge> 0 then f64_of_frac (nat \<bar>m\<bar> * 10 ^ nat e) 1
                     else f64_of_frac (nat \<bar>m\<bar>) (10 ^ nat (- e)))"

text \<open>\<open>int64(f)\<close>: truncation towards zero; a value out of range gives the minimum (amd64).\<close>

definition int64_of_lit :: "int \<Rightarrow> int \<Rightarrow> int" where
  "int64_of_lit m e = (case f64_of_lit m e of None \<Rightarrow> 0 | Some (f, k) \<Rightarrow>
     let t = (if k \<ge> 0 then int f * 2 ^ nat k else int (f div 2 ^ nat (- k)));
         v = (if m < 0 then - t else t)
     in if v > max_int64 \<or> v < min_int64 then min_int64 else v)"

lemma bitlen_bounds: "0 < n \<Longrightarrow> 0 < bitlen n \<and> 2 ^ (bitlen n - 1) \<le> n \<and> n < 2 ^ bitlen n"
proof (induction n rule: bitlen.induct)
  case (1 n)
  show ?case
  proof (cases "n div 2 = 0")
    case True
    then have "n = 1" using 1(2) by linarith
    then show ?thesis by (simp add: bitlen.simps)
  next
    case False
    then have IH: "0 < bitlen (n div 2)" "2 ^ (bitlen (n div 2) - 1) \<le> n div 2" "n div 2 < 2 ^ bitlen (n div 2)"
      using 1 by auto
    have b: "bitlen n = Suc (bitlen (n div 2))" using 1(2) by (subst bitlen.simps) simp
    have "2 ^ bitlen (n div 2) = 2 * (2 :: nat) ^ (bitlen (n div 2) - 1)"
      using IH(1) by (metis Suc_pred' power_Suc)
    then have "2 ^ bitlen (n div 2) \<le> n" "n < 2 * 2 ^ bitlen (n div 2)"
      using IH(2,3) by linarith+
    with IH(1) b show ?thesis by simp
  qed
qed

lemma bitlen_le: "n < 2 ^ k \<Longrightarrow> bitlen n \<le> k"
proof (cases "n = 0")
  case True
  then show ?thesis by (simp add: bitlen.simps)
next
  case False
  assume "n < 2 ^ k"
  with False bitlen_bounds [of n] have "2 ^ (bitlen n - 1) < (2 :: nat) ^ k" "0 < bitlen n"
    by (meson le_less_trans neq0_conv)+
  then have "bitlen n - 1 < k" using power_strict_increasing_iff [of "2 :: nat"] by auto
  then show ?thesis by simp
qed

lemma rne_one: "rne n (Suc 0) = n"
  by (simp add: rne_def)

lemma f64_of_nat: "0 < n \<Longrightarrow> n < 2 ^ 53 \<Longrightarrow>
  f64_of_frac n 1 = Some (n * 2 ^ (53 - bitlen n), int (bitlen n) - 53)"
proof -
  assume n: "0 < n" "n < 2 ^ 53"
  let ?b = "bitlen n"
  have b: "0 < ?b" "2 ^ (?b - 1) \<le> n" using bitlen_bounds [OF n(1)] by auto
  have le: "?b \<le> 53" using bitlen_le [OF n(2)] .
  have one: "bitlen 1 = 1" by (simp add: bitlen.simps)
  have l0: "nat (int ?b - 1) = ?b - 1" using b(1) by simp
  have k: "max (int ?b - 1 - 52) (- 1074) = int ?b - 53" by simp
  have pos: "int ?b - 53 \<ge> 0 \<longleftrightarrow> ?b = 53" using le by auto
  have m: "nat (- (int ?b - 53)) = 53 - ?b" "nat (53 - int ?b) = 53 - ?b" using le by auto
  have up: "bitlen (n * 2 ^ (53 - ?b)) \<le> 53"
  proof (rule bitlen_le)
    have "n * 2 ^ (53 - ?b) < 2 ^ ?b * 2 ^ (53 - ?b)" using bitlen_bounds [OF n(1)] by simp
    also have "\<dots> = (2 :: nat) ^ 53" using le by (simp flip: power_add)
    finally show "n * 2 ^ (53 - ?b) < 2 ^ 53" .
  qed
  have "\<not> int (bitlen (n * 2 ^ (53 - ?b))) + (int ?b - 53) > 1024" using up le by simp
  then show ?thesis
    using n(1) b le l0 one by (auto simp: f64_of_frac_def Let_def rne_one k pos m)
qed

text \<open>An integer below \<open>2 ^ 53\<close> in magnitude survives the conversion through \<open>float64\<close>; above that
  an identifier may change (\<open>int64_of_lit_inexact\<close>).\<close>

text \<open>A literal beyond the range of \<open>float64\<close>.\<close>

definition f64_overflow :: "int \<Rightarrow> int \<Rightarrow> bool" where
  "f64_overflow m e \<longleftrightarrow> f64_of_lit m e = None"

lemma f64_of_lit_int: "\<bar>i\<bar> < 2 ^ 53 \<Longrightarrow> f64_of_lit i 0 \<noteq> None"
proof (cases "i = 0")
  case False
  assume "\<bar>i\<bar> < 2 ^ 53"
  then have "nat \<bar>i\<bar> < 2 ^ 53" by (simp add: nat_less_iff)
  with False show ?thesis using f64_of_nat [of "nat \<bar>i\<bar>"] by (simp add: f64_of_lit_def)
qed (simp add: f64_of_lit_def f64_of_frac_def)

text \<open>Evaluation: an integer below 2 ^ 53 needs no rounding.\<close>

lemma f64_overflow_code [code]:
  "f64_overflow m e = (if e = 0 \<and> \<bar>m\<bar> < 9007199254740992 then False else f64_of_lit m e = None)"
  using f64_of_lit_int [of m] by (simp add: f64_overflow_def)

lemma int64_of_lit_int: "\<bar>i\<bar> < 2 ^ 53 \<Longrightarrow> int64_of_lit i 0 = i"
proof (cases "i = 0")
  case True
  then show ?thesis by (simp add: int64_of_lit_def f64_of_lit_def f64_of_frac_def max_int64_def min_int64_def)
next
  case False
  assume i: "\<bar>i\<bar> < 2 ^ 53"
  let ?n = "nat \<bar>i\<bar>"
  have n: "0 < ?n" "?n < 2 ^ 53" using False i by auto
  have le: "bitlen ?n \<le> 53" using bitlen_le [OF n(2)] .
  have f: "f64_of_lit i 0 = Some (?n * 2 ^ (53 - bitlen ?n), int (bitlen ?n) - 53)"
    using f64_of_nat [OF n] by (simp add: f64_of_lit_def)
  have "(if int (bitlen ?n) - 53 \<ge> 0 then int (?n * 2 ^ (53 - bitlen ?n)) * 2 ^ nat (int (bitlen ?n) - 53)
      else int (?n * 2 ^ (53 - bitlen ?n) div 2 ^ nat (- (int (bitlen ?n) - 53)))) = int ?n"
  proof -
    have "nat (- (int (bitlen ?n) - 53)) = 53 - bitlen ?n" using le by auto
    then show ?thesis using le by auto
  qed
  then show ?thesis
    using i f by (auto simp: int64_of_lit_def Let_def max_int64_def min_int64_def)
qed

lemma int64_of_lit_inexact: "int64_of_lit 9007199254740993 0 = 9007199254740992"
  by (simp add: int64_of_lit_def f64_of_lit_def f64_of_frac_def Let_def bitlen.simps rne_def
      max_int64_def min_int64_def)

text \<open>The shortest decimal digits that read back as the same double: digits and the position of the
  decimal point (the value is \<open>0.d1d2... * 10 ^ dp\<close>), tried with 1 to 17 digits.\<close>

fun dec_point :: "nat \<Rightarrow> nat \<Rightarrow> nat \<Rightarrow> int" where
  "dec_point 0 num den = 0"
| "dec_point (Suc n) num den = (if num \<ge> den then int (length (show_nat (num div den)))
     else if 10 * num \<ge> den then 0 else dec_point n (10 * num) den - 1)"

definition frac_digits :: "nat \<Rightarrow> nat \<Rightarrow> int \<Rightarrow> nat \<Rightarrow> nat" where
  "frac_digits num den p n = (let s = int n - p in
     if s \<ge> 0 then rne (num * 10 ^ nat s) den else rne num (den * 10 ^ nat (- s)))"

fun shortest_from :: "nat \<Rightarrow> nat \<Rightarrow> nat \<Rightarrow> nat \<Rightarrow> int \<Rightarrow> gostring \<times> int" where
  "shortest_from 0 n num den p = (let d = frac_digits num den p 17 in
     (show_nat d, p + int (length (show_nat d)) - 17))"
| "shortest_from (Suc f) n num den p = (let d = frac_digits num den p n; ds = show_nat d; s = int n - p in
     if (if s \<ge> 0 then f64_of_frac d (10 ^ nat s) else f64_of_frac (d * 10 ^ nat (- s)) 1) = f64_of_frac num den
     then (ds, p + int (length ds) - int n) else shortest_from f (n + 1) num den p)"

definition shortest :: "nat \<times> int \<Rightarrow> gostring \<times> int" where
  "shortest mk = (let (m, k) = mk; (num, den) = (if k \<ge> 0 then (m * 2 ^ nat k, 1) else (m, 2 ^ nat (- k))) in
     if m = 0 then (''0'', 1)
     else let (ds, dp) = shortest_from 16 1 num den (dec_point 400 num den)
          in (rev (dropWhile (\<lambda>c. c = CHR ''0'') (rev ds)), dp))"

definition zeros :: "int \<Rightarrow> gostring" where
  "zeros n = replicate (nat n) (CHR ''0'')"

definition fixed_digits :: "gostring \<Rightarrow> int \<Rightarrow> gostring" where
  "fixed_digits ds dp = (if dp \<le> 0 then ''0.'' @ zeros (- dp) @ ds
     else if int (length ds) \<le> dp then ds @ zeros (dp - int (length ds))
     else take (nat dp) ds @ ''.'' @ drop (nat dp) ds)"

definition exp_digits :: "gostring \<Rightarrow> int \<Rightarrow> gostring" where
  "exp_digits ds x = (take 1 ds @ (if length ds \<le> 1 then [] else CHR ''.'' # drop 1 ds)) @ ''e'' @
     (if x < 0 then ''-'' else ''+'') @ (if \<bar>x\<bar> < 10 then ''0'' else []) @ show_int \<bar>x\<bar>"

text \<open>The verb \<open>%v\<close> of a \<open>float64\<close> is \<open>%g\<close> with the shortest digits: the exponent form is used when
  the decimal exponent is below -4 or at least 6.\<close>

definition fmt_float :: "int \<Rightarrow> int \<Rightarrow> gostring" where
  "fmt_float m e = (case f64_of_lit m e of None \<Rightarrow> [] | Some mk \<Rightarrow>
     (let (ds, dp) = shortest mk in
      (if m < 0 then ''-'' else []) @
      (if dp - 1 < -4 \<or> dp - 1 \<ge> 6 then exp_digits ds (dp - 1) else fixed_digits ds dp)))"

section \<open>Reading a decoded value: anyInt64, anyString, anyBool\<close>

text \<open>The dynamic types of a decoded value are float64, string, bool, nil, map and slice; the other
  cases of the source's type switches (\<open>int64\<close>, \<open>int\<close>, \<open>json.Number\<close>, \<open>fmt.Stringer\<close>) do not occur.\<close>

definition int64_of_num :: "int \<Rightarrow> int \<Rightarrow> int" where
  "int64_of_num m e = int64_of_lit m e"

lemma int64_of_num_code [code]:
  "int64_of_num m e = (if e = 0 \<and> \<bar>m\<bar> < 9007199254740992 then m else int64_of_lit m e)"
  using int64_of_lit_int [of m] by (simp add: int64_of_num_def)

definition anyInt64 :: "json \<Rightarrow> int" where
  "anyInt64 v = (case v of JNum m e \<Rightarrow> int64_of_num m e | JStr s \<Rightarrow> fst (ParseInt64 (TrimSpace s)) | _ \<Rightarrow> 0)"

text \<open>The verb \<open>%v\<close> on a decoded value; a map prints its entries sorted by key.\<close>

text \<open>The entries of a decoded map: distinct keys, the last value of each, in key order.\<close>

definition map_entries :: "jobject \<Rightarrow> jobject" where
  "map_entries kvs = map (\<lambda>k. (k, jget kvs k)) (sort (remdups (map fst kvs)))"

definition space_join :: "gostring list \<Rightarrow> gostring" where
  "space_join xs = Join xs '' ''"

fun fmt_v :: "nat \<Rightarrow> json \<Rightarrow> gostring" where
  "fmt_v 0 _ = []"
| "fmt_v (Suc n) v = (case v of
     JNull \<Rightarrow> ''<nil>''
   | JBool b \<Rightarrow> if b then ''true'' else ''false''
   | JNum m e \<Rightarrow> fmt_float m e
   | JStr s \<Rightarrow> s
   | JArr vs \<Rightarrow> ''['' @ space_join (map (fmt_v n) vs) @ '']''
   | JObj kvs \<Rightarrow> ''map['' @ space_join (map (\<lambda>(k, w). k @ '':'' @ fmt_v n w) (map_entries kvs)) @ '']'')"

definition anyString :: "json \<Rightarrow> gostring" where
  "anyString v = (case v of JStr s \<Rightarrow> s | JNull \<Rightarrow> [] | _ \<Rightarrow> fmt_v (size v + 1) v)"

definition anyBool :: "json \<Rightarrow> bool" where
  "anyBool v = (case v of JBool b \<Rightarrow> b | JStr s \<Rightarrow> EqualFold s ''true'' \<or> s = ''1'' | _ \<Rightarrow> False)"

fun firstInt64 :: "int \<Rightarrow> int list \<Rightarrow> int" where
  "firstInt64 current [] = (if current > 0 then current else 0)"
| "firstInt64 current (c # cs) = (if current > 0 then current else if c > 0 then c else firstInt64 current cs)"

lemma anyInt64_int64: "min_int64 \<le> anyInt64 v \<and> anyInt64 v \<le> max_int64"
proof (cases v)
  case (JStr s)
  then show ?thesis
    using ParseInt64_bounds [of "TrimSpace s"] by (simp add: anyInt64_def prod_eq_iff)
qed (auto simp: anyInt64_def int64_of_num_def int64_of_lit_def max_int64_def min_int64_def Let_def split: option.splits prod.splits)

lemma firstInt64_nonneg: "0 \<le> firstInt64 c cs"
  by (induction c cs rule: firstInt64.induct) auto

lemma firstInt64_keep: "0 < c \<Longrightarrow> firstInt64 c cs = c"
  by (cases cs) auto

lemma firstInt64_range: "c \<le> max_int64 \<Longrightarrow> \<forall>x \<in> set cs. x \<le> max_int64 \<Longrightarrow> firstInt64 c cs \<le> max_int64"
  by (induction c cs rule: firstInt64.induct) (auto simp: max_int64_def)

section \<open>The parser\<close>

definition is_ws :: "char \<Rightarrow> bool" where
  "is_ws c \<longleftrightarrow> byte c = 32 \<or> byte c = 9 \<or> byte c = 10 \<or> byte c = 13"

definition skip_ws :: "gostring \<Rightarrow> gostring" where
  "skip_ws s = dropWhile is_ws s"

definition hexval :: "char \<Rightarrow> nat option" where
  "hexval c = (let b = byte c in if in_rng 48 57 b then Some (b - 48) else if in_rng 97 102 b then Some (b - 87)
     else if in_rng 65 70 b then Some (b - 55) else None)"

text \<open>The four hexadecimal digits of \<open>\\uXXXX\<close>.\<close>

fun hex4 :: "gostring \<Rightarrow> (nat \<times> gostring) option" where
  "hex4 (a # b # c # d # cs) = (case (hexval a, hexval b, hexval c, hexval d) of
     (Some w, Some x, Some y, Some z) \<Rightarrow> Some (((w * 16 + x) * 16 + y) * 16 + z, cs) | _ \<Rightarrow> None)"
| "hex4 _ = None"

lemma hex4_length [termination_simp]: "hex4 s = Some (r, t) \<Longrightarrow> length t < length s"
  by (induction s rule: hex4.induct) (auto split: option.splits)

definition simple_escape :: "char \<Rightarrow> nat option" where
  "simple_escape c = (let b = byte c in
     if b = 0x22 \<or> b = 0x5C \<or> b = 0x2F then Some b else if c = CHR ''b'' then Some 8 else if c = CHR ''f'' then Some 12
     else if c = CHR ''n'' then Some 10 else if c = CHR ''r'' then Some 13 else if c = CHR ''t'' then Some 9 else None)"

definition high_surr :: "nat \<Rightarrow> bool" where "high_surr r = in_rng 0xD800 0xDBFF r"

definition low_surr :: "nat \<Rightarrow> bool" where "low_surr r = in_rng 0xDC00 0xDFFF r"

text \<open>\<open>utf16.DecodeRune\<close> of a high surrogate and what follows it: the combined rune if a low
  surrogate escape follows.\<close>

definition low_after :: "gostring \<Rightarrow> (nat \<times> gostring) option" where
  "low_after s = (case s of b # u # cs \<Rightarrow> if byte b = 0x5C \<and> u = CHR ''u'' then
       (case hex4 cs of Some (r, t) \<Rightarrow> if low_surr r then Some (r, t) else None | None \<Rightarrow> None) else None
     | _ \<Rightarrow> None)"

lemma low_after_length [termination_simp]: "low_after s = Some (r, t) \<Longrightarrow> length t < length s"
  by (auto simp: low_after_def split: list.splits option.splits if_splits dest: hex4_length)

text \<open>A string body up to its closing quote: unescaped bytes and the rest.\<close>

function pstr :: "gostring \<Rightarrow> (gostring \<times> gostring) option" where
  "pstr [] = None"
| "pstr (c # cs) =
     (if byte c = 0x22 then Some ([], cs)
      else if byte c < 0x20 then None
      else if byte c = 0x5C then
        (case cs of [] \<Rightarrow> None
         | e # ds \<Rightarrow>
           if e = CHR ''u'' then
             (case hex4 ds of None \<Rightarrow> None
              | Some (r, es) \<Rightarrow>
                (case (if high_surr r then low_after es else None) of
                   Some (lo, fs) \<Rightarrow>
                     map_option (apfst ((@) (encodeRune (0x10000 + (r - 0xD800) * 1024 + (lo - 0xDC00))))) (pstr fs)
                 | None \<Rightarrow> map_option (apfst ((@) (encodeRune r))) (pstr es)))
           else (case simple_escape e of None \<Rightarrow> None
                 | Some b \<Rightarrow> map_option (apfst ((#) (char_of b))) (pstr ds)))
      else map_option (apfst ((#) c)) (pstr cs))"
  by pat_completeness auto
termination
  by (relation "measure length") (auto split: if_splits dest!: hex4_length low_after_length)

text \<open>Malformed UTF-8 in a literal decodes to U+FFFD.\<close>

definition sanitize :: "gostring \<Rightarrow> gostring" where
  "sanitize s = of_runes (runes s)"

definition pstring :: "gostring \<Rightarrow> (gostring \<times> gostring) option" where
  "pstring s = map_option (apfst sanitize) (pstr s)"

definition pfrac :: "gostring \<Rightarrow> (gostring \<times> gostring) option" where
  "pfrac s = (case s of c # cs \<Rightarrow> if c = CHR ''.'' then
       (let ds = takeWhile is_digit cs in if ds = [] then None else Some (ds, dropWhile is_digit cs))
     else Some ([], s) | [] \<Rightarrow> Some ([], []))"

definition pexp :: "gostring \<Rightarrow> (int \<times> gostring) option" where
  "pexp s = (case s of c # cs \<Rightarrow> if c = CHR ''e'' \<or> c = CHR ''E'' then
       (let (neg, ds) = (case cs of d # ds \<Rightarrow> if d = CHR ''-'' then (True, ds) else if d = CHR ''+'' then (False, ds)
                           else (False, cs) | [] \<Rightarrow> (False, []));
            es = takeWhile is_digit ds
        in if es = [] then None
           else Some (if neg then - int (read_nat es) else int (read_nat es), dropWhile is_digit ds))
     else Some (0, s) | [] \<Rightarrow> Some (0, []))"

definition pint :: "gostring \<Rightarrow> (gostring \<times> gostring) option" where
  "pint s = (case s of c # cs \<Rightarrow> if c = CHR ''0'' then Some (''0'', cs)
       else if is_digit c then Some (takeWhile is_digit s, dropWhile is_digit s) else None
     | [] \<Rightarrow> None)"

text \<open>A literal with a fraction or an exponent never gets the exponent 0 of \<open>JNum\<close>: that is kept for the
  plain integer literals, the only ones an integer field accepts.\<close>

definition pnum :: "gostring \<Rightarrow> (json \<times> gostring) option" where
  "pnum s = (let (neg, s1) = (case s of c # cs \<Rightarrow> if c = CHR ''-'' then (True, cs) else (False, s) | [] \<Rightarrow> (False, [])) in
     case pint s1 of None \<Rightarrow> None | Some (ds, s2) \<Rightarrow>
     (case pfrac s2 of None \<Rightarrow> None | Some (fs, s3) \<Rightarrow>
     (case pexp s3 of None \<Rightarrow> None | Some (x, s4) \<Rightarrow>
       let m = int (read_nat (ds @ fs)); m' = (if neg then - m else m); e = x - int (length fs) in
       Some (if e = 0 \<and> (fs \<noteq> [] \<or> s4 \<noteq> s3) then JNum (10 * m') (-1) else JNum m' e, s4))))"

definition pword :: "gostring \<Rightarrow> json \<Rightarrow> gostring \<Rightarrow> (json \<times> gostring) option" where
  "pword w v s = (if prefix w s then Some (v, drop (length w) s) else None)"

text \<open>The text after a separator character, white space skipped before it.\<close>

definition after :: "nat \<Rightarrow> gostring \<Rightarrow> gostring option" where
  "after b s = (case skip_ws s of c # cs \<Rightarrow> if byte c = b then Some cs else None | [] \<Rightarrow> None)"

fun pvalue :: "nat \<Rightarrow> gostring \<Rightarrow> (json \<times> gostring) option"
  and pelems :: "nat \<Rightarrow> gostring \<Rightarrow> (json list \<times> gostring) option"
  and pmembers :: "nat \<Rightarrow> gostring \<Rightarrow> (jobject \<times> gostring) option" where
  "pvalue 0 s = None"
| "pvalue (Suc n) s = (case skip_ws s of [] \<Rightarrow> None
     | c # cs \<Rightarrow>
       if byte c = 0x7B then
         (case after 0x7D cs of Some r \<Rightarrow> Some (JObj [], r) | None \<Rightarrow> map_option (apfst JObj) (pmembers n cs))
       else if byte c = 0x5B then
         (case after 0x5D cs of Some r \<Rightarrow> Some (JArr [], r) | None \<Rightarrow> map_option (apfst JArr) (pelems n cs))
       else if byte c = 0x22 then map_option (apfst JStr) (pstring cs)
       else if c = CHR ''t'' then pword ''true'' (JBool True) (c # cs)
       else if c = CHR ''f'' then pword ''false'' (JBool False) (c # cs)
       else if c = CHR ''n'' then pword ''null'' JNull (c # cs)
       else pnum (c # cs))"
| "pelems 0 s = None"
| "pelems (Suc n) s = (case pvalue n s of None \<Rightarrow> None
     | Some (v, r) \<Rightarrow>
       (case after 0x2C r of Some t \<Rightarrow> map_option (apfst ((#) v)) (pelems n t)
        | None \<Rightarrow> map_option (Pair [v]) (after 0x5D r)))"
| "pmembers 0 s = None"
| "pmembers (Suc n) s = (case after 0x22 s of None \<Rightarrow> None
     | Some q \<Rightarrow>
       (case pstring q of None \<Rightarrow> None
        | Some (k, t) \<Rightarrow>
          (case after 0x3A t of None \<Rightarrow> None
           | Some u \<Rightarrow>
             (case pvalue n u of None \<Rightarrow> None
              | Some (v, r) \<Rightarrow>
                (case after 0x2C r of Some w \<Rightarrow> map_option (apfst ((#) (k, v))) (pmembers n w)
                 | None \<Rightarrow> map_option (Pair [(k, v)]) (after 0x7D r))))))"

subsection \<open>Every parser consumes input\<close>

lemma skip_ws_length: "length (skip_ws s) \<le> length s"
  by (simp add: skip_ws_def length_dropWhile_le)

lemma skip_ws_Cons_length: "skip_ws s = c # cs \<Longrightarrow> length cs < length s"
  using skip_ws_length [of s] by simp

lemma after_length: "after b s = Some t \<Longrightarrow> length t < length s"
  by (auto simp: after_def split: list.splits if_splits dest: skip_ws_Cons_length)

lemma pstr_length: "pstr s = Some (x, r) \<Longrightarrow> length r < length s"
proof (induction "length s" arbitrary: s x r rule: less_induct)
  case less
  have IH: "length r < length t" if "length t < length s" "pstr t = Some (y, r)" for t y
    using less.hyps that by blast
  show ?case
  proof (cases s)
    case Nil
    with less.prems show ?thesis by simp
  next
    case (Cons c cs)
    show ?thesis
      using less.prems IH unfolding Cons
      by (auto split: if_splits list.splits option.splits dest!: hex4_length low_after_length)
        (meson less_Suc_eq less_trans less_SucI)+
  qed
qed

lemma pstring_length: "pstring s = Some (x, r) \<Longrightarrow> length r < length s"
  by (auto simp: pstring_def dest: pstr_length)

lemma dropWhile_lt: "length (dropWhile P cs) < Suc (length cs)"
  by (simp add: length_dropWhile_le less_Suc_eq_le)

lemma pfrac_length: "pfrac s = Some (x, r) \<Longrightarrow> length r \<le> length s"
  using dropWhile_lt [THEN less_imp_le] by (auto simp: pfrac_def Let_def split: list.splits if_splits)

lemma pint_length: "pint s = Some (x, r) \<Longrightarrow> length r < length s"
  using dropWhile_lt by (auto simp: pint_def split: list.splits if_splits)

lemma pexp_length: "pexp s = Some (x, r) \<Longrightarrow> length r \<le> length s"
proof -
  have "length (dropWhile is_digit ds) \<le> Suc (length ds)" "length (dropWhile is_digit ds) \<le> Suc (Suc (length ds))" for ds
    using dropWhile_lt [of is_digit ds] by linarith+
  then show "pexp s = Some (x, r) \<Longrightarrow> length r \<le> length s"
    by (auto simp: pexp_def Let_def split: list.splits if_splits)
qed

lemma pnum_length: "pnum s = Some (x, r) \<Longrightarrow> length r < length s"
  by (fastforce simp: pnum_def Let_def split: list.splits if_splits option.splits prod.splits
      dest: pint_length pfrac_length pexp_length)

lemma pword_length: "w \<noteq> [] \<Longrightarrow> pword w v s = Some (x, r) \<Longrightarrow> length r < length s"
  by (auto simp: pword_def prefix_def split: if_splits)

lemma parser_length:
  "pvalue n s = Some (v, r) \<Longrightarrow> length r < length s"
  "pelems n s = Some (vs, r) \<Longrightarrow> length r < length s"
  "pmembers n s = Some (kvs, r) \<Longrightarrow> length r < length s"
proof (induction n s and n s and n s arbitrary: v r and vs r and kvs r rule: pvalue_pelems_pmembers.induct)
  case (2 n s)
  then show ?case
    by (fastforce split: list.splits if_splits option.splits
        dest: skip_ws_Cons_length after_length pstring_length pnum_length pword_length [rotated])
next
  case (4 n s)
  then show ?case
    by (fastforce split: option.splits prod.splits dest: after_length)
next
  case (6 n s)
  then show ?case
    by (fastforce split: option.splits prod.splits dest: after_length pstring_length)
qed simp_all

definition json_fuel :: "gostring \<Rightarrow> nat" where
  "json_fuel s = 2 * length s + 2"

definition json_parse :: "gostring \<Rightarrow> json option" where
  "json_parse s = (case pvalue (json_fuel s) s of Some (v, r) \<Rightarrow> if skip_ws r = [] then Some v else None | None \<Rightarrow> None)"

subsection \<open>The fuel of the parser is enough\<close>

lemma parser_mono_step:
  "(pvalue n s = Some v \<longrightarrow> pvalue (Suc n) s = Some v) \<and>
   (pelems n s = Some vs \<longrightarrow> pelems (Suc n) s = Some vs) \<and>
   (pmembers n s = Some kvs \<longrightarrow> pmembers (Suc n) s = Some kvs)"
proof (induction n arbitrary: s v vs kvs)
  case 0
  then show ?case by simp
next
  case (Suc n)
  have v: "pvalue n t = Some w \<Longrightarrow> pvalue (Suc n) t = Some w" for t w using Suc.IH by blast
  have e: "pelems n t = Some w \<Longrightarrow> pelems (Suc n) t = Some w" for t w using Suc.IH by blast
  have m: "pmembers n t = Some w \<Longrightarrow> pmembers (Suc n) t = Some w" for t w using Suc.IH by blast
  have "pvalue (Suc n) s = Some v \<Longrightarrow> pvalue (Suc (Suc n)) s = Some v"
    by (subst pvalue.simps, subst (asm) pvalue.simps)
      (auto split: list.splits if_splits option.splits simp del: pvalue.simps pelems.simps pmembers.simps dest: e m)
  moreover have "pelems (Suc n) s = Some vs \<Longrightarrow> pelems (Suc (Suc n)) s = Some vs"
    by (subst pelems.simps, subst (asm) pelems.simps, cases "pvalue n s")
      (auto split: option.splits prod.splits simp del: pvalue.simps pelems.simps pmembers.simps simp: v dest: e)
  moreover have "pmembers (Suc n) s = Some kvs \<Longrightarrow> pmembers (Suc (Suc n)) s = Some kvs"
    by (subst pmembers.simps, subst (asm) pmembers.simps)
      (fastforce split: option.splits prod.splits simp del: pvalue.simps pelems.simps pmembers.simps simp: v dest: m)
  ultimately show ?case by blast
qed

lemma pvalue_mono: "n \<le> m \<Longrightarrow> pvalue n s = Some v \<Longrightarrow> pvalue m s = Some v"
  by (induction m rule: dec_induct) (use parser_mono_step in blast)+

lemma parser_stable:
  "(2 * length s + 1 \<le> n \<longrightarrow> pvalue (Suc n) s = pvalue n s) \<and>
   (2 * length s + 2 \<le> n \<longrightarrow> pelems (Suc n) s = pelems n s) \<and>
   (2 * length s + 2 \<le> n \<longrightarrow> pmembers (Suc n) s = pmembers n s)"
proof (induction n arbitrary: s)
  case 0
  then show ?case by simp
next
  case (Suc n)
  have v: "pvalue (Suc n) t = pvalue n t" if "2 * length t + 1 \<le> n" for t using Suc.IH that by blast
  have e: "pelems (Suc n) t = pelems n t" if "2 * length t + 2 \<le> n" for t using Suc.IH that by blast
  have m: "pmembers (Suc n) t = pmembers n t" if "2 * length t + 2 \<le> n" for t using Suc.IH that by blast
  have "pvalue (Suc (Suc n)) s = pvalue (Suc n) s" if h: "2 * length s + 1 \<le> Suc n"
  proof -
    have "2 * length cs + 2 \<le> n" if "skip_ws s = c # cs" for c cs
      using skip_ws_Cons_length [OF that] h by linarith
    with e m show ?thesis
      by (subst (1 2) pvalue.simps)
        (auto split: list.splits option.splits simp del: pvalue.simps pelems.simps pmembers.simps)
  qed
  moreover have "pelems (Suc (Suc n)) s = pelems (Suc n) s" if h: "2 * length s + 2 \<le> Suc n"
  proof -
    have "pvalue (Suc n) s = pvalue n s" using v h by simp
    moreover have "pelems (Suc n) t = pelems n t"
      if "pvalue n s = Some (w, r)" "after 0x2C r = Some t" for w r t
      using parser_length(1) [OF that(1)] after_length [OF that(2)] h by (intro e) linarith
    ultimately show ?thesis
      by (subst (1 2) pelems.simps)
        (auto split: option.splits prod.splits simp del: pvalue.simps pelems.simps pmembers.simps)
  qed
  moreover have "pmembers (Suc (Suc n)) s = pmembers (Suc n) s" if h: "2 * length s + 2 \<le> Suc n"
  proof -
    have a: "2 * length u + 1 \<le> n"
      if "after 0x22 s = Some q" "pstring q = Some (k, t)" "after 0x3A t = Some u" for q k t u
      using after_length [OF that(1)] pstring_length [OF that(2)] after_length [OF that(3)] h by linarith
    have b: "pmembers (Suc n) w = pmembers n w"
      if "after 0x22 s = Some q" "pstring q = Some (k, t)" "after 0x3A t = Some u"
        "pvalue n u = Some (x, r)" "after 0x2C r = Some w" for q k t u x r w
      using a [OF that(1-3)] parser_length(1) [OF that(4)] after_length [OF that(5)] by (intro m) linarith
    show ?thesis
      by (subst (1 2) pmembers.simps)
        (auto split: option.splits prod.splits simp del: pvalue.simps pelems.simps pmembers.simps
          simp: v [OF a] b)
  qed
  ultimately show ?case by blast
qed

lemma pvalue_enough: "2 * length s + 1 \<le> n \<Longrightarrow> pvalue n s = pvalue (json_fuel s) s"
proof -
  have st: "pvalue m s = pvalue (2 * length s + 1) s" if "2 * length s + 1 \<le> m" for m
    using that
  proof (induction m rule: dec_induct)
    case base
    show ?case by (rule refl)
  next
    case (step k)
    have "pvalue (Suc k) s = pvalue k s" using parser_stable step.hyps(1) by blast
    also have "\<dots> = pvalue (2 * length s + 1) s" by (rule step.IH)
    finally show ?case .
  qed
  assume "2 * length s + 1 \<le> n"
  from st [OF this] st [of "json_fuel s"] show ?thesis by (simp add: json_fuel_def del: pvalue.simps)
qed

lemma pvalue_any_fuel: "pvalue n s = Some v \<Longrightarrow> pvalue (json_fuel s) s = Some v"
  by (metis pvalue_enough pvalue_mono max.cobounded1 max.cobounded2)

text \<open>A number beyond float64 is stored as nil and makes \<open>json.Unmarshal\<close> report an error.\<close>

fun conv_any :: "json \<Rightarrow> json \<times> bool" where
  "conv_any (JNum m e) = (if f64_overflow m e then (JNull, False) else (JNum m e, True))"
| "conv_any (JArr vs) = (let ws = map conv_any vs in (JArr (map fst ws), list_all snd ws))"
| "conv_any (JObj kvs) = (let ws = map (\<lambda>kv. (fst kv, conv_any (snd kv))) kvs in
     (JObj (map (\<lambda>kw. (fst kw, fst (snd kw))) ws), list_all (\<lambda>kw. snd (snd kw)) ws))"
| "conv_any v = (v, True)"

text \<open>\<open>json.Unmarshal(data, &payload)\<close> into a nil \<open>map[string]any\<close>: the payload afterwards and whether
  no error is reported.\<close>

definition unmarshal_map :: "gostring \<Rightarrow> jobject \<times> bool" where
  "unmarshal_map s = (case json_parse s of None \<Rightarrow> ([], False)
     | Some v \<Rightarrow> (case conv_any v of (JObj kvs, ok) \<Rightarrow> (kvs, ok) | (JNull, ok) \<Rightarrow> ([], ok \<and> v = JNull) | _ \<Rightarrow> ([], False)))"

end
