(* ===== verification/Go_Json_Struct.thy ===== *)
theory Go_Json_Struct
  imports Go_Json
begin

text \<open>
  \<open>json.Unmarshal\<close> into a struct. A struct is described by its fields: the JSON name and what a value
  of that name does to the struct. A syntax error leaves the struct as it was; a value of the wrong type
  is skipped, the other members are still stored and the error is reported at the end (\<open>ok\<close> is False).
  A member is matched to a field by name without regard to case, an unknown member is ignored, a null
  leaves a field of a basic type as it was. (A slice field given twice in one object starts afresh; Go
  may keep stale parts of the elements of the first one.)
\<close>

type_synonym 'a fdec = "json \<Rightarrow> 'a \<Rightarrow> 'a \<times> bool"
type_synonym 'a fields = "(gostring \<times> 'a fdec) list"

definition decode_member :: "'a fields \<Rightarrow> gostring \<Rightarrow> json \<Rightarrow> 'a \<times> bool \<Rightarrow> 'a \<times> bool" where
  "decode_member fs k v st = (case find (\<lambda>f. EqualFold k (fst f)) fs of
     None \<Rightarrow> st
   | Some f \<Rightarrow> (let (a, ok) = snd f v (fst st) in (a, snd st \<and> ok)))"

definition decode_obj :: "'a fields \<Rightarrow> 'a fdec" where
  "decode_obj fs v a = (case v of
     JObj kvs \<Rightarrow> foldl (\<lambda>st (k, w). decode_member fs k w st) (a, True) kvs
   | JNull \<Rightarrow> (a, True)
   | _ \<Rightarrow> (a, False))"

definition unmarshal :: "'a fields \<Rightarrow> gostring \<Rightarrow> 'a \<Rightarrow> 'a \<times> bool" where
  "unmarshal fs s a = (case json_parse s of None \<Rightarrow> (a, False) | Some v \<Rightarrow> decode_obj fs v a)"

section \<open>Fields by type\<close>

definition str_f :: "((gostring \<Rightarrow> gostring) \<Rightarrow> 'a \<Rightarrow> 'a) \<Rightarrow> 'a fdec" where
  "str_f upd v a = (case v of JStr s \<Rightarrow> (upd (\<lambda>_. s) a, True) | JNull \<Rightarrow> (a, True) | _ \<Rightarrow> (a, False))"

definition bool_f :: "((bool \<Rightarrow> bool) \<Rightarrow> 'a \<Rightarrow> 'a) \<Rightarrow> 'a fdec" where
  "bool_f upd v a = (case v of JBool b \<Rightarrow> (upd (\<lambda>_. b) a, True) | JNull \<Rightarrow> (a, True) | _ \<Rightarrow> (a, False))"

text \<open>An integer field takes a plain integer literal in the range of its type.\<close>

definition int_f :: "int \<Rightarrow> int \<Rightarrow> ((int \<Rightarrow> int) \<Rightarrow> 'a \<Rightarrow> 'a) \<Rightarrow> 'a fdec" where
  "int_f lo hi upd v a = (case v of
     JNum m e \<Rightarrow> if e = 0 \<and> lo \<le> m \<and> m \<le> hi then (upd (\<lambda>_. m) a, True) else (a, False)
   | JNull \<Rightarrow> (a, True)
   | _ \<Rightarrow> (a, False))"

abbreviation int64_f :: "((int \<Rightarrow> int) \<Rightarrow> 'a \<Rightarrow> 'a) \<Rightarrow> 'a fdec" where
  "int64_f \<equiv> int_f min_int64 max_int64"

abbreviation int32_f :: "((int \<Rightarrow> int) \<Rightarrow> 'a \<Rightarrow> 'a) \<Rightarrow> 'a fdec" where
  "int32_f \<equiv> int_f (- (2 ^ 31)) (2 ^ 31 - 1)"

text \<open>A float64 is kept as the decimal literal \<open>m * 10 ^ e\<close> it was read from.\<close>

type_synonym decimal = "int \<times> int"

definition float_f :: "((decimal \<Rightarrow> decimal) \<Rightarrow> 'a \<Rightarrow> 'a) \<Rightarrow> 'a fdec" where
  "float_f upd v a = (case v of
     JNum m e \<Rightarrow> if f64_overflow m e then (a, False) else (upd (\<lambda>_. (m, e)) a, True)
   | JNull \<Rightarrow> (a, True)
   | _ \<Rightarrow> (a, False))"

text \<open>A slice: every element is decoded into a zero value.\<close>

definition list_f :: "'b fdec \<Rightarrow> 'b \<Rightarrow> (('b list \<Rightarrow> 'b list) \<Rightarrow> 'a \<Rightarrow> 'a) \<Rightarrow> 'a fdec" where
  "list_f dec zero upd v a = (case v of
     JArr vs \<Rightarrow> (let ws = map (\<lambda>w. dec w zero) vs in (upd (\<lambda>_. map fst ws) a, list_all snd ws))
   | JNull \<Rightarrow> (upd (\<lambda>_. []) a, True)
   | _ \<Rightarrow> (a, False))"

abbreviation strs_f :: "((gostring list \<Rightarrow> gostring list) \<Rightarrow> 'a \<Rightarrow> 'a) \<Rightarrow> 'a fdec" where
  "strs_f \<equiv> list_f (str_f id) []"

abbreviation ints_f :: "((int list \<Rightarrow> int list) \<Rightarrow> 'a \<Rightarrow> 'a) \<Rightarrow> 'a fdec" where
  "ints_f \<equiv> list_f (int64_f id) 0"

text \<open>A pointer to a bool: null makes it nil.\<close>

definition opt_bool_f :: "((bool option \<Rightarrow> bool option) \<Rightarrow> 'a \<Rightarrow> 'a) \<Rightarrow> 'a fdec" where
  "opt_bool_f upd v a = (case v of
     JBool b \<Rightarrow> (upd (\<lambda>_. Some b) a, True) | JNull \<Rightarrow> (upd (\<lambda>_. None) a, True) | _ \<Rightarrow> (a, False))"

text \<open>A nested struct.\<close>

definition struct_f :: "'b fields \<Rightarrow> ('a \<Rightarrow> 'b) \<Rightarrow> (('b \<Rightarrow> 'b) \<Rightarrow> 'a \<Rightarrow> 'a) \<Rightarrow> 'a fdec" where
  "struct_f fs get upd v a = (let (b, ok) = decode_obj fs v (get a) in (upd (\<lambda>_. b) a, ok))"

text \<open>A \<open>map[string]any\<close>.\<close>

definition map_f :: "((jobject option \<Rightarrow> jobject option) \<Rightarrow> 'a \<Rightarrow> 'a) \<Rightarrow> 'a fdec" where
  "map_f upd v a = (case v of
     JObj _ \<Rightarrow> (case conv_any v of (JObj kvs, ok) \<Rightarrow> (upd (\<lambda>_. Some kvs) a, ok) | _ \<Rightarrow> (a, False))
   | JNull \<Rightarrow> (upd (\<lambda>_. None) a, True)
   | _ \<Rightarrow> (a, False))"

section \<open>Raw members\<close>

text \<open>A \<open>json.RawMessage\<close> field keeps the source text of its value: the parser of the members of the
  top-level object, with the text of every value.\<close>

fun raw_members :: "nat \<Rightarrow> gostring \<Rightarrow> (gostring \<times> gostring) list" where
  "raw_members 0 s = []"
| "raw_members (Suc n) s = (case after 0x22 s of None \<Rightarrow> []
     | Some q \<Rightarrow>
       (case pstring q of None \<Rightarrow> []
        | Some (k, t) \<Rightarrow>
          (case after 0x3A t of None \<Rightarrow> []
           | Some u0 \<Rightarrow>
             (let u = skip_ws u0 in
              case pvalue (json_fuel u) u of None \<Rightarrow> []
              | Some (v, r) \<Rightarrow> (k, take (length u - length r) u) #
                  (case after 0x2C r of Some w \<Rightarrow> raw_members n w | None \<Rightarrow> [])))))"

text \<open>The text of the last member of the top-level object with (a case variant of) the given name.\<close>

definition raw_member :: "gostring \<Rightarrow> gostring \<Rightarrow> gostring option" where
  "raw_member name s = (case after 0x7B s of None \<Rightarrow> None
     | Some cs \<Rightarrow> map_option snd (find (\<lambda>kv. EqualFold (fst kv) name) (rev (raw_members (length cs) cs))))"

section \<open>Lemmas\<close>

lemma decode_member_known:
  "find (\<lambda>f. EqualFold k (fst f)) fs = Some (n, d) \<Longrightarrow>
     decode_member fs k v (a, ok) = (fst (d v a), ok \<and> snd (d v a))"
  by (simp add: decode_member_def Let_def split: prod.splits)

lemma unmarshal_syntax: "json_parse s = None \<Longrightarrow> unmarshal fs s a = (a, False)"
  by (simp add: unmarshal_def)

lemma int_f_range: "int_f lo hi upd v a = (b, True) \<Longrightarrow> b = a \<or> (\<exists>m. b = upd (\<lambda>_. m) a \<and> lo \<le> m \<and> m \<le> hi)"
  by (auto simp: int_f_def split: json.splits if_splits)

end
