(* ===== verification/Coupon_Policy.thy ===== *)
theory Coupon_Policy
  imports Go_Json_Struct Memory_Store
begin

text \<open>
  \<open>internal/agent/coupon_policy.go\<close>: the coupon policy, its provider with hot reload, the scene lookup and
  the suggestion text. The policy file is a parameter: \<open>Disk\<close> is what \<open>os.Stat\<close> (the modification time) and
  \<open>os.ReadFile\<close> return for a path at the moment of a call. An operation of the provider takes the clock
  reading \<open>now\<close> (nanoseconds) and the disk it meets and returns the provider afterwards; one reading
  serves the checks of one call. Non-ASCII literals are written as their UTF-8 bytes.
\<close>

section \<open>Data\<close>

record CouponConditions =
  co_Score :: "int list"
  co_ServiceScore :: "int list"
  co_ExpressScore :: "int list"
  co_HasMedia :: "bool option"
  co_IsFirstReview :: "bool option"
  co_Keywords :: "gostring list"

record CouponDecision =
  cd_Action :: gostring
  cd_RiskLevel :: gostring
  cd_ConfidenceMin :: decimal

record CouponTemplate =
  ct_Type :: gostring
  ct_Rule :: gostring
  ct_AmountCent :: int
  ct_ThresholdCent :: int
  ct_Discount :: decimal
  ct_ValidDays :: int

record CouponScenePolicy =
  sp_Name :: gostring
  sp_SeckillScene :: gostring
  sp_Description :: gostring
  sp_Priority :: int
  sp_Conditions :: CouponConditions
  sp_Decision :: CouponDecision
  sp_CouponTemplates :: "CouponTemplate list"

record CouponPolicy =
  cp_Version :: gostring
  cp_Scenes :: "CouponScenePolicy list"

record CouponPolicyProvider =
  pv_path :: gostring
  pv_hotReload :: bool
  pv_reloadEvery :: int
  pv_lastLoad :: int
  pv_lastMod :: int
  pv_policy :: CouponPolicy

record Disk =
  dk_Stat :: "gostring \<Rightarrow> int result"
  dk_ReadFile :: "gostring \<Rightarrow> gostring result"

definition zeroConditions :: CouponConditions where
  "zeroConditions = \<lparr>co_Score = [], co_ServiceScore = [], co_ExpressScore = [], co_HasMedia = None,
     co_IsFirstReview = None, co_Keywords = []\<rparr>"

definition zeroTemplate :: CouponTemplate where
  "zeroTemplate = \<lparr>ct_Type = [], ct_Rule = [], ct_AmountCent = 0, ct_ThresholdCent = 0, ct_Discount = (0, 0), ct_ValidDays = 0\<rparr>"

definition zeroScene :: CouponScenePolicy where
  "zeroScene = \<lparr>sp_Name = [], sp_SeckillScene = [], sp_Description = [], sp_Priority = 0, sp_Conditions = zeroConditions,
     sp_Decision = \<lparr>cd_Action = [], cd_RiskLevel = [], cd_ConfidenceMin = (0, 0)\<rparr>, sp_CouponTemplates = []\<rparr>"

definition zeroPolicy :: CouponPolicy where
  "zeroPolicy = \<lparr>cp_Version = [], cp_Scenes = []\<rparr>"

section \<open>Decoding the policy file\<close>

definition conditionsFields :: "CouponConditions fields" where
  "conditionsFields = [(''score'', ints_f co_Score_update), (''service_score'', ints_f co_ServiceScore_update),
     (''express_score'', ints_f co_ExpressScore_update), (''has_media'', opt_bool_f co_HasMedia_update),
     (''is_first_review'', opt_bool_f co_IsFirstReview_update), (''keywords'', strs_f co_Keywords_update)]"

definition decisionPolicyFields :: "CouponDecision fields" where
  "decisionPolicyFields = [(''action'', str_f cd_Action_update), (''risk_level'', str_f cd_RiskLevel_update),
     (''confidence_min'', float_f cd_ConfidenceMin_update)]"

definition templateFields :: "CouponTemplate fields" where
  "templateFields = [(''type'', str_f ct_Type_update), (''rule'', str_f ct_Rule_update),
     (''amount_cent'', int64_f ct_AmountCent_update), (''threshold_cent'', int64_f ct_ThresholdCent_update),
     (''discount'', float_f ct_Discount_update), (''valid_days'', int64_f ct_ValidDays_update)]"

definition sceneFields :: "CouponScenePolicy fields" where
  "sceneFields = [(''name'', str_f sp_Name_update), (''seckill_scene'', str_f sp_SeckillScene_update),
     (''description'', str_f sp_Description_update), (''priority'', int64_f sp_Priority_update),
     (''conditions'', struct_f conditionsFields sp_Conditions sp_Conditions_update),
     (''decision'', struct_f decisionPolicyFields sp_Decision sp_Decision_update),
     (''coupon_templates'', list_f (decode_obj templateFields) zeroTemplate sp_CouponTemplates_update)]"

definition policyFields :: "CouponPolicy fields" where
  "policyFields = [(''version'', str_f cp_Version_update),
     (''scenes'', list_f (decode_obj sceneFields) zeroScene cp_Scenes_update)]"

section \<open>The default policy\<close>

definition scenePolicy :: "gostring \<Rightarrow> gostring \<Rightarrow> CouponTemplate \<Rightarrow> CouponScenePolicy" where
  "scenePolicy name seckill template =
     zeroScene \<lparr> sp_Name := name, sp_SeckillScene := seckill, sp_CouponTemplates := [template] \<rparr>"

definition cashTemplate :: "gostring \<Rightarrow> gostring \<Rightarrow> int \<Rightarrow> int \<Rightarrow> int \<Rightarrow> CouponTemplate" where
  "cashTemplate ty rule amount threshold days = zeroTemplate \<lparr> ct_Type := ty, ct_Rule := rule,
     ct_AmountCent := amount, ct_ThresholdCent := threshold, ct_ValidDays := days \<rparr>"

definition discountTemplate :: "gostring \<Rightarrow> gostring \<Rightarrow> decimal \<Rightarrow> int \<Rightarrow> CouponTemplate" where
  "discountTemplate ty rule discount days = zeroTemplate \<lparr> ct_Type := ty, ct_Rule := rule,
     ct_Discount := discount, ct_ValidDays := days \<rparr>"

definition defaultCouponPolicy :: CouponPolicy where
  "defaultCouponPolicy = \<lparr> cp_Version = ''fallback-v1'', cp_Scenes = [
     scenePolicy ''FIRST_REVIEW'' ''FIRST_REVIEW''
       (cashTemplate (bytes [0xE9, 0xA6, 0x96, 0xE8, 0xAF, 0x84, 0xE5, 0xA5, 0x96, 0xE5, 0x8A, 0xB1, 0xE5, 0x88, 0xB8]) (bytes [0x36, 0xE5, 0x85, 0x83, 0xE9, 0xA6, 0x96, 0xE8, 0xAF, 0x84, 0xE6, 0x96, 0xB0, 0xE4, 0xBA, 
     0xBA, 0xE5, 0x88, 0xB8]) 600 0 7),
     scenePolicy ''GOOD_REVIEW_REWARD'' ''GOOD_REVIEW''
       (cashTemplate (bytes [0xE5, 0xA5, 0xBD, 0xE8, 0xAF, 0x84, 0xE8, 0xBF, 0x94, 0xE5, 0x88, 0xB8]) (bytes [0xE6, 0xBB, 0xA1, 0x32, 0x30, 0x30, 0x30, 0xE5, 0x87, 0x8F, 0x33, 0x30, 0x30]) 30000 200000 14),
     scenePolicy ''PHOTO_REVIEW_REWARD'' ''PHOTO_REVIEW''
       (cashTemplate (bytes [0xE6, 0x99, 0x92, 0xE5, 0x9B, 0xBE, 0xE8, 0xBF, 0x94, 0xE5, 0x88, 0xB8]) (bytes [0xE6, 0xBB, 0xA1, 0x32, 0x30, 0x30, 0x30, 0xE5, 0x87, 0x8F, 0x33, 0x30, 0x30]) 30000 200000 14),
     scenePolicy ''AFTER_SALE_COMPENSATION'' ''AFTER_SALE_COMPENSATION''
       (discountTemplate (bytes [0xE5, 0x94, 0xAE, 0xE5, 0x90, 0x8E, 0xE8, 0xA1, 0xA5, 0xE5, 0x81, 0xBF, 0xE5, 0x88, 0xB8]) (bytes [0x37, 0x35, 0xE6, 0x8A, 0x98, 0xE8, 0xA1, 0xA5, 0xE5, 0x81, 0xBF, 0xE5, 0x88, 0xB8]) (75, -2) 7),
     scenePolicy ''INVITE_NEW'' ''INVITE_NEW''
       (cashTemplate (bytes [0xE6, 0x8B, 0x89, 0xE6, 0x96, 0xB0, 0xE5, 0x88, 0xB8]) (bytes [0xE6, 0xBB, 0xA1, 0x31, 0x30, 0x30, 0xE5, 0x87, 0x8F, 0x31, 0x30]) 1000 10000 14),
     scenePolicy ''REPURCHASE_INCENTIVE'' ''GOOD_REVIEW''
       (cashTemplate (bytes [0xE5, 0xA4, 0x8D, 0xE8, 0xB4, 0xAD, 0xE5, 0x88, 0xB8]) (bytes [0xE6, 0xBB, 0xA1, 0x35, 0x30, 0xE5, 0x87, 0x8F, 0x31, 0x30]) 1000 5000 14),
     scenePolicy ''PRICE_SENSITIVE_INCENTIVE'' ''GOOD_REVIEW''
       (cashTemplate (bytes [0xE4, 0xBB, 0xB7, 0xE6, 0xA0, 0xBC, 0xE6, 0x95, 0x8F, 0xE6, 0x84, 0x9F, 0xE5, 0x88, 0xB8]) (bytes [0xE6, 0xBB, 0xA1, 0x35, 0x30, 0xE5, 0x87, 0x8F, 0x31, 0x30]) 1000 5000 14),
     scenePolicy ''SERVICE_RECOVERY'' ''AFTER_SALE_COMPENSATION''
       (discountTemplate (bytes [0xE6, 0x9C, 0x8D, 0xE5, 0x8A, 0xA1, 0xE6, 0x8C, 0xBD, 0xE5, 0x9B, 0x9E, 0xE5, 0x88, 0xB8]) (bytes [0x37, 0x35, 0xE6, 0x8A, 0x98, 0xE6, 0x9C, 0x8D, 0xE5, 0x8A, 0xA1, 0xE8, 0xA1, 0xA5, 0xE5, 
     0x81, 0xBF, 0xE5, 0x88, 0xB8]) (75, -2) 7)] \<rparr>"

section \<open>Lookup and rendering\<close>

definition sceneMatches :: "gostring \<Rightarrow> CouponScenePolicy \<Rightarrow> bool" where
  "sceneMatches scene item \<longleftrightarrow> EqualFold (sp_Name item) scene \<or> EqualFold (sp_SeckillScene item) scene"

definition findPolicy :: "CouponPolicy \<Rightarrow> gostring \<Rightarrow> CouponScenePolicy" where
  "findPolicy policy scene = (case find (sceneMatches (ToUpper (TrimSpace scene))) (cp_Scenes policy) of
     Some item \<Rightarrow> item | None \<Rightarrow> zeroScene)"

definition seckillSceneByBusinessScene :: "gostring \<Rightarrow> gostring" where
  "seckillSceneByBusinessScene scene0 = (let scene = ToUpper (TrimSpace scene0) in
     if scene = ''FIRST_REVIEW'' then ''FIRST_REVIEW''
     else if scene \<in> set [''PHOTO_REVIEW_REWARD'', ''PHOTO_REVIEW'', ''MEDIA_REWARD''] then ''PHOTO_REVIEW''
     else if scene \<in> set [''INVITE_NEW'', ''RECOMMEND_INCENTIVE''] then ''INVITE_NEW''
     else if scene \<in> set [''AFTER_SALE_COMPENSATION'', ''SERVICE_RECOVERY'', ''LOGISTICS_COMPENSATION'']
       then ''AFTER_SALE_COMPENSATION''
     else [])"

definition renderTemplate :: "CouponTemplate \<Rightarrow> gostring" where
  "renderTemplate item = (let days = (if ct_ValidDays item \<le> 0 then 14 else ct_ValidDays item) in
     ct_Type item @ (bytes [0xEF, 0xBC, 0x88]) @ ct_Rule item @ (bytes [0xEF, 0xBC, 0x8C, 0xE6, 0x9C, 0x89, 0xE6, 0x95, 0x88, 0xE6, 0x9C, 0x9F]) @ show_int days @ (bytes [0xE5, 0xA4, 0xA9, 0xEF, 0xBC, 0x89]))"

definition renderCouponSuggestion :: "gostring \<Rightarrow> CouponScenePolicy \<Rightarrow> gostring" where
  "renderCouponSuggestion version policy =
     (let templates0 = map renderTemplate (sp_CouponTemplates policy);
          templates = (if templates0 = [] then [bytes [0x35, 0xE5, 0x85, 0x83, 0xE6, 0x97, 0xA0, 0xE9, 0x97, 0xA8, 0xE6, 0xA7, 0x9B, 0xE5, 0x88, 
     0xB8, 0xEF, 0xBC, 0x88, 0xE6, 0x9C, 0x89, 0xE6, 0x95, 0x88, 0xE6, 0x9C, 0x9F, 0x37, 0xE5, 0xA4, 0xA9, 
     0xEF, 0xBC, 0x89]] else templates0);
          scene = (if sp_SeckillScene policy = [] then sp_Name policy else sp_SeckillScene policy)
      in (bytes [0xE5, 0xBB, 0xBA, 0xE8, 0xAE, 0xAE, 0xE5, 0x8F, 0x91, 0xE6, 0x94, 0xBE]) @ Join templates (bytes [0x20, 0xE6, 0x88, 0x96, 0x20]) @ (bytes [0xEF, 0xBC, 0x9B, 0xE4, 0xB8, 0x9A, 0xE5, 0x8A, 0xA1, 0xE5, 0x9C, 0xBA, 0xE6, 0x99, 0xAF, 0x3D]) @ sp_Name policy
         @ (bytes [0xEF, 0xBC, 0x8C, 0xE7, 0xA7, 0x92, 0xE6, 0x9D, 0x80, 0xE5, 0x88, 0xB8, 0xE5, 0x9C, 0xBA, 
     0xE6, 0x99, 0xAF, 0x3D]) @ scene @ (bytes [0xEF, 0xBC, 0x8C, 0xE7, 0xAD, 0x96, 0xE7, 0x95, 0xA5, 0xE7, 0x89, 0x88, 0xE6, 0x9C, 0xAC, 0x3D]) @ version @ (bytes [0xE3, 0x80, 0x82]))"

section \<open>The provider\<close>

definition missingPolicy :: gerror where
  "missingPolicy = ''coupon policy missing version or scenes''"

text \<open>The error \<open>json.Unmarshal\<close> reports. No caller looks at its text, which names a position in the file.\<close>

definition badPolicy :: gerror where
  "badPolicy = ''invalid coupon policy json''"

text \<open>\<open>time.Since\<close> saturates at the largest duration.\<close>

definition since :: "int \<Rightarrow> int \<Rightarrow> int" where
  "since now t = max min_int64 (min max_int64 (now - t))"

definition loadPolicy :: "Disk \<Rightarrow> gostring \<Rightarrow> CouponPolicy result" where
  "loadPolicy disk path = (case dk_ReadFile disk path of
     Inl err \<Rightarrow> Inl err
   | Inr raw \<Rightarrow>
       (case unmarshal policyFields raw zeroPolicy of
          (_, False) \<Rightarrow> Inl badPolicy
        | (policy, True) \<Rightarrow>
            if cp_Version policy = [] \<or> cp_Scenes policy = [] then Inl missingPolicy else Inr policy))"

definition reloadIfNeeded :: "int \<Rightarrow> Disk \<Rightarrow> bool \<Rightarrow> CouponPolicyProvider \<Rightarrow> gerror option \<times> CouponPolicyProvider" where
  "reloadIfNeeded now disk force p =
     (if pv_path p = [] then (None, p)
      else if \<not> force \<and> \<not> pv_hotReload p then (None, p)
      else if \<not> force \<and> since now (pv_lastLoad p) < pv_reloadEvery p then (None, p)
      else (case dk_Stat disk (pv_path p) of
          Inl err \<Rightarrow> (Some err, p)
        | Inr modTime \<Rightarrow>
            if \<not> force \<and> \<not> pv_lastMod p < modTime then (None, p \<lparr> pv_lastLoad := now \<rparr>)
            else (case loadPolicy disk (pv_path p) of
                Inl err \<Rightarrow> (Some err, p)
              | Inr policy \<Rightarrow> (None, p \<lparr> pv_policy := policy, pv_lastLoad := now, pv_lastMod := modTime \<rparr>))))"

definition NewCouponPolicyProvider :: "int \<Rightarrow> Disk \<Rightarrow> gostring \<Rightarrow> bool \<Rightarrow> int \<Rightarrow> CouponPolicyProvider" where
  "NewCouponPolicyProvider now disk path hotReload reloadEvery =
     snd (reloadIfNeeded now disk True
       \<lparr> pv_path = TrimSpace path, pv_hotReload = hotReload,
         pv_reloadEvery = (if reloadEvery \<le> 0 then 30000000000 else reloadEvery),
         pv_lastLoad = zeroTime, pv_lastMod = zeroTime, pv_policy = defaultCouponPolicy \<rparr>)"

text \<open>\<open>current\<close> on a nil provider is the default policy.\<close>

definition currentPolicy :: "int \<Rightarrow> Disk \<Rightarrow> CouponPolicyProvider option \<Rightarrow> CouponPolicy \<times> CouponPolicyProvider option" where
  "currentPolicy now disk p = (case p of
     None \<Rightarrow> (defaultCouponPolicy, None)
   | Some q \<Rightarrow> (let q' = snd (reloadIfNeeded now disk False q) in (pv_policy q', Some q')))"

definition Suggestion :: "int \<Rightarrow> Disk \<Rightarrow> gostring \<Rightarrow> CouponPolicyProvider option \<Rightarrow> gostring \<times> CouponPolicyProvider option" where
  "Suggestion now disk scene p =
     (let (policy, p') = currentPolicy now disk p;
          item0 = findPolicy policy scene;
          item = (if sp_Name item0 = [] then findPolicy policy (seckillSceneByBusinessScene scene) else item0)
      in (if sp_Name item = [] then [] else renderCouponSuggestion (cp_Version policy) item, p'))"

definition SeckillScene :: "int \<Rightarrow> Disk \<Rightarrow> gostring \<Rightarrow> CouponPolicyProvider option \<Rightarrow> gostring \<times> CouponPolicyProvider option" where
  "SeckillScene now disk scene p =
     (let (policy, p') = currentPolicy now disk p; item = findPolicy policy scene
      in (if sp_Name item \<noteq> [] \<and> \<not> blank (sp_SeckillScene item) then ToUpper (TrimSpace (sp_SeckillScene item))
          else seckillSceneByBusinessScene scene, p'))"

text \<open>\<open>couponSuggestionForDecisionWithPolicy\<close>: a nil provider is replaced by a fresh one without a path.\<close>

definition couponSuggestionForDecisionWithPolicy ::
  "int \<Rightarrow> Disk \<Rightarrow> gostring \<Rightarrow> CouponPolicyProvider option \<Rightarrow> gostring \<times> CouponPolicyProvider option" where
  "couponSuggestionForDecisionWithPolicy now disk scene provider =
     (case provider of
        None \<Rightarrow> (fst (Suggestion now disk scene (Some (NewCouponPolicyProvider now disk [] False 0))), None)
      | Some p \<Rightarrow> Suggestion now disk scene (Some p))"

definition couponPolicyVersion :: "int \<Rightarrow> Disk \<Rightarrow> CouponPolicyProvider option \<Rightarrow> gostring \<times> CouponPolicyProvider option" where
  "couponPolicyVersion now disk provider = (case provider of
     None \<Rightarrow> (''policy-v1'', None)
   | Some p \<Rightarrow> (let (policy, p') = currentPolicy now disk (Some p); version = TrimSpace (cp_Version policy)
               in (if version = [] then ''policy-v1'' else version, p')))"

section \<open>Lemmas\<close>

definition policyOk :: "CouponPolicy \<Rightarrow> bool" where
  "policyOk policy \<longleftrightarrow> cp_Version policy \<noteq> [] \<and> cp_Scenes policy \<noteq> []"

lemma defaultCouponPolicy_ok: "policyOk defaultCouponPolicy"
  by (simp add: policyOk_def defaultCouponPolicy_def)

lemma loadPolicy_ok: "loadPolicy disk path = Inr policy \<Longrightarrow> policyOk policy"
  by (auto simp: loadPolicy_def policyOk_def split: sum.splits prod.splits bool.splits if_splits)

text \<open>A reload keeps the policy or takes the one of the file.\<close>

lemma reload_cases:
  assumes "reloadIfNeeded now disk force p = (err, p')"
  shows "pv_path p' = pv_path p \<and> pv_hotReload p' = pv_hotReload p \<and> pv_reloadEvery p' = pv_reloadEvery p \<and>
    (err \<noteq> None \<longrightarrow> p' = p) \<and>
    (pv_policy p' = pv_policy p \<or> err = None \<and> loadPolicy disk (pv_path p) = Inr (pv_policy p'))"
  using assms by (auto simp: reloadIfNeeded_def split: if_splits sum.splits)

lemma reload_ok: "policyOk (pv_policy p) \<Longrightarrow> policyOk (pv_policy (snd (reloadIfNeeded now disk force p)))"
  using reload_cases [of now disk force p] loadPolicy_ok by (metis prod.collapse)

text \<open>A provider as its methods leave it, from its construction on, with whatever clock and disk they meet.\<close>

inductive providerReach :: "gostring \<Rightarrow> CouponPolicyProvider \<Rightarrow> bool" for path where
  provider_New: "providerReach path (NewCouponPolicyProvider now disk path hot every)"
| provider_current: "providerReach path p \<Longrightarrow> currentPolicy now disk (Some p) = (policy, Some p') \<Longrightarrow> providerReach path p'"

lemma providerReach_policy:
  "providerReach path p \<Longrightarrow> pv_path p = TrimSpace path \<and>
     (pv_policy p = defaultCouponPolicy \<or> (\<exists>disk. loadPolicy disk (TrimSpace path) = Inr (pv_policy p)))"
proof (induction rule: providerReach.induct)
  case (provider_New now disk hot every)
  let ?p0 = "\<lparr> pv_path = TrimSpace path, pv_hotReload = hot,
         pv_reloadEvery = (if every \<le> 0 then 30000000000 else every),
         pv_lastLoad = zeroTime, pv_lastMod = zeroTime, pv_policy = defaultCouponPolicy \<rparr>"
  obtain err q where eq: "reloadIfNeeded now disk True ?p0 = (err, q)" by fastforce
  from reload_cases [OF eq] have "pv_path q = TrimSpace path"
    "pv_policy q = defaultCouponPolicy \<or> loadPolicy disk (TrimSpace path) = Inr (pv_policy q)" by auto
  then show ?case unfolding NewCouponPolicyProvider_def eq by auto
next
  case (provider_current p now disk policy p')
  obtain err q where eq: "reloadIfNeeded now disk False p = (err, q)" by fastforce
  from provider_current(2) have p': "p' = q" by (auto simp: currentPolicy_def Let_def eq)
  from reload_cases [OF eq] have "pv_path q = pv_path p"
    "pv_policy q = pv_policy p \<or> loadPolicy disk (pv_path p) = Inr (pv_policy q)" by auto
  with provider_current(3) show ?case unfolding p' by metis
qed

section \<open>Properties\<close>

text \<open>C21: whatever the file contains and however often it is reloaded, the policy in force is the default
  one or one that was read from the configured path, decoded without error and not empty: a broken, missing
  or empty file never replaces a good policy.\<close>

theorem provider_policy_valid:
  assumes "providerReach path p"
  shows "cp_Version (pv_policy p) \<noteq> [] \<and> cp_Scenes (pv_policy p) \<noteq> [] \<and>
    (pv_policy p = defaultCouponPolicy \<or> (\<exists>disk. loadPolicy disk (TrimSpace path) = Inr (pv_policy p)))"
  using providerReach_policy [OF assms] loadPolicy_ok defaultCouponPolicy_ok by (auto simp: policyOk_def)

text \<open>With hot reload on, a call made at least \<open>reloadEvery\<close> after the last check uses the file if it is
  newer than the one in force and decodes, and keeps the policy in force if it does not decode.\<close>

theorem hot_reload_effect:
  assumes "pv_hotReload p" "pv_path p \<noteq> []" "pv_reloadEvery p \<le> since now (pv_lastLoad p)"
    and "dk_Stat disk (pv_path p) = Inr modTime" "pv_lastMod p < modTime"
  shows "fst (currentPolicy now disk (Some p)) =
    (case loadPolicy disk (pv_path p) of Inr policy \<Rightarrow> policy | Inl _ \<Rightarrow> pv_policy p)"
  using assms by (auto simp: currentPolicy_def reloadIfNeeded_def Let_def split: sum.splits)

text \<open>\<open>findPolicy\<close> returns the first scene whose business or seckill name equals the asked one (without
  regard to case and surrounding white space), and the empty scene when there is none.\<close>

theorem findPolicy_first:
  "(\<exists>i < length (cp_Scenes policy).
      sceneMatches (ToUpper (TrimSpace scene)) (cp_Scenes policy ! i) \<and>
      (\<forall>j < i. \<not> sceneMatches (ToUpper (TrimSpace scene)) (cp_Scenes policy ! j)) \<and>
      findPolicy policy scene = cp_Scenes policy ! i)
   \<or> (\<forall>item \<in> set (cp_Scenes policy). \<not> sceneMatches (ToUpper (TrimSpace scene)) item) \<and>
      findPolicy policy scene = zeroScene"
proof (cases "find (sceneMatches (ToUpper (TrimSpace scene))) (cp_Scenes policy)")
  case None
  then have "findPolicy policy scene = zeroScene" by (simp add: findPolicy_def)
  with None show ?thesis by (simp add: find_None_iff)
next
  case (Some item)
  then have "findPolicy policy scene = item" by (simp add: findPolicy_def)
  with Some show ?thesis unfolding find_Some_iff by blast
qed

section \<open>Witnesses\<close>

definition demoPolicyFile :: gostring where
  "demoPolicyFile = concat [''{'', [CHR 0x22], ''version'', [CHR 0x22], '':'', [CHR 0x22], ''v2'', [CHR 0x22], '','',
     [CHR 0x22], ''scenes'', [CHR 0x22], '':[{'', [CHR 0x22], ''name'', [CHR 0x22], '':'', [CHR 0x22], ''A'', [CHR 0x22], ''}]}'']"

definition demoDisk :: Disk where
  "demoDisk = \<lparr>dk_Stat = (\<lambda>_. Inr 5), dk_ReadFile = (\<lambda>_. Inr demoPolicyFile)\<rparr>"

definition demoProvider :: CouponPolicyProvider where
  "demoProvider = NewCouponPolicyProvider 10 \<lparr>dk_Stat = (\<lambda>_. Inl ''missing''), dk_ReadFile = (\<lambda>_. Inl ''missing'')\<rparr> ''p.json'' True 0"

lemma demoProvider_eq: "demoProvider = \<lparr>pv_path = ''p.json'', pv_hotReload = True, pv_reloadEvery = 30000000000,
    pv_lastLoad = zeroTime, pv_lastMod = zeroTime, pv_policy = defaultCouponPolicy\<rparr>"
proof -
  have "TrimSpace ''p.json'' = ''p.json''" by code_simp
  then show ?thesis by (simp add: demoProvider_def NewCouponPolicyProvider_def reloadIfNeeded_def)
qed

lemma demoPolicy_loads: "\<exists>policy. loadPolicy demoDisk ''p.json'' = Inr policy \<and> cp_Version policy = ''v2''"
proof -
  have "(case loadPolicy demoDisk ''p.json'' of Inl _ \<Rightarrow> [] | Inr policy \<Rightarrow> cp_Version policy) = ''v2''" by code_simp
  then show ?thesis by (auto split: sum.splits)
qed

lemma provider_policy_valid_witness:
  "\<exists>p. providerReach ''p.json'' p \<and> cp_Version (pv_policy p) \<noteq> []"
proof -
  have "providerReach ''p.json'' demoProvider" unfolding demoProvider_def by (rule provider_New)
  with provider_policy_valid show ?thesis by blast
qed

lemma hot_reload_effect_witness:
  "cp_Version (fst (currentPolicy 30000000000 demoDisk (Some demoProvider))) = ''v2''"
proof -
  have s: "pv_reloadEvery demoProvider \<le> since 30000000000 (pv_lastLoad demoProvider)"
    by (simp add: demoProvider_eq since_def zeroTime_def max_int64_def min_int64_def)
  have "fst (currentPolicy 30000000000 demoDisk (Some demoProvider)) =
    (case loadPolicy demoDisk (pv_path demoProvider) of Inr policy \<Rightarrow> policy | Inl _ \<Rightarrow> pv_policy demoProvider)"
    by (rule hot_reload_effect [OF _ _ s, of _ 5]) (simp_all add: demoProvider_eq demoDisk_def zeroTime_def)
  moreover have "pv_path demoProvider = ''p.json''" by (simp add: demoProvider_eq)
  ultimately show ?thesis using demoPolicy_loads by auto
qed

lemma findPolicy_first_witness:
  "findPolicy defaultCouponPolicy ''nowhere'' = zeroScene"
proof -
  have "\<not> list_ex (sceneMatches (ToUpper (TrimSpace ''nowhere''))) (cp_Scenes defaultCouponPolicy)" by code_simp
  with findPolicy_first [of defaultCouponPolicy "''nowhere''"] show ?thesis by (auto simp: list_ex_iff)
qed

end
