(* ===== verification/Decision_Context.thy ===== *)
theory Decision_Context
  imports Go_Json_Struct Context_Compose
begin

text \<open>
  The data the agent package shares (\<open>internal/agent/types.go\<close>) and the business context that the
  finalizer extracts from the tool observations in the history (\<open>extractDecisionContext\<close> in
  \<open>internal/agent/agent.go\<close>). An observation is the JSON text a tool returned; a step whose output
  is blank or is not a JSON object is skipped, exactly as in the code.
\<close>

section \<open>Data\<close>

record Decision =
  d_Type :: gostring
  d_ToolName :: gostring
  d_Arguments :: gostring
  d_FinalAnswer :: gostring
  d_Action :: gostring
  d_Scene :: gostring
  d_RiskLevel :: gostring
  d_Reason :: gostring
  d_Reasoning :: gostring
  d_Confidence :: decimal
  d_CouponSuggestion :: gostring
  d_PolicyTags :: "gostring list"
  d_NeedHumanReview :: bool

definition zeroDecision :: Decision where
  "zeroDecision = \<lparr>d_Type = [], d_ToolName = [], d_Arguments = [], d_FinalAnswer = [], d_Action = [], d_Scene = [],
     d_RiskLevel = [], d_Reason = [], d_Reasoning = [], d_Confidence = (0, 0), d_CouponSuggestion = [],
     d_PolicyTags = [], d_NeedHumanReview = False\<rparr>"

record Step =
  st_Step :: int
  st_ToolName :: gostring
  st_Arguments :: gostring
  st_Observation :: gostring
  st_Error :: gostring
  st_DurationMS :: int

record ExecutionInput =
  ei_SessionID :: gostring
  ei_ExecutionID :: gostring
  ei_ParentExecutionID :: gostring
  ei_Task :: gostring
  ei_ReviewID :: int
  ei_EvidenceVersion :: int
  ei_StoreID :: int
  ei_UserID :: int
  ei_SkuID :: int
  ei_SpuID :: int
  ei_ActivityID :: gostring
  ei_PolicyVersion :: gostring

record decisionContext =
  dc_ReviewID :: int
  dc_StoreID :: int
  dc_UserID :: int
  dc_OrderID :: int
  dc_SkuID :: int
  dc_SpuID :: int
  dc_Score :: int
  dc_Content :: gostring
  dc_HasMedia :: bool
  dc_IsFirstReview :: bool
  dc_EvidenceIDs :: "gostring list"
  dc_EvidenceVersion :: int
  dc_ActivityID :: gostring
  dc_PolicyVersion :: gostring
  dc_CouponTemplateID :: gostring
  dc_CampaignActive :: bool
  dc_ProductEligible :: bool
  dc_UserEligible :: bool
  dc_RemainingStock :: int
  dc_RemainingBudgetCent :: int
  dc_UserGrantLimit :: int
  dc_UserGrantedCount :: int

definition zeroContext :: decisionContext where
  "zeroContext = \<lparr>dc_ReviewID = 0, dc_StoreID = 0, dc_UserID = 0, dc_OrderID = 0, dc_SkuID = 0, dc_SpuID = 0,
     dc_Score = 0, dc_Content = [], dc_HasMedia = False, dc_IsFirstReview = False, dc_EvidenceIDs = [],
     dc_EvidenceVersion = 0, dc_ActivityID = [], dc_PolicyVersion = [], dc_CouponTemplateID = [],
     dc_CampaignActive = False, dc_ProductEligible = False, dc_UserEligible = False, dc_RemainingStock = 0,
     dc_RemainingBudgetCent = 0, dc_UserGrantLimit = 0, dc_UserGrantedCount = 0\<rparr>"

section \<open>Observations\<close>

definition defaultIfBlank :: "gostring \<Rightarrow> gostring \<Rightarrow> gostring" where
  "defaultIfBlank v fallback = (if TrimSpace v \<noteq> [] then TrimSpace v else TrimSpace fallback)"

text \<open>The payload of a step, as both loops over the history read it: nothing when they \<open>continue\<close>.\<close>

definition stepPayload :: "StepRecord \<Rightarrow> jobject option" where
  "stepPayload item = (if blank (sr_Output item) then None
     else (case unmarshal_map (sr_Output item) of (payload, True) \<Rightarrow> Some payload | _ \<Rightarrow> None))"

text \<open>\<open>obj, ok := payload[k].(map[string]any)\<close>, and the variants that ignore \<open>ok\<close> (a nil map or slice
  then reads as empty).\<close>

definition objField :: "jobject \<Rightarrow> gostring \<Rightarrow> jobject option" where
  "objField payload k = as_obj (jget payload k)"

definition objFieldOrNil :: "jobject \<Rightarrow> gostring \<Rightarrow> jobject" where
  "objFieldOrNil payload k = (case objField payload k of Some kvs \<Rightarrow> kvs | None \<Rightarrow> [])"

definition arrFieldOrNil :: "jobject \<Rightarrow> gostring \<Rightarrow> json list" where
  "arrFieldOrNil payload k = (case as_arr (jget payload k) of Some vs \<Rightarrow> vs | None \<Rightarrow> [])"

definition objOrNil :: "json \<Rightarrow> jobject" where
  "objOrNil v = (case as_obj v of Some kvs \<Rightarrow> kvs | None \<Rightarrow> [])"

definition fieldInt64 :: "jobject \<Rightarrow> gostring \<Rightarrow> int" where
  "fieldInt64 ev k = anyInt64 (jget ev k)"

definition fieldString :: "jobject \<Rightarrow> gostring \<Rightarrow> gostring" where
  "fieldString ev k = anyString (jget ev k)"

definition fieldBool :: "jobject \<Rightarrow> gostring \<Rightarrow> bool" where
  "fieldBool ev k = anyBool (jget ev k)"

section \<open>extractDecisionContext\<close>

text \<open>The Go map \<open>seen\<close> of evidence ids is a list of the ids put into it.\<close>

definition reviewEvidenceID :: "int \<Rightarrow> gostring" where
  "reviewEvidenceID reviewID = ''review:'' @ show_int reviewID"

text \<open>Append an id that has not been seen (both loops do it this way).\<close>

definition addEvidenceID :: "gostring \<Rightarrow> decisionContext \<times> gostring list \<Rightarrow> decisionContext \<times> gostring list" where
  "addEvidenceID eid st = (if eid \<in> set (snd st) then st
     else ((fst st) \<lparr> dc_EvidenceIDs := dc_EvidenceIDs (fst st) @ [eid] \<rparr>, eid # snd st))"

definition evidenceFields :: "jobject \<Rightarrow> decisionContext \<Rightarrow> decisionContext" where
  "evidenceFields ev dc = dc \<lparr>
     dc_ReviewID := firstInt64 (dc_ReviewID dc) [fieldInt64 ev ''reviewId'', fieldInt64 ev ''review_id''],
     dc_StoreID := firstInt64 (dc_StoreID dc) [fieldInt64 ev ''storeId'', fieldInt64 ev ''store_id''],
     dc_UserID := firstInt64 (dc_UserID dc) [fieldInt64 ev ''userId'', fieldInt64 ev ''user_id''],
     dc_OrderID := firstInt64 (dc_OrderID dc) [fieldInt64 ev ''orderId'', fieldInt64 ev ''order_id''],
     dc_SkuID := firstInt64 (dc_SkuID dc) [fieldInt64 ev ''skuId'', fieldInt64 ev ''sku_id''],
     dc_SpuID := firstInt64 (dc_SpuID dc) [fieldInt64 ev ''spuId'', fieldInt64 ev ''spu_id''],
     dc_Score := to_int32 (fieldInt64 ev ''score''),
     dc_Content := fieldString ev ''content'',
     dc_HasMedia := fieldBool ev ''hasMedia'' \<or> fieldBool ev ''has_media'',
     dc_IsFirstReview := fieldBool ev ''isFirstReview'' \<or> fieldBool ev ''is_first_review'',
     dc_EvidenceVersion := firstInt64 (dc_EvidenceVersion dc)
       [fieldInt64 ev ''evidenceVersion'', fieldInt64 ev ''evidence_version''] \<rparr>"

definition readEvidence :: "jobject \<Rightarrow> decisionContext \<times> gostring list \<Rightarrow> decisionContext \<times> gostring list" where
  "readEvidence ev st = (let st1 = apfst (evidenceFields ev) st in
     if dc_ReviewID (fst st1) > 0 then addEvidenceID (reviewEvidenceID (dc_ReviewID (fst st1))) st1 else st1)"

definition addChunkID :: "json \<Rightarrow> decisionContext \<times> gostring list \<Rightarrow> decisionContext \<times> gostring list" where
  "addChunkID item st = (let cid = fieldString (objOrNil item) ''chunk_id'' in
     if cid \<noteq> [] then addEvidenceID cid st else st)"

definition collectRAGEvidenceIDs :: "jobject \<Rightarrow> decisionContext \<times> gostring list \<Rightarrow> decisionContext \<times> gostring list" where
  "collectRAGEvidenceIDs payload st =
     fold addChunkID (arrFieldOrNil (objFieldOrNil payload ''rag'') ''chunks'') st"

definition readCampaign :: "jobject \<Rightarrow> decisionContext \<Rightarrow> decisionContext" where
  "readCampaign campaign dc = dc \<lparr>
     dc_ActivityID := defaultIfBlank (dc_ActivityID dc) (fieldString campaign ''activity_id''),
     dc_PolicyVersion := defaultIfBlank (dc_PolicyVersion dc) (fieldString campaign ''policy_version''),
     dc_CouponTemplateID := defaultIfBlank (dc_CouponTemplateID dc) (fieldString campaign ''coupon_template_id''),
     dc_CampaignActive := EqualFold (fieldString campaign ''status'') ''ACTIVE'',
     dc_ProductEligible := fieldBool campaign ''product_eligible'',
     dc_UserEligible := fieldBool campaign ''user_eligible'',
     dc_RemainingStock := fieldInt64 campaign ''remaining_stock'',
     dc_RemainingBudgetCent := fieldInt64 campaign ''remaining_budget_cent'',
     dc_UserGrantLimit := to_int32 (fieldInt64 campaign ''user_grant_limit''),
     dc_UserGrantedCount := to_int32 (fieldInt64 campaign ''user_granted_count'') \<rparr>"

definition contextStep :: "StepRecord \<Rightarrow> decisionContext \<times> gostring list \<Rightarrow> decisionContext \<times> gostring list" where
  "contextStep item st = (case stepPayload item of None \<Rightarrow> st
     | Some payload \<Rightarrow>
         if sr_ToolName item = ''get_review_evidence'' then
           (case objField payload ''evidence'' of Some ev \<Rightarrow> readEvidence ev st | None \<Rightarrow> st)
         else if sr_ToolName item = ''retrieve_rag'' then collectRAGEvidenceIDs payload st
         else if sr_ToolName item = ''get_campaign_context'' then
           (case objField payload ''campaign'' of Some c \<Rightarrow> apfst (readCampaign c) st | None \<Rightarrow> st)
         else st)"

definition extractDecisionContext :: "StepRecord list \<Rightarrow> decisionContext" where
  "extractDecisionContext history = fst (fold contextStep history (zeroContext, []))"

section \<open>Lemmas\<close>

text \<open>The evidence ids are the ids seen, each once and none blank; the ids that matter are not negative.\<close>

definition ctxInv :: "decisionContext \<times> gostring list \<Rightarrow> bool" where
  "ctxInv st \<longleftrightarrow> set (dc_EvidenceIDs (fst st)) = set (snd st) \<and> distinct (dc_EvidenceIDs (fst st)) \<and> [] \<notin> set (snd st)
     \<and> 0 \<le> dc_ReviewID (fst st) \<and> 0 \<le> dc_StoreID (fst st)"

lemma reviewEvidenceID_nonempty [simp]: "reviewEvidenceID i \<noteq> []"
  by (simp add: reviewEvidenceID_def)

lemma addEvidenceID_fields [simp]:
  "dc_ReviewID (fst (addEvidenceID eid st)) = dc_ReviewID (fst st)"
  "dc_StoreID (fst (addEvidenceID eid st)) = dc_StoreID (fst st)"
  by (simp_all add: addEvidenceID_def)

lemma addEvidenceID_inv: "eid \<noteq> [] \<Longrightarrow> ctxInv st \<Longrightarrow> ctxInv (addEvidenceID eid st)"
  by (simp add: ctxInv_def addEvidenceID_def)

lemma evidenceFields_inv: "ctxInv st \<Longrightarrow> ctxInv (apfst (evidenceFields ev) st)"
  by (simp add: ctxInv_def evidenceFields_def firstInt64_nonneg del: firstInt64.simps)

lemma readEvidence_inv [inv_intros]: "ctxInv st \<Longrightarrow> ctxInv (readEvidence ev st)"
  by (simp add: readEvidence_def Let_def addEvidenceID_inv evidenceFields_inv)

lemma addChunkID_inv: "ctxInv st \<Longrightarrow> ctxInv (addChunkID item st)"
  by (simp add: addChunkID_def Let_def addEvidenceID_inv)

lemma fold_inv: "(\<And>x st. P st \<Longrightarrow> P (f x st)) \<Longrightarrow> P st \<Longrightarrow> P (fold f xs st)"
  by (induction xs arbitrary: st) auto

lemma collectRAG_inv [inv_intros]: "ctxInv st \<Longrightarrow> ctxInv (collectRAGEvidenceIDs payload st)"
  unfolding collectRAGEvidenceIDs_def by (rule fold_inv [where P = ctxInv]) (rule addChunkID_inv)

lemma readCampaign_inv [inv_intros]: "ctxInv st \<Longrightarrow> ctxInv (apfst (readCampaign c) st)"
  by (cases st) (simp add: ctxInv_def readCampaign_def)

lemma contextStep_inv: "ctxInv st \<Longrightarrow> ctxInv (contextStep item st)"
  by (simp add: contextStep_def inv_intros split: option.split)

lemma extract_inv: "ctxInv (fold contextStep history (zeroContext, []))"
  by (rule fold_inv [where P = ctxInv], erule contextStep_inv) (simp add: ctxInv_def zeroContext_def)

text \<open>What a step that is not a campaign observation leaves alone.\<close>

definition campaignPart :: "decisionContext \<Rightarrow> bool \<times> bool \<times> bool \<times> int \<times> int \<times> int \<times> int" where
  "campaignPart dc = (dc_CampaignActive dc, dc_ProductEligible dc, dc_UserEligible dc, dc_RemainingStock dc,
     dc_RemainingBudgetCent dc, dc_UserGrantLimit dc, dc_UserGrantedCount dc)"

lemma addEvidenceID_campaign [simp]: "campaignPart (fst (addEvidenceID eid st)) = campaignPart (fst st)"
  by (simp add: addEvidenceID_def campaignPart_def)

lemma evidenceFields_campaign [simp]: "campaignPart (evidenceFields ev dc) = campaignPart dc"
  by (simp add: evidenceFields_def campaignPart_def del: firstInt64.simps)

lemma readEvidence_campaign: "campaignPart (fst (readEvidence ev st)) = campaignPart (fst st)"
  by (simp add: readEvidence_def Let_def)

lemma fold_addChunk_campaign: "campaignPart (fst (fold addChunkID vs st)) = campaignPart (fst st)"
  by (induction vs arbitrary: st) (simp_all add: addChunkID_def Let_def)

lemma campaignPart_read: "campaignPart (readCampaign c dc) = campaignPart (readCampaign c zeroContext)"
  by (simp add: campaignPart_def readCampaign_def)

text \<open>The campaign object of a step, when the step contributes one.\<close>

definition stepCampaign :: "StepRecord \<Rightarrow> jobject option" where
  "stepCampaign item = (if sr_ToolName item = ''get_campaign_context''
     then Option.bind (stepPayload item) (\<lambda>payload. objField payload ''campaign'') else None)"

lemma contextStep_campaign:
  "campaignPart (fst (contextStep item st)) =
     (case stepCampaign item of Some c \<Rightarrow> campaignPart (readCampaign c zeroContext) | None \<Rightarrow> campaignPart (fst st))"
  using campaignPart_read [of _ "fst st"]
  by (simp add: contextStep_def stepCampaign_def readEvidence_campaign collectRAGEvidenceIDs_def
      fold_addChunk_campaign split: option.split)

text \<open>The last campaign observation decides.\<close>

definition lastCampaign :: "StepRecord list \<Rightarrow> jobject option" where
  "lastCampaign history = (case rev (filter (\<lambda>c. c \<noteq> None) (map stepCampaign history)) of [] \<Rightarrow> None | c # _ \<Rightarrow> c)"

lemma lastCampaign_snoc:
  "lastCampaign (history @ [item]) = (case stepCampaign item of Some c \<Rightarrow> Some c | None \<Rightarrow> lastCampaign history)"
  by (auto simp: lastCampaign_def)

lemma extract_campaign:
  "campaignPart (extractDecisionContext history) =
     (case lastCampaign history of Some c \<Rightarrow> campaignPart (readCampaign c zeroContext) | None \<Rightarrow> campaignPart zeroContext)"
proof (induction history rule: rev_induct)
  case Nil
  then show ?case by (simp add: extractDecisionContext_def lastCampaign_def)
next
  case (snoc item history)
  then show ?case
    by (simp add: extractDecisionContext_def contextStep_campaign lastCampaign_snoc split: option.split)
qed

end
