(* ===== verification/Decision_Guard.thy ===== *)
theory Decision_Guard
  imports Decision_Context Coupon_Policy
begin

text \<open>
  \<open>internal/agent/decision_guard.go\<close>: the facts the guard reads from the history and the rules it lays
  over the decision of the language model before anything is stored or granted. \<open>applyDecisionGuard\<close> takes
  the clock and the disk because the coupon suggestion comes from the policy provider, which may reload.
\<close>

section \<open>Facts\<close>

record decisionFacts =
  df_Score :: int
  df_HasAppeal :: bool
  df_Content :: gostring
  df_RAGAspects :: "gostring list"

definition zeroFacts :: decisionFacts where
  "zeroFacts = \<lparr>df_Score = 0, df_HasAppeal = False, df_Content = [], df_RAGAspects = []\<rparr>"

definition chunkAspect :: "json \<Rightarrow> gostring list" where
  "chunkAspect item = (case as_obj item of None \<Rightarrow> []
     | Some chunk \<Rightarrow> (let aspect = fieldString chunk ''aspect'' in if aspect \<noteq> [] then [aspect] else []))"

definition collectRAGAspects :: "jobject \<Rightarrow> gostring list" where
  "collectRAGAspects payload = (case objField payload ''rag'' of None \<Rightarrow> []
     | Some rag \<Rightarrow> (case as_arr (jget rag ''chunks'') of None \<Rightarrow> [] | Some vs \<Rightarrow> concat (map chunkAspect vs)))"

definition evidenceFacts :: "jobject \<Rightarrow> decisionFacts \<Rightarrow> decisionFacts" where
  "evidenceFacts evidence facts = facts \<lparr>
     df_Score := (if df_Score facts = 0 then to_int32 (fieldInt64 evidence ''score'') else df_Score facts),
     df_HasAppeal := df_HasAppeal facts \<or> fieldBool evidence ''hasAppeal'' \<or> fieldBool evidence ''has_appeal'',
     df_Content := (if df_Content facts = [] then fieldString evidence ''content'' else df_Content facts) \<rparr>"

definition factsStep :: "StepRecord \<Rightarrow> decisionFacts \<Rightarrow> decisionFacts" where
  "factsStep item facts = (case stepPayload item of None \<Rightarrow> facts
     | Some payload \<Rightarrow>
         if sr_ToolName item = ''get_review_evidence'' then
           (case objField payload ''evidence'' of Some evidence \<Rightarrow> evidenceFacts evidence facts | None \<Rightarrow> facts)
         else if sr_ToolName item = ''retrieve_rag'' then
           facts \<lparr> df_RAGAspects := df_RAGAspects facts @ collectRAGAspects payload \<rparr>
         else facts)"

definition extractDecisionFacts :: "StepRecord list \<Rightarrow> decisionFacts" where
  "extractDecisionFacts history = fold factsStep history zeroFacts"

definition qualityKeywords :: "gostring list" where
  "qualityKeywords = [bytes [0xE8, 0xB4, 0xA8, 0xE9, 0x87, 0x8F], bytes [0xE7, 0xA0, 0xB4, 0xE6, 0x8D, 0x9F], bytes [0xE6, 0x8E, 0x89, 0xE8, 0x89, 0xB2], bytes [0xE5, 0xBC, 0x82, 0xE5, 0x91, 0xB3],
     bytes [0xE6, 0x9D, 0x90, 0xE8, 0xB4, 0xA8], bytes [0xE5, 0x81, 0x9A, 0xE5, 0xB7, 0xA5], bytes [0xE7, 0x91, 0x95, 0xE7, 0x96, 0xB5], bytes [0xE7, 0xBC, 0xA9, 0xE6, 0xB0, 0xB4], ''quality'']"

definition hasQualitySignal :: "decisionFacts \<Rightarrow> bool" where
  "hasQualitySignal facts = (let content = ToLower (df_Content facts) in
     list_ex (\<lambda>keyword. Contains content (ToLower keyword)) qualityKeywords \<or>
     list_ex (\<lambda>aspect. EqualFold aspect ''QUALITY'') (df_RAGAspects facts))"

section \<open>The guard\<close>

definition appendMissingTag :: "gostring list \<Rightarrow> gostring \<Rightarrow> gostring list" where
  "appendMissingTag tags tag = (if list_ex (\<lambda>existing. EqualFold existing tag) tags then tags else tags @ [tag])"

definition appealReason :: gostring where
  "appealReason = bytes [0xE5, 0xBD, 0x93, 0xE5, 0x89, 0x8D, 0xE8, 0xAF, 0x84, 0xE4, 0xBB, 0xB7, 0xE5, 0xAD, 0x98, 
     0xE5, 0x9C, 0xA8, 0xE7, 0x94, 0xB3, 0xE8, 0xAF, 0x89, 0x2F, 0xE4, 0xBA, 0x89, 0xE8, 0xAE, 0xAE, 0xEF, 
     0xBC, 0x8C, 0xE5, 0x8E, 0x86, 0xE5, 0x8F, 0xB2, 0xE7, 0x9B, 0xB8, 0xE4, 0xBC, 0xBC, 0xE6, 0xA1, 0x88, 
     0xE4, 0xBE, 0x8B, 0xE4, 0xBB, 0x85, 0xE4, 0xBD, 0x9C, 0xE5, 0x8F, 0x82, 0xE8, 0x80, 0x83, 0xEF, 0xBC, 
     0x8C, 0xE4, 0xB8, 0x8D, 0xE5, 0xBE, 0x97, 0xE8, 0x87, 0xAA, 0xE5, 0x8A, 0xA8, 0xE5, 0x8F, 0x91, 0xE5, 
     0x88, 0xB8]"

definition qualityReason :: gostring where
  "qualityReason = bytes [0xE5, 0xBD, 0x93, 0xE5, 0x89, 0x8D, 0xE8, 0xAF, 0x84, 0xE4, 0xBB, 0xB7, 0xE4, 0xB8, 0xBA, 
     0xE4, 0xBD, 0x8E, 0xE5, 0x88, 0x86, 0xE8, 0xB4, 0xA8, 0xE9, 0x87, 0x8F, 0xE9, 0x97, 0xAE, 0xE9, 0xA2, 
     0x98, 0xEF, 0xBC, 0x8C, 0xE5, 0x8E, 0x86, 0xE5, 0x8F, 0xB2, 0xE8, 0xA1, 0xA5, 0xE5, 0x81, 0xBF, 0xE6, 
     0xA1, 0x88, 0xE4, 0xBE, 0x8B, 0xE4, 0xB8, 0x8D, 0xE8, 0x83, 0xBD, 0xE7, 0x9B, 0xB4, 0xE6, 0x8E, 0xA5, 
     0xE5, 0xA4, 0x8D, 0xE7, 0x94, 0xA8, 0xEF, 0xBC, 0x8C, 0xE9, 0x9C, 0x80, 0xE4, 0xBA, 0xBA, 0xE5, 0xB7, 
     0xA5, 0xE5, 0xA4, 0x8D, 0xE6, 0xA0, 0xB8]"

text \<open>The three rules that change the decision, in the order of the code: \<open>SUGGEST_COUPON\<close> becomes
  \<open>GRANT_COUPON\<close>; an appeal, and a low score with a quality problem, go to a human.\<close>

definition normalizeSuggest :: "Decision \<Rightarrow> Decision" where
  "normalizeSuggest d = (if EqualFold (d_Action d) ''SUGGEST_COUPON''
     then d \<lparr> d_Action := ''GRANT_COUPON'', d_PolicyTags := appendMissingTag (d_PolicyTags d) ''SUGGEST_COUPON_NORMALIZED'' \<rparr>
     else d)"

definition toManualReview :: "gostring \<Rightarrow> Decision \<Rightarrow> Decision" where
  "toManualReview scene d = d \<lparr> d_Action := ''MANUAL_REVIEW'', d_Scene := scene, d_NeedHumanReview := True,
     d_CouponSuggestion := [], d_PolicyTags := appendMissingTag (d_PolicyTags d) ''CURRENT_EVIDENCE_PRIORITY'' \<rparr>"

definition lowQuality :: "decisionFacts \<Rightarrow> bool" where
  "lowQuality facts \<longleftrightarrow> df_Score facts \<le> 2 \<and> hasQualitySignal facts"

definition guardReasons :: "decisionFacts \<Rightarrow> gostring list" where
  "guardReasons facts = (if df_HasAppeal facts then [appealReason] else []) @ (if lowQuality facts then [qualityReason] else [])"

definition explainGuard :: "gostring list \<Rightarrow> Decision \<Rightarrow> Decision" where
  "explainGuard reasons d =
     (let guardReason = (bytes [0x44, 0x65, 0x63, 0x69, 0x73, 0x69, 0x6F, 0x6E, 0x47, 0x75, 0x61, 0x72, 0x64, 0xE8, 0xB0, 
     0x83, 0xE6, 0x95, 0xB4, 0xEF, 0xBC, 0x9A]) @ Join reasons (bytes [0xEF, 0xBC, 0x9B]) in
      d \<lparr> d_PolicyTags := appendMissingTag (d_PolicyTags d) ''DECISION_GUARD'',
          d_Reasoning := (if blank (d_Reasoning d) then guardReason else d_Reasoning d @ '' '' @ guardReason),
          d_Reason := (if blank (d_Reason d) then guardReason else d_Reason d) \<rparr>)"

definition applyDecisionGuard ::
  "int \<Rightarrow> Disk \<Rightarrow> Decision \<Rightarrow> StepRecord list \<Rightarrow> CouponPolicyProvider option \<Rightarrow> Decision \<times> CouponPolicyProvider option" where
  "applyDecisionGuard now disk decision history policy =
     (let facts = extractDecisionFacts history;
          d1 = normalizeSuggest decision;
          d2 = (if df_HasAppeal facts then toManualReview ''DISPUTE_REVIEW'' d1 else d1);
          d3 = (if lowQuality facts then toManualReview ''HIGH_RISK_REVIEW'' d2 else d2);
          d4 = (if EqualFold (d_Action d3) ''MANUAL_REVIEW'' then d3 \<lparr> d_NeedHumanReview := True \<rparr> else d3);
          (suggestion, policy') = (if EqualFold (d_Action d4) ''GRANT_COUPON''
             then couponSuggestionForDecisionWithPolicy now disk (d_Scene d4) policy else ([], policy));
          d5 = d4 \<lparr> d_CouponSuggestion := suggestion \<rparr>
      in (if df_HasAppeal facts \<or> lowQuality facts then explainGuard (guardReasons facts) d5 else d5, policy'))"

section \<open>Lemmas\<close>

lemma appendMissingTag_has: "list_ex (\<lambda>existing. EqualFold existing tag) (appendMissingTag tags tag)"
  by (auto simp: appendMissingTag_def list_ex_iff)

lemma appendMissingTag_mono: "list_ex P tags \<Longrightarrow> list_ex P (appendMissingTag tags tag)"
  by (auto simp: appendMissingTag_def list_ex_iff)

lemma set_appendMissingTag: "set tags \<subseteq> set (appendMissingTag tags tag)" "set (appendMissingTag tags tag) \<subseteq> insert tag (set tags)"
  by (auto simp: appendMissingTag_def)

lemma appendMissingTag_idem: "appendMissingTag (appendMissingTag tags tag) tag = appendMissingTag tags tag"
  using appendMissingTag_has [of tag tags] by (simp add: appendMissingTag_def)

lemma guard_actions_differ [simp]:
  "\<not> EqualFold ''MANUAL_REVIEW'' ''GRANT_COUPON''" "\<not> EqualFold ''MANUAL_REVIEW'' ''SUGGEST_COUPON''"
  "\<not> EqualFold ''GRANT_COUPON'' ''MANUAL_REVIEW''" "\<not> EqualFold ''NO_COUPON'' ''GRANT_COUPON''"
  by code_simp+

lemma fold_grant_not_manual: "EqualFold a ''GRANT_COUPON'' \<Longrightarrow> \<not> EqualFold a ''MANUAL_REVIEW''"
  using EqualFold_trans [of "''GRANT_COUPON''" a "''MANUAL_REVIEW''"] EqualFold_sym by fastforce

lemma explainGuard_simps [simp]:
  "d_Action (explainGuard rs d) = d_Action d" "d_Scene (explainGuard rs d) = d_Scene d"
  "d_NeedHumanReview (explainGuard rs d) = d_NeedHumanReview d"
  "d_CouponSuggestion (explainGuard rs d) = d_CouponSuggestion d"
  "d_PolicyTags (explainGuard rs d) = appendMissingTag (d_PolicyTags d) ''DECISION_GUARD''"
  by (simp_all add: explainGuard_def Let_def)

lemma toManualReview_simps [simp]:
  "d_Action (toManualReview sc d) = ''MANUAL_REVIEW''" "d_Scene (toManualReview sc d) = sc"
  "d_NeedHumanReview (toManualReview sc d) = True" "d_CouponSuggestion (toManualReview sc d) = []"
  "d_PolicyTags (toManualReview sc d) = appendMissingTag (d_PolicyTags d) ''CURRENT_EVIDENCE_PRIORITY''"
  by (simp_all add: toManualReview_def)

text \<open>When neither rule fires, and when one does.\<close>

lemma guard_pass:
  assumes "\<not> df_HasAppeal (extractDecisionFacts history)" "\<not> lowQuality (extractDecisionFacts history)"
  shows "applyDecisionGuard now disk decision history policy =
    (let d = normalizeSuggest decision;
         (suggestion, policy') = (if EqualFold (d_Action d) ''GRANT_COUPON''
           then couponSuggestionForDecisionWithPolicy now disk (d_Scene d) policy else ([], policy))
     in (d \<lparr> d_NeedHumanReview := d_NeedHumanReview d \<or> EqualFold (d_Action d) ''MANUAL_REVIEW'',
             d_CouponSuggestion := suggestion \<rparr>, policy'))"
  using assms by (simp add: applyDecisionGuard_def Let_def split: prod.split)

lemma guard_block:
  assumes "df_HasAppeal (extractDecisionFacts history) \<or> lowQuality (extractDecisionFacts history)"
  shows "\<exists>d. fst (applyDecisionGuard now disk decision history policy) =
      explainGuard (guardReasons (extractDecisionFacts history))
        (d \<lparr> d_NeedHumanReview := True, d_CouponSuggestion := [] \<rparr>) \<and> d_Action d = ''MANUAL_REVIEW'' \<and>
      d_Scene d = (if lowQuality (extractDecisionFacts history) then ''HIGH_RISK_REVIEW'' else ''DISPUTE_REVIEW'') \<and>
      list_ex (\<lambda>existing. EqualFold existing ''CURRENT_EVIDENCE_PRIORITY'') (d_PolicyTags d) \<and>
      snd (applyDecisionGuard now disk decision history policy) = policy"
proof -
  let ?facts = "extractDecisionFacts history"
  define d3 where "d3 = (if lowQuality ?facts
      then toManualReview ''HIGH_RISK_REVIEW'' (if df_HasAppeal ?facts then toManualReview ''DISPUTE_REVIEW'' (normalizeSuggest decision) else normalizeSuggest decision)
      else if df_HasAppeal ?facts then toManualReview ''DISPUTE_REVIEW'' (normalizeSuggest decision) else normalizeSuggest decision)"
  have d3: "d_Action d3 = ''MANUAL_REVIEW''"
    "d_Scene d3 = (if lowQuality ?facts then ''HIGH_RISK_REVIEW'' else ''DISPUTE_REVIEW'')"
    "list_ex (\<lambda>existing. EqualFold existing ''CURRENT_EVIDENCE_PRIORITY'') (d_PolicyTags d3)"
    using assms by (auto simp: d3_def appendMissingTag_has)
  have "applyDecisionGuard now disk decision history policy =
      (explainGuard (guardReasons ?facts) (d3 \<lparr> d_NeedHumanReview := True, d_CouponSuggestion := [] \<rparr>), policy)"
    unfolding applyDecisionGuard_def Let_def d3_def [symmetric] using assms d3(1) by simp
  then show ?thesis using d3 by auto
qed

lemma normalizeSuggest_grant:
  "EqualFold (d_Action (normalizeSuggest d)) ''GRANT_COUPON'' \<longleftrightarrow>
     EqualFold (d_Action d) ''GRANT_COUPON'' \<or> EqualFold (d_Action d) ''SUGGEST_COUPON''"
  by (simp add: normalizeSuggest_def)

lemma guard_action:
  "EqualFold (d_Action (fst (applyDecisionGuard now disk decision history policy))) ''GRANT_COUPON'' \<longleftrightarrow>
     (EqualFold (d_Action decision) ''GRANT_COUPON'' \<or> EqualFold (d_Action decision) ''SUGGEST_COUPON'') \<and>
     \<not> df_HasAppeal (extractDecisionFacts history) \<and> \<not> lowQuality (extractDecisionFacts history)"
proof (cases "df_HasAppeal (extractDecisionFacts history) \<or> lowQuality (extractDecisionFacts history)")
  case True
  from guard_block [OF this, of now disk decision policy] True show ?thesis by auto
next
  case False
  then show ?thesis
    using normalizeSuggest_grant [of decision]
    by (simp add: guard_pass Let_def split: prod.split)
qed

section \<open>Properties\<close>

text \<open>C13: an appeal, and a low score with a quality problem, stop every automatic grant: whatever the language
  model decided, the guarded decision is MANUAL_REVIEW, flagged for a human, without a coupon suggestion,
  and tagged as changed by the guard.\<close>

theorem guard_forces_manual_review:
  assumes "df_HasAppeal (extractDecisionFacts history) \<or> lowQuality (extractDecisionFacts history)"
  shows "d_Action (fst (applyDecisionGuard now disk decision history policy)) = ''MANUAL_REVIEW'' \<and>
    d_NeedHumanReview (fst (applyDecisionGuard now disk decision history policy)) \<and>
    d_CouponSuggestion (fst (applyDecisionGuard now disk decision history policy)) = [] \<and>
    d_Scene (fst (applyDecisionGuard now disk decision history policy)) =
      (if lowQuality (extractDecisionFacts history) then ''HIGH_RISK_REVIEW'' else ''DISPUTE_REVIEW'') \<and>
    list_ex (\<lambda>t. EqualFold t ''DECISION_GUARD'') (d_PolicyTags (fst (applyDecisionGuard now disk decision history policy))) \<and>
    list_ex (\<lambda>t. EqualFold t ''CURRENT_EVIDENCE_PRIORITY'') (d_PolicyTags (fst (applyDecisionGuard now disk decision history policy)))"
proof -
  from guard_block [OF assms] obtain d where d:
    "fst (applyDecisionGuard now disk decision history policy) =
       explainGuard (guardReasons (extractDecisionFacts history)) (d \<lparr> d_NeedHumanReview := True, d_CouponSuggestion := [] \<rparr>)"
    "d_Action d = ''MANUAL_REVIEW''"
    "d_Scene d = (if lowQuality (extractDecisionFacts history) then ''HIGH_RISK_REVIEW'' else ''DISPUTE_REVIEW'')"
    "list_ex (\<lambda>t. EqualFold t ''CURRENT_EVIDENCE_PRIORITY'') (d_PolicyTags d)" by metis
  show ?thesis unfolding d(1) using d(2-4) by (simp add: appendMissingTag_has appendMissingTag_mono)
qed

text \<open>C14: the guard lets a grant through exactly when the model asked for one (GRANT_COUPON or its synonym
  SUGGEST_COUPON) and neither an appeal nor a low-score quality problem is on record; a decision it does
  not let through carries no coupon suggestion.\<close>

theorem guard_grant_iff:
  "(EqualFold (d_Action (fst (applyDecisionGuard now disk decision history policy))) ''GRANT_COUPON'' \<longleftrightarrow>
     (EqualFold (d_Action decision) ''GRANT_COUPON'' \<or> EqualFold (d_Action decision) ''SUGGEST_COUPON'') \<and>
     \<not> df_HasAppeal (extractDecisionFacts history) \<and> \<not> lowQuality (extractDecisionFacts history)) \<and>
   (\<not> EqualFold (d_Action (fst (applyDecisionGuard now disk decision history policy))) ''GRANT_COUPON'' \<longrightarrow>
     d_CouponSuggestion (fst (applyDecisionGuard now disk decision history policy)) = [])"
proof (cases "df_HasAppeal (extractDecisionFacts history) \<or> lowQuality (extractDecisionFacts history)")
  case True
  from guard_block [OF this, of now disk decision policy] guard_action [of now disk decision history policy]
  show ?thesis by auto
next
  case False
  then have "\<not> EqualFold (d_Action (normalizeSuggest decision)) ''GRANT_COUPON'' \<Longrightarrow>
      d_CouponSuggestion (fst (applyDecisionGuard now disk decision history policy)) = []"
    by (simp add: guard_pass Let_def)
  then show ?thesis
    using guard_action [of now disk decision history policy] normalizeSuggest_grant [of decision] False by blast
qed

section \<open>Witnesses\<close>

text \<open>JSON objects of string, number and bool members, written with \<open>q\<close> for the quotation mark.\<close>

definition q :: gostring where
  "q = [CHR 0x22]"

definition evidenceStep :: "gostring \<Rightarrow> StepRecord" where
  "evidenceStep members = \<lparr>sr_Step = 1, sr_ToolName = ''get_review_evidence'', sr_Action = ''tool_call'', sr_Arguments = [],
     sr_Output = ''{'' @ q @ ''evidence'' @ q @ '':{'' @ members @ ''}}'', sr_Error = []\<rparr>"

definition appealStep :: StepRecord where
  "appealStep = evidenceStep (q @ ''has_appeal'' @ q @ '':true'')"

definition grantDecision :: Decision where
  "grantDecision = zeroDecision \<lparr> d_Type := ''final'', d_Action := ''GRANT_COUPON'', d_Scene := ''FIRST_REVIEW'' \<rparr>"

lemma appeal_facts: "df_HasAppeal (extractDecisionFacts [appealStep])"
  by code_simp

lemma guard_forces_manual_review_witness:
  "d_Action (fst (applyDecisionGuard 0 demoDisk grantDecision [appealStep] None)) = ''MANUAL_REVIEW'' \<and>
   d_Scene (fst (applyDecisionGuard 0 demoDisk grantDecision [appealStep] None)) = ''DISPUTE_REVIEW''"
proof -
  have "\<not> lowQuality (extractDecisionFacts [appealStep])" by code_simp
  then show ?thesis
    using guard_forces_manual_review [of "[appealStep]" 0 demoDisk grantDecision None] appeal_facts by simp
qed

lemma guard_grant_iff_witness:
  "EqualFold (d_Action (fst (applyDecisionGuard 0 demoDisk grantDecision [] None))) ''GRANT_COUPON'' \<and>
   \<not> EqualFold (d_Action (fst (applyDecisionGuard 0 demoDisk grantDecision [appealStep] None))) ''GRANT_COUPON''"
proof -
  have "\<not> df_HasAppeal (extractDecisionFacts [])" "\<not> lowQuality (extractDecisionFacts [])" by code_simp+
  then show ?thesis
    using guard_grant_iff [of 0 demoDisk grantDecision "[]" None]
      guard_grant_iff [of 0 demoDisk grantDecision "[appealStep]" None] appeal_facts
    by (simp add: grantDecision_def zeroDecision_def)
qed

end
