(* ===== verification/Go_Json_Print.thy ===== *)
theory Go_Json_Print
  imports Go_Json
begin

text \<open>
  \<open>json.Marshal\<close> of the values the program builds, and the round trip: what it prints is parsed back
  as the same value. The members of a struct are printed in field order; those of a
  \<open>map[string]any\<close> in key order (\<open>mapobj\<close>).
\<close>

section \<open>Printing\<close>

definition hex_digit :: "nat \<Rightarrow> char" where
  "hex_digit n = (if n < 10 then char_of (48 + n) else char_of (87 + n))"

definition escape_chunk :: "nat \<times> gostring \<Rightarrow> gostring" where
  "escape_chunk rb = (let r = fst rb; bs = snd rb in
     if r = 0x22 \<or> r = 0x5C then bytes [0x5C, r]
     else if r = 8 then bytes [0x5C, 0x62] else if r = 12 then bytes [0x5C, 0x66]
     else if r = 10 then bytes [0x5C, 0x6E] else if r = 13 then bytes [0x5C, 0x72] else if r = 9 then bytes [0x5C, 0x74]
     else if r < 0x20 \<or> r = 0x3C \<or> r = 0x3E \<or> r = 0x26
       then bytes [0x5C] @ ''u00'' @ [hex_digit (r div 16), hex_digit (r mod 16)]
     else if r = 0x2028 \<or> r = 0x2029 then bytes [0x5C] @ ''u202'' @ [hex_digit (r mod 16)]
     else if r = RuneError \<and> length bs = 1 then bytes [0x5C] @ ''ufffd''
     else bs)"

definition json_string :: "gostring \<Rightarrow> gostring" where
  "json_string s = bytes [0x22] @ concat (map escape_chunk (chunks s)) @ bytes [0x22]"

text \<open>An integer field prints its digits. A \<open>float64\<close> is first brought to its shortest digits
  (\<open>float_json\<close>) and printed in the form \<open>encoding/json\<close> chooses.\<close>

definition print_num :: "int \<Rightarrow> int \<Rightarrow> gostring" where
  "print_num m e = (if e = 0 then show_int m else
     let ds = show_nat (nat \<bar>m\<bar>); dp = int (length ds) + e in
     (if m < 0 then ''-'' else []) @
     (if dp - 1 < -6 \<or> dp - 1 \<ge> 21
      then (take 1 ds @ (if length ds \<le> 1 then [] else CHR ''.'' # drop 1 ds)) @ ''e'' @
           (if dp - 1 < 0 then ''-'' else ''+'') @ show_int \<bar>dp - 1\<bar>
      else fixed_digits ds dp))"

definition float_json :: "int \<Rightarrow> int \<Rightarrow> json" where
  "float_json m e = (case f64_of_lit m e of None \<Rightarrow> JNull | Some mk \<Rightarrow>
     (let (ds, dp) = shortest mk; d = int (read_nat ds) in JNum (if m < 0 then - d else d) (dp - int (length ds))))"

fun json_text :: "json \<Rightarrow> gostring" where
  "json_text JNull = ''null''"
| "json_text (JBool b) = (if b then ''true'' else ''false'')"
| "json_text (JNum m e) = print_num m e"
| "json_text (JStr s) = json_string s"
| "json_text (JArr vs) = ''['' @ Join (map json_text vs) '','' @ '']''"
| "json_text (JObj kvs) = ''{'' @ Join (map (\<lambda>kv. json_string (fst kv) @ '':'' @ json_text (snd kv)) kvs) '','' @ ''}''"

definition mapobj :: "jobject \<Rightarrow> json" where
  "mapobj kvs = JObj (map_entries kvs)"

section \<open>The round trip\<close>

definition valid_utf8 :: "gostring \<Rightarrow> bool" where
  "valid_utf8 s \<longleftrightarrow> sanitize s = s"

text \<open>A value as it is read back from its print: a \<open>float64\<close> that prints as a plain integer becomes one.\<close>

definition canonNum :: "int \<Rightarrow> int \<Rightarrow> json" where
  "canonNum m e = (if 0 < e \<and> int (length (show_nat (nat \<bar>m\<bar>))) + e \<le> 21 then JNum (m * 10 ^ nat e) 0 else JNum m e)"

fun canon :: "json \<Rightarrow> json" where
  "canon (JNum m e) = canonNum m e"
| "canon (JArr vs) = JArr (map canon vs)"
| "canon (JObj kvs) = JObj (map (\<lambda>kv. (fst kv, canon (snd kv))) kvs)"
| "canon v = v"

text \<open>The values the printer is made for: texts of valid UTF-8, and no zero with a positive exponent.\<close>

fun wf_json :: "json \<Rightarrow> bool" where
  "wf_json (JNum m e) \<longleftrightarrow> m \<noteq> 0 \<or> e \<le> 0"
| "wf_json (JStr s) \<longleftrightarrow> valid_utf8 s"
| "wf_json (JArr vs) \<longleftrightarrow> (\<forall>v \<in> set vs. wf_json v)"
| "wf_json (JObj kvs) \<longleftrightarrow> (\<forall>kv \<in> set kvs. valid_utf8 (fst kv) \<and> wf_json (snd kv))"
| "wf_json v \<longleftrightarrow> True"

lemma canonNum_int [simp]: "canonNum m 0 = JNum m 0"
  by (simp add: canonNum_def)

subsection \<open>Strings\<close>

lemma encodeRune_ascii: "r < 0x80 \<Longrightarrow> encodeRune r = [char_of r]"
  by (simp add: encodeRune_def validRune_def bytes_def)

lemma encodeRune_high: "validRune r \<Longrightarrow> 0x80 \<le> r \<Longrightarrow> c \<in> set (encodeRune r) \<Longrightarrow> 0x80 \<le> byte c"
proof -
  assume v: "validRune r" and h: "0x80 \<le> r" and c: "c \<in> set (encodeRune r)"
  have m: "x mod 64 < 64" for x :: nat by simp
  have b: "(128 + x mod 64) < (256 :: nat)" for x using m [of x] by linarith
  from v have r: "r \<le> 0x10FFFF" by (auto simp: validRune_def)
  show ?thesis
    using v h r c m b
    by (auto simp: encodeRune_def bytes_def Let_def split: if_splits)
qed

lemma chunks_valid_utf8: "valid_utf8 s \<Longrightarrow> chunks s = map (\<lambda>r. (r, encodeRune r)) (runes s)"
  using chunks_of_runes [of "runes s" "[]"] chunks_valid
  by (simp add: valid_utf8_def sanitize_def)

lemma pstr_raw: "\<forall>c \<in> set bs. 0x80 \<le> byte c \<Longrightarrow> pstr (bs @ t) = map_option (apfst ((@) bs)) (pstr t)"
proof (induction bs)
  case Nil
  show ?case by (cases "pstr t") auto
next
  case (Cons c cs)
  then show ?case
    by (auto simp: option.map_comp comp_def intro!: option.map_cong0)
qed

lemma hexval_hex_digit: "n < 16 \<Longrightarrow> hexval (hex_digit n) = Some n"
  by (auto simp: hexval_def hex_digit_def in_rng_def)

lemma hex4_digits:
  "a < 16 \<Longrightarrow> b < 16 \<Longrightarrow> hex4 (CHR ''0'' # CHR ''0'' # hex_digit a # hex_digit b # t) = Some (a * 16 + b, t)"
  by (simp add: hexval_hex_digit) (simp add: hexval_def in_rng_def)

lemma pstr_u00:
  assumes "r < 0x80"
  shows "pstr (bytes [0x5C] @ ''u00'' @ [hex_digit (r div 16), hex_digit (r mod 16)] @ t) =
    map_option (apfst ((@) [char_of r])) (pstr t)"
proof -
  have "r div 16 < 16" "r mod 16 < 16" using assms by auto
  from hex4_digits [OF this, of t] assms show ?thesis
    by (simp add: bytes_def high_surr_def in_rng_def encodeRune_ascii del: hex4.simps)
qed

lemma pstr_escape:
  assumes "validRune r"
  shows "pstr (escape_chunk (r, encodeRune r) @ t) = map_option (apfst ((@) (encodeRune r))) (pstr t)"
proof (cases "r < 0x80")
  case True
  have e: "encodeRune r = [char_of r]" using True by (rule encodeRune_ascii)
  have ap: "apfst ((@) [c]) = apfst ((#) c)" for c :: char
    by (rule ext) auto
  consider (a) "r = 0x22 \<or> r = 0x5C" | (b) "r = 8 \<or> r = 12 \<or> r = 10 \<or> r = 13 \<or> r = 9"
    | (c) "r \<noteq> 0x22" "r \<noteq> 0x5C" "\<not> (r = 8 \<or> r = 12 \<or> r = 10 \<or> r = 13 \<or> r = 9)"
          "r < 0x20 \<or> r = 0x3C \<or> r = 0x3E \<or> r = 0x26"
    | (d) "r \<noteq> 0x22" "r \<noteq> 0x5C" "\<not> (r < 0x20 \<or> r = 0x3C \<or> r = 0x3E \<or> r = 0x26)"
    by blast
  then show ?thesis
  proof cases
    case a
    then show ?thesis
      unfolding e ap by (auto simp: escape_chunk_def bytes_def simple_escape_def char_of_eq)
  next
    case b
    then show ?thesis
      unfolding e ap by (auto simp: escape_chunk_def bytes_def simple_escape_def char_of_eq)
  next
    case c
    then have "escape_chunk (r, encodeRune r) = bytes [0x5C] @ ''u00'' @ [hex_digit (r div 16), hex_digit (r mod 16)]"
      by (simp add: escape_chunk_def Let_def)
    with pstr_u00 [OF True, of t] show ?thesis unfolding e by simp
  next
    case d
    then have "escape_chunk (r, encodeRune r) = [char_of r]"
      using True by (simp add: escape_chunk_def e RuneError_def)
    with d True show ?thesis unfolding e ap by simp
  qed
next
  case False
  show ?thesis
  proof (cases "r = 0x2028 \<or> r = 0x2029")
    case True
    then show ?thesis
      by (auto simp: escape_chunk_def bytes_def RuneError_def hex_digit_def hexval_def in_rng_def high_surr_def)
  next
    case F2: False
    have "length (encodeRune RuneError) = 3" by (simp add: encodeRune_def bytes_def RuneError_def validRune_def)
    then have "escape_chunk (r, encodeRune r) = encodeRune r"
      using False F2 by (auto simp: escape_chunk_def Let_def)
    with pstr_raw [of "encodeRune r" t] encodeRune_high [OF assms] False show ?thesis by simp
  qed
qed

lemma pstr_escapes:
  "\<forall>r \<in> set rs. validRune r \<Longrightarrow>
   pstr (concat (map escape_chunk (map (\<lambda>r. (r, encodeRune r)) rs)) @ t) = map_option (apfst ((@) (of_runes rs))) (pstr t)"
proof (induction rs)
  case Nil
  show ?case by (cases "pstr t") auto
next
  case (Cons r rs)
  then have "pstr (escape_chunk (r, encodeRune r) @ concat (map escape_chunk (map (\<lambda>r. (r, encodeRune r)) rs)) @ t) =
    map_option (apfst ((@) (encodeRune r))) (map_option (apfst ((@) (of_runes rs))) (pstr t))"
    using pstr_escape by simp
  then show ?case by (cases "pstr t") (auto simp: of_runes_def)
qed

lemma pstring_json_string:
  assumes "valid_utf8 s"
  shows "pstring (tl (json_string s) @ rest) = Some (s, rest)"
proof -
  have "tl (json_string s) @ rest =
      concat (map escape_chunk (map (\<lambda>r. (r, encodeRune r)) (runes s))) @ char_of (0x22 :: nat) # rest"
    by (simp add: json_string_def bytes_def chunks_valid_utf8 [OF assms])
  moreover have "pstr (char_of (0x22 :: nat) # rest) = Some ([], rest)" by simp
  ultimately have "pstr (tl (json_string s) @ rest) = Some (of_runes (runes s), rest)"
    using pstr_escapes [of "runes s" "char_of (0x22 :: nat) # rest"] chunks_valid by (simp del: pstr.simps)
  then show ?thesis using assms by (simp add: pstring_def valid_utf8_def sanitize_def)
qed

subsection \<open>Numbers\<close>

definition delim :: "gostring \<Rightarrow> bool" where
  "delim s \<longleftrightarrow> (case s of [] \<Rightarrow> True | c # _ \<Rightarrow> c = CHR '','' \<or> c = CHR '']'' \<or> c = CHR ''}'' \<or> is_ws c)"

lemma show_nat_digit_list: "list_all is_digit (show_nat n)"
  using show_nat_digits by (auto simp: list_all_iff)

lemma takeWhile_digits: "list_all is_digit ds \<Longrightarrow> delim rest \<Longrightarrow>
    takeWhile is_digit (ds @ rest) = ds \<and> dropWhile is_digit (ds @ rest) = rest"
proof -
  assume l: "list_all is_digit ds" and d: "delim rest"
  have "takeWhile is_digit rest = [] \<and> dropWhile is_digit rest = rest"
    using d by (cases rest) (auto simp: delim_def is_digit_def in_rng_def is_ws_def)
  with l show ?thesis by (simp add: list_all_iff takeWhile_append2 dropWhile_append2)
qed

lemma show_nat_hd0: "hd (show_nat n) = CHR ''0'' \<Longrightarrow> n = 0"
proof (induction n rule: show_nat.induct)
  case (1 n)
  show ?case
  proof (cases "n < 10")
    case True
    with 1(2) show ?thesis by (simp add: show_nat.simps [of n] char_of_eq)
  next
    case False
    then have "hd (show_nat n) = hd (show_nat (n div 10))"
      by (simp add: show_nat.simps [of n])
    with 1 False have "n div 10 = 0" by simp
    with False show ?thesis by simp
  qed
qed

lemma pint_show_nat: "delim rest \<Longrightarrow> pint (show_nat n @ rest) = Some (show_nat n, rest)"
proof (cases "n = 0")
  case True
  then show ?thesis by (simp add: pint_def show_nat.simps [of 0] char_of_eq)
next
  case False
  assume d: "delim rest"
  obtain c cs where s: "show_nat n = c # cs" using show_nat_nonempty by (cases "show_nat n") auto
  from False show_nat_hd0 [of n] s have "c \<noteq> CHR ''0''" by auto
  moreover have "is_digit c" using show_nat_digits [of c n] s by simp
  ultimately have "pint (show_nat n @ rest) =
      Some (takeWhile is_digit (show_nat n @ rest), dropWhile is_digit (show_nat n @ rest))"
    by (simp add: pint_def s)
  with takeWhile_digits [OF show_nat_digit_list d] show ?thesis by simp
qed

lemma pfrac_delim: "delim s \<Longrightarrow> pfrac s = Some ([], s)"
  by (cases s) (auto simp: delim_def pfrac_def is_ws_def)

lemma pexp_delim: "delim s \<Longrightarrow> pexp s = Some (0, s)"
  by (cases s) (auto simp: delim_def pexp_def is_ws_def)

lemma pnum_body:
  assumes "pint (c # cs) = Some (ds, s2)" "pfrac s2 = Some (fs, s3)" "pexp s3 = Some (x, s4)" "c \<noteq> CHR ''-''"
    "read_nat (ds @ fs) = nat \<bar>m\<bar>" "e = x - int (length fs)"
  shows "pnum ((if m < 0 then ''-'' else []) @ c # cs) =
    Some (if e = 0 \<and> (fs \<noteq> [] \<or> s4 \<noteq> s3) then JNum (10 * m) (-1) else JNum m e, s4)"
  using assms by (simp add: pnum_def)

lemma read_nat_append_zeros: "read_nat (ds @ zeros k) = read_nat ds * 10 ^ nat k"
proof -
  have "read_nat (ds @ replicate n (CHR ''0'')) = read_nat ds * 10 ^ n" for n
  proof (induction n)
    case (Suc n)
    have "replicate (Suc n) (CHR ''0'') = replicate n (CHR ''0'') @ [CHR ''0'']" by (simp add: replicate_append_same)
    with Suc show ?case by (simp add: read_nat_def)
  qed simp
  then show ?thesis by (simp add: zeros_def)
qed

lemma read_nat_zeros_append: "read_nat (CHR ''0'' # zeros k @ ds) = read_nat ds"
proof -
  have "foldl (\<lambda>n c. 10 * n + (byte c - 48)) 0 (replicate n (CHR ''0'')) = 0" for n
    by (induction n) simp_all
  then show ?thesis by (simp add: read_nat_def zeros_def)
qed

lemma digits_zeros: "list_all is_digit (zeros k)"
  by (simp add: zeros_def list_all_iff is_digit_def in_rng_def)

text \<open>What may follow a run of digits.\<close>

definition stops :: "gostring \<Rightarrow> bool" where
  "stops s \<longleftrightarrow> (case s of [] \<Rightarrow> True | c # _ \<Rightarrow> \<not> is_digit c)"

lemma stops_delim: "delim s \<Longrightarrow> stops s"
  by (cases s) (auto simp: delim_def stops_def is_digit_def in_rng_def is_ws_def)

lemma takeWhile_stops: "list_all is_digit ds \<Longrightarrow> stops rest \<Longrightarrow>
    takeWhile is_digit (ds @ rest) = ds \<and> dropWhile is_digit (ds @ rest) = rest"
  by (cases rest) (auto simp: stops_def list_all_iff takeWhile_append2 dropWhile_append2)

lemma pint_digits:
  assumes "list_all is_digit (c # cs)" "c \<noteq> CHR ''0''" "stops rest"
  shows "pint ((c # cs) @ rest) = Some (c # cs, rest)"
  using assms takeWhile_stops [OF assms(1,3)] by (simp add: pint_def)

lemma pfrac_digits: "list_all is_digit ds \<Longrightarrow> ds \<noteq> [] \<Longrightarrow> stops rest \<Longrightarrow> pfrac (CHR ''.'' # ds @ rest) = Some (ds, rest)"
  using takeWhile_stops [of ds rest] by (simp add: pfrac_def)

lemma pexp_digits:
  assumes "delim rest"
  shows "pexp (CHR ''e'' # (if x < 0 then ''-'' else ''+'') @ show_int \<bar>x\<bar> @ rest) = Some (x, rest)"
proof -
  note d = takeWhile_stops [OF show_nat_digit_list stops_delim [OF assms]]
  show ?thesis
    by (cases "x < 0") (simp_all add: pexp_def show_int_def read_show_nat d Let_def)
qed

lemma pfrac_e: "pfrac (CHR ''e'' # s) = Some ([], CHR ''e'' # s)"
  by (simp add: pfrac_def)

lemma pnum_show_int:
  assumes "delim rest"
  shows "pnum (show_int i @ rest) = Some (JNum i 0, rest)"
proof -
  have n: "(case show_nat k @ rest of c # cs \<Rightarrow> if c = CHR ''-'' then (True, cs) else (False, show_nat k @ rest)
      | [] \<Rightarrow> (False, [])) = (False, show_nat k @ rest)" for k
    using show_nat_nonempty [of k] show_nat_no_minus [of k] by (cases "show_nat k") auto
  show ?thesis
    using assms n
    by (simp add: pnum_def show_int_def pint_show_nat pfrac_delim pexp_delim read_show_nat)
qed

lemma pnum_print:
  assumes "delim rest" "m \<noteq> 0 \<or> e \<le> 0"
  shows "\<exists>n f. canonNum m e = JNum n f \<and> pnum (print_num m e @ rest) = Some (JNum n f, rest)"
proof (cases "e = 0")
  case True
  with assms(1) pnum_show_int show ?thesis by (simp add: print_num_def)
next
  case e: False
  let ?ds = "show_nat (nat \<bar>m\<bar>)"
  obtain c cs where ds: "?ds = c # cs" by (cases ?ds) auto
  have dl: "list_all is_digit (c # cs)" using show_nat_digit_list [of "nat \<bar>m\<bar>"] ds by simp
  have c: "is_digit c" "c \<noteq> CHR ''-''" using dl digit_not_minus [of c] by auto
  have rd: "read_nat (c # cs) = nat \<bar>m\<bar>" using read_show_nat [of "nat \<bar>m\<bar>"] ds by simp
  have c0: "c = CHR ''0'' \<Longrightarrow> m = 0 \<and> cs = []"
  proof -
    assume "c = CHR ''0''"
    then have "m = 0" using show_nat_hd0 [of "nat \<bar>m\<bar>"] ds by simp
    then show ?thesis using ds by (simp add: show_nat.simps [of 0])
  qed
  let ?dp = "int (length ?ds) + e"
  let ?sgn = "if m < 0 then ''-'' else []"
  consider (exp) "?dp - 1 < -6 \<or> ?dp - 1 \<ge> 21" | (small) "-6 \<le> ?dp - 1" "?dp \<le> 0" | (mid) "0 < ?dp" "?dp \<le> 21" "e < 0"
    | (big) "?dp \<le> 21" "0 < e"
    using e by linarith
  then show ?thesis
  proof cases
    case exp
    let ?x = "?dp - 1"
    let ?t = "CHR ''e'' # (if ?x < 0 then ''-'' else ''+'') @ show_int \<bar>?x\<bar> @ rest"
    have pr: "print_num m e @ rest = ?sgn @ c # (if cs = [] then [] else CHR ''.'' # cs) @ ?t"
      using exp e ds by (auto simp: print_num_def Let_def)
    have p: "pint (c # (if cs = [] then [] else CHR ''.'' # cs) @ ?t) = Some ([c], (if cs = [] then [] else CHR ''.'' # cs) @ ?t)"
    proof (cases "c = CHR ''0''")
      case True
      with c0 show ?thesis by (simp add: pint_def)
    next
      case False
      then show ?thesis using pint_digits [of c "[]" "(if cs = [] then [] else CHR ''.'' # cs) @ ?t"] c
        by (simp add: stops_def is_digit_def in_rng_def)
    qed
    have f: "pfrac ((if cs = [] then [] else CHR ''.'' # cs) @ ?t) = Some (cs, ?t)"
      using pfrac_digits [of cs ?t] dl by (auto simp: pfrac_e stops_def is_digit_def in_rng_def)
    have x: "pexp ?t = Some (?x, rest)" using pexp_digits [OF assms(1), of ?x] by simp
    have "?t \<noteq> rest" by (metis append.assoc append_Cons length_append length_Cons less_irrefl less_add_Suc2 add_Suc_right)
    then have "pnum (print_num m e @ rest) = Some (JNum m e, rest)"
      unfolding pr using pnum_body [OF p f x c(2), of m e] rd ds e by simp
    moreover have "canonNum m e = JNum m e" using exp ds by (auto simp: canonNum_def)
    ultimately show ?thesis by blast
  next
    case small
    let ?f = "zeros (- ?dp) @ c # cs"
    have pr: "print_num m e @ rest = ?sgn @ CHR ''0'' # (CHR ''.'' # ?f @ rest)"
      using small e ds by (simp add: print_num_def Let_def fixed_digits_def)
    have p: "pint (CHR ''0'' # (CHR ''.'' # ?f @ rest)) = Some (''0'', CHR ''.'' # ?f @ rest)" by (simp add: pint_def)
    have f: "pfrac (CHR ''.'' # ?f @ rest) = Some (?f, rest)"
      using dl digits_zeros [of "- ?dp"] by (intro pfrac_digits stops_delim assms(1)) auto
    have "length ?f = nat (- ?dp) + length ?ds" by (simp add: zeros_def ds)
    then have "e = 0 - int (length ?f)" using small by simp
    then have "pnum (print_num m e @ rest) = Some (JNum m e, rest)"
      unfolding pr using pnum_body [OF p f pexp_delim [OF assms(1)], of m e] rd e read_nat_zeros_append [of "- ?dp" "c # cs"]
      by simp
    moreover have "canonNum m e = JNum m e" using small e by (auto simp: canonNum_def)
    ultimately show ?thesis by blast
  next
    case mid
    let ?k = "nat ?dp"
    have k: "0 < ?k" "?k < length ?ds" using mid by auto
    obtain k' where k': "?k = Suc k'" using k(1) gr0_conv_Suc by blast
    let ?i = "c # take k' cs" and ?f = "drop ?k (c # cs)"
    have split: "?i @ ?f = c # cs" by (simp add: k')
    have "\<not> int (length ?ds) \<le> ?dp" "\<not> ?dp \<le> 0" using mid by auto
    then have pr: "print_num m e @ rest = ?sgn @ c # (take k' cs @ CHR ''.'' # ?f @ rest)"
      using mid e ds k' by (simp add: print_num_def Let_def fixed_digits_def)
    have nz: "c \<noteq> CHR ''0''" using c0 k ds k' by auto
    have da: "list_all is_digit (?i @ ?f)" unfolding split by (rule dl)
    have d: "list_all is_digit ?i" "list_all is_digit ?f" using da unfolding list_all_append by blast+
    have p: "pint (c # (take k' cs @ CHR ''.'' # ?f @ rest)) = Some (?i, CHR ''.'' # ?f @ rest)"
      using pint_digits [OF d(1) nz, of "CHR ''.'' # ?f @ rest"] by (simp add: stops_def is_digit_def in_rng_def)
    have f: "pfrac (CHR ''.'' # ?f @ rest) = Some (?f, rest)"
      using d k ds by (intro pfrac_digits stops_delim assms(1)) auto
    have "e = 0 - int (length ?f)" using mid k ds by (simp add: of_nat_diff)
    then have "pnum (print_num m e @ rest) = Some (JNum m e, rest)"
      unfolding pr using pnum_body [OF p f pexp_delim [OF assms(1)] c(2), of m e] rd e split by simp
    moreover have "canonNum m e = JNum m e" using mid by (auto simp: canonNum_def)
    ultimately show ?thesis by blast
  next
    case big
    have m: "m \<noteq> 0" using assms(2) big by simp
    then have nz: "c \<noteq> CHR ''0''" using c0 by blast
    have le: "\<not> ?dp \<le> 0" "int (length ?ds) \<le> ?dp" "?dp - int (length ?ds) = e" using big by auto
    then have pr: "print_num m e @ rest = ?sgn @ c # (cs @ zeros e @ rest)"
      using big e ds by (simp add: print_num_def Let_def fixed_digits_def)
    have dz: "list_all is_digit ((c # cs) @ zeros e)" using dl digits_zeros by simp
    have p: "pint (c # (cs @ zeros e @ rest)) = Some (c # cs @ zeros e, rest)"
      using pint_digits [of c "cs @ zeros e" rest] dz nz stops_delim [OF assms(1)] by simp
    have "read_nat (c # cs @ zeros e) = nat \<bar>m * 10 ^ nat e\<bar>"
      using read_nat_append_zeros [of "c # cs" e] rd by (simp add: abs_mult nat_mult_distrib nat_power_eq)
    moreover have "(if m * 10 ^ nat e < 0 then ''-'' else []) = ?sgn" by (simp add: mult_less_0_iff)
    ultimately have "pnum (print_num m e @ rest) = Some (JNum (m * 10 ^ nat e) 0, rest)"
      unfolding pr using pnum_body [OF p pfrac_delim [OF assms(1)] pexp_delim [OF assms(1)] c(2), of "m * 10 ^ nat e" 0] by simp
    moreover have "canonNum m e = JNum (m * 10 ^ nat e) 0" using big by (simp add: canonNum_def)
    ultimately show ?thesis by blast
  qed
qed

subsection \<open>Values\<close>

text \<open>The first character of a printed value.\<close>

definition value_start :: "char \<Rightarrow> bool" where
  "value_start c \<longleftrightarrow> \<not> is_ws c \<and> byte c \<noteq> 0x7D \<and> byte c \<noteq> 0x5D"

lemma show_int_start: "\<exists>c cs. show_int i = c # cs \<and> (c = CHR ''-'' \<or> is_digit c)"
proof (cases "i < 0")
  case True
  then show ?thesis by (simp add: show_int_def)
next
  case False
  then show ?thesis
    using show_nat_nonempty [of "nat i"] show_nat_digits [of _ "nat i"]
    by (cases "show_nat (nat i)") (auto simp: show_int_def)
qed

lemma digit_start: "c = CHR ''-'' \<or> is_digit c \<Longrightarrow>
  value_start c \<and> byte c \<noteq> 0x7B \<and> byte c \<noteq> 0x5B \<and> byte c \<noteq> 0x22 \<and> c \<noteq> CHR ''t'' \<and> c \<noteq> CHR ''f'' \<and> c \<noteq> CHR ''n''"
  by (auto simp: value_start_def is_ws_def is_digit_def in_rng_def)

lemma print_num_start: "\<exists>c cs. print_num m e = c # cs \<and> (c = CHR ''-'' \<or> is_digit c)"
proof (cases "e = 0")
  case True
  with show_int_start show ?thesis by (simp add: print_num_def)
next
  case False
  obtain d ds where d: "show_nat (nat \<bar>m\<bar>) = d # ds" by (cases "show_nat (nat \<bar>m\<bar>)") auto
  have "is_digit d" using show_nat_digits [of d "nat \<bar>m\<bar>"] d by simp
  moreover have "is_digit (CHR ''0'')" by (simp add: is_digit_def in_rng_def)
  moreover have "\<exists>k. nat (int (Suc (length ds)) + e) = Suc k" if "0 < int (Suc (length ds)) + e"
    using that by (metis gr0_conv_Suc zero_less_nat_eq)
  ultimately show ?thesis using False d by (auto simp: print_num_def Let_def fixed_digits_def)
qed

lemma json_text_start: "\<exists>c cs. json_text v = c # cs \<and> value_start c"
proof (cases v)
  case (JNum m e)
  with print_num_start [of m e] digit_start show ?thesis by fastforce
qed (auto simp: value_start_def is_ws_def json_string_def bytes_def)

lemma skip_ws_start: "value_start c \<Longrightarrow> skip_ws (c # cs) = c # cs"
  by (simp add: skip_ws_def value_start_def)

lemma after_start: "value_start c \<Longrightarrow> after 0x7D (c # cs) = None \<and> after 0x5D (c # cs) = None"
  by (simp add: after_def skip_ws_start) (simp add: value_start_def)

lemma after_self: "\<not> is_ws c \<Longrightarrow> after (byte c) (c # cs) = Some cs"
  by (simp add: after_def skip_ws_def)

lemma after_other: "\<not> is_ws c \<Longrightarrow> byte c \<noteq> b \<Longrightarrow> after b (c # cs) = None"
  by (simp add: after_def skip_ws_def)

lemma json_string_Cons: "json_string s = char_of (0x22 :: nat) # tl (json_string s)"
  by (simp add: json_string_def bytes_def)

text \<open>\<open>reads s v\<close>: whatever delimiter follows, some fuel parses the text \<open>s\<close> as \<open>v\<close>.\<close>

definition reads :: "gostring \<Rightarrow> json \<Rightarrow> bool" where
  "reads s v \<longleftrightarrow> (\<exists>c cs. s = c # cs \<and> value_start c) \<and> (\<forall>rest. delim rest \<longrightarrow> (\<exists>n. pvalue n (s @ rest) = Some (v, rest)))"

lemma readsD: "reads s v \<Longrightarrow> delim rest \<Longrightarrow> \<exists>n. pvalue n (s @ rest) = Some (v, rest)"
  by (simp add: reads_def del: pvalue.simps)

lemma reads_start: "reads s v \<Longrightarrow> \<exists>c cs. s = c # cs \<and> value_start c"
  by (simp add: reads_def del: pvalue.simps)

lemma delim_chars [simp]: "delim []" "delim (CHR '','' # s)" "delim (CHR '']'' # s)" "delim (CHR ''}'' # s)"
  by (simp_all add: delim_def)

lemma after_comma: "after 0x2C (CHR '','' # s) = Some s"
  using after_self [of "CHR '',''" s] by (simp add: is_ws_def)

lemma pvalue_grow: "pvalue n s = Some w \<Longrightarrow> pvalue (n + k) s = Some w"
  by (erule pvalue_mono [rotated]) simp

lemma pelems_mono: "pelems n s = Some w \<Longrightarrow> pelems (n + k) s = Some w"
proof (induction k)
  case (Suc k)
  then show ?case using parser_mono_step [of "n + k" s] by (simp del: pelems.simps)
qed simp

lemma pmembers_mono: "pmembers n s = Some w \<Longrightarrow> pmembers (n + k) s = Some w"
proof (induction k)
  case (Suc k)
  then show ?case using parser_mono_step [of "n + k" s] by (simp del: pmembers.simps)
qed simp

text \<open>White space between the tokens does not matter.\<close>

abbreviation spaces :: "gostring \<Rightarrow> bool" where
  "spaces w \<equiv> list_all is_ws w"

lemma skip_ws_spaces: "spaces w \<Longrightarrow> skip_ws (w @ s) = skip_ws s"
  by (induction w) (simp_all add: skip_ws_def)

lemma after_spaces: "spaces w \<Longrightarrow> after b (w @ s) = after b s"
  by (simp add: after_def skip_ws_spaces)

lemma pvalue_spaces: "spaces w \<Longrightarrow> pvalue n (w @ s) = pvalue n s"
  by (cases n) (simp_all add: skip_ws_spaces)

lemma pelems_spaces: "spaces w \<Longrightarrow> pelems n (w @ s) = pelems n s"
  by (cases n) (simp_all add: pvalue_spaces del: pvalue.simps)

lemma pmembers_spaces: "spaces w \<Longrightarrow> pmembers n (w @ s) = pmembers n s"
  by (cases n) (simp_all add: after_spaces del: pvalue.simps)

lemma delim_spaces: "spaces w \<Longrightarrow> delim s \<Longrightarrow> delim (w @ s)"
  by (cases w) (simp_all add: delim_def)

lemma pelems_layout:
  assumes "vs \<noteq> []" "\<forall>v \<in> set vs. reads (P v) (C v)" "spaces w" "spaces u"
  shows "\<exists>n. pelems n (Join (map P vs) ('','' @ w) @ u @ '']'' @ rest) = Some (map C vs, rest)"
  using assms(1,2)
proof (induction vs)
  case Nil
  then show ?case by simp
next
  case (Cons v vs)
  show ?case
  proof (cases vs)
    case Nil
    obtain n where "pvalue n (P v @ u @ '']'' @ rest) = Some (C v, u @ '']'' @ rest)"
      using Cons.prems readsD [of "P v" "C v" "u @ '']'' @ rest"] delim_spaces [OF assms(4)] by (auto simp del: pvalue.simps)
    moreover have "after 0x2C (u @ '']'' @ rest) = None" "after 0x5D (u @ '']'' @ rest) = Some rest"
      by (simp_all add: after_spaces assms(4)) (simp_all add: after_def skip_ws_def is_ws_def)
    ultimately have "pelems (Suc n) (P v @ u @ '']'' @ rest) = Some ([C v], rest)"
      by (simp del: pvalue.simps)
    with Nil show ?thesis by (intro exI [of _ "Suc n"]) (simp del: pelems.simps)
  next
    case (Cons x xs)
    let ?t = "Join (map P vs) ('','' @ w) @ u @ '']'' @ rest"
    obtain n where n: "pelems n ?t = Some (map C vs, rest)"
      using Cons.IH Cons.prems \<open>vs = x # xs\<close> by auto
    obtain m where m: "pvalue m (P v @ '','' @ w @ ?t) = Some (C v, '','' @ w @ ?t)"
      using Cons.prems readsD [of "P v" "C v" "'','' @ w @ ?t"] by (auto simp del: pvalue.simps)
    have n': "pelems (n + m) (w @ ?t) = Some (map C vs, rest)" using pelems_mono [OF n, of m] pelems_spaces [OF assms(3)] by simp
    have "pelems (Suc (n + m)) (P v @ '','' @ w @ ?t) = Some (C v # map C vs, rest)"
      using pvalue_grow [OF m, of n] n' after_comma [of "w @ ?t"]
      by (simp add: add.commute del: pvalue.simps)
    moreover have "Join (map P (v # vs)) ('','' @ w) @ u @ '']'' @ rest = P v @ '','' @ w @ ?t"
      using \<open>vs = x # xs\<close> by simp
    ultimately show ?thesis
      by (intro exI [of _ "Suc (n + m)"]) (simp only: list.map)
  qed
qed

lemma pmembers_layout:
  assumes "kvs \<noteq> []" "\<forall>kv \<in> set kvs. valid_utf8 (fst kv) \<and> reads (P (snd kv)) (C (snd kv))" "spaces w" "spaces u" "spaces x"
  shows "\<exists>n. pmembers n (Join (map (\<lambda>kv. json_string (fst kv) @ '':'' @ x @ P (snd kv)) kvs) ('','' @ w) @ u @ ''}'' @ rest) =
    Some (map (\<lambda>kv. (fst kv, C (snd kv))) kvs, rest)"
  using assms(1,2)
proof (induction kvs)
  case Nil
  then show ?case by simp
next
  case (Cons kv kvs)
  obtain k v where kv: "kv = (k, v)" by fastforce
  have q: "after 0x22 (json_string k @ s) = Some (tl (json_string k) @ s)" for s
    by (subst json_string_Cons) (simp add: after_def skip_ws_def is_ws_def)
  have k: "pstring (tl (json_string k) @ s) = Some (k, s)" for s
    using Cons.prems kv by (intro pstring_json_string) simp
  have c: "after 0x3A (CHR '':'' # s) = Some s" for s
    by (simp add: after_def skip_ws_def is_ws_def)
  show ?case
  proof (cases kvs)
    case Nil
    obtain n where n: "pvalue n (P v @ u @ ''}'' @ rest) = Some (C v, u @ ''}'' @ rest)"
      using Cons.prems kv readsD [of "P v" "C v" "u @ ''}'' @ rest"] delim_spaces [OF assms(4)] by (auto simp del: pvalue.simps)
    have a: "after 0x2C (u @ ''}'' @ rest) = None" "after 0x7D (u @ ''}'' @ rest) = Some rest"
      by (simp_all add: after_spaces assms(4)) (simp_all add: after_def skip_ws_def is_ws_def)
    have "pmembers (Suc n) (json_string k @ '':'' @ x @ P v @ u @ ''}'' @ rest) = Some ([(k, C v)], rest)"
      using n a q k c pvalue_spaces [OF assms(5)] by (simp del: pvalue.simps)
    with Nil kv show ?thesis by (intro exI [of _ "Suc n"]) (simp del: pmembers.simps)
  next
    case (Cons y ys)
    let ?t = "Join (map (\<lambda>kv. json_string (fst kv) @ '':'' @ x @ P (snd kv)) kvs) ('','' @ w) @ u @ ''}'' @ rest"
    obtain n where n: "pmembers n ?t = Some (map (\<lambda>kv. (fst kv, C (snd kv))) kvs, rest)"
      using Cons.IH Cons.prems \<open>kvs = y # ys\<close> by auto
    obtain m where m: "pvalue m (P v @ '','' @ w @ ?t) = Some (C v, '','' @ w @ ?t)"
      using Cons.prems kv readsD [of "P v" "C v" "'','' @ w @ ?t"] by (auto simp del: pvalue.simps)
    have n': "pmembers (n + m) (w @ ?t) = Some (map (\<lambda>kv. (fst kv, C (snd kv))) kvs, rest)"
      using pmembers_mono [OF n, of m] pmembers_spaces [OF assms(3)] by simp
    have "pmembers (Suc (n + m)) (json_string k @ '':'' @ x @ P v @ '','' @ w @ ?t) = Some ((k, C v) # map (\<lambda>kv. (fst kv, C (snd kv))) kvs, rest)"
      using pvalue_grow [OF m, of n] n' after_comma [of "w @ ?t"] q k c pvalue_spaces [OF assms(5)]
      by (simp add: add.commute del: pvalue.simps)
    moreover have "Join (map (\<lambda>kv. json_string (fst kv) @ '':'' @ x @ P (snd kv)) (kv # kvs)) ('','' @ w) @ u @ ''}'' @ rest =
        json_string k @ '':'' @ x @ P v @ '','' @ w @ ?t"
      using \<open>kvs = y # ys\<close> kv by simp
    ultimately show ?thesis
      by (intro exI [of _ "Suc (n + m)"]) (simp only: kv list.map fst_conv snd_conv)
  qed
qed

lemma reads_array:
  assumes "vs \<noteq> []" "\<forall>v \<in> set vs. reads (P v) (C v)" "spaces w" "spaces u"
  shows "reads (''['' @ w @ Join (map P vs) ('','' @ w) @ u @ '']'') (JArr (map C vs))"
proof -
  obtain y ys where vs: "vs = y # ys" using assms(1) by (cases vs) auto
  obtain c cs where "P y = c # cs" "value_start c" using reads_start assms(2) vs by fastforce
  then have a: "after 0x5D (w @ Join (map P vs) ('','' @ w) @ u @ '']'' @ rest) = None" for rest
    using vs after_start after_spaces [OF assms(3)] by (cases ys) auto
  have "\<exists>n. pvalue n ((''['' @ w @ Join (map P vs) ('','' @ w) @ u @ '']'') @ rest) = Some (JArr (map C vs), rest)" for rest
  proof -
    obtain n where n: "pelems n (Join (map P vs) ('','' @ w) @ u @ '']'' @ rest) = Some (map C vs, rest)" using pelems_layout [OF assms] by blast
    have "pvalue (Suc n) ((''['' @ w @ Join (map P vs) ('','' @ w) @ u @ '']'') @ rest) = Some (JArr (map C vs), rest)"
      using n a [of rest] pelems_spaces [OF assms(3)] by (simp add: skip_ws_def is_ws_def del: pelems.simps)
    then show ?thesis by blast
  qed
  then show ?thesis unfolding reads_def by (auto simp: value_start_def is_ws_def simp del: pvalue.simps)
qed

lemma reads_object:
  assumes "kvs \<noteq> []" "\<forall>kv \<in> set kvs. valid_utf8 (fst kv) \<and> reads (P (snd kv)) (C (snd kv))" "spaces w" "spaces u" "spaces x"
  shows "reads (''{'' @ w @ Join (map (\<lambda>kv. json_string (fst kv) @ '':'' @ x @ P (snd kv)) kvs) ('','' @ w) @ u @ ''}'')
    (JObj (map (\<lambda>kv. (fst kv, C (snd kv))) kvs))"
proof -
  let ?t = "Join (map (\<lambda>kv. json_string (fst kv) @ '':'' @ x @ P (snd kv)) kvs) ('','' @ w)"
  obtain y ys where kvs: "kvs = y # ys" using assms(1) by (cases kvs) auto
  have a: "after 0x7D (w @ ?t @ u @ ''}'' @ rest) = None" for rest
  proof -
    obtain s where "?t @ u @ ''}'' @ rest = json_string (fst y) @ s" using kvs by (cases ys) auto
    then show ?thesis unfolding after_spaces [OF assms(3)]
      by (subst (asm) json_string_Cons) (simp add: after_def skip_ws_def is_ws_def)
  qed
  have "\<exists>n. pvalue n ((''{'' @ w @ ?t @ u @ ''}'') @ rest) = Some (JObj (map (\<lambda>kv. (fst kv, C (snd kv))) kvs), rest)" for rest
  proof -
    obtain n where n: "pmembers n (?t @ u @ ''}'' @ rest) = Some (map (\<lambda>kv. (fst kv, C (snd kv))) kvs, rest)"
      using pmembers_layout [OF assms] by blast
    have "pvalue (Suc n) ((''{'' @ w @ ?t @ u @ ''}'') @ rest) = Some (JObj (map (\<lambda>kv. (fst kv, C (snd kv))) kvs), rest)"
      using n a [of rest] pmembers_spaces [OF assms(3)] by (simp add: skip_ws_def is_ws_def del: pmembers.simps)
    then show ?thesis by blast
  qed
  then show ?thesis unfolding reads_def by (auto simp: value_start_def is_ws_def simp del: pvalue.simps)
qed

lemma reads_empty: "reads ''[]'' (JArr [])" "reads ''{}'' (JObj [])"
proof -
  have "pvalue (Suc 0) (''[]'' @ rest) = Some (JArr [], rest)" "pvalue (Suc 0) (''{}'' @ rest) = Some (JObj [], rest)" for rest
    by (simp_all add: skip_ws_def is_ws_def after_def)
  then show "reads ''[]'' (JArr [])" "reads ''{}'' (JObj [])"
    unfolding reads_def by (auto simp: value_start_def is_ws_def simp del: pvalue.simps)
qed

lemma pvalue_num: "delim rest \<Longrightarrow> m \<noteq> 0 \<or> e \<le> 0 \<Longrightarrow> pvalue (Suc 0) (print_num m e @ rest) = Some (canonNum m e, rest)"
proof -
  assume d: "delim rest" and z: "m \<noteq> 0 \<or> e \<le> 0"
  obtain c cs where s: "print_num m e = c # cs" and "c = CHR ''-'' \<or> is_digit c" using print_num_start by blast
  from digit_start [OF this(2)] pnum_print [OF d z] s skip_ws_start [of c "cs @ rest"] show ?thesis
    by auto
qed

text \<open>The values that are neither arrays nor objects.\<close>

lemma reads_atom:
  assumes "wf_json v" "\<forall>vs. v \<noteq> JArr vs" "\<forall>kvs. v \<noteq> JObj kvs"
  shows "reads (json_text v) (canon v)"
proof -
  have "\<exists>n. pvalue n (json_text v @ rest) = Some (canon v, rest)" if d: "delim rest" for rest
  proof (cases v)
    case (JStr s)
    have "pvalue (Suc 0) (json_text (JStr s) @ rest) = Some (canon (JStr s), rest)"
      using JStr assms(1) pstring_json_string [of s rest]
      by (subst json_text.simps, subst json_string_Cons) (simp add: skip_ws_def is_ws_def)
    with JStr show ?thesis by blast
  next
    case JNull
    have "pvalue (Suc 0) (json_text JNull @ rest) = Some (canon JNull, rest)" by (simp add: skip_ws_def is_ws_def pword_def)
    with JNull show ?thesis by blast
  next
    case (JBool b)
    have "pvalue (Suc 0) (json_text (JBool b) @ rest) = Some (canon (JBool b), rest)" by (simp add: skip_ws_def is_ws_def pword_def)
    with JBool show ?thesis by blast
  next
    case (JNum m e)
    then show ?thesis using pvalue_num [OF d, of m e] assms(1) by (auto simp del: pvalue.simps)
  qed (use assms in auto)
  with json_text_start [of v] show ?thesis unfolding reads_def by blast
qed

lemma reads_wf: "wf_json v \<Longrightarrow> reads (json_text v) (canon v)"
proof (induction v)
  case (JArr vs)
  then show ?case using reads_array [of vs json_text canon "[]" "[]"] reads_empty(1) by (cases "vs = []") auto
next
  case (JObj kvs)
  then have "\<forall>kv \<in> set kvs. valid_utf8 (fst kv) \<and> reads (json_text (snd kv)) (canon (snd kv))" by fastforce
  then show ?case using reads_object [of kvs json_text canon "[]" "[]" "[]"] reads_empty(2) by (cases "kvs = []") auto
qed (rule reads_atom; simp)+

lemma reads_parse: "reads s v \<Longrightarrow> json_parse s = Some v"
proof -
  assume "reads s v"
  then obtain n where "pvalue n (s @ []) = Some (v, [])" using readsD [of s v "[]"] by (auto simp del: pvalue.simps)
  then have "pvalue (json_fuel s) s = Some (v, [])" using pvalue_any_fuel by simp
  then show ?thesis by (simp add: json_parse_def skip_ws_def del: pvalue.simps)
qed

theorem json_parse_text: "wf_json v \<Longrightarrow> json_parse (json_text v) = Some (canon v)"
  by (rule reads_parse [OF reads_wf])

end
