(* ===== verification/Finalizer.thy ===== *)
theory Finalizer
  imports Decision_Guard Go_Json_Print
begin

text \<open>
  \<open>internal/agent/review_coupon_finalizer.go\<close>: the guarded decision is executed (the coupon is granted, when
  everything allows it) and stored, under the lock of the review.

  The services the finalizer calls are interfaces of the program whose implementations talk to other
  processes; they are the parameter \<open>Env\<close>, functions of a world \<open>'w\<close> that may answer anything. The state
  of a run is the world and the list of the calls made so far with their answers (\<open>Event\<close>), so that a
  property can speak of what was called, how often and in which order. The goroutine that renews the lock
  only changes the world (it may cancel the context, and then the calls and the wait fail).
\<close>

section \<open>Requests and replies\<close>

record GrantRequest =
  gr_StoreID :: int
  gr_UserID :: int
  gr_ReviewID :: int
  gr_OrderNo :: gostring
  gr_ProductID :: int
  gr_Rating :: int
  gr_HasImage :: bool
  gr_IsFirstReview :: bool
  gr_Scene :: gostring
  gr_ActivityID :: gostring
  gr_PolicyVersion :: gostring
  gr_EvidenceVersion :: int
  gr_CouponTemplateID :: gostring
  gr_IdempotencyKey :: gostring

record GrantReply =
  rp_Success :: bool
  rp_Message :: gostring
  rp_Coupon :: jobject
  rp_Duplicated :: bool

record StoreDecisionRequest =
  sd_DecisionID :: gostring
  sd_ReviewID :: int
  sd_StoreID :: int
  sd_SkuID :: int
  sd_SpuID :: int
  sd_EvidenceVersion :: int
  sd_DecisionRevision :: int
  sd_UserID :: int
  sd_Score :: int
  sd_Content :: gostring
  sd_Scene :: gostring
  sd_Action :: gostring
  sd_RiskLevel :: gostring
  sd_CouponGranted :: bool
  sd_CouponID :: gostring
  sd_ActivityID :: gostring
  sd_PolicyVersion :: gostring
  sd_ExecutionStatus :: gostring
  sd_ReasonCodes :: "gostring list"
  sd_Reason :: gostring
  sd_TraceID :: gostring
  sd_EvidenceIDs :: "gostring list"
  sd_LLMOutput :: json

record StoreDecisionResponse =
  sr_DecisionID :: gostring
  sr_Stored :: bool

record couponGrantOutcome =
  cg_Attempted :: bool
  cg_Success :: bool
  cg_Duplicated :: bool
  cg_Attempts :: int
  cg_Retryable :: bool
  cg_CouponID :: gostring
  cg_Message :: gostring
  cg_Error :: gostring
  cg_Scene :: gostring
  cg_IdempotencyKey :: gostring
  cg_ExecutionStatus :: gostring

definition zeroOutcome :: couponGrantOutcome where
  "zeroOutcome = \<lparr>cg_Attempted = False, cg_Success = False, cg_Duplicated = False, cg_Attempts = 0, cg_Retryable = False,
     cg_CouponID = [], cg_Message = [], cg_Error = [], cg_Scene = [], cg_IdempotencyKey = [], cg_ExecutionStatus = []\<rparr>"

section \<open>The world and the calls\<close>

datatype Event =
    EvAcquire gostring "(gostring \<times> bool) result"
  | EvLease gostring gostring
  | EvGrant GrantRequest "GrantReply result"
  | EvWait int
  | EvStore StoreDecisionRequest "StoreDecisionResponse result"
  | EvRelease gostring gostring
  | EvStopLease

text \<open>\<open>env_wait\<close> is the \<open>select\<close> between \<open>ctx.Done()\<close> and the timer: the error of the context, or nothing
  when the timer fires.\<close>

record 'w Env =
  env_now :: "'w \<Rightarrow> int"
  env_disk :: "'w \<Rightarrow> Disk"
  env_acquire :: "gostring \<Rightarrow> 'w \<Rightarrow> (gostring \<times> bool) result \<times> 'w"
  env_lease :: "gostring \<Rightarrow> gostring \<Rightarrow> 'w \<Rightarrow> 'w"
  env_grant :: "GrantRequest \<Rightarrow> 'w \<Rightarrow> GrantReply result \<times> 'w"
  env_wait :: "int \<Rightarrow> 'w \<Rightarrow> gerror option \<times> 'w"
  env_store :: "StoreDecisionRequest \<Rightarrow> 'w \<Rightarrow> StoreDecisionResponse result \<times> 'w"
  env_release :: "gostring \<Rightarrow> gostring \<Rightarrow> 'w \<Rightarrow> 'w"
  env_stopLease :: "'w \<Rightarrow> 'w"

type_synonym 'w st = "'w \<times> Event list"

definition callAcquire :: "'w Env \<Rightarrow> gostring \<Rightarrow> 'w st \<Rightarrow> (gostring \<times> bool) result \<times> 'w st" where
  "callAcquire env key s = (let (r, w) = env_acquire env key (fst s) in (r, (w, snd s @ [EvAcquire key r])))"

definition callLease :: "'w Env \<Rightarrow> gostring \<Rightarrow> gostring \<Rightarrow> 'w st \<Rightarrow> 'w st" where
  "callLease env key token s = (env_lease env key token (fst s), snd s @ [EvLease key token])"

definition callGrant :: "'w Env \<Rightarrow> GrantRequest \<Rightarrow> 'w st \<Rightarrow> GrantReply result \<times> 'w st" where
  "callGrant env req s = (let (r, w) = env_grant env req (fst s) in (r, (w, snd s @ [EvGrant req r])))"

definition callWait :: "'w Env \<Rightarrow> int \<Rightarrow> 'w st \<Rightarrow> gerror option \<times> 'w st" where
  "callWait env ms s = (let (r, w) = env_wait env ms (fst s) in (r, (w, snd s @ [EvWait ms])))"

definition callStore :: "'w Env \<Rightarrow> StoreDecisionRequest \<Rightarrow> 'w st \<Rightarrow> StoreDecisionResponse result \<times> 'w st" where
  "callStore env req s = (let (r, w) = env_store env req (fst s) in (r, (w, snd s @ [EvStore req r])))"

definition callRelease :: "'w Env \<Rightarrow> gostring \<Rightarrow> gostring \<Rightarrow> 'w st \<Rightarrow> 'w st" where
  "callRelease env key token s = (env_release env key token (fst s), snd s @ [EvRelease key token])"

definition callStopLease :: "'w Env \<Rightarrow> 'w st \<Rightarrow> 'w st" where
  "callStopLease env s = (env_stopLease env (fst s), snd s @ [EvStopLease])"

text \<open>The finalizer: which services are configured, and the policy provider (never nil, the constructor sees
  to that).\<close>

record ReviewCouponFinalizer =
  fz_hasStore :: bool
  fz_hasLock :: bool
  fz_hasGrant :: bool
  fz_policy :: CouponPolicyProvider

definition NewReviewCouponFinalizer ::
  "int \<Rightarrow> Disk \<Rightarrow> bool \<Rightarrow> bool \<Rightarrow> bool \<Rightarrow> CouponPolicyProvider option \<Rightarrow> ReviewCouponFinalizer" where
  "NewReviewCouponFinalizer now disk store lock grant policy =
     \<lparr>fz_hasStore = store, fz_hasLock = lock, fz_hasGrant = grant,
      fz_policy = (case policy of Some p \<Rightarrow> p | None \<Rightarrow> NewCouponPolicyProvider now disk [] False 0)\<rparr>"

record FinalizeInput =
  fi_SessionID :: gostring
  fi_ExecutionID :: gostring
  fi_ParentExecutionID :: gostring
  fi_Task :: gostring
  fi_Decision :: Decision
  fi_History :: "StepRecord list"
  fi_BusinessContext :: ExecutionInput

section \<open>Helpers\<close>

definition BuildReviewCouponGrantIdempotencyKey :: "int \<Rightarrow> int \<Rightarrow> gostring" where
  "BuildReviewCouponGrantIdempotencyKey reviewID storeID =
     ''review:store:'' @ show_int storeID @ '':review:'' @ show_int reviewID"

definition decisionLockKey :: "decisionContext \<Rightarrow> gostring" where
  "decisionLockKey dc = ''decision:store:'' @ show_int (dc_StoreID dc) @ '':review:'' @ show_int (dc_ReviewID dc)"

definition buildDecisionID :: "decisionContext \<Rightarrow> gostring" where
  "buildDecisionID dc = ''agent:store:'' @ show_int (dc_StoreID dc) @ '':review:'' @ show_int (dc_ReviewID dc)"

definition orderNoFromID :: "int \<Rightarrow> gostring" where
  "orderNoFromID orderID = (if orderID \<le> 0 then [] else show_int orderID)"

fun firstString :: "jobject \<Rightarrow> gostring list \<Rightarrow> gostring" where
  "firstString m [] = []"
| "firstString m (key # keys) = (if fieldString m key \<noteq> [] then fieldString m key else firstString m keys)"

definition couponIDFromResponse :: "jobject \<Rightarrow> gostring" where
  "couponIDFromResponse coupon = firstString coupon [''coupon_id'', ''couponId'', ''id'']"

definition appendSentence :: "gostring \<Rightarrow> gostring \<Rightarrow> gostring" where
  "appendSentence base0 sentence0 = (let base = TrimSpace base0; sentence = TrimSpace sentence0 in
     if base = [] then sentence else if sentence = [] then base else base @ sentence)"

definition joinReason :: "gostring \<Rightarrow> gostring \<Rightarrow> gostring" where
  "joinReason base0 extra0 = (let base = TrimSpace base0; extra = TrimSpace extra0 in
     if base = [] then extra else if extra = [] then base else base @ (bytes [0xEF, 0xBC, 0x9B]) @ extra)"

definition retryMarkers :: "gostring list" where
  "retryMarkers = [''timeout'', ''deadline'', ''connection refused'', ''connection reset'', ''temporary'', ''eof'',
     ''status 500'', ''status 502'', ''status 503'', ''status 504'']"

text \<open>The argument is the text of a non-nil error.\<close>

definition isRetryableCouponGrantError :: "gerror \<Rightarrow> bool" where
  "isRetryableCouponGrantError err = list_ex (\<lambda>marker. Contains (ToLower err) marker) retryMarkers"

section \<open>Granting\<close>

text \<open>The loop of \<open>grantCouponWithRetry\<close> from a given attempt on.\<close>

function grantLoop :: "'w Env \<Rightarrow> GrantRequest \<Rightarrow> int \<Rightarrow> gerror \<Rightarrow> 'w st \<Rightarrow> (GrantReply result \<times> int) \<times> 'w st" where
  "grantLoop env req attempt lastErr s =
     (if attempt > 3 then ((Inl lastErr, 3), s)
      else let (r, s1) = callGrant env req s in
        (case r of
           Inr resp \<Rightarrow> ((Inr resp, attempt), s1)
         | Inl err \<Rightarrow>
             if \<not> isRetryableCouponGrantError err \<or> attempt = 3 then ((Inl err, attempt), s1)
             else let (cancelled, s2) = callWait env (attempt * 100) s1 in
               (case cancelled of
                  Some ctxErr \<Rightarrow> ((Inl ctxErr, attempt), s2)
                | None \<Rightarrow> grantLoop env req (attempt + 1) err s2)))"
  by pat_completeness auto
termination
  by (relation "measure (\<lambda>(env, req, attempt, lastErr, s). nat (4 - attempt))") auto

declare grantLoop.simps [simp del]

definition grantCouponWithRetry :: "'w Env \<Rightarrow> GrantRequest \<Rightarrow> 'w st \<Rightarrow> (GrantReply result \<times> int) \<times> 'w st" where
  "grantCouponWithRetry env req s = grantLoop env req 1 [] s"

text \<open>The reasons for which \<open>grantCouponIfNeeded\<close> returns before it asks the policy for a scene.\<close>

definition grantPrecheck :: "bool \<Rightarrow> Decision \<Rightarrow> decisionContext \<Rightarrow> (gostring \<times> gostring) option" where
  "grantPrecheck hasGrant decision dc =
     (if \<not> EqualFold (d_Action decision) ''GRANT_COUPON'' \<or> d_NeedHumanReview decision
      then Some (''decision does not require coupon grant'', if d_NeedHumanReview decision then ''MANUAL_REVIEW'' else ''REJECTED'')
      else if \<not> hasGrant then Some (''coupon grant service is not configured'', ''PROPOSED'')
      else if dc_ActivityID dc = [] \<or> dc_StoreID dc \<le> 0 \<or> dc_UserID dc \<le> 0 \<or> firstInt64 0 [dc_SkuID dc, dc_SpuID dc] \<le> 0
      then Some (''campaign context is missing activity, store, user, or product'', ''REJECTED'')
      else if \<not> dc_CampaignActive dc \<or> \<not> dc_ProductEligible dc \<or> \<not> dc_UserEligible dc \<or> dc_RemainingStock dc \<le> 0
        \<or> dc_RemainingBudgetCent dc \<le> 0 \<or> (dc_UserGrantLimit dc > 0 \<and> dc_UserGrantedCount dc \<ge> dc_UserGrantLimit dc)
      then Some (''campaign constraints rejected coupon grant'', ''REJECTED'')
      else None)"

definition grantRequest :: "decisionContext \<Rightarrow> gostring \<Rightarrow> GrantRequest" where
  "grantRequest dc scene = \<lparr>gr_StoreID = dc_StoreID dc, gr_UserID = dc_UserID dc, gr_ReviewID = dc_ReviewID dc,
     gr_OrderNo = orderNoFromID (dc_OrderID dc), gr_ProductID = firstInt64 0 [dc_SkuID dc, dc_SpuID dc],
     gr_Rating = dc_Score dc, gr_HasImage = dc_HasMedia dc, gr_IsFirstReview = dc_IsFirstReview dc, gr_Scene = scene,
     gr_ActivityID = dc_ActivityID dc, gr_PolicyVersion = dc_PolicyVersion dc,
     gr_EvidenceVersion = dc_EvidenceVersion dc, gr_CouponTemplateID = dc_CouponTemplateID dc,
     gr_IdempotencyKey = BuildReviewCouponGrantIdempotencyKey (dc_ReviewID dc) (dc_StoreID dc)\<rparr>"

definition grantCouponIfNeeded ::
  "'w Env \<Rightarrow> ReviewCouponFinalizer \<Rightarrow> Decision \<Rightarrow> decisionContext \<Rightarrow> 'w st \<Rightarrow> couponGrantOutcome \<times> ReviewCouponFinalizer \<times> 'w st" where
  "grantCouponIfNeeded env f decision dc s =
     (case grantPrecheck (fz_hasGrant f) decision dc of
        Some (message, status) \<Rightarrow> (zeroOutcome \<lparr> cg_Message := message, cg_ExecutionStatus := status \<rparr>, f, s)
      | None \<Rightarrow>
          (let (scene, policy) = SeckillScene (env_now env (fst s)) (env_disk env (fst s)) (d_Scene decision) (Some (fz_policy f));
               f1 = f \<lparr> fz_policy := (case policy of Some p \<Rightarrow> p | None \<Rightarrow> fz_policy f) \<rparr>;
               key = BuildReviewCouponGrantIdempotencyKey (dc_ReviewID dc) (dc_StoreID dc)
           in if scene = [] then (zeroOutcome \<lparr> cg_Message := ''unknown coupon scene'', cg_ExecutionStatus := ''REJECTED'' \<rparr>, f1, s)
              else (let ((r, attempts), s1) = grantCouponWithRetry env (grantRequest dc scene) s in
                (case r of
                   Inl err \<Rightarrow> (zeroOutcome \<lparr> cg_Attempted := True, cg_Attempts := attempts,
                       cg_Retryable := isRetryableCouponGrantError err, cg_Scene := scene, cg_IdempotencyKey := key,
                       cg_Error := err, cg_Message := ''coupon grant failed; decision stored as not granted'',
                       cg_ExecutionStatus := ''GRANT_FAILED'' \<rparr>, f1, s1)
                 | Inr resp \<Rightarrow> (zeroOutcome \<lparr> cg_Attempted := True, cg_Success := rp_Success resp,
                       cg_Duplicated := rp_Duplicated resp, cg_Attempts := attempts,
                       cg_CouponID := couponIDFromResponse (rp_Coupon resp), cg_Message := rp_Message resp,
                       cg_Scene := scene, cg_IdempotencyKey := key,
                       cg_ExecutionStatus := (if rp_Success resp then ''GRANTED'' else ''REJECTED'') \<rparr>, f1, s1)))))"

definition decisionWithCouponGrant :: "Decision \<Rightarrow> couponGrantOutcome \<Rightarrow> Decision" where
  "decisionWithCouponGrant decision grant =
     (if \<not> EqualFold (d_Action decision) ''GRANT_COUPON'' then decision
      else if \<not> cg_Attempted grant then
        decision \<lparr> d_PolicyTags := appendMissingTag (d_PolicyTags decision) ''COUPON_GRANT_NOT_CONFIGURED'',
          d_FinalAnswer := appendSentence (d_FinalAnswer decision)
            (bytes [0xE5, 0xBD, 0x93, 0xE5, 0x89, 0x8D, 0xE4, 0xBB, 0x85, 0xE7, 0x94, 0x9F, 0xE6, 0x88, 0x90, 
     0xE5, 0x8F, 0x91, 0xE5, 0x88, 0xB8, 0xE5, 0xBB, 0xBA, 0xE8, 0xAE, 0xAE, 0xEF, 0xBC, 0x8C, 0xE5, 0x8F, 
     0x91, 0xE5, 0x88, 0xB8, 0xE6, 0x9C, 0x8D, 0xE5, 0x8A, 0xA1, 0xE6, 0x9C, 0xAA, 0xE9, 0x85, 0x8D, 0xE7, 
     0xBD, 0xAE, 0xEF, 0xBC, 0x8C, 0xE5, 0xAE, 0x9E, 0xE9, 0x99, 0x85, 0xE6, 0x9C, 0xAA, 0xE5, 0x8F, 0x91, 
     0xE5, 0x88, 0xB8, 0xE3, 0x80, 0x82]) \<rparr>
      else if cg_Success grant then
        decision \<lparr> d_PolicyTags := appendMissingTag (d_PolicyTags decision) ''COUPON_GRANTED'',
          d_FinalAnswer := appendSentence (d_FinalAnswer decision)
            (bytes [0xE4, 0xBC, 0x98, 0xE6, 0x83, 0xA0, 0xE5, 0x88, 0xB8, 0xE5, 0xB7, 0xB2, 0xE6, 0x88, 0x90, 
     0xE5, 0x8A, 0x9F, 0xE5, 0x8F, 0x91, 0xE6, 0x94, 0xBE, 0xE3, 0x80, 0x82]) \<rparr>
      else
        (let d1 = (if cg_ExecutionStatus grant = ''REJECTED''
               then decision \<lparr> d_Action := ''NO_COUPON'', d_CouponSuggestion := [],
                      d_PolicyTags := appendMissingTag (d_PolicyTags decision) ''CAMPAIGN_CONSTRAINT_REJECTED'' \<rparr>
               else decision)
         in d1 \<lparr> d_PolicyTags := appendMissingTag (d_PolicyTags d1) ''COUPON_GRANT_FAILED'',
              d_FinalAnswer := appendSentence (d_FinalAnswer d1)
                (bytes [0xE5, 0x8F, 0x91, 0xE5, 0x88, 0xB8, 0xE8, 0xB0, 0x83, 0xE7, 0x94, 0xA8, 0xE5, 0xA4, 0xB1, 
     0xE8, 0xB4, 0xA5, 0xEF, 0xBC, 0x8C, 0xE7, 0xB3, 0xBB, 0xE7, 0xBB, 0x9F, 0xE5, 0xB7, 0xB2, 0xE6, 0x8C, 
     0x89, 0xE6, 0x9C, 0xAA, 0xE5, 0x8F, 0x91, 0xE5, 0x88, 0xB8, 0xE7, 0x8A, 0xB6, 0xE6, 0x80, 0x81, 0xE8, 
     0x90, 0xBD, 0xE5, 0xBA, 0x93, 0xEF, 0xBC, 0x8C, 0xE5, 0x90, 0x8E, 0xE7, 0xBB, 0xAD, 0xE5, 0x8F, 0xAF, 
     0xE4, 0xBE, 0x9D, 0xE6, 0x8D, 0xAE, 0xE5, 0xB9, 0x82, 0xE7, 0xAD, 0x89, 0xE9, 0x94, 0xAE, 0xE9, 0x87, 
     0x8D, 0xE8, 0xAF, 0x95, 0xE8, 0xA1, 0xA5, 0xE5, 0x8F, 0x91, 0xE3, 0x80, 0x82]) \<rparr>))"

definition reasonWithCouponGrant :: "gostring \<Rightarrow> couponGrantOutcome \<Rightarrow> gostring" where
  "reasonWithCouponGrant reason grant =
     (if \<not> cg_Attempted grant then
        joinReason reason ((bytes [0xE5, 0x8F, 0x91, 0xE5, 0x88, 0xB8, 0xE6, 0x9C, 0xAA, 0xE6, 0x89, 0xA7, 0xE8, 0xA1, 0x8C, 
     0xEF, 0xBC, 0x9A]) @ cg_Message grant)
      else if cg_Success grant then
        joinReason reason ((bytes [0xE5, 0x8F, 0x91, 0xE5, 0x88, 0xB8, 0xE6, 0x88, 0x90, 0xE5, 0x8A, 0x9F, 0xEF, 0xBC, 0x9A]) @ cg_Message grant)
      else joinReason reason ((bytes [0xE5, 0x8F, 0x91, 0xE5, 0x88, 0xB8, 0xE5, 0xA4, 0xB1, 0xE8, 0xB4, 0xA5, 0xEF, 0xBC, 0x8C, 
     0xE5, 0xB7, 0xB2, 0xE6, 0x8C, 0x89, 0xE6, 0x9C, 0xAA, 0xE5, 0x8F, 0x91, 0xE5, 0x88, 0xB8, 0xE8, 0x90, 
     0xBD, 0xE5, 0xBA, 0x93, 0xEF, 0xBC, 0x9A])
             @ (if cg_Error grant = [] then cg_Message grant else cg_Error grant)))"

section \<open>Storing\<close>

text \<open>Slices in JSON: Go prints a nil slice as null. The model has no nil slices; an empty one is taken for
  nil, as it is here unless the model's answer spelt out an empty array.\<close>

definition strsJson :: "gostring list \<Rightarrow> json" where
  "strsJson xs = (if xs = [] then JNull else JArr (map JStr xs))"

definition intJson :: "int \<Rightarrow> json" where
  "intJson i = JNum i 0"

definition llmOutputJson :: "FinalizeInput \<Rightarrow> Decision \<Rightarrow> couponGrantOutcome \<Rightarrow> json" where
  "llmOutputJson input d grant = mapobj [
     (''type'', JStr (d_Type d)), (''final_answer'', JStr (d_FinalAnswer d)), (''action'', JStr (d_Action d)),
     (''scene'', JStr (d_Scene d)), (''risk_level'', JStr (d_RiskLevel d)), (''reason'', JStr (d_Reason d)),
     (''reasoning'', JStr (d_Reasoning d)), (''confidence'', float_json (fst (d_Confidence d)) (snd (d_Confidence d))),
     (''coupon_suggestion'', JStr (d_CouponSuggestion d)), (''policy_tags'', strsJson (d_PolicyTags d)),
     (''need_human_review'', JBool (d_NeedHumanReview d)), (''task'', JStr (fi_Task input)),
     (''session_id'', JStr (fi_SessionID input)), (''execution_id'', JStr (fi_ExecutionID input)),
     (''parent_execution_id'', JStr (fi_ParentExecutionID input)),
     (''coupon_grant'', mapobj [(''attempted'', JBool (cg_Attempted grant)), (''success'', JBool (cg_Success grant)),
        (''duplicated'', JBool (cg_Duplicated grant)), (''attempts'', intJson (cg_Attempts grant)),
        (''retryable'', JBool (cg_Retryable grant)), (''coupon_id'', JStr (cg_CouponID grant)),
        (''message'', JStr (cg_Message grant)), (''error'', JStr (cg_Error grant)), (''scene'', JStr (cg_Scene grant)),
        (''idempotency_key'', JStr (cg_IdempotencyKey grant))])]"

definition storeRequest :: "FinalizeInput \<Rightarrow> decisionContext \<Rightarrow> Decision \<Rightarrow> couponGrantOutcome \<Rightarrow> StoreDecisionRequest" where
  "storeRequest input dc d grant = \<lparr>
     sd_DecisionID = buildDecisionID dc, sd_ReviewID = dc_ReviewID dc, sd_StoreID = dc_StoreID dc,
     sd_SkuID = dc_SkuID dc, sd_SpuID = dc_SpuID dc, sd_EvidenceVersion = dc_EvidenceVersion dc,
     sd_DecisionRevision = (if dc_EvidenceVersion dc \<le> 0 then 1 else dc_EvidenceVersion dc),
     sd_UserID = dc_UserID dc, sd_Score = dc_Score dc, sd_Content = dc_Content dc,
     sd_Scene = defaultIfBlank (d_Scene d) ''review_coupon'', sd_Action = defaultIfBlank (d_Action d) ''NO_COUPON'',
     sd_RiskLevel = defaultIfBlank (d_RiskLevel d) ''unknown'', sd_CouponGranted = cg_Success grant,
     sd_CouponID = cg_CouponID grant, sd_ActivityID = dc_ActivityID dc, sd_PolicyVersion = dc_PolicyVersion dc,
     sd_ExecutionStatus = cg_ExecutionStatus grant, sd_ReasonCodes = d_PolicyTags d,
     sd_Reason = reasonWithCouponGrant (defaultIfBlank (d_Reason d) (d_Reasoning d)) grant,
     sd_TraceID = defaultIfBlank (fi_ExecutionID input) (fi_SessionID input), sd_EvidenceIDs = dc_EvidenceIDs dc,
     sd_LLMOutput = llmOutputJson input d grant \<rparr>"

definition omitZero :: "gostring \<Rightarrow> int \<Rightarrow> jobject" where
  "omitZero name i = (if i = 0 then [] else [(name, intJson i)])"

definition storeRequestJson :: "StoreDecisionRequest \<Rightarrow> json" where
  "storeRequestJson r = JObj ([(''decision_id'', JStr (sd_DecisionID r)), (''review_id'', intJson (sd_ReviewID r)),
     (''store_id'', intJson (sd_StoreID r))] @ omitZero ''sku_id'' (sd_SkuID r) @ omitZero ''spu_id'' (sd_SpuID r) @
     omitZero ''evidence_version'' (sd_EvidenceVersion r) @ omitZero ''decision_revision'' (sd_DecisionRevision r) @
     [(''user_id'', intJson (sd_UserID r)), (''score'', intJson (sd_Score r)), (''content'', JStr (sd_Content r)),
      (''scene'', JStr (sd_Scene r)), (''action'', JStr (sd_Action r)), (''risk_level'', JStr (sd_RiskLevel r)),
      (''coupon_granted'', JBool (sd_CouponGranted r)), (''coupon_id'', JStr (sd_CouponID r)),
      (''activity_id'', JStr (sd_ActivityID r)), (''policy_version'', JStr (sd_PolicyVersion r)),
      (''execution_status'', JStr (sd_ExecutionStatus r)), (''reason_codes'', strsJson (sd_ReasonCodes r)),
      (''reason'', JStr (sd_Reason r)), (''trace_id'', JStr (sd_TraceID r)),
      (''evidence_ids'', strsJson (sd_EvidenceIDs r)), (''llm_output'', sd_LLMOutput r)])"

definition storeResponseJson :: "StoreDecisionResponse \<Rightarrow> json" where
  "storeResponseJson r = JObj [(''decision_id'', JStr (sr_DecisionID r)), (''stored'', JBool (sr_Stored r))]"

section \<open>Finalize\<close>

text \<open>\<open>time.Since(start).Milliseconds()\<close>; Go's clock for durations never runs backwards.\<close>

definition durationMS :: "int \<Rightarrow> int \<Rightarrow> int" where
  "durationMS start stop = max 0 (stop - start) div 1000000"

definition finalizeContext :: "FinalizeInput \<Rightarrow> decisionContext" where
  "finalizeContext input = (let dc = extractDecisionContext (fi_History input) in dc \<lparr>
     dc_ActivityID := defaultIfBlank (dc_ActivityID dc) (ei_ActivityID (fi_BusinessContext input)),
     dc_PolicyVersion := defaultIfBlank (dc_PolicyVersion dc) (ei_PolicyVersion (fi_BusinessContext input)) \<rparr>)"

definition storeStep :: "FinalizeInput \<Rightarrow> Step" where
  "storeStep input = \<lparr>st_Step = int (length (fi_History input)) + 1, st_ToolName = ''store_decision'', st_Arguments = [],
     st_Observation = [], st_Error = [], st_DurationMS = 0\<rparr>"

text \<open>From the grant to the store call: what runs while the lock, if there is one, is held.\<close>

definition grantAndStore ::
  "'w Env \<Rightarrow> ReviewCouponFinalizer \<Rightarrow> FinalizeInput \<Rightarrow> Decision \<Rightarrow> decisionContext \<Rightarrow> 'w st \<Rightarrow>
     (Decision \<times> Step) \<times> ReviewCouponFinalizer \<times> 'w st" where
  "grantAndStore env f input decision0 dc s =
     (let (grant, f1, s1) = grantCouponIfNeeded env f decision0 dc s;
          decision = decisionWithCouponGrant decision0 grant;
          req = storeRequest input dc decision grant;
          (resp, s2) = callStore env req s1;
          step = (storeStep input) \<lparr> st_Arguments := json_text (storeRequestJson req),
             st_DurationMS := durationMS (env_now env (fst s1)) (env_now env (fst s2)) \<rparr>
      in (case resp of
            Inl err \<Rightarrow> ((decision, step \<lparr> st_Error := err \<rparr>), f1, s2)
          | Inr r \<Rightarrow> ((decision, step \<lparr> st_Observation := json_text (storeResponseJson r) \<rparr>), f1, s2)))"

definition Finalize ::
  "'w Env \<Rightarrow> ReviewCouponFinalizer \<Rightarrow> FinalizeInput \<Rightarrow> 'w st \<Rightarrow> (Decision \<times> Step option) \<times> ReviewCouponFinalizer \<times> 'w st" where
  "Finalize env f input s =
     (let (decision, policy) = applyDecisionGuard (env_now env (fst s)) (env_disk env (fst s)) (fi_Decision input)
            (fi_History input) (Some (fz_policy f));
          f1 = f \<lparr> fz_policy := (case policy of Some p \<Rightarrow> p | None \<Rightarrow> fz_policy f) \<rparr>;
          step = storeStep input; dc = finalizeContext input; key = decisionLockKey dc
      in if \<not> fz_hasStore f then ((decision, None), f1, s)
         else if dc_ReviewID dc \<le> 0 \<or> dc_StoreID dc \<le> 0
         then ((decision, Some (step \<lparr> st_Error := ''missing review_id or store_id for decision persistence'' \<rparr>)), f1, s)
         else if \<not> fz_hasLock f
         then (let ((d, st), f2, s2) = grantAndStore env f1 input decision dc s in ((d, Some st), f2, s2))
         else (let (r, s1) = callAcquire env key s in
           (case r of
              Inl err \<Rightarrow> ((decision, Some (step \<lparr> st_Error := ''acquire decision lock failed: '' @ err \<rparr>)), f1, s1)
            | Inr (token, False) \<Rightarrow>
                ((decision, Some (step \<lparr> st_Error := ''decision is already being processed by another agent instance'' \<rparr>)), f1, s1)
            | Inr (token, True) \<Rightarrow>
                (let s2 = callLease env key token s1;
                     ((d, st), f2, s3) = grantAndStore env f1 input decision dc s2
                 in ((d, Some st), f2, callStopLease env (callRelease env key token s3))))))"

end
