(* ===== verification/Finalizer_Safety.thy ===== *)
theory Finalizer_Safety
  imports Finalizer
begin

text \<open>
  What a run of \<open>Finalize\<close> may do, read off the list of its calls. \<open>grantsOf\<close> and \<open>storesOf\<close> are the calls
  of the grant service and of the decision store in a trace; \<open>grantRun\<close> describes the calls of one retry
  loop; \<open>Finalize_trace\<close> is the shape of every trace, and the properties follow from it.
\<close>

section \<open>Traces\<close>

fun grantsOf :: "Event list \<Rightarrow> (GrantRequest \<times> GrantReply result) list" where
  "grantsOf [] = []"
| "grantsOf (e # es) = (case e of EvGrant req r \<Rightarrow> (req, r) # grantsOf es | _ \<Rightarrow> grantsOf es)"

fun storesOf :: "Event list \<Rightarrow> (StoreDecisionRequest \<times> StoreDecisionResponse result) list" where
  "storesOf [] = []"
| "storesOf (e # es) = (case e of EvStore req r \<Rightarrow> (req, r) # storesOf es | _ \<Rightarrow> storesOf es)"

definition grantOrWait :: "Event \<Rightarrow> bool" where
  "grantOrWait e = (case e of EvGrant _ _ \<Rightarrow> True | EvWait _ \<Rightarrow> True | _ \<Rightarrow> False)"

lemma grantsOf_append [simp]: "grantsOf (xs @ ys) = grantsOf xs @ grantsOf ys"
  by (induction xs) (auto split: Event.split)

lemma storesOf_append [simp]: "storesOf (xs @ ys) = storesOf xs @ storesOf ys"
  by (induction xs) (auto split: Event.split)

lemma storesOf_grants [simp]: "\<forall>e \<in> set gs. grantOrWait e \<Longrightarrow> storesOf gs = []"
  by (induction gs) (auto simp: grantOrWait_def split: Event.splits)

text \<open>The calls of a retry loop that starts at a given attempt, with its outcome and last attempt.\<close>

inductive grantRun :: "GrantRequest \<Rightarrow> int \<Rightarrow> Event list \<Rightarrow> GrantReply result \<Rightarrow> int \<Rightarrow> bool" for req where
  run_ok: "a \<le> 3 \<Longrightarrow> grantRun req a [EvGrant req (Inr resp)] (Inr resp) a"
| run_fail: "a \<le> 3 \<Longrightarrow> \<not> isRetryableCouponGrantError err \<or> a = 3 \<Longrightarrow> grantRun req a [EvGrant req (Inl err)] (Inl err) a"
| run_cancel: "a < 3 \<Longrightarrow> isRetryableCouponGrantError err \<Longrightarrow>
    grantRun req a [EvGrant req (Inl err), EvWait (a * 100)] (Inl ctxErr) a"
| run_again: "a < 3 \<Longrightarrow> isRetryableCouponGrantError err \<Longrightarrow> grantRun req (a + 1) es r n \<Longrightarrow>
    grantRun req a (EvGrant req (Inl err) # EvWait (a * 100) # es) r n"

lemma grantLoop_run:
  "a \<le> 3 \<Longrightarrow> grantLoop env req a lastErr s = ((r, n), s') \<Longrightarrow>
     \<exists>gs. snd s' = snd s @ gs \<and> grantRun req a gs r n"
proof (induction env req a lastErr s arbitrary: r n s' rule: grantLoop.induct)
  case (1 env req a lastErr s)
  obtain x s1 where c: "callGrant env req s = (x, s1)" by (metis surj_pair)
  have t1: "snd s1 = snd s @ [EvGrant req x]"
    using c by (auto simp: callGrant_def Let_def split: prod.splits)
  show ?case
  proof (cases x)
    case (Inr resp)
    then show ?thesis using 1(2,3) c t1 by (subst (asm) grantLoop.simps) (auto intro: run_ok)
  next
    case (Inl err)
    show ?thesis
    proof (cases "\<not> isRetryableCouponGrantError err \<or> a = 3")
      case True
      then show ?thesis using 1(2,3) c t1 Inl by (subst (asm) grantLoop.simps) (auto intro: run_fail)
    next
      case False
      obtain y s2 where w: "callWait env (a * 100) s1 = (y, s2)" by (metis surj_pair)
      have t2: "snd s2 = snd s @ [EvGrant req x, EvWait (a * 100)]"
        using w t1 by (auto simp: callWait_def Let_def split: prod.splits)
      have lt: "a < 3" using False 1(2) by simp
      show ?thesis
      proof (cases y)
        case (Some ctxErr)
        then have "r = Inl ctxErr" "n = a" "s' = s2"
          using 1(2,3) c w Inl False by (auto simp: grantLoop.simps [of env req a])
        then show ?thesis using t2 Inl False lt by (auto intro: run_cancel)
      next
        case None
        then have "grantLoop env req (a + 1) err s2 = ((r, n), s')"
          using 1(2,3) c w Inl False by (simp add: grantLoop.simps [of env req a])
        from 1(1) [OF _ c [symmetric] refl Inl _ w [symmetric] refl None _ this] False lt 1(2)
        obtain gs where "snd s' = snd s2 @ gs" "grantRun req (a + 1) gs r n" by auto
        then show ?thesis using t2 Inl False lt by (auto intro: run_again)
      qed
    qed
  qed
qed

lemma grantRun_facts:
  "grantRun req a gs r n \<Longrightarrow> (\<forall>e \<in> set gs. grantOrWait e) \<and> grantsOf gs \<noteq> [] \<and>
     int (length (grantsOf gs)) = n - a + 1 \<and> n \<le> 3 \<and>
     (\<forall>g \<in> set (grantsOf gs). fst g = req) \<and>
     (\<forall>g \<in> set (butlast (grantsOf gs)). \<exists>err. snd g = Inl err \<and> isRetryableCouponGrantError err) \<and>
     (\<forall>resp. r = Inr resp \<longleftrightarrow> snd (last (grantsOf gs)) = Inr resp)"
proof (induction rule: grantRun.induct)
  case (run_again a err es r n)
  then show ?case by (auto simp: grantOrWait_def)
qed (auto simp: grantOrWait_def)

lemma grantRetry_run:
  assumes "grantCouponWithRetry env req s = ((r, n), s')"
  obtains gs where "snd s' = snd s @ gs" "grantRun req 1 gs r n"
  using grantLoop_run [of 1 env req "[]" s r n s'] assms by (auto simp: grantCouponWithRetry_def)

section \<open>Granting\<close>

text \<open>What \<open>grantCouponIfNeeded\<close> does: nothing, or one retry loop after every check has passed.\<close>

lemma grantIfNeeded_cases:
  assumes "grantCouponIfNeeded env f decision dc s = (out, f', s')"
  obtains (none) "s' = s" "\<not> cg_Attempted out" "\<not> cg_Success out" "cg_ExecutionStatus out \<noteq> ''GRANTED''"
      "\<forall>message status. grantPrecheck (fz_hasGrant f) decision dc = Some (message, status) \<longrightarrow>
         out = zeroOutcome \<lparr> cg_Message := message, cg_ExecutionStatus := status \<rparr>"
  | (tried) scene gs r n where "grantPrecheck (fz_hasGrant f) decision dc = None" "scene \<noteq> []"
      "snd s' = snd s @ gs" "grantRun (grantRequest dc scene) 1 gs r n" "cg_Attempted out" "cg_Attempts out = n"
      "cg_Success out \<longleftrightarrow> (\<exists>resp. r = Inr resp \<and> rp_Success resp)"
      "cg_ExecutionStatus out = (case r of Inl _ \<Rightarrow> ''GRANT_FAILED'' | Inr resp \<Rightarrow> if rp_Success resp then ''GRANTED'' else ''REJECTED'')"
proof (cases "grantPrecheck (fz_hasGrant f) decision dc")
  case (Some ms)
  obtain message status where ms: "ms = (message, status)" by (cases ms)
  have "status \<noteq> ''GRANTED''" using Some ms by (auto simp: grantPrecheck_def split: if_splits)
  with assms Some ms show thesis by (intro none) (auto simp: grantCouponIfNeeded_def zeroOutcome_def)
next
  case None
  obtain scene policy where sc: "SeckillScene (env_now env (fst s)) (env_disk env (fst s)) (d_Scene decision) (Some (fz_policy f)) = (scene, policy)"
    by fastforce
  show thesis
  proof (cases "scene = []")
    case True
    with assms None sc show thesis by (intro none) (auto simp: grantCouponIfNeeded_def zeroOutcome_def Let_def)
  next
    case False
    obtain r n s1 where g: "grantCouponWithRetry env (grantRequest dc scene) s = ((r, n), s1)" by (metis surj_pair)
    obtain gs where gs: "snd s1 = snd s @ gs" "grantRun (grantRequest dc scene) 1 gs r n" by (rule grantRetry_run [OF g])
    show thesis
      using assms None sc False g gs
      by (cases r; intro tried [OF None False, of gs r n])
        (auto simp: grantCouponIfNeeded_def zeroOutcome_def Let_def)
  qed
qed

text \<open>What passing the checks means.\<close>

lemma grantPrecheck_None:
  "grantPrecheck hasGrant decision dc = None \<longleftrightarrow>
     EqualFold (d_Action decision) ''GRANT_COUPON'' \<and> \<not> d_NeedHumanReview decision \<and> hasGrant \<and>
     dc_ActivityID dc \<noteq> [] \<and> 0 < dc_StoreID dc \<and> 0 < dc_UserID dc \<and> 0 < firstInt64 0 [dc_SkuID dc, dc_SpuID dc] \<and>
     dc_CampaignActive dc \<and> dc_ProductEligible dc \<and> dc_UserEligible dc \<and> 0 < dc_RemainingStock dc \<and>
     0 < dc_RemainingBudgetCent dc \<and> (dc_UserGrantLimit dc \<le> 0 \<or> dc_UserGrantedCount dc < dc_UserGrantLimit dc)"
  unfolding grantPrecheck_def by (auto simp del: firstInt64.simps)

section \<open>A whole run\<close>

text \<open>The guarded decision of a run that starts in a given state.\<close>

definition guarded :: "'w Env \<Rightarrow> ReviewCouponFinalizer \<Rightarrow> FinalizeInput \<Rightarrow> 'w st \<Rightarrow> Decision" where
  "guarded env f input s = fst (applyDecisionGuard (env_now env (fst s)) (env_disk env (fst s)) (fi_Decision input)
     (fi_History input) (Some (fz_policy f)))"

definition lockPrefix :: "bool \<Rightarrow> gostring \<Rightarrow> gostring \<Rightarrow> Event list" where
  "lockPrefix hasLock key token = (if hasLock then [EvAcquire key (Inr (token, True)), EvLease key token] else [])"

definition lockSuffix :: "bool \<Rightarrow> gostring \<Rightarrow> gostring \<Rightarrow> Event list" where
  "lockSuffix hasLock key token = (if hasLock then [EvRelease key token, EvStopLease] else [])"

lemma grantAndStore_trace:
  assumes "grantAndStore env f input d0 dc s = ((d, st), f', s')"
  obtains out f1 s1 resp where "grantCouponIfNeeded env f d0 dc s = (out, f1, s1)"
    "d = decisionWithCouponGrant d0 out" "snd s' = snd s1 @ [EvStore (storeRequest input dc d out) resp]"
    "st_Error st = (case resp of Inl err \<Rightarrow> err | Inr _ \<Rightarrow> [])" "st_ToolName st = ''store_decision''"
proof -
  obtain out f1 s1 where g: "grantCouponIfNeeded env f d0 dc s = (out, f1, s1)" by (metis surj_pair)
  obtain resp s2 where c: "callStore env (storeRequest input dc (decisionWithCouponGrant d0 out) out) s1 = (resp, s2)"
    by (metis surj_pair)
  have t: "snd s2 = snd s1 @ [EvStore (storeRequest input dc (decisionWithCouponGrant d0 out) out) resp]"
    using c by (auto simp: callStore_def Let_def split: prod.splits)
  have "d = decisionWithCouponGrant d0 out \<and> s' = s2 \<and> st_Error st = (case resp of Inl err \<Rightarrow> err | Inr _ \<Rightarrow> [])
      \<and> st_ToolName st = ''store_decision''"
    using assms g c by (cases resp) (auto simp: grantAndStore_def storeStep_def Let_def)
  with g t that show thesis by blast
qed

lemma Finalize_cases:
  assumes "Finalize env f input s = ((d, st), f', s')"
  obtains (nostore) "\<not> fz_hasStore f" "d = guarded env f input s" "st = None" "s' = s"
  | (noids) e where "fz_hasStore f" "d = guarded env f input s" "st = Some e" "st_Error e \<noteq> []" "s' = s"
      "dc_ReviewID (finalizeContext input) \<le> 0 \<or> dc_StoreID (finalizeContext input) \<le> 0"
  | (locked) e r where "fz_hasStore f" "fz_hasLock f" "d = guarded env f input s" "st = Some e" "st_Error e \<noteq> []"
      "\<forall>token. r \<noteq> Inr (token, True)" "snd s' = snd s @ [EvAcquire (decisionLockKey (finalizeContext input)) r]"
  | (ran) f1 s1 out f2 s2 token e resp where "fz_hasStore f" "fz_hasGrant f1 = fz_hasGrant f"
      "0 < dc_ReviewID (finalizeContext input)" "0 < dc_StoreID (finalizeContext input)"
      "snd s1 = snd s @ lockPrefix (fz_hasLock f) (decisionLockKey (finalizeContext input)) token"
      "grantCouponIfNeeded env f1 (guarded env f input s) (finalizeContext input) s1 = (out, f2, s2)"
      "d = decisionWithCouponGrant (guarded env f input s) out"
      "snd s' = snd s2 @ [EvStore (storeRequest input (finalizeContext input) d out) resp]
         @ lockSuffix (fz_hasLock f) (decisionLockKey (finalizeContext input)) token"
      "st = Some e" "st_Error e = (case resp of Inl err \<Rightarrow> err | Inr _ \<Rightarrow> [])" "st_ToolName e = ''store_decision''"
proof -
  let ?dc = "finalizeContext input" and ?key = "decisionLockKey (finalizeContext input)"
  obtain d0 policy where g: "applyDecisionGuard (env_now env (fst s)) (env_disk env (fst s)) (fi_Decision input)
      (fi_History input) (Some (fz_policy f)) = (d0, policy)" by (metis surj_pair)
  define f1 where "f1 = f \<lparr> fz_policy := (case policy of Some p \<Rightarrow> p | None \<Rightarrow> fz_policy f) \<rparr>"
  have f1: "fz_hasGrant f1 = fz_hasGrant f" by (simp add: f1_def)
  have d0: "guarded env f input s = d0" by (simp add: guarded_def g)
  note unf = Finalize_def g prod.case Let_def f1_def [symmetric]
  consider (a) "\<not> fz_hasStore f" | (b) "fz_hasStore f" "dc_ReviewID ?dc \<le> 0 \<or> dc_StoreID ?dc \<le> 0"
    | (c) "fz_hasStore f" "\<not> (dc_ReviewID ?dc \<le> 0 \<or> dc_StoreID ?dc \<le> 0)" "\<not> fz_hasLock f"
    | (e) "fz_hasStore f" "\<not> (dc_ReviewID ?dc \<le> 0 \<or> dc_StoreID ?dc \<le> 0)" "fz_hasLock f"
    by blast
  then show thesis
  proof cases
    case a
    with assms d0 show thesis by (intro nostore) (auto simp: unf)
  next
    case b
    with assms d0 show thesis by (intro noids) (auto simp: unf)
  next
    case c
    obtain d' e f2 s2 where run: "grantAndStore env f1 input d0 ?dc s = ((d', e), f2, s2)" by (metis surj_pair)
    from assms c run have eqs: "d = d'" "st = Some e" "s' = s2" by (simp_all add: unf)
    from grantAndStore_trace [OF run] obtain out f3 s3 resp where o:
      "grantCouponIfNeeded env f1 d0 ?dc s = (out, f3, s3)" "d' = decisionWithCouponGrant d0 out"
      "snd s2 = snd s3 @ [EvStore (storeRequest input ?dc d' out) resp]"
      "st_Error e = (case resp of Inl err \<Rightarrow> err | Inr _ \<Rightarrow> [])" "st_ToolName e = ''store_decision''" by metis
    show thesis
      by (rule ran [of f1 s "[]" out f3 s3 resp e])
        (use c o eqs f1 d0 in \<open>auto simp: lockPrefix_def lockSuffix_def\<close>)
  next
    case e
    obtain r s1 where acq: "callAcquire env ?key s = (r, s1)" by (metis surj_pair)
    have t1: "snd s1 = snd s @ [EvAcquire ?key r]"
      using acq by (auto simp: callAcquire_def Let_def split: prod.splits)
    show thesis
    proof (cases "\<exists>token. r = Inr (token, True)")
      case False
      have "d = d0 \<and> (\<exists>e. st = Some e \<and> st_Error e \<noteq> []) \<and> s' = s1"
        using assms e acq False by (auto simp: unf split: sum.splits prod.splits bool.splits)
      with e False t1 d0 show thesis by (auto intro: locked)
    next
      case True
      then obtain token where r: "r = Inr (token, True)" by blast
      define s2 where "s2 = callLease env ?key token s1"
      have t2: "snd s2 = snd s @ lockPrefix True ?key token"
        by (simp add: s2_def callLease_def t1 r lockPrefix_def)
      obtain d' st' f3 s3 where run: "grantAndStore env f1 input d0 ?dc s2 = ((d', st'), f3, s3)" by (metis surj_pair)
      from assms e acq r run have eqs: "d = d'" "st = Some st'" "s' = callStopLease env (callRelease env ?key token s3)"
        by (simp_all add: unf s2_def)
      from grantAndStore_trace [OF run] obtain out f4 s4 resp where o:
        "grantCouponIfNeeded env f1 d0 ?dc s2 = (out, f4, s4)" "d' = decisionWithCouponGrant d0 out"
        "snd s3 = snd s4 @ [EvStore (storeRequest input ?dc d' out) resp]"
        "st_Error st' = (case resp of Inl err \<Rightarrow> err | Inr _ \<Rightarrow> [])" "st_ToolName st' = ''store_decision''" by metis
      show thesis
        by (rule ran [of f1 s2 token out f4 s4 resp st'])
          (use e o eqs f1 d0 t2 in \<open>auto simp: lockSuffix_def callStopLease_def callRelease_def\<close>)
    qed
  qed
qed

text \<open>The calls of a run that starts with an empty trace.\<close>

definition calls :: "'w Env \<Rightarrow> ReviewCouponFinalizer \<Rightarrow> FinalizeInput \<Rightarrow> 'w \<Rightarrow> Event list" where
  "calls env f input w = snd (snd (snd (Finalize env f input (w, []))))"

definition finalDecision :: "'w Env \<Rightarrow> ReviewCouponFinalizer \<Rightarrow> FinalizeInput \<Rightarrow> 'w \<Rightarrow> Decision" where
  "finalDecision env f input w = fst (fst (Finalize env f input (w, [])))"

definition finalStep :: "'w Env \<Rightarrow> ReviewCouponFinalizer \<Rightarrow> FinalizeInput \<Rightarrow> 'w \<Rightarrow> Step option" where
  "finalStep env f input w = snd (fst (Finalize env f input (w, [])))"

lemmas run_defs = calls_def finalDecision_def finalStep_def

lemma grantsOf_lock [simp]: "grantsOf (lockPrefix b k t) = []" "grantsOf (lockSuffix b k t) = []"
  "storesOf (lockPrefix b k t) = []" "storesOf (lockSuffix b k t) = []"
  by (simp_all add: lockPrefix_def lockSuffix_def)

text \<open>The shape of every trace: nothing at all, an unsuccessful attempt to lock, or lock, grants, store and
  release, with the grants of one retry loop, made only after every check.\<close>

lemma calls_cases:
  obtains (quiet) "calls env f input w = []"
  | (locked) r where "fz_hasLock f" "\<forall>token. r \<noteq> Inr (token, True)"
      "calls env f input w = [EvAcquire (decisionLockKey (finalizeContext input)) r]"
      "\<exists>e. finalStep env f input w = Some e \<and> st_Error e \<noteq> []"
  | (stored) token gs out resp where
      "calls env f input w = lockPrefix (fz_hasLock f) (decisionLockKey (finalizeContext input)) token @ gs
         @ [EvStore (storeRequest input (finalizeContext input) (finalDecision env f input w) out) resp]
         @ lockSuffix (fz_hasLock f) (decisionLockKey (finalizeContext input)) token"
      "0 < dc_ReviewID (finalizeContext input)" "0 < dc_StoreID (finalizeContext input)"
      "finalDecision env f input w = decisionWithCouponGrant (guarded env f input (w, [])) out"
      "gs = [] \<and> \<not> cg_Attempted out \<and> \<not> cg_Success out \<and> cg_ExecutionStatus out \<noteq> ''GRANTED'' \<and>
         (\<forall>message status. grantPrecheck (fz_hasGrant f) (guarded env f input (w, [])) (finalizeContext input) = Some (message, status)
            \<longrightarrow> out = zeroOutcome \<lparr> cg_Message := message, cg_ExecutionStatus := status \<rparr>) \<or>
       (\<exists>scene r n. scene \<noteq> [] \<and> grantRun (grantRequest (finalizeContext input) scene) 1 gs r n \<and>
          grantPrecheck (fz_hasGrant f) (guarded env f input (w, [])) (finalizeContext input) = None \<and>
          cg_Attempted out \<and> cg_Attempts out = n \<and> (cg_Success out \<longleftrightarrow> (\<exists>resp. r = Inr resp \<and> rp_Success resp)) \<and>
          cg_ExecutionStatus out = (case r of Inl _ \<Rightarrow> ''GRANT_FAILED'' | Inr resp \<Rightarrow> if rp_Success resp then ''GRANTED'' else ''REJECTED''))"
      "\<exists>e. finalStep env f input w = Some e \<and> st_Error e = (case resp of Inl err \<Rightarrow> err | Inr _ \<Rightarrow> [])"
proof -
  obtain d st f' s' where run: "Finalize env f input (w, []) = ((d, st), f', s')" by (metis surj_pair)
  note eqs = run_defs run fst_conv snd_conv
  show thesis
  proof (cases rule: Finalize_cases [OF run])
    case 1
    then show thesis by (intro quiet) (simp add: eqs)
  next
    case (2 e)
    then show thesis by (intro quiet) (simp add: eqs)
  next
    case (3 e r)
    then show thesis by (intro locked [of r]) (auto simp: eqs)
  next
    case (4 f1 s1 out f2 s2 token e resp)
    show thesis
    proof (cases rule: grantIfNeeded_cases [OF 4(6)])
      case 1
      then show thesis using 4 by (intro stored [of token "[]" out resp]) (auto simp: eqs)
    next
      case (2 scene gs r n)
      then show thesis using 4 by (intro stored [of token gs out resp]) (auto simp: eqs)
    qed
  qed
qed

lemma guarded_grant:
  assumes "EqualFold (d_Action (guarded env f input s)) ''GRANT_COUPON''" "\<not> d_NeedHumanReview (guarded env f input s)"
  shows "\<not> df_HasAppeal (extractDecisionFacts (fi_History input)) \<and> \<not> lowQuality (extractDecisionFacts (fi_History input)) \<and>
    (EqualFold (d_Action (fi_Decision input)) ''GRANT_COUPON'' \<or> EqualFold (d_Action (fi_Decision input)) ''SUGGEST_COUPON'') \<and>
    \<not> d_NeedHumanReview (fi_Decision input)"
proof -
  from assms(1) have a: "\<not> df_HasAppeal (extractDecisionFacts (fi_History input))"
      "\<not> lowQuality (extractDecisionFacts (fi_History input))"
      "EqualFold (d_Action (fi_Decision input)) ''GRANT_COUPON'' \<or> EqualFold (d_Action (fi_Decision input)) ''SUGGEST_COUPON''"
    by (simp_all add: guarded_def guard_action)
  have "d_NeedHumanReview (normalizeSuggest (fi_Decision input)) = d_NeedHumanReview (fi_Decision input)"
    by (simp add: normalizeSuggest_def)
  then have "\<not> d_NeedHumanReview (fi_Decision input)"
    using assms(2) by (auto simp: guarded_def guard_pass [OF a(1,2)] Let_def split: prod.splits)
  with a show ?thesis by blast
qed

lemma grants_calls:
  assumes "grantsOf (calls env f input w) \<noteq> []"
  obtains scene gs r n out token resp where "scene \<noteq> []" "grantRun (grantRequest (finalizeContext input) scene) 1 gs r n"
    "grantsOf (calls env f input w) = grantsOf gs"
    "grantPrecheck (fz_hasGrant f) (guarded env f input (w, [])) (finalizeContext input) = None"
    "storesOf (calls env f input w) = [(storeRequest input (finalizeContext input) (finalDecision env f input w) out, resp)]"
    "cg_Attempted out" "cg_Success out \<longleftrightarrow> (\<exists>reply. r = Inr reply \<and> rp_Success reply)"
    "cg_ExecutionStatus out = (case r of Inl _ \<Rightarrow> ''GRANT_FAILED'' | Inr resp \<Rightarrow> if rp_Success resp then ''GRANTED'' else ''REJECTED'')"
    "finalDecision env f input w = decisionWithCouponGrant (guarded env f input (w, [])) out"
proof (cases rule: calls_cases [where env = env and f = f and input = input and w = w])
  case quiet
  with assms show thesis by simp
next
  case (locked r)
  with assms show thesis by simp
next
  case (stored token gs out resp)
  have g: "grantsOf (calls env f input w) = grantsOf gs" using stored(1) by simp
  with assms have "gs \<noteq> []" by auto
  with stored(5) obtain scene r n where *: "scene \<noteq> []" "grantRun (grantRequest (finalizeContext input) scene) 1 gs r n"
    "grantPrecheck (fz_hasGrant f) (guarded env f input (w, [])) (finalizeContext input) = None" "cg_Attempted out"
    "cg_Success out \<longleftrightarrow> (\<exists>resp. r = Inr resp \<and> rp_Success resp)"
    "cg_ExecutionStatus out = (case r of Inl _ \<Rightarrow> ''GRANT_FAILED'' | Inr resp \<Rightarrow> if rp_Success resp then ''GRANTED'' else ''REJECTED'')"
    by blast
  have "\<forall>e \<in> set gs. grantOrWait e" using grantRun_facts [OF *(2)] by simp
  then have "storesOf (calls env f input w) = [(storeRequest input (finalizeContext input) (finalDecision env f input w) out, resp)]"
    using stored(1) by simp
  with * g stored(4) that show thesis by blast
qed

lemma stores_calls:
  assumes "(sreq, resp) \<in> set (storesOf (calls env f input w))"
  obtains out where "sreq = storeRequest input (finalizeContext input) (finalDecision env f input w) out"
    "storesOf (calls env f input w) = [(sreq, resp)]"
    "cg_Success out \<longleftrightarrow> (\<exists>q reply. (q, Inr reply) \<in> set (grantsOf (calls env f input w)) \<and> rp_Success reply)"
    "cg_ExecutionStatus out = ''GRANTED'' \<longleftrightarrow> cg_Success out"
    "finalDecision env f input w = decisionWithCouponGrant (guarded env f input (w, [])) out"
    "\<forall>message status. grantPrecheck (fz_hasGrant f) (guarded env f input (w, [])) (finalizeContext input) = Some (message, status)
       \<longrightarrow> out = zeroOutcome \<lparr> cg_Message := message, cg_ExecutionStatus := status \<rparr>"
    "\<exists>e. finalStep env f input w = Some e \<and> st_Error e = (case resp of Inl err \<Rightarrow> err | Inr _ \<Rightarrow> [])"
proof (cases rule: calls_cases [where env = env and f = f and input = input and w = w])
  case quiet
  with assms show thesis by simp
next
  case (locked r)
  with assms show thesis by simp
next
  case (stored token gs out resp')
  have gw: "\<forall>e \<in> set gs. grantOrWait e" using stored(5) grantRun_facts by fastforce
  then have st: "storesOf (calls env f input w) = [(storeRequest input (finalizeContext input) (finalDecision env f input w) out, resp')]"
    using stored(1) by simp
  have g: "grantsOf (calls env f input w) = grantsOf gs" using stored(1) by simp
  from stored(5) show thesis
  proof (elim disjE exE conjE)
    assume "gs = []" "\<not> cg_Success out" "cg_ExecutionStatus out \<noteq> ''GRANTED''"
      "\<forall>message status. grantPrecheck (fz_hasGrant f) (guarded env f input (w, [])) (finalizeContext input) = Some (message, status)
         \<longrightarrow> out = zeroOutcome \<lparr> cg_Message := message, cg_ExecutionStatus := status \<rparr>"
    then show thesis using st g assms stored(4,6) by (intro that [of out]) auto
  next
    fix scene r n
    assume run: "grantRun (grantRequest (finalizeContext input) scene) 1 gs r n"
      and pre: "grantPrecheck (fz_hasGrant f) (guarded env f input (w, [])) (finalizeContext input) = None"
      and suc: "cg_Success out \<longleftrightarrow> (\<exists>resp. r = Inr resp \<and> rp_Success resp)"
      and sta: "cg_ExecutionStatus out = (case r of Inl _ \<Rightarrow> ''GRANT_FAILED'' | Inr resp \<Rightarrow> if rp_Success resp then ''GRANTED'' else ''REJECTED'')"
    let ?l = "grantsOf gs"
    from grantRun_facts [OF run] have f: "?l \<noteq> []"
      "\<forall>x \<in> set (butlast ?l). \<exists>err. snd x = Inl err" "\<forall>resp. r = Inr resp \<longleftrightarrow> snd (last ?l) = Inr resp" by auto
    have "set ?l = insert (last ?l) (set (butlast ?l))"
      using f(1) by (metis append_butlast_last_id list.simps(15) rotate1.simps(2) set_rotate1)
    then have "(\<exists>q reply. (q, Inr reply) \<in> set ?l \<and> rp_Success reply) \<longleftrightarrow> (\<exists>reply. r = Inr reply \<and> rp_Success reply)"
      using f(2,3) by (metis insert_iff prod.collapse snd_conv sum.distinct(1))
    then show thesis using st g assms stored(4,6) pre suc sta by (intro that [of out]) (auto split: sum.splits)
  qed
qed

section \<open>Properties\<close>

text \<open>What a call of the coupon service says of the input of the run.\<close>

lemma grant_allowed:
  assumes "(req, r) \<in> set (grantsOf (calls env f input w))"
  shows "\<not> df_HasAppeal (extractDecisionFacts (fi_History input)) \<and>
    \<not> lowQuality (extractDecisionFacts (fi_History input)) \<and>
    (EqualFold (d_Action (fi_Decision input)) ''GRANT_COUPON'' \<or> EqualFold (d_Action (fi_Decision input)) ''SUGGEST_COUPON'') \<and>
    \<not> d_NeedHumanReview (fi_Decision input) \<and>
    (let dc = finalizeContext input in
      0 < dc_StoreID dc \<and> 0 < dc_UserID dc \<and> 0 < firstInt64 0 [dc_SkuID dc, dc_SpuID dc] \<and> dc_ActivityID dc \<noteq> [] \<and>
      dc_CampaignActive dc \<and> dc_ProductEligible dc \<and> dc_UserEligible dc \<and>
      0 < dc_RemainingStock dc \<and> 0 < dc_RemainingBudgetCent dc \<and>
      (dc_UserGrantLimit dc \<le> 0 \<or> dc_UserGrantedCount dc < dc_UserGrantLimit dc) \<and>
      (\<exists>scene. scene \<noteq> [] \<and> req = grantRequest dc scene))"
proof -
  have ne: "grantsOf (calls env f input w) \<noteq> []" using assms by auto
  from grants_calls [OF ne] obtain scene gs r' n where *: "scene \<noteq> []"
    "grantRun (grantRequest (finalizeContext input) scene) 1 gs r' n" "grantsOf (calls env f input w) = grantsOf gs"
    "grantPrecheck (fz_hasGrant f) (guarded env f input (w, [])) (finalizeContext input) = None" by metis
  have "req = grantRequest (finalizeContext input) scene"
    using grantRun_facts [OF *(2)] assms *(3) by fastforce
  with *(1) *(4) guarded_grant [of env f input "(w, [])"] show ?thesis
    unfolding grantPrecheck_None Let_def by blast
qed

text \<open>C1: a coupon is requested only when everything allows it: the guard found no appeal and no low-score
  quality problem, the model asked for a grant and not for a human, and the last campaign data say active,
  product and user eligible, stock and budget left, user limit not reached; the request is the one built
  from the extracted context, with a known scene.\<close>

theorem grant_only_if_allowed:
  assumes "(req, r) \<in> set (grantsOf (calls env f input w))"
  shows "\<not> df_HasAppeal (extractDecisionFacts (fi_History input)) \<and>
    \<not> lowQuality (extractDecisionFacts (fi_History input)) \<and>
    (EqualFold (d_Action (fi_Decision input)) ''GRANT_COUPON'' \<or> EqualFold (d_Action (fi_Decision input)) ''SUGGEST_COUPON'') \<and>
    \<not> d_NeedHumanReview (fi_Decision input) \<and>
    (let dc = finalizeContext input in
      0 < dc_StoreID dc \<and> 0 < dc_UserID dc \<and> 0 < firstInt64 0 [dc_SkuID dc, dc_SpuID dc] \<and> dc_ActivityID dc \<noteq> [] \<and>
      dc_CampaignActive dc \<and> dc_ProductEligible dc \<and> dc_UserEligible dc \<and>
      0 < dc_RemainingStock dc \<and> 0 < dc_RemainingBudgetCent dc \<and>
      (dc_UserGrantLimit dc \<le> 0 \<or> dc_UserGrantedCount dc < dc_UserGrantLimit dc) \<and>
      (\<exists>scene. scene \<noteq> [] \<and> req = grantRequest dc scene))"
  by (rule grant_allowed [OF assms])

text \<open>C9: the grant service is called at most three times in a run, always with the same request (hence the
  same idempotency key), and only after an error that is classified as retryable.\<close>

theorem grant_attempts:
  "length (grantsOf (calls env f input w)) \<le> 3 \<and>
   (\<exists>req. \<forall>g \<in> set (grantsOf (calls env f input w)). fst g = req) \<and>
   (\<forall>g \<in> set (butlast (grantsOf (calls env f input w))). \<exists>err. snd g = Inl err \<and> isRetryableCouponGrantError err)"
proof (cases "grantsOf (calls env f input w) = []")
  case False
  from grants_calls [OF this] obtain scene gs r n where *:
    "grantRun (grantRequest (finalizeContext input) scene) 1 gs r n" "grantsOf (calls env f input w) = grantsOf gs" by metis
  show ?thesis using grantRun_facts [OF *(1)] *(2) by auto
qed simp

text \<open>C8: what is stored about the coupon is what happened: a run stores at most one decision, marks it as
  granted (with status GRANTED) exactly when a grant call of this run reported success, and then the
  decision stored is a grant; and a run that called the grant service stores its decision.\<close>

theorem store_reflects_grant:
  assumes "(sreq, resp) \<in> set (storesOf (calls env f input w))"
  shows "storesOf (calls env f input w) = [(sreq, resp)] \<and>
    (sd_CouponGranted sreq \<longleftrightarrow> (\<exists>q reply. (q, Inr reply) \<in> set (grantsOf (calls env f input w)) \<and> rp_Success reply)) \<and>
    (sd_ExecutionStatus sreq = ''GRANTED'' \<longleftrightarrow> sd_CouponGranted sreq) \<and>
    (sd_CouponGranted sreq \<longrightarrow> EqualFold (d_Action (finalDecision env f input w)) ''GRANT_COUPON'')"
proof (rule stores_calls [OF assms])
  fix out
  assume a: "sreq = storeRequest input (finalizeContext input) (finalDecision env f input w) out"
    "storesOf (calls env f input w) = [(sreq, resp)]"
    "cg_Success out \<longleftrightarrow> (\<exists>q reply. (q, Inr reply) \<in> set (grantsOf (calls env f input w)) \<and> rp_Success reply)"
    "cg_ExecutionStatus out = ''GRANTED'' \<longleftrightarrow> cg_Success out"
    "finalDecision env f input w = decisionWithCouponGrant (guarded env f input (w, [])) out"
  have s: "sd_CouponGranted sreq = cg_Success out" "sd_ExecutionStatus sreq = cg_ExecutionStatus out"
    by (simp_all add: a(1) storeRequest_def)
  have "EqualFold (d_Action (finalDecision env f input w)) ''GRANT_COUPON''" if c: "cg_Success out"
  proof -
    from c a(3) have "grantsOf (calls env f input w) \<noteq> []" by auto
    from grants_calls [OF this] have "grantPrecheck (fz_hasGrant f) (guarded env f input (w, [])) (finalizeContext input) = None"
      by metis
    then have "EqualFold (d_Action (guarded env f input (w, []))) ''GRANT_COUPON''" unfolding grantPrecheck_None by blast
    then show ?thesis using c by (simp add: a(5) decisionWithCouponGrant_def)
  qed
  with a s show ?thesis by simp
qed

text \<open>C10: every run that called the grant service also calls the decision store, once.\<close>

theorem grant_is_recorded:
  assumes "grantsOf (calls env f input w) \<noteq> []"
  shows "\<exists>sreq resp. storesOf (calls env f input w) = [(sreq, resp)] \<and>
    sd_ReviewID sreq = gr_ReviewID (fst (last (grantsOf (calls env f input w)))) \<and>
    sd_StoreID sreq = gr_StoreID (fst (last (grantsOf (calls env f input w)))) \<and>
    sd_UserID sreq = gr_UserID (fst (last (grantsOf (calls env f input w))))"
proof -
  from grants_calls [OF assms] obtain scene gs r n out resp where *:
    "grantRun (grantRequest (finalizeContext input) scene) 1 gs r n" "grantsOf (calls env f input w) = grantsOf gs"
    "storesOf (calls env f input w) = [(storeRequest input (finalizeContext input) (finalDecision env f input w) out, resp)]" by metis
  have "fst (last (grantsOf gs)) = grantRequest (finalizeContext input) scene"
    using grantRun_facts [OF *(1)] by auto
  then show ?thesis using * by (simp add: storeRequest_def grantRequest_def)
qed

text \<open>C11: with a lock service, a run either does nothing, or fails to get the lock of the review and does
  nothing else, or holds the lock from before its first grant until after its store and then releases it
  with the token it was given.\<close>

theorem lock_discipline:
  assumes "fz_hasLock f"
  shows "calls env f input w = [] \<or>
    (\<exists>r. (\<forall>token. r \<noteq> Inr (token, True)) \<and> calls env f input w = [EvAcquire (decisionLockKey (finalizeContext input)) r]) \<or>
    (\<exists>token gs sreq resp. (\<forall>e \<in> set gs. grantOrWait e) \<and>
       calls env f input w = [EvAcquire (decisionLockKey (finalizeContext input)) (Inr (token, True)),
           EvLease (decisionLockKey (finalizeContext input)) token] @ gs @
         [EvStore sreq resp, EvRelease (decisionLockKey (finalizeContext input)) token, EvStopLease])"
proof (cases rule: calls_cases [where env = env and f = f and input = input and w = w])
  case (stored token gs out resp)
  have "\<forall>e \<in> set gs. grantOrWait e" using stored(5) grantRun_facts by fastforce
  with stored(1) assms show ?thesis by (auto simp: lockPrefix_def lockSuffix_def)
qed auto


text \<open>C22: a grant that is refused before any call (a campaign constraint, a missing field, an unconfigured
  service) is stored as not granted with the status of the refusal, but the decision keeps its action and
  is tagged COUPON_GRANT_NOT_CONFIGURED whatever the reason was.\<close>

theorem refused_grant_keeps_action:
  assumes "grantPrecheck (fz_hasGrant f) (guarded env f input (w, [])) (finalizeContext input) = Some (message, status)"
    and "EqualFold (d_Action (guarded env f input (w, []))) ''GRANT_COUPON''"
    and "(sreq, resp) \<in> set (storesOf (calls env f input w))"
  shows "\<not> sd_CouponGranted sreq \<and> sd_ExecutionStatus sreq = status \<and> grantsOf (calls env f input w) = [] \<and>
    d_Action (finalDecision env f input w) = d_Action (guarded env f input (w, [])) \<and>
    list_ex (\<lambda>t. EqualFold t ''COUPON_GRANT_NOT_CONFIGURED'') (d_PolicyTags (finalDecision env f input w))"
proof (rule stores_calls [OF assms(3)])
  fix out
  assume a: "sreq = storeRequest input (finalizeContext input) (finalDecision env f input w) out"
    "finalDecision env f input w = decisionWithCouponGrant (guarded env f input (w, [])) out"
    "\<forall>message status. grantPrecheck (fz_hasGrant f) (guarded env f input (w, [])) (finalizeContext input) = Some (message, status)
       \<longrightarrow> out = zeroOutcome \<lparr> cg_Message := message, cg_ExecutionStatus := status \<rparr>"
  from a(3) assms(1) have out: "out = zeroOutcome \<lparr> cg_Message := message, cg_ExecutionStatus := status \<rparr>" by blast
  have "grantsOf (calls env f input w) = []" using grants_calls [of env f input w] assms(1) by fastforce
  then show ?thesis
    using assms(2) by (simp add: a(1,2) out storeRequest_def zeroOutcome_def decisionWithCouponGrant_def appendMissingTag_has)
qed

text \<open>of the business context of the job only the activity and the policy version reach the finalizer:
  review, store, user and product come from the observations alone, whatever the job was submitted for.\<close>

theorem business_ids_ignored:
  assumes "ei_ActivityID bc = ei_ActivityID (fi_BusinessContext input)"
    and "ei_PolicyVersion bc = ei_PolicyVersion (fi_BusinessContext input)"
  shows "Finalize env f (input \<lparr> fi_BusinessContext := bc \<rparr>) s = Finalize env f input s"
proof -
  have "finalizeContext (input \<lparr> fi_BusinessContext := bc \<rparr>) = finalizeContext input"
    using assms by (simp add: finalizeContext_def)
  moreover have "storeStep (input \<lparr> fi_BusinessContext := bc \<rparr>) = storeStep input" by (simp add: storeStep_def)
  moreover have "grantAndStore env f1 (input \<lparr> fi_BusinessContext := bc \<rparr>) d dc t = grantAndStore env f1 input d dc t" for f1 d dc t
    unfolding grantAndStore_def storeRequest_def llmOutputJson_def storeStep_def by (simp cong: if_cong)
  ultimately show ?thesis unfolding Finalize_def Let_def by (simp add: case_prod_beta cong: if_cong sum.case_cong bool.case_cong)
qed

section \<open>Witnesses\<close>

text \<open>A review with an active campaign, services that answer well, and a coupon service that times out the
  first time. The world counts the calls of the coupon service.\<close>

definition campaignStep :: "gostring \<Rightarrow> StepRecord" where
  "campaignStep members = \<lparr>sr_Step = 4, sr_ToolName = ''get_campaign_context'', sr_Action = ''tool_call'', sr_Arguments = [],
     sr_Output = ''{'' @ q @ ''campaign'' @ q @ '':{'' @ members @ ''}}'', sr_Error = []\<rparr>"

definition numMember :: "gostring \<Rightarrow> gostring \<Rightarrow> gostring" where
  "numMember k v = q @ k @ q @ '':'' @ v"

definition strMember :: "gostring \<Rightarrow> gostring \<Rightarrow> gostring" where
  "strMember k v = q @ k @ q @ '':'' @ q @ v @ q"

definition demoHistory :: "gostring \<Rightarrow> StepRecord list" where
  "demoHistory stock = [
     evidenceStep (Join [numMember ''reviewId'' ''9'', numMember ''storeId'' ''7'', numMember ''userId'' ''5'',
       numMember ''skuId'' ''3'', numMember ''score'' ''5''] '',''),
     campaignStep (Join [strMember ''activity_id'' ''act'', strMember ''status'' ''ACTIVE'',
       numMember ''product_eligible'' ''true'', numMember ''user_eligible'' ''true'',
       numMember ''remaining_stock'' stock, numMember ''remaining_budget_cent'' ''100''] '','')]"

definition demoExec :: ExecutionInput where
  "demoExec = \<lparr>ei_SessionID = ''s'', ei_ExecutionID = ''e'', ei_ParentExecutionID = [], ei_Task = ''t'', ei_ReviewID = 1,
     ei_EvidenceVersion = 0, ei_StoreID = 1, ei_UserID = 1, ei_SkuID = 1, ei_SpuID = 1, ei_ActivityID = ''act'', ei_PolicyVersion = ''v1''\<rparr>"

definition demoInput :: "gostring \<Rightarrow> FinalizeInput" where
  "demoInput stock = \<lparr>fi_SessionID = ''s'', fi_ExecutionID = ''e'', fi_ParentExecutionID = [], fi_Task = ''t'',
     fi_Decision = grantDecision, fi_History = demoHistory stock, fi_BusinessContext = demoExec\<rparr>"

definition noDisk :: Disk where
  "noDisk = \<lparr>dk_Stat = (\<lambda>_. Inl ''missing''), dk_ReadFile = (\<lambda>_. Inl ''missing'')\<rparr>"

definition demoEnv :: "nat Env" where
  "demoEnv = \<lparr>env_now = (\<lambda>_. 0), env_disk = (\<lambda>_. noDisk), env_acquire = (\<lambda>_ w. (Inr (''tok'', True), w)),
     env_lease = (\<lambda>_ _ w. w),
     env_grant = (\<lambda>_ w. (if w = 0 then Inl ''i/o timeout''
        else Inr \<lparr>rp_Success = True, rp_Message = ''ok'', rp_Coupon = [], rp_Duplicated = False\<rparr>, w + 1)),
     env_wait = (\<lambda>_ w. (None, w)),
     env_store = (\<lambda>_ w. (Inr \<lparr>sr_DecisionID = ''d'', sr_Stored = True\<rparr>, w)),
     env_release = (\<lambda>_ _ w. w), env_stopLease = id\<rparr>"

definition demoFinalizer :: ReviewCouponFinalizer where
  "demoFinalizer = NewReviewCouponFinalizer 0 noDisk True True True None"

abbreviation demoCalls :: "gostring \<Rightarrow> Event list" where
  "demoCalls stock \<equiv> calls demoEnv demoFinalizer (demoInput stock) 0"

definition eventKind :: "Event \<Rightarrow> nat" where
  "eventKind e = (case e of EvAcquire _ _ \<Rightarrow> 0 | EvLease _ _ \<Rightarrow> 1 | EvGrant _ _ \<Rightarrow> 2 | EvWait _ \<Rightarrow> 3 | EvStore _ _ \<Rightarrow> 4
     | EvRelease _ _ \<Rightarrow> 5 | EvStopLease \<Rightarrow> 6)"

lemma demoCalls_kinds: "map eventKind (demoCalls ''8'') = [0, 1, 2, 3, 2, 4, 5, 6]"
  by code_simp

lemma demoCalls_refused: "map eventKind (demoCalls ''0'') = [0, 1, 4, 5, 6]"
  by code_simp

lemma grantsOf_kinds: "length (grantsOf es) = length (filter (\<lambda>k. k = 2) (map eventKind es))"
  by (induction es) (auto simp: eventKind_def split: Event.split)

lemma storesOf_kinds: "length (storesOf es) = length (filter (\<lambda>k. k = 4) (map eventKind es))"
  by (induction es) (auto simp: eventKind_def split: Event.split)

lemma demo_grants: "length (grantsOf (demoCalls ''8'')) = 2" "length (storesOf (demoCalls ''8'')) = 1"
  unfolding grantsOf_kinds storesOf_kinds demoCalls_kinds by simp_all

lemma demo_grant_ex: obtains req r where "(req, r) \<in> set (grantsOf (demoCalls ''8''))"
proof -
  have "grantsOf (demoCalls ''8'') \<noteq> []" using demo_grants(1) by auto
  with that show thesis by (metis list.set_intros(1) neq_Nil_conv surj_pair)
qed

lemma demo_store_ex: obtains sreq resp where "(sreq, resp) \<in> set (storesOf (demoCalls ''8''))"
proof -
  have "storesOf (demoCalls ''8'') \<noteq> []" using demo_grants(2) by auto
  with that show thesis by (metis list.set_intros(1) neq_Nil_conv surj_pair)
qed

lemma grant_only_if_allowed_witness:
  "\<exists>scene req r. (req, r) \<in> set (grantsOf (demoCalls ''8'')) \<and> req = grantRequest (finalizeContext (demoInput ''8'')) scene \<and>
     0 < dc_RemainingStock (finalizeContext (demoInput ''8''))"
proof (rule demo_grant_ex)
  fix req r assume g: "(req, r) \<in> set (grantsOf (demoCalls ''8''))"
  from grant_only_if_allowed [OF g] g show ?thesis by (auto simp: Let_def)
qed

lemma grant_attempts_witness:
  "length (grantsOf (demoCalls ''8'')) = 2 \<and> length (grantsOf (demoCalls ''8'')) \<le> 3 \<and>
   (\<exists>err. snd (hd (grantsOf (demoCalls ''8''))) = Inl err \<and> isRetryableCouponGrantError err)"
proof -
  obtain g g' where gs: "grantsOf (demoCalls ''8'') = [g, g']"
    using demo_grants(1) by (auto simp: numeral_2_eq_2 length_Suc_conv)
  with grant_attempts [of demoEnv demoFinalizer "demoInput ''8''" 0] show ?thesis by auto
qed

lemma store_reflects_grant_witness:
  "\<exists>sreq resp. storesOf (demoCalls ''8'') = [(sreq, resp)] \<and>
     (sd_CouponGranted sreq \<longleftrightarrow> (\<exists>q reply. (q, Inr reply) \<in> set (grantsOf (demoCalls ''8'')) \<and> rp_Success reply))"
proof (rule demo_store_ex)
  fix sreq resp assume g: "(sreq, resp) \<in> set (storesOf (demoCalls ''8''))"
  from store_reflects_grant [OF g] show ?thesis by blast
qed

lemma grant_is_recorded_witness: "\<exists>sreq resp. storesOf (demoCalls ''8'') = [(sreq, resp)]"
proof -
  have "grantsOf (demoCalls ''8'') \<noteq> []" using demo_grants(1) by auto
  from grant_is_recorded [OF this] show ?thesis by blast
qed

lemma lock_discipline_witness: "\<exists>key token es. demoCalls ''8'' = EvAcquire key (Inr (token, True)) # es"
proof -
  have l: "fz_hasLock demoFinalizer" by (simp add: demoFinalizer_def NewReviewCouponFinalizer_def)
  have "demoCalls ''8'' \<noteq> []" "tl (demoCalls ''8'') \<noteq> []" using demoCalls_kinds by auto
  with lock_discipline [OF l, of demoEnv "demoInput ''8''" 0] show ?thesis by fastforce
qed

lemma refused_grant_keeps_action_witness:
  "\<exists>sreq resp. storesOf (demoCalls ''0'') = [(sreq, resp)] \<and> \<not> sd_CouponGranted sreq \<and> sd_ExecutionStatus sreq = ''REJECTED'' \<and>
     list_ex (\<lambda>t. EqualFold t ''COUPON_GRANT_NOT_CONFIGURED'') (d_PolicyTags (finalDecision demoEnv demoFinalizer (demoInput ''0'') 0))"
proof -
  have pre: "grantPrecheck (fz_hasGrant demoFinalizer) (guarded demoEnv demoFinalizer (demoInput ''0'') (0, [])) (finalizeContext (demoInput ''0''))
      = Some (''campaign constraints rejected coupon grant'', ''REJECTED'')" by code_simp
  have act: "EqualFold (d_Action (guarded demoEnv demoFinalizer (demoInput ''0'') (0, []))) ''GRANT_COUPON''" by code_simp
  have "length (storesOf (demoCalls ''0'')) = 1" unfolding storesOf_kinds demoCalls_refused by simp
  then obtain sreq resp where st: "storesOf (demoCalls ''0'') = [(sreq, resp)]"
    by (metis One_nat_def length_0_conv length_Suc_conv surj_pair)
  then have mem: "(sreq, resp) \<in> set (storesOf (demoCalls ''0''))" by simp
  from refused_grant_keeps_action [OF pre act mem] st show ?thesis by blast
qed

lemma business_ids_ignored_witness:
  "Finalize demoEnv demoFinalizer ((demoInput ''8'') \<lparr> fi_BusinessContext := demoExec \<lparr> ei_ReviewID := 42 \<rparr> \<rparr>) (0, []) =
   Finalize demoEnv demoFinalizer (demoInput ''8'') (0, [])"
  by (rule business_ids_ignored) (simp_all add: demoInput_def demoExec_def)

end
