(* ===== verification/Agent_Tools.thy ===== *)
theory Agent_Tools
  imports Finalizer
begin

text \<open>
  \<open>internal/agent/parallel_tools.go\<close>: after the evidence of a review is there, the agent asks for its
  statistics, its RAG history and its campaign context on its own, in three goroutines, and writes the three
  observations to its memory in a fixed order. A tool is a parameter (name and arguments to observation or
  error, over a world \<open>'w\<close>); the order in which the three goroutines call theirs is the parameter \<open>sched\<close>, a
  list of the indices 0, 1, 2; the order in which Go iterates over the map literal of keywords is the
  parameter \<open>mapOrder\<close>.
\<close>

section \<open>The environment of the agent\<close>

datatype WorkflowStage = CollectReviewEvidence | CollectESStatistics | CollectRAGHistory | CollectCampaignContext | DecisionReady

text \<open>What one round hands to the language model (the texts of the prompts are made from it by
  \<open>internal/prompt\<close>, which is not part of this theory).\<close>

record ChatInput =
  ch_Task :: gostring
  ch_Stage :: WorkflowStage
  ch_RequiredTool :: gostring
  ch_AllowFinal :: bool
  ch_Context :: CompressedContext

text \<open>The memory store of the agent (the interface \<open>memory.Store\<close>): operations on a store \<open>'s\<close>, with the clock.\<close>

record 's MemOps =
  mo_Save :: "int \<Rightarrow> SessionState \<Rightarrow> 's \<Rightarrow> 's"
  mo_Append :: "int \<Rightarrow> gostring \<Rightarrow> StepRecord \<Rightarrow> 's \<Rightarrow> 's"
  mo_Snapshot :: "int \<Rightarrow> gostring \<Rightarrow> 's \<Rightarrow> View \<times> 's"
  mo_LastError :: "'s \<Rightarrow> gerror option"

record 'w AgentEnv =
  ae_now :: "'w \<Rightarrow> int"
  ae_chat :: "ChatInput \<Rightarrow> 'w \<Rightarrow> gostring result \<times> 'w"
  ae_registered :: "gostring \<Rightarrow> bool"
  ae_tool :: "gostring \<Rightarrow> gostring \<Rightarrow> 'w \<Rightarrow> gostring result \<times> 'w"
  ae_finalize :: "FinalizeInput \<Rightarrow> 'w \<Rightarrow> (Decision \<times> Step option) \<times> 'w"
  ae_sched :: "'w \<Rightarrow> nat list"
  ae_mapOrder :: "'w \<Rightarrow> (gostring \<times> gostring) list \<Rightarrow> (gostring \<times> gostring) list"

datatype AgentEvent =
    AeChat ChatInput
  | AeTool gostring gostring
  | AeAuto gostring gostring
  | AeFinalize FinalizeInput "Decision \<times> Step option"
  | AeAppend StepRecord

record ('w, 's) AgentState =
  ag_w :: 'w
  ag_mem :: 's
  ag_trace :: "AgentEvent list"

section \<open>Arguments and fallbacks\<close>

record reviewEvidenceForParallel =
  pe_ReviewID :: int
  pe_StoreID :: int
  pe_UserID :: int
  pe_SkuID :: int
  pe_SpuID :: int
  pe_Content :: gostring

definition parseEvidenceForParallel :: "gostring \<Rightarrow> reviewEvidenceForParallel" where
  "parseEvidenceForParallel raw = (let ev = objFieldOrNil (fst (unmarshal_map raw)) ''evidence'' in
     \<lparr>pe_ReviewID = firstInt64 0 [fieldInt64 ev ''reviewId'', fieldInt64 ev ''review_id''],
      pe_StoreID = firstInt64 0 [fieldInt64 ev ''storeId'', fieldInt64 ev ''store_id''],
      pe_UserID = firstInt64 0 [fieldInt64 ev ''userId'', fieldInt64 ev ''user_id''],
      pe_SkuID = firstInt64 0 [fieldInt64 ev ''skuId'', fieldInt64 ev ''sku_id''],
      pe_SpuID = firstInt64 0 [fieldInt64 ev ''spuId'', fieldInt64 ev ''spu_id''],
      pe_Content = fieldString ev ''content''\<rparr>)"

definition buildStatsArgs :: "reviewEvidenceForParallel \<Rightarrow> jobject" where
  "buildStatsArgs e = [(''review_id'', intJson (pe_ReviewID e)), (''store_id'', intJson (pe_StoreID e)),
     (''user_id'', intJson (pe_UserID e)), (''sku_id'', intJson (pe_SkuID e)), (''spu_id'', intJson (pe_SpuID e)),
     (''window_days'', intJson 7)]"

definition buildCampaignArgs :: "reviewEvidenceForParallel \<Rightarrow> ExecutionInput \<Rightarrow> jobject" where
  "buildCampaignArgs e input = [(''store_id'', intJson (pe_StoreID e)), (''activity_id'', JStr (ei_ActivityID input)),
     (''user_id'', intJson (pe_UserID e)), (''sku_id'', intJson (pe_SkuID e)), (''spu_id'', intJson (pe_SpuID e))]"

definition aspectKeywords :: "(gostring \<times> gostring) list" where
  "aspectKeywords = [(bytes [0xE7, 0x89, 0xA9, 0xE6, 0xB5, 0x81], ''LOGISTICS''), (bytes [0xE5, 0xBF, 0xAB, 0xE9, 0x80, 0x92], ''LOGISTICS''),
     (bytes [0xE5, 0xAE, 0xA2, 0xE6, 0x9C, 0x8D], ''SERVICE''), (bytes [0xE6, 0x9C, 0x8D, 0xE5, 0x8A, 0xA1], ''SERVICE''), (bytes [0xE8, 0xB4, 0xA8, 0xE9, 0x87, 0x8F], ''QUALITY''),
     (bytes [0xE7, 0xA0, 0xB4, 0xE6, 0x8D, 0x9F], ''QUALITY''), (bytes [0xE4, 0xBB, 0xB7, 0xE6, 0xA0, 0xBC], ''PRICE''), (bytes [0xE4, 0xBC, 0x98, 0xE6, 0x83, 0xA0], ''PRICE''),
     (bytes [0xE5, 0xA4, 0x8D, 0xE8, 0xB4, 0xAD], ''REPEAT''), (bytes [0xE5, 0x86, 0x8D, 0xE4, 0xB9, 0xB0], ''REPEAT''), (bytes [0xE6, 0x8E, 0xA8, 0xE8, 0x8D, 0x90], ''RECOMMEND'')]"

definition addAspect :: "gostring \<Rightarrow> gostring list \<Rightarrow> gostring list" where
  "addAspect v aspects = (if v \<in> set aspects then aspects else aspects @ [v])"

definition inferRAGAspects :: "((gostring \<times> gostring) list \<Rightarrow> (gostring \<times> gostring) list) \<Rightarrow> gostring \<Rightarrow> gostring list" where
  "inferRAGAspects mapOrder content =
     fold (\<lambda>(keyword, aspect) aspects. if Contains content keyword then addAspect aspect aspects else aspects)
       (mapOrder aspectKeywords) [''SUMMARY'', ''DECISION'']"

definition buildRAGArgs :: "((gostring \<times> gostring) list \<Rightarrow> (gostring \<times> gostring) list) \<Rightarrow> reviewEvidenceForParallel \<Rightarrow>
    ExecutionInput \<Rightarrow> jobject" where
  "buildRAGArgs mapOrder e input = [(''query_text'', JStr (TrimSpace (pe_Content e))), (''review_id'', intJson (pe_ReviewID e)),
     (''store_id'', intJson (pe_StoreID e)), (''user_id'', intJson (pe_UserID e)), (''sku_id'', intJson (pe_SkuID e)),
     (''spu_id'', intJson (pe_SpuID e)), (''activity_id'', JStr (ei_ActivityID input)),
     (''policy_version'', JStr (ei_PolicyVersion input)), (''top_k'', intJson 10),
     (''chunk_types'', strsJson [''review_summary'', ''review_aspect'', ''coupon_decision'']),
     (''aspects'', strsJson (inferRAGAspects mapOrder (pe_Content e)))]"

definition fallbackStatsObservation :: "reviewEvidenceForParallel \<Rightarrow> jobject" where
  "fallbackStatsObservation e = [(''source'', JStr ''fallback''), (''tool'', JStr ''get_review_stats''),
     (''request'', mapobj (buildStatsArgs e)),
     (''stats'', mapobj [(''review_id'', intJson (pe_ReviewID e)), (''risk_level'', JStr ''unknown''),
        (''policy_tags'', strsJson [''stats_unavailable''])])]"

definition fallbackRAGObservation :: "((gostring \<times> gostring) list \<Rightarrow> (gostring \<times> gostring) list) \<Rightarrow>
    reviewEvidenceForParallel \<Rightarrow> ExecutionInput \<Rightarrow> jobject" where
  "fallbackRAGObservation mapOrder e input = [(''source'', JStr ''fallback''), (''tool'', JStr ''retrieve_rag''),
     (''request'', mapobj (buildRAGArgs mapOrder e input)), (''rag'', mapobj [(''chunks'', JArr [])])]"

definition fallbackCampaignObservation :: "reviewEvidenceForParallel \<Rightarrow> ExecutionInput \<Rightarrow> jobject" where
  "fallbackCampaignObservation e input = [(''source'', JStr ''fallback''), (''tool'', JStr ''get_campaign_context''),
     (''request'', mapobj (buildCampaignArgs e input)),
     (''campaign'', mapobj [(''activity_id'', JStr (ei_ActivityID input)), (''status'', JStr ''UNAVAILABLE''),
        (''product_eligible'', JBool False), (''user_eligible'', JBool False)])]"

section \<open>Calls\<close>

definition log :: "AgentEvent \<Rightarrow> ('w, 's) AgentState \<Rightarrow> ('w, 's) AgentState" where
  "log e st = st \<lparr> ag_trace := ag_trace st @ [e] \<rparr>"

definition appendStep :: "'w AgentEnv \<Rightarrow> 's MemOps \<Rightarrow> gostring \<Rightarrow> StepRecord \<Rightarrow> ('w, 's) AgentState \<Rightarrow> ('w, 's) AgentState" where
  "appendStep env mem scope r st = log (AeAppend r)
     (st \<lparr> ag_mem := mo_Append mem (ae_now env (ag_w st)) scope r (ag_mem st) \<rparr>)"

definition snapshot :: "'w AgentEnv \<Rightarrow> 's MemOps \<Rightarrow> gostring \<Rightarrow> ('w, 's) AgentState \<Rightarrow> View \<times> ('w, 's) AgentState" where
  "snapshot env mem scope st = (let (v, m) = mo_Snapshot mem (ae_now env (ag_w st)) scope (ag_mem st) in (v, st \<lparr> ag_mem := m \<rparr>))"

text \<open>\<open>runAutoToolObservation\<close>: the observation, the error that degraded it, the duration.\<close>

definition degradedText :: "jobject \<Rightarrow> gerror \<Rightarrow> gostring" where
  "degradedText fallback err = json_text (mapobj (fallback @ [(''degraded'', JBool True), (''error'', JStr err)]))"

definition runAutoToolObservation :: "'w AgentEnv \<Rightarrow> gostring \<Rightarrow> jobject \<Rightarrow> jobject \<Rightarrow> ('w, 's) AgentState \<Rightarrow>
    (gostring \<times> gerror option \<times> int) \<times> ('w, 's) AgentState" where
  "runAutoToolObservation env toolName args fallback st =
     (let start = ae_now env (ag_w st); text = json_text (mapobj args) in
      if \<not> ae_registered env toolName
      then ((degradedText fallback (''tool not found: '' @ toolName), Some ''context canceled'', durationMS start start), st)
      else (let (r, w) = ae_tool env toolName text (ag_w st);
                ms = durationMS start (ae_now env w);
                st' = log (AeAuto toolName text) (st \<lparr> ag_w := w \<rparr>)
            in (case r of
                  Inl err \<Rightarrow> ((degradedText fallback err, Some err, ms), st')
                | Inr observation \<Rightarrow> ((observation, None, ms), st'))))"

definition appendAutoToolResult :: "'w AgentEnv \<Rightarrow> 's MemOps \<Rightarrow> gostring \<Rightarrow> gostring \<Rightarrow> jobject \<Rightarrow> gostring \<Rightarrow> int \<Rightarrow>
    ('w, 's) AgentState \<Rightarrow> Step \<times> ('w, 's) AgentState" where
  "appendAutoToolResult env mem scope toolName args observation ms st =
     (let (v, st1) = snapshot env mem scope st;
          step = \<lparr>st_Step = int (length (v_RecentSteps v)) + 1, st_ToolName = toolName, st_Arguments = json_text (mapobj args),
                  st_Observation = observation, st_Error = [], st_DurationMS = ms\<rparr>
      in (step, appendStep env mem scope \<lparr>sr_Step = st_Step step, sr_ToolName = toolName, sr_Action = ''tool_call'',
             sr_Arguments = st_Arguments step, sr_Output = observation, sr_Error = []\<rparr> st1))"

record autoResult =
  ar_toolName :: gostring
  ar_args :: jobject
  ar_observation :: gostring
  ar_err :: "gerror option"
  ar_durationMS :: int

definition zeroAuto :: autoResult where
  "zeroAuto = \<lparr>ar_toolName = [], ar_args = [], ar_observation = [], ar_err = None, ar_durationMS = 0\<rparr>"

text \<open>The three goroutines: tool, arguments, fallback.\<close>

definition autoCalls :: "((gostring \<times> gostring) list \<Rightarrow> (gostring \<times> gostring) list) \<Rightarrow> reviewEvidenceForParallel \<Rightarrow>
    ExecutionInput \<Rightarrow> (gostring \<times> jobject \<times> jobject) list" where
  "autoCalls mapOrder e input =
     [(''get_review_stats'', buildStatsArgs e, fallbackStatsObservation e),
      (''retrieve_rag'', buildRAGArgs mapOrder e input, fallbackRAGObservation mapOrder e input),
      (''get_campaign_context'', buildCampaignArgs e input, fallbackCampaignObservation e input)]"

definition runAuto :: "'w AgentEnv \<Rightarrow> (gostring \<times> jobject \<times> jobject) list \<Rightarrow> nat \<Rightarrow>
    autoResult list \<times> ('w, 's) AgentState \<Rightarrow> autoResult list \<times> ('w, 's) AgentState" where
  "runAuto env cs i rst = (case cs ! i of (name, args, fallback) \<Rightarrow>
     let ((observation, err, ms), st) = runAutoToolObservation env name args fallback (snd rst)
     in ((fst rst)[i := \<lparr>ar_toolName = name, ar_args = args, ar_observation = observation, ar_err = err, ar_durationMS = ms\<rparr>], st))"

definition appendAuto :: "'w AgentEnv \<Rightarrow> 's MemOps \<Rightarrow> gostring \<Rightarrow> autoResult \<Rightarrow>
    Step list \<times> ('w, 's) AgentState \<Rightarrow> Step list \<times> ('w, 's) AgentState" where
  "appendAuto env mem scope item sst =
     (let (step, st) = appendAutoToolResult env mem scope (ar_toolName item) (ar_args item) (ar_observation item) (ar_durationMS item) (snd sst);
          step' = (case ar_err item of None \<Rightarrow> step | Some err \<Rightarrow> step \<lparr> st_Error := ''degraded: '' @ err \<rparr>)
      in (fst sst @ [step'], st))"

definition runStatsRAGAndCampaignAfterEvidence :: "'w AgentEnv \<Rightarrow> 's MemOps \<Rightarrow> gostring \<Rightarrow> gostring \<Rightarrow> ExecutionInput \<Rightarrow>
    ('w, 's) AgentState \<Rightarrow> Step list \<times> ('w, 's) AgentState" where
  "runStatsRAGAndCampaignAfterEvidence env mem scope observation input st =
     (let e = parseEvidenceForParallel observation in
      if pe_ReviewID e \<le> 0 \<or> pe_StoreID e \<le> 0 then ([], st)
      else (let cs = autoCalls (ae_mapOrder env (ag_w st)) e input;
                (results, st1) = fold (runAuto env cs) (ae_sched env (ag_w st)) (replicate 3 zeroAuto, st)
            in fold (appendAuto env mem scope) results ([], st1)))"

end
