(* ===== verification/Agent_Run.thy ===== *)
theory Agent_Run
  imports Agent_Tools
begin

text \<open>
  \<open>internal/agent/agent.go\<close>: one execution of the agent. Each round derives the workflow stage from the
  memory, asks the model, parses its decision and checks it against the stage; a final decision is
  executed by the finalizer (a parameter here, \<open>Finalizer.Finalize\<close> in the program), a tool call is
  executed and written to the memory. The loop over the rounds is a recursion on the rounds left, so every
  execution ends after at most \<open>maxSteps\<close> calls of the model.
\<close>

section \<open>Stages\<close>

definition stageName :: "WorkflowStage \<Rightarrow> gostring" where
  "stageName stage = (case stage of CollectReviewEvidence \<Rightarrow> ''collect_review_evidence''
     | CollectESStatistics \<Rightarrow> ''collect_es_statistics'' | CollectRAGHistory \<Rightarrow> ''collect_rag_history''
     | CollectCampaignContext \<Rightarrow> ''collect_campaign_context'' | DecisionReady \<Rightarrow> ''decision_ready'')"

text \<open>A step that counts: a tool call without an error.\<close>

definition toolDone :: "gostring \<Rightarrow> StepRecord \<Rightarrow> bool" where
  "toolDone tool item \<longleftrightarrow> sr_Action item = ''tool_call'' \<and> blank (sr_Error item) \<and> sr_ToolName item = tool"

definition workflowStage :: "StepRecord list \<Rightarrow> WorkflowStage" where
  "workflowStage history =
     (let hasEvidence = list_ex (toolDone ''get_review_evidence'') history;
          hasStats = list_ex (toolDone ''get_review_stats'') history;
          hasRAG = list_ex (toolDone ''retrieve_rag'') history;
          hasCampaign = list_ex (toolDone ''get_campaign_context'') history
      in if \<not> hasEvidence then CollectReviewEvidence
         else if \<not> hasStats then CollectESStatistics
         else if \<not> hasRAG then CollectRAGHistory
         else if \<not> hasCampaign then CollectCampaignContext
         else DecisionReady)"

definition requiredToolForStage :: "WorkflowStage \<Rightarrow> gostring" where
  "requiredToolForStage stage = (case stage of CollectReviewEvidence \<Rightarrow> ''get_review_evidence''
     | CollectESStatistics \<Rightarrow> ''get_review_stats'' | CollectRAGHistory \<Rightarrow> ''retrieve_rag''
     | CollectCampaignContext \<Rightarrow> ''get_campaign_context'' | DecisionReady \<Rightarrow> [])"

definition toolAllowedForStage :: "WorkflowStage \<Rightarrow> gostring \<Rightarrow> bool" where
  "toolAllowedForStage stage toolName \<longleftrightarrow>
     requiredToolForStage stage \<noteq> [] \<and> EqualFold (requiredToolForStage stage) toolName"

section \<open>The decision of the model\<close>

definition decisionFields :: "Decision fields" where
  "decisionFields = [(''type'', str_f d_Type_update), (''tool_name'', str_f d_ToolName_update),
     (''final_answer'', str_f d_FinalAnswer_update), (''action'', str_f d_Action_update), (''scene'', str_f d_Scene_update),
     (''risk_level'', str_f d_RiskLevel_update), (''reason'', str_f d_Reason_update), (''reasoning'', str_f d_Reasoning_update),
     (''confidence'', float_f d_Confidence_update), (''coupon_suggestion'', str_f d_CouponSuggestion_update),
     (''policy_tags'', strs_f d_PolicyTags_update), (''need_human_review'', bool_f d_NeedHumanReview_update)]"

text \<open>The field \<open>arguments\<close> is a raw message: the text of the member.\<close>

definition unmarshalDecision :: "gostring \<Rightarrow> Decision \<Rightarrow> Decision \<times> bool" where
  "unmarshalDecision s d = (let (d', ok) = unmarshal decisionFields s d in
     (case json_parse s of
        Some (JObj _) \<Rightarrow> (case raw_member ''arguments'' s of
            Some raw \<Rightarrow> (d' \<lparr> d_Arguments := raw \<rparr>, ok) | None \<Rightarrow> (d', ok))
      | _ \<Rightarrow> (d', ok)))"

definition parseDecision :: "gostring \<Rightarrow> Decision result" where
  "parseDecision content0 =
     (let content = TrimSpace content0; (d, ok) = unmarshalDecision content zeroDecision in
      if ok then Inr d
      else (case (indexChar (CHR ''{'') content, lastIndexChar (CHR ''}'') content) of
          (Some start, Some stop) \<Rightarrow>
            if stop > start then
              (let (d', ok') = unmarshalDecision (drop start (take (stop + 1) content)) d in
               if ok' then Inr d' else Inl ''invalid decision json'')
            else Inl ''invalid decision json''
        | _ \<Rightarrow> Inl ''invalid decision json''))"

text \<open>\<open>json.Marshal(decision)\<close>: the raw arguments are compacted (white space outside strings dropped, the
  HTML characters and the two line separators escaped); empty fields are left out.\<close>

fun compact :: "bool \<Rightarrow> gostring \<Rightarrow> gostring" where
  "compact inStr [] = []"
| "compact inStr (c # cs) =
     (if byte c = 0x3C \<or> byte c = 0x3E \<or> byte c = 0x26
      then bytes [0x5C] @ ''u00'' @ [hex_digit (byte c div 16), hex_digit (byte c mod 16)] @ compact inStr cs
      else if inStr then
        (if byte c = 0x5C then (case cs of [] \<Rightarrow> [c] | d # ds \<Rightarrow> c # d # compact True ds)
         else if byte c = 0x22 then c # compact False cs
         else if byte c = 0xE2 then
           (case cs of d # e # es \<Rightarrow>
              if byte d = 0x80 \<and> (byte e = 0xA8 \<or> byte e = 0xA9)
              then bytes [0x5C] @ ''u202'' @ [hex_digit (byte e mod 16)] @ compact True es else c # compact True cs
            | _ \<Rightarrow> c # compact True cs)
         else c # compact True cs)
      else if is_ws c then compact False cs
      else if byte c = 0x22 then c # compact True cs
      else c # compact False cs)"

definition member :: "gostring \<Rightarrow> gostring \<Rightarrow> gostring" where
  "member name text = json_string name @ '':'' @ text"

definition omitEmpty :: "gostring \<Rightarrow> gostring \<Rightarrow> gostring list" where
  "omitEmpty name s = (if s = [] then [] else [member name (json_string s)])"

definition decisionText :: "Decision \<Rightarrow> gostring" where
  "decisionText d = ''{'' @ Join
     ([member ''type'' (json_string (d_Type d))] @ omitEmpty ''tool_name'' (d_ToolName d) @
      (if d_Arguments d = [] then [] else [member ''arguments'' (compact False (d_Arguments d))]) @
      omitEmpty ''final_answer'' (d_FinalAnswer d) @ omitEmpty ''action'' (d_Action d) @ omitEmpty ''scene'' (d_Scene d) @
      omitEmpty ''risk_level'' (d_RiskLevel d) @ omitEmpty ''reason'' (d_Reason d) @ omitEmpty ''reasoning'' (d_Reasoning d) @
      (if fst (d_Confidence d) = 0 then []
       else [member ''confidence'' (json_text (float_json (fst (d_Confidence d)) (snd (d_Confidence d))))]) @
      omitEmpty ''coupon_suggestion'' (d_CouponSuggestion d) @
      (if d_PolicyTags d = [] then [] else [member ''policy_tags'' (json_text (strsJson (d_PolicyTags d)))]) @
      (if d_NeedHumanReview d then [member ''need_human_review'' ''true''] else [])) '','' @ ''}''"

definition renderFinalAnswer :: "Decision \<Rightarrow> gostring" where
  "renderFinalAnswer d =
     (if \<not> blank (d_FinalAnswer d) then d_FinalAnswer d
      else let parts = filter (\<lambda>item. \<not> blank item)
             [d_Action d, d_Scene d, d_RiskLevel d, d_CouponSuggestion d, d_Reason d, d_Reasoning d]
        in if parts = [] then bytes [0x4C, 0x4C, 0x4D, 0xE5, 0xB7, 0xB2, 0xE5, 0xAE, 0x8C, 0xE6, 0x88, 0x90, 0xE5, 0x86, 0xB3, 
     0xE7, 0xAD, 0x96, 0xEF, 0xBC, 0x8C, 0xE4, 0xBD, 0x86, 0xE6, 0x9C, 0xAA, 0xE8, 0xBE, 0x93, 0xE5, 0x87, 
     0xBA, 0x66, 0x69, 0x6E, 0x61, 0x6C, 0x5F, 0x61, 0x6E, 0x73, 0x77, 0x65, 0x72] else Join parts (bytes [0xEF, 0xBC, 0x9B]))"

section \<open>The execution\<close>

record Result =
  rs_SessionID :: gostring
  rs_ExecutionID :: gostring
  rs_ParentExecutionID :: gostring
  rs_Task :: gostring
  rs_FinalAnswer :: gostring
  rs_Steps :: "Step list"
  rs_Summary :: gostring
  rs_Completed :: bool

definition executionScopeID :: "gostring \<Rightarrow> gostring \<Rightarrow> gostring" where
  "executionScopeID sessionID0 executionID0 = (let sessionID = TrimSpace sessionID0; executionID = TrimSpace executionID0 in
     if executionID = [] then sessionID else sessionID @ '':execution:'' @ executionID)"

definition correctionRecord :: "nat \<Rightarrow> WorkflowStage \<Rightarrow> gostring \<Rightarrow> gostring \<Rightarrow> StepRecord" where
  "correctionRecord stepNo stage requiredTool reason =
     \<lparr>sr_Step = int stepNo, sr_ToolName = ''agent_guard'', sr_Action = ''correction'', sr_Arguments = [],
      sr_Output = json_text (mapobj [(''stage'', JStr (stageName stage)), (''required_tool'', JStr requiredTool), (''reason'', JStr reason)]),
      sr_Error = reason\<rparr>"

definition executeTool :: "'w AgentEnv \<Rightarrow> 's MemOps \<Rightarrow> gostring \<Rightarrow> nat \<Rightarrow> gostring \<Rightarrow> gostring \<Rightarrow> ('w, 's) AgentState \<Rightarrow>
    Step \<times> ('w, 's) AgentState" where
  "executeTool env mem scope stepNo toolName args st =
     (let step = \<lparr>st_Step = int stepNo, st_ToolName = toolName, st_Arguments = args, st_Observation = [], st_Error = [], st_DurationMS = 0\<rparr> in
      if \<not> ae_registered env toolName then (step \<lparr> st_Error := ''tool not found: '' @ toolName \<rparr>, st)
      else (let start = ae_now env (ag_w st); (r, w) = ae_tool env toolName args (ag_w st);
                st1 = log (AeTool toolName args) (st \<lparr> ag_w := w \<rparr>);
                step1 = step \<lparr> st_DurationMS := durationMS start (ae_now env w) \<rparr>;
                record0 = \<lparr>sr_Step = int stepNo, sr_ToolName = toolName, sr_Action = ''tool_call'', sr_Arguments = args,
                           sr_Output = [], sr_Error = []\<rparr>
            in (case r of
                  Inl err \<Rightarrow> (step1 \<lparr> st_Error := err \<rparr>, appendStep env mem scope (record0 \<lparr> sr_Error := err \<rparr>) st1)
                | Inr observation \<Rightarrow>
                    (step1 \<lparr> st_Observation := observation \<rparr>, appendStep env mem scope (record0 \<lparr> sr_Output := observation \<rparr>) st1))))"

record AgentConfig =
  ac_budget :: Budget
  ac_maxSteps :: int
  ac_hasFinalizer :: bool

text \<open>The names of one execution: session, execution, scope of its memory, task and the input.\<close>

record Exec =
  ex_SessionID :: gostring
  ex_ExecutionID :: gostring
  ex_Scope :: gostring
  ex_Task :: gostring
  ex_Input :: ExecutionInput

definition memoryCheck :: "'s MemOps \<Rightarrow> ('w, 's) AgentState \<Rightarrow> gerror option" where
  "memoryCheck mem st = map_option (\<lambda>err. ''memory unavailable: '' @ err) (mo_LastError mem (ag_mem st))"

definition resultOf :: "Exec \<Rightarrow> gostring \<Rightarrow> Step list \<Rightarrow> gostring \<Rightarrow> bool \<Rightarrow> Result" where
  "resultOf ex answer steps summary completed =
     \<lparr>rs_SessionID = ex_SessionID ex, rs_ExecutionID = ex_ExecutionID ex,
      rs_ParentExecutionID = TrimSpace (ei_ParentExecutionID (ex_Input ex)), rs_Task = ex_Task ex,
      rs_FinalAnswer = answer, rs_Steps = steps, rs_Summary = summary, rs_Completed = completed\<rparr>"

text \<open>The branch of a final decision that the stage allows, in its parts: the finalizer, the two records
  written to the memory, the result. It always leaves the loop.\<close>

definition finalizeInput :: "Exec \<Rightarrow> Decision \<Rightarrow> StepRecord list \<Rightarrow> FinalizeInput" where
  "finalizeInput ex decision history = \<lparr>fi_SessionID = ex_SessionID ex, fi_ExecutionID = ex_ExecutionID ex,
     fi_ParentExecutionID = TrimSpace (ei_ParentExecutionID (ex_Input ex)), fi_Task = ex_Task ex,
     fi_Decision = decision, fi_History = history, fi_BusinessContext = ex_Input ex\<rparr>"

definition askFinalizer :: "'w AgentEnv \<Rightarrow> AgentConfig \<Rightarrow> FinalizeInput \<Rightarrow> ('w, 's) AgentState \<Rightarrow>
    (Decision \<times> Step option) \<times> ('w, 's) AgentState" where
  "askFinalizer env cfg input st =
     (if ac_hasFinalizer cfg
      then (let (r, w) = ae_finalize env input (ag_w st) in (r, log (AeFinalize input r) (st \<lparr> ag_w := w \<rparr>)))
      else ((fi_Decision input, None), st))"

definition recordDecision :: "'w AgentEnv \<Rightarrow> 's MemOps \<Rightarrow> Exec \<Rightarrow> nat \<Rightarrow> WorkflowStage \<Rightarrow> Decision \<Rightarrow> Step option \<Rightarrow>
    ('w, 's) AgentState \<Rightarrow> ('w, 's) AgentState" where
  "recordDecision env mem ex stepNo stage decision decisionStep st =
     (let st1 = appendStep env mem (ex_Scope ex) \<lparr>sr_Step = int stepNo, sr_ToolName = ''llm'', sr_Action = ''final_decision'',
            sr_Arguments = stageName stage, sr_Output = decisionText decision, sr_Error = []\<rparr> st
      in (case decisionStep of None \<Rightarrow> st1
          | Some ds \<Rightarrow> appendStep env mem (ex_Scope ex) \<lparr>sr_Step = st_Step ds, sr_ToolName = st_ToolName ds, sr_Action = ''store_decision'',
                sr_Arguments = st_Arguments ds, sr_Output = st_Observation ds, sr_Error = st_Error ds\<rparr> st1))"

definition completed :: "'w AgentEnv \<Rightarrow> 's MemOps \<Rightarrow> Exec \<Rightarrow> Decision \<Rightarrow> Step list \<Rightarrow> ('w, 's) AgentState \<Rightarrow>
    Result result \<times> ('w, 's) AgentState" where
  "completed env mem ex decision steps st =
     (case memoryCheck mem st of
        Some err \<Rightarrow> (Inl err, st)
      | None \<Rightarrow> (let (v, st1) = snapshot env mem (ex_Scope ex) st
                in (Inr (resultOf ex (renderFinalAnswer decision) steps (v_Summary v) True), st1)))"

definition finishDecision :: "'w AgentEnv \<Rightarrow> 's MemOps \<Rightarrow> AgentConfig \<Rightarrow> Exec \<Rightarrow> nat \<Rightarrow> WorkflowStage \<Rightarrow> Decision \<Rightarrow> Step list \<Rightarrow>
    ('w, 's) AgentState \<Rightarrow> Result result \<times> ('w, 's) AgentState" where
  "finishDecision env mem cfg ex stepNo stage decision0 steps st =
     (let (v, st1) = snapshot env mem (ex_Scope ex) st;
          ((decision, decisionStep), st2) = askFinalizer env cfg (finalizeInput ex decision0 (v_RecentSteps v)) st1;
          st3 = recordDecision env mem ex stepNo stage decision decisionStep st2
      in (case decisionStep of
            None \<Rightarrow> completed env mem ex decision steps st3
          | Some ds \<Rightarrow> if \<not> blank (st_Error ds) then (Inl (''finalize decision failed: '' @ st_Error ds), st3)
              else completed env mem ex decision (steps @ [ds]) st3))"

text \<open>What a round does with a decision: the result of the whole execution, or the steps so far. A decision
  that the stage does not allow is answered with a correction in the memory.\<close>

definition correct :: "'w AgentEnv \<Rightarrow> 's MemOps \<Rightarrow> Exec \<Rightarrow> nat \<Rightarrow> WorkflowStage \<Rightarrow> Step list \<Rightarrow> gostring \<Rightarrow> ('w, 's) AgentState \<Rightarrow>
    (Result result + Step list) \<times> ('w, 's) AgentState" where
  "correct env mem ex stepNo stage steps reason st =
     (Inr steps, appendStep env mem (ex_Scope ex) (correctionRecord stepNo stage (requiredToolForStage stage) reason) st)"

definition callTool :: "'w AgentEnv \<Rightarrow> 's MemOps \<Rightarrow> Exec \<Rightarrow> nat \<Rightarrow> Step list \<Rightarrow> Decision \<Rightarrow> ('w, 's) AgentState \<Rightarrow>
    (Result result + Step list) \<times> ('w, 's) AgentState" where
  "callTool env mem ex stepNo steps decision st =
     (let (step, st1) = executeTool env mem (ex_Scope ex) stepNo (d_ToolName decision) (d_Arguments decision) st in
      if st_Error step = [] \<and> EqualFold (d_ToolName decision) ''get_review_evidence''
      then (let (autos, st2) = runStatsRAGAndCampaignAfterEvidence env mem (ex_Scope ex) (st_Observation step) (ex_Input ex) st1
            in (Inr (steps @ [step] @ autos), st2))
      else (Inr (steps @ [step]), st1))"

definition handleDecision :: "'w AgentEnv \<Rightarrow> 's MemOps \<Rightarrow> AgentConfig \<Rightarrow> Exec \<Rightarrow> nat \<Rightarrow> WorkflowStage \<Rightarrow> Step list \<Rightarrow> Decision \<Rightarrow>
    ('w, 's) AgentState \<Rightarrow> (Result result + Step list) \<times> ('w, 's) AgentState" where
  "handleDecision env mem cfg ex stepNo stage steps decision st =
     (if EqualFold (d_Type decision) ''final'' then
        if stage \<noteq> DecisionReady then correct env mem ex stepNo stage steps ''final not allowed before decision_ready'' st
        else (let (r, st1) = finishDecision env mem cfg ex stepNo stage decision steps st in (Inl r, st1))
      else if \<not> EqualFold (d_Type decision) ''tool_call''
      then correct env mem ex stepNo stage steps (''unsupported decision type: '' @ d_Type decision) st
      else if \<not> toolAllowedForStage stage (d_ToolName decision)
      then correct env mem ex stepNo stage steps
        (''tool '' @ d_ToolName decision @ '' not allowed in stage '' @ stageName stage) st
      else callTool env mem ex stepNo steps decision st)"

definition chatInput :: "AgentConfig \<Rightarrow> Exec \<Rightarrow> WorkflowStage \<Rightarrow> View \<Rightarrow> ChatInput" where
  "chatInput cfg ex stage view = \<lparr>ch_Task = ex_Task ex, ch_Stage = stage, ch_RequiredTool = requiredToolForStage stage,
     ch_AllowFinal = (stage = DecisionReady), ch_Context = Compose view (ex_Task ex) (ac_budget cfg)\<rparr>"

definition round :: "'w AgentEnv \<Rightarrow> 's MemOps \<Rightarrow> AgentConfig \<Rightarrow> Exec \<Rightarrow> nat \<Rightarrow> Step list \<Rightarrow> ('w, 's) AgentState \<Rightarrow>
    (Result result + Step list) \<times> ('w, 's) AgentState" where
  "round env mem cfg ex stepNo steps st =
     (case memoryCheck mem st of
        Some err \<Rightarrow> (Inl (Inl err), st)
      | None \<Rightarrow>
         (let (v, st1) = snapshot env mem (ex_Scope ex) st;
              stage = workflowStage (v_RecentSteps v);
              (v', st2) = snapshot env mem (ex_Scope ex) st1;
              chat = chatInput cfg ex stage v';
              (resp, w) = ae_chat env chat (ag_w st2);
              st3 = log (AeChat chat) (st2 \<lparr> ag_w := w \<rparr>)
          in (case resp of
                Inl err \<Rightarrow> (Inl (Inl err), st3)
              | Inr content \<Rightarrow>
                  (case parseDecision content of
                     Inl err \<Rightarrow> (Inl (Inl (''parse llm decision failed: '' @ err)), st3)
                   | Inr decision \<Rightarrow> handleDecision env mem cfg ex stepNo stage steps decision st3))))"

fun rounds :: "'w AgentEnv \<Rightarrow> 's MemOps \<Rightarrow> AgentConfig \<Rightarrow> Exec \<Rightarrow> nat \<Rightarrow> nat \<Rightarrow> Step list \<Rightarrow> ('w, 's) AgentState \<Rightarrow>
    Result result \<times> ('w, 's) AgentState" where
  "rounds env mem cfg ex stepNo 0 steps st =
     (case memoryCheck mem st of
        Some err \<Rightarrow> (Inl err, st)
      | None \<Rightarrow> (let (v, st1) = snapshot env mem (ex_Scope ex) st
                in (Inr (resultOf ex (bytes [0xE8, 0xBE, 0xBE, 0xE5, 0x88, 0xB0, 0xE6, 0x9C, 0x80, 0xE5, 0xA4, 0xA7, 0xE8, 0xBF, 0xAD, 
     0xE4, 0xBB, 0xA3, 0xE6, 0xAC, 0xA1, 0xE6, 0x95, 0xB0, 0xEF, 0xBC, 0x8C, 0xE6, 0x9C, 0xAA, 0xE6, 0x94, 
     0xB6, 0xE6, 0x95, 0x9B, 0xE5, 0x88, 0xB0, 0xE6, 0x9C, 0x80, 0xE7, 0xBB, 0x88, 0xE7, 0xAD, 0x94, 0xE6, 
     0xA1, 0x88]) steps (v_Summary v) False), st1)))"
| "rounds env mem cfg ex stepNo (Suc left) steps st =
     (case round env mem cfg ex stepNo steps st of
        (Inl res, st1) \<Rightarrow> (res, st1)
      | (Inr steps1, st1) \<Rightarrow> rounds env mem cfg ex (Suc stepNo) left steps1 st1)"

definition bootstrapExecution :: "'w AgentEnv \<Rightarrow> 's MemOps \<Rightarrow> Exec \<Rightarrow> ('w, 's) AgentState \<Rightarrow> ('w, 's) AgentState" where
  "bootstrapExecution env mem ex st = st \<lparr> ag_mem := mo_Save mem (ae_now env (ag_w st))
     (emptyState \<lparr> ss_MemoryKey := ex_Scope ex, ss_SessionID := ex_SessionID ex, ss_ExecutionID := ex_ExecutionID ex, ss_Task := ex_Task ex \<rparr>)
     (ag_mem st) \<rparr>"

definition RunExecution :: "'w AgentEnv \<Rightarrow> 's MemOps \<Rightarrow> AgentConfig \<Rightarrow> ExecutionInput \<Rightarrow> ('w, 's) AgentState \<Rightarrow>
    Result result \<times> ('w, 's) AgentState" where
  "RunExecution env mem cfg input st =
     (let sessionID = TrimSpace (ei_SessionID input); executionID = TrimSpace (ei_ExecutionID input); task = TrimSpace (ei_Task input);
          ex = \<lparr>ex_SessionID = sessionID, ex_ExecutionID = executionID, ex_Scope = executionScopeID sessionID executionID,
                ex_Task = task, ex_Input = input\<rparr>
      in if sessionID = [] then (Inl ''session_id is required'', st)
         else if executionID = [] then (Inl ''execution_id is required'', st)
         else if task = [] then (Inl ''task is required'', st)
         else (let st1 = bootstrapExecution env mem ex st in
           (case memoryCheck mem st1 of
              Some err \<Rightarrow> (Inl err, st1)
            | None \<Rightarrow> rounds env mem cfg ex 1 (nat (ac_maxSteps cfg)) [] st1)))"

text \<open>\<open>New\<close>: the defaults of the agent.\<close>

definition agentMaxSteps :: "int \<Rightarrow> int" where
  "agentMaxSteps maxSteps = (if maxSteps \<le> 0 then 5 else maxSteps)"

definition memoryBudget :: "Budget \<Rightarrow> Budget" where
  "memoryBudget budget = (if b_MaxPromptTokens budget = 0 \<and> b_MaxRecentSteps budget = 0 \<and> b_MaxSummaryChars budget = 0
     then DefaultBudget else budget)"

text \<open>The in-memory store as the memory of the agent.\<close>

definition inMemoryOps :: "(states \<Rightarrow> states) \<Rightarrow> InMemoryStore MemOps" where
  "inMemoryOps ord = \<lparr>mo_Save = Save ord, mo_Append = AppendStep ord, mo_Snapshot = Snapshot, mo_LastError = (\<lambda>_. None)\<rparr>"

end
