(* ===== verification/Agent_Safety.thy ===== *)
theory Agent_Safety
  imports Agent_Run
begin

text \<open>
  What an execution of the agent may do, read off its events. \<open>disciplined c es\<close> says that the events
  \<open>es\<close> respect the workflow when \<open>c\<close> was the last question to the model: a tool the model asked for is the
  one its stage requires, a finalization answers a question of the stage \<open>DecisionReady\<close> and nothing but
  memory writes follow it. The workflow itself is written down here as the table \<open>workflowTools\<close>, apart from
  the functions of the code that compute it.
\<close>

section \<open>Disciplined traces\<close>

definition isAppend :: "AgentEvent \<Rightarrow> bool" where
  "isAppend e = (case e of AeAppend _ \<Rightarrow> True | _ \<Rightarrow> False)"

definition isChat :: "AgentEvent \<Rightarrow> bool" where
  "isChat e = (case e of AeChat _ \<Rightarrow> True | _ \<Rightarrow> False)"

definition isFinalize :: "AgentEvent \<Rightarrow> bool" where
  "isFinalize e = (case e of AeFinalize _ _ \<Rightarrow> True | _ \<Rightarrow> False)"

definition quiet :: "AgentEvent \<Rightarrow> bool" where
  "quiet e = (case e of AeAppend _ \<Rightarrow> True | AeAuto _ _ \<Rightarrow> True | _ \<Rightarrow> False)"

text \<open>The tool of each stage; the stage \<open>DecisionReady\<close> has none. The name the model gives may differ from
  it in upper and lower case.\<close>

definition workflowTools :: "(WorkflowStage \<times> gostring) list" where
  "workflowTools = [(CollectReviewEvidence, ''get_review_evidence''), (CollectESStatistics, ''get_review_stats''),
     (CollectRAGHistory, ''retrieve_rag''), (CollectCampaignContext, ''get_campaign_context'')]"

definition mayCall :: "WorkflowStage \<Rightarrow> gostring \<Rightarrow> bool" where
  "mayCall stage name \<longleftrightarrow> list_ex (\<lambda>(s, tool). s = stage \<and> EqualFold tool name) workflowTools"

definition wellPosed :: "ChatInput \<Rightarrow> bool" where
  "wellPosed c \<longleftrightarrow> (if ch_Stage c = DecisionReady then ch_AllowFinal c \<and> ch_RequiredTool c = []
     else \<not> ch_AllowFinal c \<and> (ch_Stage c, ch_RequiredTool c) \<in> set workflowTools)"

lemma toolAllowedForStage_mayCall: "toolAllowedForStage stage name \<longleftrightarrow> mayCall stage name"
  by (cases stage) (simp_all add: toolAllowedForStage_def requiredToolForStage_def mayCall_def workflowTools_def)

lemma requiredTool_table: "stage \<noteq> DecisionReady \<Longrightarrow> (stage, requiredToolForStage stage) \<in> set workflowTools"
  by (cases stage) (simp_all add: requiredToolForStage_def workflowTools_def)

fun disciplined :: "ChatInput option \<Rightarrow> AgentEvent list \<Rightarrow> bool" where
  "disciplined c [] \<longleftrightarrow> True"
| "disciplined c (AeChat d # es) \<longleftrightarrow> wellPosed d \<and> disciplined (Some d) es"
| "disciplined c (AeTool name args # es) \<longleftrightarrow>
     (\<exists>d. c = Some d \<and> mayCall (ch_Stage d) name) \<and> disciplined c es"
| "disciplined c (AeFinalize input r # es) \<longleftrightarrow> (\<exists>d. c = Some d \<and> ch_Stage d = DecisionReady) \<and> list_all isAppend es"
| "disciplined c (AeAuto name args # es) \<longleftrightarrow> disciplined c es"
| "disciplined c (AeAppend r # es) \<longleftrightarrow> disciplined c es"

lemma disciplined_quiet: "list_all quiet es \<Longrightarrow> disciplined c (es @ fs) \<longleftrightarrow> disciplined c fs"
  by (induction es) (auto simp: quiet_def split: AgentEvent.splits)

lemma quiet_disciplined: "list_all quiet es \<Longrightarrow> disciplined c es"
  using disciplined_quiet [of es c "[]"] by simp

lemma append_is_quiet: "list_all isAppend es \<Longrightarrow> list_all quiet es"
  by (induction es) (auto simp: isAppend_def quiet_def split: AgentEvent.splits)

section \<open>What each operation adds to the trace\<close>

definition adds :: "AgentEvent list \<Rightarrow> ('w, 's) AgentState \<Rightarrow> ('w, 's) AgentState \<Rightarrow> bool" where
  "adds es st st' \<longleftrightarrow> ag_trace st' = ag_trace st @ es"

lemma adds_trans: "adds es st st1 \<Longrightarrow> adds fs st1 st2 \<Longrightarrow> adds (es @ fs) st st2"
  by (simp add: adds_def)

lemma appendStep_adds: "adds [AeAppend r] st (appendStep env mem scope r st)"
  by (simp add: adds_def appendStep_def log_def)

lemma snapshot_adds: "snapshot env mem scope st = (v, st') \<Longrightarrow> adds [] st st' \<and> ag_w st' = ag_w st"
  by (auto simp: snapshot_def adds_def split: prod.splits)

lemma runAutoTool_adds:
  "runAutoToolObservation env name args fallback st = (r, st') \<Longrightarrow> \<exists>es. adds es st st' \<and> list_all quiet es"
proof -
  assume a: "runAutoToolObservation env name args fallback st = (r, st')"
  have "adds [] st st' \<or> adds [AeAuto name (json_text (mapobj args))] st st'"
    using a by (auto simp: runAutoToolObservation_def Let_def adds_def log_def split: if_splits prod.splits sum.splits)
  moreover have "list_all quiet []" "list_all quiet [AeAuto name (json_text (mapobj args))]" by (simp_all add: quiet_def)
  ultimately show ?thesis by blast
qed

lemma appendAutoToolResult_adds:
  "appendAutoToolResult env mem scope name args obs ms st = (step, st') \<Longrightarrow> \<exists>es. adds es st st' \<and> list_all quiet es"
proof -
  assume a: "appendAutoToolResult env mem scope name args obs ms st = (step, st')"
  obtain v st1 where s: "snapshot env mem scope st = (v, st1)" by (metis surj_pair)
  from a s obtain r where "st' = appendStep env mem scope r st1" by (auto simp: appendAutoToolResult_def Let_def)
  with snapshot_adds [OF s] have "adds [AeAppend r] st st'" by (simp add: adds_def appendStep_def log_def)
  then show ?thesis by (intro exI [of _ "[AeAppend r]"]) (simp add: quiet_def)
qed

lemma fold_adds:
  assumes "\<And>x y. \<exists>es. adds es (snd y) (snd (f x y)) \<and> list_all quiet es"
  shows "\<exists>es. adds es (snd y) (snd (fold f xs y)) \<and> list_all quiet es"
proof (induction xs arbitrary: y)
  case Nil
  show ?case by (intro exI [of _ "[]"]) (simp add: adds_def)
next
  case (Cons x xs)
  obtain es where es: "adds es (snd y) (snd (f x y))" "list_all quiet es" using assms by blast
  obtain fs where "adds fs (snd (f x y)) (snd (fold f xs (f x y)))" "list_all quiet fs" using Cons by blast
  with es show ?case by (intro exI [of _ "es @ fs"]) (auto intro: adds_trans)
qed

lemma auto_adds:
  "runStatsRAGAndCampaignAfterEvidence env mem scope obs input st = (steps, st') \<Longrightarrow> \<exists>es. adds es st st' \<and> list_all quiet es"
proof -
  assume a: "runStatsRAGAndCampaignAfterEvidence env mem scope obs input st = (steps, st')"
  define e where "e = parseEvidenceForParallel obs"
  define cs where "cs = autoCalls (ae_mapOrder env (ag_w st)) e input"
  obtain results st1 where r: "fold (runAuto env cs) (ae_sched env (ag_w st)) (replicate 3 zeroAuto, st) = (results, st1)"
    by (metis surj_pair)
  have run: "\<exists>es. adds es (snd y) (snd (runAuto env cs i y)) \<and> list_all quiet es" for i and y :: "autoResult list \<times> ('a, 'b) AgentState"
  proof -
    obtain n ar fb where "cs ! i = (n, ar, fb)" by (metis surj_pair)
    moreover obtain obs err ms st2 where "runAutoToolObservation env n ar fb (snd y) = ((obs, err, ms), st2)" by (metis surj_pair)
    ultimately show ?thesis using runAutoTool_adds [of env n ar fb "snd y"] by (simp add: runAuto_def)
  qed
  have app: "\<exists>es. adds es (snd y) (snd (appendAuto env mem scope item y)) \<and> list_all quiet es" for item and y :: "Step list \<times> ('a, 'b) AgentState"
  proof -
    obtain step st2 where "appendAutoToolResult env mem scope (ar_toolName item) (ar_args item) (ar_observation item) (ar_durationMS item) (snd y) = (step, st2)"
      by (metis surj_pair)
    then show ?thesis using appendAutoToolResult_adds [of env mem scope _ _ _ _ "snd y"] by (auto simp: appendAuto_def)
  qed
  show ?thesis
  proof (cases "pe_ReviewID e \<le> 0 \<or> pe_StoreID e \<le> 0")
    case True
    then have "st' = st" using a by (auto simp: runStatsRAGAndCampaignAfterEvidence_def e_def Let_def)
    then show ?thesis by (intro exI [of _ "[]"]) (simp add: adds_def)
  next
    case False
    then have st': "fold (appendAuto env mem scope) results ([], st1) = (steps, st')"
      using a r by (simp add: runStatsRAGAndCampaignAfterEvidence_def e_def cs_def Let_def)
    obtain es where es: "adds es st st1" "list_all quiet es"
      using fold_adds [where f = "runAuto env cs" and y = "(replicate 3 zeroAuto, st)" and xs = "ae_sched env (ag_w st)", OF run] r by auto
    obtain fs where fs: "adds fs st1 st'" "list_all quiet fs"
      using fold_adds [where f = "appendAuto env mem scope" and y = "([], st1)" and xs = results, OF app] st' by auto
    show ?thesis using es fs by (intro exI [of _ "es @ fs"]) (auto intro: adds_trans)
  qed
qed

lemma executeTool_adds:
  "executeTool env mem scope n name args st = (step, st') \<Longrightarrow>
     adds [] st st' \<or> (\<exists>r. adds [AeTool name args, AeAppend r] st st')"
  by (auto simp: executeTool_def appendStep_def adds_def log_def Let_def split: if_splits prod.splits sum.splits)

lemma askFinalizer_adds:
  "askFinalizer env cfg input st = (r, st') \<Longrightarrow>
     (if ac_hasFinalizer cfg then adds [AeFinalize input r] st st' else adds [] st st' \<and> r = (fi_Decision input, None))"
  by (auto simp: askFinalizer_def adds_def log_def split: if_splits prod.splits)

lemma recordDecision_adds: "\<exists>es. adds es st (recordDecision env mem ex n stage d ds st) \<and> list_all isAppend es"
  by (auto simp: recordDecision_def adds_def appendStep_def log_def isAppend_def Let_def split: option.split)

lemma completed_adds:
  "completed env mem ex d steps st = (res, st') \<Longrightarrow> adds [] st st' \<and>
     (\<forall>result. res = Inr result \<longrightarrow> rs_Completed result \<and> rs_FinalAnswer result = renderFinalAnswer d \<and> rs_Steps result = steps)"
  by (auto simp: completed_def resultOf_def adds_def snapshot_def split: option.splits prod.splits)

lemma finishDecision_adds:
  assumes "finishDecision env mem cfg ex n stage d steps st = (res, st')"
  obtains (finalized) input r fs where "ac_hasFinalizer cfg" "adds (AeFinalize input r # fs) st st'" "list_all isAppend fs"
      "fi_History input = v_RecentSteps (fst (snapshot env mem (ex_Scope ex) st))"
      "\<forall>result. res = Inr result \<longrightarrow> rs_Completed result \<and> rs_FinalAnswer result = renderFinalAnswer (fst r) \<and>
         (\<forall>ds. snd r = Some ds \<longrightarrow> blank (st_Error ds) \<and> rs_Steps result = steps @ [ds])"
  | (plain) fs where "\<not> ac_hasFinalizer cfg" "adds fs st st'" "list_all isAppend fs"
proof -
  obtain v st1 where s1: "snapshot env mem (ex_Scope ex) st = (v, st1)" by (metis surj_pair)
  define input where "input = finalizeInput ex d (v_RecentSteps v)"
  obtain d' ds st2 where f: "askFinalizer env cfg input st1 = ((d', ds), st2)" by (metis surj_pair)
  define st3 where "st3 = recordDecision env mem ex n stage d' ds st2"
  have t1: "adds [] st st1" using snapshot_adds [OF s1] by simp
  obtain es where t3: "adds es st2 st3" "list_all isAppend es" using recordDecision_adds unfolding st3_def by blast
  have fin: "adds [] st3 st' \<and> (\<forall>result. res = Inr result \<longrightarrow> rs_Completed result \<and> rs_FinalAnswer result = renderFinalAnswer d' \<and>
      (\<forall>x. ds = Some x \<longrightarrow> blank (st_Error x) \<and> rs_Steps result = steps @ [x]))"
    using assms s1 f completed_adds [of env mem ex d' _ st3 res st']
    by (auto simp: finishDecision_def input_def st3_def Let_def adds_def split: option.splits if_splits)
  show thesis
  proof (cases "ac_hasFinalizer cfg")
    case True
    with askFinalizer_adds [OF f] have "adds [AeFinalize input (d', ds)] st1 st2" by simp
    with t1 t3(1) fin have "adds (AeFinalize input (d', ds) # es) st st'" by (simp add: adds_def)
    then show thesis by (rule finalized [OF True _ t3(2)]) (use fin s1 in \<open>auto simp: input_def finalizeInput_def\<close>)
  next
    case False
    with askFinalizer_adds [OF f] t1 t3(1) fin have "adds es st st'" by (simp add: adds_def)
    then show thesis by (rule plain [OF False _ t3(2)])
  qed
qed

section \<open>Rounds\<close>

lemma callTool_adds:
  assumes "callTool env mem ex n steps d st = (res, st')" "toolAllowedForStage stage (d_ToolName d)"
  obtains es steps' where "adds es st st'" "res = Inr steps'"
    "list_all quiet es \<or> (\<exists>name args fs. es = AeTool name args # fs \<and> list_all quiet fs \<and> toolAllowedForStage stage name)"
proof -
  obtain step st1 where ex: "executeTool env mem (ex_Scope ex) n (d_ToolName d) (d_Arguments d) st = (step, st1)" by (metis surj_pair)
  obtain es where es: "adds es st st1" "es = [] \<or> (\<exists>r. es = [AeTool (d_ToolName d) (d_Arguments d), AeAppend r])"
    using executeTool_adds [OF ex] by blast
  obtain fs steps' where fs: "adds fs st1 st'" "list_all quiet fs" "res = Inr steps'"
  proof (cases "st_Error step = [] \<and> EqualFold (d_ToolName d) ''get_review_evidence''")
    case True
    obtain autos st2 where a: "runStatsRAGAndCampaignAfterEvidence env mem (ex_Scope ex) (st_Observation step) (ex_Input ex) st1 = (autos, st2)"
      by (metis surj_pair)
    with assms(1) True ex have "st' = st2" "res = Inr (steps @ [step] @ autos)" by (auto simp: callTool_def)
    with auto_adds [OF a] that show thesis by blast
  next
    case False
    with assms(1) ex have "st' = st1" "res = Inr (steps @ [step])" by (auto simp: callTool_def)
    with that [of "[]"] show thesis by (simp add: adds_def)
  qed
  show thesis
    by (rule that [OF adds_trans [OF es(1) fs(1)] fs(3)]) (use es(2) fs(2) assms(2) in \<open>auto simp: quiet_def\<close>)
qed

lemma correct_adds:
  "correct env mem ex n stage steps reason st = (res, st') \<Longrightarrow> \<exists>r. adds [AeAppend r] st st' \<and> res = Inr steps"
  by (auto simp: correct_def adds_def appendStep_def log_def)

lemma handle_adds:
  assumes "handleDecision env mem cfg ex n stage steps d st = (res, st')"
  obtains (go) es steps' where "adds es st st'" "res = Inr steps'"
      "list_all quiet es \<or> (\<exists>name args fs. es = AeTool name args # fs \<and> list_all quiet fs \<and> toolAllowedForStage stage name)"
  | (finish) es r where "adds es st st'" "stage = DecisionReady" "list_all isAppend es" "\<not> ac_hasFinalizer cfg" "res = Inl r"
  | (finalized) input r fs result where "adds (AeFinalize input r # fs) st st'" "stage = DecisionReady"
      "list_all isAppend fs" "ac_hasFinalizer cfg" "res = Inl result"
      "\<forall>x. result = Inr x \<longrightarrow> rs_Completed x \<and> rs_FinalAnswer x = renderFinalAnswer (fst r) \<and>
         (\<forall>ds. snd r = Some ds \<longrightarrow> blank (st_Error ds) \<and> rs_Steps x = steps @ [ds])"
proof -
  have corr: thesis if "correct env mem ex n stage steps reason st = (res, st')" for reason
    using correct_adds [OF that] by (auto intro: go simp: quiet_def)
  consider (f) "EqualFold (d_Type d) ''final''" "stage = DecisionReady"
    | (c) reason where "handleDecision env mem cfg ex n stage steps d st = correct env mem ex n stage steps reason st"
    | (t) "handleDecision env mem cfg ex n stage steps d st = callTool env mem ex n steps d st" "toolAllowedForStage stage (d_ToolName d)"
  proof -
    consider (1) "EqualFold (d_Type d) ''final''" "stage = DecisionReady" | (2) "EqualFold (d_Type d) ''final''" "stage \<noteq> DecisionReady"
      | (3) "\<not> EqualFold (d_Type d) ''final''" "\<not> EqualFold (d_Type d) ''tool_call''"
      | (4) "\<not> EqualFold (d_Type d) ''final''" "EqualFold (d_Type d) ''tool_call''" "\<not> toolAllowedForStage stage (d_ToolName d)"
      | (5) "\<not> EqualFold (d_Type d) ''final''" "EqualFold (d_Type d) ''tool_call''" "toolAllowedForStage stage (d_ToolName d)"
      by blast
    then show thesis
    proof cases
      case 1 then show thesis by (rule f)
    next
      case 2 then show thesis by (intro c) (simp add: handleDecision_def)
    next
      case 3 then show thesis by (intro c) (simp add: handleDecision_def)
    next
      case 4 then show thesis by (intro c) (simp add: handleDecision_def)
    next
      case 5 then show thesis by (intro t) (simp_all add: handleDecision_def)
    qed
  qed
  then show thesis
  proof cases
    case f
    then obtain r where fd: "finishDecision env mem cfg ex n stage d steps st = (r, st')" and res: "res = Inl r"
      using assms by (auto simp: handleDecision_def split: prod.splits)
    show thesis
    proof (cases rule: finishDecision_adds [OF fd])
      case (1 input r' fs)
      show thesis by (rule finalized [OF 1(2) f(2) 1(3,1) res 1(5)])
    next
      case (2 fs)
      show thesis by (rule finish [OF 2(2) f(2) 2(3,1) res])
    qed
  next
    case c
    with assms corr show thesis by simp
  next
    case t
    with assms have "callTool env mem ex n steps d st = (res, st')" by simp
    from callTool_adds [OF this t(2)] show thesis using go by metis
  qed
qed

lemma round_adds:
  assumes "round env mem cfg ex n steps st = (res, st')"
  obtains (stop) es err where "adds es st st'" "res = Inl (Inl err)" "es = [] \<or> (\<exists>d. es = [AeChat d] \<and> wellPosed d)"
  | (go) d es steps' where "adds (AeChat d # es) st st'" "wellPosed d" "res = Inr steps'"
      "list_all quiet es \<or> (\<exists>name args fs. es = AeTool name args # fs \<and> list_all quiet fs \<and> toolAllowedForStage (ch_Stage d) name)"
  | (finish) d es r where "adds (AeChat d # es) st st'" "wellPosed d" "ch_Stage d = DecisionReady" "list_all isAppend es"
      "\<not> ac_hasFinalizer cfg" "res = Inl r"
  | (finalized) d input r fs result where "adds (AeChat d # AeFinalize input r # fs) st st'" "wellPosed d" "ch_Stage d = DecisionReady"
      "list_all isAppend fs" "ac_hasFinalizer cfg" "res = Inl result"
      "\<forall>x. result = Inr x \<longrightarrow> rs_Completed x \<and> rs_FinalAnswer x = renderFinalAnswer (fst r) \<and>
         (\<forall>ds. snd r = Some ds \<longrightarrow> blank (st_Error ds) \<and> rs_Steps x = steps @ [ds])"
proof (cases "memoryCheck mem st")
  case (Some err)
  with assms show thesis by (intro stop [of "[]"]) (auto simp: round_def adds_def)
next
  case None
  obtain v st1 where s1: "snapshot env mem (ex_Scope ex) st = (v, st1)" by (metis surj_pair)
  obtain v' st2 where s2: "snapshot env mem (ex_Scope ex) st1 = (v', st2)" by (metis surj_pair)
  define chat where "chat = chatInput cfg ex (workflowStage (v_RecentSteps v)) v'"
  have wp: "wellPosed chat" and sg: "ch_Stage chat = workflowStage (v_RecentSteps v)"
    by (auto simp: wellPosed_def chat_def chatInput_def requiredTool_table) (simp add: requiredToolForStage_def)
  obtain resp w where c: "ae_chat env chat (ag_w st2) = (resp, w)" by (metis surj_pair)
  define st3 where "st3 = log (AeChat chat) (st2 \<lparr> ag_w := w \<rparr>)"
  have t3: "adds [AeChat chat] st st3"
    using snapshot_adds [OF s1] snapshot_adds [OF s2] by (simp add: adds_def st3_def log_def)
  consider (err) err where "res = Inl (Inl err)" "st' = st3"
    | (h) d where "handleDecision env mem cfg ex n (ch_Stage chat) steps d st3 = (res, st')"
    using assms None s1 s2 c unfolding chat_def st3_def
    by (cases resp) (auto simp: round_def Let_def chatInput_def split: sum.splits)
  then show thesis
  proof cases
    case err
    with t3 wp show thesis by (intro stop [of "[AeChat chat]"]) auto
  next
    case (h d)
    show thesis
    proof (cases rule: handle_adds [OF h])
      case (1 es steps')
      have "adds (AeChat chat # es) st st'" using adds_trans [OF t3 1(1)] by simp
      then show thesis by (rule go [OF _ wp 1(2,3)])
    next
      case (2 es r)
      have "adds (AeChat chat # es) st st'" using adds_trans [OF t3 2(1)] by simp
      then show thesis by (rule finish [OF _ wp 2(2-5)])
    next
      case (3 input r fs result)
      have "adds (AeChat chat # AeFinalize input r # fs) st st'" using adds_trans [OF t3 3(1)] by simp
      then show thesis by (rule finalized [OF _ wp 3(2-6)])
    qed
  qed
qed

lemma filter_quiet:
  "list_all quiet es \<Longrightarrow> filter isChat es = []" "list_all quiet es \<Longrightarrow> filter isFinalize es = []"
  by (induction es) (auto simp: quiet_def isChat_def isFinalize_def split: AgentEvent.splits)

lemma kind_simps [simp]:
  "isChat (AeChat d)" "\<not> isChat (AeTool n a)" "\<not> isChat (AeFinalize i r)" "\<not> isFinalize (AeChat d)"
  "\<not> isFinalize (AeTool n a)" "isFinalize (AeFinalize i r)"
  by (simp_all add: isChat_def isFinalize_def)

lemma disciplined_go:
  assumes "wellPosed d" "\<forall>c. disciplined c fs"
    "list_all quiet es \<or> (\<exists>name args gs. es = AeTool name args # gs \<and> list_all quiet gs \<and> toolAllowedForStage (ch_Stage d) name)"
  shows "disciplined c (AeChat d # es @ fs)"
  using assms by (auto simp: disciplined_quiet toolAllowedForStage_mayCall)

lemma rounds_adds:
  "rounds env mem cfg ex n left steps st = (res, st') \<Longrightarrow>
     \<exists>es. adds es st st' \<and> (\<forall>c. disciplined c es) \<and> length (filter isChat es) \<le> left \<and> length (filter isFinalize es) \<le> 1 \<and>
       (\<forall>x. res = Inr x \<longrightarrow> rs_Completed x \<longrightarrow> ac_hasFinalizer cfg \<longrightarrow>
          (\<exists>input r. filter isFinalize es = [AeFinalize input r] \<and> rs_FinalAnswer x = renderFinalAnswer (fst r) \<and>
             (\<forall>ds. snd r = Some ds \<longrightarrow> blank (st_Error ds) \<and> last (rs_Steps x) = ds)))"
proof (induction left arbitrary: n steps st)
  case 0
  then have "adds [] st st' \<and> (\<forall>x. res = Inr x \<longrightarrow> \<not> rs_Completed x)"
    by (auto simp: adds_def snapshot_def resultOf_def split: option.splits prod.splits)
  then show ?case by (intro exI [of _ "[]"]) auto
next
  case (Suc left)
  obtain rr st1 where r: "round env mem cfg ex n steps st = (rr, st1)" by (metis surj_pair)
  show ?case
  proof (cases rule: round_adds [OF r])
    case (1 es err)
    then have "st' = st1" "res = Inl err" using Suc.prems r by auto
    with 1 show ?thesis by (intro exI [of _ es]) auto
  next
    case (2 d es steps')
    then have "rounds env mem cfg ex (Suc n) left steps' st1 = (res, st')" using Suc.prems r by simp
    from Suc.IH [OF this] obtain fs where fs: "adds fs st1 st'" "\<forall>c. disciplined c fs" "length (filter isChat fs) \<le> left"
      "length (filter isFinalize fs) \<le> 1"
      "\<forall>x. res = Inr x \<longrightarrow> rs_Completed x \<longrightarrow> ac_hasFinalizer cfg \<longrightarrow>
          (\<exists>input r. filter isFinalize fs = [AeFinalize input r] \<and> rs_FinalAnswer x = renderFinalAnswer (fst r) \<and>
             (\<forall>ds. snd r = Some ds \<longrightarrow> blank (st_Error ds) \<and> last (rs_Steps x) = ds))" by blast
    have none: "filter isChat es = []" "filter isFinalize es = []" using 2(4) filter_quiet by auto
    have dis: "\<forall>c. disciplined c (AeChat d # es @ fs)" using disciplined_go [OF 2(2) fs(2) 2(4)] by blast
    have ad: "adds (AeChat d # es @ fs) st st'" using adds_trans [OF 2(1) fs(1)] by simp
    show ?thesis by (rule exI [of _ "AeChat d # es @ fs"]) (use dis ad none fs(3-5) in simp)
  next
    case (3 d es rr')
    then have "st' = st1" using Suc.prems r by auto
    with 3 filter_quiet [OF append_is_quiet [OF 3(4)]] quiet_disciplined [OF append_is_quiet [OF 3(4)]]
    show ?thesis by (intro exI [of _ "AeChat d # es"]) auto
  next
    case (4 d input r' fs result)
    then have "st' = st1" "res = result" using Suc.prems r by auto
    with 4 filter_quiet [OF append_is_quiet [OF 4(4)]]
    show ?thesis by (intro exI [of _ "AeChat d # AeFinalize input r' # fs"]) auto
  qed
qed

text \<open>The events of an execution that starts with an empty trace.\<close>

definition events :: "'w AgentEnv \<Rightarrow> 's MemOps \<Rightarrow> AgentConfig \<Rightarrow> ExecutionInput \<Rightarrow> 'w \<Rightarrow> 's \<Rightarrow> AgentEvent list" where
  "events env mem cfg input w m = ag_trace (snd (RunExecution env mem cfg input \<lparr>ag_w = w, ag_mem = m, ag_trace = []\<rparr>))"

definition outcome :: "'w AgentEnv \<Rightarrow> 's MemOps \<Rightarrow> AgentConfig \<Rightarrow> ExecutionInput \<Rightarrow> 'w \<Rightarrow> 's \<Rightarrow> Result result" where
  "outcome env mem cfg input w m = fst (RunExecution env mem cfg input \<lparr>ag_w = w, ag_mem = m, ag_trace = []\<rparr>)"

lemma run_adds:
  "(\<forall>c. disciplined c (events env mem cfg input w m)) \<and>
   length (filter isChat (events env mem cfg input w m)) \<le> nat (ac_maxSteps cfg) \<and>
   length (filter isFinalize (events env mem cfg input w m)) \<le> 1 \<and>
   (\<forall>x. outcome env mem cfg input w m = Inr x \<longrightarrow> rs_Completed x \<longrightarrow> ac_hasFinalizer cfg \<longrightarrow>
      (\<exists>fi r. filter isFinalize (events env mem cfg input w m) = [AeFinalize fi r] \<and> rs_FinalAnswer x = renderFinalAnswer (fst r) \<and>
         (\<forall>ds. snd r = Some ds \<longrightarrow> blank (st_Error ds) \<and> last (rs_Steps x) = ds)))"
proof -
  define st where "st = (\<lparr>ag_w = w, ag_mem = m, ag_trace = []\<rparr> :: ('a, 'b) AgentState)"
  obtain res st' where run: "RunExecution env mem cfg input st = (res, st')" by (metis surj_pair)
  define ex where "ex = \<lparr>ex_SessionID = TrimSpace (ei_SessionID input), ex_ExecutionID = TrimSpace (ei_ExecutionID input),
     ex_Scope = executionScopeID (TrimSpace (ei_SessionID input)) (TrimSpace (ei_ExecutionID input)),
     ex_Task = TrimSpace (ei_Task input), ex_Input = input\<rparr>"
  have eqs: "events env mem cfg input w m = ag_trace st'" "outcome env mem cfg input w m = res"
    using run by (simp_all add: events_def outcome_def st_def)
  have boot: "ag_trace (bootstrapExecution env mem ex st) = []" by (simp add: bootstrapExecution_def st_def)
  consider (q) "ag_trace st' = []" "\<exists>err. res = Inl err"
    | (r) "rounds env mem cfg ex 1 (nat (ac_maxSteps cfg)) [] (bootstrapExecution env mem ex st) = (res, st')"
    using run boot by (auto simp: RunExecution_def Let_def ex_def [symmetric] st_def split: if_splits option.splits)
  then show ?thesis
  proof cases
    case q
    then show ?thesis by (auto simp: eqs)
  next
    case r
    from rounds_adds [OF r] boot show ?thesis by (simp add: eqs adds_def)
  qed
qed

section \<open>Properties\<close>

text \<open>C4: an execution keeps to the workflow, whatever the model answers. Every question to the model names the
  tool of its stage (get_review_evidence, get_review_stats, retrieve_rag or get_campaign_context, in the table
  \<open>workflowTools\<close>) and forbids a final answer, or it is of the stage decision_ready, names none and allows it.
  A tool the model asks for runs only if it is the one of the stage that was shown to the model, never at
  decision_ready; a finalization only answers a question of decision_ready, and after it the execution only
  writes to its memory.\<close>

theorem stage_discipline:
  "disciplined None (events env mem cfg input w m)"
  using run_adds [of env mem cfg input w m] by blast

text \<open>C15: an execution asks the model at most \<open>maxSteps\<close> times and finalizes at most once.\<close>

theorem execution_bounded:
  "length (filter isChat (events env mem cfg input w m)) \<le> nat (ac_maxSteps cfg) \<and>
   length (filter isFinalize (events env mem cfg input w m)) \<le> 1"
  using run_adds [of env mem cfg input w m] by blast

text \<open>C16: a completed execution of an agent with a finalizer has finalized exactly once and without an error,
  its last step is the step of the finalizer and its answer is rendered from the finalizer's decision.\<close>

theorem completed_means_finalized:
  assumes "outcome env mem cfg input w m = Inr x" "rs_Completed x" "ac_hasFinalizer cfg"
  shows "\<exists>fi r. filter isFinalize (events env mem cfg input w m) = [AeFinalize fi r] \<and>
    rs_FinalAnswer x = renderFinalAnswer (fst r) \<and>
    (\<forall>ds. snd r = Some ds \<longrightarrow> blank (st_Error ds) \<and> last (rs_Steps x) = ds)"
  using run_adds [of env mem cfg input w m] assms by blast

end
