(* ===== verification/Agent_Memory.thy ===== *)
theory Agent_Memory
  imports Agent_Safety
begin

text \<open>
  The agent on the in-memory store. As long as the store has room for the executions that use it and none
  expires (\<open>fitsMem\<close>), the agent reads back what it wrote, and two facts follow: a final decision is only
  ever executed on a history that holds all four tool results, and one successful evidence call is enough
  to get there, even when the three tools called on its behalf fail.
\<close>

section \<open>Snapshots\<close>

definition hist :: "gostring \<Rightarrow> InMemoryStore \<Rightarrow> StepRecord list" where
  "hist scope m = (case map_of (im_states m) scope of None \<Rightarrow> [] | Some st \<Rightarrow> ss_RecentSteps st)"

lemma Snapshot_fits:
  assumes "fitsMem K T cap m" "scope \<in> K" "t \<in> T"
  shows "snd (Snapshot t scope m) = m" "v_RecentSteps (fst (Snapshot t scope m)) = hist scope m"
proof -
  have k: "memKey scope = scope" using assms by (auto simp: fitsMem_def memKey_def)
  show "snd (Snapshot t scope m) = m"
    using fits_alive [OF assms(1) _ assms(3)] by (auto simp: Snapshot_snd Load_def k Let_def split: option.split)
  show "v_RecentSteps (fst (Snapshot t scope m)) = hist scope m"
    using stepsMem_fits [OF assms] by (simp add: stepsMem_def hist_def)
qed

lemma hist_append:
  assumes "fitsMem K T cap m" "scope \<in> K" "t \<in> T"
  shows "hist scope (AppendStep ord t scope r m) = lastN cap (hist scope m @ [r])"
    "fitsMem K T cap (AppendStep ord t scope r m)"
proof -
  show f: "fitsMem K T cap (AppendStep ord t scope r m)" by (rule mem.append_fits [OF assms])
  show "hist scope (AppendStep ord t scope r m) = lastN cap (hist scope m @ [r])"
    using mem.append_same [OF assms assms(3), of ord r] stepsMem_fits [OF f assms(2,3)] stepsMem_fits [OF assms]
    by (simp add: hist_def)
qed

lemma Save_fits:
  assumes "fitsMem K T cap m" "scope \<in> K" "t \<in> T" "ss_MemoryKey st = scope" "ss_SessionID st \<noteq> []"
  shows "fitsMem K T cap (Save ord t st m)"
    "hist scope (Save ord t st m) = lastN cap (ss_RecentSteps st)"
proof -
  let ?st = "(normalizeState t st (im_cfg m))\<lparr>ss_MemoryKey := scope\<rparr>"
  have ne: "scope \<noteq> []" using assms(1,2) by (auto simp: fitsMem_def)
  have "card (insert scope (set (map fst (im_states m)))) \<le> card K"
    using assms(1,2) by (intro card_mono) (auto simp: fitsMem_def)
  moreover have "length (put scope ?st (im_states m)) = card (insert scope (set (map fst (im_states m))))"
    using assms(1) by (intro length_put_keys) (simp add: fitsMem_def memInv_def)
  ultimately have l: "int (length (put scope ?st (im_states m))) \<le> mc_MaxSessions (im_cfg m)"
    using assms(1) by (simp add: fitsMem_def)
  have eq: "Save ord t st m = m\<lparr>im_states := put scope ?st (im_states m)\<rparr>"
    using assms(4,5) ne l by (simp add: Save_def Let_def evict_noop)
  have "memInv1 (m\<lparr>im_states := put scope ?st (im_states m)\<rparr>)"
    using assms(1,5) ne by (intro put_inv1 normalizeState_ok) (auto simp: fitsMem_def memInv_def)
  with l have "memInv (m\<lparr>im_states := put scope ?st (im_states m)\<rparr>)" by (simp add: memInv_def memInv1_def)
  moreover have "ss_UpdatedAt ?st = t" by (simp add: normalizeState_def)
  ultimately show "fitsMem K T cap (Save ord t st m)"
    using assms(1-3) by (auto simp: eq fitsMem_def put_def)
  have "ss_RecentSteps ?st = lastN cap (ss_RecentSteps st)"
    using assms(1) by (simp add: normalizeState_def foldOverflow_steps fitsMem_def memInv_def cfgOk_def)
  then show "hist scope (Save ord t st m) = lastN cap (ss_RecentSteps st)"
    by (simp add: eq hist_def lookup_put)
qed

section \<open>The agent's state\<close>

text \<open>The clock stays in the window \<open>T\<close>, the scope of the execution is one of the keys \<open>K\<close>.\<close>

definition goodEnv :: "int set \<Rightarrow> 'w AgentEnv \<Rightarrow> bool" where
  "goodEnv T env \<longleftrightarrow> (\<forall>w. ae_now env w \<in> T)"

definition memGood :: "gostring set \<Rightarrow> int set \<Rightarrow> nat \<Rightarrow> ('w, InMemoryStore) AgentState \<Rightarrow> bool" where
  "memGood K T cap st \<longleftrightarrow> fitsMem K T cap (ag_mem st)"

abbreviation agHist :: "gostring \<Rightarrow> ('w, InMemoryStore) AgentState \<Rightarrow> StepRecord list" where
  "agHist scope st \<equiv> hist scope (ag_mem st)"

lemma snapshot_good:
  assumes "memGood K T cap st" "goodEnv T env" "scope \<in> K" "snapshot env (inMemoryOps ord) scope st = (v, st')"
  shows "st' = st \<and> v_RecentSteps v = agHist scope st"
  using assms Snapshot_fits [of K T cap "ag_mem st" scope "ae_now env (ag_w st)"]
  by (auto simp: snapshot_def inMemoryOps_def memGood_def goodEnv_def split: prod.splits)

lemma appendStep_good:
  assumes "memGood K T cap st" "goodEnv T env" "scope \<in> K"
  shows "memGood K T cap (appendStep env (inMemoryOps ord) scope r st) \<and>
    agHist scope (appendStep env (inMemoryOps ord) scope r st) = lastN cap (agHist scope st @ [r])"
  using assms hist_append [of K T cap "ag_mem st" scope "ae_now env (ag_w st)" ord r]
  by (simp add: appendStep_def log_def inMemoryOps_def memGood_def goodEnv_def)

lemma runAutoTool_mem: "runAutoToolObservation env name args fb st = (r, st') \<Longrightarrow> ag_mem st' = ag_mem st"
  by (auto simp: runAutoToolObservation_def log_def Let_def split: if_splits prod.splits sum.splits)

lemma runAuto_mem: "ag_mem (snd (runAuto env cs i y)) = ag_mem (snd y)"
proof -
  obtain n ar fb where c: "cs ! i = (n, ar, fb)" by (metis surj_pair)
  obtain obs err ms st where r: "runAutoToolObservation env n ar fb (snd y) = ((obs, err, ms), st)" by (metis surj_pair)
  show ?thesis using runAutoTool_mem [OF r] by (simp add: runAuto_def c r)
qed

lemma runAuto_fst:
  "i < length (fst y) \<Longrightarrow> \<exists>obs err ms. fst (runAuto env cs i y) =
     (fst y)[i := \<lparr>ar_toolName = fst (cs ! i), ar_args = fst (snd (cs ! i)), ar_observation = obs, ar_err = err, ar_durationMS = ms\<rparr>]"
proof -
  obtain n ar fb where c: "cs ! i = (n, ar, fb)" by (metis surj_pair)
  obtain obs err ms st where r: "runAutoToolObservation env n ar fb (snd y) = ((obs, err, ms), st)" by (metis surj_pair)
  show ?thesis by (simp add: runAuto_def c r) blast
qed

text \<open>After all goroutines have run, each slot holds the result of its tool, in whatever order they ran.\<close>

lemma runAutos_names:
  "\<lbrakk>length (fst y) = length cs; \<forall>i \<in> set sched. i < length cs; \<forall>j \<in> done. j < length cs \<and> ar_toolName (fst y ! j) = fst (cs ! j)\<rbrakk> \<Longrightarrow>
     length (fst (fold (runAuto env cs) sched y)) = length cs \<and>
     (\<forall>j \<in> done \<union> set sched. ar_toolName (fst (fold (runAuto env cs) sched y) ! j) = fst (cs ! j)) \<and>
     ag_mem (snd (fold (runAuto env cs) sched y)) = ag_mem (snd y)"
proof (induction sched arbitrary: y "done")
  case Nil
  then show ?case by simp
next
  case (Cons i sched)
  have i: "i < length (fst y)" using Cons.prems by simp
  obtain obs err ms where f: "fst (runAuto env cs i y) = (fst y)[i := \<lparr>ar_toolName = fst (cs ! i), ar_args = fst (snd (cs ! i)),
      ar_observation = obs, ar_err = err, ar_durationMS = ms\<rparr>]" using runAuto_fst [OF i] by blast
  have "length (fst (runAuto env cs i y)) = length cs" using Cons.prems(1) f by simp
  moreover have "\<forall>j \<in> insert i done. j < length cs \<and> ar_toolName (fst (runAuto env cs i y) ! j) = fst (cs ! j)"
    using Cons.prems i f by (auto simp: nth_list_update)
  ultimately show ?case
    using Cons.IH [of "runAuto env cs i y" "insert i done"] Cons.prems(2) runAuto_mem [of env cs i y] by simp
qed

definition autoRecord :: "gostring \<Rightarrow> StepRecord \<Rightarrow> bool" where
  "autoRecord name r \<longleftrightarrow> sr_ToolName r = name \<and> sr_Action r = ''tool_call'' \<and> sr_Error r = []"

lemma autoRecord_done: "autoRecord name r \<Longrightarrow> toolDone name r"
  by (simp add: autoRecord_def toolDone_def)

lemma appendAuto_good:
  assumes "memGood K T cap (snd y)" "goodEnv T env" "scope \<in> K"
  shows "\<exists>r. autoRecord (ar_toolName item) r \<and>
    memGood K T cap (snd (appendAuto env (inMemoryOps ord) scope item y)) \<and>
    agHist scope (snd (appendAuto env (inMemoryOps ord) scope item y)) = lastN cap (agHist scope (snd y) @ [r])"
proof -
  obtain v st1 where s: "snapshot env (inMemoryOps ord) scope (snd y) = (v, st1)" by (metis surj_pair)
  have st1: "st1 = snd y" using snapshot_good [OF assms s] by simp
  obtain r where r: "snd (appendAutoToolResult env (inMemoryOps ord) scope (ar_toolName item) (ar_args item) (ar_observation item)
      (ar_durationMS item) (snd y)) = appendStep env (inMemoryOps ord) scope r (snd y)" "autoRecord (ar_toolName item) r"
    using s st1 by (auto simp: appendAutoToolResult_def autoRecord_def Let_def)
  have "snd (appendAuto env (inMemoryOps ord) scope item y) = appendStep env (inMemoryOps ord) scope r (snd y)"
    using r(1) by (auto simp: appendAuto_def split: prod.splits)
  then show ?thesis using appendStep_good [OF assms, of ord r] r(2) by auto
qed

lemma appendAutos_good:
  "\<lbrakk>memGood K T cap (snd y); goodEnv T env; scope \<in> K; 0 < cap\<rbrakk> \<Longrightarrow>
     \<exists>rs. list_all2 (\<lambda>item r. autoRecord (ar_toolName item) r) items rs \<and>
       memGood K T cap (snd (fold (appendAuto env (inMemoryOps ord) scope) items y)) \<and>
       agHist scope (snd (fold (appendAuto env (inMemoryOps ord) scope) items y)) = lastN cap (agHist scope (snd y) @ rs)"
proof (induction items arbitrary: y)
  case Nil
  have "length (agHist scope (snd y)) \<le> cap"
    using mem.cap_bound [of K T cap "ag_mem (snd y)" scope "ae_now env (ag_w (snd y))"] Nil
      stepsMem_fits [of K T cap "ag_mem (snd y)" scope "ae_now env (ag_w (snd y))"]
    by (simp add: memGood_def goodEnv_def hist_def)
  then show ?case using Nil by simp
next
  case (Cons item items)
  obtain r where r: "autoRecord (ar_toolName item) r" "memGood K T cap (snd (appendAuto env (inMemoryOps ord) scope item y))"
    "agHist scope (snd (appendAuto env (inMemoryOps ord) scope item y)) = lastN cap (agHist scope (snd y) @ [r])"
    using appendAuto_good [OF Cons.prems(1-3)] by blast
  obtain rs where rs: "list_all2 (\<lambda>item r. autoRecord (ar_toolName item) r) items rs"
    "memGood K T cap (snd (fold (appendAuto env (inMemoryOps ord) scope) items (appendAuto env (inMemoryOps ord) scope item y)))"
    "agHist scope (snd (fold (appendAuto env (inMemoryOps ord) scope) items (appendAuto env (inMemoryOps ord) scope item y)))
       = lastN cap (lastN cap (agHist scope (snd y) @ [r]) @ rs)"
    using Cons.IH [OF r(2) Cons.prems(2-4)] r(3) by auto
  show ?case
    by (rule exI [of _ "r # rs"]) (use r(1) rs Cons.prems(4) in \<open>simp add: lastN_lastN_append\<close>)
qed

section \<open>Tools\<close>

lemma executeTool_good:
  assumes "memGood K T cap st" "goodEnv T env" "scope \<in> K" "executeTool env (inMemoryOps ord) scope n name args st = (step, st')"
  shows "memGood K T cap st'"
    "\<lbrakk>ae_registered env name; ae_tool env name args (ag_w st) = (Inr obs, w)\<rbrakk> \<Longrightarrow>
       ag_w st' = w \<and> st_Error step = [] \<and> st_Observation step = obs \<and>
       (\<exists>r. autoRecord name r \<and> agHist scope st' = lastN cap (agHist scope st @ [r]))"
proof -
  have good: "memGood K T cap (appendStep env (inMemoryOps ord) scope r st1) \<and>
      agHist scope (appendStep env (inMemoryOps ord) scope r st1) = lastN cap (agHist scope st @ [r])"
    if "ag_mem st1 = ag_mem st" for r st1
    using appendStep_good [of K T cap st1 env scope ord r] assms(1-3) that by (simp add: memGood_def)
  show "memGood K T cap st'"
    using assms(1,4) good by (auto simp: executeTool_def Let_def log_def split: if_splits prod.splits sum.splits)
  assume a: "ae_registered env name" "ae_tool env name args (ag_w st) = (Inr obs, w)"
  obtain r st1 where r: "st' = appendStep env (inMemoryOps ord) scope r st1" "ag_mem st1 = ag_mem st" "ag_w st1 = w" "autoRecord name r"
      "st_Error step = []" "st_Observation step = obs"
    using assms(4) a by (auto simp: executeTool_def Let_def log_def autoRecord_def)
  then show "ag_w st' = w \<and> st_Error step = [] \<and> st_Observation step = obs \<and>
       (\<exists>r. autoRecord name r \<and> agHist scope st' = lastN cap (agHist scope st @ [r]))"
    using good [OF r(2), of r] by (auto simp: appendStep_def log_def)
qed

lemma autos_good:
  assumes "memGood K T cap st" "goodEnv T env" "scope \<in> K" "0 < cap" "set (ae_sched env (ag_w st)) = {0, 1, 2}"
    and "runStatsRAGAndCampaignAfterEvidence env (inMemoryOps ord) scope obs input st = (autos, st')"
  shows "memGood K T cap st'"
    "\<lbrakk>0 < pe_ReviewID (parseEvidenceForParallel obs); 0 < pe_StoreID (parseEvidenceForParallel obs)\<rbrakk> \<Longrightarrow>
       \<exists>r1 r2 r3. autoRecord ''get_review_stats'' r1 \<and> autoRecord ''retrieve_rag'' r2 \<and> autoRecord ''get_campaign_context'' r3 \<and>
         agHist scope st' = lastN cap (agHist scope st @ [r1, r2, r3])"
proof -
  define e where "e = parseEvidenceForParallel obs"
  define cs where "cs = autoCalls (ae_mapOrder env (ag_w st)) e input"
  define y where "y = (replicate 3 zeroAuto, st)"
  obtain results st1 where f: "fold (runAuto env cs) (ae_sched env (ag_w st)) y = (results, st1)" by (metis surj_pair)
  have len: "length cs = 3" by (simp add: cs_def autoCalls_def)
  have names: "fst (cs ! 0) = ''get_review_stats''" "fst (cs ! 1) = ''retrieve_rag''" "fst (cs ! 2) = ''get_campaign_context''"
    by (simp_all add: cs_def autoCalls_def)
  have run: "length results = 3" "\<forall>j \<in> {0, 1, 2}. ar_toolName (results ! j) = fst (cs ! j)" "ag_mem st1 = ag_mem st"
    using runAutos_names [of y cs "ae_sched env (ag_w st)" "{}" env] f len assms(5) by (auto simp: y_def)
  then have rs: "map ar_toolName results = [''get_review_stats'', ''retrieve_rag'', ''get_campaign_context'']"
    using names by (intro nth_equalityI) (auto simp: less_Suc_eq numeral_3_eq_3 numeral_2_eq_2)
  have "memGood K T cap (snd ([] :: Step list, st1))" using assms(1) run(3) by (simp add: memGood_def)
  from appendAutos_good [OF this assms(2-4), where items = results and ord = ord] obtain rl where rl:
    "list_all2 (\<lambda>item r. autoRecord (ar_toolName item) r) results rl"
    "memGood K T cap (snd (fold (appendAuto env (inMemoryOps ord) scope) results ([], st1)))"
    "agHist scope (snd (fold (appendAuto env (inMemoryOps ord) scope) results ([], st1))) = lastN cap (agHist scope st1 @ rl)" by auto
  have st': "st' = (if pe_ReviewID e \<le> 0 \<or> pe_StoreID e \<le> 0 then st else snd (fold (appendAuto env (inMemoryOps ord) scope) results ([], st1)))"
    using assms(6) f by (auto simp: runStatsRAGAndCampaignAfterEvidence_def Let_def e_def cs_def y_def split: if_splits)
  then show "memGood K T cap st'" using assms(1) rl(2) by simp
  assume "0 < pe_ReviewID (parseEvidenceForParallel obs)" "0 < pe_StoreID (parseEvidenceForParallel obs)"
  then have h: "agHist scope st' = lastN cap (agHist scope st @ rl)" using st' rl(3) run(3) by (simp add: e_def hist_def)
  from rl(1) have "list_all2 autoRecord (map ar_toolName results) rl" by (simp add: list_all2_map1)
  then obtain r1 r2 r3 where "rl = [r1, r2, r3]" "autoRecord ''get_review_stats'' r1" "autoRecord ''retrieve_rag'' r2"
    "autoRecord ''get_campaign_context'' r3" unfolding rs by (auto simp: list_all2_Cons1)
  with h show "\<exists>r1 r2 r3. autoRecord ''get_review_stats'' r1 \<and> autoRecord ''retrieve_rag'' r2 \<and> autoRecord ''get_campaign_context'' r3 \<and>
         agHist scope st' = lastN cap (agHist scope st @ [r1, r2, r3])" by blast
qed

lemma stage_ready:
  assumes "set rs \<subseteq> set h" "list_ex (toolDone ''get_review_evidence'') rs" "list_ex (toolDone ''get_review_stats'') rs"
    "list_ex (toolDone ''retrieve_rag'') rs" "list_ex (toolDone ''get_campaign_context'') rs"
  shows "workflowStage h = DecisionReady"
proof -
  have "list_ex P h" if "list_ex P rs" for P using that assms(1) by (auto simp: list_ex_iff)
  then show ?thesis using assms(2-5) by (simp add: workflowStage_def)
qed

lemma stage_complete:
  "workflowStage h = DecisionReady \<Longrightarrow>
     \<forall>tool \<in> {''get_review_evidence'', ''get_review_stats'', ''retrieve_rag'', ''get_campaign_context''}.
       \<exists>item \<in> set h. sr_Action item = ''tool_call'' \<and> sr_ToolName item = tool \<and> blank (sr_Error item)"
  by (auto simp: workflowStage_def Let_def list_ex_iff toolDone_def split: if_splits)

section \<open>Rounds\<close>

definition schedOk :: "'w AgentEnv \<Rightarrow> bool" where
  "schedOk env \<longleftrightarrow> (\<forall>w. set (ae_sched env w) = {0, 1, 2})"

definition readyEvent :: "AgentEvent \<Rightarrow> bool" where
  "readyEvent e = (case e of AeFinalize fi _ \<Rightarrow> workflowStage (fi_History fi) = DecisionReady | _ \<Rightarrow> True)"

lemma quiet_ready: "list_all quiet es \<Longrightarrow> list_all readyEvent es"
  by (induction es) (auto simp: quiet_def readyEvent_def split: AgentEvent.splits)

lemma callTool_good:
  assumes "memGood K T cap st" "goodEnv T env" "schedOk env" "ex_Scope ex \<in> K" "0 < cap"
    and "callTool env (inMemoryOps ord) ex n steps d st = (res, st')"
  shows "memGood K T cap st'"
proof -
  obtain step st1 where ex: "executeTool env (inMemoryOps ord) (ex_Scope ex) n (d_ToolName d) (d_Arguments d) st = (step, st1)"
    by (metis surj_pair)
  have g: "memGood K T cap st1" by (rule executeTool_good [OF assms(1,2,4) ex])
  obtain autos st2 where a: "runStatsRAGAndCampaignAfterEvidence env (inMemoryOps ord) (ex_Scope ex) (st_Observation step) (ex_Input ex) st1 = (autos, st2)"
    by (metis surj_pair)
  have "memGood K T cap st2"
    by (rule autos_good [OF g assms(2,4,5) _ a]) (use assms(3) in \<open>simp add: schedOk_def\<close>)
  with assms(6) ex a g show ?thesis by (auto simp: callTool_def split: if_splits)
qed

lemma handle_good:
  assumes "memGood K T cap st" "goodEnv T env" "schedOk env" "ex_Scope ex \<in> K" "0 < cap"
    and "handleDecision env (inMemoryOps ord) cfg ex n (workflowStage (agHist (ex_Scope ex) st)) steps d st = (res, st')"
  obtains es where "adds es st st'" "list_all readyEvent es" "\<forall>x. res = Inr x \<longrightarrow> memGood K T cap st'"
proof (cases "EqualFold (d_Type d) ''final'' \<and> workflowStage (agHist (ex_Scope ex) st) = DecisionReady")
  case True
  then obtain r where fd: "finishDecision env (inMemoryOps ord) cfg ex n DecisionReady d steps st = (r, st')" and res: "res = Inl r"
    using assms(6) by (auto simp: handleDecision_def split: prod.splits)
  have v: "v_RecentSteps (fst (snapshot env (inMemoryOps ord) (ex_Scope ex) st)) = agHist (ex_Scope ex) st"
    using snapshot_good [OF assms(1,2,4), of ord] by (metis prod.collapse)
  show thesis
  proof (cases rule: finishDecision_adds [OF fd])
    case (1 input r' fs)
    show thesis
      by (rule that [OF 1(2)]) (use quiet_ready [OF append_is_quiet [OF 1(3)]] 1(4) v True res in \<open>auto simp: readyEvent_def\<close>)
  next
    case (2 fs)
    show thesis by (rule that [OF 2(2)]) (use quiet_ready [OF append_is_quiet [OF 2(3)]] res in auto)
  qed
next
  case False
  show thesis
  proof (cases rule: handle_adds [OF assms(6)])
    case (1 es steps')
    have "list_all readyEvent es"
      using 1(3) quiet_ready by (auto simp: readyEvent_def)
    moreover have "memGood K T cap st'"
    proof -
      have "(\<exists>reason. correct env (inMemoryOps ord) ex n (workflowStage (agHist (ex_Scope ex) st)) steps reason st = (res, st')) \<or>
        callTool env (inMemoryOps ord) ex n steps d st = (res, st')"
        using assms(6) False by (auto simp: handleDecision_def split: if_splits)
      then show ?thesis
        using callTool_good [OF assms(1-5)] appendStep_good [OF assms(1,2,4)] by (auto simp: correct_def)
    qed
    ultimately show thesis using that 1(1) by blast
  next
    case (2 es r)
    show thesis by (rule that [OF 2(1)]) (use quiet_ready [OF append_is_quiet [OF 2(3)]] 2(5) in auto)
  next
    case (3 input r fs result)
    then show thesis using False assms(6) by (auto simp: handleDecision_def correct_def callTool_def split: if_splits prod.splits)
  qed
qed

lemma round_good:
  assumes "memGood K T cap st" "goodEnv T env" "schedOk env" "ex_Scope ex \<in> K" "0 < cap"
    and "round env (inMemoryOps ord) cfg ex n steps st = (res, st')"
  obtains es where "adds es st st'" "list_all readyEvent es" "\<forall>x. res = Inr x \<longrightarrow> memGood K T cap st'"
proof -
  obtain v st1 where s1: "snapshot env (inMemoryOps ord) (ex_Scope ex) st = (v, st1)" by (metis surj_pair)
  obtain v' st2 where s2: "snapshot env (inMemoryOps ord) (ex_Scope ex) st1 = (v', st2)" by (metis surj_pair)
  have hv: "st1 = st" "v_RecentSteps v = agHist (ex_Scope ex) st" using snapshot_good [OF assms(1,2,4) s1] by auto
  have st2: "st2 = st" using snapshot_good [OF assms(1,2,4), of ord v' st2] s2 hv by auto
  define chat where "chat = chatInput cfg ex (workflowStage (agHist (ex_Scope ex) st)) v'"
  obtain resp w where c: "ae_chat env chat (ag_w st) = (resp, w)" by (metis surj_pair)
  define st3 where "st3 = log (AeChat chat) (st \<lparr> ag_w := w \<rparr>)"
  have t3: "adds [AeChat chat] st st3" and g3: "memGood K T cap st3" and h3: "agHist (ex_Scope ex) st3 = agHist (ex_Scope ex) st"
    using assms(1) by (simp_all add: adds_def st3_def log_def memGood_def)
  have nomem: "memoryCheck (inMemoryOps ord) st = None" by (simp add: memoryCheck_def inMemoryOps_def)
  have same: "v' = v" using s1 s2 hv(1) by simp
  have st3: "log (AeChat (chatInput cfg ex (workflowStage (v_RecentSteps v)) v)) (st \<lparr> ag_w := w \<rparr>) = st3"
    and c': "ae_chat env (chatInput cfg ex (workflowStage (v_RecentSteps v)) v) (ag_w st) = (resp, w)"
    using c by (simp_all add: st3_def chat_def hv(2) same)
  have "round env (inMemoryOps ord) cfg ex n steps st = (case resp of Inl err \<Rightarrow> (Inl (Inl err), st3)
      | Inr content \<Rightarrow> (case parseDecision content of Inl err \<Rightarrow> (Inl (Inl (''parse llm decision failed: '' @ err)), st3)
         | Inr d \<Rightarrow> handleDecision env (inMemoryOps ord) cfg ex n (workflowStage (v_RecentSteps v)) steps d st3))"
    by (simp add: round_def Let_def nomem s1 hv(1) c' st3 cong: sum.case_cong)
  then consider (err) err where "res = Inl (Inl err)" "st' = st3"
    | (h) d where "handleDecision env (inMemoryOps ord) cfg ex n (workflowStage (agHist (ex_Scope ex) st3)) steps d st3 = (res, st')"
    using assms(6) by (auto simp: hv(2) h3 split: sum.splits)
  then show thesis
  proof cases
    case err
    with t3 show thesis by (intro that [of "[AeChat chat]"]) (auto simp: readyEvent_def)
  next
    case (h d)
    from handle_good [OF g3 assms(2-5) h] obtain es where es: "adds es st3 st'" "list_all readyEvent es"
      "\<forall>x. res = Inr x \<longrightarrow> memGood K T cap st'" by blast
    show thesis
      by (rule that [of "[AeChat chat] @ es"]) (use adds_trans [OF t3 es(1)] es(2,3) in \<open>auto simp: readyEvent_def\<close>)
  qed
qed

lemma rounds_good:
  assumes "goodEnv T env" "schedOk env" "ex_Scope ex \<in> K" "0 < cap"
  shows "memGood K T cap st \<Longrightarrow> rounds env (inMemoryOps ord) cfg ex n left steps st = (res, st') \<Longrightarrow>
    \<exists>es. adds es st st' \<and> list_all readyEvent es"
proof (induction left arbitrary: n steps st)
  case 0
  then have "adds [] st st'" by (auto simp: adds_def snapshot_def split: option.splits prod.splits)
  then show ?case by (intro exI [of _ "[]"]) simp
next
  case (Suc left)
  obtain rr st1 where r: "round env (inMemoryOps ord) cfg ex n steps st = (rr, st1)" by (metis surj_pair)
  from round_good [OF Suc.prems(1) assms r] obtain es where es: "adds es st st1" "list_all readyEvent es"
    "\<forall>x. rr = Inr x \<longrightarrow> memGood K T cap st1" by blast
  show ?case
  proof (cases rr)
    case (Inl a)
    then show ?thesis using Suc.prems(2) r es by auto
  next
    case (Inr steps')
    then have "rounds env (inMemoryOps ord) cfg ex (Suc n) left steps' st1 = (res, st')" using Suc.prems(2) r by simp
    from Suc.IH [OF _ this] es(3) Inr obtain fs where "adds fs st1 st'" "list_all readyEvent fs" by blast
    with es show ?thesis by (intro exI [of _ "es @ fs"]) (auto intro: adds_trans)
  qed
qed

lemma bootstrap_good:
  assumes "fitsMem K T cap m" "goodEnv T env" "ex_Scope ex \<in> K" "ex_SessionID ex \<noteq> []"
  shows "memGood K T cap (bootstrapExecution env (inMemoryOps ord) ex \<lparr>ag_w = w, ag_mem = m, ag_trace = es\<rparr>)"
  using Save_fits(1) [OF assms(1,3), of "ae_now env w"] assms(2,4)
  by (simp add: bootstrapExecution_def inMemoryOps_def memGood_def goodEnv_def)

section \<open>A cooperative model\<close>

text \<open>A model that asks for the tool of its stage, and decides when it may; tools that answer; a finalizer
  that succeeds.\<close>

definition cooperative :: "'w AgentEnv \<Rightarrow> bool" where
  "cooperative env \<longleftrightarrow>
     (\<forall>c w. \<exists>content w' d. ae_chat env c w = (Inr content, w') \<and> parseDecision content = Inr d \<and>
        (if ch_Stage c = DecisionReady then EqualFold (d_Type d) ''final''
         else d_Type d = ''tool_call'' \<and> d_ToolName d = requiredToolForStage (ch_Stage c))) \<and>
     (\<forall>stage. stage \<noteq> DecisionReady \<longrightarrow> ae_registered env (requiredToolForStage stage)) \<and>
     (\<forall>name args w. \<exists>obs w'. ae_tool env name args w = (Inr obs, w')) \<and>
     (\<forall>fi w. case snd (fst (ae_finalize env fi w)) of None \<Rightarrow> True | Some ds \<Rightarrow> blank (st_Error ds))"

definition stagesLeft :: "StepRecord list \<Rightarrow> nat" where
  "stagesLeft h = (case workflowStage h of CollectReviewEvidence \<Rightarrow> 4 | CollectESStatistics \<Rightarrow> 3
     | CollectRAGHistory \<Rightarrow> 2 | CollectCampaignContext \<Rightarrow> 1 | DecisionReady \<Rightarrow> 0)"

lemma stagesLeft_less:
  "\<lbrakk>workflowStage h \<noteq> DecisionReady; autoRecord (requiredToolForStage (workflowStage h)) r\<rbrakk> \<Longrightarrow>
     stagesLeft (h @ [r]) < stagesLeft h"
  using autoRecord_done [of "requiredToolForStage (workflowStage h)" r]
  by (auto simp: stagesLeft_def workflowStage_def Let_def requiredToolForStage_def split: if_splits)

lemma requiredTool_nonempty: "stage \<noteq> DecisionReady \<Longrightarrow> requiredToolForStage stage \<noteq> []"
  by (cases stage) (auto simp: requiredToolForStage_def)

text \<open>A tool call in its stage: the memory grows by the record of the tool, or by those of all four.\<close>

lemma coop_call:
  assumes "memGood K T cap st" "goodEnv T env" "schedOk env" "ex_Scope ex \<in> K" "4 \<le> cap" "cooperative env"
    and "d_ToolName d = requiredToolForStage (workflowStage (agHist (ex_Scope ex) st))"
    and "workflowStage (agHist (ex_Scope ex) st) \<noteq> DecisionReady"
    and "length (agHist (ex_Scope ex) st) + stagesLeft (agHist (ex_Scope ex) st) \<le> 4"
    and "callTool env (inMemoryOps ord) ex n steps d st = (res, st')"
  shows "length (agHist (ex_Scope ex) st') + stagesLeft (agHist (ex_Scope ex) st') \<le> 4 \<and>
    stagesLeft (agHist (ex_Scope ex) st') < stagesLeft (agHist (ex_Scope ex) st)"
proof -
  let ?h = "agHist (ex_Scope ex)"
  obtain step st1 where ex: "executeTool env (inMemoryOps ord) (ex_Scope ex) n (d_ToolName d) (d_Arguments d) st = (step, st1)"
    by (metis surj_pair)
  obtain obs w where t: "ae_tool env (d_ToolName d) (d_Arguments d) (ag_w st) = (Inr obs, w)"
    using assms(6) unfolding cooperative_def by metis
  have reg: "ae_registered env (d_ToolName d)" using assms(6-8) by (simp add: cooperative_def)
  obtain r where r: "st_Error step = []" "st_Observation step = obs" "autoRecord (d_ToolName d) r" "?h st1 = lastN cap (?h st @ [r])"
    using executeTool_good(2) [OF assms(1,2,4) ex reg t] by auto
  have less: "stagesLeft (?h st @ [r]) < stagesLeft (?h st)" using stagesLeft_less [OF assms(8)] r(3) assms(7) by simp
  have h1: "?h st1 = ?h st @ [r]" using r(4) assms(5,9) less by (simp add: lastN_def)
  have g: "memGood K T cap st1" by (rule executeTool_good [OF assms(1,2,4) ex])
  show ?thesis
  proof (cases "EqualFold (d_ToolName d) ''get_review_evidence''")
    case False
    then have "st' = st1" using assms(10) ex by (auto simp: callTool_def)
    with h1 less assms(9) show ?thesis by simp
  next
    case True
    let ?e = "parseEvidenceForParallel obs"
    obtain autos where a: "runStatsRAGAndCampaignAfterEvidence env (inMemoryOps ord) (ex_Scope ex) obs (ex_Input ex) st1 = (autos, st')"
      using assms(10) ex True r(1,2) by (auto simp: callTool_def split: prod.splits)
    show ?thesis
    proof (cases "pe_ReviewID ?e \<le> 0 \<or> pe_StoreID ?e \<le> 0")
      case True
      then have "st' = st1" using a by (auto simp: runStatsRAGAndCampaignAfterEvidence_def Let_def)
      with h1 less assms(9) show ?thesis by simp
    next
      case False
      have "workflowStage (?h st) = CollectReviewEvidence"
        using \<open>EqualFold (d_ToolName d) _\<close> assms(7) by (cases "workflowStage (?h st)") (simp_all add: requiredToolForStage_def EqualFold_def, code_simp+)
      then have "?h st = []" "d_ToolName d = ''get_review_evidence''"
        using assms(7,9) by (auto simp: stagesLeft_def requiredToolForStage_def)
      moreover obtain r1 r2 r3 where rs: "autoRecord ''get_review_stats'' r1" "autoRecord ''retrieve_rag'' r2" "autoRecord ''get_campaign_context'' r3"
        "?h st' = lastN cap (?h st1 @ [r1, r2, r3])"
        using autos_good(2) [OF g assms(2,4) _ _ a] assms(3,5) False by (auto simp: schedOk_def)
      ultimately have h': "?h st' = [r, r1, r2, r3]" "autoRecord ''get_review_evidence'' r"
        using h1 assms(5) r(3) by (simp_all add: lastN_def)
      have "workflowStage (?h st') = DecisionReady"
        by (rule stage_ready [of "[r, r1, r2, r3]"]) (use h' rs(1-3) in \<open>simp_all add: autoRecord_done\<close>)
      with h' less show ?thesis by (simp add: stagesLeft_def)
    qed
  qed
qed

lemma coop_round:
  assumes "memGood K T cap st" "goodEnv T env" "schedOk env" "ex_Scope ex \<in> K" "4 \<le> cap" "cooperative env"
    and "length (agHist (ex_Scope ex) st) + stagesLeft (agHist (ex_Scope ex) st) \<le> 4"
  shows "\<exists>res st'. round env (inMemoryOps ord) cfg ex n steps st = (res, st') \<and>
    (if stagesLeft (agHist (ex_Scope ex) st) = 0 then \<exists>x. res = Inl (Inr x) \<and> rs_Completed x
     else \<exists>steps'. res = Inr steps' \<and> memGood K T cap st' \<and> stagesLeft (agHist (ex_Scope ex) st') < stagesLeft (agHist (ex_Scope ex) st) \<and>
       length (agHist (ex_Scope ex) st') + stagesLeft (agHist (ex_Scope ex) st') \<le> 4)"
proof -
  let ?h = "agHist (ex_Scope ex)"
  obtain v st1 where s: "snapshot env (inMemoryOps ord) (ex_Scope ex) st = (v, st1)" by (metis surj_pair)
  have hv: "st1 = st" "v_RecentSteps v = ?h st" using snapshot_good [OF assms(1,2,4) s] by auto
  define chat where "chat = chatInput cfg ex (workflowStage (?h st)) v"
  have stage: "ch_Stage chat = workflowStage (?h st)" by (simp add: chat_def chatInput_def)
  obtain content w d where c: "ae_chat env chat (ag_w st) = (Inr content, w)" "parseDecision content = Inr d"
    "if ch_Stage chat = DecisionReady then EqualFold (d_Type d) ''final''
     else d_Type d = ''tool_call'' \<and> d_ToolName d = requiredToolForStage (ch_Stage chat)"
    using assms(6) unfolding cooperative_def by metis
  define st3 where "st3 = log (AeChat chat) (st \<lparr> ag_w := w \<rparr>)"
  have g3: "memGood K T cap st3" and h3: "?h st3 = ?h st"
    using assms(1) by (simp_all add: st3_def log_def memGood_def)
  have nomem: "memoryCheck (inMemoryOps ord) st = None" for st :: "('a, InMemoryStore) AgentState"
    by (simp add: memoryCheck_def inMemoryOps_def)
  have r: "round env (inMemoryOps ord) cfg ex n steps st = handleDecision env (inMemoryOps ord) cfg ex n (workflowStage (?h st)) steps d st3"
    using s c(1,2) by (simp add: round_def Let_def nomem hv st3_def chat_def)
  show ?thesis
  proof (cases "workflowStage (?h st) = DecisionReady")
    case True
    obtain v' st4 where s': "snapshot env (inMemoryOps ord) (ex_Scope ex) st3 = (v', st4)" by (metis surj_pair)
    obtain d' ds st5 where f: "askFinalizer env cfg (finalizeInput ex d (v_RecentSteps v')) st4 = ((d', ds), st5)" by (metis surj_pair)
    have ok: "case ds of None \<Rightarrow> True | Some x \<Rightarrow> blank (st_Error x)"
      using f assms(6) unfolding cooperative_def askFinalizer_def by (auto simp: Let_def split: if_splits prod.splits option.splits) (metis fst_conv snd_conv)+
    obtain r st' where fd: "finishDecision env (inMemoryOps ord) cfg ex n DecisionReady d steps st3 = (r, st')" by (metis surj_pair)
    have "\<exists>x. r = Inr x \<and> rs_Completed x"
      using fd s' f ok by (auto simp: finishDecision_def completed_def resultOf_def nomem Let_def split: option.splits prod.splits)
    with fd show ?thesis using r True c(3) stage by (auto simp: handleDecision_def stagesLeft_def)
  next
    case False
    have t: "d_Type d = ''tool_call''" "d_ToolName d = requiredToolForStage (workflowStage (?h st))"
      using c(3) stage False by auto
    have "\<not> EqualFold ''tool_call'' ''final''" by code_simp
    then have r': "round env (inMemoryOps ord) cfg ex n steps st = callTool env (inMemoryOps ord) ex n steps d st3"
      using r t False requiredTool_nonempty [OF False] by (simp add: handleDecision_def toolAllowedForStage_def)
    obtain res st' where ct: "callTool env (inMemoryOps ord) ex n steps d st3 = (res, st')" by (metis surj_pair)
    have "\<exists>steps'. res = Inr steps'" using ct by (auto simp: callTool_def split: if_splits prod.splits)
    moreover have "memGood K T cap st'" using callTool_good [OF g3 assms(2-4) _ ct] assms(5) by simp
    moreover have "stagesLeft (?h st) \<noteq> 0" using False by (auto simp: stagesLeft_def split: WorkflowStage.splits)
    ultimately show ?thesis
      using coop_call [OF g3 assms(2-6) _ _ _ ct] r' ct t(2) False assms(7) unfolding h3 by auto
  qed
qed

lemma coop_rounds:
  assumes "goodEnv T env" "schedOk env" "ex_Scope ex \<in> K" "4 \<le> cap" "cooperative env"
  shows "\<lbrakk>memGood K T cap st; length (agHist (ex_Scope ex) st) + stagesLeft (agHist (ex_Scope ex) st) \<le> 4;
     stagesLeft (agHist (ex_Scope ex) st) < left\<rbrakk> \<Longrightarrow>
     \<exists>x st'. rounds env (inMemoryOps ord) cfg ex n left steps st = (Inr x, st') \<and> rs_Completed x"
proof (induction left arbitrary: n steps st)
  case 0
  then show ?case by simp
next
  case (Suc left)
  obtain res st1 where r: "round env (inMemoryOps ord) cfg ex n steps st = (res, st1)"
    "if stagesLeft (agHist (ex_Scope ex) st) = 0 then \<exists>x. res = Inl (Inr x) \<and> rs_Completed x
     else \<exists>steps'. res = Inr steps' \<and> memGood K T cap st1 \<and> stagesLeft (agHist (ex_Scope ex) st1) < stagesLeft (agHist (ex_Scope ex) st) \<and>
       length (agHist (ex_Scope ex) st1) + stagesLeft (agHist (ex_Scope ex) st1) \<le> 4"
    using coop_round [OF Suc.prems(1) assms Suc.prems(2)] by blast
  show ?case
  proof (cases "stagesLeft (agHist (ex_Scope ex) st) = 0")
    case True
    with r show ?thesis by auto
  next
    case False
    with r(2) obtain steps' where "res = Inr steps'" "memGood K T cap st1" "stagesLeft (agHist (ex_Scope ex) st1) < left"
      "length (agHist (ex_Scope ex) st1) + stagesLeft (agHist (ex_Scope ex) st1) \<le> 4" using Suc.prems(3) by auto
    with Suc.IH [of st1 "Suc n" steps'] r(1) show ?thesis by simp
  qed
qed

lemma bootstrap_empty:
  assumes "fitsMem K T cap m" "goodEnv T env" "ex_Scope ex \<in> K" "ex_SessionID ex \<noteq> []"
  shows "agHist (ex_Scope ex) (bootstrapExecution env (inMemoryOps ord) ex \<lparr>ag_w = w, ag_mem = m, ag_trace = es\<rparr>) = []"
  using Save_fits(2) [OF assms(1,3), of "ae_now env w"] assms(2,4)
  by (simp add: bootstrapExecution_def inMemoryOps_def goodEnv_def emptyState_def lastN_def)

lemma run_cooperative:
  assumes "fitsMem K T cap m" "goodEnv T env" "schedOk env" "4 \<le> cap" "cooperative env" "5 \<le> ac_maxSteps cfg"
    and "TrimSpace (ei_SessionID input) \<noteq> []" "TrimSpace (ei_ExecutionID input) \<noteq> []" "TrimSpace (ei_Task input) \<noteq> []"
    and "executionScopeID (TrimSpace (ei_SessionID input)) (TrimSpace (ei_ExecutionID input)) \<in> K"
  shows "\<exists>x. outcome env (inMemoryOps ord) cfg input w m = Inr x \<and> rs_Completed x"
proof -
  define ex where "ex = \<lparr>ex_SessionID = TrimSpace (ei_SessionID input), ex_ExecutionID = TrimSpace (ei_ExecutionID input),
     ex_Scope = executionScopeID (TrimSpace (ei_SessionID input)) (TrimSpace (ei_ExecutionID input)),
     ex_Task = TrimSpace (ei_Task input), ex_Input = input\<rparr>"
  let ?st = "bootstrapExecution env (inMemoryOps ord) ex \<lparr>ag_w = w, ag_mem = m, ag_trace = []\<rparr>"
  have k: "ex_Scope ex \<in> K" and ne: "ex_SessionID ex \<noteq> []" using assms(7,10) by (simp_all add: ex_def)
  have e: "agHist (ex_Scope ex) ?st = []" by (rule bootstrap_empty [OF assms(1,2) k ne])
  have l: "stagesLeft [] = 4" by (simp add: stagesLeft_def workflowStage_def)
  have "RunExecution env (inMemoryOps ord) cfg input \<lparr>ag_w = w, ag_mem = m, ag_trace = []\<rparr> =
      rounds env (inMemoryOps ord) cfg ex 1 (nat (ac_maxSteps cfg)) [] ?st"
    using assms(7-9) by (simp add: RunExecution_def Let_def ex_def memoryCheck_def inMemoryOps_def)
  moreover have n: "4 < nat (ac_maxSteps cfg)" using assms(6) by arith
  moreover have "\<exists>x st'. rounds env (inMemoryOps ord) cfg ex 1 (nat (ac_maxSteps cfg)) [] ?st = (Inr x, st') \<and> rs_Completed x"
    by (rule coop_rounds [OF assms(2,3) k assms(4,5) bootstrap_good [OF assms(1,2) k ne]]) (use e l n in simp_all)
  ultimately show ?thesis by (auto simp: outcome_def)
qed

section \<open>Properties\<close>

text \<open>C7: one evidence call is enough to reach the decision: when the model's call of \<open>get_review_evidence\<close>
  returns an observation with a review and a store, the memory then holds the evidence, the statistics, the
  history and the campaign, in whatever order the three goroutines run and whether or not their tools fail;
  the workflow stands at decision_ready. The memory must hold at least four steps.\<close>

theorem evidence_completes:
  assumes "memGood K T cap st" "goodEnv T env" "schedOk env" "ex_Scope ex \<in> K" "4 \<le> cap"
    and "d_ToolName d = ''get_review_evidence''" "ae_registered env ''get_review_evidence''"
    and "ae_tool env ''get_review_evidence'' (d_Arguments d) (ag_w st) = (Inr obs, w)"
    and "0 < pe_ReviewID (parseEvidenceForParallel obs)" "0 < pe_StoreID (parseEvidenceForParallel obs)"
    and "callTool env (inMemoryOps ord) ex n steps d st = (res, st')"
  shows "workflowStage (hist (ex_Scope ex) (ag_mem st')) = DecisionReady"
proof -
  obtain step st1 where ex: "executeTool env (inMemoryOps ord) (ex_Scope ex) n (d_ToolName d) (d_Arguments d) st = (step, st1)"
    by (metis surj_pair)
  have g: "memGood K T cap st1" by (rule executeTool_good [OF assms(1,2,4) ex])
  obtain r0 where r0: "ag_w st1 = w" "st_Error step = []" "st_Observation step = obs" "autoRecord ''get_review_evidence'' r0"
    "agHist (ex_Scope ex) st1 = lastN cap (agHist (ex_Scope ex) st @ [r0])"
    using executeTool_good(2) [OF assms(1,2,4) ex] assms(6-8) by auto
  obtain autos st2 where a: "runStatsRAGAndCampaignAfterEvidence env (inMemoryOps ord) (ex_Scope ex) obs (ex_Input ex) st1 = (autos, st2)"
    by (metis surj_pair)
  have st': "st' = st2" using assms(6,11) ex a r0(2,3) by (simp add: callTool_def EqualFold_def)
  obtain r1 r2 r3 where rs: "autoRecord ''get_review_stats'' r1" "autoRecord ''retrieve_rag'' r2" "autoRecord ''get_campaign_context'' r3"
    "agHist (ex_Scope ex) st2 = lastN cap (agHist (ex_Scope ex) st1 @ [r1, r2, r3])"
    using autos_good(2) [OF g assms(2,4) _ _ a assms(9,10)] assms(3,5) by (auto simp: schedOk_def)
  have "agHist (ex_Scope ex) st2 = lastN cap (agHist (ex_Scope ex) st @ [r0, r1, r2, r3])"
    using rs(4) r0(5) assms(5) by (simp add: lastN_lastN_append)
  then have "set [r0, r1, r2, r3] \<subseteq> set (agHist (ex_Scope ex) st2)"
    using assms(5) by (auto simp: lastN_def)
  then show ?thesis
    unfolding st' using autoRecord_done [OF r0(4)] autoRecord_done [OF rs(1)] autoRecord_done [OF rs(2)] autoRecord_done [OF rs(3)]
    by - (rule stage_ready [of "[r0, r1, r2, r3]"], simp_all)
qed

text \<open>C5: the finalizer only ever sees a complete history: every finalization of an execution on the in-memory
  store is given a history that holds, for each of the four tools, a step that is a tool call of that tool and
  has no error.\<close>

theorem final_history_complete:
  assumes "fitsMem K T cap m" "goodEnv T env" "schedOk env" "0 < cap"
    and "executionScopeID (TrimSpace (ei_SessionID input)) (TrimSpace (ei_ExecutionID input)) \<in> K"
    and "AeFinalize fi r \<in> set (events env (inMemoryOps ord) cfg input w m)"
  shows "\<forall>tool \<in> {''get_review_evidence'', ''get_review_stats'', ''retrieve_rag'', ''get_campaign_context''}.
    \<exists>item \<in> set (fi_History fi). sr_Action item = ''tool_call'' \<and> sr_ToolName item = tool \<and> blank (sr_Error item)"
proof -
  define st where "st = \<lparr>ag_w = w, ag_mem = m, ag_trace = []\<rparr>"
  define ex where "ex = \<lparr>ex_SessionID = TrimSpace (ei_SessionID input), ex_ExecutionID = TrimSpace (ei_ExecutionID input),
     ex_Scope = executionScopeID (TrimSpace (ei_SessionID input)) (TrimSpace (ei_ExecutionID input)),
     ex_Task = TrimSpace (ei_Task input), ex_Input = input\<rparr>"
  obtain res st' where run: "RunExecution env (inMemoryOps ord) cfg input st = (res, st')" by (metis surj_pair)
  have ev: "AeFinalize fi r \<in> set (ag_trace st')" using assms(6) run by (simp add: events_def st_def)
  have boot: "ag_trace (bootstrapExecution env (inMemoryOps ord) ex st) = []" by (simp add: bootstrapExecution_def st_def)
  have r: "rounds env (inMemoryOps ord) cfg ex 1 (nat (ac_maxSteps cfg)) [] (bootstrapExecution env (inMemoryOps ord) ex st) = (res, st')"
    and ne: "ex_SessionID ex \<noteq> []"
    using run boot ev by (auto simp: RunExecution_def Let_def ex_def [symmetric] st_def split: if_splits option.splits) (simp_all add: ex_def)
  have k: "ex_Scope ex \<in> K" using assms(5) by (simp add: ex_def)
  from rounds_good [OF assms(2,3) k assms(4) bootstrap_good [OF assms(1,2) k ne] r [unfolded st_def]]
  obtain es where "adds es (bootstrapExecution env (inMemoryOps ord) ex st) st'" "list_all readyEvent es" by (auto simp: st_def)
  with boot ev have "workflowStage (fi_History fi) = DecisionReady" by (auto simp: adds_def list_all_iff readyEvent_def)
  then show ?thesis by (rule stage_complete)
qed

text \<open>C6: an execution ends with a decision when the model cooperates: if the model asks for the tool of its stage
  and decides when it may, the tools answer and the finalizer succeeds, five rounds are enough to complete it,
  whatever the observations say; the memory must hold four steps.\<close>

theorem cooperative_completes:
  assumes "fitsMem K T cap m" "goodEnv T env" "schedOk env" "4 \<le> cap" "cooperative env" "5 \<le> ac_maxSteps cfg"
    and "TrimSpace (ei_SessionID input) \<noteq> []" "TrimSpace (ei_ExecutionID input) \<noteq> []" "TrimSpace (ei_Task input) \<noteq> []"
    and "executionScopeID (TrimSpace (ei_SessionID input)) (TrimSpace (ei_ExecutionID input)) \<in> K"
  shows "\<exists>x. outcome env (inMemoryOps ord) cfg input w m = Inr x \<and> rs_Completed x"
  by (rule run_cooperative [OF assms])

section \<open>Witnesses\<close>

text \<open>A small agent: the model asks for the tool of its stage and decides when it may; only the evidence
  tool finds something. The world counts the calls.\<close>

definition demoAgentEnv :: "nat AgentEnv" where
  "demoAgentEnv = \<lparr>ae_now = (\<lambda>_. 0),
     ae_chat = (\<lambda>c w. (Inr (if ch_Stage c = DecisionReady
        then json_text (mapobj [(''type'', JStr ''final''), (''action'', JStr ''NO_ACTION'')])
        else json_text (mapobj [(''type'', JStr ''tool_call''), (''tool_name'', JStr (requiredToolForStage (ch_Stage c)))])), w + 1)),
     ae_registered = (\<lambda>_. True),
     ae_tool = (\<lambda>n a w. (Inr (if n = ''get_review_evidence''
        then json_text (mapobj [(''evidence'', mapobj [(''reviewId'', intJson 7), (''storeId'', intJson 3)])]) else []), w + 1)),
     ae_finalize = (\<lambda>fi w. ((fi_Decision fi, None), w + 1)),
     ae_sched = (\<lambda>_. [2, 0, 1]), ae_mapOrder = (\<lambda>_ xs. xs)\<rparr>"

definition demoAgentStore :: InMemoryStore where
  "demoAgentStore = NewInMemoryStore \<lparr>mc_MaxSessions = 1, mc_MaxRecentSteps = 8, mc_MaxSummaryChars = 50, mc_SessionTTLSeconds = 60\<rparr>"

definition demoAgentInput :: ExecutionInput where
  "demoAgentInput = \<lparr>ei_SessionID = ''s'', ei_ExecutionID = ''e'', ei_ParentExecutionID = [], ei_Task = ''t'', ei_ReviewID = 7, ei_EvidenceVersion = 1,
     ei_StoreID = 3, ei_UserID = 0, ei_SkuID = 0, ei_SpuID = 0, ei_ActivityID = [], ei_PolicyVersion = []\<rparr>"

definition demoAgentCfg :: AgentConfig where
  "demoAgentCfg = \<lparr>ac_budget = DefaultBudget, ac_maxSteps = 5, ac_hasFinalizer = True\<rparr>"

lemma demo_fits: "fitsMem {k} {0} 8 demoAgentStore" if "k \<noteq> []"
  using that New_inv [of "\<lparr>mc_MaxSessions = 1, mc_MaxRecentSteps = 8, mc_MaxSummaryChars = 50, mc_SessionTTLSeconds = 60\<rparr>"]
  by (simp add: fitsMem_def demoAgentStore_def NewInMemoryStore_def memConfigDefaults_def seconds_def wrap_int64_def)

lemma demo_env: "goodEnv {0} demoAgentEnv" "schedOk demoAgentEnv"
  by (auto simp: goodEnv_def schedOk_def demoAgentEnv_def)

lemma demo_final: "parseDecision (json_text (mapobj [(''type'', JStr ''final''), (''action'', JStr ''NO_ACTION'')])) =
    Inr (zeroDecision \<lparr> d_Type := ''final'', d_Action := ''NO_ACTION'' \<rparr>)"
  by code_simp

lemma demo_tool: "parseDecision (json_text (mapobj [(''type'', JStr ''tool_call''), (''tool_name'', JStr (requiredToolForStage stage))])) =
    Inr (zeroDecision \<lparr> d_Type := ''tool_call'', d_ToolName := requiredToolForStage stage \<rparr>)" if "stage \<noteq> DecisionReady"
  using that by (cases stage) (simp_all only: , code_simp+)

lemma demo_cooperative: "cooperative demoAgentEnv"
  by (auto simp: cooperative_def demoAgentEnv_def demo_final demo_tool zeroDecision_def)

lemma demo_scope: "executionScopeID (TrimSpace (ei_SessionID demoAgentInput)) (TrimSpace (ei_ExecutionID demoAgentInput)) = ''s:execution:e''"
  by code_simp

lemma demo_ids: "TrimSpace (ei_SessionID demoAgentInput) \<noteq> []" "TrimSpace (ei_ExecutionID demoAgentInput) \<noteq> []"
  "TrimSpace (ei_Task demoAgentInput) \<noteq> []"
  by code_simp+

lemma demo_completes:
  "\<exists>x. outcome demoAgentEnv (inMemoryOps rev) demoAgentCfg demoAgentInput 0 demoAgentStore = Inr x \<and> rs_Completed x"
  by (rule run_cooperative [OF demo_fits [of "''s:execution:e''"] demo_env _ demo_cooperative _ demo_ids])
    (simp_all add: demo_scope demoAgentCfg_def)

lemma demo_finalizes:
  "\<exists>fi r. AeFinalize fi r \<in> set (events demoAgentEnv (inMemoryOps rev) demoAgentCfg demoAgentInput 0 demoAgentStore)"
proof -
  obtain fi r where "filter isFinalize (events demoAgentEnv (inMemoryOps rev) demoAgentCfg demoAgentInput 0 demoAgentStore) = [AeFinalize fi r]"
    using demo_completes run_adds [of demoAgentEnv "inMemoryOps rev" demoAgentCfg demoAgentInput 0 demoAgentStore]
    by (auto simp: demoAgentCfg_def)
  then show ?thesis by (metis filter_eq_Cons_iff in_set_conv_decomp)
qed

lemma evidence_completes_witness:
  "\<exists>res st'. callTool demoAgentEnv (inMemoryOps rev) \<lparr>ex_SessionID = ''s'', ex_ExecutionID = ''e'', ex_Scope = ''k'', ex_Task = ''t'',
       ex_Input = demoAgentInput\<rparr> 1 [] (zeroDecision \<lparr> d_ToolName := ''get_review_evidence'' \<rparr>)
       \<lparr>ag_w = 0, ag_mem = demoAgentStore, ag_trace = []\<rparr> = (res, st') \<and>
     workflowStage (hist ''k'' (ag_mem st')) = DecisionReady"
proof -
  let ?ex = "\<lparr>ex_SessionID = ''s'', ex_ExecutionID = ''e'', ex_Scope = ''k'', ex_Task = ''t'', ex_Input = demoAgentInput\<rparr>"
  let ?st = "\<lparr>ag_w = 0, ag_mem = demoAgentStore, ag_trace = []\<rparr>"
  let ?d = "zeroDecision \<lparr> d_ToolName := ''get_review_evidence'' \<rparr>"
  let ?obs = "json_text (mapobj [(''evidence'', mapobj [(''reviewId'', intJson 7), (''storeId'', intJson 3)])])"
  obtain res st' where c: "callTool demoAgentEnv (inMemoryOps rev) ?ex 1 [] ?d ?st = (res, st')" by (metis surj_pair)
  have g: "memGood {''k''} {0} 8 ?st" using demo_fits [of "''k''"] by (simp add: memGood_def)
  have ids: "0 < pe_ReviewID (parseEvidenceForParallel ?obs)" "0 < pe_StoreID (parseEvidenceForParallel ?obs)" by code_simp+
  have "workflowStage (hist (ex_Scope ?ex) (ag_mem st')) = DecisionReady"
    by (rule evidence_completes [OF g demo_env _ _ _ _ _ ids c]) (simp_all add: demoAgentEnv_def)
  with c show ?thesis by auto
qed

lemma cooperative_completes_witness:
  "\<exists>x. outcome demoAgentEnv (inMemoryOps rev) demoAgentCfg demoAgentInput 0 demoAgentStore = Inr x \<and> rs_Completed x"
  by (rule cooperative_completes [OF demo_fits [of "''s:execution:e''"] demo_env _ demo_cooperative _ demo_ids])
    (simp_all add: demo_scope demoAgentCfg_def)

lemma final_history_complete_witness:
  "\<exists>fi r. AeFinalize fi r \<in> set (events demoAgentEnv (inMemoryOps rev) demoAgentCfg demoAgentInput 0 demoAgentStore) \<and>
     (\<exists>item \<in> set (fi_History fi). sr_Action item = ''tool_call'' \<and> sr_ToolName item = ''get_campaign_context'' \<and>
        blank (sr_Error item))"
proof -
  obtain fi r where e: "AeFinalize fi r \<in> set (events demoAgentEnv (inMemoryOps rev) demoAgentCfg demoAgentInput 0 demoAgentStore)"
    using demo_finalizes by blast
  from final_history_complete [OF demo_fits [of "''s:execution:e''"] demo_env _ _ e]
  have "\<exists>item \<in> set (fi_History fi). sr_Action item = ''tool_call'' \<and> sr_ToolName item = ''get_campaign_context'' \<and>
        blank (sr_Error item)" by (simp add: demo_scope)
  with e show ?thesis by blast
qed

lemma completed_means_finalized_witness:
  "\<exists>x fi r. outcome demoAgentEnv (inMemoryOps rev) demoAgentCfg demoAgentInput 0 demoAgentStore = Inr x \<and>
     filter isFinalize (events demoAgentEnv (inMemoryOps rev) demoAgentCfg demoAgentInput 0 demoAgentStore) = [AeFinalize fi r] \<and>
     rs_FinalAnswer x = renderFinalAnswer (fst r)"
proof -
  from demo_completes obtain x where x: "outcome demoAgentEnv (inMemoryOps rev) demoAgentCfg demoAgentInput 0 demoAgentStore = Inr x"
    "rs_Completed x" by blast
  from completed_means_finalized [OF x] x show ?thesis by (auto simp: demoAgentCfg_def)
qed

end
