(* ===== verification/Job_Types.thy ===== *)
theory Job_Types
  imports Agent_Run
begin

text \<open>
  \<open>internal/job/service.go\<close>, the data of the asynchronous jobs: the request, the stored record with its
  attempts, the configuration with its defaults, the keys in Redis, and the session a job belongs to
  (\<open>internal/agent/session_scope.go\<close>). Durations are nanoseconds, clock readings nanoseconds since the epoch.
\<close>

section \<open>Data\<close>

record JobConfig =
  jc_Enabled :: bool
  jc_KeyPrefix :: gostring
  jc_WorkerCount :: int
  jc_MaxRetries :: int
  jc_JobTTL :: int
  jc_QueueWait :: int
  jc_RunTimeout :: int
  jc_RetryBackoff :: int
  jc_MaxBatchSize :: int
  jc_GlobalConcurrency :: int
  jc_ScopeConcurrency :: int

record StreamMessage =
  sm_ID :: gostring
  sm_JobID :: gostring

record Request =
  rq_SessionID :: gostring
  rq_ExecutionID :: gostring
  rq_ParentExecutionID :: gostring
  rq_StoreID :: int
  rq_ReviewID :: int
  rq_EvidenceVersion :: int
  rq_UserID :: int
  rq_SkuID :: int
  rq_SpuID :: int
  rq_SourceEventID :: gostring
  rq_CampaignID :: gostring
  rq_ActivityID :: gostring
  rq_PolicyVersion :: gostring
  rq_Scene :: gostring
  rq_TriggerType :: gostring
  rq_Window :: gostring
  rq_Task :: gostring
  rq_MaxRetries :: "int option"

datatype Status = Pending | Running | Retrying | Succeeded | Incomplete | Failed

definition statusName :: "Status \<Rightarrow> gostring" where
  "statusName s = (case s of Pending \<Rightarrow> ''PENDING'' | Running \<Rightarrow> ''RUNNING'' | Retrying \<Rightarrow> ''RETRYING''
     | Succeeded \<Rightarrow> ''SUCCEEDED'' | Incomplete \<Rightarrow> ''INCOMPLETE'' | Failed \<Rightarrow> ''FAILED'')"

record ExecutionAttempt =
  at_Attempt :: int
  at_ExecutionID :: gostring
  at_ParentExecutionID :: gostring
  at_Status :: Status
  at_Error :: gerror
  at_StartedAt :: int
  at_FinishedAt :: "int option"

record Record =
  jr_ID :: gostring
  jr_SessionID :: gostring
  jr_ExecutionID :: gostring
  jr_ParentExecutionID :: gostring
  jr_StoreID :: int
  jr_ReviewID :: int
  jr_EvidenceVersion :: int
  jr_UserID :: int
  jr_SkuID :: int
  jr_SpuID :: int
  jr_SourceEventID :: gostring
  jr_CampaignID :: gostring
  jr_ActivityID :: gostring
  jr_PolicyVersion :: gostring
  jr_Scene :: gostring
  jr_TriggerType :: gostring
  jr_Window :: gostring
  jr_Task :: gostring
  jr_Status :: Status
  jr_Attempts :: int
  jr_MaxRetries :: int
  jr_Error :: gerror
  jr_Result :: "Result option"
  jr_Executions :: "ExecutionAttempt list"
  jr_CreatedAt :: int
  jr_UpdatedAt :: int
  jr_StartedAt :: "int option"
  jr_FinishedAt :: "int option"
  jr_Version :: int

definition isTerminal :: "Status \<Rightarrow> bool" where
  "isTerminal s = (case s of Succeeded \<Rightarrow> True | Incomplete \<Rightarrow> True | Failed \<Rightarrow> True | _ \<Rightarrow> False)"

section \<open>Configuration\<close>

definition secs :: "int \<Rightarrow> int" where
  "secs n = n * 1000000000"

text \<open>\<open>Duration.Milliseconds\<close> truncates towards zero.\<close>

definition millis :: "int \<Rightarrow> int" where
  "millis d = (if 0 \<le> d then d div 1000000 else - ((- d) div 1000000))"

definition posOr :: "int \<Rightarrow> int \<Rightarrow> int" where
  "posOr v d = (if v \<le> 0 then d else v)"

definition NewService :: "JobConfig \<Rightarrow> JobConfig" where
  "NewService cfg =
     (let workers = posOr (jc_WorkerCount cfg) 1
      in cfg \<lparr> jc_KeyPrefix := (if jc_KeyPrefix cfg = [] then ''seckill-agent:'' else jc_KeyPrefix cfg),
         jc_WorkerCount := workers,
         jc_MaxRetries := (if jc_MaxRetries cfg < 0 then 0 else jc_MaxRetries cfg),
         jc_JobTTL := posOr (jc_JobTTL cfg) (secs (24 * 3600)),
         jc_QueueWait := posOr (jc_QueueWait cfg) (secs 2),
         jc_RunTimeout := posOr (jc_RunTimeout cfg) (secs 120),
         jc_RetryBackoff := posOr (jc_RetryBackoff cfg) (secs 2),
         jc_MaxBatchSize := posOr (jc_MaxBatchSize cfg) 50,
         jc_GlobalConcurrency := posOr (jc_GlobalConcurrency cfg) workers,
         jc_ScopeConcurrency := posOr (jc_ScopeConcurrency cfg) 2 \<rparr>)"

definition groupName :: "JobConfig \<Rightarrow> gostring" where
  "groupName cfg = jc_KeyPrefix cfg @ ''agent:jobs:workers''"

definition claimTTL :: "JobConfig \<Rightarrow> int" where
  "claimTTL cfg = wrap_int64 (jc_RunTimeout cfg + secs 30)"

section \<open>Strings\<close>

fun firstNonEmpty :: "gostring list \<Rightarrow> gostring" where
  "firstNonEmpty [] = []"
| "firstNonEmpty (v # vs) = (if TrimSpace v \<noteq> [] then TrimSpace v else firstNonEmpty vs)"

definition normalizeTriggerType :: "gostring \<Rightarrow> gostring" where
  "normalizeTriggerType v =
     (if TrimSpace v \<in> {''campaign_warmup'', ''realtime_review'', ''daily_batch'', ''manual''} then TrimSpace v else ''manual'')"

definition dashed :: "gostring \<Rightarrow> gostring" where
  "dashed s = replaceChar (CHR '' '') (CHR ''-'') (replaceChar (CHR '':'') (CHR ''-'') s)"

definition sanitizeSessionPart :: "gostring \<Rightarrow> gostring" where
  "sanitizeSessionPart v = (if dashed (TrimSpace v) = [] then ''default'' else dashed (TrimSpace v))"

definition sanitizeOptionalSessionPart :: "gostring \<Rightarrow> gostring" where
  "sanitizeOptionalSessionPart v = (if TrimSpace v = [] then [] else sanitizeSessionPart (TrimSpace v))"

record SessionScope =
  sc_StoreID :: int
  sc_CampaignID :: gostring
  sc_Scene :: gostring
  sc_WindowID :: gostring

definition BuildScopedSessionID :: "SessionScope \<Rightarrow> gostring" where
  "BuildScopedSessionID sc =
     (let window = sanitizeSessionPart (sc_WindowID sc); store = ''store:'' @ show_int (sc_StoreID sc);
          campaignID = sanitizeOptionalSessionPart (sc_CampaignID sc); scene = sanitizeOptionalSessionPart (sc_Scene sc)
      in if sc_StoreID sc \<le> 0 then ''job''
         else if campaignID \<noteq> [] then Join [store, ''campaign'', campaignID, ''window'', window] '':''
         else Join [store, ''scene'', (if scene = [] then ''daily_review_coupon'' else scene), ''window'', window] '':'')"

text \<open>\<open>buildSessionID\<close>; \<open>today\<close> is the current date as \<open>time.Now().Format\<close> prints it.\<close>

definition buildSessionID :: "gostring \<Rightarrow> Request \<Rightarrow> gostring" where
  "buildSessionID today req = BuildScopedSessionID
     \<lparr>sc_StoreID = rq_StoreID req, sc_CampaignID = firstNonEmpty [rq_ActivityID req, rq_CampaignID req], sc_Scene = rq_Scene req,
      sc_WindowID = (if TrimSpace (rq_Window req) = [] then today else TrimSpace (rq_Window req))\<rparr>"

section \<open>Keys\<close>

definition queueKey :: "JobConfig \<Rightarrow> gostring" where
  "queueKey cfg = jc_KeyPrefix cfg @ ''agent:jobs:stream''"

definition jobPrefix :: "JobConfig \<Rightarrow> gostring" where
  "jobPrefix cfg = jc_KeyPrefix cfg @ ''agent:jobs:''"

definition jobKey :: "JobConfig \<Rightarrow> gostring \<Rightarrow> gostring" where
  "jobKey cfg jid = jc_KeyPrefix cfg @ ''agent:jobs:'' @ jid"

definition sourceEventKey :: "JobConfig \<Rightarrow> gostring \<Rightarrow> gostring" where
  "sourceEventKey cfg sid = jc_KeyPrefix cfg @ ''source-event:'' @ TrimSpace sid"

definition deadLetterKey :: "JobConfig \<Rightarrow> gostring" where
  "deadLetterKey cfg = jc_KeyPrefix cfg @ ''agent:jobs:dead-letter''"

definition claimKey :: "JobConfig \<Rightarrow> gostring \<Rightarrow> gostring" where
  "claimKey cfg jid = jc_KeyPrefix cfg @ ''agent:jobs:claim:'' @ jid"

definition reviewExecutionKey :: "JobConfig \<Rightarrow> Record \<Rightarrow> gostring" where
  "reviewExecutionKey cfg rec =
     jc_KeyPrefix cfg @ ''agent:jobs:review:store:'' @ show_int (jr_StoreID rec) @ '':review:'' @ show_int (jr_ReviewID rec)"

definition globalKey :: "JobConfig \<Rightarrow> gostring" where
  "globalKey cfg = jc_KeyPrefix cfg @ ''agent:jobs:semaphore:global''"

definition jobScope :: "Record \<Rightarrow> gostring" where
  "jobScope rec = (let scope = firstNonEmpty [jr_ActivityID rec, jr_CampaignID rec] in
     dashed (if scope = [] then firstNonEmpty [jr_Scene rec, ''daily_review_coupon''] else scope))"

definition scopeConcurrencyKey :: "JobConfig \<Rightarrow> Record \<Rightarrow> gostring" where
  "scopeConcurrencyKey cfg rec =
     jc_KeyPrefix cfg @ ''agent:jobs:semaphore:scope:store:'' @ show_int (jr_StoreID rec) @ '':'' @ jobScope rec"

section \<open>Records\<close>

text \<open>The last attempt, changed.\<close>

definition finishLatestExecution :: "Status \<Rightarrow> gerror \<Rightarrow> int \<Rightarrow> Record \<Rightarrow> Record" where
  "finishLatestExecution status err finished rec =
     (if jr_Executions rec = [] then rec
      else let idx = length (jr_Executions rec) - 1
           in rec \<lparr> jr_Executions := (jr_Executions rec)[idx := (jr_Executions rec ! idx)
                \<lparr> at_Status := status, at_Error := err, at_FinishedAt := Some finished \<rparr>] \<rparr>)"

end
