(* ===== verification/Job_Worker.thy ===== *)
theory Job_Worker
  imports Job_Types
begin

text \<open>
  \<open>internal/job/service.go\<close>, the methods. A method is a program that issues commands (a call of the Redis
  client, of the agent, of the clock or of the random generator) and continues with the reply, so one
  definition serves both for a run of one worker against any environment and for the interleaving of many
  workers (theory \<open>Job_System\<close>). A deferred call is a program that runs after every return of the rest.
  A value stored in Redis is either a token or event id (\<open>Text\<close>) or the JSON text of a job, which the model
  keeps as the record itself (\<open>Job\<close>): both directions use the same struct tags. The counters \<open>Version\<close> and
  \<open>Attempts\<close> start at 1 and 0 and grow by one per save or attempt, so they stay far below \<open>2^63\<close> and are kept
  as plain integers.
\<close>

section \<open>Commands and programs\<close>

datatype JobValue = Text gostring | Job Record

text \<open>The Lua scripts with their keys and arguments.\<close>

datatype Script =
    CreateJob gostring gostring gostring Record int bool gostring
  | SaveJob gostring gostring int Record int bool
  | ReleaseToken gostring gostring
  | RenewToken gostring gostring int
  | AcquireConcurrency gostring gostring gostring int int int int int
  | ReleaseConcurrency gostring gostring gostring
  | RenewConcurrency gostring gostring gostring int int

datatype EvalReply = EInt int | EPair int gostring | EOther

datatype 'a Prog =
    Ret 'a
  | GetC gostring "JobValue option result \<Rightarrow> 'a Prog"
  | SetNXC gostring gostring int "bool result \<Rightarrow> 'a Prog"
  | EvalC Script "EvalReply result \<Rightarrow> 'a Prog"
  | AckC gostring "gerror option \<Rightarrow> 'a Prog"
  | DeadC Record "gerror option \<Rightarrow> 'a Prog"
  | ReadC gostring "StreamMessage list result \<Rightarrow> 'a Prog"
  | ClaimC gostring gostring int int "(gostring \<times> StreamMessage list) result \<Rightarrow> 'a Prog"
  | GroupC "gerror option \<Rightarrow> 'a Prog"
  | NowC "int \<Rightarrow> 'a Prog"
  | NewIDC "gostring \<Rightarrow> 'a Prog"
  | TodayC "gostring \<Rightarrow> 'a Prog"
  | RunC ExecutionInput "Result result \<Rightarrow> 'a Prog"

primrec andThen :: "'a Prog \<Rightarrow> ('a \<Rightarrow> 'b Prog) \<Rightarrow> 'b Prog" where
  "andThen (Ret x) f = f x"
| "andThen (GetC key k) f = GetC key (\<lambda>r. andThen (k r) f)"
| "andThen (SetNXC key v ttl k) f = SetNXC key v ttl (\<lambda>r. andThen (k r) f)"
| "andThen (EvalC s k) f = EvalC s (\<lambda>r. andThen (k r) f)"
| "andThen (AckC m k) f = AckC m (\<lambda>r. andThen (k r) f)"
| "andThen (DeadC rec k) f = DeadC rec (\<lambda>r. andThen (k r) f)"
| "andThen (ReadC c k) f = ReadC c (\<lambda>r. andThen (k r) f)"
| "andThen (ClaimC c s d n k) f = ClaimC c s d n (\<lambda>r. andThen (k r) f)"
| "andThen (GroupC k) f = GroupC (\<lambda>r. andThen (k r) f)"
| "andThen (NowC k) f = NowC (\<lambda>r. andThen (k r) f)"
| "andThen (NewIDC k) f = NewIDC (\<lambda>r. andThen (k r) f)"
| "andThen (TodayC k) f = TodayC (\<lambda>r. andThen (k r) f)"
| "andThen (RunC input k) f = RunC input (\<lambda>r. andThen (k r) f)"

section \<open>Records in Redis\<close>

text \<open>\<open>anyInt64\<close> of a reply: the scripts return integers or the pair of \<open>createJobScript\<close>.\<close>

definition replyInt64 :: "EvalReply \<Rightarrow> int" where
  "replyInt64 r = (case r of EInt i \<Rightarrow> i | _ \<Rightarrow> 0)"

text \<open>\<open>Get\<close>: the client answers a missing key with the empty text.\<close>

definition GetJob :: "JobConfig \<Rightarrow> gostring \<Rightarrow> (Record option) result Prog" where
  "GetJob cfg jid =
     (if \<not> jc_Enabled cfg then Ret (Inl ''agent job queue is not enabled'')
      else GetC (jobKey cfg (TrimSpace jid)) (\<lambda>r. Ret (case r of
          Inl err \<Rightarrow> Inl err
        | Inr None \<Rightarrow> Inr None
        | Inr (Some (Text t)) \<Rightarrow> if t = [] then Inr None else Inl ''invalid job json''
        | Inr (Some (Job rec)) \<Rightarrow> Inr (Some rec))))"

definition sourceKeyOf :: "JobConfig \<Rightarrow> Record \<Rightarrow> gostring" where
  "sourceKeyOf cfg rec = (if jr_SourceEventID rec = [] then sourceEventKey cfg ''_unused'' else sourceEventKey cfg (jr_SourceEventID rec))"

definition createAndEnqueue :: "JobConfig \<Rightarrow> Record \<Rightarrow> (bool \<times> gostring) result Prog" where
  "createAndEnqueue cfg rec =
     EvalC (CreateJob (jobKey cfg (jr_ID rec)) (sourceKeyOf cfg rec) (queueKey cfg) rec (millis (jc_JobTTL cfg))
        (jr_SourceEventID rec \<noteq> []) (jobPrefix cfg))
       (\<lambda>r. Ret (case r of
          Inl err \<Rightarrow> Inl err
        | Inr (EPair created existing) \<Rightarrow> Inr (created = 1, existing)
        | Inr _ \<Rightarrow> Inl ''unexpected create job response''))"

text \<open>\<open>save\<close>: compare-and-set on the version. The record returned has the version the caller goes on with.\<close>

definition saveJob :: "JobConfig \<Rightarrow> Record \<Rightarrow> (gerror option \<times> Record) Prog" where
  "saveJob cfg rec =
     (let expected = jr_Version rec; next = rec \<lparr> jr_Version := expected + 1 \<rparr>
      in EvalC (SaveJob (jobKey cfg (jr_ID rec)) (sourceKeyOf cfg rec) expected next (millis (jc_JobTTL cfg))
             (jr_SourceEventID rec \<noteq> []))
           (\<lambda>r. Ret (case r of
              Inl err \<Rightarrow> (Some err, rec)
            | Inr reply \<Rightarrow> if replyInt64 reply \<noteq> 1 then (Some (''job record compare-and-set failed: job_id='' @ jr_ID rec), rec)
                else (None, next))))"

section \<open>Submit\<close>

definition newRecord :: "JobConfig \<Rightarrow> Request \<Rightarrow> gostring \<Rightarrow> gostring \<Rightarrow> gostring \<Rightarrow> int \<Rightarrow> Record" where
  "newRecord cfg req jid sessionID executionID now =
     \<lparr>jr_ID = jid, jr_SessionID = sessionID, jr_ExecutionID = executionID,
      jr_ParentExecutionID = TrimSpace (rq_ParentExecutionID req), jr_StoreID = rq_StoreID req, jr_ReviewID = rq_ReviewID req,
      jr_EvidenceVersion = rq_EvidenceVersion req, jr_UserID = rq_UserID req, jr_SkuID = rq_SkuID req, jr_SpuID = rq_SpuID req,
      jr_SourceEventID = TrimSpace (rq_SourceEventID req), jr_CampaignID = TrimSpace (rq_CampaignID req),
      jr_ActivityID = TrimSpace (rq_ActivityID req), jr_PolicyVersion = TrimSpace (rq_PolicyVersion req),
      jr_Scene = TrimSpace (rq_Scene req), jr_TriggerType = normalizeTriggerType (rq_TriggerType req),
      jr_Window = TrimSpace (rq_Window req), jr_Task = rq_Task req, jr_Status = Pending, jr_Attempts = 0,
      jr_MaxRetries = (case rq_MaxRetries req of None \<Rightarrow> jc_MaxRetries cfg | Some n \<Rightarrow> if 0 \<le> n then n else jc_MaxRetries cfg),
      jr_Error = [], jr_Result = None, jr_Executions = [], jr_CreatedAt = now, jr_UpdatedAt = now,
      jr_StartedAt = None, jr_FinishedAt = None, jr_Version = 1\<rparr>"

definition validateRequest :: "JobConfig \<Rightarrow> Request \<Rightarrow> Request result" where
  "validateRequest cfg req =
     (if \<not> jc_Enabled cfg then Inl ''agent job queue is not enabled''
      else if TrimSpace (rq_Task req) = [] then Inl ''task is required''
      else if rq_ReviewID req \<le> 0 then Inl ''review_id is required''
      else if rq_StoreID req \<le> 0 then Inl ''store_id is required''
      else if rq_EvidenceVersion req \<le> 0 then Inl ''evidence_version is required''
      else Inr (req \<lparr> rq_Task := TrimSpace (rq_Task req) \<rparr>))"

definition sessionOf :: "Request \<Rightarrow> gostring Prog" where
  "sessionOf req =
     (if TrimSpace (rq_SessionID req) \<noteq> [] then Ret (TrimSpace (rq_SessionID req))
      else TodayC (\<lambda>today. let sessionID = buildSessionID today req in
        if sessionID = ''job'' then NewIDC (\<lambda>x. Ret (''job:'' @ x)) else Ret sessionID))"

definition executionOf :: "Request \<Rightarrow> gostring Prog" where
  "executionOf req =
     (if TrimSpace (rq_ExecutionID req) \<noteq> [] then Ret (TrimSpace (rq_ExecutionID req))
      else NewIDC (\<lambda>x. Ret (''exec:'' @ x)))"

definition enqueueOrGet :: "JobConfig \<Rightarrow> Record \<Rightarrow> Record result Prog" where
  "enqueueOrGet cfg rec =
     andThen (createAndEnqueue cfg rec) (\<lambda>res. case res of
         Inl err \<Rightarrow> Ret (Inl err)
       | Inr (created, existing) \<Rightarrow>
           if created then Ret (Inr rec)
           else andThen (GetJob cfg existing) (\<lambda>got. case got of
               Inl err \<Rightarrow> Ret (Inl err)
             | Inr None \<Rightarrow> Ret (Inl (''source event points to missing job: '' @ existing))
             | Inr (Some old) \<Rightarrow> Ret (Inr old)))"

definition Submit :: "JobConfig \<Rightarrow> Request \<Rightarrow> Record result Prog" where
  "Submit cfg req0 =
     (case validateRequest cfg req0 of
        Inl err \<Rightarrow> Ret (Inl err)
      | Inr req \<Rightarrow>
          andThen (sessionOf req) (\<lambda>sessionID.
          andThen (executionOf req) (\<lambda>executionID.
          NowC (\<lambda>now. NewIDC (\<lambda>jid. enqueueOrGet cfg (newRecord cfg req jid sessionID executionID now))))))"

section \<open>Leases and slots\<close>

definition releaseToken :: "gostring \<Rightarrow> gostring \<Rightarrow> unit Prog" where
  "releaseToken key token = EvalC (ReleaseToken key token) (\<lambda>r. Ret ())"

definition renewTokenLease :: "JobConfig \<Rightarrow> gostring \<Rightarrow> gostring \<Rightarrow> bool result Prog" where
  "renewTokenLease cfg key token = EvalC (RenewToken key token (millis (claimTTL cfg)))
     (\<lambda>r. Ret (map_sum id (\<lambda>reply. replyInt64 reply = 1) r))"

definition acquireConcurrency :: "JobConfig \<Rightarrow> Record \<Rightarrow> gostring \<Rightarrow> bool result Prog" where
  "acquireConcurrency cfg rec token = NowC (\<lambda>now.
     EvalC (AcquireConcurrency (globalKey cfg) (scopeConcurrencyKey cfg rec) token (millis now) (millis (now + claimTTL cfg))
        (jc_GlobalConcurrency cfg) (jc_ScopeConcurrency cfg) (millis (claimTTL cfg)))
       (\<lambda>r. Ret (map_sum id (\<lambda>reply. replyInt64 reply = 1) r)))"

definition releaseConcurrency :: "JobConfig \<Rightarrow> Record \<Rightarrow> gostring \<Rightarrow> unit Prog" where
  "releaseConcurrency cfg rec token =
     EvalC (ReleaseConcurrency (globalKey cfg) (scopeConcurrencyKey cfg rec) token) (\<lambda>r. Ret ())"

definition renewConcurrencyLease :: "JobConfig \<Rightarrow> Record \<Rightarrow> gostring \<Rightarrow> bool result Prog" where
  "renewConcurrencyLease cfg rec token = NowC (\<lambda>now.
     EvalC (RenewConcurrency (globalKey cfg) (scopeConcurrencyKey cfg rec) token (millis (now + claimTTL cfg)) (millis (claimTTL cfg)))
       (\<lambda>r. Ret (map_sum id (\<lambda>reply. replyInt64 reply = 1) r)))"

text \<open>One tick of \<open>startLeaseRenewal\<close>: the claim, the review, the slot; \<open>False\<close> cancels the execution.\<close>

definition renewTick :: "JobConfig \<Rightarrow> gostring \<Rightarrow> Record \<Rightarrow> gostring \<Rightarrow> gostring \<Rightarrow> gostring \<Rightarrow> bool Prog" where
  "renewTick cfg jid rec claimToken reviewToken limitToken =
     andThen (renewTokenLease cfg (claimKey cfg jid) claimToken) (\<lambda>r1. if r1 \<noteq> Inr True then Ret False
     else andThen (renewTokenLease cfg (reviewExecutionKey cfg rec) reviewToken) (\<lambda>r2. if r2 \<noteq> Inr True then Ret False
     else andThen (renewConcurrencyLease cfg rec limitToken) (\<lambda>r3. Ret (r3 = Inr True))))"

definition renewInterval :: "JobConfig \<Rightarrow> int" where
  "renewInterval cfg = (let interval = claimTTL cfg div 3 in if interval < secs 1 then secs 1 else interval)"

section \<open>Processing a message\<close>

definition crashMessage :: gerror where
  "crashMessage = ''worker lease expired before completion''"

text \<open>A record found RUNNING under a fresh claim: the worker that ran it is gone.\<close>

definition crashedRecord :: "int \<Rightarrow> gostring \<Rightarrow> Record \<Rightarrow> Record" where
  "crashedRecord failedAt x rec = (finishLatestExecution Failed crashMessage failedAt rec)
     \<lparr> jr_ParentExecutionID := jr_ExecutionID rec, jr_ExecutionID := ''exec:'' @ x, jr_Status := Retrying, jr_Error := crashMessage \<rparr>"

definition startedRecord :: "int \<Rightarrow> Record \<Rightarrow> Record" where
  "startedRecord now rec = rec \<lparr> jr_Status := Running, jr_Attempts := jr_Attempts rec + 1, jr_UpdatedAt := now,
     jr_StartedAt := Some now, jr_Error := [],
     jr_Executions := jr_Executions rec @ [\<lparr>at_Attempt = jr_Attempts rec + 1, at_ExecutionID = jr_ExecutionID rec,
       at_ParentExecutionID = jr_ParentExecutionID rec, at_Status = Running, at_Error = [], at_StartedAt = now, at_FinishedAt = None\<rparr>] \<rparr>"

definition completedRecord :: "Result \<Rightarrow> int \<Rightarrow> Record \<Rightarrow> Record" where
  "completedRecord result finished rec =
     (let status = (if rs_Completed result then Succeeded else Incomplete)
      in finishLatestExecution status [] finished
           (rec \<lparr> jr_Status := status, jr_Result := Some result, jr_UpdatedAt := finished, jr_FinishedAt := Some finished \<rparr>))"

definition failedAttempt :: "gerror \<Rightarrow> int \<Rightarrow> Record \<Rightarrow> Record" where
  "failedAttempt err failedAt rec = finishLatestExecution Failed err failedAt (rec \<lparr> jr_Error := err \<rparr>)"

definition retryRecord :: "gostring \<Rightarrow> int \<Rightarrow> Record \<Rightarrow> Record" where
  "retryRecord x now rec = rec \<lparr> jr_ParentExecutionID := jr_ExecutionID rec, jr_ExecutionID := ''exec:'' @ x,
     jr_Status := Retrying, jr_UpdatedAt := now \<rparr>"

definition failedRecord :: "int \<Rightarrow> Record \<Rightarrow> Record" where
  "failedRecord finished rec = rec \<lparr> jr_Status := Failed, jr_UpdatedAt := finished, jr_FinishedAt := Some finished \<rparr>"

definition executionInput :: "Record \<Rightarrow> ExecutionInput" where
  "executionInput rec = \<lparr>ei_SessionID = jr_SessionID rec, ei_ExecutionID = jr_ExecutionID rec,
     ei_ParentExecutionID = jr_ParentExecutionID rec, ei_Task = jr_Task rec, ei_ReviewID = jr_ReviewID rec,
     ei_EvidenceVersion = jr_EvidenceVersion rec, ei_StoreID = jr_StoreID rec, ei_UserID = jr_UserID rec,
     ei_SkuID = jr_SkuID rec, ei_SpuID = jr_SpuID rec, ei_ActivityID = firstNonEmpty [jr_ActivityID rec, jr_CampaignID rec],
     ei_PolicyVersion = jr_PolicyVersion rec\<rparr>"

text \<open>What follows the execution; \<open>fin\<close> are the deferred releases.\<close>

definition finishJob :: "JobConfig \<Rightarrow> StreamMessage \<Rightarrow> Record \<Rightarrow> Result result \<Rightarrow> unit Prog \<Rightarrow> unit Prog" where
  "finishJob cfg message rec res fin = (case res of
       Inr result \<Rightarrow> NowC (\<lambda>finished.
         andThen (saveJob cfg (completedRecord result finished rec)) (\<lambda>(err, rec').
           if err \<noteq> None then fin else AckC (sm_ID message) (\<lambda>_. fin)))
     | Inl err \<Rightarrow> NowC (\<lambda>failedAt. let rec1 = failedAttempt err failedAt rec in
         if jr_Attempts rec1 \<le> jr_MaxRetries rec1
         then NewIDC (\<lambda>x. NowC (\<lambda>now. andThen (saveJob cfg (retryRecord x now rec1)) (\<lambda>_. fin)))
         else NowC (\<lambda>finished. andThen (saveJob cfg (failedRecord finished rec1)) (\<lambda>(err, rec').
           if err \<noteq> None then fin else DeadC rec' (\<lambda>_. AckC (sm_ID message) (\<lambda>_. fin))))))"

definition runJob :: "JobConfig \<Rightarrow> StreamMessage \<Rightarrow> Record \<Rightarrow> unit Prog \<Rightarrow> unit Prog" where
  "runJob cfg message rec fin = NowC (\<lambda>now.
     andThen (saveJob cfg (startedRecord now rec)) (\<lambda>(err, rec').
       if err \<noteq> None then fin
       else RunC (executionInput rec') (\<lambda>res. finishJob cfg message rec' res fin)))"

definition withSlot :: "JobConfig \<Rightarrow> StreamMessage \<Rightarrow> Record \<Rightarrow> unit Prog \<Rightarrow> unit Prog" where
  "withSlot cfg message rec fin = NewIDC (\<lambda>limitToken.
     andThen (acquireConcurrency cfg rec limitToken) (\<lambda>allowed.
       if allowed \<noteq> Inr True then fin
       else runJob cfg message rec (andThen (releaseConcurrency cfg rec limitToken) (\<lambda>_. fin))))"

definition withReview :: "JobConfig \<Rightarrow> StreamMessage \<Rightarrow> Record \<Rightarrow> unit Prog \<Rightarrow> unit Prog" where
  "withReview cfg message rec fin = NewIDC (\<lambda>reviewToken.
     SetNXC (reviewExecutionKey cfg rec) reviewToken (claimTTL cfg) (\<lambda>claimed.
       if claimed \<noteq> Inr True then fin
       else withSlot cfg message rec (andThen (releaseToken (reviewExecutionKey cfg rec) reviewToken) (\<lambda>_. fin))))"

text \<open>The record as the attempt starts from it: after its backoff, or taken over from a crashed worker.\<close>

definition resume :: "JobConfig \<Rightarrow> Record \<Rightarrow> unit Prog \<Rightarrow> (Record \<Rightarrow> unit Prog) \<Rightarrow> unit Prog" where
  "resume cfg rec fin k =
     (if jr_Status rec = Retrying
      then NowC (\<lambda>now. if now < jr_UpdatedAt rec + jc_RetryBackoff cfg then fin else k rec)
      else if jr_Status rec = Running
      then NowC (\<lambda>failedAt. NewIDC (\<lambda>x. k (crashedRecord failedAt x rec)))
      else k rec)"

definition processClaimed :: "JobConfig \<Rightarrow> StreamMessage \<Rightarrow> gostring \<Rightarrow> unit Prog \<Rightarrow> unit Prog" where
  "processClaimed cfg message jid fin =
     andThen (GetJob cfg jid) (\<lambda>got. case got of
         Inl err \<Rightarrow> fin
       | Inr None \<Rightarrow> AckC (sm_ID message) (\<lambda>_. fin)
       | Inr (Some rec) \<Rightarrow>
           if isTerminal (jr_Status rec) then AckC (sm_ID message) (\<lambda>_. fin)
           else resume cfg rec fin (\<lambda>rec'. withReview cfg message rec' fin))"

definition processMessage :: "JobConfig \<Rightarrow> StreamMessage \<Rightarrow> unit Prog" where
  "processMessage cfg message =
     (let jid = TrimSpace (sm_JobID message) in
      if jid = [] then AckC (sm_ID message) (\<lambda>_. Ret ())
      else NewIDC (\<lambda>claimToken. SetNXC (claimKey cfg jid) claimToken (claimTTL cfg) (\<lambda>claimed.
        if claimed \<noteq> Inr True then Ret ()
        else processClaimed cfg message jid (releaseToken (claimKey cfg jid) claimToken))))"

section \<open>Workers and recovery\<close>

text \<open>One turn of the loop of a worker.\<close>

definition workerTurn :: "JobConfig \<Rightarrow> gostring \<Rightarrow> unit Prog" where
  "workerTurn cfg consumer = ReadC consumer (\<lambda>r. case r of
       Inl err \<Rightarrow> Ret ()
     | Inr [] \<Rightarrow> Ret ()
     | Inr (message # _) \<Rightarrow> processMessage cfg message)"

definition recoverMessage :: "JobConfig \<Rightarrow> int \<Rightarrow> StreamMessage \<Rightarrow> unit Prog" where
  "recoverMessage cfg now message =
     (if TrimSpace (sm_JobID message) = [] then AckC (sm_ID message) (\<lambda>_. Ret ())
      else andThen (GetJob cfg (sm_JobID message)) (\<lambda>got. case got of
          Inl err \<Rightarrow> Ret ()
        | Inr None \<Rightarrow> AckC (sm_ID message) (\<lambda>_. Ret ())
        | Inr (Some rec) \<Rightarrow>
            if isTerminal (jr_Status rec) then AckC (sm_ID message) (\<lambda>_. Ret ())
            else if jr_Status rec = Running \<and> now < jr_UpdatedAt rec + claimTTL cfg then Ret ()
            else processMessage cfg message))"

primrec recoverMessages :: "JobConfig \<Rightarrow> int \<Rightarrow> StreamMessage list \<Rightarrow> unit Prog" where
  "recoverMessages cfg now [] = Ret ()"
| "recoverMessages cfg now (m # ms) = andThen (recoverMessage cfg now m) (\<lambda>_. recoverMessages cfg now ms)"

definition recoverProcessingOnce :: "JobConfig \<Rightarrow> gostring \<Rightarrow> gostring \<Rightarrow> gostring Prog" where
  "recoverProcessingOnce cfg consumer start =
     ClaimC consumer start (jc_RetryBackoff cfg) (jc_MaxBatchSize cfg) (\<lambda>r. case r of
         Inl err \<Rightarrow> Ret start
       | Inr (next, messages) \<Rightarrow> NowC (\<lambda>now. andThen (recoverMessages cfg now messages) (\<lambda>_. Ret next)))"

text \<open>\<open>Start\<close>: the number of workers it starts, besides the recovery.\<close>

definition StartJobs :: "JobConfig \<Rightarrow> int option Prog" where
  "StartJobs cfg = (if \<not> jc_Enabled cfg then Ret None
     else GroupC (\<lambda>r. case r of
         None \<Rightarrow> Ret (Some (jc_WorkerCount cfg))
       | Some err \<Rightarrow> if Contains (ToUpper err) ''BUSYGROUP'' then Ret (Some (jc_WorkerCount cfg)) else Ret None))"

end
