(* ===== verification/Job_Redis.thy ===== *)
theory Job_Redis
  imports Job_Worker "HOL-Library.AList"
begin

text \<open>
  The Lua scripts of \<open>internal/job/service.go\<close>, over the commands of Redis. Redis is not part of the program:
  its commands are the record \<open>Redis\<close> of parameters, and what the scripts rely on are the laws of the locale
  \<open>redis\<close> (the documented effect of each command on the strings, the sorted sets and the streams, and that
  nothing but an expiry changes a key in between). The content of a stream is \<open>rd_queue\<close>: the job ids of its
  entries, oldest first. A small keyspace that satisfies the laws shows that they can hold.
\<close>

section \<open>Commands\<close>

record 'r Redis =
  rd_get :: "gostring \<Rightarrow> 'r \<Rightarrow> JobValue option"
  rd_exists :: "gostring \<Rightarrow> 'r \<Rightarrow> bool"
  rd_set :: "gostring \<Rightarrow> JobValue \<Rightarrow> int \<Rightarrow> 'r \<Rightarrow> 'r"
  rd_del :: "gostring \<Rightarrow> 'r \<Rightarrow> 'r"
  rd_pexpire :: "gostring \<Rightarrow> int \<Rightarrow> 'r \<Rightarrow> int \<times> 'r"
  rd_zscore :: "gostring \<Rightarrow> gostring \<Rightarrow> 'r \<Rightarrow> int option"
  rd_zcard :: "gostring \<Rightarrow> 'r \<Rightarrow> int"
  rd_zadd :: "gostring \<Rightarrow> int \<Rightarrow> gostring \<Rightarrow> 'r \<Rightarrow> 'r"
  rd_zrem :: "gostring \<Rightarrow> gostring \<Rightarrow> 'r \<Rightarrow> 'r"
  rd_zremUpTo :: "gostring \<Rightarrow> int \<Rightarrow> 'r \<Rightarrow> 'r"
  rd_xadd :: "gostring \<Rightarrow> gostring \<Rightarrow> 'r \<Rightarrow> 'r"
  rd_queue :: "gostring \<Rightarrow> 'r \<Rightarrow> gostring list"
  rd_tick :: "int \<Rightarrow> 'r \<Rightarrow> 'r"

section \<open>Scripts\<close>

definition createJobScript :: "'r Redis \<Rightarrow> gostring \<Rightarrow> gostring \<Rightarrow> gostring \<Rightarrow> Record \<Rightarrow> int \<Rightarrow> bool \<Rightarrow> gostring \<Rightarrow> 'r \<Rightarrow> EvalReply \<times> 'r" where
  "createJobScript R key source queue rec ttl useSource pre r =
     (let create = (\<lambda>r. let r1 = rd_set R key (Job rec) ttl r;
              r2 = (if useSource then rd_set R source (Text (jr_ID rec)) ttl r1 else r1)
            in (EPair 1 (jr_ID rec), rd_xadd R queue (jr_ID rec) r2))
      in if rd_exists R key r then (EPair 0 (jr_ID rec), r)
         else if useSource then
           (case rd_get R source r of
              Some (Text existing) \<Rightarrow>
                if rd_exists R (pre @ existing) r then (EPair 0 existing, r) else create (rd_del R source r)
            | _ \<Rightarrow> create r)
         else create r)"

definition saveJobScript :: "'r Redis \<Rightarrow> gostring \<Rightarrow> gostring \<Rightarrow> int \<Rightarrow> Record \<Rightarrow> int \<Rightarrow> bool \<Rightarrow> 'r \<Rightarrow> EvalReply \<times> 'r" where
  "saveJobScript R key source expected rec ttl useSource r =
     (case rd_get R key r of
        None \<Rightarrow> (EInt (-2), r)
      | Some (Text t) \<Rightarrow> (EInt (-3), r)
      | Some (Job current) \<Rightarrow>
          if jr_Version current \<noteq> expected then (EInt 0, r)
          else (let r1 = rd_set R key (Job rec) ttl r
                in (EInt 1,
                    if useSource \<and> (rd_get R source r1 = None \<or> rd_get R source r1 = Some (Text (jr_ID rec)))
                    then rd_set R source (Text (jr_ID rec)) ttl r1 else r1)))"

definition releaseTokenScript :: "'r Redis \<Rightarrow> gostring \<Rightarrow> gostring \<Rightarrow> 'r \<Rightarrow> EvalReply \<times> 'r" where
  "releaseTokenScript R key token r =
     (if rd_get R key r = Some (Text token) then (EInt 1, rd_del R key r) else (EInt 0, r))"

definition renewTokenLeaseScript :: "'r Redis \<Rightarrow> gostring \<Rightarrow> gostring \<Rightarrow> int \<Rightarrow> 'r \<Rightarrow> EvalReply \<times> 'r" where
  "renewTokenLeaseScript R key token ttl r =
     (if rd_get R key r = Some (Text token) then (let (n, r1) = rd_pexpire R key ttl r in (EInt n, r1)) else (EInt 0, r))"

definition acquireConcurrencyScript ::
  "'r Redis \<Rightarrow> gostring \<Rightarrow> gostring \<Rightarrow> gostring \<Rightarrow> int \<Rightarrow> int \<Rightarrow> int \<Rightarrow> int \<Rightarrow> int \<Rightarrow> 'r \<Rightarrow> EvalReply \<times> 'r" where
  "acquireConcurrencyScript R global scope token now expires globalMax scopeMax ttl r =
     (let r1 = rd_zremUpTo R scope now (rd_zremUpTo R global now r)
      in if globalMax \<le> rd_zcard R global r1 then (EInt 0, r1)
         else if scopeMax \<le> rd_zcard R scope r1 then (EInt 0, r1)
         else (let r2 = rd_zadd R scope expires token (rd_zadd R global expires token r1);
                   r3 = snd (rd_pexpire R global ttl r2); r4 = snd (rd_pexpire R scope ttl r3)
               in (EInt 1, r4)))"

definition releaseConcurrencyScript :: "'r Redis \<Rightarrow> gostring \<Rightarrow> gostring \<Rightarrow> gostring \<Rightarrow> 'r \<Rightarrow> EvalReply \<times> 'r" where
  "releaseConcurrencyScript R global scope token r = (EInt 1, rd_zrem R scope token (rd_zrem R global token r))"

definition renewConcurrencyLeaseScript ::
  "'r Redis \<Rightarrow> gostring \<Rightarrow> gostring \<Rightarrow> gostring \<Rightarrow> int \<Rightarrow> int \<Rightarrow> 'r \<Rightarrow> EvalReply \<times> 'r" where
  "renewConcurrencyLeaseScript R global scope token expires ttl r =
     (if rd_zscore R global token r = None then (EInt 0, r)
      else (let r1 = rd_zadd R scope expires token (rd_zadd R global expires token r);
                r2 = snd (rd_pexpire R global ttl r1); r3 = snd (rd_pexpire R scope ttl r2)
            in (EInt 1, r3)))"

definition runScript :: "'r Redis \<Rightarrow> Script \<Rightarrow> 'r \<Rightarrow> EvalReply \<times> 'r" where
  "runScript R s r = (case s of
       CreateJob key source queue rec ttl useSource pre \<Rightarrow> createJobScript R key source queue rec ttl useSource pre r
     | SaveJob key source expected rec ttl useSource \<Rightarrow> saveJobScript R key source expected rec ttl useSource r
     | ReleaseToken key token \<Rightarrow> releaseTokenScript R key token r
     | RenewToken key token ttl \<Rightarrow> renewTokenLeaseScript R key token ttl r
     | AcquireConcurrency global scope token now expires gmax smax ttl \<Rightarrow>
         acquireConcurrencyScript R global scope token now expires gmax smax ttl r
     | ReleaseConcurrency global scope token \<Rightarrow> releaseConcurrencyScript R global scope token r
     | RenewConcurrency global scope token expires ttl \<Rightarrow> renewConcurrencyLeaseScript R global scope token expires ttl r)"

text \<open>\<open>SetNX\<close> of the client.\<close>

definition setNX :: "'r Redis \<Rightarrow> gostring \<Rightarrow> gostring \<Rightarrow> int \<Rightarrow> 'r \<Rightarrow> bool \<times> 'r" where
  "setNX R key v ttl r = (if rd_exists R key r then (False, r) else (True, rd_set R key (Text v) ttl r))"

section \<open>Laws\<close>

text \<open>The score of each member is all that is seen of a sorted set. A key that is neither a string nor a sorted set
  holds a stream or nothing; only there \<open>XADD\<close> appends an entry.\<close>

definition streamAt :: "'r Redis \<Rightarrow> gostring \<Rightarrow> 'r \<Rightarrow> bool" where
  "streamAt R k r \<longleftrightarrow> rd_get R k r = None \<and> (\<forall>m. rd_zscore R k m r = None)"

locale redis =
  fixes R :: "'r Redis"
  assumes get_set: "0 < ttl \<Longrightarrow> rd_get R k' (rd_set R k v ttl r) = (if k' = k then Some v else rd_get R k' r)"
    and get_del: "rd_get R k' (rd_del R k r) = (if k' = k then None else rd_get R k' r)"
    and get_exists: "rd_get R k r \<noteq> None \<Longrightarrow> rd_exists R k r"
    and get_pexpire: "0 < ttl \<Longrightarrow> rd_get R k' (snd (rd_pexpire R k ttl r)) = rd_get R k' r"
    and pexpire_reply: "0 < ttl \<Longrightarrow> fst (rd_pexpire R k ttl r) = (if rd_exists R k r then 1 else 0)"
    and get_zadd: "rd_get R k' (rd_zadd R k e m r) = rd_get R k' r"
    and get_zrem: "rd_get R k' (rd_zrem R k m r) = rd_get R k' r"
    and get_zremUpTo: "rd_get R k' (rd_zremUpTo R k e r) = rd_get R k' r"
    and get_xadd: "rd_get R k' (rd_xadd R k jid r) = rd_get R k' r"
    and get_tick: "rd_get R k (rd_tick R d r) \<in> {rd_get R k r, None}"
    and zscore_set: "k' \<noteq> k \<Longrightarrow> rd_zscore R k' m (rd_set R k v ttl r) = rd_zscore R k' m r"
    and zscore_del: "k' \<noteq> k \<Longrightarrow> rd_zscore R k' m (rd_del R k r) = rd_zscore R k' m r"
    and zscore_pexpire: "0 < ttl \<Longrightarrow> rd_zscore R k' m (snd (rd_pexpire R k ttl r)) = rd_zscore R k' m r"
    and zscore_zadd: "rd_get R k r = None \<Longrightarrow>
      rd_zscore R k' m' (rd_zadd R k e m r) = (if k' = k \<and> m' = m then Some e else rd_zscore R k' m' r)"
    and zscore_zrem: "rd_zscore R k' m' (rd_zrem R k m r) = (if k' = k \<and> m' = m then None else rd_zscore R k' m' r)"
    and zscore_zremUpTo: "rd_zscore R k' m (rd_zremUpTo R k e r) =
      (case rd_zscore R k' m r of Some e' \<Rightarrow> if k' = k \<and> e' \<le> e then None else Some e' | None \<Rightarrow> None)"
    and zscore_xadd: "rd_zscore R k' m (rd_xadd R k jid r) = rd_zscore R k' m r"
    and zscore_tick: "(\<forall>m. rd_zscore R k m (rd_tick R d r) = rd_zscore R k m r) \<or> (\<forall>m. rd_zscore R k m (rd_tick R d r) = None)"
    and zset_finite: "finite {m. rd_zscore R k m r \<noteq> None}"
    and zcard: "rd_zcard R k r = int (card {m. rd_zscore R k m r \<noteq> None})"
    and queue_xadd: "streamAt R k r \<Longrightarrow> rd_queue R k' (rd_xadd R k jid r) = (if k' = k then rd_queue R k r @ [jid] else rd_queue R k' r)"
    and queue_set: "k' \<noteq> k \<Longrightarrow> rd_queue R k' (rd_set R k v ttl r) = rd_queue R k' r"
    and queue_del: "k' \<noteq> k \<Longrightarrow> rd_queue R k' (rd_del R k r) = rd_queue R k' r"
    and queue_pexpire: "0 < ttl \<Longrightarrow> rd_queue R k' (snd (rd_pexpire R k ttl r)) = rd_queue R k' r"
    and queue_zset: "rd_queue R k' (rd_zadd R k e m r) = rd_queue R k' r" "rd_queue R k' (rd_zrem R k m r) = rd_queue R k' r"
      "rd_queue R k' (rd_zremUpTo R k e r) = rd_queue R k' r"

section \<open>A keyspace\<close>

text \<open>Each key holds a string or a sorted set with an optional deadline, the clock is part of the state.\<close>

datatype Entry = EStr JobValue | EZSet "(gostring \<times> int) list"

record Keyspace =
  ks_now :: int
  ks_entries :: "gostring \<Rightarrow> (Entry \<times> int option) option"
  ks_queues :: "(gostring \<times> gostring) list"

definition ksStr :: "gostring \<Rightarrow> Keyspace \<Rightarrow> JobValue option" where
  "ksStr k s = (case ks_entries s k of Some (EStr v, d) \<Rightarrow> Some v | _ \<Rightarrow> None)"

definition ksZSet :: "gostring \<Rightarrow> Keyspace \<Rightarrow> (gostring \<times> int) list" where
  "ksZSet k s = (case ks_entries s k of Some (EZSet z, d) \<Rightarrow> z | _ \<Rightarrow> [])"

definition ksPut :: "gostring \<Rightarrow> Entry \<Rightarrow> int option \<Rightarrow> Keyspace \<Rightarrow> Keyspace" where
  "ksPut k e d s = s \<lparr> ks_entries := (ks_entries s)(k \<mapsto> (e, d)) \<rparr>"

definition ksZ :: "gostring \<Rightarrow> ((gostring \<times> int) list \<Rightarrow> (gostring \<times> int) list) \<Rightarrow> Keyspace \<Rightarrow> Keyspace" where
  "ksZ k f s = (case ks_entries s k of
       None \<Rightarrow> ksPut k (EZSet (f [])) None s
     | Some (EStr v, d) \<Rightarrow> s
     | Some (EZSet z, d) \<Rightarrow> ksPut k (EZSet (f z)) d s)"

definition ksTick :: "int \<Rightarrow> Keyspace \<Rightarrow> Keyspace" where
  "ksTick d s = s \<lparr> ks_now := ks_now s + d,
     ks_entries := (\<lambda>k. case ks_entries s k of
         Some (e, Some t) \<Rightarrow> if t \<le> ks_now s + d then None else Some (e, Some t)
       | other \<Rightarrow> other) \<rparr>"

definition keyspace :: "Keyspace Redis" where
  "keyspace = \<lparr>rd_get = ksStr, rd_exists = (\<lambda>k s. ks_entries s k \<noteq> None),
     rd_set = (\<lambda>k v ttl s. ksPut k (EStr v) (Some (ks_now s + ttl)) s),
     rd_del = (\<lambda>k s. s \<lparr> ks_entries := (ks_entries s)(k := None) \<rparr>),
     rd_pexpire = (\<lambda>k ttl s. case ks_entries s k of None \<Rightarrow> (0, s) | Some (e, d) \<Rightarrow> (1, ksPut k e (Some (ks_now s + ttl)) s)),
     rd_zscore = (\<lambda>k m s. map_of (ksZSet k s) m),
     rd_zcard = (\<lambda>k s. int (length (remdups (map fst (ksZSet k s))))),
     rd_zadd = (\<lambda>k e m. ksZ k (AList.update m e)), rd_zrem = (\<lambda>k m. ksZ k (AList.delete m)),
     rd_zremUpTo = (\<lambda>k e. ksZ k (\<lambda>z. filter (\<lambda>(m, e'). \<not> e' \<le> e) (AList.clearjunk z))),
     rd_xadd = (\<lambda>k v s. s \<lparr> ks_queues := ks_queues s @ [(k, v)] \<rparr>),
     rd_queue = (\<lambda>k s. map snd (filter (\<lambda>(k', v). k' = k) (ks_queues s))),
     rd_tick = ksTick\<rparr>"

lemma ksZ_str: "ksStr k' (ksZ k f s) = ksStr k' s"
  by (auto simp: ksZ_def ksStr_def ksPut_def split: option.splits Entry.splits)

lemma ksZ_set: "ksStr k s = None \<Longrightarrow> ksZSet k' (ksZ k f s) = (if k' = k then f (ksZSet k s) else ksZSet k' s)"
  by (auto simp: ksZ_def ksZSet_def ksStr_def ksPut_def split: option.splits Entry.splits)

lemma ksZ_keeps: "f [] = [] \<Longrightarrow> ksZSet k' (ksZ k f s) = (if k' = k then f (ksZSet k s) else ksZSet k' s)"
  by (auto simp: ksZ_def ksZSet_def ksPut_def split: option.splits Entry.splits)

lemma ksZ_queues: "ks_queues (ksZ k f s) = ks_queues s"
  by (simp add: ksZ_def ksPut_def split: option.split Entry.split)

lemma map_of_filter_upTo:
  "map_of (filter (\<lambda>(m, e'). \<not> e' \<le> (e :: int)) (AList.clearjunk z)) m =
     (case map_of z m of Some e' \<Rightarrow> if e' \<le> e then None else Some e' | None \<Rightarrow> None)"
proof -
  have "distinct (map fst xs) \<Longrightarrow> map_of (filter (\<lambda>(m, e'). \<not> e' \<le> e) xs) m =
     (case map_of xs m of Some e' \<Rightarrow> if e' \<le> e then None else Some e' | None \<Rightarrow> None)" for xs :: "('a \<times> int) list"
    by (induction xs) (auto simp: map_of_eq_None_iff image_iff split: option.splits)
  then show ?thesis by (metis map_of_clearjunk distinct_clearjunk)
qed

interpretation keyspace: redis keyspace
proof unfold_locales
  fix k k' m m' r d e v ttl
  show "0 < ttl \<Longrightarrow> rd_get keyspace k' (rd_set keyspace k v ttl r) = (if k' = k then Some v else rd_get keyspace k' r)"
    by (simp add: keyspace_def ksStr_def ksPut_def)
  show "rd_get keyspace k' (rd_del keyspace k r) = (if k' = k then None else rd_get keyspace k' r)"
    by (simp add: keyspace_def ksStr_def)
  show "rd_get keyspace k r \<noteq> None \<Longrightarrow> rd_exists keyspace k r"
    by (auto simp: keyspace_def ksStr_def split: option.splits)
  show "0 < ttl \<Longrightarrow> rd_get keyspace k' (snd (rd_pexpire keyspace k ttl r)) = rd_get keyspace k' r"
    by (auto simp: keyspace_def ksStr_def ksPut_def split: option.splits)
  show "0 < ttl \<Longrightarrow> fst (rd_pexpire keyspace k ttl r) = (if rd_exists keyspace k r then 1 else 0)"
    by (auto simp: keyspace_def split: option.splits)
  show "rd_get keyspace k' (rd_zadd keyspace k e m r) = rd_get keyspace k' r"
    "rd_get keyspace k' (rd_zrem keyspace k m r) = rd_get keyspace k' r"
    "rd_get keyspace k' (rd_zremUpTo keyspace k e r) = rd_get keyspace k' r"
    by (simp_all add: keyspace_def ksZ_str)
  show "rd_get keyspace k' (rd_xadd keyspace k m r) = rd_get keyspace k' r"
    by (simp add: keyspace_def ksStr_def)
  show "rd_get keyspace k (rd_tick keyspace d r) \<in> {rd_get keyspace k r, None}"
    by (auto simp: keyspace_def ksStr_def ksTick_def split: option.splits)
  show "k' \<noteq> k \<Longrightarrow> rd_zscore keyspace k' m (rd_set keyspace k v ttl r) = rd_zscore keyspace k' m r"
    "k' \<noteq> k \<Longrightarrow> rd_zscore keyspace k' m (rd_del keyspace k r) = rd_zscore keyspace k' m r"
    by (simp_all add: keyspace_def ksZSet_def ksPut_def)
  show "0 < ttl \<Longrightarrow> rd_zscore keyspace k' m (snd (rd_pexpire keyspace k ttl r)) = rd_zscore keyspace k' m r"
    by (auto simp: keyspace_def ksZSet_def ksPut_def split: option.splits)
  show "rd_get keyspace k r = None \<Longrightarrow>
      rd_zscore keyspace k' m' (rd_zadd keyspace k e m r) = (if k' = k \<and> m' = m then Some e else rd_zscore keyspace k' m' r)"
    by (auto simp: keyspace_def ksZ_set AList.update_conv)
  show "rd_zscore keyspace k' m' (rd_zrem keyspace k m r) = (if k' = k \<and> m' = m then None else rd_zscore keyspace k' m' r)"
    by (simp add: keyspace_def ksZ_keeps AList.delete_conv)
  show "rd_zscore keyspace k' m (rd_zremUpTo keyspace k e r) =
      (case rd_zscore keyspace k' m r of Some e' \<Rightarrow> if k' = k \<and> e' \<le> e then None else Some e' | None \<Rightarrow> None)"
    by (simp add: keyspace_def ksZ_keeps map_of_filter_upTo split: option.split)
  show "rd_zscore keyspace k' m (rd_xadd keyspace k m' r) = rd_zscore keyspace k' m r"
    by (simp add: keyspace_def ksZSet_def)
  show "(\<forall>m. rd_zscore keyspace k m (rd_tick keyspace d r) = rd_zscore keyspace k m r) \<or>
      (\<forall>m. rd_zscore keyspace k m (rd_tick keyspace d r) = None)"
    by (auto simp: keyspace_def ksZSet_def ksTick_def split: option.splits)
  have dom: "{m. map_of z m \<noteq> None} = set (map fst z)" for z :: "(gostring \<times> int) list"
    by (auto simp: map_of_eq_None_iff)
  show "finite {m. rd_zscore keyspace k m r \<noteq> None}"
    by (simp add: keyspace_def dom [unfolded not_None_eq])
  show "rd_zcard keyspace k r = int (card {m. rd_zscore keyspace k m r \<noteq> None})"
    by (simp add: keyspace_def dom [unfolded not_None_eq] length_remdups_card_conv)
  show "rd_queue keyspace k' (rd_xadd keyspace k m r) = (if k' = k then rd_queue keyspace k r @ [m] else rd_queue keyspace k' r)"
    by (simp add: keyspace_def)
  show "rd_queue keyspace k' (rd_set keyspace k v ttl r) = rd_queue keyspace k' r"
    "rd_queue keyspace k' (rd_del keyspace k r) = rd_queue keyspace k' r"
    by (simp_all add: keyspace_def ksPut_def)
  show "rd_queue keyspace k' (snd (rd_pexpire keyspace k ttl r)) = rd_queue keyspace k' r"
    by (simp add: keyspace_def ksPut_def split: option.split)
  show "rd_queue keyspace k' (rd_zadd keyspace k e m r) = rd_queue keyspace k' r"
    "rd_queue keyspace k' (rd_zrem keyspace k m r) = rd_queue keyspace k' r"
    "rd_queue keyspace k' (rd_zremUpTo keyspace k e r) = rd_queue keyspace k' r"
    by (simp_all add: keyspace_def ksZ_queues)
qed

end
