(* ===== verification/Job_System.thy ===== *)
theory Job_System
  imports Job_Redis
begin

text \<open>
  Many workers, the recovery, lease renewals and submitters at once. The state is Redis, the ids handed out so
  far, the messages of the stream with those acknowledged, and the programs under way; a step is one command
  of one program, the loss of a program (a crash), a new program, or the passing of time. Commands may fail
  with or without their effect, clocks may return anything. The life cycle of a job is the abstract machine
  \<open>lifeStep\<close>; the theorems say that the records in Redis only move along it.
\<close>

section \<open>The life cycle of a job\<close>

definition bump :: "Record \<Rightarrow> Record \<Rightarrow> Record" where
  "bump a b = b \<lparr> jr_Version := jr_Version a + 1 \<rparr>"

inductive lifeStep :: "Record \<Rightarrow> Record \<Rightarrow> bool" where
  start: "jr_Status a \<in> {Pending, Retrying} \<Longrightarrow> lifeStep a (bump a (startedRecord now a))"
| takeover: "jr_Status a = Running \<Longrightarrow> lifeStep a (bump a (startedRecord now (crashedRecord t x a)))"
| complete: "jr_Status a = Running \<Longrightarrow> lifeStep a (bump a (completedRecord result t a))"
| retry: "\<lbrakk>jr_Status a = Running; jr_Attempts a \<le> jr_MaxRetries a\<rbrakk> \<Longrightarrow> lifeStep a (bump a (retryRecord x now (failedAttempt err t a)))"
| fail: "\<lbrakk>jr_Status a = Running; jr_MaxRetries a < jr_Attempts a\<rbrakk> \<Longrightarrow> lifeStep a (bump a (failedRecord now (failedAttempt err t a)))"

inductive_cases lifeStepE: "lifeStep a b"

text \<open>What holds of every stored record.\<close>

definition recordOk :: "Record \<Rightarrow> bool" where
  "recordOk rec \<longleftrightarrow> 1 \<le> jr_Version rec \<and> jr_Attempts rec = int (length (jr_Executions rec)) \<and>
     (jr_Status rec = Running \<longrightarrow> jr_Executions rec \<noteq> []) \<and>
     (jr_Status rec \<in> {Succeeded, Incomplete} \<longleftrightarrow> jr_Result rec \<noteq> None) \<and>
     (jr_Status rec = Failed \<longrightarrow> jr_MaxRetries rec < jr_Attempts rec) \<and>
     (isTerminal (jr_Status rec) \<longleftrightarrow> jr_FinishedAt rec \<noteq> None) \<and>
     list_all (\<lambda>e. at_Status e \<noteq> Running) (butlast (jr_Executions rec)) \<and>
     (jr_Executions rec \<noteq> [] \<longrightarrow> (at_Status (last (jr_Executions rec)) = Running \<longleftrightarrow> jr_Status rec = Running))"

definition newJob :: "Record \<Rightarrow> bool" where
  "newJob rec \<longleftrightarrow> jr_Version rec = 1 \<and> jr_Status rec = Pending \<and> jr_Attempts rec = 0 \<and> jr_Executions rec = [] \<and>
     jr_Result rec = None \<and> jr_FinishedAt rec = None"

lemma finish_fields [simp]:
  "jr_ID (finishLatestExecution s e t rec) = jr_ID rec" "jr_Version (finishLatestExecution s e t rec) = jr_Version rec"
  "jr_Status (finishLatestExecution s e t rec) = jr_Status rec" "jr_Attempts (finishLatestExecution s e t rec) = jr_Attempts rec"
  "jr_MaxRetries (finishLatestExecution s e t rec) = jr_MaxRetries rec" "jr_Result (finishLatestExecution s e t rec) = jr_Result rec"
  "jr_FinishedAt (finishLatestExecution s e t rec) = jr_FinishedAt rec"
  "jr_SourceEventID (finishLatestExecution s e t rec) = jr_SourceEventID rec"
  "length (jr_Executions (finishLatestExecution s e t rec)) = length (jr_Executions rec)"
  "jr_StoreID (finishLatestExecution s e t rec) = jr_StoreID rec" "jr_ReviewID (finishLatestExecution s e t rec) = jr_ReviewID rec"
  "jr_Task (finishLatestExecution s e t rec) = jr_Task rec"
  by (simp_all add: finishLatestExecution_def Let_def)

lemma finish_executions:
  "jr_Executions rec \<noteq> [] \<Longrightarrow> butlast (jr_Executions (finishLatestExecution s e t rec)) = butlast (jr_Executions rec) \<and>
     at_Status (last (jr_Executions (finishLatestExecution s e t rec))) = s \<and> jr_Executions (finishLatestExecution s e t rec) \<noteq> []"
  by (cases "jr_Executions rec" rule: rev_cases) (simp_all add: finishLatestExecution_def Let_def)

lemmas record_defs = bump_def startedRecord_def crashedRecord_def completedRecord_def failedAttempt_def retryRecord_def
  failedRecord_def Let_def

lemma newJob_ok: "newJob rec \<Longrightarrow> recordOk rec"
  by (simp add: newJob_def recordOk_def isTerminal_def)

lemma all_but_last: "xs \<noteq> [] \<Longrightarrow> list_all P xs \<longleftrightarrow> list_all P (butlast xs) \<and> P (last xs)"
  by (cases xs rule: rev_cases) auto

lemma lifeStep_ok: "lifeStep a b \<Longrightarrow> recordOk a \<Longrightarrow> recordOk b"
proof (induction rule: lifeStep.induct)
  case (start a now)
  then have "list_all (\<lambda>e. at_Status e \<noteq> Running) (jr_Executions a)"
    by (cases "jr_Executions a = []") (auto simp: recordOk_def all_but_last)
  with start show ?case by (auto simp: recordOk_def record_defs isTerminal_def)
next
  case (takeover a now t x)
  then have ne: "jr_Executions a \<noteq> []" by (simp add: recordOk_def)
  let ?c = "finishLatestExecution Failed crashMessage t a"
  have "list_all (\<lambda>e. at_Status e \<noteq> Running) (jr_Executions ?c)"
    using finish_executions [OF ne] takeover by (subst all_but_last) (auto simp: recordOk_def)
  with takeover show ?case by (auto simp: recordOk_def record_defs isTerminal_def)
next
  case (complete a result t)
  let ?a = "a \<lparr> jr_Status := (if rs_Completed result then Succeeded else Incomplete), jr_Result := Some result,
     jr_UpdatedAt := t, jr_FinishedAt := Some t \<rparr>"
  have "jr_Executions ?a \<noteq> []" using complete by (simp add: recordOk_def)
  note fin = finish_executions [OF this]
  show ?case using complete fin [of "if rs_Completed result then Succeeded else Incomplete" "[]" t]
    by (auto simp: recordOk_def record_defs isTerminal_def)
next
  case (retry a x now err t)
  have "jr_Executions (a \<lparr> jr_Error := err \<rparr>) \<noteq> []" using retry by (simp add: recordOk_def)
  note fin = finish_executions [OF this]
  show ?case using retry fin [of Failed err t] by (auto simp: recordOk_def record_defs isTerminal_def)
next
  case (fail a now err t)
  have "jr_Executions (a \<lparr> jr_Error := err \<rparr>) \<noteq> []" using fail by (simp add: recordOk_def)
  note fin = finish_executions [OF this]
  show ?case using fail fin [of Failed err t] by (auto simp: recordOk_def record_defs isTerminal_def)
qed

lemma lifeStep_fixed:
  "lifeStep a b \<Longrightarrow> jr_ID b = jr_ID a \<and> jr_Version b = jr_Version a + 1 \<and> jr_MaxRetries b = jr_MaxRetries a \<and>
     jr_SourceEventID b = jr_SourceEventID a \<and> \<not> isTerminal (jr_Status a)"
  by (induction rule: lifeStep.induct) (auto simp: record_defs isTerminal_def)

section \<open>Programs that keep to the rules\<close>

text \<open>What is needed of an id that \<open>newID\<close> makes of hexadecimal digits: its key is none of the other keys.\<close>

definition idOk :: "gostring \<Rightarrow> bool" where
  "idOk x \<longleftrightarrow> x \<noteq> [] \<and> CHR '':'' \<notin> set x \<and> TrimSpace x = x \<and> x \<noteq> ''stream''"

text \<open>What a program knows of the job it works on: the last state it read or wrote.\<close>

type_synonym known = "(gostring \<times> Record option) option"

definition lockKey :: "JobConfig \<Rightarrow> gostring \<Rightarrow> bool" where
  "lockKey cfg key \<longleftrightarrow> (\<exists>x. key = claimKey cfg x) \<or> (\<exists>rec. key = reviewExecutionKey cfg rec)"

definition slotKey :: "JobConfig \<Rightarrow> gostring \<Rightarrow> bool" where
  "slotKey cfg key \<longleftrightarrow> (\<exists>rec. key = scopeConcurrencyKey cfg rec)"

definition known_after_get :: "gostring \<Rightarrow> JobValue option result \<Rightarrow> known" where
  "known_after_get jid r = (case r of Inr None \<Rightarrow> Some (jid, None) | Inr (Some (Job rec)) \<Rightarrow> Some (jid, Some rec) | _ \<Rightarrow> None)"

definition plausible :: "gostring \<Rightarrow> JobValue option result \<Rightarrow> bool" where
  "plausible jid r \<longleftrightarrow> (case r of Inr (Some (Job rec)) \<Rightarrow> jr_ID rec = jid | Inr (Some (Text t)) \<Rightarrow> False | _ \<Rightarrow> True)"

text \<open>What a script may be, given the fresh id and the job the program knows.\<close>

definition scriptOk :: "JobConfig \<Rightarrow> gostring option \<Rightarrow> known \<Rightarrow> Script \<Rightarrow> bool" where
  "scriptOk cfg own kn s = (case s of
       CreateJob key source queue rec ttl useSource pre \<Rightarrow> own = Some (jr_ID rec) \<and> newJob rec \<and> key = jobKey cfg (jr_ID rec) \<and>
         source = sourceKeyOf cfg rec \<and> queue = queueKey cfg \<and> ttl = millis (jc_JobTTL cfg) \<and> pre = jobPrefix cfg
     | SaveJob key source expected rec ttl useSource \<Rightarrow> (\<exists>cur. kn = Some (jr_ID cur, Some cur) \<and> expected = jr_Version cur \<and>
         lifeStep cur rec \<and> key = jobKey cfg (jr_ID rec) \<and> source = sourceKeyOf cfg rec \<and> ttl = millis (jc_JobTTL cfg))
     | ReleaseToken key token \<Rightarrow> lockKey cfg key
     | RenewToken key token ttl \<Rightarrow> lockKey cfg key \<and> ttl = millis (claimTTL cfg)
     | AcquireConcurrency global scope token now expires gmax smax ttl \<Rightarrow> global = globalKey cfg \<and> slotKey cfg scope \<and>
         gmax = jc_GlobalConcurrency cfg \<and> smax = jc_ScopeConcurrency cfg \<and> ttl = millis (claimTTL cfg)
     | ReleaseConcurrency global scope token \<Rightarrow> global = globalKey cfg \<and> slotKey cfg scope
     | RenewConcurrency global scope token expires ttl \<Rightarrow> global = globalKey cfg \<and> slotKey cfg scope \<and> ttl = millis (claimTTL cfg))"

definition known_after_eval :: "known \<Rightarrow> Script \<Rightarrow> EvalReply result \<Rightarrow> known" where
  "known_after_eval kn s r = (case s of
       SaveJob key source expected rec ttl useSource \<Rightarrow> if r = Inr (EInt 1) then Some (jr_ID rec, Some rec) else None
     | _ \<Rightarrow> kn)"

definition own_after_eval :: "gostring option \<Rightarrow> Script \<Rightarrow> gostring option" where
  "own_after_eval own s = (case s of CreateJob _ _ _ _ _ _ _ \<Rightarrow> None | _ \<Rightarrow> own)"

definition replyOk :: "EvalReply result \<Rightarrow> bool" where
  "replyOk r = (case r of Inr (EPair n x) \<Rightarrow> idOk x | _ \<Rightarrow> True)"

text \<open>\<open>J\<close> gives the job of a message id. A message is acknowledged only for a job that is known to be gone or
  finished.\<close>

definition delivered :: "(gostring \<Rightarrow> gostring) \<Rightarrow> StreamMessage \<Rightarrow> bool" where
  "delivered J m \<longleftrightarrow> sm_JobID m = J (sm_ID m) \<and> idOk (sm_JobID m)"

definition settled :: "gostring \<Rightarrow> known \<Rightarrow> bool" where
  "settled jid kn \<longleftrightarrow> kn = Some (jid, None) \<or> (\<exists>rec. kn = Some (jid, Some rec) \<and> isTerminal (jr_Status rec))"

text \<open>\<open>K\<close> are the ids of jobs the program was told of.\<close>

definition told :: "StreamMessage list \<Rightarrow> gostring set" where
  "told ms = set (map sm_JobID ms)"

definition toldEval :: "Script \<Rightarrow> EvalReply result \<Rightarrow> gostring set" where
  "toldEval s r = (case s of CreateJob _ _ _ _ _ _ _ \<Rightarrow> (case r of Inr (EPair n x) \<Rightarrow> {x} | _ \<Rightarrow> {}) | _ \<Rightarrow> {})"

primrec ruled :: "JobConfig \<Rightarrow> (gostring \<Rightarrow> gostring) \<Rightarrow> gostring set \<Rightarrow> gostring option \<Rightarrow> known \<Rightarrow> 'a Prog \<Rightarrow> bool" where
  "ruled cfg J K own kn (Ret x) \<longleftrightarrow> True"
| "ruled cfg J K own kn (GetC key k) \<longleftrightarrow> (\<exists>jid. jid \<in> K \<and> idOk jid \<and> key = jobKey cfg jid \<and>
     (\<forall>r. plausible jid r \<longrightarrow> ruled cfg J K own (known_after_get jid r) (k r)))"
| "ruled cfg J K own kn (SetNXC key v ttl k) \<longleftrightarrow> lockKey cfg key \<and> ttl = claimTTL cfg \<and> (\<forall>r. ruled cfg J K own kn (k r))"
| "ruled cfg J K own kn (EvalC s k) \<longleftrightarrow> scriptOk cfg own kn s \<and>
     (\<forall>r. replyOk r \<longrightarrow> ruled cfg J (K \<union> toldEval s r) (own_after_eval own s) (known_after_eval kn s r) (k r))"
| "ruled cfg J K own kn (AckC mid k) \<longleftrightarrow> settled (J mid) kn \<and> (\<forall>r. ruled cfg J K own kn (k r))"
| "ruled cfg J K own kn (DeadC rec k) \<longleftrightarrow> (\<forall>r. ruled cfg J K own kn (k r))"
| "ruled cfg J K own kn (ReadC c k) \<longleftrightarrow> (\<forall>r. (\<forall>ms. r = Inr ms \<longrightarrow> list_all (delivered J) ms) \<longrightarrow>
     ruled cfg J (K \<union> (case r of Inr ms \<Rightarrow> told ms | Inl _ \<Rightarrow> {})) own kn (k r))"
| "ruled cfg J K own kn (ClaimC c st d n k) \<longleftrightarrow>
     (\<forall>r. (\<forall>x ms. r = Inr (x, ms) \<longrightarrow> list_all (delivered J) ms) \<longrightarrow>
     ruled cfg J (K \<union> (case r of Inr (x, ms) \<Rightarrow> told ms | Inl _ \<Rightarrow> {})) own kn (k r))"
| "ruled cfg J K own kn (GroupC k) \<longleftrightarrow> (\<forall>r. ruled cfg J K own kn (k r))"
| "ruled cfg J K own kn (NowC k) \<longleftrightarrow> (\<forall>r. ruled cfg J K own kn (k r))"
| "ruled cfg J K own kn (NewIDC k) \<longleftrightarrow> (\<forall>x. idOk x \<longrightarrow> ruled cfg J K (Some x) kn (k x))"
| "ruled cfg J K own kn (TodayC k) \<longleftrightarrow> (\<forall>r. ruled cfg J K own kn (k r))"
| "ruled cfg J K own kn (RunC input k) \<longleftrightarrow> (\<forall>r. ruled cfg J K own kn (k r))"

text \<open>A program that is ruled whatever it owns or knows.\<close>

definition free :: "JobConfig \<Rightarrow> (gostring \<Rightarrow> gostring) \<Rightarrow> 'a Prog \<Rightarrow> bool" where
  "free cfg J p \<longleftrightarrow> (\<forall>K own kn. ruled cfg J K own kn p)"

lemma freeD: "free cfg J p \<Longrightarrow> ruled cfg J K own kn p"
  by (simp add: free_def)

lemma free_Ret [simp]: "free cfg J (Ret x)"
  by (simp add: free_def)

lemma ruled_andThen_above:
  "\<lbrakk>ruled cfg J K own kn p; \<And>K' own kn x. K \<subseteq> K' \<Longrightarrow> ruled cfg J K' own kn (f x)\<rbrakk> \<Longrightarrow> ruled cfg J K own kn (andThen p f)"
proof (induction p arbitrary: K own kn)
  case (GetC key k)
  from GetC.prems(1) obtain jid where j: "jid \<in> K" "idOk jid" "key = jobKey cfg jid"
    "\<And>r. plausible jid r \<Longrightarrow> ruled cfg J K own (known_after_get jid r) (k r)" by auto
  have "ruled cfg J K own (known_after_get jid r) (andThen (k r) f)" if "plausible jid r" for r
    by (rule GetC.IH [OF rangeI j(4) [OF that] GetC.prems(2)])
  with j(1-3) show ?case by auto
next
  case (SetNXC key v ttl k)
  then show ?case by simp
next
  case (EvalC s k)
  have "ruled cfg J (K \<union> toldEval s r) (own_after_eval own s) (known_after_eval kn s r) (andThen (k r) f)" if "replyOk r" for r
    using EvalC.prems that by (intro EvalC.IH [OF rangeI]) auto
  with EvalC.prems show ?case by simp
next
  case (ReadC c k)
  have "ruled cfg J (K \<union> (case r of Inr ms \<Rightarrow> told ms | Inl _ \<Rightarrow> {})) own kn (andThen (k r) f)"
    if "\<forall>ms. r = Inr ms \<longrightarrow> list_all (delivered J) ms" for r
    by (rule ReadC.IH [OF rangeI]) (use ReadC.prems that in auto)
  then show ?case by simp
next
  case (ClaimC c st d n k)
  have "ruled cfg J (K \<union> (case r of Inr (x, ms) \<Rightarrow> told ms | Inl _ \<Rightarrow> {})) own kn (andThen (k r) f)"
    if "\<forall>x ms. r = Inr (x, ms) \<longrightarrow> list_all (delivered J) ms" for r
    by (rule ClaimC.IH [OF rangeI]) (use ClaimC.prems that in auto)
  then show ?case by simp
qed auto

lemma ruled_andThen:
  "ruled cfg J K own kn p \<Longrightarrow> \<forall>x. free cfg J (f x) \<Longrightarrow> ruled cfg J K own kn (andThen p f)"
  by (rule ruled_andThen_above) (auto simp: free_def)

lemma free_andThen: "free cfg J p \<Longrightarrow> \<forall>x. free cfg J (f x) \<Longrightarrow> free cfg J (andThen p f)"
  unfolding free_def [of cfg J p] free_def [of cfg J "andThen p f"] by (blast intro: ruled_andThen)

lemma andThen_assoc: "andThen (andThen p f) g = andThen p (\<lambda>x. andThen (f x) g)"
  by (induction p) auto

lemma free_releaseToken: "lockKey cfg key \<Longrightarrow> free cfg J (releaseToken key token)"
  by (simp add: free_def releaseToken_def scriptOk_def)

lemma free_releaseConcurrency: "free cfg J (releaseConcurrency cfg rec token)"
  by (auto simp: free_def releaseConcurrency_def scriptOk_def slotKey_def)

lemma lockKeys [simp]: "lockKey cfg (claimKey cfg x)" "lockKey cfg (reviewExecutionKey cfg rec)"
  by (auto simp: lockKey_def)

lemma slotKeys [simp]: "slotKey cfg (scopeConcurrencyKey cfg rec)"
  by (auto simp: slotKey_def)

section \<open>The programs of the service are ruled\<close>

lemma ruled_GetJob:
  assumes "jid \<in> K" "idOk jid" "TrimSpace jid' = jid"
    and "\<And>err. ruled cfg J K own None (f (Inl err))" "ruled cfg J K own (Some (jid, None)) (f (Inr None))"
    and "\<And>rec. jr_ID rec = jid \<Longrightarrow> ruled cfg J K own (Some (jid, Some rec)) (f (Inr (Some rec)))"
    and "\<And>err. ruled cfg J K own kn (f (Inl err))"
  shows "ruled cfg J K own kn (andThen (GetJob cfg jid') f)"
  using assms by (auto simp: GetJob_def plausible_def known_after_get_def split: sum.splits option.splits JobValue.splits)

lemma ruled_saveJob:
  assumes "kn = Some (jr_ID cur, Some cur)" "jr_Version rec = jr_Version cur" "lifeStep cur (rec \<lparr> jr_Version := jr_Version cur + 1 \<rparr>)"
    and "\<And>err. ruled cfg J K own None (f (Some err, rec))"
    and "ruled cfg J K own (Some (jr_ID rec, Some (rec \<lparr> jr_Version := jr_Version cur + 1 \<rparr>))) (f (None, rec \<lparr> jr_Version := jr_Version cur + 1 \<rparr>))"
  shows "ruled cfg J K own kn (andThen (saveJob cfg rec) f)"
proof -
  have src: "sourceKeyOf cfg (rec \<lparr> jr_Version := v \<rparr>) = sourceKeyOf cfg rec" for v by (simp add: sourceKeyOf_def)
  show ?thesis
    using assms lifeStep_fixed [OF assms(3)]
    by (auto simp: saveJob_def Let_def scriptOk_def known_after_eval_def own_after_eval_def toldEval_def src replyInt64_def
        split: sum.splits EvalReply.splits)
qed

lemma ruled_finishJob:
  assumes "free cfg J fin" "J (sm_ID m) = jr_ID rec" "jr_Status rec = Running"
  shows "ruled cfg J K own (Some (jr_ID rec, Some rec)) (finishJob cfg m rec res fin)"
proof (cases res)
  case (Inr result)
  have "lifeStep rec ((completedRecord result t rec) \<lparr> jr_Version := jr_Version rec + 1 \<rparr>)" for t
    using lifeStep.complete [OF assms(3), of result t] by (simp add: bump_def)
  moreover have "jr_Version (completedRecord result t rec) = jr_Version rec" "jr_ID (completedRecord result t rec) = jr_ID rec"
    "isTerminal (jr_Status (completedRecord result t rec))" for t
    by (simp_all add: record_defs isTerminal_def)
  ultimately show ?thesis
    using Inr assms freeD [OF assms(1)] by (auto simp: finishJob_def settled_def intro!: ruled_saveJob)
next
  case (Inl err)
  have r: "jr_Attempts rec \<le> jr_MaxRetries rec \<Longrightarrow>
      lifeStep rec ((retryRecord x now (failedAttempt err t rec)) \<lparr> jr_Version := jr_Version rec + 1 \<rparr>)" for x now t
    using lifeStep.retry [OF assms(3), of x now err t] by (simp add: bump_def)
  have f: "\<not> jr_Attempts rec \<le> jr_MaxRetries rec \<Longrightarrow>
      lifeStep rec ((failedRecord now (failedAttempt err t rec)) \<lparr> jr_Version := jr_Version rec + 1 \<rparr>)" for now t
    using lifeStep.fail [OF assms(3), of now err t] by (simp add: bump_def)
  have v: "jr_Version (retryRecord x now (failedAttempt err t rec)) = jr_Version rec"
    "jr_Version (failedRecord now (failedAttempt err t rec)) = jr_Version rec"
    "jr_ID (failedRecord now (failedAttempt err t rec)) = jr_ID rec" "isTerminal (jr_Status (failedRecord now (failedAttempt err t rec)))"
    "jr_Attempts (failedAttempt err t rec) = jr_Attempts rec" "jr_MaxRetries (failedAttempt err t rec) = jr_MaxRetries rec" for x now t
    by (simp_all add: record_defs isTerminal_def)
  show ?thesis
    using Inl assms r f v freeD [OF assms(1)] by (auto simp: finishJob_def settled_def Let_def intro!: ruled_saveJob)
qed

lemma ruled_runJob:
  assumes "free cfg J fin" "J (sm_ID m) = jr_ID rec" "kn = Some (jr_ID cur, Some cur)" "jr_ID rec = jr_ID cur"
    "jr_Version rec = jr_Version cur" "\<And>now. lifeStep cur (bump cur (startedRecord now rec))"
  shows "ruled cfg J K own kn (runJob cfg m rec fin)"
proof -
  have v: "jr_Version (startedRecord now rec) = jr_Version cur" "jr_ID (startedRecord now rec) = jr_ID cur" for now
    using assms(4,5) by (simp_all add: startedRecord_def)
  have f: "ruled cfg J K own (Some (jr_ID cur, Some (startedRecord now rec \<lparr> jr_Version := jr_Version cur + 1 \<rparr>)))
      (finishJob cfg m (startedRecord now rec \<lparr> jr_Version := jr_Version cur + 1 \<rparr>) res fin)" for own now res
    using ruled_finishJob [OF assms(1), where m = m and rec = "startedRecord now rec \<lparr> jr_Version := jr_Version cur + 1 \<rparr>"
        and own = own and res = res] assms(2,4) v
    by (simp add: startedRecord_def)
  show ?thesis
    using assms(3) v f assms(6) [unfolded bump_def] freeD [OF assms(1)] by (auto simp: runJob_def intro!: ruled_saveJob)
qed

lemma ruled_withSlot:
  assumes "free cfg J fin" "J (sm_ID m) = jr_ID rec" "kn = Some (jr_ID cur, Some cur)" "jr_ID rec = jr_ID cur"
    "jr_Version rec = jr_Version cur" "\<And>now. lifeStep cur (bump cur (startedRecord now rec))"
  shows "ruled cfg J K own kn (withSlot cfg m rec fin)"
proof -
  have "free cfg J (andThen (releaseConcurrency cfg rec token) (\<lambda>_. fin))" for token
    by (rule free_andThen [OF free_releaseConcurrency]) (simp add: assms(1))
  note run = ruled_runJob [OF this assms(2-6)]
  show ?thesis
    using run freeD [OF assms(1)]
    by (auto simp: withSlot_def acquireConcurrency_def scriptOk_def known_after_eval_def own_after_eval_def toldEval_def)
qed

lemma ruled_withReview:
  assumes "free cfg J fin" "J (sm_ID m) = jr_ID rec" "kn = Some (jr_ID cur, Some cur)" "jr_ID rec = jr_ID cur"
    "jr_Version rec = jr_Version cur" "\<And>now. lifeStep cur (bump cur (startedRecord now rec))"
  shows "ruled cfg J K own kn (withReview cfg m rec fin)"
proof -
  have "free cfg J (andThen (releaseToken (reviewExecutionKey cfg rec) token) (\<lambda>_. fin))" for token
    by (rule free_andThen [OF free_releaseToken]) (simp_all add: assms(1))
  note slot = ruled_withSlot [OF this assms(2-6)]
  show ?thesis using slot freeD [OF assms(1)] by (auto simp: withReview_def)
qed

lemma ruled_resume:
  assumes "free cfg J fin" "J (sm_ID m) = jr_ID cur" "\<not> isTerminal (jr_Status cur)"
  shows "ruled cfg J K own (Some (jr_ID cur, Some cur)) (resume cfg cur fin (\<lambda>rec. withReview cfg m rec fin))"
proof -
  have same: "ruled cfg J K own (Some (jr_ID cur, Some cur)) (withReview cfg m cur fin)" if "jr_Status cur \<in> {Pending, Retrying}" for own
    by (rule ruled_withReview [OF assms(1,2) refl refl refl lifeStep.start [OF that]])
  have crash: "ruled cfg J K own (Some (jr_ID cur, Some cur)) (withReview cfg m (crashedRecord t x cur) fin)" if "jr_Status cur = Running" for own t x
    by (rule ruled_withReview [OF assms(1) _ refl _ _ lifeStep.takeover [OF that]]) (simp_all add: crashedRecord_def assms(2))
  show ?thesis
    using same crash freeD [OF assms(1)] assms(3) by (cases "jr_Status cur") (auto simp: resume_def isTerminal_def)
qed

lemma ruled_processMessage:
  assumes "delivered J m" "sm_JobID m \<in> K"
  shows "ruled cfg J K own kn (processMessage cfg m)"
proof -
  have id: "idOk (sm_JobID m)" "TrimSpace (sm_JobID m) = sm_JobID m" "sm_JobID m \<noteq> []" "J (sm_ID m) = sm_JobID m"
    using assms(1) by (auto simp: delivered_def idOk_def)
  have fin: "free cfg J (releaseToken (claimKey cfg (sm_JobID m)) token)" for token by (rule free_releaseToken) simp
  have go: "ruled cfg J K own (Some (sm_JobID m, Some rec)) (resume cfg rec (releaseToken (claimKey cfg (sm_JobID m)) token)
      (\<lambda>rec. withReview cfg m rec (releaseToken (claimKey cfg (sm_JobID m)) token)))"
    if "jr_ID rec = sm_JobID m" "\<not> isTerminal (jr_Status rec)" for own rec token
    using ruled_resume [OF fin, where m = m and cur = rec and own = own] that id(4) by simp
  have "ruled cfg J K own kn (processClaimed cfg m (sm_JobID m) (releaseToken (claimKey cfg (sm_JobID m)) token))" for own token
    unfolding processClaimed_def
    by (rule ruled_GetJob [OF assms(2) id(1,2)]) (use freeD [OF fin] go id(4) in \<open>auto simp: settled_def\<close>)
  then show ?thesis using id by (simp add: processMessage_def Let_def)
qed

lemma ruled_recoverMessage:
  assumes "delivered J m" "sm_JobID m \<in> K"
  shows "ruled cfg J K own kn (recoverMessage cfg now m)"
proof -
  have id: "idOk (sm_JobID m)" "TrimSpace (sm_JobID m) = sm_JobID m" "sm_JobID m \<noteq> []" "J (sm_ID m) = sm_JobID m"
    using assms(1) by (auto simp: delivered_def idOk_def)
  show ?thesis
    unfolding recoverMessage_def using id
    by (simp, intro ruled_GetJob [OF assms(2) id(1,2)]) (auto simp: settled_def ruled_processMessage assms)
qed

lemma ruled_workerTurn: "free cfg J (workerTurn cfg consumer)"
  by (auto simp: free_def workerTurn_def told_def intro!: ruled_processMessage split: sum.split list.split)

text \<open>Recovering a message needs to be told of its job; being told of more does not matter.\<close>

lemma ruled_recoverMessages:
  "\<lbrakk>list_all (delivered J) ms; told ms \<subseteq> K\<rbrakk> \<Longrightarrow> ruled cfg J K own kn (recoverMessages cfg now ms)"
proof (induction ms arbitrary: K own kn)
  case (Cons m ms)
  have "ruled cfg J K own kn (recoverMessage cfg now m)"
    using Cons.prems by (intro ruled_recoverMessage) (auto simp: told_def)
  then show ?case unfolding recoverMessages.simps
    by (rule ruled_andThen_above) (use Cons in \<open>auto simp: told_def\<close>)
qed simp

lemma ruled_recoverProcessingOnce: "free cfg J (andThen (recoverProcessingOnce cfg consumer start) (\<lambda>_. Ret ()))"
  by (auto simp: free_def recoverProcessingOnce_def ruled_andThen [OF ruled_andThen [OF ruled_recoverMessages]] split: sum.split)

lemma newRecord_new: "newJob (newRecord cfg req jid sessionID executionID now)"
  by (simp add: newJob_def newRecord_def)

lemma ruled_enqueueOrGet:
  assumes "newJob rec" "own = Some (jr_ID rec)"
  shows "ruled cfg J K own kn (andThen (enqueueOrGet cfg rec) (\<lambda>_. Ret ()))"
proof -
  have get: "ruled cfg J K own kn (andThen (andThen (GetJob cfg x) f) (\<lambda>_. Ret ()))"
    if "x \<in> K" "idOk x" "\<forall>y. \<exists>z. f y = Ret z" for K own x and f :: "(Record option) result \<Rightarrow> Record result Prog"
  proof -
    have r: "ruled cfg J K own kn (andThen (f y) (\<lambda>_. Ret ()))" for own kn y
      using that(3) by (metis andThen.simps(1) ruled.simps(1))
    show ?thesis using that r unfolding andThen_assoc by (intro ruled_GetJob [OF that(1,2)]) (auto simp: idOk_def)
  qed
  show ?thesis
    using assms get
    by (auto simp: enqueueOrGet_def createAndEnqueue_def scriptOk_def known_after_eval_def own_after_eval_def toldEval_def replyOk_def
        split: sum.split EvalReply.split option.split)
qed

lemma ruled_Submit: "free cfg J (andThen (Submit cfg req) (\<lambda>_. Ret ()))"
proof -
  have id: "jr_ID (newRecord cfg req' jid s e now) = jid" for req' jid s e now by (simp add: newRecord_def)
  show ?thesis
    by (auto simp: free_def Submit_def sessionOf_def executionOf_def Let_def id newRecord_new intro!: ruled_enqueueOrGet split: sum.split)
qed

lemma ruled_renewTick: "free cfg J (andThen (renewTick cfg jid rec t1 t2 t3) (\<lambda>_. Ret ()))"
  by (auto simp: free_def renewTick_def renewTokenLease_def renewConcurrencyLease_def scriptOk_def)

end
