(* ===== verification/Job_Safety.thy ===== *)
theory Job_Safety
  imports Job_System
begin

text \<open>
  The system of all programs of the service over Redis: its steps, its invariant, and what follows for the
  jobs: no update is lost, a finished job stays finished, no unfinished job loses its message, and no more
  jobs run than the limit allows.
\<close>

section \<open>Families of keys\<close>

lemma key_families:
  "sourceEventKey cfg s \<noteq> claimKey cfg x" "sourceEventKey cfg s \<noteq> reviewExecutionKey cfg rec"
  "sourceEventKey cfg s \<noteq> globalKey cfg" "sourceEventKey cfg s \<noteq> scopeConcurrencyKey cfg rec" "sourceEventKey cfg s \<noteq> jobKey cfg j"
  "claimKey cfg x \<noteq> globalKey cfg" "claimKey cfg x \<noteq> scopeConcurrencyKey cfg rec" "reviewExecutionKey cfg rec \<noteq> globalKey cfg"
  "reviewExecutionKey cfg rec \<noteq> scopeConcurrencyKey cfg rec'" "scopeConcurrencyKey cfg rec \<noteq> globalKey cfg"
  by (simp_all add: sourceEventKey_def claimKey_def reviewExecutionKey_def globalKey_def scopeConcurrencyKey_def jobKey_def)

lemma queue_key_differs:
  "claimKey cfg x \<noteq> queueKey cfg" "reviewExecutionKey cfg rec \<noteq> queueKey cfg" "globalKey cfg \<noteq> queueKey cfg"
  "scopeConcurrencyKey cfg rec \<noteq> queueKey cfg" "sourceEventKey cfg s \<noteq> queueKey cfg"
  by (simp_all add: claimKey_def reviewExecutionKey_def globalKey_def scopeConcurrencyKey_def sourceEventKey_def queueKey_def)

lemma job_key_families:
  assumes "idOk j"
  shows "jobKey cfg j \<noteq> claimKey cfg x" "jobKey cfg j \<noteq> reviewExecutionKey cfg rec" "jobKey cfg j \<noteq> globalKey cfg"
    "jobKey cfg j \<noteq> scopeConcurrencyKey cfg rec" "jobKey cfg j \<noteq> sourceEventKey cfg s" "jobKey cfg j \<noteq> queueKey cfg"
  using assms by (auto simp: sourceEventKey_def claimKey_def reviewExecutionKey_def globalKey_def scopeConcurrencyKey_def jobKey_def queueKey_def idOk_def)

lemma jobKey_inj [simp]: "jobKey cfg i = jobKey cfg j \<longleftrightarrow> i = j"
  by (simp add: jobKey_def)

lemma lockKey_other:
  "lockKey cfg k \<Longrightarrow> idOk j \<Longrightarrow> jobKey cfg j \<noteq> k" "lockKey cfg k \<Longrightarrow> sourceEventKey cfg s \<noteq> k"
  "lockKey cfg k \<Longrightarrow> globalKey cfg \<noteq> k" "lockKey cfg k \<Longrightarrow> slotKey cfg k' \<Longrightarrow> k' \<noteq> k" "lockKey cfg k \<Longrightarrow> queueKey cfg \<noteq> k"
  using key_families job_key_families queue_key_differs unfolding lockKey_def slotKey_def by metis+

lemma sourceKeyOf_ex: "\<exists>s. sourceKeyOf cfg rec = sourceEventKey cfg s"
  by (auto simp: sourceKeyOf_def)

section \<open>What the scripts do to the jobs\<close>

definition jobAt :: "JobConfig \<Rightarrow> 'r Redis \<Rightarrow> gostring \<Rightarrow> 'r \<Rightarrow> JobValue option" where
  "jobAt cfg R jid r = rd_get R (jobKey cfg jid) r"

definition sourceAt :: "JobConfig \<Rightarrow> 'r Redis \<Rightarrow> gostring \<Rightarrow> 'r \<Rightarrow> JobValue option" where
  "sourceAt cfg R s r = rd_get R (sourceEventKey cfg s) r"

definition jobCfgOk :: "JobConfig \<Rightarrow> bool" where
  "jobCfgOk cfg \<longleftrightarrow> 0 < millis (jc_JobTTL cfg) \<and> 0 < millis (claimTTL cfg) \<and> 0 \<le> jc_GlobalConcurrency cfg"

text \<open>The slots: both kinds of sorted sets are no strings, and the global one is within its limit; and the key of
  the queue holds its stream.\<close>

definition slotsOk :: "JobConfig \<Rightarrow> 'r Redis \<Rightarrow> 'r \<Rightarrow> bool" where
  "slotsOk cfg R r \<longleftrightarrow> rd_get R (globalKey cfg) r = None \<and> (\<forall>k. slotKey cfg k \<longrightarrow> rd_get R k r = None) \<and>
     rd_zcard R (globalKey cfg) r \<le> jc_GlobalConcurrency cfg \<and> streamAt R (queueKey cfg) r"

text \<open>A step that only touches strings, apart from the semaphores, keeps the slots.\<close>

definition quietStep :: "JobConfig \<Rightarrow> 'r Redis \<Rightarrow> 'r \<Rightarrow> 'r \<Rightarrow> bool" where
  "quietStep cfg R r r' \<longleftrightarrow> (\<forall>jid. idOk jid \<longrightarrow> jobAt cfg R jid r' = jobAt cfg R jid r) \<and>
     (\<forall>s. sourceAt cfg R s r' = sourceAt cfg R s r) \<and> rd_queue R (queueKey cfg) r' = rd_queue R (queueKey cfg) r"

definition semaphoreSame :: "JobConfig \<Rightarrow> 'r Redis \<Rightarrow> 'r \<Rightarrow> 'r \<Rightarrow> bool" where
  "semaphoreSame cfg R r r' \<longleftrightarrow> rd_get R (globalKey cfg) r' = rd_get R (globalKey cfg) r \<and>
     (\<forall>k. slotKey cfg k \<longrightarrow> rd_get R k r' = rd_get R k r) \<and>
     (\<forall>m. rd_zscore R (globalKey cfg) m r' = rd_zscore R (globalKey cfg) m r) \<and>
     (streamAt R (queueKey cfg) r \<longrightarrow> streamAt R (queueKey cfg) r')"

lemma semaphoreSame_trans: "semaphoreSame cfg R r r1 \<Longrightarrow> semaphoreSame cfg R r1 r2 \<Longrightarrow> semaphoreSame cfg R r r2"
  by (simp add: semaphoreSame_def)

lemma semaphoreSame_refl: "semaphoreSame cfg R r r"
  by (simp add: semaphoreSame_def)

context redis begin

lemma zcard_mono:
  "(\<And>m. rd_zscore R k m r' \<noteq> None \<Longrightarrow> rd_zscore R k m r \<noteq> None) \<Longrightarrow> rd_zcard R k r' \<le> rd_zcard R k r"
  unfolding zcard using card_mono [OF zset_finite [of k r], of "{m. rd_zscore R k m r' \<noteq> None}"] by auto

lemma zcard_add:
  assumes "\<And>m'. rd_zscore R k m' r' = (if m' = m then Some e else rd_zscore R k m' r)"
  shows "rd_zcard R k r' \<le> rd_zcard R k r + 1" "rd_zscore R k m r \<noteq> None \<Longrightarrow> rd_zcard R k r' \<le> rd_zcard R k r"
proof -
  have "{m'. rd_zscore R k m' r' \<noteq> None} \<subseteq> insert m {m'. rd_zscore R k m' r \<noteq> None}" by (auto simp: assms)
  then have "card {m'. rd_zscore R k m' r' \<noteq> None} \<le> card (insert m {m'. rd_zscore R k m' r \<noteq> None})"
    using zset_finite by (intro card_mono) auto
  also have "\<dots> \<le> Suc (card {m'. rd_zscore R k m' r \<noteq> None})" by (rule card_insert_le_m1) auto
  finally show "rd_zcard R k r' \<le> rd_zcard R k r + 1" unfolding zcard by simp
  show "rd_zscore R k m r \<noteq> None \<Longrightarrow> rd_zcard R k r' \<le> rd_zcard R k r"
    by (rule zcard_mono) (auto simp: assms split: if_splits)
qed

lemma semaphoreSame_slots: "semaphoreSame cfg R r r' \<Longrightarrow> slotsOk cfg R r \<Longrightarrow> slotsOk cfg R r'"
  unfolding slotsOk_def semaphoreSame_def using zcard_mono [of "globalKey cfg" r' r] by auto

lemma set_semaphore:
  "\<lbrakk>0 < ttl; k \<noteq> globalKey cfg; \<not> slotKey cfg k; k \<noteq> queueKey cfg\<rbrakk> \<Longrightarrow> semaphoreSame cfg R r (rd_set R k v ttl r)"
  by (auto simp: semaphoreSame_def streamAt_def get_set zscore_set)

lemma del_semaphore:
  "\<lbrakk>k \<noteq> globalKey cfg; \<not> slotKey cfg k; k \<noteq> queueKey cfg\<rbrakk> \<Longrightarrow> semaphoreSame cfg R r (rd_del R k r)"
  by (auto simp: semaphoreSame_def streamAt_def get_del zscore_del)

lemma xadd_semaphore: "semaphoreSame cfg R r (rd_xadd R k v r)"
  by (simp add: semaphoreSame_def streamAt_def get_xadd zscore_xadd)

lemma token_script:
  assumes "lockKey cfg key" "0 < ttl"
  shows "quietStep cfg R r (snd (releaseTokenScript R key token r)) \<and> semaphoreSame cfg R r (snd (releaseTokenScript R key token r))"
    "quietStep cfg R r (snd (renewTokenLeaseScript R key token ttl r)) \<and> semaphoreSame cfg R r (snd (renewTokenLeaseScript R key token ttl r))"
    "quietStep cfg R r (snd (setNX R key v ttl r)) \<and> semaphoreSame cfg R r (snd (setNX R key v ttl r))"
proof -
  have k: "key \<noteq> globalKey cfg" "\<not> slotKey cfg key" "key \<noteq> queueKey cfg" "queueKey cfg \<noteq> key" using lockKey_other [OF assms(1)] by blast+
  show "quietStep cfg R r (snd (releaseTokenScript R key token r)) \<and> semaphoreSame cfg R r (snd (releaseTokenScript R key token r))"
    using k lockKey_other(1,2) [OF assms(1)]
    by (auto simp: releaseTokenScript_def quietStep_def jobAt_def sourceAt_def get_del queue_del del_semaphore semaphoreSame_refl)
  have "semaphoreSame cfg R r (snd (rd_pexpire R key ttl r))"
    using assms(2) by (simp add: semaphoreSame_def streamAt_def get_pexpire zscore_pexpire)
  then show "quietStep cfg R r (snd (renewTokenLeaseScript R key token ttl r)) \<and> semaphoreSame cfg R r (snd (renewTokenLeaseScript R key token ttl r))"
    using assms(2) by (auto simp: renewTokenLeaseScript_def quietStep_def jobAt_def sourceAt_def get_pexpire queue_pexpire semaphoreSame_refl Let_def split_beta)
  show "quietStep cfg R r (snd (setNX R key v ttl r)) \<and> semaphoreSame cfg R r (snd (setNX R key v ttl r))"
    using k lockKey_other(1,2) [OF assms(1)] assms(2)
    by (auto simp: setNX_def quietStep_def jobAt_def sourceAt_def get_set queue_set set_semaphore semaphoreSame_refl)
qed

text \<open>The three scripts of the slots.\<close>

lemma acquire_slots:
  assumes "slotKey cfg scope" "0 < ttl" "slotsOk cfg R r"
  shows "quietStep cfg R r (snd (acquireConcurrencyScript R (globalKey cfg) scope token now expires (jc_GlobalConcurrency cfg) smax ttl r)) \<and>
    slotsOk cfg R (snd (acquireConcurrencyScript R (globalKey cfg) scope token now expires (jc_GlobalConcurrency cfg) smax ttl r))"
proof -
  let ?g = "globalKey cfg"
  define r1 where "r1 = rd_zremUpTo R scope now (rd_zremUpTo R ?g now r)"
  define r2 where "r2 = rd_zadd R scope expires token (rd_zadd R ?g expires token r1)"
  define r4 where "r4 = snd (rd_pexpire R scope ttl (snd (rd_pexpire R ?g ttl r2)))"
  have ne: "scope \<noteq> ?g" using assms(1) key_families by (auto simp: slotKey_def)
  have g: "rd_get R k r1 = rd_get R k r" "rd_get R k r4 = rd_get R k r" for k
    using assms(2) by (simp_all add: r1_def r2_def r4_def get_zremUpTo get_zadd get_pexpire)
  have z: "rd_get R ?g r1 = None" "rd_get R scope (rd_zadd R ?g expires token r1) = None"
    using assms(1,3) g by (simp_all add: slotsOk_def get_zadd)
  have q: "rd_queue R k r1 = rd_queue R k r" "rd_queue R k r4 = rd_queue R k r" for k
    using assms(2) by (simp_all add: r1_def r2_def r4_def queue_zset queue_pexpire)
  have nq: "queueKey cfg \<noteq> ?g" "queueKey cfg \<noteq> scope"
    using assms(1) queue_key_differs [symmetric] by (auto simp: slotKey_def)
  have zq: "rd_zscore R (queueKey cfg) m r1 = rd_zscore R (queueKey cfg) m r" "rd_zscore R (queueKey cfg) m r4 = rd_zscore R (queueKey cfg) m r1" for m
  proof -
    show "rd_zscore R (queueKey cfg) m r1 = rd_zscore R (queueKey cfg) m r"
      using nq by (simp add: r1_def zscore_zremUpTo split: option.split)
    show "rd_zscore R (queueKey cfg) m r4 = rd_zscore R (queueKey cfg) m r1"
      using assms(2) nq by (simp add: r4_def r2_def zscore_pexpire zscore_zadd [OF z(1)] zscore_zadd [OF z(2)])
  qed
  have "rd_zcard R ?g r1 \<le> rd_zcard R ?g r"
    by (rule zcard_mono) (auto simp: r1_def zscore_zremUpTo split: option.splits if_splits)
  moreover have "rd_zscore R ?g m r4 = (if m = token then Some expires else rd_zscore R ?g m r1)" for m
    using assms(2) ne by (auto simp: r4_def r2_def zscore_pexpire zscore_zadd [OF z(1)] zscore_zadd [OF z(2)])
  note zcard_add(1) [OF this]
  moreover have "snd (acquireConcurrencyScript R ?g scope token now expires (jc_GlobalConcurrency cfg) smax ttl r) =
      (if jc_GlobalConcurrency cfg \<le> rd_zcard R ?g r1 \<or> smax \<le> rd_zcard R scope r1 then r1 else r4)"
    by (simp add: acquireConcurrencyScript_def r1_def r2_def r4_def Let_def)
  ultimately show ?thesis
    using assms(3) g q zq by (auto simp: quietStep_def jobAt_def sourceAt_def slotsOk_def streamAt_def)
qed

lemma release_slots:
  "slotsOk cfg R r \<Longrightarrow> quietStep cfg R r (snd (releaseConcurrencyScript R (globalKey cfg) scope token r)) \<and>
     slotsOk cfg R (snd (releaseConcurrencyScript R (globalKey cfg) scope token r))"
proof -
  assume s: "slotsOk cfg R r"
  have "rd_zcard R (globalKey cfg) (rd_zrem R scope token (rd_zrem R (globalKey cfg) token r)) \<le> rd_zcard R (globalKey cfg) r"
    by (rule zcard_mono) (auto simp: zscore_zrem split: if_splits)
  with s show ?thesis
    by (auto simp: releaseConcurrencyScript_def quietStep_def jobAt_def sourceAt_def slotsOk_def get_zrem queue_zset streamAt_def zscore_zrem)
qed

lemma renew_slots:
  assumes "slotKey cfg scope" "0 < ttl" "slotsOk cfg R r"
  shows "quietStep cfg R r (snd (renewConcurrencyLeaseScript R (globalKey cfg) scope token expires ttl r)) \<and>
    slotsOk cfg R (snd (renewConcurrencyLeaseScript R (globalKey cfg) scope token expires ttl r))"
proof (cases "rd_zscore R (globalKey cfg) token r = None")
  case True
  then show ?thesis using assms by (simp add: renewConcurrencyLeaseScript_def quietStep_def)
next
  case False
  let ?g = "globalKey cfg"
  define r1 where "r1 = rd_zadd R scope expires token (rd_zadd R ?g expires token r)"
  define r3 where "r3 = snd (rd_pexpire R scope ttl (snd (rd_pexpire R ?g ttl r1)))"
  have ne: "scope \<noteq> ?g" using assms(1) key_families by (auto simp: slotKey_def)
  have g: "rd_get R k r3 = rd_get R k r" for k using assms(2) by (simp add: r3_def r1_def get_zadd get_pexpire)
  have z: "rd_get R ?g r = None" "rd_get R scope (rd_zadd R ?g expires token r) = None"
    using assms(1,3) by (simp_all add: slotsOk_def get_zadd)
  have q: "rd_queue R k r3 = rd_queue R k r" for k using assms(2) by (simp add: r1_def r3_def queue_zset queue_pexpire)
  have nq: "queueKey cfg \<noteq> ?g" "queueKey cfg \<noteq> scope"
    using assms(1) queue_key_differs [symmetric] by (auto simp: slotKey_def)
  have zq: "rd_zscore R (queueKey cfg) m r3 = rd_zscore R (queueKey cfg) m r" for m
    using assms(2) nq by (simp add: r3_def r1_def zscore_pexpire zscore_zadd [OF z(1)] zscore_zadd [OF z(2)])
  have "rd_zscore R ?g m r3 = (if m = token then Some expires else rd_zscore R ?g m r)" for m
    using assms(2) ne by (auto simp: r3_def r1_def zscore_pexpire zscore_zadd [OF z(1)] zscore_zadd [OF z(2)])
  from zcard_add(2) [OF this False] have "slotsOk cfg R r3" using assms(3) g zq by (simp add: slotsOk_def streamAt_def)
  moreover have "snd (renewConcurrencyLeaseScript R ?g scope token expires ttl r) = r3"
    unfolding renewConcurrencyLeaseScript_def if_not_P [OF False] by (simp add: Let_def r1_def r3_def)
  ultimately show ?thesis
    using g q by (simp add: quietStep_def jobAt_def sourceAt_def)
qed

end

section \<open>The jobs in Redis\<close>

definition jobsOk :: "JobConfig \<Rightarrow> 'r Redis \<Rightarrow> gostring set \<Rightarrow> 'r \<Rightarrow> bool" where
  "jobsOk cfg R created r \<longleftrightarrow> (\<forall>jid v. idOk jid \<and> jobAt cfg R jid r = Some v \<longrightarrow>
     (\<exists>rec. v = Job rec \<and> jr_ID rec = jid \<and> jid \<in> created \<and> recordOk rec))"

definition sourcesOk :: "JobConfig \<Rightarrow> 'r Redis \<Rightarrow> gostring set \<Rightarrow> 'r \<Rightarrow> bool" where
  "sourcesOk cfg R created r \<longleftrightarrow> (\<forall>s v. sourceAt cfg R s r = Some v \<longrightarrow> (\<exists>x. v = Text x \<and> x \<in> created))"

definition worldOk :: "JobConfig \<Rightarrow> 'r Redis \<Rightarrow> gostring set \<Rightarrow> 'r \<Rightarrow> bool" where
  "worldOk cfg R created r \<longleftrightarrow> jobsOk cfg R created r \<and> sourcesOk cfg R created r \<and> slotsOk cfg R r"

text \<open>What may happen to a job: nothing, it expires, or it moves one step of its life.\<close>

definition evolves :: "JobConfig \<Rightarrow> 'r Redis \<Rightarrow> gostring set \<Rightarrow> 'r \<Rightarrow> 'r \<Rightarrow> bool" where
  "evolves cfg R created r r' \<longleftrightarrow> (\<forall>jid. idOk jid \<and> jid \<in> created \<longrightarrow>
     jobAt cfg R jid r' = jobAt cfg R jid r \<or> jobAt cfg R jid r' = None \<or>
     (\<exists>a b. jobAt cfg R jid r = Some (Job a) \<and> jobAt cfg R jid r' = Some (Job b) \<and> lifeStep a b))"

definition consistent :: "JobConfig \<Rightarrow> 'r Redis \<Rightarrow> gostring set \<Rightarrow> 'r \<Rightarrow> known \<Rightarrow> bool" where
  "consistent cfg R created r kn \<longleftrightarrow> (case kn of
       None \<Rightarrow> True
     | Some (jid, None) \<Rightarrow> idOk jid \<and> jid \<in> created \<and> jobAt cfg R jid r = None
     | Some (jid, Some cur) \<Rightarrow> idOk jid \<and> jid \<in> created \<and> jr_ID cur = jid \<and> (\<forall>st. jobAt cfg R jid r = Some (Job st) \<longrightarrow>
         jr_Version cur \<le> jr_Version st \<and> (jr_Version st = jr_Version cur \<longrightarrow> st = cur) \<and> (isTerminal (jr_Status cur) \<longrightarrow> st = cur)))"

lemma quietStep_evolves: "quietStep cfg R r r' \<Longrightarrow> evolves cfg R created r r'"
  by (simp add: quietStep_def evolves_def)

lemma quietStep_world:
  "\<lbrakk>quietStep cfg R r r'; slotsOk cfg R r'; worldOk cfg R created r\<rbrakk> \<Longrightarrow> worldOk cfg R created r'"
  by (auto simp: worldOk_def quietStep_def jobsOk_def sourcesOk_def)

lemma jobsOk_gone_or_same:
  "\<lbrakk>jobsOk cfg R created r; \<And>jid. idOk jid \<Longrightarrow> jobAt cfg R jid r' = jobAt cfg R jid r \<or> jobAt cfg R jid r' = None\<rbrakk> \<Longrightarrow>
     jobsOk cfg R created r'"
  unfolding jobsOk_def by (metis option.distinct(1))

lemma sourcesOk_gone_or_same:
  "\<lbrakk>sourcesOk cfg R created r; \<And>s. sourceAt cfg R s r' = sourceAt cfg R s r \<or> sourceAt cfg R s r' = None\<rbrakk> \<Longrightarrow>
     sourcesOk cfg R created r'"
  unfolding sourcesOk_def by (metis option.distinct(1))

lemma consistent_stable:
  assumes "consistent cfg R created r kn" "evolves cfg R created r r'" "created \<subseteq> created'"
  shows "consistent cfg R created' r' kn"
proof (cases kn)
  case None
  then show ?thesis by (simp add: consistent_def)
next
  case (Some y)
  obtain jid o' where y: "y = (jid, o')" by (metis surj_pair)
  have jid: "idOk jid" "jid \<in> created" using assms(1) Some y by (auto simp: consistent_def split: option.splits)
  consider (1) "jobAt cfg R jid r' = jobAt cfg R jid r" | (2) "jobAt cfg R jid r' = None"
    | (3) a b where "jobAt cfg R jid r = Some (Job a)" "jobAt cfg R jid r' = Some (Job b)" "lifeStep a b"
    using assms(2) [unfolded evolves_def, rule_format, of jid] jid by auto
  then show ?thesis
  proof cases
    case (3 a b)
    with lifeStep_fixed [OF 3(3)] show ?thesis using assms(1,3) Some y by (auto simp: consistent_def split: option.splits)
  qed (use assms(1,3) Some y in \<open>auto simp: consistent_def split: option.splits\<close>)
qed

context redis begin

lemma tick_world: "worldOk cfg R created r \<Longrightarrow> worldOk cfg R created (rd_tick R d r) \<and> evolves cfg R created r (rd_tick R d r)"
proof -
  assume w: "worldOk cfg R created r"
  have g: "rd_get R k (rd_tick R d r) = rd_get R k r \<or> rd_get R k (rd_tick R d r) = None" for k using get_tick [of k d r] by simp
  have "rd_zcard R (globalKey cfg) (rd_tick R d r) \<le> rd_zcard R (globalKey cfg) r"
    using zscore_tick [of "globalKey cfg" d r] by (intro zcard_mono) auto
  moreover have "streamAt R (queueKey cfg) (rd_tick R d r)"
    using w g zscore_tick [of "queueKey cfg" d r] unfolding worldOk_def slotsOk_def streamAt_def by metis
  ultimately have "slotsOk cfg R (rd_tick R d r)"
    using w g unfolding worldOk_def slotsOk_def by (metis order_trans)
  moreover have "jobsOk cfg R created (rd_tick R d r)"
    by (rule jobsOk_gone_or_same [of cfg R created r]) (use w g in \<open>simp_all add: worldOk_def jobAt_def\<close>)
  moreover have "sourcesOk cfg R created (rd_tick R d r)"
    by (rule sourcesOk_gone_or_same [of cfg R created r]) (use w g in \<open>simp_all add: worldOk_def sourceAt_def\<close>)
  moreover have "evolves cfg R created r (rd_tick R d r)" unfolding evolves_def jobAt_def using g by metis
  ultimately show ?thesis by (simp add: worldOk_def)
qed

text \<open>Saving: only over the state the program knows.\<close>

lemma save_effect:
  assumes "jobCfgOk cfg" "worldOk cfg R created r" "consistent cfg R created r (Some (jr_ID cur, Some cur))" "lifeStep cur rec"
    and "saveJobScript R (jobKey cfg (jr_ID rec)) (sourceKeyOf cfg rec) (jr_Version cur) rec (millis (jc_JobTTL cfg)) us r = (reply, r')"
  shows "worldOk cfg R created r' \<and> evolves cfg R created r r' \<and>
    (if reply = EInt 1 then jobAt cfg R (jr_ID rec) r = Some (Job cur) \<and> jobAt cfg R (jr_ID rec) r' = Some (Job rec) else r' = r) \<and>
    rd_queue R (queueKey cfg) r' = rd_queue R (queueKey cfg) r"
proof -
  have ttl: "0 < millis (jc_JobTTL cfg)" using assms(1) by (simp add: jobCfgOk_def)
  have fixed: "jr_ID rec = jr_ID cur" using lifeStep_fixed [OF assms(4)] by simp
  have id: "idOk (jr_ID rec)" "jr_ID rec \<in> created" using assms(3) fixed by (simp_all add: consistent_def)
  obtain sid where sid: "sourceKeyOf cfg rec = sourceEventKey cfg sid" using sourceKeyOf_ex by blast
  have same: "evolves cfg R created r r" by (simp add: evolves_def)
  consider (hit) "jobAt cfg R (jr_ID rec) r = Some (Job cur)" | (miss) "reply \<noteq> EInt 1" "r' = r"
    using assms(3,5) unfolding saveJobScript_def jobAt_def consistent_def fixed
    by (auto split: option.splits JobValue.splits if_splits)
  then show ?thesis
  proof cases
    case miss
    with assms(2) same show ?thesis by simp
  next
    case hit
    define r1 where "r1 = rd_set R (jobKey cfg (jr_ID rec)) (Job rec) (millis (jc_JobTTL cfg)) r"
    have r': "reply = EInt 1" "r' = (if us \<and> (rd_get R (sourceKeyOf cfg rec) r1 = None \<or> rd_get R (sourceKeyOf cfg rec) r1 = Some (Text (jr_ID rec)))
        then rd_set R (sourceKeyOf cfg rec) (Text (jr_ID rec)) (millis (jc_JobTTL cfg)) r1 else r1)"
      using assms(5) hit by (auto simp: saveJobScript_def jobAt_def r1_def Let_def)
    have job: "jobAt cfg R j r' = (if j = jr_ID rec then Some (Job rec) else jobAt cfg R j r)" if "idOk j" for j
      using that ttl job_key_families(5) [OF that, of cfg sid] by (auto simp: r'(2) r1_def jobAt_def get_set sid)
    have source: "sourceAt cfg R s r' \<in> {sourceAt cfg R s r, Some (Text (jr_ID rec))}" for s
      using ttl job_key_families(5) [OF id(1), symmetric] by (auto simp: r'(2) r1_def sourceAt_def get_set sid)
    have nk: "jobKey cfg (jr_ID rec) \<noteq> globalKey cfg" "\<not> slotKey cfg (jobKey cfg (jr_ID rec))"
      "sourceKeyOf cfg rec \<noteq> globalKey cfg" "\<not> slotKey cfg (sourceKeyOf cfg rec)"
      "jobKey cfg (jr_ID rec) \<noteq> queueKey cfg" "sourceKeyOf cfg rec \<noteq> queueKey cfg"
      using job_key_families [OF id(1)] key_families queue_key_differs by (auto simp: slotKey_def sid)
    have queue: "rd_queue R (queueKey cfg) r' = rd_queue R (queueKey cfg) r"
      using nk(5,6) [symmetric] by (simp add: r'(2) r1_def queue_set)
    have "semaphoreSame cfg R r r'"
      using semaphoreSame_trans [OF set_semaphore [OF ttl nk(1,2,5)] set_semaphore [OF ttl nk(3,4,6)]] set_semaphore [OF ttl nk(1,2,5)]
      by (simp add: r'(2) r1_def)
    then have "slotsOk cfg R r'" using assms(2) semaphoreSame_slots by (auto simp: worldOk_def)
    moreover have "recordOk rec" using assms(2) hit id lifeStep_ok [OF assms(4)] by (fastforce simp: worldOk_def jobsOk_def)
    then have "jobsOk cfg R created r'"
      using assms(2) id job unfolding worldOk_def jobsOk_def by (auto split: if_splits)
    moreover have "sourcesOk cfg R created r'"
      using assms(2) id source unfolding worldOk_def sourcesOk_def by (metis insertE option.inject singletonD)
    ultimately have "worldOk cfg R created r'" by (simp add: worldOk_def)
    moreover have "evolves cfg R created r r'" using hit job assms(4) by (auto simp: evolves_def)
    ultimately show ?thesis using hit r'(1) job [OF id(1)] queue by simp
  qed
qed

text \<open>Creating: under a fresh id.\<close>

lemma create_effect:
  assumes "jobCfgOk cfg" "worldOk cfg R created r" "idOk (jr_ID rec)" "jr_ID rec \<notin> created" "newJob rec"
    and "createJobScript R (jobKey cfg (jr_ID rec)) (sourceKeyOf cfg rec) (queueKey cfg) rec (millis (jc_JobTTL cfg)) us (jobPrefix cfg) r = (reply, r')"
  shows "worldOk cfg R (insert (jr_ID rec) created) r' \<and> evolves cfg R created r r' \<and>
    (\<exists>n x. reply = EPair n x \<and> x \<in> insert (jr_ID rec) created \<and> (if n = 1 then x = jr_ID rec \<and> jobAt cfg R x r' = Some (Job rec) \<and>
       rd_queue R (queueKey cfg) r' = rd_queue R (queueKey cfg) r @ [jr_ID rec] else r' = r)) \<and>
    (\<forall>jid. idOk jid \<longrightarrow> jid \<noteq> jr_ID rec \<longrightarrow> jobAt cfg R jid r' = jobAt cfg R jid r)"
proof -
  have ttl: "0 < millis (jc_JobTTL cfg)" using assms(1) by (simp add: jobCfgOk_def)
  obtain sid where sid: "sourceKeyOf cfg rec = sourceEventKey cfg sid" using sourceKeyOf_ex by blast
  have none: "jobAt cfg R (jr_ID rec) r = None"
    using assms(2-4) unfolding worldOk_def jobsOk_def by (metis not_None_eq)
  have grow: "worldOk cfg R (insert (jr_ID rec) created) r"
    using assms(2) by (fastforce simp: worldOk_def jobsOk_def sourcesOk_def)
  define mk where "mk = (\<lambda>r. let r1 = rd_set R (jobKey cfg (jr_ID rec)) (Job rec) (millis (jc_JobTTL cfg)) r
    in rd_xadd R (queueKey cfg) (jr_ID rec) (if us then rd_set R (sourceKeyOf cfg rec) (Text (jr_ID rec)) (millis (jc_JobTTL cfg)) r1 else r1))"
  consider (kept) x where "reply = EPair 0 x" "x \<in> insert (jr_ID rec) created" "r' = r"
    | (made) r0 where "reply = EPair 1 (jr_ID rec)" "r' = mk r0" "r0 = r \<or> r0 = rd_del R (sourceKeyOf cfg rec) r"
  proof -
    have src: "x \<in> created" if "rd_get R (sourceKeyOf cfg rec) r = Some (Text x)" for x
      using assms(2) that by (fastforce simp: worldOk_def sourcesOk_def sourceAt_def sid)
    let ?key = "jobKey cfg (jr_ID rec)"
    have cr: "createJobScript R ?key (sourceKeyOf cfg rec) (queueKey cfg) rec (millis (jc_JobTTL cfg)) us (jobPrefix cfg) r =
      (if rd_exists R ?key r then (EPair 0 (jr_ID rec), r)
       else if us then (case rd_get R (sourceKeyOf cfg rec) r of
            Some (Text existing) \<Rightarrow> if rd_exists R (jobPrefix cfg @ existing) r then (EPair 0 existing, r)
              else (EPair 1 (jr_ID rec), mk (rd_del R (sourceKeyOf cfg rec) r))
          | _ \<Rightarrow> (EPair 1 (jr_ID rec), mk r))
       else (EPair 1 (jr_ID rec), mk r))"
      by (simp only: createJobScript_def mk_def Let_def)
    note eq = assms(6) [unfolded cr]
    consider (1) "(EPair 0 (jr_ID rec), r) = (reply, r')" | (2) "(EPair 1 (jr_ID rec), mk r) = (reply, r')"
      | (3) "(EPair 1 (jr_ID rec), mk (rd_del R (sourceKeyOf cfg rec) r)) = (reply, r')"
      | (4) x where "rd_get R (sourceKeyOf cfg rec) r = Some (Text x)" "(EPair 0 x, r) = (reply, r')"
    proof (cases "rd_exists R ?key r")
      case True
      from eq [unfolded if_P [OF True]] show thesis by (rule 1)
    next
      case a: False
      note eq1 = eq [unfolded if_not_P [OF a]]
      show thesis
      proof (cases us)
        case False
        from eq1 [unfolded if_not_P [OF False]] show thesis by (rule 2)
      next
        case True
        note eq2 = eq1 [unfolded if_P [OF True]]
        consider (t) x where "rd_get R (sourceKeyOf cfg rec) r = Some (Text x)"
          | (n) "\<And>x. rd_get R (sourceKeyOf cfg rec) r \<noteq> Some (Text x)"
          by blast
        then show thesis
        proof cases
          case (t x)
          show thesis
            by (cases "rd_exists R (jobPrefix cfg @ x) r") (use eq2 t 3 4 in simp_all)
        next
          case n
          have "(EPair 1 (jr_ID rec), mk r) = (reply, r')"
            using eq2 n by (cases "rd_get R (sourceKeyOf cfg rec) r"; cases "the (rd_get R (sourceKeyOf cfg rec) r)") simp_all
          then show thesis by (rule 2)
        qed
      qed
    qed
    then show thesis
    proof cases
      case 1 then show thesis by (intro kept [of "jr_ID rec"]) simp_all
    next
      case 2 then show thesis by (intro made [of r]) simp_all
    next
      case 3 then show thesis by (intro made [of "rd_del R (sourceKeyOf cfg rec) r"]) simp_all
    next
      case (4 x) then show thesis using src [OF 4(1)] by (intro kept [of x]) simp_all
    qed
  qed
  then show ?thesis
  proof cases
    case kept
    with grow show ?thesis by (simp add: evolves_def)
  next
    case made
    have nk: "jobKey cfg (jr_ID rec) \<noteq> globalKey cfg" "\<not> slotKey cfg (jobKey cfg (jr_ID rec))"
      "sourceKeyOf cfg rec \<noteq> globalKey cfg" "\<not> slotKey cfg (sourceKeyOf cfg rec)"
      "jobKey cfg (jr_ID rec) \<noteq> queueKey cfg" "sourceKeyOf cfg rec \<noteq> queueKey cfg"
      using job_key_families [OF assms(3)] key_families queue_key_differs by (auto simp: slotKey_def sid)
    have job: "jobAt cfg R j r' = (if j = jr_ID rec then Some (Job rec) else jobAt cfg R j r)" if "idOk j" for j
      using made(3) that ttl job_key_families(5) [OF that, of cfg sid]
      by (auto simp: made(2) mk_def jobAt_def get_set get_xadd get_del sid Let_def)
    have source: "sourceAt cfg R s r' \<in> {sourceAt cfg R s r, None, Some (Text (jr_ID rec))}" for s
      using made(3) ttl job_key_families(5) [OF assms(3), of cfg s, symmetric]
      by (auto simp: made(2) mk_def sourceAt_def get_set get_xadd get_del sid Let_def)
    note set_job = set_semaphore [OF ttl nk(1,2,5)] and set_source = set_semaphore [OF ttl nk(3,4,6)]
    have same: "semaphoreSame cfg R r r0" using made(3) del_semaphore [OF nk(3,4,6)] semaphoreSame_refl by auto
    define r2 where "r2 = (let r1 = rd_set R (jobKey cfg (jr_ID rec)) (Job rec) (millis (jc_JobTTL cfg)) r0
      in if us then rd_set R (sourceKeyOf cfg rec) (Text (jr_ID rec)) (millis (jc_JobTTL cfg)) r1 else r1)"
    have r': "r' = rd_xadd R (queueKey cfg) (jr_ID rec) r2" by (simp add: made(2) mk_def r2_def Let_def)
    have same2: "semaphoreSame cfg R r0 r2" using semaphoreSame_trans [OF set_job set_source] set_job by (simp add: r2_def Let_def)
    have "streamAt R (queueKey cfg) r2"
      using semaphoreSame_trans [OF same same2] assms(2) by (simp add: semaphoreSame_def worldOk_def slotsOk_def)
    moreover have "rd_queue R (queueKey cfg) r2 = rd_queue R (queueKey cfg) r"
      using made(3) nk(5,6) [symmetric] by (auto simp: r2_def Let_def queue_set queue_del)
    ultimately have queue: "rd_queue R (queueKey cfg) r' = rd_queue R (queueKey cfg) r @ [jr_ID rec]"
      by (simp add: r' queue_xadd)
    note same
    moreover have "semaphoreSame cfg R r0 r'"
      using semaphoreSame_trans [OF same2 xadd_semaphore] by (simp add: r')
    ultimately have "slotsOk cfg R r'" using assms(2) semaphoreSame_slots semaphoreSame_trans by (metis worldOk_def)
    moreover have "jobsOk cfg R (insert (jr_ID rec) created) r'"
      using assms(2) job newJob_ok [OF assms(5)] unfolding worldOk_def jobsOk_def by (auto split: if_splits)
    moreover have "sourcesOk cfg R (insert (jr_ID rec) created) r'"
      using source grow unfolding worldOk_def sourcesOk_def
      by (metis insertE insertI1 option.distinct(1) option.inject singletonD)
    ultimately have "worldOk cfg R (insert (jr_ID rec) created) r'" by (simp add: worldOk_def)
    moreover have "evolves cfg R created r r'" using job assms(4) by (auto simp: evolves_def)
    ultimately show ?thesis using made(1) job assms(3) queue by auto
  qed
qed

end

section \<open>The system\<close>

record 'r Sys =
  sy_redis :: 'r
  sy_used :: "gostring set"
  sy_created :: "gostring set"
  sy_msgs :: "gostring set"
  sy_acked :: "gostring set"
  sy_procs :: "unit Prog list"

text \<open>What a script adds to the stream \<open>Q\<close>: the entries that follow those that were there. The group of the workers
  knows each of them by a fresh message id, which \<open>J\<close> maps to the job id of the entry.\<close>

definition added :: "'r Redis \<Rightarrow> gostring \<Rightarrow> 'r \<Rightarrow> 'r \<Rightarrow> gostring list" where
  "added R Q r r' = drop (length (rd_queue R Q r)) (rd_queue R Q r')"

definition freshMessages :: "(gostring \<Rightarrow> gostring) \<Rightarrow> gostring list \<Rightarrow> gostring list \<Rightarrow> 'r Sys \<Rightarrow> bool" where
  "freshMessages J mids jids s \<longleftrightarrow> map J mids = jids \<and> distinct mids \<and> set mids \<inter> (sy_msgs s \<union> sy_acked s) = {}"

text \<open>The id under which a script may create a job.\<close>

definition creates :: "Script \<Rightarrow> gostring set" where
  "creates sc = (case sc of CreateJob key source queue rec ttl us pre \<Rightarrow> {jr_ID rec} | _ \<Rightarrow> {})"

definition evalled :: "Script \<Rightarrow> gostring list \<Rightarrow> 'r \<Rightarrow> 'r Sys \<Rightarrow> 'r Sys" where
  "evalled sc mids r' s = s \<lparr> sy_redis := r', sy_created := sy_created s \<union> creates sc, sy_msgs := sy_msgs s \<union> set mids \<rparr>"

definition fromStream :: "(gostring \<Rightarrow> gostring) \<Rightarrow> 'r Sys \<Rightarrow> StreamMessage list \<Rightarrow> bool" where
  "fromStream J s ms \<longleftrightarrow> list_all (\<lambda>m. sm_ID m \<in> sy_msgs s \<and> sm_JobID m = J (sm_ID m)) ms"

text \<open>One command of a program: the program with the reply, the state after it.\<close>

inductive cmdStep :: "'r Redis \<Rightarrow> gostring \<Rightarrow> (gostring \<Rightarrow> gostring) \<Rightarrow> unit Prog \<Rightarrow> 'r Sys \<Rightarrow> unit Prog \<Rightarrow> 'r Sys \<Rightarrow> bool" for R Q J where
  get: "cmdStep R Q J (GetC key k) s (k (Inr (rd_get R key (sy_redis s)))) s"
| get_err: "cmdStep R Q J (GetC key k) s (k (Inl e)) s"
| setnx: "setNX R key v (millis ttl) (sy_redis s) = (b, r') \<Longrightarrow> x = Inr b \<or> x = Inl e \<Longrightarrow>
    cmdStep R Q J (SetNXC key v ttl k) s (k x) (s \<lparr> sy_redis := r' \<rparr>)"
| setnx_err: "cmdStep R Q J (SetNXC key v ttl k) s (k (Inl e)) s"
| eval: "runScript R sc (sy_redis s) = (reply, r') \<Longrightarrow> freshMessages J mids (added R Q (sy_redis s) r') s \<Longrightarrow>
    x = Inr reply \<or> x = Inl e \<Longrightarrow> cmdStep R Q J (EvalC sc k) s (k x) (evalled sc mids r' s)"
| eval_err: "cmdStep R Q J (EvalC sc k) s (k (Inl e)) s"
| ack: "cmdStep R Q J (AckC mid k) s (k x) (s \<lparr> sy_acked := insert mid (sy_acked s) \<rparr>)"
| ack_err: "cmdStep R Q J (AckC mid k) s (k (Some e)) s"
| dead: "cmdStep R Q J (DeadC rec k) s (k x) s"
| read: "fromStream J s ms \<Longrightarrow> cmdStep R Q J (ReadC c k) s (k (Inr ms)) s"
| read_err: "cmdStep R Q J (ReadC c k) s (k (Inl e)) s"
| claim: "fromStream J s ms \<Longrightarrow> cmdStep R Q J (ClaimC c st d n k) s (k (Inr (nx, ms))) s"
| claim_err: "cmdStep R Q J (ClaimC c st d n k) s (k (Inl e)) s"
| group: "cmdStep R Q J (GroupC k) s (k x) s"
| now: "cmdStep R Q J (NowC k) s (k t) s"
| newID: "idOk x \<Longrightarrow> x \<notin> sy_used s \<Longrightarrow> cmdStep R Q J (NewIDC k) s (k x) (s \<lparr> sy_used := insert x (sy_used s) \<rparr>)"
| today: "cmdStep R Q J (TodayC k) s (k x) s"
| run: "cmdStep R Q J (RunC input k) s (k x) s"

text \<open>The programs the service starts: submissions, turns of workers, recoveries and lease renewals.\<close>

inductive servicePrograms :: "JobConfig \<Rightarrow> unit Prog \<Rightarrow> bool" for cfg where
  submit: "servicePrograms cfg (andThen (Submit cfg req) (\<lambda>_. Ret ()))"
| worker: "servicePrograms cfg (workerTurn cfg consumer)"
| recovery: "servicePrograms cfg (andThen (recoverProcessingOnce cfg consumer start) (\<lambda>_. Ret ()))"
| renewal: "servicePrograms cfg (andThen (renewTick cfg jid rec t1 t2 t3) (\<lambda>_. Ret ()))"

lemma servicePrograms_free: "servicePrograms cfg p \<Longrightarrow> free cfg J p"
  by (induction rule: servicePrograms.induct)
    (simp_all add: ruled_Submit ruled_workerTurn ruled_recoverProcessingOnce ruled_renewTick)

inductive sysStep :: "JobConfig \<Rightarrow> 'r Redis \<Rightarrow> (gostring \<Rightarrow> gostring) \<Rightarrow> 'r Sys \<Rightarrow> 'r Sys \<Rightarrow> bool" for cfg R J where
  command: "\<lbrakk>i < length (sy_procs s); cmdStep R (queueKey cfg) J (sy_procs s ! i) s p' s'\<rbrakk> \<Longrightarrow>
    sysStep cfg R J s (s' \<lparr> sy_procs := (sy_procs s)[i := p'] \<rparr>)"
| crash: "i < length (sy_procs s) \<Longrightarrow> sysStep cfg R J s (s \<lparr> sy_procs := (sy_procs s)[i := Ret ()] \<rparr>)"
| spawn: "servicePrograms cfg p \<Longrightarrow> sysStep cfg R J s (s \<lparr> sy_procs := sy_procs s @ [p] \<rparr>)"
| tick: "sysStep cfg R J s (s \<lparr> sy_redis := rd_tick R d (sy_redis s) \<rparr>)"

definition sysStart :: "'r \<Rightarrow> 'r Sys" where
  "sysStart r = \<lparr>sy_redis = r, sy_used = {}, sy_created = {}, sy_msgs = {}, sy_acked = {}, sy_procs = []\<rparr>"

definition emptyRedis :: "'r Redis \<Rightarrow> 'r \<Rightarrow> bool" where
  "emptyRedis R r \<longleftrightarrow> (\<forall>k. rd_get R k r = None) \<and> (\<forall>k m. rd_zscore R k m r = None)"

section \<open>Its invariant\<close>

definition procOk :: "JobConfig \<Rightarrow> 'r Redis \<Rightarrow> (gostring \<Rightarrow> gostring) \<Rightarrow> 'r Sys \<Rightarrow> gostring option \<Rightarrow> known \<Rightarrow> gostring set \<Rightarrow> unit Prog \<Rightarrow> bool" where
  "procOk cfg R J s own kn K p \<longleftrightarrow> ruled cfg J K own kn p \<and> consistent cfg R (sy_created s) (sy_redis s) kn \<and> K \<subseteq> sy_created s \<and>
     (\<forall>x. own = Some x \<longrightarrow> idOk x \<and> x \<in> sy_used s \<and> x \<notin> sy_created s)"

text \<open>No unfinished job without a message that is still to be acknowledged.\<close>

definition pendingOk :: "JobConfig \<Rightarrow> 'r Redis \<Rightarrow> (gostring \<Rightarrow> gostring) \<Rightarrow> 'r Sys \<Rightarrow> bool" where
  "pendingOk cfg R J s \<longleftrightarrow> (\<forall>jid rec. idOk jid \<and> jobAt cfg R jid (sy_redis s) = Some (Job rec) \<and> \<not> isTerminal (jr_Status rec) \<longrightarrow>
     (\<exists>mid \<in> sy_msgs s - sy_acked s. J mid = jid))"

definition sysOk :: "JobConfig \<Rightarrow> 'r Redis \<Rightarrow> (gostring \<Rightarrow> gostring) \<Rightarrow> 'r Sys \<Rightarrow> bool" where
  "sysOk cfg R J s \<longleftrightarrow> worldOk cfg R (sy_created s) (sy_redis s) \<and> (\<forall>x \<in> sy_created s. idOk x) \<and> sy_created s \<subseteq> sy_used s \<and>
     (\<forall>mid \<in> sy_msgs s. J mid \<in> sy_created s) \<and> pendingOk cfg R J s"

text \<open>What one command of a program guarantees to the others.\<close>

definition guarantee :: "JobConfig \<Rightarrow> 'r Redis \<Rightarrow> gostring option \<Rightarrow> gostring option \<Rightarrow> 'r Sys \<Rightarrow> 'r Sys \<Rightarrow> bool" where
  "guarantee cfg R own own' s s' \<longleftrightarrow> evolves cfg R (sy_created s) (sy_redis s) (sy_redis s') \<and> sy_created s \<subseteq> sy_created s' \<and>
     sy_created s' \<subseteq> sy_created s \<union> set_option own \<and> sy_used s \<subseteq> sy_used s' \<and>
     (\<forall>x. own' = Some x \<longrightarrow> own = Some x \<or> x \<notin> sy_used s)"

lemma guarantee_refl: "guarantee cfg R own own s s"
  by (simp add: guarantee_def evolves_def)

lemma pending_evolves:
  assumes "pendingOk cfg R J s" "sysOk cfg R J s" "evolves cfg R (sy_created s) (sy_redis s) (sy_redis s')" "sy_msgs s \<subseteq> sy_msgs s'" "sy_acked s' = sy_acked s"
    and "\<And>jid. idOk jid \<Longrightarrow> jid \<notin> sy_created s \<Longrightarrow> jobAt cfg R jid (sy_redis s') = None \<or> (\<exists>mid \<in> sy_msgs s' - sy_acked s'. J mid = jid)"
  shows "pendingOk cfg R J s'"
  unfolding pendingOk_def
proof (intro allI impI, elim conjE)
  fix jid rec
  assume a: "idOk jid" "jobAt cfg R jid (sy_redis s') = Some (Job rec)" "\<not> isTerminal (jr_Status rec)"
  show "\<exists>mid \<in> sy_msgs s' - sy_acked s'. J mid = jid"
  proof (cases "jid \<in> sy_created s")
    case True
    with assms(3) a consider "jobAt cfg R jid (sy_redis s) = Some (Job rec)"
      | b c where "jobAt cfg R jid (sy_redis s) = Some (Job b)" "lifeStep b c"
      unfolding evolves_def by (metis option.distinct(1))
    then obtain b where "jobAt cfg R jid (sy_redis s) = Some (Job b)" "\<not> isTerminal (jr_Status b)"
      using a(3) lifeStep_fixed by metis
    then show ?thesis using assms(1,4,5) a(1) unfolding pendingOk_def by blast
  next
    case False
    from assms(6) [OF a(1) False] a(2) show ?thesis by simp
  qed
qed

lemma sysOkD:
  assumes "sysOk cfg R J s"
  shows "worldOk cfg R (sy_created s) (sy_redis s)" "x \<in> sy_created s \<Longrightarrow> idOk x" "sy_created s \<subseteq> sy_used s"
    "mid \<in> sy_msgs s \<Longrightarrow> J mid \<in> sy_created s" "pendingOk cfg R J s"
  using assms by (simp_all add: sysOk_def)

lemma uncreated_none: "\<lbrakk>worldOk cfg R created r; idOk jid; jid \<notin> created\<rbrakk> \<Longrightarrow> jobAt cfg R jid r = None"
  unfolding worldOk_def jobsOk_def by (metis not_None_eq)

lemma sysOk_redis:
  assumes "sysOk cfg R J s" "worldOk cfg R (sy_created s) r'" "evolves cfg R (sy_created s) (sy_redis s) r'"
  shows "sysOk cfg R J (s \<lparr> sy_redis := r' \<rparr>)"
proof -
  have "pendingOk cfg R J (s \<lparr> sy_redis := r' \<rparr>)"
    by (rule pending_evolves [OF sysOkD(5) [OF assms(1)] assms(1)]) (simp_all add: assms(3) uncreated_none [OF assms(2)])
  then show ?thesis using sysOkD(2-4) [OF assms(1)] assms(2) by (auto simp: sysOk_def)
qed

lemma procOkD:
  assumes "procOk cfg R J s own kn K p"
  shows "ruled cfg J K own kn p" "consistent cfg R (sy_created s) (sy_redis s) kn" "K \<subseteq> sy_created s"
    "own = Some x \<Longrightarrow> idOk x \<and> x \<in> sy_used s \<and> x \<notin> sy_created s"
  using assms by (simp_all add: procOk_def)

lemma guaranteeD:
  assumes "guarantee cfg R own own' s s'"
  shows "evolves cfg R (sy_created s) (sy_redis s) (sy_redis s')" "sy_created s \<subseteq> sy_created s'"
    "sy_created s' \<subseteq> sy_created s \<union> set_option own" "sy_used s \<subseteq> sy_used s'" "own' = Some x \<Longrightarrow> own = Some x \<or> x \<notin> sy_used s"
  using assms by (simp_all add: guarantee_def)

lemma procOk_other:
  assumes "procOk cfg R J s own kn K p" "guarantee cfg R own1 own1' s s'" "\<And>x. own = Some x \<Longrightarrow> own1 \<noteq> Some x"
  shows "procOk cfg R J s' own kn K p"
proof -
  note p = procOkD [OF assms(1)] and g = guaranteeD [OF assms(2)]
  have "consistent cfg R (sy_created s') (sy_redis s') kn" by (rule consistent_stable [OF p(2) g(1,2)])
  moreover have "idOk x \<and> x \<in> sy_used s' \<and> x \<notin> sy_created s'" if "own = Some x" for x
    using p(4) [OF that] g(3,4) assms(3) [OF that] by auto
  moreover have "K \<subseteq> sy_created s'" using p(3) g(2) by (rule subset_trans)
  ultimately show ?thesis using p(1) by (simp add: procOk_def)
qed

lemma no_message:
  assumes "freshMessages J mids (added R Q (sy_redis s) r') s" "rd_queue R Q r' = rd_queue R Q (sy_redis s)" "creates sc = {}"
  shows "evalled sc mids r' s = s \<lparr> sy_redis := r' \<rparr>"
  using assms by (simp add: freshMessages_def added_def evalled_def)

context redis begin

lemma script_ok:
  assumes "jobCfgOk cfg" "sysOk cfg R J s" "procOk cfg R J s own kn K (EvalC sc k)"
    and "runScript R sc (sy_redis s) = (reply, r')" "freshMessages J mids (added R (queueKey cfg) (sy_redis s) r') s" "x = Inr reply \<or> x = Inl e"
  shows "sysOk cfg R J (evalled sc mids r' s) \<and>
    procOk cfg R J (evalled sc mids r' s) (own_after_eval own sc) (known_after_eval kn sc x) (K \<union> toldEval sc x) (k x) \<and>
    guarantee cfg R own (own_after_eval own sc) s (evalled sc mids r' s)"
proof -
  have w: "worldOk cfg R (sy_created s) (sy_redis s)" and ok: "scriptOk cfg own kn sc" and c: "consistent cfg R (sy_created s) (sy_redis s) kn"
    and slots: "slotsOk cfg R (sy_redis s)"
    using assms(2,3) by (simp_all add: sysOk_def procOk_def worldOk_def)
  have ttl: "0 < millis (claimTTL cfg)" using assms(1) by (simp add: jobCfgOk_def)
  have run: "ruled cfg J (K \<union> toldEval sc x) (own_after_eval own sc) (known_after_eval kn sc x) (k x)" if "replyOk x"
    using assms(3) that by (simp add: procOk_def)
  have quiet: ?thesis
    if q: "quietStep cfg R (sy_redis s) r'" "slotsOk cfg R r'" and e: "creates sc = {}"
      and kn: "known_after_eval kn sc x = kn" "own_after_eval own sc = own" "toldEval sc x = {}" "replyOk x"
  proof -
    have ev: "evolves cfg R (sy_created s) (sy_redis s) r'" by (rule quietStep_evolves [OF q(1)])
    have e: "evalled sc mids r' s = s \<lparr> sy_redis := r' \<rparr>" by (rule no_message [OF assms(5) _ e]) (use q(1) in \<open>simp add: quietStep_def\<close>)
    have "sysOk cfg R J (s \<lparr> sy_redis := r' \<rparr>)"
      by (rule sysOk_redis [OF assms(2) quietStep_world [OF q w] ev])
    moreover have "guarantee cfg R own own s (s \<lparr> sy_redis := r' \<rparr>)" using ev by (simp add: guarantee_def)
    ultimately show ?thesis
      using run kn e consistent_stable [OF c ev] assms(3) by (simp add: procOk_def)
  qed
  show ?thesis
  proof (cases sc)
    case (CreateJob key source queue rec jttl us pre)
    let ?s = "evalled sc mids r' s"
    have o: "own = Some (jr_ID rec)" and n: "newJob rec"
      and args: "key = jobKey cfg (jr_ID rec)" "source = sourceKeyOf cfg rec" "queue = queueKey cfg" "jttl = millis (jc_JobTTL cfg)" "pre = jobPrefix cfg"
      using ok CreateJob by (simp_all add: scriptOk_def)
    have id: "idOk (jr_ID rec)" "jr_ID rec \<notin> sy_created s" "jr_ID rec \<in> sy_used s" using assms(3) o by (simp_all add: procOk_def)
    have "createJobScript R (jobKey cfg (jr_ID rec)) (sourceKeyOf cfg rec) (queueKey cfg) rec (millis (jc_JobTTL cfg)) us (jobPrefix cfg) (sy_redis s) = (reply, r')"
      using assms(4) args CreateJob by (simp add: runScript_def)
    from create_effect [OF assms(1) w id(1,2) n this]
    obtain m y where eff: "worldOk cfg R (insert (jr_ID rec) (sy_created s)) r'" "evolves cfg R (sy_created s) (sy_redis s) r'"
      "reply = EPair m y" "y \<in> insert (jr_ID rec) (sy_created s)" "if m = 1 then y = jr_ID rec \<and> jobAt cfg R y r' = Some (Job rec) \<and>
         rd_queue R (queueKey cfg) r' = rd_queue R (queueKey cfg) (sy_redis s) @ [jr_ID rec] else r' = sy_redis s"
      "\<And>jid. idOk jid \<Longrightarrow> jid \<noteq> jr_ID rec \<Longrightarrow> jobAt cfg R jid r' = jobAt cfg R jid (sy_redis s)" by blast
    have y: "idOk y" using eff(4) id(1) assms(2) by (auto simp: sysOk_def)
    note none = uncreated_none [OF w]
    define s' where "s' = ?s"
    have f: "sy_redis s' = r'" "sy_created s' = insert (jr_ID rec) (sy_created s)" "sy_used s' = sy_used s" "sy_acked s' = sy_acked s"
      "sy_msgs s' = sy_msgs s \<union> set mids"
      by (auto simp: s'_def evalled_def creates_def CreateJob)
    have ad: "map J mids = (if m = 1 then [jr_ID rec] else [])" "set mids \<inter> sy_acked s = {}"
      using assms(5) eff(5) by (auto simp: freshMessages_def added_def split: if_splits)
    then have mid: "\<forall>mid \<in> set mids. J mid = jr_ID rec" "m = 1 \<Longrightarrow> \<exists>mid \<in> set mids. mid \<notin> sy_acked s"
      by (auto split: if_splits)
    have "pendingOk cfg R J s'"
    proof (rule pending_evolves [OF sysOkD(5) [OF assms(2)] assms(2)])
      fix jid assume j: "idOk jid" "jid \<notin> sy_created s"
      show "jobAt cfg R jid (sy_redis s') = None \<or> (\<exists>m \<in> sy_msgs s' - sy_acked s'. J m = jid)"
      proof (cases "jid = jr_ID rec")
        case True
        show ?thesis using True eff(5) mid none [OF j] by (cases "m = 1") (auto simp: f)
      next
        case False
        with eff(6) [OF j(1)] none [OF j] show ?thesis by (simp add: f)
      qed
    qed (use eff(2) in \<open>auto simp: f\<close>)
    then have "sysOk cfg R J s'" using eff(1) id sysOkD(2-4) [OF assms(2)] mid by (auto simp: sysOk_def f)
    moreover have "guarantee cfg R own None s s'" using eff(2) o by (auto simp: guarantee_def f)
    moreover have "replyOk x" using assms(6) eff(3) y by (auto simp: replyOk_def)
    then have "ruled cfg J (K \<union> toldEval sc x) None kn (k x)"
      using run by (simp add: own_after_eval_def known_after_eval_def CreateJob)
    moreover have "toldEval sc x \<subseteq> insert (jr_ID rec) (sy_created s)"
      using assms(6) eff(3,4) by (auto simp: toldEval_def CreateJob)
    then have "K \<union> toldEval sc x \<subseteq> sy_created s'" using assms(3) by (auto simp: procOk_def f)
    moreover have "consistent cfg R (sy_created s') (sy_redis s') kn"
      using consistent_stable [OF c eff(2)] by (auto simp: f)
    ultimately show ?thesis by (simp add: procOk_def own_after_eval_def known_after_eval_def CreateJob s'_def)
  next
    case (SaveJob key source expected rec jttl us)
    then obtain cur where cur: "kn = Some (jr_ID cur, Some cur)" "expected = jr_Version cur" "lifeStep cur rec"
      "key = jobKey cfg (jr_ID rec)" "source = sourceKeyOf cfg rec" "jttl = millis (jc_JobTTL cfg)"
      using ok by (auto simp: scriptOk_def)
    have "saveJobScript R (jobKey cfg (jr_ID rec)) (sourceKeyOf cfg rec) (jr_Version cur) rec (millis (jc_JobTTL cfg)) us (sy_redis s) = (reply, r')"
      using assms(4) SaveJob cur by (simp add: runScript_def)
    from save_effect [OF assms(1) w c [unfolded cur(1)] cur(3) this]
    have eff: "worldOk cfg R (sy_created s) r'" "evolves cfg R (sy_created s) (sy_redis s) r'"
      "reply = EInt 1 \<Longrightarrow> jobAt cfg R (jr_ID rec) r' = Some (Job rec)"
      "rd_queue R (queueKey cfg) r' = rd_queue R (queueKey cfg) (sy_redis s)" by (auto split: if_splits)
    have s': "evalled sc mids r' s = s \<lparr> sy_redis := r' \<rparr>" by (rule no_message [OF assms(5) eff(4)]) (simp add: creates_def SaveJob)
    have id: "idOk (jr_ID rec)" "jr_ID rec \<in> sy_created s" using c cur(1) lifeStep_fixed [OF cur(3)] by (simp_all add: consistent_def)
    have "consistent cfg R (sy_created s) r' (known_after_eval kn sc x)"
      using eff(3) id assms(6) by (auto simp: consistent_def known_after_eval_def SaveJob)
    moreover have "replyOk x"
      using assms(4,6) SaveJob by (auto simp: replyOk_def runScript_def saveJobScript_def Let_def split: option.splits JobValue.splits if_splits)
    ultimately show ?thesis
      using sysOk_redis [OF assms(2) eff(1,2)] run eff(2) assms(3) unfolding s'
      by (simp add: procOk_def guarantee_def own_after_eval_def toldEval_def SaveJob)
  next
    case (ReleaseToken key token)
    have r: "r' = snd (releaseTokenScript R key token (sy_redis s))" and rep: "replyOk x"
      using assms(4,6) ReleaseToken by (auto simp: runScript_def replyOk_def releaseTokenScript_def split: if_splits)
    show ?thesis
      by (rule quiet) (use token_script(1) [of cfg key 1] semaphoreSame_slots [OF _ slots] ok ReleaseToken rep r in
        \<open>auto simp: scriptOk_def creates_def known_after_eval_def own_after_eval_def toldEval_def\<close>)
  next
    case (RenewToken key token t)
    have r: "r' = snd (renewTokenLeaseScript R key token t (sy_redis s))" and rep: "replyOk x"
      using assms(4,6) RenewToken by (auto simp: runScript_def replyOk_def renewTokenLeaseScript_def split_beta Let_def split: if_splits)
    show ?thesis
      by (rule quiet) (use token_script(2) [of cfg key t] semaphoreSame_slots [OF _ slots] ok RenewToken rep r ttl in
        \<open>auto simp: scriptOk_def creates_def known_after_eval_def own_after_eval_def toldEval_def\<close>)
  next
    case (AcquireConcurrency global scope token now expires gmax smax t)
    have r: "r' = snd (acquireConcurrencyScript R global scope token now expires gmax smax t (sy_redis s))" and rep: "replyOk x"
      using assms(4,6) AcquireConcurrency by (auto simp: runScript_def replyOk_def acquireConcurrencyScript_def Let_def split: if_splits)
    show ?thesis
      by (rule quiet) (use acquire_slots [of cfg scope t] slots ok AcquireConcurrency rep r ttl in
        \<open>auto simp: scriptOk_def creates_def known_after_eval_def own_after_eval_def toldEval_def\<close>)
  next
    case (ReleaseConcurrency global scope token)
    have r: "r' = snd (releaseConcurrencyScript R global scope token (sy_redis s))" and rep: "replyOk x"
      using assms(4,6) ReleaseConcurrency by (auto simp: runScript_def replyOk_def releaseConcurrencyScript_def)
    show ?thesis
      by (rule quiet) (use release_slots [of cfg] slots ok ReleaseConcurrency rep r in
        \<open>auto simp: scriptOk_def creates_def known_after_eval_def own_after_eval_def toldEval_def\<close>)
  next
    case (RenewConcurrency global scope token expires t)
    have r: "r' = snd (renewConcurrencyLeaseScript R global scope token expires t (sy_redis s))" and rep: "replyOk x"
      using assms(4,6) RenewConcurrency by (auto simp: runScript_def replyOk_def renewConcurrencyLeaseScript_def Let_def split: if_splits)
    show ?thesis
      by (rule quiet) (use renew_slots [of cfg scope t] slots ok RenewConcurrency rep r ttl in
        \<open>auto simp: scriptOk_def creates_def known_after_eval_def own_after_eval_def toldEval_def\<close>)
  qed
qed

lemma same_ok:
  "\<lbrakk>sysOk cfg R J s; procOk cfg R J s own kn K p; ruled cfg J K own kn p'\<rbrakk> \<Longrightarrow>
     \<exists>own' kn' K'. sysOk cfg R J s \<and> procOk cfg R J s own' kn' K' p' \<and> guarantee cfg R own own' s s"
  using guarantee_refl by (metis procOk_def)

lemma cmd_ok:
  assumes "cmdStep R (queueKey cfg) J p s p' s'" "jobCfgOk cfg" "sysOk cfg R J s" "procOk cfg R J s own kn K p"
  shows "\<exists>own' kn' K'. sysOk cfg R J s' \<and> procOk cfg R J s' own' kn' K' p' \<and> guarantee cfg R own own' s s'"
  using assms
proof (induction rule: cmdStep.induct)
  case (get key k s)
  note p = procOkD [OF get(3)] and w = sysOkD [OF get(2)]
  obtain jid where j: "jid \<in> K" "idOk jid" "key = jobKey cfg jid"
    "\<And>r. plausible jid r \<Longrightarrow> ruled cfg J K own (known_after_get jid r) (k r)" using p(1) by auto
  have c: "jid \<in> sy_created s" using j(1) p(3) by auto
  let ?r = "Inr (rd_get R key (sy_redis s)) :: JobValue option result"
  have v: "rd_get R key (sy_redis s) = jobAt cfg R jid (sy_redis s)" by (simp add: jobAt_def j(3))
  have "plausible jid ?r \<and> consistent cfg R (sy_created s) (sy_redis s) (known_after_get jid ?r)"
  proof (cases "jobAt cfg R jid (sy_redis s)")
    case None
    then show ?thesis using j(2) c by (simp add: v plausible_def known_after_get_def consistent_def)
  next
    case (Some y)
    then obtain rec where "y = Job rec" "jr_ID rec = jid" using w(1) j(2) unfolding worldOk_def jobsOk_def by blast
    then show ?thesis using Some j(2) c by (simp add: v plausible_def known_after_get_def consistent_def)
  qed
  with j(4) p get(2) show ?case using guarantee_refl by (metis procOk_def)
next
  case (get_err key k s e)
  from procOkD(1) [OF get_err(3)] obtain jid where j: "\<And>r. plausible jid r \<Longrightarrow> ruled cfg J K own (known_after_get jid r) (k r)" by auto
  have "ruled cfg J K own None (k (Inl e))" using j [of "Inl e"] by (simp add: plausible_def known_after_get_def)
  moreover have "consistent cfg R (sy_created s) (sy_redis s) None" by (simp add: consistent_def)
  ultimately show ?case using get_err(2) procOkD [OF get_err(3)] guarantee_refl by (metis procOk_def)
next
  case (setnx key v ttl s b r' x e k)
  note p = procOkD [OF setnx(5)]
  have k: "lockKey cfg key" "ttl = claimTTL cfg" "ruled cfg J K own kn (k x)" using p(1) by simp_all
  have "0 < millis ttl" using k(2) setnx(3) by (simp add: jobCfgOk_def)
  from token_script(3) [OF k(1) this, of "sy_redis s" v] setnx(1)
  have q: "quietStep cfg R (sy_redis s) r'" "semaphoreSame cfg R (sy_redis s) r'" by simp_all
  have sl: "slotsOk cfg R r'" using semaphoreSame_slots [OF q(2)] sysOkD(1) [OF setnx(4)] by (simp add: worldOk_def)
  have ev: "evolves cfg R (sy_created s) (sy_redis s) r'" by (rule quietStep_evolves [OF q(1)])
  have "sysOk cfg R J (s \<lparr> sy_redis := r' \<rparr>)"
    by (rule sysOk_redis [OF setnx(4) quietStep_world [OF q(1) sl sysOkD(1) [OF setnx(4)]] ev])
  moreover have g: "guarantee cfg R own own s (s \<lparr> sy_redis := r' \<rparr>)" using ev by (simp add: guarantee_def)
  moreover have "procOk cfg R J (s \<lparr> sy_redis := r' \<rparr>) own kn K (k x)"
    using k(3) p consistent_stable [OF p(2) ev subset_refl] by (simp add: procOk_def)
  ultimately show ?case by blast
next
  case (setnx_err key v ttl k s e)
  then show ?case by (intro same_ok) (auto dest: procOkD(1))
next
  case (eval sc s reply r' mids x e k)
  then show ?case using script_ok by blast
next
  case (eval_err sc k s e)
  let ?own = "own_after_eval own sc" and ?kn = "known_after_eval kn sc (Inl e)"
  note p = procOkD [OF eval_err(3)]
  have r: "ruled cfg J (K \<union> toldEval sc (Inl e)) ?own ?kn (k (Inl e))" using p(1) by (simp add: replyOk_def)
  have "?kn = kn \<or> ?kn = None" by (cases sc) (simp_all add: known_after_eval_def)
  then have "consistent cfg R (sy_created s) (sy_redis s) ?kn" using p(2) by (auto simp: consistent_def)
  moreover have "?own = own \<or> ?own = None" by (cases sc) (simp_all add: own_after_eval_def)
  then have "(\<forall>x. ?own = Some x \<longrightarrow> idOk x \<and> x \<in> sy_used s \<and> x \<notin> sy_created s) \<and> guarantee cfg R own ?own s s"
    using p(4) guarantee_refl [of cfg R own s] by (auto simp: guarantee_def)
  moreover have "K \<union> toldEval sc (Inl e) \<subseteq> sy_created s" using p(3) by (cases sc) (simp_all add: toldEval_def)
  ultimately show ?case using r eval_err(2) by (metis procOk_def)
next
  case (ack mid k s x)
  note p = procOkD [OF ack(3)] and w = sysOkD [OF ack(2)]
  let ?s = "s \<lparr> sy_acked := insert mid (sy_acked s) \<rparr>"
  have settled: "settled (J mid) kn" "ruled cfg J K own kn (k x)" using p(1) by simp_all
  have finished: "isTerminal (jr_Status rec)" if "jobAt cfg R (J mid) (sy_redis s) = Some (Job rec)" for rec
    using settled(1) p(2) that by (auto simp: settled_def consistent_def)
  have "pendingOk cfg R J ?s"
    unfolding pendingOk_def
  proof (intro allI impI, elim conjE)
    fix jid rec
    assume a: "idOk jid" "jobAt cfg R jid (sy_redis ?s) = Some (Job rec)" "\<not> isTerminal (jr_Status rec)"
    then obtain m where "m \<in> sy_msgs s - sy_acked s" "J m = jid" using w(5) by (auto simp: pendingOk_def)
    moreover have "m \<noteq> mid" using a finished [of rec] calculation by auto
    ultimately show "\<exists>m \<in> sy_msgs ?s - sy_acked ?s. J m = jid" by auto
  qed
  then have "sysOk cfg R J ?s" using w by (auto simp: sysOk_def)
  moreover have "guarantee cfg R own own s ?s" by (simp add: guarantee_def evolves_def)
  moreover have "procOk cfg R J ?s own kn K (k x)" using p settled(2) by (simp add: procOk_def)
  ultimately show ?case by blast
next
  case (ack_err mid k s e)
  then show ?case by (intro same_ok) (auto dest: procOkD(1))
next
  case (dead rec k s x)
  then show ?case by (intro same_ok) (auto dest: procOkD(1))
next
  case (read s ms c k)
  note p = procOkD [OF read(4)] and w = sysOkD [OF read(3)]
  have "list_all (delivered J) ms" using read(1) w(2,4) by (auto simp: fromStream_def list_all_iff delivered_def)
  then have "ruled cfg J (K \<union> told ms) own kn (k (Inr ms))" using p(1) by (metis ruled.simps(7) sum.case(2) sum.inject(2))
  moreover have "K \<union> told ms \<subseteq> sy_created s" using p(3) read(1) w(4) by (auto simp: told_def fromStream_def list_all_iff)
  ultimately have "procOk cfg R J s own kn (K \<union> told ms) (k (Inr ms))" using p by (simp add: procOk_def)
  then show ?case using read(3) guarantee_refl by blast
next
  case (read_err c k s e)
  have "ruled cfg J K own kn (k (Inl e))"
    using procOkD(1) [OF read_err(3), unfolded ruled.simps(7), rule_format, of "Inl e"] by simp
  with read_err(2,3) show ?case by (rule same_ok)
next
  case (claim s ms c st d n k nx)
  note p = procOkD [OF claim(4)] and w = sysOkD [OF claim(3)]
  have "list_all (delivered J) ms" using claim(1) w(2,4) by (auto simp: fromStream_def list_all_iff delivered_def)
  with p(1) have "ruled cfg J (K \<union> (case Inr (nx, ms) :: (gostring \<times> StreamMessage list) result of Inr (x, ms) \<Rightarrow> told ms | Inl _ \<Rightarrow> {})) own kn (k (Inr (nx, ms)))"
    unfolding ruled.simps(8) by blast
  then have "ruled cfg J (K \<union> told ms) own kn (k (Inr (nx, ms)))" by simp
  moreover have "K \<union> told ms \<subseteq> sy_created s" using p(3) claim(1) w(4) by (auto simp: told_def fromStream_def list_all_iff)
  ultimately have "procOk cfg R J s own kn (K \<union> told ms) (k (Inr (nx, ms)))" using p by (simp add: procOk_def)
  then show ?case using claim(3) guarantee_refl by blast
next
  case (claim_err c st d n k s e)
  have "ruled cfg J K own kn (k (Inl e))"
    using procOkD(1) [OF claim_err(3), unfolded ruled.simps(8), rule_format, of "Inl e"] by simp
  with claim_err(2,3) show ?case by (rule same_ok)
next
  case (group k s x)
  then show ?case by (intro same_ok) (auto dest: procOkD(1))
next
  case (now k s t)
  then show ?case by (intro same_ok) (auto dest: procOkD(1))
next
  case (newID x s k)
  note p = procOkD [OF newID(5)] and w = sysOkD [OF newID(4)]
  let ?s = "s \<lparr> sy_used := insert x (sy_used s) \<rparr>"
  have "sysOk cfg R J ?s" using w by (auto simp: sysOk_def pendingOk_def)
  moreover have "procOk cfg R J ?s (Some x) kn K (k x)" using p newID(1,2) w(3) by (auto simp: procOk_def)
  moreover have "guarantee cfg R own (Some x) s ?s" using newID(2) by (auto simp: guarantee_def evolves_def)
  ultimately show ?case by blast
next
  case (today k s x)
  then show ?case by (intro same_ok) (auto dest: procOkD(1))
next
  case (run input k s x)
  then show ?case by (intro same_ok) (auto dest: procOkD(1))
qed

end

end
