(* ===== verification/Job_Claims.thy ===== *)
theory Job_Claims
  imports Job_Safety
begin

text \<open>
  The properties of the asynchronous jobs, on all reachable states of the system of \<open>Job_Safety\<close>, and the
  locks one worker holds while it processes a message.
\<close>

section \<open>The invariant of the system\<close>

type_synonym ghost = "gostring option \<times> known \<times> gostring set"

definition ghostsOk :: "JobConfig \<Rightarrow> 'r Redis \<Rightarrow> (gostring \<Rightarrow> gostring) \<Rightarrow> 'r Sys \<Rightarrow> ghost list \<Rightarrow> bool" where
  "ghostsOk cfg R J s gs \<longleftrightarrow> length gs = length (sy_procs s) \<and>
     (\<forall>i < length gs. procOk cfg R J s (fst (gs ! i)) (fst (snd (gs ! i))) (snd (snd (gs ! i))) (sy_procs s ! i)) \<and>
     (\<forall>i < length gs. \<forall>j < length gs. i \<noteq> j \<longrightarrow> (\<forall>x. fst (gs ! i) = Some x \<longrightarrow> fst (gs ! j) \<noteq> Some x))"

definition sysInv :: "JobConfig \<Rightarrow> 'r Redis \<Rightarrow> (gostring \<Rightarrow> gostring) \<Rightarrow> 'r Sys \<Rightarrow> bool" where
  "sysInv cfg R J s \<longleftrightarrow> sysOk cfg R J s \<and> (\<exists>gs. ghostsOk cfg R J s gs)"

lemma procs_irrelevant [simp]:
  "sysOk cfg R J (s \<lparr> sy_procs := ps \<rparr>) = sysOk cfg R J s"
  "procOk cfg R J (s \<lparr> sy_procs := ps \<rparr>) own kn K p = procOk cfg R J s own kn K p"
  by (simp_all add: sysOk_def pendingOk_def procOk_def)

lemma procOk_free: "free cfg J p \<Longrightarrow> procOk cfg R J s None None {} p"
  by (simp add: procOk_def freeD consistent_def)

lemma ghosts_replace:
  assumes "ghostsOk cfg R J s gs" "i < length gs" "procOk cfg R J s' own' kn' K' p'" "guarantee cfg R (fst (gs ! i)) own' s s'"
  shows "ghostsOk cfg R J (s' \<lparr> sy_procs := (sy_procs s)[i := p'] \<rparr>) (gs[i := (own', kn', K')])"
proof -
  have len: "length gs = length (sy_procs s)" using assms(1) by (simp add: ghostsOk_def)
  have old: "procOk cfg R J s (fst (gs ! j)) (fst (snd (gs ! j))) (snd (snd (gs ! j))) (sy_procs s ! j)" if "j < length gs" for j
    using assms(1) that by (simp add: ghostsOk_def)
  have dis: "fst (gs ! j) \<noteq> Some x" if "j < length gs" "k < length gs" "j \<noteq> k" "fst (gs ! k) = Some x" for j k x
    using assms(1) that by (auto simp: ghostsOk_def)
  have procs: "procOk cfg R J s' (fst (gs ! j)) (fst (snd (gs ! j))) (snd (snd (gs ! j))) (sy_procs s ! j)" if "j < length gs" "j \<noteq> i" for j
    using dis assms(2) that by (intro procOk_other [OF old [OF that(1)] assms(4)]) blast
  have new: "own' \<noteq> Some x" if "j < length gs" "j \<noteq> i" "fst (gs ! j) = Some x" for j x
    using guaranteeD(5) [OF assms(4), of x] dis [of i j x] procOkD(4) [OF old [OF that(1)] that(3)] assms(2) that by auto
  show ?thesis
    unfolding ghostsOk_def
  proof (intro conjI allI impI)
    fix j assume j: "j < length (gs[i := (own', kn', K')])"
    show "procOk cfg R J (s' \<lparr> sy_procs := (sy_procs s)[i := p'] \<rparr>) (fst (gs[i := (own', kn', K')] ! j)) (fst (snd (gs[i := (own', kn', K')] ! j)))
        (snd (snd (gs[i := (own', kn', K')] ! j))) (sy_procs (s' \<lparr> sy_procs := (sy_procs s)[i := p'] \<rparr>) ! j)"
      using j assms(3) procs len by (cases "j = i") simp_all
  next
    fix j k x assume "j < length (gs[i := (own', kn', K')])" "k < length (gs[i := (own', kn', K')])" "j \<noteq> k"
      "fst (gs[i := (own', kn', K')] ! j) = Some x"
    then show "fst (gs[i := (own', kn', K')] ! k) \<noteq> Some x"
      using new [of k x] new [of j x] dis [of k j x] by (cases "j = i"; cases "k = i") auto
  qed (simp add: len)
qed

lemma ghosts_append:
  assumes "ghostsOk cfg R J s gs" "procOk cfg R J s None None {} p"
  shows "ghostsOk cfg R J (s \<lparr> sy_procs := sy_procs s @ [p] \<rparr>) (gs @ [(None, None, {})])"
  unfolding ghostsOk_def
proof (intro conjI allI impI)
  have len: "length gs = length (sy_procs s)" using assms(1) by (simp add: ghostsOk_def)
  show "length (gs @ [(None, None, {})]) = length (sy_procs (s \<lparr> sy_procs := sy_procs s @ [p] \<rparr>))" using len by simp
  fix i assume i: "i < length (gs @ [(None, None, {} :: gostring set)] :: ghost list)"
  show "procOk cfg R J (s \<lparr> sy_procs := sy_procs s @ [p] \<rparr>) (fst ((gs @ [(None, None, {})]) ! i)) (fst (snd ((gs @ [(None, None, {})]) ! i)))
      (snd (snd ((gs @ [(None, None, {})]) ! i))) (sy_procs (s \<lparr> sy_procs := sy_procs s @ [p] \<rparr>) ! i)"
    using i assms len by (cases "i < length gs") (simp_all add: ghostsOk_def nth_append)
  fix j x assume "j < length (gs @ [(None, None, {} :: gostring set)] :: ghost list)" "i \<noteq> j" "fst ((gs @ [(None, None, {})]) ! i) = Some x"
  note f = this
  have dis: "fst (gs ! j) \<noteq> Some x" if "i < length gs" "j < length gs"
    using assms(1) that f(2,3) unfolding ghostsOk_def by (metis nth_append)
  show "fst ((gs @ [(None, None, {})]) ! j) \<noteq> Some x"
  proof (cases "j < length gs")
    case True
    moreover have "i < length gs" using f(3) i by (cases "i < length gs") (auto simp: nth_append)
    ultimately show ?thesis using dis by (simp add: nth_append)
  next
    case False
    then show ?thesis using f(1) by (simp add: nth_append)
  qed
qed

context redis begin

lemma sys_step:
  assumes "sysStep cfg R J s s'" "jobCfgOk cfg" "sysInv cfg R J s"
  shows "sysInv cfg R J s' \<and> evolves cfg R (sy_created s) (sy_redis s) (sy_redis s') \<and> sy_created s \<subseteq> sy_created s'"
proof -
  obtain gs where gs: "ghostsOk cfg R J s gs" and ok: "sysOk cfg R J s" using assms(3) by (auto simp: sysInv_def)
  have len: "length gs = length (sy_procs s)" using gs by (simp add: ghostsOk_def)
  have idle: "procOk cfg R J s None None {} (Ret ())" by (rule procOk_free) simp
  from assms(1) show ?thesis
  proof cases
    case (command i p' s1)
    have i: "i < length gs" using command(2) len by simp
    have "procOk cfg R J s (fst (gs ! i)) (fst (snd (gs ! i))) (snd (snd (gs ! i))) (sy_procs s ! i)" using gs i by (simp add: ghostsOk_def)
    from cmd_ok [OF command(3) assms(2) ok this] obtain own' kn' K' where *: "sysOk cfg R J s1" "procOk cfg R J s1 own' kn' K' p'"
      "guarantee cfg R (fst (gs ! i)) own' s s1" by blast
    have "ghostsOk cfg R J s' (gs[i := (own', kn', K')])" unfolding command(1) by (rule ghosts_replace [OF gs i *(2,3)])
    then show ?thesis using *(1) guaranteeD(1,2) [OF *(3)] by (auto simp: sysInv_def command(1))
  next
    case (crash i)
    have i: "i < length gs" using crash(2) len by simp
    have "guarantee cfg R (fst (gs ! i)) None s s" by (simp add: guarantee_def evolves_def)
    from ghosts_replace [OF gs i idle this] have "ghostsOk cfg R J s' (gs[i := (None, None, {})])" by (simp add: crash(1))
    then show ?thesis using ok by (auto simp: sysInv_def crash(1) evolves_def)
  next
    case (spawn p)
    have "procOk cfg R J s None None {} p" by (rule procOk_free [OF servicePrograms_free [OF spawn(2)]])
    then have "ghostsOk cfg R J s' (gs @ [(None, None, {})])"
      unfolding spawn(1) by (rule ghosts_append [OF gs])
    then show ?thesis using ok by (auto simp: sysInv_def spawn(1) evolves_def)
  next
    case (tick d)
    have t: "worldOk cfg R (sy_created s) (rd_tick R d (sy_redis s))" "evolves cfg R (sy_created s) (sy_redis s) (rd_tick R d (sy_redis s))"
      using tick_world [OF sysOkD(1) [OF ok]] by auto
    have "procOk cfg R J s' own kn K p" if "procOk cfg R J s own kn K p" for own kn K p
      using procOkD [OF that] consistent_stable [OF procOkD(2) [OF that] t(2) subset_refl] by (simp add: procOk_def tick)
    then have "ghostsOk cfg R J s' gs" using gs by (simp add: ghostsOk_def tick)
    then show ?thesis using sysOk_redis [OF ok t] t(2) by (auto simp: sysInv_def tick)
  qed
qed

lemma sys_reach:
  assumes "(sysStep cfg R J)\<^sup>*\<^sup>* s s'" "jobCfgOk cfg" "sysInv cfg R J s"
  shows "sysInv cfg R J s' \<and> sy_created s \<subseteq> sy_created s' \<and>
    (\<forall>jid a. idOk jid \<and> jobAt cfg R jid (sy_redis s) = Some (Job a) \<longrightarrow>
       jobAt cfg R jid (sy_redis s') = None \<or> (\<exists>b. jobAt cfg R jid (sy_redis s') = Some (Job b) \<and> lifeStep\<^sup>*\<^sup>* a b))"
  using assms(1)
proof (induction rule: rtranclp_induct)
  case base
  show ?case using assms(3) by auto
next
  case (step s1 s2)
  note st = sys_step [OF step(2) assms(2) conjunct1 [OF step(3)]]
  have "jobAt cfg R jid (sy_redis s2) = None \<or> (\<exists>b. jobAt cfg R jid (sy_redis s2) = Some (Job b) \<and> lifeStep\<^sup>*\<^sup>* a b)"
    if a: "idOk jid" "jobAt cfg R jid (sy_redis s) = Some (Job a)" for jid a
  proof -
    have "jid \<in> sy_created s" using assms(3) a uncreated_none by (fastforce simp: sysInv_def sysOk_def)
    then have c: "jid \<in> sy_created s1" using step(3) by auto
    have e: "jobAt cfg R jid (sy_redis s2) = jobAt cfg R jid (sy_redis s1) \<or> jobAt cfg R jid (sy_redis s2) = None \<or>
        (\<exists>b c. jobAt cfg R jid (sy_redis s1) = Some (Job b) \<and> jobAt cfg R jid (sy_redis s2) = Some (Job c) \<and> lifeStep b c)"
      using st a(1) c by (simp add: evolves_def)
    consider (n) "jobAt cfg R jid (sy_redis s1) = None"
      | (b) b where "jobAt cfg R jid (sy_redis s1) = Some (Job b)" "lifeStep\<^sup>*\<^sup>* a b"
      using conjunct2 [OF conjunct2 [OF step(3)], rule_format, of jid a] a by auto
    then show ?thesis
    proof cases
      case n with e show ?thesis by auto
    next
      case (b b) with e show ?thesis by (auto intro: rtranclp.rtrancl_into_rtrancl)
    qed
  qed
  then show ?case using st step(3) by auto
qed

lemma start_inv:
  assumes "jobCfgOk cfg" "emptyRedis R r"
  shows "sysInv cfg R J (sysStart r)"
proof -
  have n: "rd_get R k r = None" "rd_zscore R k m r = None" for k m using assms(2) by (simp_all add: emptyRedis_def)
  have "rd_zcard R (globalKey cfg) r = 0" by (simp add: zcard n)
  then have "worldOk cfg R {} r"
    using assms(1) by (simp add: worldOk_def jobsOk_def sourcesOk_def slotsOk_def streamAt_def jobAt_def sourceAt_def n jobCfgOk_def)
  then show ?thesis
    by (auto simp: sysInv_def sysOk_def pendingOk_def sysStart_def ghostsOk_def jobAt_def n intro!: exI [of _ "[]"])
qed

lemma reach_inv:
  "\<lbrakk>jobCfgOk cfg; emptyRedis R r; (sysStep cfg R J)\<^sup>*\<^sup>* (sysStart r) s\<rbrakk> \<Longrightarrow> sysInv cfg R J s"
  using sys_reach start_inv by blast

end

lemma reach_life:
  assumes "redis R" "jobCfgOk cfg" "emptyRedis R r" "(sysStep cfg R J)\<^sup>*\<^sup>* (sysStart r) s" "(sysStep cfg R J)\<^sup>*\<^sup>* s s'"
    and "idOk jid" "jobAt cfg R jid (sy_redis s) = Some (Job a)" "jobAt cfg R jid (sy_redis s') = Some (Job b)"
  shows "lifeStep\<^sup>*\<^sup>* a b"
proof -
  from redis.sys_reach [OF assms(1,5,2) redis.reach_inv [OF assms(1-4)]]
  have "\<forall>jid a. idOk jid \<and> jobAt cfg R jid (sy_redis s) = Some (Job a) \<longrightarrow>
       jobAt cfg R jid (sy_redis s') = None \<or> (\<exists>b. jobAt cfg R jid (sy_redis s') = Some (Job b) \<and> lifeStep\<^sup>*\<^sup>* a b)" by blast
  from this [rule_format, of jid a] assms(6-8) show ?thesis by simp
qed

section \<open>Chains of the life cycle\<close>

lemma life_version: "lifeStep\<^sup>*\<^sup>* a b \<Longrightarrow> jr_Version a \<le> jr_Version b \<and> (jr_Version a = jr_Version b \<longrightarrow> a = b)"
proof (induction rule: rtranclp_induct)
  case (step b c)
  with lifeStep_fixed [OF step(2)] show ?case by auto
qed simp

lemma life_terminal: "lifeStep\<^sup>*\<^sup>* a b \<Longrightarrow> isTerminal (jr_Status a) \<Longrightarrow> b = a"
  by (induction rule: rtranclp_induct) (auto dest: lifeStep_fixed)

text \<open>Without a crash: no step starts again what is still running.\<close>

definition calmStep :: "Record \<Rightarrow> Record \<Rightarrow> bool" where
  "calmStep a b \<longleftrightarrow> lifeStep a b \<and> \<not> (jr_Status a = Running \<and> jr_Status b = Running)"

lemma calm_bound:
  assumes "calmStep\<^sup>*\<^sup>* a b" "newJob a" "0 \<le> jr_MaxRetries a"
  shows "jr_MaxRetries b = jr_MaxRetries a \<and> jr_Attempts b \<le> jr_MaxRetries a + 1 \<and>
    (jr_Status b \<in> {Pending, Retrying} \<longrightarrow> jr_Attempts b \<le> jr_MaxRetries a)"
  using assms(1)
proof (induction rule: rtranclp_induct)
  case base
  then show ?case using assms(2,3) by (simp add: newJob_def)
next
  case (step b c)
  then have "lifeStep b c" "\<not> (jr_Status b = Running \<and> jr_Status c = Running)" by (simp_all add: calmStep_def)
  then show ?case using step(3) by (cases rule: lifeStep.cases) (auto simp: record_defs)
qed

section \<open>Locks of a worker\<close>

datatype Held = HToken gostring gostring | HSlot gostring gostring

text \<open>The locks held are a stack. A program that works on the job \<open>jid\<close> may run the agent only under exactly the
  claim of that job, the claim of its review and a slot of its scope, where the review, the scope and the
  execution are those of the record \<open>a\<close> it last read under the key of the job (\<open>got\<close>); whatever a reply
  says, the program ends with an empty stack and releases in reverse order. The keys of the locks are written
  out. A job taken over from a crashed worker runs under a new execution id.\<close>

definition claimLock :: "JobConfig \<Rightarrow> gostring \<Rightarrow> gostring" where
  "claimLock cfg jid = jc_KeyPrefix cfg @ ''agent:jobs:claim:'' @ jid"

definition reviewLock :: "JobConfig \<Rightarrow> Record \<Rightarrow> gostring" where
  "reviewLock cfg a = jc_KeyPrefix cfg @ ''agent:jobs:review:store:'' @ show_int (jr_StoreID a) @ '':review:'' @ show_int (jr_ReviewID a)"

definition runnable :: "JobConfig \<Rightarrow> gostring \<Rightarrow> Record option \<Rightarrow> ExecutionInput \<Rightarrow> Held list \<Rightarrow> bool" where
  "runnable cfg jid got input held \<longleftrightarrow> (\<exists>a t1 t2 t3. got = Some a \<and>
     held = [HSlot (scopeConcurrencyKey cfg a) t3, HToken (reviewLock cfg a) t2, HToken (claimLock cfg jid) t1] \<and>
     \<not> isTerminal (jr_Status a) \<and> ei_StoreID input = jr_StoreID a \<and> ei_ReviewID input = jr_ReviewID a \<and>
     ei_EvidenceVersion input = jr_EvidenceVersion a \<and> ei_UserID input = jr_UserID a \<and> ei_SessionID input = jr_SessionID a \<and>
     ei_Task input = jr_Task a \<and> (jr_Status a \<noteq> Running \<longrightarrow> ei_ExecutionID input = jr_ExecutionID a) \<and>
     (jr_Status a = Running \<longrightarrow> ei_ParentExecutionID input = jr_ExecutionID a))"

definition gotAfter :: "JobConfig \<Rightarrow> gostring \<Rightarrow> gostring \<Rightarrow> JobValue option result \<Rightarrow> Record option" where
  "gotAfter cfg jid key r = (case r of Inr (Some (Job a)) \<Rightarrow> if key = jobKey cfg (TrimSpace jid) then Some a else None | _ \<Rightarrow> None)"

definition heldAfter :: "Script \<Rightarrow> EvalReply result \<Rightarrow> Held list \<Rightarrow> Held list option" where
  "heldAfter s r held = (case s of
       ReleaseToken key token \<Rightarrow> (case held of HToken k t # rest \<Rightarrow> if k = key \<and> t = token then Some rest else None | _ \<Rightarrow> None)
     | AcquireConcurrency global scope token now expires gmax smax ttl \<Rightarrow>
         Some (if r = Inr (EInt 1) then HSlot scope token # held else held)
     | ReleaseConcurrency global scope token \<Rightarrow>
         (case held of HSlot k t # rest \<Rightarrow> if k = scope \<and> t = token then Some rest else None | _ \<Rightarrow> None)
     | _ \<Rightarrow> Some held)"

primrec balanced :: "JobConfig \<Rightarrow> gostring \<Rightarrow> Record option \<Rightarrow> Held list \<Rightarrow> 'a Prog \<Rightarrow> bool" where
  "balanced cfg jid got held (Ret x) \<longleftrightarrow> held = []"
| "balanced cfg jid got held (GetC key k) \<longleftrightarrow> (\<forall>r. balanced cfg jid (gotAfter cfg jid key r) held (k r))"
| "balanced cfg jid got held (SetNXC key v ttl k) \<longleftrightarrow> (\<forall>r. balanced cfg jid got (if r = Inr True then HToken key v # held else held) (k r))"
| "balanced cfg jid got held (EvalC s k) \<longleftrightarrow> (\<forall>r. case heldAfter s r held of None \<Rightarrow> False | Some h \<Rightarrow> balanced cfg jid got h (k r))"
| "balanced cfg jid got held (AckC mid k) \<longleftrightarrow> (\<forall>r. balanced cfg jid got held (k r))"
| "balanced cfg jid got held (DeadC rec k) \<longleftrightarrow> (\<forall>r. balanced cfg jid got held (k r))"
| "balanced cfg jid got held (ReadC c k) \<longleftrightarrow> (\<forall>r. balanced cfg jid got held (k r))"
| "balanced cfg jid got held (ClaimC c st d n k) \<longleftrightarrow> (\<forall>r. balanced cfg jid got held (k r))"
| "balanced cfg jid got held (GroupC k) \<longleftrightarrow> (\<forall>r. balanced cfg jid got held (k r))"
| "balanced cfg jid got held (NowC k) \<longleftrightarrow> (\<forall>r. balanced cfg jid got held (k r))"
| "balanced cfg jid got held (NewIDC k) \<longleftrightarrow> (\<forall>r. balanced cfg jid got held (k r))"
| "balanced cfg jid got held (TodayC k) \<longleftrightarrow> (\<forall>r. balanced cfg jid got held (k r))"
| "balanced cfg jid got held (RunC input k) \<longleftrightarrow> runnable cfg jid got input held \<and> (\<forall>r. balanced cfg jid got held (k r))"

lemma balanced_saveJob:
  "(\<And>res. balanced cfg jid got held (f res)) \<Longrightarrow> balanced cfg jid got held (andThen (saveJob cfg rec) f)"
  by (simp add: saveJob_def Let_def heldAfter_def)

lemma balanced_finishJob: "balanced cfg jid got held fin \<Longrightarrow> balanced cfg jid got held (finishJob cfg m rec res fin)"
  by (auto simp: finishJob_def Let_def intro!: balanced_saveJob split: sum.split)

lemma balanced_runJob:
  assumes "balanced cfg jid got held fin"
    "\<And>now. runnable cfg jid got (executionInput (startedRecord now rec \<lparr> jr_Version := jr_Version rec + 1 \<rparr>)) held"
  shows "balanced cfg jid got held (runJob cfg m rec fin)"
  using assms balanced_finishJob [OF assms(1)]
  by (auto simp: runJob_def saveJob_def Let_def heldAfter_def startedRecord_def split: sum.split)

text \<open>The record an attempt goes on with: the one that was read, or that one as the crash of its worker left it.\<close>

definition resumed :: "Record \<Rightarrow> Record \<Rightarrow> bool" where
  "resumed a rec \<longleftrightarrow> (jr_Status a \<noteq> Running \<and> rec = a) \<or> (jr_Status a = Running \<and> (\<exists>t x. rec = crashedRecord t x a))"

lemma crashed_fields:
  "jr_StoreID (crashedRecord t x a) = jr_StoreID a" "jr_ReviewID (crashedRecord t x a) = jr_ReviewID a"
  "jr_ActivityID (crashedRecord t x a) = jr_ActivityID a" "jr_CampaignID (crashedRecord t x a) = jr_CampaignID a"
  "jr_Scene (crashedRecord t x a) = jr_Scene a" "jr_EvidenceVersion (crashedRecord t x a) = jr_EvidenceVersion a"
  "jr_UserID (crashedRecord t x a) = jr_UserID a" "jr_SessionID (crashedRecord t x a) = jr_SessionID a"
  "jr_Task (crashedRecord t x a) = jr_Task a" "jr_ParentExecutionID (crashedRecord t x a) = jr_ExecutionID a"
  by (simp_all add: crashedRecord_def finishLatestExecution_def Let_def)

lemma resumed_keys:
  "resumed a rec \<Longrightarrow> reviewExecutionKey cfg rec = reviewLock cfg a \<and> scopeConcurrencyKey cfg rec = scopeConcurrencyKey cfg a"
  by (auto simp: resumed_def reviewExecutionKey_def reviewLock_def scopeConcurrencyKey_def jobScope_def crashed_fields Let_def)

lemma resumed_runnable:
  assumes "resumed a rec" "\<not> isTerminal (jr_Status a)"
  shows "runnable cfg jid (Some a) (executionInput (startedRecord now rec \<lparr> jr_Version := jr_Version rec + 1 \<rparr>))
      [HSlot (scopeConcurrencyKey cfg a) t3, HToken (reviewLock cfg a) t2, HToken (claimLock cfg jid) t1]"
  using assms by (auto simp: runnable_def resumed_def executionInput_def startedRecord_def crashed_fields)

lemma balanced_withSlot:
  assumes "resumed a rec" "\<not> isTerminal (jr_Status a)"
    and "balanced cfg jid (Some a) [HToken (reviewLock cfg a) t2, HToken (claimLock cfg jid) t1] fin"
  shows "balanced cfg jid (Some a) [HToken (reviewLock cfg a) t2, HToken (claimLock cfg jid) t1] (withSlot cfg m rec fin)"
proof -
  have acq: "map_sum id (\<lambda>reply. replyInt64 reply = 1) r = Inr True \<longleftrightarrow> r = Inr (EInt 1)" for r :: "EvalReply result"
    by (cases r) (auto simp: replyInt64_def split: EvalReply.splits)
  note keys = resumed_keys [OF assms(1), of cfg]
  have "balanced cfg jid (Some a) [HSlot (scopeConcurrencyKey cfg a) t3, HToken (reviewLock cfg a) t2, HToken (claimLock cfg jid) t1]
      (runJob cfg m rec (andThen (releaseConcurrency cfg rec t3) (\<lambda>_. fin)))" for t3
    by (rule balanced_runJob [OF _ resumed_runnable [OF assms(1,2)]]) (simp add: releaseConcurrency_def heldAfter_def assms(3) keys)
  then show ?thesis using assms(3) by (auto simp: withSlot_def acquireConcurrency_def heldAfter_def acq keys)
qed

lemma balanced_withReview:
  assumes "resumed a rec" "\<not> isTerminal (jr_Status a)" "balanced cfg jid (Some a) [HToken (claimLock cfg jid) t1] fin"
  shows "balanced cfg jid (Some a) [HToken (claimLock cfg jid) t1] (withReview cfg m rec fin)"
  using assms resumed_keys [OF assms(1), of cfg]
  by (auto simp: withReview_def releaseToken_def heldAfter_def intro!: balanced_withSlot)

lemma balanced_resume:
  assumes "\<not> isTerminal (jr_Status a)" "balanced cfg jid (Some a) [HToken (claimLock cfg jid) t1] fin"
  shows "balanced cfg jid (Some a) [HToken (claimLock cfg jid) t1] (resume cfg a fin (\<lambda>rec. withReview cfg m rec fin))"
  using assms by (auto simp: resume_def intro!: balanced_withReview) (auto simp: resumed_def)

lemma balanced_process: "balanced cfg (TrimSpace (sm_JobID m)) None [] (processMessage cfg m)"
proof -
  let ?jid = "TrimSpace (sm_JobID m)"
  have lock: "claimKey cfg ?jid = claimLock cfg ?jid" by (simp add: claimKey_def claimLock_def)
  have fin: "balanced cfg ?jid got [HToken (claimLock cfg ?jid) t] (releaseToken (claimLock cfg ?jid) t)" for got t
    by (simp add: releaseToken_def heldAfter_def)
  have "balanced cfg ?jid None [HToken (claimLock cfg ?jid) t] (processClaimed cfg m ?jid (releaseToken (claimLock cfg ?jid) t))" for t
    using fin balanced_resume [OF _ fin]
    by (auto simp: processClaimed_def GetJob_def gotAfter_def split: option.split JobValue.split sum.split)
  then show ?thesis by (simp add: processMessage_def Let_def lock)
qed

section \<open>Properties\<close>

text \<open>C23: a job in Redis only moves along its life cycle, whatever the workers, the recovery and the submitters
  do, however their commands interleave or fail and however often programs are lost: between any two moments
  it went through start, takeover, complete, retry and fail steps, each saved over the state before it.\<close>

theorem job_life_cycle:
  assumes "redis R" "jobCfgOk cfg" "emptyRedis R r"
    and "(sysStep cfg R J)\<^sup>*\<^sup>* (sysStart r) s" "(sysStep cfg R J)\<^sup>*\<^sup>* s s'"
    and "idOk jid" "jobAt cfg R jid (sy_redis s) = Some (Job a)" "jobAt cfg R jid (sy_redis s') = Some (Job b)"
  shows "lifeStep\<^sup>*\<^sup>* a b"
  by (rule reach_life [OF assms])

text \<open>C24: no update of a job is lost and none is made over a stale state: two states of a job with the same version
  are the same state, and versions never go back.\<close>

theorem job_versions:
  assumes "redis R" "jobCfgOk cfg" "emptyRedis R r"
    and "(sysStep cfg R J)\<^sup>*\<^sup>* (sysStart r) s" "(sysStep cfg R J)\<^sup>*\<^sup>* s s'"
    and "idOk jid" "jobAt cfg R jid (sy_redis s) = Some (Job a)" "jobAt cfg R jid (sy_redis s') = Some (Job b)"
  shows "jr_Version a \<le> jr_Version b \<and> (jr_Version a = jr_Version b \<longrightarrow> a = b) \<and> (isTerminal (jr_Status a) \<longrightarrow> a = b)"
  using life_version life_terminal reach_life [OF assms] by blast

text \<open>C25: no job is lost: as long as a job is stored and not finished, the stream holds an entry for it, added by
  the \<open>XADD\<close> of a script, whose message has not been acknowledged, so a worker or the recovery will see it
  again.\<close>

theorem no_lost_job:
  assumes "redis R" "jobCfgOk cfg" "emptyRedis R r" "(sysStep cfg R J)\<^sup>*\<^sup>* (sysStart r) s"
    and "idOk jid" "jobAt cfg R jid (sy_redis s) = Some (Job rec)" "\<not> isTerminal (jr_Status rec)"
  shows "\<exists>mid \<in> sy_msgs s. mid \<notin> sy_acked s \<and> J mid = jid"
  using redis.reach_inv [OF assms(1-4)] assms(5-7) by (auto simp: sysInv_def sysOk_def pendingOk_def)

text \<open>C28: at no moment do more tokens hold a global slot than the configured concurrency, however acquisitions,
  renewals, releases and expiries interleave.\<close>

theorem global_slots_bounded:
  assumes "redis R" "jobCfgOk cfg" "emptyRedis R r" "(sysStep cfg R J)\<^sup>*\<^sup>* (sysStart r) s"
  shows "rd_zcard R (globalKey cfg) (sy_redis s) \<le> jc_GlobalConcurrency cfg"
  using redis.reach_inv [OF assms] by (auto simp: sysInv_def sysOk_def worldOk_def slotsOk_def)

text \<open>C29: what is stored of a job is consistent: under its own id, with one attempt record per attempt of which only
  the last can be running, a result exactly when it succeeded or ended incomplete, an end time exactly when it
  is finished, and as failed only after more attempts than its retries allow.\<close>

theorem job_record_ok:
  assumes "redis R" "jobCfgOk cfg" "emptyRedis R r" "(sysStep cfg R J)\<^sup>*\<^sup>* (sysStart r) s"
    and "idOk jid" "jobAt cfg R jid (sy_redis s) = Some (Job rec)"
  shows "jr_ID rec = jid \<and> recordOk rec"
  using redis.reach_inv [OF assms(1-4)] assms(5,6) by (fastforce simp: sysInv_def sysOk_def worldOk_def jobsOk_def)

text \<open>C30: a worker that processes a message runs the agent only while it holds the claim of exactly the job the
  message names, the claim of the review of that job and a slot of its scope, and for the session, the task,
  the store, the review and the execution of the record it read under the key of the job; and on every path,
  whatever the replies, it releases what it acquired in reverse order before it turns to the next message.\<close>

theorem process_under_locks:
  "balanced cfg (TrimSpace (sm_JobID m)) None [] (processMessage cfg m)"
  by (rule balanced_process)

text \<open>a job that is never taken over from a crashed worker is attempted at most once more than its retries.\<close>

theorem attempts_bounded:
  assumes "newJob a" "0 \<le> jr_MaxRetries a" "calmStep\<^sup>*\<^sup>* a b"
  shows "jr_Attempts b \<le> jr_MaxRetries a + 1"
  using calm_bound [OF assms(3,1,2)] by blast

text \<open>Crashes are not counted: a job without retries whose workers keep crashing is started any number of times.\<close>

theorem crashes_uncounted:
  assumes "newJob a" "jr_MaxRetries a = 0"
  shows "\<exists>b. lifeStep\<^sup>*\<^sup>* a b \<and> jr_Status b = Running \<and> jr_Attempts b = int n + 1"
proof (induction n)
  case 0
  have "lifeStep a (bump a (startedRecord 0 a))" using assms(1) by (intro lifeStep.start) (simp add: newJob_def)
  then show ?case using assms(1) by (intro exI [of _ "bump a (startedRecord 0 a)"]) (auto simp: record_defs newJob_def)
next
  case (Suc n)
  then obtain b where b: "lifeStep\<^sup>*\<^sup>* a b" "jr_Status b = Running" "jr_Attempts b = int n + 1" by blast
  let ?c = "bump b (startedRecord 0 (crashedRecord 0 [] b))"
  have "lifeStep\<^sup>*\<^sup>* a ?c" using b(1) lifeStep.takeover [OF b(2)] by (rule rtranclp.rtrancl_into_rtrancl)
  then show ?case using b(3) by (intro exI [of _ ?c]) (auto simp: record_defs)
qed

end
