(* ===== verification/Job_Demo.thy ===== *)
theory Job_Demo
  imports Job_Claims
begin

text \<open>
  A run of the system on the small keyspace: one submission, up to the job in Redis and its message in the
  stream, then a moment later. It shows that the hypotheses of the properties of the jobs can hold.
\<close>

definition demoJobCfg :: JobConfig where
  "demoJobCfg = \<lparr>jc_Enabled = True, jc_KeyPrefix = ''p:'', jc_WorkerCount = 1, jc_MaxRetries = 1, jc_JobTTL = secs 60,
     jc_QueueWait = secs 2, jc_RunTimeout = secs 10, jc_RetryBackoff = secs 2, jc_MaxBatchSize = 10, jc_GlobalConcurrency = 1,
     jc_ScopeConcurrency = 1\<rparr>"

definition demoRequest :: Request where
  "demoRequest = \<lparr>rq_SessionID = ''s'', rq_ExecutionID = ''e'', rq_ParentExecutionID = [], rq_StoreID = 3, rq_ReviewID = 7,
     rq_EvidenceVersion = 1, rq_UserID = 5, rq_SkuID = 0, rq_SpuID = 0, rq_SourceEventID = ''ev'', rq_CampaignID = [],
     rq_ActivityID = ''act'', rq_PolicyVersion = [], rq_Scene = [], rq_TriggerType = [], rq_Window = [], rq_Task = ''t'',
     rq_MaxRetries = None\<rparr>"

definition demoRedis :: Keyspace where
  "demoRedis = \<lparr>ks_now = 0, ks_entries = (\<lambda>_. None), ks_queues = []\<rparr>"

definition demoRecord :: Record where
  "demoRecord = newRecord demoJobCfg demoRequest ''a1'' ''s'' ''e'' 0"

definition demoAfter :: "Keyspace Sys" where
  "demoAfter = \<lparr>sy_redis = snd (runScript keyspace (CreateJob (jobKey demoJobCfg ''a1'') (sourceKeyOf demoJobCfg demoRecord)
       (queueKey demoJobCfg) demoRecord (millis (secs 60)) True (jobPrefix demoJobCfg)) demoRedis),
     sy_used = {''a1''}, sy_created = {''a1''}, sy_msgs = {''a1''}, sy_acked = {}, sy_procs = [Ret ()]\<rparr>"

lemma demo_redis: "emptyRedis keyspace demoRedis"
  by (simp add: emptyRedis_def keyspace_def demoRedis_def ksStr_def ksZSet_def)

lemma demo_cfg: "jobCfgOk demoJobCfg"
  by (simp add: jobCfgOk_def demoJobCfg_def claimTTL_def secs_def millis_def wrap_int64_def)

lemma demo_trims: "TrimSpace ''t'' = ''t''" "TrimSpace ''s'' = ''s''" "TrimSpace ''e'' = ''e''" "TrimSpace ''ev'' = ''ev''"
  "TrimSpace ''a1'' = ''a1''"
  by code_simp+

lemma demo_idOk: "idOk ''a1''"
  by (simp add: idOk_def demo_trims)

lemma demo_submit: "andThen (Submit demoJobCfg demoRequest) (\<lambda>_. Ret ()) =
    NowC (\<lambda>now. NewIDC (\<lambda>jid. andThen (enqueueOrGet demoJobCfg (newRecord demoJobCfg demoRequest jid ''s'' ''e'' now)) (\<lambda>_. Ret ())))"
  by (simp add: Submit_def validateRequest_def sessionOf_def executionOf_def demoJobCfg_def demoRequest_def demo_trims)

lemma demo_source: "jr_SourceEventID demoRecord = ''ev''" "jr_ID demoRecord = ''a1''"
  by (simp_all add: demoRecord_def newRecord_def demoRequest_def demo_trims)

lemma demo_fields: "jc_JobTTL demoJobCfg = secs 60" "jc_Enabled demoJobCfg" "jc_GlobalConcurrency demoJobCfg = 1"
  by (simp_all add: demoJobCfg_def)

lemma demo_create: "createJobScript keyspace (jobKey demoJobCfg ''a1'') (sourceKeyOf demoJobCfg demoRecord)
       (queueKey demoJobCfg) demoRecord (millis (secs 60)) True (jobPrefix demoJobCfg) demoRedis =
     (EPair 1 ''a1'', sy_redis demoAfter)"
  by (simp add: demoAfter_def runScript_def createJobScript_def keyspace_def demoRedis_def ksStr_def demo_source Let_def)

lemma demo_added: "added keyspace (queueKey demoJobCfg) demoRedis (sy_redis demoAfter) = [''a1'']"
  by (simp add: added_def demoAfter_def runScript_def createJobScript_def keyspace_def demoRedis_def ksStr_def demo_source Let_def ksPut_def)

lemma demo_job: "jobAt demoJobCfg keyspace ''a1'' (sy_redis demoAfter) = Some (Job demoRecord)"
  using job_key_families(5) [OF demo_idOk, of demoJobCfg "jr_SourceEventID demoRecord"]
  by (simp add: demoAfter_def runScript_def createJobScript_def keyspace_def demoRedis_def ksStr_def Let_def jobAt_def ksPut_def sourceKeyOf_def demo_source)

lemma demo_reach: "(sysStep demoJobCfg keyspace (\<lambda>x. x))\<^sup>*\<^sup>* (sysStart demoRedis) demoAfter"
proof -
  let ?step = "sysStep demoJobCfg keyspace (\<lambda>x. x)"
  let ?k = "\<lambda>now jid. andThen (enqueueOrGet demoJobCfg (newRecord demoJobCfg demoRequest jid ''s'' ''e'' now)) (\<lambda>_. Ret ())"
  let ?s0 = "sysStart demoRedis"
  let ?s1 = "?s0 \<lparr> sy_procs := [NowC (\<lambda>now. NewIDC (?k now))] \<rparr>"
  let ?s2 = "?s0 \<lparr> sy_procs := [NewIDC (?k 0)] \<rparr>"
  let ?s3 = "?s0 \<lparr> sy_used := {''a1''}, sy_procs := [?k 0 ''a1''] \<rparr>"
  have "?step ?s0 (?s0 \<lparr> sy_procs := sy_procs ?s0 @ [andThen (Submit demoJobCfg demoRequest) (\<lambda>_. Ret ())] \<rparr>)"
    by (intro sysStep.spawn servicePrograms.submit)
  then have 1: "?step ?s0 ?s1" by (simp add: demo_submit sysStart_def)
  have "?step ?s1 (?s1 \<lparr> sy_procs := (sy_procs ?s1)[0 := NewIDC (?k 0)] \<rparr>)"
    by (rule sysStep.command) (use cmdStep.now [of keyspace "queueKey demoJobCfg" "\<lambda>x. x" "\<lambda>now. NewIDC (?k now)" ?s1 0] in simp_all)
  then have 2: "?step ?s1 ?s2" by simp
  have "?step ?s2 (?s2 \<lparr> sy_used := insert ''a1'' (sy_used ?s2) \<rparr> \<lparr> sy_procs := (sy_procs ?s2)[0 := ?k 0 ''a1''] \<rparr>)"
    by (rule sysStep.command) (use cmdStep.newID [of "''a1''" ?s2 keyspace "queueKey demoJobCfg" "\<lambda>x. x" "?k 0"] in \<open>simp_all add: demo_idOk sysStart_def\<close>)
  then have 3: "?step ?s2 ?s3" by (simp add: sysStart_def)
  define sc where "sc = CreateJob (jobKey demoJobCfg ''a1'') (sourceKeyOf demoJobCfg demoRecord)
       (queueKey demoJobCfg) demoRecord (millis (secs 60)) True (jobPrefix demoJobCfg)"
  obtain K where p: "?k 0 ''a1'' = EvalC sc K" and K: "K (Inr (EPair 1 ''a1'')) = Ret ()"
    by (simp add: enqueueOrGet_def createAndEnqueue_def demoRecord_def [symmetric] sc_def demo_source demo_fields)
  have r: "runScript keyspace sc (sy_redis ?s3) = (EPair 1 ''a1'', sy_redis demoAfter)"
    using demo_create by (simp add: sc_def runScript_def sysStart_def)
  have "cmdStep keyspace (queueKey demoJobCfg) (\<lambda>x. x) (EvalC sc K) ?s3 (K (Inr (EPair 1 ''a1''))) (evalled sc [''a1''] (sy_redis demoAfter) ?s3)"
    by (rule cmdStep.eval [OF r]) (simp_all add: freshMessages_def sysStart_def demo_added)
  then have "cmdStep keyspace (queueKey demoJobCfg) (\<lambda>x. x) (?k 0 ''a1'') ?s3 (Ret ()) (evalled sc [''a1''] (sy_redis demoAfter) ?s3)"
    by (simp only: p K)
  then have "?step ?s3 (evalled sc [''a1''] (sy_redis demoAfter) ?s3 \<lparr> sy_procs := (sy_procs ?s3)[0 := Ret ()] \<rparr>)"
    by (intro sysStep.command) simp_all
  then have 4: "?step ?s3 demoAfter" by (simp add: evalled_def creates_def sc_def demo_source sysStart_def demoAfter_def runScript_def)
  show ?thesis using 1 2 3 4 by (meson converse_rtranclp_into_rtranclp rtranclp.rtrancl_refl)
qed

text \<open>A second later the job is still there.\<close>

definition demoLater :: "Keyspace Sys" where
  "demoLater = demoAfter \<lparr> sy_redis := rd_tick keyspace (millis (secs 1)) (sy_redis demoAfter) \<rparr>"

lemma demo_later: "(sysStep demoJobCfg keyspace (\<lambda>x. x))\<^sup>*\<^sup>* demoAfter demoLater"
  unfolding demoLater_def by (rule r_into_rtranclp) (rule sysStep.tick)

lemma demo_job_later: "jobAt demoJobCfg keyspace ''a1'' (sy_redis demoLater) = Some (Job demoRecord)"
  using job_key_families(5) [OF demo_idOk, of demoJobCfg "jr_SourceEventID demoRecord"]
  by (simp add: demoLater_def demoAfter_def runScript_def createJobScript_def keyspace_def demoRedis_def ksStr_def Let_def jobAt_def
      ksPut_def ksTick_def sourceKeyOf_def demo_source millis_def secs_def)

lemma demo_new: "newJob demoRecord" "jr_MaxRetries demoRecord = 1" "\<not> isTerminal (jr_Status demoRecord)"
  by (simp_all add: demoRecord_def newRecord_new) (simp_all add: newRecord_def demoRequest_def demoJobCfg_def isTerminal_def)

lemmas demo_hyps = keyspace.redis_axioms demo_cfg demo_redis demo_reach

section \<open>Witnesses\<close>

theorem job_life_cycle_witness: "lifeStep\<^sup>*\<^sup>* demoRecord demoRecord"
  by (rule job_life_cycle [OF demo_hyps demo_later demo_idOk demo_job demo_job_later])

theorem job_versions_witness: "jr_Version demoRecord \<le> jr_Version demoRecord"
  using job_versions [OF demo_hyps demo_later demo_idOk demo_job demo_job_later] by simp

theorem no_lost_job_witness: "\<exists>mid \<in> sy_msgs demoAfter. mid \<notin> sy_acked demoAfter \<and> mid = ''a1''"
  by (rule no_lost_job [OF demo_hyps demo_idOk demo_job demo_new(3)])

theorem global_slots_bounded_witness: "rd_zcard keyspace (globalKey demoJobCfg) (sy_redis demoAfter) \<le> 1"
  using global_slots_bounded [OF demo_hyps] by (simp add: demo_fields)

theorem job_record_ok_witness: "jr_ID demoRecord = ''a1'' \<and> recordOk demoRecord"
  by (rule job_record_ok [OF demo_hyps demo_idOk demo_job])

theorem attempts_bounded_witness: "jr_Attempts (bump demoRecord (startedRecord 0 demoRecord)) \<le> 2"
proof -
  have "calmStep demoRecord (bump demoRecord (startedRecord 0 demoRecord))"
    using demo_new(1) by (auto simp: calmStep_def newJob_def intro: lifeStep.start)
  then show ?thesis using attempts_bounded [OF demo_new(1), of "bump demoRecord (startedRecord 0 demoRecord)"] demo_new(2) by auto
qed

theorem crashes_uncounted_witness:
  "\<exists>b. lifeStep\<^sup>*\<^sup>* (demoRecord \<lparr> jr_MaxRetries := 0 \<rparr>) b \<and> jr_Status b = Running \<and> jr_Attempts b = 8"
  using crashes_uncounted [of "demoRecord \<lparr> jr_MaxRetries := 0 \<rparr>" 7] demo_new(1) by (simp add: newJob_def)

end
