(* ===== verification/Redis_Store.thy ===== *)
theory Redis_Store
  imports Memory_Store
begin

text \<open>
  \<open>internal/memory/redis_store.go\<close>: the session store over Redis. The client (\<open>KeyValueClient\<close>) is the
  parameter \<open>kv\<close>: each command gets the clock reading at which it is answered and may fail. A value is the
  text found under a key, as far as the program can tell: a text that decodes to a state (\<open>SState\<close>, without
  the memory key, which has the tag \<open>json:"-"\<close>) or any other text (\<open>SText\<close>; the empty text for a missing
  key); \<open>json.Marshal\<close> and \<open>json.Unmarshal\<close> are inverse on states whose texts are valid UTF-8, as the texts the
  program stores are taken to be. The laws of a client that works are the locale \<open>kv_laws\<close>; under them the store is a session memory,
  as the in-memory store is.
\<close>

section \<open>The client\<close>

datatype Stored = SText gostring | SState SessionState

record 'r KV =
  kv_Get :: "int \<Rightarrow> gostring \<Rightarrow> 'r \<Rightarrow> Stored result"
  kv_Set :: "int \<Rightarrow> gostring \<Rightarrow> Stored \<Rightarrow> int \<Rightarrow> 'r \<Rightarrow> gerror option \<times> 'r"
  kv_Del :: "int \<Rightarrow> gostring \<Rightarrow> 'r \<Rightarrow> gerror option \<times> 'r"

record 'r RedisStore =
  rs_config :: MemConfig
  rs_prefix :: gostring
  rs_lastErr :: "gerror option"
  rs_db :: 'r

section \<open>Operations\<close>

definition NewRedisStore :: "MemConfig \<Rightarrow> gostring \<Rightarrow> 'r \<Rightarrow> 'r RedisStore" where
  "NewRedisStore config pre db = \<lparr>rs_config = \<lparr>
       mc_MaxSessions = (if mc_MaxSessions config \<le> 0 then 1000 else mc_MaxSessions config),
       mc_MaxRecentSteps = (if mc_MaxRecentSteps config \<le> 0 then 8 else mc_MaxRecentSteps config),
       mc_MaxSummaryChars = (if mc_MaxSummaryChars config \<le> 0 then 1200 else mc_MaxSummaryChars config),
       mc_SessionTTLSeconds = (if mc_SessionTTLSeconds config \<le> 0 then 1800 else mc_SessionTTLSeconds config)\<rparr>,
     rs_prefix = (if pre = [] then ''agent:session:'' else pre), rs_lastErr = None, rs_db = db\<rparr>"

definition redisKey :: "'r RedisStore \<Rightarrow> gostring \<Rightarrow> gostring" where
  "redisKey s memoryKey = rs_prefix s @ memoryKey"

definition setError :: "gerror option \<Rightarrow> 'r RedisStore \<Rightarrow> 'r RedisStore" where
  "setError err s = s \<lparr> rs_lastErr := err \<rparr>"

definition LoadRedis :: "'r KV \<Rightarrow> int \<Rightarrow> gostring \<Rightarrow> 'r RedisStore \<Rightarrow> SessionState option \<times> 'r RedisStore" where
  "LoadRedis kv now memoryKey0 s =
     (let memoryKey = (if memoryKey0 = [] then ''default'' else memoryKey0) in
      case kv_Get kv now (redisKey s memoryKey) (rs_db s) of
        Inl err \<Rightarrow> (None, setError (Some err) s)
      | Inr (SText raw) \<Rightarrow> (None, setError (if raw = [] then None else Some ''invalid session json'') s)
      | Inr (SState state) \<Rightarrow> (Some (normalizeState now (state \<lparr> ss_MemoryKey := memoryKey \<rparr>) (rs_config s)), setError None s))"

definition SaveRedis :: "'r KV \<Rightarrow> int \<Rightarrow> SessionState \<Rightarrow> 'r RedisStore \<Rightarrow> 'r RedisStore" where
  "SaveRedis kv now state0 s =
     (let state1 = (if ss_SessionID state0 = [] then state0 \<lparr> ss_SessionID := ''default'' \<rparr> else state0);
          key = (if ss_MemoryKey state1 = [] then ss_SessionID state1 else ss_MemoryKey state1);
          state2 = (normalizeState now state1 (rs_config s)) \<lparr> ss_MemoryKey := key \<rparr>;
          (err, db) = kv_Set kv now (redisKey s key) (SState (state2 \<lparr> ss_MemoryKey := [] \<rparr>))
            (seconds (mc_SessionTTLSeconds (rs_config s))) (rs_db s)
      in setError err (s \<lparr> rs_db := db \<rparr>))"

definition AppendStepRedis :: "'r KV \<Rightarrow> int \<Rightarrow> gostring \<Rightarrow> StepRecord \<Rightarrow> 'r RedisStore \<Rightarrow> 'r RedisStore" where
  "AppendStepRedis kv now memoryKey step s =
     (let (found, s1) = LoadRedis kv now memoryKey s;
          state = (case found of Some st \<Rightarrow> st | None \<Rightarrow> emptyState \<lparr> ss_MemoryKey := memoryKey, ss_SessionID := memoryKey \<rparr>)
      in SaveRedis kv now (state \<lparr> ss_RecentSteps := ss_RecentSteps state @ [step] \<rparr>) s1)"

definition ClearSessionRedis :: "'r KV \<Rightarrow> int \<Rightarrow> gostring \<Rightarrow> 'r RedisStore \<Rightarrow> 'r RedisStore" where
  "ClearSessionRedis kv now memoryKey0 s =
     (let memoryKey = (if memoryKey0 = [] then ''default'' else memoryKey0);
          (err, db) = kv_Del kv now (redisKey s memoryKey) (rs_db s)
      in setError err (s \<lparr> rs_db := db \<rparr>))"

definition SnapshotRedis :: "'r KV \<Rightarrow> int \<Rightarrow> gostring \<Rightarrow> 'r RedisStore \<Rightarrow> View \<times> 'r RedisStore" where
  "SnapshotRedis kv now memoryKey s =
     (case LoadRedis kv now memoryKey s of
        (None, s') \<Rightarrow> (emptyView memoryKey, s')
      | (Some state, s') \<Rightarrow> (stateView state, s'))"

section \<open>Lemmas\<close>

lemma setError_simps [simp]:
  "rs_config (setError e s) = rs_config s" "rs_prefix (setError e s) = rs_prefix s" "rs_db (setError e s) = rs_db s"
  "rs_lastErr (setError e s) = e" "redisKey (setError e s) k = redisKey s k"
  by (simp_all add: setError_def redisKey_def)

lemma redisKey_db [simp]: "redisKey (s \<lparr> rs_db := d \<rparr>) k = redisKey s k" "redisKey s k = redisKey s k' \<longleftrightarrow> k = k'"
  by (simp_all add: redisKey_def)

lemma LoadRedis_keeps [simp]:
  "rs_config (snd (LoadRedis kv now k s)) = rs_config s" "rs_prefix (snd (LoadRedis kv now k s)) = rs_prefix s"
  "rs_db (snd (LoadRedis kv now k s)) = rs_db s" "redisKey (snd (LoadRedis kv now k s)) k' = redisKey s k'"
  by (auto simp: LoadRedis_def Let_def split: sum.split Stored.split)

lemma normalizeState_steps:
  "0 < mc_MaxRecentSteps cfg \<Longrightarrow> ss_RecentSteps (normalizeState now st cfg) = lastN (nat (mc_MaxRecentSteps cfg)) (ss_RecentSteps st)"
  by (simp add: normalizeState_def foldOverflow_steps)

lemma normalizeState_ids [simp]:
  "ss_MemoryKey (normalizeState now st cfg) = ss_MemoryKey st" "ss_SessionID (normalizeState now st cfg) = ss_SessionID st"
  by (simp_all add: normalizeState_def)

lemma NewRedisStore_cfg: "rs_config (NewRedisStore cfg pre db) = memConfigDefaults cfg"
  by (simp add: NewRedisStore_def memConfigDefaults_def)

text \<open>What \<open>SaveRedis\<close> writes.\<close>

lemma SaveRedis_writes:
  assumes "ss_MemoryKey st = k" "k \<noteq> []"
  obtains v where "SaveRedis kv now st s = (let (err, db) = kv_Set kv now (redisKey s k) (SState v)
       (seconds (mc_SessionTTLSeconds (rs_config s))) (rs_db s) in setError err (s \<lparr> rs_db := db \<rparr>))"
    "0 < mc_MaxRecentSteps (rs_config s) \<Longrightarrow> ss_RecentSteps v = lastN (nat (mc_MaxRecentSteps (rs_config s))) (ss_RecentSteps st)"
proof
  let ?st = "if ss_SessionID st = [] then st \<lparr> ss_SessionID := ''default'' \<rparr> else st"
  let ?v = "(normalizeState now ?st (rs_config s)) \<lparr> ss_MemoryKey := [] \<rparr>"
  show "SaveRedis kv now st s = (let (err, db) = kv_Set kv now (redisKey s k) (SState ?v)
       (seconds (mc_SessionTTLSeconds (rs_config s))) (rs_db s) in setError err (s \<lparr> rs_db := db \<rparr>))"
    using assms by (simp add: SaveRedis_def Let_def)
  show "0 < mc_MaxRecentSteps (rs_config s) \<Longrightarrow> ss_RecentSteps ?v = lastN (nat (mc_MaxRecentSteps (rs_config s))) (ss_RecentSteps st)"
    by (simp add: normalizeState_steps)
qed

section \<open>Over a client that works\<close>

locale kv_laws =
  fixes kv :: "'r KV"
    and view :: "int \<Rightarrow> gostring \<Rightarrow> 'r \<Rightarrow> Stored"
  assumes get_view: "kv_Get kv now k r = Inr (view now k r)"
    and set_ok: "fst (kv_Set kv now k v ttl r) = None"
    and set_view: "0 < ttl \<Longrightarrow> view now' k' (snd (kv_Set kv now k v ttl r)) =
      (if k' = k then if now' < now + ttl then v else SText [] else view now' k' r)"
    and del_view: "kv_Del kv now k r = (None, r') \<Longrightarrow> view now' k' r' = (if k' = k then SText [] else view now' k' r)"

text \<open>No key in \<open>K\<close> expires while the clock readings are in \<open>T\<close>.\<close>

definition fitsRedis :: "(int \<Rightarrow> gostring \<Rightarrow> 'r \<Rightarrow> Stored) \<Rightarrow> gostring set \<Rightarrow> int set \<Rightarrow> nat \<Rightarrow> 'r RedisStore \<Rightarrow> bool" where
  "fitsRedis view K T cap s \<longleftrightarrow> cfgOk (rs_config s) \<and> cap = nat (mc_MaxRecentSteps (rs_config s)) \<and> [] \<notin> K \<and>
     0 < seconds (mc_SessionTTLSeconds (rs_config s)) \<and>
     (\<forall>t \<in> T. \<forall>t' \<in> T. t' < t + seconds (mc_SessionTTLSeconds (rs_config s))) \<and>
     (\<forall>k \<in> K. \<exists>v. (\<forall>t \<in> T. view t (redisKey s k) (rs_db s) = v) \<and> (case v of SText _ \<Rightarrow> True | SState st \<Rightarrow> length (ss_RecentSteps st) \<le> cap))"

definition stepsRedis :: "'r KV \<Rightarrow> int \<Rightarrow> gostring \<Rightarrow> 'r RedisStore \<Rightarrow> StepRecord list" where
  "stepsRedis kv now k s = v_RecentSteps (fst (SnapshotRedis kv now k s))"

definition storedSteps :: "Stored \<Rightarrow> StepRecord list" where
  "storedSteps v = (case v of SText _ \<Rightarrow> [] | SState st \<Rightarrow> ss_RecentSteps st)"

context kv_laws begin

lemma load:
  "k \<noteq> [] \<Longrightarrow> 0 < mc_MaxRecentSteps (rs_config s) \<Longrightarrow> \<exists>st. (case fst (LoadRedis kv now k s) of
       None \<Rightarrow> storedSteps (view now (redisKey s k) (rs_db s)) = []
     | Some st \<Rightarrow> ss_MemoryKey st = k \<and>
        ss_RecentSteps st = lastN (nat (mc_MaxRecentSteps (rs_config s))) (storedSteps (view now (redisKey s k) (rs_db s))))"
  by (auto simp: LoadRedis_def get_view storedSteps_def normalizeState_steps split: Stored.split)

lemma steps_view:
  assumes "fitsRedis view K T cap s" "k \<in> K" "t \<in> T"
  shows "stepsRedis kv t k s = storedSteps (view t (redisKey s k) (rs_db s))"
    "length (storedSteps (view t (redisKey s k) (rs_db s))) \<le> cap" "0 < cap"
proof -
  have k: "k \<noteq> []" and m: "0 < mc_MaxRecentSteps (rs_config s)" and cap: "cap = nat (mc_MaxRecentSteps (rs_config s))"
    using assms by (auto simp: fitsRedis_def cfgOk_def)
  from m cap show "0 < cap" by simp
  show l: "length (storedSteps (view t (redisKey s k) (rs_db s))) \<le> cap"
    using assms unfolding fitsRedis_def storedSteps_def by (metis (no_types, lifting) Stored.case Stored.exhaust list.size(3) zero_le)
  have "stepsRedis kv t k s = (case fst (LoadRedis kv t k s) of None \<Rightarrow> [] | Some st \<Rightarrow> ss_RecentSteps st)"
    by (simp add: stepsRedis_def SnapshotRedis_def emptyView_def stateView_def split: prod.split option.split)
  with load [OF k m, of t] l cap show "stepsRedis kv t k s = storedSteps (view t (redisKey s k) (rs_db s))"
    by (auto split: option.splits)
qed

lemma append:
  assumes "fitsRedis view K T cap s" "k \<in> K" "t \<in> T"
  obtains v where "rs_config (AppendStepRedis kv t k x s) = rs_config s" "\<forall>k'. redisKey (AppendStepRedis kv t k x s) k' = redisKey s k'"
    "\<forall>t' k'. view t' (redisKey s k') (rs_db (AppendStepRedis kv t k x s)) =
      (if k' = k then if t' < t + seconds (mc_SessionTTLSeconds (rs_config s)) then SState v else SText []
       else view t' (redisKey s k') (rs_db s))"
    "ss_RecentSteps v = lastN cap (storedSteps (view t (redisKey s k) (rs_db s)) @ [x])"
proof -
  have k: "k \<noteq> []" and m: "0 < mc_MaxRecentSteps (rs_config s)" and cap: "cap = nat (mc_MaxRecentSteps (rs_config s))"
    and ttl: "0 < seconds (mc_SessionTTLSeconds (rs_config s))" using assms by (auto simp: fitsRedis_def cfgOk_def)
  define st where "st = (case fst (LoadRedis kv t k s) of Some st \<Rightarrow> st | None \<Rightarrow> emptyState \<lparr> ss_MemoryKey := k, ss_SessionID := k \<rparr>)"
  have st: "ss_MemoryKey st = k" "ss_RecentSteps st = storedSteps (view t (redisKey s k) (rs_db s))"
    using load [OF k m, of t] steps_view(2) [OF assms] cap by (auto simp: st_def emptyState_def split: option.splits)
  let ?s1 = "snd (LoadRedis kv t k s)"
  have eq: "AppendStepRedis kv t k x s = SaveRedis kv t (st \<lparr> ss_RecentSteps := ss_RecentSteps st @ [x] \<rparr>) ?s1"
    by (simp add: AppendStepRedis_def st_def split_beta Let_def)
  obtain v where v: "SaveRedis kv t (st \<lparr> ss_RecentSteps := ss_RecentSteps st @ [x] \<rparr>) ?s1 =
      (let (err, db) = kv_Set kv t (redisKey ?s1 k) (SState v) (seconds (mc_SessionTTLSeconds (rs_config ?s1))) (rs_db ?s1)
       in setError err (?s1 \<lparr> rs_db := db \<rparr>))"
    "0 < mc_MaxRecentSteps (rs_config ?s1) \<Longrightarrow> ss_RecentSteps v = lastN (nat (mc_MaxRecentSteps (rs_config ?s1))) (ss_RecentSteps st @ [x])"
    by (rule SaveRedis_writes [of "st \<lparr> ss_RecentSteps := ss_RecentSteps st @ [x] \<rparr>" k kv t ?s1]) (use st k in auto)
  show thesis
    by (rule that [of v]) (use v st m cap ttl in \<open>simp_all add: eq split_beta set_view\<close>)
qed

end

sublocale kv_laws \<subseteq> red: session_memory "fitsRedis view" "stepsRedis kv" "AppendStepRedis kv"
proof unfold_locales
  fix K T cap s k t and x :: StepRecord
  assume f: "fitsRedis view K T cap s" "k \<in> K" "t \<in> T"
  show "0 < cap \<and> length (stepsRedis kv t k s) \<le> cap" using steps_view [OF f] by simp
  have same: "view t' (redisKey s k') (rs_db s) = view t (redisKey s k') (rs_db s)" if "t' \<in> T" "k' \<in> K" for t' k'
    using f that unfolding fitsRedis_def by metis
  obtain v where v: "rs_config (AppendStepRedis kv t k x s) = rs_config s" "\<forall>k'. redisKey (AppendStepRedis kv t k x s) k' = redisKey s k'"
    "\<forall>t' k'. view t' (redisKey s k') (rs_db (AppendStepRedis kv t k x s)) =
      (if k' = k then if t' < t + seconds (mc_SessionTTLSeconds (rs_config s)) then SState v else SText []
       else view t' (redisKey s k') (rs_db s))"
    "ss_RecentSteps v = lastN cap (storedSteps (view t (redisKey s k) (rs_db s)) @ [x])"
    by (rule append [OF f, of x])
  have alive: "t' < t + seconds (mc_SessionTTLSeconds (rs_config s))" if "t' \<in> T" for t' using f that by (simp add: fitsRedis_def)
  show fits': "fitsRedis view K T cap (AppendStepRedis kv t k x s)"
    unfolding fitsRedis_def v(1) v(2) [rule_format]
  proof (intro conjI ballI)
    fix k' assume k': "k' \<in> K"
    show "\<exists>w. (\<forall>t' \<in> T. view t' (redisKey s k') (rs_db (AppendStepRedis kv t k x s)) = w) \<and>
       (case w of SText _ \<Rightarrow> True | SState st \<Rightarrow> length (ss_RecentSteps st) \<le> cap)"
    proof (cases "k' = k")
      case True
      then show ?thesis using alive v(3,4) by (intro exI [of _ "SState v"]) simp
    next
      case False
      then show ?thesis using f(1) k' v(3) by (simp add: fitsRedis_def)
    qed
  qed (use f in \<open>auto simp: fitsRedis_def\<close>)
  fix t' assume t': "t' \<in> T"
  show "stepsRedis kv t' k s = stepsRedis kv t k s" using steps_view(1) [OF f] steps_view(1) [OF f(1,2) t'] same [OF t' f(2)] by simp
  show "stepsRedis kv t' k (AppendStepRedis kv t k x s) = lastN cap (stepsRedis kv t k s @ [x])"
    using steps_view(1) [OF fits' f(2) t'] steps_view(1) [OF f] v alive [OF t'] by (simp add: storedSteps_def)
  fix k' assume k': "k' \<in> K" "k' \<noteq> k"
  show "stepsRedis kv t' k' (AppendStepRedis kv t k x s) = stepsRedis kv t' k' s"
    using steps_view(1) [OF fits' k'(1) t'] steps_view(1) [OF f(1) k'(1) t'] v k'(2) by simp
qed

context kv_laws begin

lemma history_fold:
  assumes "fitsRedis view K T cap s" "\<forall>(t, k', x) \<in> set ops. t \<in> T \<and> k' \<in> K" "k \<in> K" "now \<in> T"
  shows "stepsRedis kv now k (fold (\<lambda>(t, k, x). AppendStepRedis kv t k x) ops s) =
    lastN cap (stepsRedis kv now k s @ map (\<lambda>(t, k', x). x) (filter (\<lambda>(t, k', x). k' = k) ops))"
proof -
  have "red.run ops s = fold (\<lambda>(t, k, x). AppendStepRedis kv t k x) ops s" by (induction ops arbitrary: s) auto
  with red.history [OF assms] show ?thesis by simp
qed

end

section \<open>A keyspace with deadlines\<close>

type_synonym deadlines = "gostring \<Rightarrow> (Stored \<times> int) option"

definition deadlineView :: "int \<Rightarrow> gostring \<Rightarrow> deadlines \<Rightarrow> Stored" where
  "deadlineView now k r = (case r k of Some (v, d) \<Rightarrow> if now < d then v else SText [] | None \<Rightarrow> SText [])"

definition deadlineKV :: "deadlines KV" where
  "deadlineKV = \<lparr>kv_Get = (\<lambda>now k r. Inr (deadlineView now k r)), kv_Set = (\<lambda>now k v ttl r. (None, r(k \<mapsto> (v, now + ttl)))),
     kv_Del = (\<lambda>now k r. (None, r(k := None)))\<rparr>"

interpretation dkv: kv_laws deadlineKV deadlineView
  by unfold_locales (auto simp: deadlineKV_def deadlineView_def)

section \<open>Properties\<close>

text \<open>C36: over a Redis that works, an execution reads back its own last steps in order, whatever other executions
  append to their own keys in between, as long as no time-to-live runs out: the store promises what the in-memory
  store promises.\<close>

theorem redis_memory_history:
  assumes "kv_laws kv view" "fitsRedis view K T cap s" "\<forall>(t, k', x) \<in> set ops. t \<in> T \<and> k' \<in> K" "k \<in> K" "now \<in> T"
  shows "v_RecentSteps (fst (SnapshotRedis kv now k (fold (\<lambda>(t, k, x). AppendStepRedis kv t k x) ops s))) =
    lastN cap (v_RecentSteps (fst (SnapshotRedis kv now k s)) @ map (\<lambda>(t, k', x). x) (filter (\<lambda>(t, k', x). k' = k) ops))"
  using kv_laws.history_fold [OF assms] by (simp only: stepsRedis_def)

text \<open>C37: when Redis fails to answer the read of \<open>AppendStep\<close> but accepts the write, the whole history of the
  execution is replaced by the one new step, and the error is gone from \<open>LastError\<close>.\<close>

theorem redis_read_error_loses_history:
  assumes "k \<noteq> []" "0 < mc_MaxRecentSteps (rs_config s)"
    and "kv_Get kv now (redisKey s k) (rs_db s) = Inl err" "\<forall>v ttl. fst (kv_Set kv now (redisKey s k) v ttl (rs_db s)) = None"
  shows "\<exists>st. ss_RecentSteps st = [x] \<and> rs_lastErr (AppendStepRedis kv now k x s) = None \<and>
    rs_db (AppendStepRedis kv now k x s) =
      snd (kv_Set kv now (redisKey s k) (SState st) (seconds (mc_SessionTTLSeconds (rs_config s))) (rs_db s))"
proof -
  let ?s1 = "setError (Some err) s"
  let ?st = "emptyState \<lparr> ss_MemoryKey := k, ss_SessionID := k, ss_RecentSteps := [x] \<rparr>"
  have eq: "AppendStepRedis kv now k x s = SaveRedis kv now ?st ?s1"
    using assms(1,3) by (simp add: AppendStepRedis_def LoadRedis_def emptyState_def)
  obtain v where v: "SaveRedis kv now ?st ?s1 = (let (err, db) = kv_Set kv now (redisKey ?s1 k) (SState v)
       (seconds (mc_SessionTTLSeconds (rs_config ?s1))) (rs_db ?s1) in setError err (?s1 \<lparr> rs_db := db \<rparr>))"
    "0 < mc_MaxRecentSteps (rs_config ?s1) \<Longrightarrow> ss_RecentSteps v = lastN (nat (mc_MaxRecentSteps (rs_config ?s1))) (ss_RecentSteps ?st)"
    by (rule SaveRedis_writes [of ?st k kv now ?s1]) (use assms(1) in auto)
  have "ss_RecentSteps v = [x]" using v(2) assms(2) by (simp add: lastN_def)
  with v(1) assms(4) show ?thesis by (intro exI [of _ v]) (simp add: eq split_beta)
qed

section \<open>Witnesses\<close>

definition demoRedisStore :: "deadlines RedisStore" where
  "demoRedisStore = NewRedisStore demoCfg ''p:'' (\<lambda>_. None)"

lemma demoRedisStore_fits: "fitsRedis deadlineView {''a'', ''b''} {10..30} 2 demoRedisStore"
  by (auto simp: fitsRedis_def demoRedisStore_def NewRedisStore_def demoCfg_def cfgOk_def seconds_def wrap_int64_def deadlineView_def
      split: Stored.split)

lemma redis_memory_history_witness:
  "v_RecentSteps (fst (SnapshotRedis deadlineKV 30 ''a'' (fold (\<lambda>(t, k, x). AppendStepRedis deadlineKV t k x)
     [(25, ''a'', demoStep ''1''), (26, ''b'', demoStep ''2''), (27, ''a'', demoStep ''3''), (28, ''a'', demoStep ''4'')] demoRedisStore)))
   = [demoStep ''3'', demoStep ''4'']"
proof -
  have s: "v_RecentSteps (fst (SnapshotRedis deadlineKV 30 ''a'' demoRedisStore)) = []"
    by (simp add: SnapshotRedis_def LoadRedis_def demoRedisStore_def NewRedisStore_def deadlineKV_def deadlineView_def emptyView_def)
  show ?thesis
    using redis_memory_history [OF dkv.kv_laws_axioms demoRedisStore_fits,
      of "[(25, ''a'', demoStep ''1''), (26, ''b'', demoStep ''2''), (27, ''a'', demoStep ''3''), (28, ''a'', demoStep ''4'')]" "''a''" 30]
    unfolding s by (simp add: lastN_def)
qed

text \<open>The same keyspace behind a connection on which reads time out.\<close>

definition readFailKV :: "deadlines KV" where
  "readFailKV = deadlineKV \<lparr> kv_Get := (\<lambda>now k r. Inl ''i/o timeout'') \<rparr>"

lemma redis_read_error_loses_history_witness:
  "\<exists>st. ss_RecentSteps st = [demoStep ''4''] \<and>
     deadlineView 29 ''p:a'' (rs_db (AppendStepRedis readFailKV 28 ''a'' (demoStep ''4'')
       (AppendStepRedis deadlineKV 27 ''a'' (demoStep ''3'') demoRedisStore))) = SState st"
proof -
  let ?s = "AppendStepRedis deadlineKV 27 ''a'' (demoStep ''3'') demoRedisStore"
  have cfg: "rs_config ?s = demoCfg" "redisKey ?s ''a'' = ''p:a''"
    using dkv.append [OF demoRedisStore_fits, of "''a''" 27 "demoStep ''3''"]
    by (auto simp: demoRedisStore_def NewRedisStore_def demoCfg_def redisKey_def)
  have "kv_Get readFailKV 28 (redisKey ?s ''a'') (rs_db ?s) = Inl ''i/o timeout''"
    "\<forall>v ttl. fst (kv_Set readFailKV 28 (redisKey ?s ''a'') v ttl (rs_db ?s)) = None"
    by (simp_all add: readFailKV_def deadlineKV_def)
  from redis_read_error_loses_history [OF _ _ this, of "demoStep ''4''"] cfg
  obtain st where st: "ss_RecentSteps st = [demoStep ''4'']"
    "rs_db (AppendStepRedis readFailKV 28 ''a'' (demoStep ''4'') ?s) = snd (kv_Set readFailKV 28 ''p:a'' (SState st) (seconds 60) (rs_db ?s))"
    by (auto simp: demoCfg_def)
  have "deadlineView 29 ''p:a'' (snd (kv_Set readFailKV 28 ''p:a'' (SState st) (seconds 60) r)) = SState st" for r
    by (simp add: readFailKV_def deadlineKV_def deadlineView_def seconds_def wrap_int64_def)
  with st show ?thesis by metis
qed

end
