(* ===== verification/Resilience.thy ===== *)
theory Resilience
  imports Job_Redis Complex_Main
begin

text \<open>
  \<open>internal/resilience\<close>: the lock over Redis (\<open>lock.go\<close>), the token bucket (\<open>token_bucket.go\<close>) and the guard
  of the language model (\<open>llm_client.go\<close>). The methods of the lock are programs over Redis, as those of the
  job service. The bucket computes with \<open>float64\<close>; here it computes with real numbers and rounds every result
  with the parameter \<open>rnd\<close>, of which the locales \<open>rounding\<close> and \<open>rounding_error\<close> state what IEEE rounding to nearest
  guarantees; a result beyond the range of \<open>float64\<close> is infinite in the code and a large number here, and the burst
  caps both. The circuit breaker (\<open>sony/gobreaker\<close>) is a parameter of the guard. What the lock promises is in
  \<open>Lock_Safety\<close>.
\<close>

section \<open>lock.go\<close>

record DistributedLock =
  lk_prefix :: gostring
  lk_ttl :: int

definition NewDistributedLock :: "gostring \<Rightarrow> int \<Rightarrow> DistributedLock" where
  "NewDistributedLock pre ttl = \<lparr>lk_prefix = (if pre = [] then ''agent:lock:'' else pre),
     lk_ttl = (if ttl \<le> 0 then secs 120 else ttl)\<rparr>"

text \<open>\<open>token\<close> is what \<open>randomToken\<close> returned.\<close>

definition lockAcquire :: "DistributedLock \<Rightarrow> gostring \<Rightarrow> gostring result \<Rightarrow> (gostring \<times> bool) result Prog" where
  "lockAcquire l key token = (case token of
       Inl err \<Rightarrow> Ret (Inl err)
     | Inr t \<Rightarrow> SetNXC (lk_prefix l @ key) t (lk_ttl l) (\<lambda>r. Ret (case r of
           Inl err \<Rightarrow> Inl err
         | Inr ok \<Rightarrow> Inr (if ok then t else [], ok))))"

definition lockRenew :: "DistributedLock \<Rightarrow> gostring \<Rightarrow> gostring \<Rightarrow> bool result Prog" where
  "lockRenew l key token = EvalC (RenewToken (lk_prefix l @ key) token (millis (lk_ttl l)))
     (\<lambda>r. Ret (map_sum id (\<lambda>reply. case reply of EInt value \<Rightarrow> value = 1 | _ \<Rightarrow> False) r))"

definition lockRelease :: "DistributedLock \<Rightarrow> gostring \<Rightarrow> gostring \<Rightarrow> gerror option Prog" where
  "lockRelease l key token = EvalC (ReleaseToken (lk_prefix l @ key) token) (\<lambda>r. Ret (case r of Inl err \<Rightarrow> Some err | Inr _ \<Rightarrow> None))"

section \<open>token_bucket.go\<close>

record TokenBucket =
  tb_rate :: real
  tb_burst :: real
  tb_tokens :: real
  tb_lastRefill :: int

definition NewTokenBucket :: "(real \<Rightarrow> real) \<Rightarrow> real \<Rightarrow> int \<Rightarrow> int \<Rightarrow> TokenBucket" where
  "NewTokenBucket rnd ratePerSecond burst0 now =
     (let burst = rnd (of_int (if burst0 \<le> 0 then 1 else burst0))
      in \<lparr>tb_rate = (if ratePerSecond \<le> 0 then 1 else ratePerSecond), tb_burst = burst, tb_tokens = burst, tb_lastRefill = now\<rparr>)"

text \<open>\<open>Duration.Seconds\<close>: whole seconds plus the rest, each a \<open>float64\<close>.\<close>

definition durSeconds :: "(real \<Rightarrow> real) \<Rightarrow> int \<Rightarrow> real" where
  "durSeconds rnd d = (let s = (if 0 \<le> d then d div 1000000000 else - ((- d) div 1000000000)); nsec = d - s * 1000000000
     in rnd (of_int s + rnd (of_int nsec / 1000000000)))"

definition refillLocked :: "(real \<Rightarrow> real) \<Rightarrow> int \<Rightarrow> TokenBucket \<Rightarrow> TokenBucket" where
  "refillLocked rnd now b =
     (let elapsed = durSeconds rnd (now - tb_lastRefill b) in
      if elapsed \<le> 0 then b
      else let tokens = rnd (tb_tokens b + rnd (elapsed * tb_rate b))
           in b \<lparr> tb_tokens := (if tokens > tb_burst b then tb_burst b else tokens), tb_lastRefill := now \<rparr>)"

definition Allow :: "(real \<Rightarrow> real) \<Rightarrow> int \<Rightarrow> TokenBucket \<Rightarrow> bool \<times> TokenBucket" where
  "Allow rnd now b =
     (let b1 = refillLocked rnd now b in
      if tb_tokens b1 < 1 then (False, b1) else (True, b1 \<lparr> tb_tokens := rnd (tb_tokens b1 - 1) \<rparr>))"

text \<open>The conversion of a non-negative \<open>float64\<close> to \<open>int64\<close>; out of range it gives the minimum (amd64).\<close>

definition toInt64 :: "real \<Rightarrow> int" where
  "toInt64 x = (if \<lfloor>x\<rfloor> > max_int64 then min_int64 else \<lfloor>x\<rfloor>)"

definition nextWait :: "(real \<Rightarrow> real) \<Rightarrow> TokenBucket \<Rightarrow> int" where
  "nextWait rnd b =
     (if tb_rate b \<le> 0 then secs 1
      else let missing = rnd (1 - tb_tokens b) in
        if missing \<le> 0 then 0
        else let wait = toInt64 (rnd (rnd (missing / tb_rate b) * 1000000000))
             in if wait < 10000000 then 10000000 else wait)"

text \<open>\<open>Wait\<close> from the clock reading \<open>now\<close> on, until the deadline of its context: the timer fires exactly after
  the wait, after a nanosecond at least; when it fires at the deadline, the context wins. \<open>False\<close> is the error of the context.\<close>

function waitBucket :: "(real \<Rightarrow> real) \<Rightarrow> int \<Rightarrow> int \<Rightarrow> TokenBucket \<Rightarrow> bool \<times> int \<times> TokenBucket" where
  "waitBucket rnd deadline now b =
     (let (ok, b1) = Allow rnd now b in
      if ok then (True, now, b1)
      else let wait = max 1 (nextWait rnd b1) in
        if deadline \<le> now + wait then (False, max now deadline, b1)
        else waitBucket rnd deadline (now + wait) b1)"
  by pat_completeness auto
termination by (relation "measure (\<lambda>(rnd, deadline, now, b). nat (deadline - now))") auto

declare waitBucket.simps [simp del]

section \<open>llm_client.go\<close>

record LLMGuardConfig =
  lg_RatePerSecond :: real
  lg_Burst :: int
  lg_WaitTimeout :: int
  lg_CircuitMaxRequests :: int
  lg_CircuitInterval :: int
  lg_CircuitTimeout :: int
  lg_FailureThreshold :: int
  lg_ConsecutiveSuccess :: int
  lg_DisableRateLimiter :: bool
  lg_DisableCircuitBreak :: bool

definition guardDefaults :: "LLMGuardConfig \<Rightarrow> LLMGuardConfig" where
  "guardDefaults cfg = cfg \<lparr>
     lg_RatePerSecond := (if lg_RatePerSecond cfg \<le> 0 then 2 else lg_RatePerSecond cfg),
     lg_Burst := posOr (lg_Burst cfg) 4,
     lg_WaitTimeout := posOr (lg_WaitTimeout cfg) (secs 2),
     lg_CircuitMaxRequests := posOr (lg_CircuitMaxRequests cfg) 2,
     lg_CircuitInterval := posOr (lg_CircuitInterval cfg) (secs 30),
     lg_CircuitTimeout := posOr (lg_CircuitTimeout cfg) (secs 20),
     lg_FailureThreshold := posOr (lg_FailureThreshold cfg) 5,
     lg_ConsecutiveSuccess := posOr (lg_ConsecutiveSuccess cfg) 2 \<rparr>"

text \<open>The state of the breaker is \<open>'b\<close>; \<open>ConsecutiveSuccess\<close> is not passed on to it.\<close>

record 'b GuardedLLM =
  gl_cfg :: LLMGuardConfig
  gl_limiter :: "TokenBucket option"
  gl_breaker :: "'b option"

definition NewGuardedLLMClient :: "(real \<Rightarrow> real) \<Rightarrow> (LLMGuardConfig \<Rightarrow> 'b) \<Rightarrow> LLMGuardConfig \<Rightarrow> int \<Rightarrow> 'b GuardedLLM" where
  "NewGuardedLLMClient rnd newBreaker cfg0 now = (let cfg = guardDefaults cfg0 in
     \<lparr>gl_cfg = cfg,
      gl_limiter = (if lg_DisableRateLimiter cfg then None else Some (NewTokenBucket rnd (lg_RatePerSecond cfg) (lg_Burst cfg) now)),
      gl_breaker = (if lg_DisableCircuitBreak cfg then None else Some (newBreaker cfg))\<rparr>)"

text \<open>\<open>Execute\<close> of the breaker gets the call as a function of the world \<open>'w\<close> and says what came of it.\<close>

type_synonym ('w, 'b, 'a) execute = "('w \<Rightarrow> 'a result \<times> 'w) \<Rightarrow> 'b \<Rightarrow> 'w \<Rightarrow> 'a result \<times> 'b \<times> 'w"

definition guardedCall :: "('w, 'b, 'a) execute \<Rightarrow> ('w \<Rightarrow> 'a result \<times> 'w) \<Rightarrow> 'b GuardedLLM \<Rightarrow> 'w \<Rightarrow>
    'a result \<times> 'b GuardedLLM \<times> 'w" where
  "guardedCall execute call g w = (case gl_breaker g of
       None \<Rightarrow> (let (r, w1) = call w in (r, g, w1))
     | Some b \<Rightarrow> (let (r, b1, w1) = execute call b w in
         (case r of Inl err \<Rightarrow> Inl (''llm unavailable or circuit open: '' @ err) | Inr resp \<Rightarrow> Inr resp, g \<lparr> gl_breaker := Some b1 \<rparr>, w1)))"

definition guardedChat :: "(real \<Rightarrow> real) \<Rightarrow> ('w, 'b, 'a) execute \<Rightarrow> ('w \<Rightarrow> 'a result \<times> 'w) \<Rightarrow> int \<Rightarrow> 'b GuardedLLM \<Rightarrow> 'w \<Rightarrow>
    'a result \<times> 'b GuardedLLM \<times> 'w" where
  "guardedChat rnd execute call now g w = (case gl_limiter g of
       None \<Rightarrow> guardedCall execute call g w
     | Some b \<Rightarrow> (let (ok, t, b1) = waitBucket rnd (now + lg_WaitTimeout (gl_cfg g)) now b; g1 = g \<lparr> gl_limiter := Some b1 \<rparr> in
         if \<not> ok then (Inl ''llm rate limited'', g1, w) else guardedCall execute call g1 w))"

section \<open>Rounding\<close>

locale rounding =
  fixes rnd :: "real \<Rightarrow> real"
  assumes rnd_mono: "x \<le> y \<Longrightarrow> rnd x \<le> rnd y"
    and rnd_idem: "rnd (rnd x) = rnd x"
    and rnd_01: "rnd 0 = 0" "rnd 1 = 1"

text \<open>How far a result may be rounded up: by a relative error \<open>eps\<close> and an absolute one \<open>eta\<close>. IEEE double precision
  has \<open>2^-53\<close> and, for the numbers below the normal ones, \<open>2^-1075\<close>; exact arithmetic has \<open>0\<close> and \<open>0\<close>.\<close>

locale rounding_error = rounding +
  fixes eps eta :: real
  assumes err_nonneg: "0 \<le> eps" "0 \<le> eta"
    and rnd_upper: "0 \<le> x \<Longrightarrow> rnd x \<le> (1 + eps) * x + eta"

text \<open>The numbers of tokens a bucket may hold.\<close>

definition bucketOk :: "(real \<Rightarrow> real) \<Rightarrow> TokenBucket \<Rightarrow> bool" where
  "bucketOk rnd b \<longleftrightarrow> 0 < tb_rate b \<and> 1 \<le> tb_burst b \<and> rnd (tb_burst b) = tb_burst b \<and> rnd (tb_tokens b) = tb_tokens b \<and>
     0 \<le> tb_tokens b \<and> tb_tokens b \<le> tb_burst b"

context rounding begin

lemma rnd_pos: "0 \<le> x \<Longrightarrow> 0 \<le> rnd x"
  using rnd_mono [of 0 x] rnd_01 by simp

lemma New_ok: "bucketOk rnd (NewTokenBucket rnd rate burst now)"
proof -
  have "1 \<le> rnd (of_int n)" if "1 \<le> n" for n using rnd_mono [of 1 "of_int n"] rnd_01 that by simp
  then have "1 \<le> rnd (of_int (if burst \<le> 0 then 1 else burst))" by simp
  then show ?thesis by (simp add: bucketOk_def NewTokenBucket_def Let_def rnd_idem)
qed

lemma refill_ok:
  assumes "bucketOk rnd b"
  shows "bucketOk rnd (refillLocked rnd now b)"
proof -
  let ?e = "durSeconds rnd (now - tb_lastRefill b)"
  have "0 \<le> rnd (tb_tokens b + rnd (?e * tb_rate b))" if "0 < ?e"
    using assms that by (intro rnd_pos add_nonneg_nonneg) (auto simp: bucketOk_def)
  then show ?thesis using assms by (auto simp: refillLocked_def Let_def bucketOk_def rnd_idem)
qed

lemma Allow_ok:
  assumes "bucketOk rnd b"
  shows "bucketOk rnd (snd (Allow rnd now b))"
proof -
  let ?b = "refillLocked rnd now b"
  have "0 \<le> rnd (tb_tokens ?b - 1)" "rnd (tb_tokens ?b - 1) \<le> tb_tokens ?b" if "\<not> tb_tokens ?b < 1"
    using that rnd_pos [of "tb_tokens ?b - 1"] rnd_mono [of "tb_tokens ?b - 1" "tb_tokens ?b"] refill_ok [OF assms, of now]
    by (simp_all add: bucketOk_def)
  then show ?thesis using refill_ok [OF assms, of now] by (fastforce simp: Allow_def Let_def bucketOk_def rnd_idem)
qed

lemma wait_ok: "bucketOk rnd b \<Longrightarrow> bucketOk rnd (snd (snd (waitBucket rnd deadline now b)))"
proof (induction "nat (deadline - now)" arbitrary: now b rule: less_induct)
  case less
  obtain ok b1 where a: "Allow rnd now b = (ok, b1)" by fastforce
  then have b1: "bucketOk rnd b1" using Allow_ok [OF less(2), of now] by simp
  let ?t = "now + max 1 (nextWait rnd b1)"
  have "bucketOk rnd (snd (snd (waitBucket rnd deadline ?t b1)))" if "\<not> deadline \<le> ?t" by (rule less(1) [OF _ b1]) (use that in linarith)
  then show ?case using b1 by (subst waitBucket.simps) (simp add: a Let_def)
qed

end

text \<open>Exact arithmetic, and rounding to a multiple of \<open>2^-60\<close>.\<close>

definition gridRound :: "real \<Rightarrow> real" where
  "gridRound x = of_int \<lfloor>x * 2 ^ 60 + 1 / 2\<rfloor> / 2 ^ 60"

interpretation exact: rounding "\<lambda>x. x"
  by unfold_locales simp_all

interpretation grid: rounding gridRound
proof unfold_locales
  show "gridRound x \<le> gridRound y" if "x \<le> y" for x y
    using that by (simp add: gridRound_def divide_right_mono floor_mono)
  show "gridRound (gridRound x) = gridRound x" for x
    by (simp add: gridRound_def)
  show "gridRound 0 = 0" "gridRound 1 = 1" by (simp_all add: gridRound_def)
qed

interpretation exact_error: rounding_error "\<lambda>x. x" 0 0
  by unfold_locales simp_all

interpretation grid_error: rounding_error gridRound 0 "1 / 2 ^ 61"
proof unfold_locales
  fix x :: real
  have "of_int \<lfloor>x * 2 ^ 60 + 1 / 2\<rfloor> \<le> x * 2 ^ 60 + 1 / 2" by simp
  then have "gridRound x \<le> (x * 2 ^ 60 + 1 / 2) / 2 ^ 60" unfolding gridRound_def by (rule divide_right_mono) simp
  also have "\<dots> = (1 + 0) * x + 1 / 2 ^ 61" by (simp add: add_divide_distrib)
  finally show "gridRound x \<le> (1 + 0) * x + 1 / 2 ^ 61" .
qed simp_all

section \<open>The rate\<close>

text \<open>A run of calls of \<open>Allow\<close> at some clock readings: how many were allowed, and the bucket after them.\<close>

fun allowRun :: "(real \<Rightarrow> real) \<Rightarrow> int list \<Rightarrow> TokenBucket \<Rightarrow> int \<times> TokenBucket" where
  "allowRun rnd [] b = (0, b)"
| "allowRun rnd (now # ts) b = (let (ok, b1) = Allow rnd now b; (n, b2) = allowRun rnd ts b1 in (if ok then n + 1 else n, b2))"

text \<open>What the rounding of one call may add to the tokens.\<close>

definition slack :: "real \<Rightarrow> real \<Rightarrow> TokenBucket \<Rightarrow> real" where
  "slack eps eta b = 2 * eps * tb_burst b + ((2 + eps) * ((1 + eps) ^ 2 * tb_rate b + 1) + 1) * eta"

context rounding begin

lemma durSeconds_nonpos: "d \<le> 0 \<Longrightarrow> durSeconds rnd d \<le> 0"
proof -
  assume "d \<le> 0"
  define s where "s = (if 0 \<le> d then d div 1000000000 else - ((- d) div 1000000000))"
  define n where "n = d - s * 1000000000"
  have s: "s = - ((- d) div 1000000000)" using \<open>d \<le> 0\<close> by (auto simp: s_def)
  have "n = - ((- d) mod 1000000000)" unfolding n_def s using div_mult_mod_eq [of "- d" 1000000000] by linarith
  then have "s \<le> 0" "n \<le> 0" using \<open>d \<le> 0\<close> by (simp_all add: s div_int_pos_iff)
  then have "rnd (of_int n / 1000000000) \<le> 0" using rnd_mono [of "of_int n / 1000000000" 0] rnd_01 by (simp add: divide_le_0_iff)
  then have "rnd (of_int s + rnd (of_int n / 1000000000)) \<le> rnd 0" using \<open>s \<le> 0\<close> by (intro rnd_mono) simp
  then show ?thesis unfolding durSeconds_def Let_def s_def [symmetric] n_def [symmetric] rnd_01 .
qed

lemma Allow_fields:
  "tb_rate (snd (Allow rnd now b)) = tb_rate b" "tb_burst (snd (Allow rnd now b)) = tb_burst b"
  "tb_lastRefill b \<le> tb_lastRefill (snd (Allow rnd now b))" "tb_lastRefill (snd (Allow rnd now b)) \<le> max now (tb_lastRefill b)"
proof -
  have "now - tb_lastRefill b > 0" if "\<not> durSeconds rnd (now - tb_lastRefill b) \<le> 0"
    using durSeconds_nonpos [of "now - tb_lastRefill b"] that by linarith
  then show "tb_rate (snd (Allow rnd now b)) = tb_rate b" "tb_burst (snd (Allow rnd now b)) = tb_burst b"
    "tb_lastRefill b \<le> tb_lastRefill (snd (Allow rnd now b))" "tb_lastRefill (snd (Allow rnd now b)) \<le> max now (tb_lastRefill b)"
    by (auto simp: Allow_def refillLocked_def Let_def)
qed

end

context rounding_error begin

lemma durSeconds_upper:
  assumes "0 \<le> d"
  shows "durSeconds rnd d \<le> (1 + eps) ^ 2 * (of_int d / 1000000000) + (2 + eps) * eta"
proof -
  define s n where "s = d div 1000000000" and "n = d - s * 1000000000"
  define q :: real where "q = of_int n / 1000000000"
  have "n = d mod 1000000000" unfolding n_def s_def using div_mult_mod_eq [of d 1000000000] by linarith
  then have pos: "0 \<le> s" "0 \<le> n" using assms by (simp_all add: s_def pos_imp_zdiv_nonneg_iff)
  then have q: "0 \<le> q" by (simp add: q_def)
  have d: "of_int d / 1000000000 = of_int s + q" by (simp add: n_def q_def field_simps)
  have "0 \<le> of_int s + rnd q" using pos rnd_pos [OF q] by simp
  from rnd_upper [OF this] have "rnd (of_int s + rnd q) \<le> (1 + eps) * (of_int s + rnd q) + eta" .
  also have "of_int s + rnd q \<le> (1 + eps) * (of_int s + q) + eta"
    using rnd_upper [OF q] mult_nonneg_nonneg [OF err_nonneg(1), of "of_int s"] pos by (simp add: distrib_left distrib_right)
  then have "(1 + eps) * (of_int s + rnd q) + eta \<le> (1 + eps) * ((1 + eps) * (of_int s + q) + eta) + eta"
    using err_nonneg by (intro add_right_mono mult_left_mono) simp_all
  also have "\<dots> = (1 + eps) ^ 2 * (of_int s + q) + (2 + eps) * eta" by (simp add: algebra_simps power2_eq_square)
  finally show ?thesis
    unfolding durSeconds_def Let_def if_P [OF assms] s_def [symmetric] n_def [symmetric] q_def [symmetric] d .
qed

lemma refill_pays:
  assumes "bucketOk rnd b"
  shows "tb_tokens (refillLocked rnd now b) \<le> tb_tokens b + (1 + eps) ^ 4 * tb_rate b *
      (of_int (tb_lastRefill (refillLocked rnd now b) - tb_lastRefill b) / 1000000000) +
      eps * tb_burst b + (2 + eps) * ((1 + eps) ^ 2 * tb_rate b + 1) * eta"
proof -
  let ?e = "durSeconds rnd (now - tb_lastRefill b)" and ?k = "1 + eps"
  have b: "0 < tb_rate b" "0 \<le> tb_tokens b" "tb_tokens b \<le> tb_burst b" using assms by (simp_all add: bucketOk_def)
  have extra: "0 \<le> eps * tb_burst b + (2 + eps) * (?k ^ 2 * tb_rate b + 1) * eta"
    using b err_nonneg by (intro add_nonneg_nonneg mult_nonneg_nonneg) simp_all
  show ?thesis
  proof (cases "?e \<le> 0")
    case True
    then show ?thesis using extra by (simp add: refillLocked_def Let_def)
  next
    case False
    then have d: "0 \<le> now - tb_lastRefill b" using durSeconds_nonpos [of "now - tb_lastRefill b"] by linarith
    let ?T = "of_int (now - tb_lastRefill b) / 1000000000 :: real"
    have er: "0 \<le> ?e * tb_rate b" using False b(1) by simp
    from rnd_upper [OF er] have "tb_tokens b + rnd (?e * tb_rate b) \<le> tb_tokens b + (?k * (?e * tb_rate b) + eta)" by simp
    then have "?k * (tb_tokens b + rnd (?e * tb_rate b)) \<le> ?k * (tb_tokens b + (?k * (?e * tb_rate b) + eta))"
      using err_nonneg by (intro mult_left_mono) simp_all
    moreover have "0 \<le> tb_tokens b + rnd (?e * tb_rate b)" using b(2) rnd_pos [OF er] by simp
    note rnd_upper [OF this]
    ultimately have "rnd (tb_tokens b + rnd (?e * tb_rate b)) \<le> ?k * (tb_tokens b + (?k * (?e * tb_rate b) + eta)) + eta" by linarith
    also have "\<dots> = tb_tokens b + eps * tb_tokens b + ?k ^ 2 * tb_rate b * ?e + (2 + eps) * eta"
      by (simp add: algebra_simps power2_eq_square)
    also have "\<dots> \<le> tb_tokens b + eps * tb_burst b + ?k ^ 2 * tb_rate b * (?k ^ 2 * ?T + (2 + eps) * eta) + (2 + eps) * eta"
      using b err_nonneg durSeconds_upper [OF d] by (intro add_mono mult_left_mono order_refl) simp_all
    also have "\<dots> = tb_tokens b + ?k ^ 4 * tb_rate b * ?T + eps * tb_burst b + (2 + eps) * (?k ^ 2 * tb_rate b + 1) * eta"
    proof -
      have "?k ^ 4 = ?k ^ 2 * ?k ^ 2" by (simp flip: power_add)
      then show ?thesis by (simp add: algebra_simps)
    qed
    finally show ?thesis using False by (simp add: refillLocked_def Let_def)
  qed
qed

lemma Allow_pays:
  assumes "bucketOk rnd b"
  shows "of_bool (fst (Allow rnd now b)) + tb_tokens (snd (Allow rnd now b)) \<le>
     tb_tokens b + (1 + eps) ^ 4 * tb_rate b * (of_int (tb_lastRefill (snd (Allow rnd now b)) - tb_lastRefill b) / 1000000000) + slack eps eta b"
proof -
  let ?b = "refillLocked rnd now b"
  have ok: "tb_tokens ?b \<le> tb_burst b" "tb_burst ?b = tb_burst b" "1 \<le> tb_burst b"
    using refill_ok [OF assms, of now] assms by (auto simp: bucketOk_def refillLocked_def Let_def)
  have pay: "rnd (tb_tokens ?b - 1) \<le> tb_tokens ?b - 1 + eps * tb_burst b + eta" if "1 \<le> tb_tokens ?b"
  proof -
    have "eps * (tb_tokens ?b - 1) \<le> eps * tb_burst b" using ok(1) err_nonneg by (intro mult_left_mono) simp_all
    then show ?thesis using rnd_upper [of "tb_tokens ?b - 1"] that by (simp add: distrib_right)
  qed
  have "0 \<le> eps * tb_burst b + eta" using ok(3) err_nonneg by simp
  then show ?thesis using refill_pays [OF assms, of now] pay
    by (auto simp: Allow_def Let_def slack_def distrib_right)
qed

end

lemma allowRun_ok: "rounding rnd \<Longrightarrow> bucketOk rnd b \<Longrightarrow> bucketOk rnd (snd (allowRun rnd ts b))"
proof (induction ts arbitrary: b)
  case (Cons now ts)
  then show ?case using Cons(1) [OF Cons(2) rounding.Allow_ok [OF Cons(2,3), of now]] by (simp add: split_beta Let_def)
qed simp

section \<open>Properties\<close>

context rounding_error begin

lemma allowRun_upper:
  "bucketOk rnd b \<Longrightarrow> of_int (fst (allowRun rnd ts b)) + tb_tokens (snd (allowRun rnd ts b)) \<le>
     tb_tokens b + (1 + eps) ^ 4 * tb_rate b * (of_int (tb_lastRefill (snd (allowRun rnd ts b)) - tb_lastRefill b) / 1000000000) +
     of_nat (length ts) * slack eps eta b \<and>
   tb_lastRefill (snd (allowRun rnd ts b)) \<le> fold max ts (tb_lastRefill b)"
proof (induction ts arbitrary: b)
  case (Cons now ts)
  obtain ok b1 where a: "Allow rnd now b = (ok, b1)" by fastforce
  obtain n b2 where r: "allowRun rnd ts b1 = (n, b2)" by fastforce
  let ?c = "(1 + eps) ^ 4 * tb_rate b"
  have f: "tb_rate b1 = tb_rate b" "tb_burst b1 = tb_burst b" "tb_lastRefill b1 \<le> max now (tb_lastRefill b)"
    using Allow_fields [where now = now and b = b] by (simp_all add: a)
  have s: "of_bool ok + tb_tokens b1 \<le> tb_tokens b + ?c * (of_int (tb_lastRefill b1 - tb_lastRefill b) / 1000000000) + slack eps eta b"
    using Allow_pays [OF Cons.prems, of now] by (simp add: a)
  have "bucketOk rnd b1" using Allow_ok [OF Cons.prems, of now] by (simp add: a)
  from Cons.IH [OF this] have i: "of_int n + tb_tokens b2 \<le> tb_tokens b1 + ?c * (of_int (tb_lastRefill b2 - tb_lastRefill b1) / 1000000000) +
      of_nat (length ts) * slack eps eta b" and last: "tb_lastRefill b2 \<le> fold max ts (tb_lastRefill b1)"
    by (simp_all add: r f(1,2) slack_def)
  have "?c * (of_int (tb_lastRefill b2 - tb_lastRefill b1) / 1000000000) + ?c * (of_int (tb_lastRefill b1 - tb_lastRefill b) / 1000000000)
      = ?c * (of_int (tb_lastRefill b2 - tb_lastRefill b) / 1000000000)"
    by (simp add: distrib_left [symmetric] add_divide_distrib [symmetric])
  moreover have "x \<le> y \<Longrightarrow> fold max us x \<le> fold max us y" for us and x y :: int by (induction us arbitrary: x y) (auto simp: max_def)
  then have "tb_lastRefill b2 \<le> fold max ts (max now (tb_lastRefill b))" using last f(3) order_trans by blast
  ultimately show ?case using s i by (auto simp: a r distrib_right)
qed simp

lemma allowRun_pays:
  assumes "bucketOk rnd b" "\<forall>t \<in> set ts. t \<le> stop" "tb_lastRefill b \<le> stop"
  shows "of_int (fst (allowRun rnd ts b)) \<le> tb_tokens b + (1 + eps) ^ 4 * tb_rate b * (of_int (stop - tb_lastRefill b) / 1000000000) +
    of_nat (length ts) * slack eps eta b"
proof -
  have "0 \<le> tb_tokens (snd (allowRun rnd ts b))"
    using allowRun_ok [OF rounding_axioms assms(1), of ts] by (simp add: bucketOk_def)
  moreover have "fold max ts x \<le> stop" if "x \<le> stop" for x using that assms(2) by (induction ts arbitrary: x) simp_all
  then have "tb_lastRefill (snd (allowRun rnd ts b)) \<le> stop" using allowRun_upper [OF assms(1), of ts] assms(3) order_trans by blast
  then have "(1 + eps) ^ 4 * tb_rate b * (of_int (tb_lastRefill (snd (allowRun rnd ts b)) - tb_lastRefill b) / 1000000000) \<le>
      (1 + eps) ^ 4 * tb_rate b * (of_int (stop - tb_lastRefill b) / 1000000000)"
    using assms(1) err_nonneg by (intro mult_left_mono divide_right_mono) (simp_all add: bucketOk_def)
  ultimately show ?thesis using allowRun_upper [OF assms(1), of ts] by linarith
qed

end

text \<open>The bucket never holds more tokens than its burst nor fewer than none, whatever rounding the
  arithmetic does and however the clock moves, over any sequence of calls and while a call waits for a token.\<close>

theorem bucket_bounds:
  assumes "rounding rnd" "bucketOk rnd b"
  shows "bucketOk rnd (snd (snd (waitBucket rnd deadline now b))) \<and> bucketOk rnd (snd (allowRun rnd ts b))"
  using rounding.wait_ok [OF assms] allowRun_ok [OF assms] by simp

text \<open>C39: over any sequence of clock readings a bucket allows at most its burst and what the rate yields in the
  time that passes: the limit on the calls to the model. The bound holds for arithmetic that rounds: with a
  relative error \<open>eps\<close> and an absolute error \<open>eta\<close> per operation the rate counts \<open>(1 + eps)^4\<close> times and every call
  may add \<open>slack\<close>, \<open>2 * eps\<close> of the burst and a few \<open>eta\<close> (about \<open>2^-52\<close> of the burst for \<open>float64\<close>, nothing in exact
  arithmetic).\<close>

theorem bucket_rate:
  assumes "rounding_error rnd eps eta" "bucketOk rnd b" "\<forall>t \<in> set ts. t \<le> stop" "tb_lastRefill b \<le> stop"
  shows "of_int (fst (allowRun rnd ts b)) \<le> tb_burst b + (1 + eps) ^ 4 * tb_rate b * (of_int (stop - tb_lastRefill b) / 1000000000) +
    of_nat (length ts) * (2 * eps * tb_burst b + ((2 + eps) * ((1 + eps) ^ 2 * tb_rate b + 1) + 1) * eta)"
  using rounding_error.allowRun_pays [OF assms] assms(2) by (simp add: bucketOk_def slack_def)

section \<open>Witnesses\<close>

lemma bucket_bounds_witness:
  "bucketOk gridRound (snd (allowRun gridRound [0, 5, 3, 2000000000] (NewTokenBucket gridRound (1 / 10) 2 0)))"
  by (rule conjunct2 [OF bucket_bounds [OF grid.rounding_axioms grid.New_ok]])

lemma bucket_rate_witness:
  "fst (allowRun (\<lambda>x. x) [0, 0, 0, 500000000, 1000000000] (NewTokenBucket (\<lambda>x. x) 2 2 0)) = 4 \<and>
   of_int (fst (allowRun (\<lambda>x. x) [0, 0, 0, 500000000, 1000000000] (NewTokenBucket (\<lambda>x. x) 2 2 0))) \<le> (4 :: real) \<and>
   of_int (fst (allowRun gridRound [0, 5, 3, 2000000000] (NewTokenBucket gridRound (1 / 10) 2 0))) \<le> 2 + 1 / 10 * 2 + 4 * (3 + 1 / 5) * (1 / 2 ^ 61 :: real)"
proof (intro conjI)
  show "fst (allowRun (\<lambda>x. x) [0, 0, 0, 500000000, 1000000000] (NewTokenBucket (\<lambda>x. x) 2 2 0)) = 4"
    by (simp add: NewTokenBucket_def Allow_def refillLocked_def durSeconds_def Let_def)
  have b: "tb_burst (NewTokenBucket (\<lambda>x. x) 2 2 0) = 2" "tb_rate (NewTokenBucket (\<lambda>x. x) 2 2 0) = 2" "tb_lastRefill (NewTokenBucket (\<lambda>x. x) 2 2 0) = 0"
    by (simp_all add: NewTokenBucket_def Let_def)
  show "of_int (fst (allowRun (\<lambda>x. x) [0, 0, 0, 500000000, 1000000000] (NewTokenBucket (\<lambda>x. x) 2 2 0))) \<le> (4 :: real)"
    using bucket_rate [OF exact_error.rounding_error_axioms exact.New_ok, of "[0, 0, 0, 500000000, 1000000000]" 1000000000 2 2 0] by (simp add: b)
  have g: "tb_burst (NewTokenBucket gridRound (1 / 10) 2 0) = 2" "tb_rate (NewTokenBucket gridRound (1 / 10) 2 0) = 1 / 10"
    "tb_lastRefill (NewTokenBucket gridRound (1 / 10) 2 0) = 0"
    by (simp_all add: NewTokenBucket_def Let_def gridRound_def)
  show "of_int (fst (allowRun gridRound [0, 5, 3, 2000000000] (NewTokenBucket gridRound (1 / 10) 2 0))) \<le> 2 + 1 / 10 * 2 + 4 * (3 + 1 / 5) * (1 / 2 ^ 61 :: real)"
    using bucket_rate [OF grid_error.rounding_error_axioms grid.New_ok, of "[0, 5, 3, 2000000000]" 2000000000 "1 / 10" 2 0] by (simp add: g)
qed

end
