(* ===== verification/Job_Solo.thy ===== *)
theory Job_Solo
  imports Job_Claims
begin

text \<open>
  A worker alone: every command is answered, by Redis, by a clock, by a source of ids and by the agent, and
  nobody else uses Redis in between. \<open>solo\<close> runs a program against such an environment; it is structural, so
  every program of the service ends. The messages a worker reads are the entries of the stream in Redis that
  its group has not been given yet, in their order; a takeover is given the entries that were delivered and
  not acknowledged. The main result is total: the turn of a worker that finds a waiting job
  brings it to its next state, whatever the agent answers, and leaves no lock and no slot behind.
\<close>

section \<open>Runs without interference\<close>

record Solo =
  so_agent :: "ExecutionInput \<Rightarrow> Result result"
  so_clock :: "nat \<Rightarrow> int"
  so_id :: "nat \<Rightarrow> gostring"
  so_today :: gostring
  so_stream :: gostring
  so_message :: "nat \<Rightarrow> gostring"

record 'r SoloState =
  ss_redis :: 'r
  ss_count :: nat
  ss_next :: nat
  ss_acked :: "gostring list"
  ss_dead :: "Record list"

definition counted :: "'r SoloState \<Rightarrow> 'r SoloState" where
  "counted st = st \<lparr> ss_count := ss_count st + 1 \<rparr>"

text \<open>The entry at a position of the stream as the message the group gets; the positions are counted from the
  first entry, \<open>ss_next\<close> is the next one to deliver and \<open>so_message\<close> gives the id of a position.\<close>

definition entryAt :: "'r Redis \<Rightarrow> Solo \<Rightarrow> 'r SoloState \<Rightarrow> nat \<Rightarrow> StreamMessage" where
  "entryAt R env st i = \<lparr>sm_ID = so_message env i, sm_JobID = rd_queue R (so_stream env) (ss_redis st) ! i\<rparr>"

definition waiting :: "'r Redis \<Rightarrow> Solo \<Rightarrow> 'r SoloState \<Rightarrow> StreamMessage list" where
  "waiting R env st = (if ss_next st < length (rd_queue R (so_stream env) (ss_redis st)) then [entryAt R env st (ss_next st)] else [])"

definition unacked :: "'r Redis \<Rightarrow> Solo \<Rightarrow> 'r SoloState \<Rightarrow> StreamMessage list" where
  "unacked R env st = map (entryAt R env st) (filter (\<lambda>i. so_message env i \<notin> set (ss_acked st)) [0..<ss_next st])"

definition delivered1 :: "'r Redis \<Rightarrow> Solo \<Rightarrow> 'r SoloState \<Rightarrow> 'r SoloState" where
  "delivered1 R env st = st \<lparr> ss_next := ss_next st + length (waiting R env st) \<rparr>"

primrec solo :: "'r Redis \<Rightarrow> Solo \<Rightarrow> 'a Prog \<Rightarrow> 'r SoloState \<Rightarrow> 'a \<times> 'r SoloState" where
  "solo R env (Ret x) st = (x, st)"
| "solo R env (GetC key k) st = solo R env (k (Inr (rd_get R key (ss_redis st)))) st"
| "solo R env (SetNXC key v ttl k) st = (let (b, r) = setNX R key v (millis ttl) (ss_redis st) in solo R env (k (Inr b)) (st \<lparr> ss_redis := r \<rparr>))"
| "solo R env (EvalC sc k) st = (let (reply, r) = runScript R sc (ss_redis st) in solo R env (k (Inr reply)) (st \<lparr> ss_redis := r \<rparr>))"
| "solo R env (AckC mid k) st = solo R env (k None) (st \<lparr> ss_acked := mid # ss_acked st \<rparr>)"
| "solo R env (DeadC rec k) st = solo R env (k None) (st \<lparr> ss_dead := rec # ss_dead st \<rparr>)"
| "solo R env (ReadC c k) st = solo R env (k (Inr (waiting R env st))) (delivered1 R env st)"
| "solo R env (ClaimC c s d n k) st = solo R env (k (Inr (''0-0'', take (nat n) (unacked R env st)))) st"
| "solo R env (GroupC k) st = solo R env (k None) st"
| "solo R env (NowC k) st = solo R env (k (so_clock env (ss_count st))) (counted st)"
| "solo R env (NewIDC k) st = solo R env (k (so_id env (ss_count st))) (counted st)"
| "solo R env (TodayC k) st = solo R env (k (so_today env)) st"
| "solo R env (RunC input k) st = solo R env (k (so_agent env input)) st"

lemma solo_andThen: "solo R env (andThen p f) st = (let (x, st1) = solo R env p st in solo R env (f x) st1)"
  by (induction p arbitrary: st) (simp_all add: Let_def split_beta)

lemma counted_simps [simp]: "ss_redis (counted st) = ss_redis st" "ss_acked (counted st) = ss_acked st" "ss_dead (counted st) = ss_dead st"
  by (simp_all add: counted_def)

section \<open>The operations alone\<close>

text \<open>What an operation leaves as it was: every string but those of a set of keys, and every semaphore.\<close>

definition keeps :: "'r Redis \<Rightarrow> gostring set \<Rightarrow> 'r \<Rightarrow> 'r \<Rightarrow> bool" where
  "keeps R ks r r' \<longleftrightarrow> (\<forall>k. k \<notin> ks \<longrightarrow> rd_get R k r' = rd_get R k r \<and> (\<forall>m. rd_zscore R k m r' = rd_zscore R k m r))"

lemma keeps_refl [simp]: "keeps R ks r r"
  by (simp add: keeps_def)

lemma keeps_trans: "keeps R ks r r1 \<Longrightarrow> keeps R ks' r1 r2 \<Longrightarrow> keeps R (ks \<union> ks') r r2"
  by (simp add: keeps_def)

lemma keepsD:
  "keeps R ks r r' \<Longrightarrow> k \<notin> ks \<Longrightarrow> rd_get R k r' = rd_get R k r"
  "keeps R ks r r' \<Longrightarrow> k \<notin> ks \<Longrightarrow> rd_zscore R k m r' = rd_zscore R k m r"
  by (simp_all add: keeps_def)

context redis begin

lemma solo_saveJob:
  assumes "0 < millis (jc_JobTTL cfg)" "rd_get R (jobKey cfg (jr_ID rec)) (ss_redis st) = Some (Job cur)" "jr_Version cur = jr_Version rec"
    and "idOk (jr_ID rec)"
  obtains r' where "solo R env (saveJob cfg rec) st = ((None, rec \<lparr> jr_Version := jr_Version rec + 1 \<rparr>), st \<lparr> ss_redis := r' \<rparr>)"
    "rd_get R (jobKey cfg (jr_ID rec)) r' = Some (Job (rec \<lparr> jr_Version := jr_Version rec + 1 \<rparr>))"
    "keeps R {jobKey cfg (jr_ID rec), sourceKeyOf cfg rec} (ss_redis st) r'"
proof -
  obtain s where s: "sourceKeyOf cfg rec = sourceEventKey cfg s" using sourceKeyOf_ex by blast
  have "jobKey cfg (jr_ID rec) \<noteq> sourceKeyOf cfg rec" using job_key_families(5) [OF assms(4)] by (simp add: s)
  then have "solo R env (saveJob cfg rec) st = ((None, rec \<lparr> jr_Version := jr_Version rec + 1 \<rparr>), st \<lparr> ss_redis :=
       snd (runScript R (SaveJob (jobKey cfg (jr_ID rec)) (sourceKeyOf cfg rec) (jr_Version rec) (rec \<lparr> jr_Version := jr_Version rec + 1 \<rparr>)
         (millis (jc_JobTTL cfg)) (jr_SourceEventID rec \<noteq> [])) (ss_redis st)) \<rparr>)"
    using assms by (simp add: saveJob_def Let_def runScript_def saveJobScript_def replyInt64_def)
  then show thesis
    by (rule that) (use assms \<open>jobKey cfg (jr_ID rec) \<noteq> sourceKeyOf cfg rec\<close> in
      \<open>auto simp: runScript_def saveJobScript_def Let_def keeps_def get_set zscore_set\<close>)
qed

lemma solo_releaseToken:
  assumes "rd_get R key (ss_redis st) = Some (Text token)"
  shows "solo R env (releaseToken key token) st = ((), st \<lparr> ss_redis := rd_del R key (ss_redis st) \<rparr>)"
    "rd_get R key (rd_del R key (ss_redis st)) = None" "keeps R {key} (ss_redis st) (rd_del R key (ss_redis st))"
  using assms by (simp_all add: releaseToken_def runScript_def releaseTokenScript_def keeps_def get_del zscore_del)

lemma solo_releaseConcurrency:
  obtains r' where "solo R env (releaseConcurrency cfg rec token) st = ((), st \<lparr> ss_redis := r' \<rparr>)"
    "rd_zscore R (globalKey cfg) token r' = None" "rd_zscore R (scopeConcurrencyKey cfg rec) token r' = None"
    "\<And>k. rd_get R k r' = rd_get R k (ss_redis st)" "keeps R {globalKey cfg, scopeConcurrencyKey cfg rec} (ss_redis st) r'"
    "\<And>k m. rd_zscore R k m r' \<noteq> None \<Longrightarrow> rd_zscore R k m (ss_redis st) \<noteq> None"
  by (rule that [of "snd (releaseConcurrencyScript R (globalKey cfg) (scopeConcurrencyKey cfg rec) token (ss_redis st))"])
    (simp_all add: releaseConcurrency_def runScript_def releaseConcurrencyScript_def keeps_def get_zrem zscore_zrem split: if_splits)

lemma solo_acquire:
  assumes "0 < millis (claimTTL cfg)" "rd_zcard R (globalKey cfg) (ss_redis st) < jc_GlobalConcurrency cfg"
    "rd_zcard R (scopeConcurrencyKey cfg rec) (ss_redis st) < jc_ScopeConcurrency cfg"
    "rd_get R (globalKey cfg) (ss_redis st) = None" "rd_get R (scopeConcurrencyKey cfg rec) (ss_redis st) = None"
  obtains r' where "solo R env (acquireConcurrency cfg rec token) st = (Inr True, counted st \<lparr> ss_redis := r' \<rparr>)"
    "\<And>k. rd_get R k r' = rd_get R k (ss_redis st)" "keeps R {globalKey cfg, scopeConcurrencyKey cfg rec} (ss_redis st) r'"
    "\<And>k m. rd_zscore R k m r' \<noteq> None \<Longrightarrow> m \<noteq> token \<Longrightarrow> rd_zscore R k m (ss_redis st) \<noteq> None"
proof -
  let ?g = "globalKey cfg" and ?s = "scopeConcurrencyKey cfg rec" and ?now = "millis (so_clock env (ss_count st))"
  define r1 where "r1 = rd_zremUpTo R ?s ?now (rd_zremUpTo R ?g ?now (ss_redis st))"
  define r2 where "r2 = (let e = millis (so_clock env (ss_count st) + claimTTL cfg) in rd_zadd R ?s e token (rd_zadd R ?g e token r1))"
  define r4 where "r4 = snd (rd_pexpire R ?s (millis (claimTTL cfg)) (snd (rd_pexpire R ?g (millis (claimTTL cfg)) r2)))"
  have "rd_zcard R k r1 \<le> rd_zcard R k (ss_redis st)" for k
    by (rule zcard_mono) (auto simp: r1_def zscore_zremUpTo split: option.splits if_splits)
  from this [of ?g] this [of ?s] assms(1-3)
  have run: "solo R env (acquireConcurrency cfg rec token) st = (Inr True, counted st \<lparr> ss_redis := r4 \<rparr>)"
    by (simp add: acquireConcurrency_def runScript_def acquireConcurrencyScript_def Let_def replyInt64_def r1_def r2_def r4_def)
  have g: "rd_get R k r1 = rd_get R k (ss_redis st)" "rd_get R k r4 = rd_get R k (ss_redis st)" for k
    using assms(1) by (simp_all add: r1_def r2_def r4_def Let_def get_zremUpTo get_zadd get_pexpire)
  have n: "rd_get R ?g r1 = None" "rd_get R ?s (rd_zadd R ?g e token r1) = None" for e using assms(4,5) g by (simp_all add: get_zadd)
  have z: "rd_zscore R k m r4 = rd_zscore R k m r1" if "m \<noteq> token \<or> k \<noteq> ?g \<and> k \<noteq> ?s" for k m
    using that assms(1) by (auto simp: r4_def r2_def Let_def zscore_pexpire zscore_zadd [OF n(1)] zscore_zadd [OF n(2)])
  have z1: "rd_zscore R k m r1 = rd_zscore R k m (ss_redis st)" if "k \<noteq> ?g" "k \<noteq> ?s" for k m
    using that by (simp add: r1_def zscore_zremUpTo split: option.split)
  have z2: "rd_zscore R k m r1 \<noteq> None \<Longrightarrow> rd_zscore R k m (ss_redis st) \<noteq> None" for k m
    by (auto simp: r1_def zscore_zremUpTo split: option.splits if_splits)
  show thesis using g z z1 z2 by (intro that [OF run]) (simp_all add: keeps_def)
qed

lemma solo_release:
  assumes "rd_get R claim (ss_redis st) = Some (Text t)" "rd_get R review (ss_redis st) = Some (Text t')" "review \<noteq> claim"
    and "claim \<notin> {globalKey cfg, scopeConcurrencyKey cfg rec}" "review \<notin> {globalKey cfg, scopeConcurrencyKey cfg rec}"
  obtains r' where "solo R env (andThen (releaseConcurrency cfg rec token) (\<lambda>_. andThen (releaseToken review t') (\<lambda>_. releaseToken claim t))) st
      = ((), st \<lparr> ss_redis := r' \<rparr>)"
    "rd_get R claim r' = None" "rd_get R review r' = None" "rd_zscore R (globalKey cfg) token r' = None"
    "rd_zscore R (scopeConcurrencyKey cfg rec) token r' = None"
    "\<And>k m. rd_zscore R k m r' \<noteq> None \<Longrightarrow> k \<noteq> claim \<Longrightarrow> k \<noteq> review \<Longrightarrow> rd_zscore R k m (ss_redis st) \<noteq> None"
    "\<And>k. k \<noteq> claim \<Longrightarrow> k \<noteq> review \<Longrightarrow> rd_get R k r' = rd_get R k (ss_redis st)"
proof -
  obtain r1 where r1: "solo R env (releaseConcurrency cfg rec token) st = ((), st \<lparr> ss_redis := r1 \<rparr>)"
    "rd_zscore R (globalKey cfg) token r1 = None" "rd_zscore R (scopeConcurrencyKey cfg rec) token r1 = None"
    "\<And>k. rd_get R k r1 = rd_get R k (ss_redis st)" "keeps R {globalKey cfg, scopeConcurrencyKey cfg rec} (ss_redis st) r1"
    "\<And>k m. rd_zscore R k m r1 \<noteq> None \<Longrightarrow> rd_zscore R k m (ss_redis st) \<noteq> None"
    using solo_releaseConcurrency by blast
  have review: "rd_get R review (ss_redis (st \<lparr> ss_redis := r1 \<rparr>)) = Some (Text t')" using r1(4) assms(2) by simp
  note rv = solo_releaseToken [OF review]
  let ?r2 = "rd_del R review r1"
  have claim: "rd_get R claim (ss_redis (st \<lparr> ss_redis := ?r2 \<rparr>)) = Some (Text t)" using r1(4) assms(1,3) by (simp add: get_del)
  note cl = solo_releaseToken [OF claim]
  show thesis
  proof (rule that)
    show "solo R env (andThen (releaseConcurrency cfg rec token) (\<lambda>_. andThen (releaseToken review t') (\<lambda>_. releaseToken claim t))) st
      = ((), st \<lparr> ss_redis := rd_del R claim ?r2 \<rparr>)"
      using rv(1) cl(1) by (simp add: solo_andThen r1(1))
  qed (use assms r1(2,3,4,6) in \<open>auto simp: get_del zscore_del\<close>)
qed

end

section \<open>The turn of a worker\<close>

text \<open>What an attempt makes of a job: \<open>b\<close> is the job as the agent got it, \<open>res\<close> what the agent said.\<close>

definition finished :: "Record \<Rightarrow> Result result \<Rightarrow> Record \<Rightarrow> bool" where
  "finished b res c \<longleftrightarrow> (\<exists>t t' x. case res of
       Inr result \<Rightarrow> c = bump b (completedRecord result t b)
     | Inl err \<Rightarrow> c = bump b (if jr_Attempts b \<le> jr_MaxRetries b then retryRecord x t' (failedAttempt err t b)
         else failedRecord t' (failedAttempt err t b)))"

definition attempted :: "Record \<Rightarrow> Result result \<Rightarrow> Record \<Rightarrow> bool" where
  "attempted a res c \<longleftrightarrow> (\<exists>t. finished (bump a (startedRecord t a)) res c)"

lemma finished_fields:
  "finished b res c \<Longrightarrow> jr_ID c = jr_ID b \<and> jr_StoreID c = jr_StoreID b \<and> jr_ReviewID c = jr_ReviewID b \<and>
     jr_SourceEventID c = jr_SourceEventID b"
  by (cases res) (auto simp: finished_def record_defs)

text \<open>What a message gets from the job it leaves behind.\<close>

definition noted :: "gostring \<Rightarrow> Record \<Rightarrow> 'r SoloState \<Rightarrow> 'r SoloState \<Rightarrow> bool" where
  "noted mid c st st' \<longleftrightarrow> ss_acked st' = (if isTerminal (jr_Status c) then mid # ss_acked st else ss_acked st) \<and>
     ss_dead st' = (if jr_Status c = Failed then c # ss_dead st else ss_dead st)"

context redis begin

lemma solo_finishJob:
  assumes "0 < millis (jc_JobTTL cfg)" "rd_get R (jobKey cfg (jr_ID b)) (ss_redis st) = Some (Job b)" "idOk (jr_ID b)"
  obtains st' c where "solo R env (finishJob cfg message b res fin) st = solo R env fin st'" "finished b res c"
    "rd_get R (jobKey cfg (jr_ID b)) (ss_redis st') = Some (Job c)" "noted (sm_ID message) c st st'"
    "keeps R {jobKey cfg (jr_ID b), sourceKeyOf cfg b} (ss_redis st) (ss_redis st')"
proof -
  note step = that
  have save: thesis if c: "jr_ID c0 = jr_ID b" "jr_Version c0 = jr_Version b" "jr_SourceEventID c0 = jr_SourceEventID b"
    and run: "\<And>r'. solo R env (finishJob cfg message b res fin) st =
      (let ((err, rec'), st2) = solo R env (saveJob cfg c0) st1 in if err \<noteq> None then solo R env fin st2 else solo R env fin (after rec' st2))"
    and st1: "ss_redis st1 = ss_redis st" "ss_acked st1 = ss_acked st" "ss_dead st1 = ss_dead st"
    and fin: "finished b res (bump b c0)"
    and after: "\<And>s. ss_redis (after (bump b c0) s) = ss_redis s" "\<And>s. noted (sm_ID message) (bump b c0) s (after (bump b c0) s)"
    for c0 st1 after
  proof -
    have g: "rd_get R (jobKey cfg (jr_ID c0)) (ss_redis st1) = Some (Job b)" using assms(2) c st1 by simp
    obtain r' where r': "solo R env (saveJob cfg c0) st1 = ((None, c0 \<lparr> jr_Version := jr_Version c0 + 1 \<rparr>), st1 \<lparr> ss_redis := r' \<rparr>)"
      "rd_get R (jobKey cfg (jr_ID c0)) r' = Some (Job (c0 \<lparr> jr_Version := jr_Version c0 + 1 \<rparr>))"
      "keeps R {jobKey cfg (jr_ID c0), sourceKeyOf cfg c0} (ss_redis st1) r'"
      using solo_saveJob [OF assms(1) g] c assms(3) by metis
    have b: "c0 \<lparr> jr_Version := jr_Version c0 + 1 \<rparr> = bump b c0" by (simp add: bump_def c(2))
    have sk: "sourceKeyOf cfg c0 = sourceKeyOf cfg b" by (simp add: sourceKeyOf_def c(3))
    show thesis
    proof (rule step [of "after (bump b c0) (st1 \<lparr> ss_redis := r' \<rparr>)" "bump b c0"])
      show "solo R env (finishJob cfg message b res fin) st = solo R env fin (after (bump b c0) (st1 \<lparr> ss_redis := r' \<rparr>))"
        unfolding run r'(1) b by simp
      show "finished b res (bump b c0)" by (rule fin)
      show "noted (sm_ID message) (bump b c0) st (after (bump b c0) (st1 \<lparr> ss_redis := r' \<rparr>))"
        using after(2) [of "st1 \<lparr> ss_redis := r' \<rparr>"] st1 by (simp add: noted_def)
    qed (use r' after(1) c sk st1 b in simp_all)
  qed
  show thesis
  proof (cases res)
    case (Inr result)
    let ?c = "completedRecord result (so_clock env (ss_count st)) b"
    show thesis
    proof (rule save [of ?c "counted st" "\<lambda>_ s. s \<lparr> ss_acked := sm_ID message # ss_acked s \<rparr>"])
      show "finished b res (bump b ?c)" using Inr by (auto simp: finished_def)
    qed (use Inr in \<open>simp_all add: finishJob_def solo_andThen split_beta Let_def completedRecord_def noted_def bump_def isTerminal_def\<close>)
  next
    case (Inl err)
    let ?f = "failedAttempt err (so_clock env (ss_count st)) b"
    show thesis
    proof (cases "jr_Attempts b \<le> jr_MaxRetries b")
      case True
      let ?x = "so_id env (ss_count st + 1)" and ?t = "so_clock env (ss_count st + 2)"
      have f: "jr_Attempts ?f \<le> jr_MaxRetries ?f" using True by (simp add: failedAttempt_def)
      show thesis
      proof (rule save [of "retryRecord ?x ?t ?f" "counted (counted (counted st))" "\<lambda>_ s. s"])
        show "finished b res (bump b (retryRecord ?x ?t ?f))" using Inl True by (auto simp: finished_def)
        show "solo R env (finishJob cfg message b res fin) st =
          (let ((err, rec'), st2) = solo R env (saveJob cfg (retryRecord ?x ?t ?f)) (counted (counted (counted st))) in
            if err \<noteq> None then solo R env fin st2 else solo R env fin st2)"
          using Inl f by (simp add: finishJob_def Let_def solo_andThen split_beta) (auto simp: counted_def)
      qed (simp_all add: retryRecord_def failedAttempt_def noted_def bump_def isTerminal_def)
    next
      case False
      let ?t = "so_clock env (ss_count st + 1)"
      have f: "\<not> jr_Attempts ?f \<le> jr_MaxRetries ?f" using False by (simp add: failedAttempt_def)
      show thesis
      proof (rule save [of "failedRecord ?t ?f" "counted (counted st)" "\<lambda>c s. s \<lparr> ss_dead := c # ss_dead s, ss_acked := sm_ID message # ss_acked s \<rparr>"])
        show "finished b res (bump b (failedRecord ?t ?f))" using Inl False by (auto simp: finished_def)
        show "solo R env (finishJob cfg message b res fin) st =
          (let ((err, rec'), st2) = solo R env (saveJob cfg (failedRecord ?t ?f)) (counted (counted st)) in
            if err \<noteq> None then solo R env fin st2 else solo R env fin (st2 \<lparr> ss_dead := rec' # ss_dead st2, ss_acked := sm_ID message # ss_acked st2 \<rparr>))"
          using Inl f by (simp add: finishJob_def Let_def solo_andThen split_beta) (auto simp: counted_def)
      qed (simp_all add: failedRecord_def failedAttempt_def noted_def bump_def isTerminal_def)
    qed
  qed
qed

end

section \<open>The claim\<close>

text \<open>A worker and the client of a lock also rely on which keys exist after a set or a deletion.\<close>

locale redis_exists = redis +
  assumes exists_set: "0 < ttl \<Longrightarrow> rd_exists R k' (rd_set R k v ttl r) \<longleftrightarrow> k' = k \<or> rd_exists R k' r"
    and exists_xadd: "k' \<noteq> k \<Longrightarrow> rd_exists R k' (rd_xadd R k jid r) \<longleftrightarrow> rd_exists R k' r"
    and exists_del: "rd_exists R k' (rd_del R k r) \<longleftrightarrow> k' \<noteq> k \<and> rd_exists R k' r"

interpretation keyspace_exists: redis_exists keyspace
  by unfold_locales (simp_all add: keyspace_def ksPut_def)

lemma lock_keys_differ: "reviewExecutionKey cfg rec \<noteq> claimKey cfg x"
  by (simp add: reviewExecutionKey_def claimKey_def)

lemma started_input: "executionInput (bump a (startedRecord t a)) = executionInput a"
  by (simp add: executionInput_def bump_def startedRecord_def)

text \<open>A worker can take the job: it is due, nobody holds its claim or the lock of its review, a slot is free.\<close>

definition ready :: "JobConfig \<Rightarrow> 'r Redis \<Rightarrow> (nat \<Rightarrow> int) \<Rightarrow> Record \<Rightarrow> 'r \<Rightarrow> bool" where
  "ready cfg R clock a r \<longleftrightarrow> (jr_Status a = Pending \<or> jr_Status a = Retrying \<and> (\<forall>n. jr_UpdatedAt a + jc_RetryBackoff cfg \<le> clock n)) \<and>
     \<not> rd_exists R (claimKey cfg (jr_ID a)) r \<and> \<not> rd_exists R (reviewExecutionKey cfg a) r \<and>
     rd_get R (globalKey cfg) r = None \<and> rd_get R (scopeConcurrencyKey cfg a) r = None \<and>
     rd_zcard R (globalKey cfg) r < jc_GlobalConcurrency cfg \<and> rd_zcard R (scopeConcurrencyKey cfg a) r < jc_ScopeConcurrency cfg"

context redis_exists begin

lemma solo_setNX:
  assumes "\<not> rd_exists R key (ss_redis st)" "0 < millis ttl"
  shows "\<exists>r'. (\<forall>k. solo R env (SetNXC key v ttl k) st = solo R env (k (Inr True)) (st \<lparr> ss_redis := r' \<rparr>)) \<and>
    rd_get R key r' = Some (Text v) \<and> keeps R {key} (ss_redis st) r' \<and>
    (\<forall>k'. k' \<noteq> key \<longrightarrow> rd_exists R k' r' = rd_exists R k' (ss_redis st))"
  using assms by (intro exI [of _ "rd_set R key (Text v) (millis ttl) (ss_redis st)"])
    (simp add: setNX_def get_set keeps_def zscore_set exists_set)

lemma zcard_keeps: "keeps R ks r r' \<Longrightarrow> k \<notin> ks \<Longrightarrow> rd_zcard R k r' = rd_zcard R k r"
  by (simp add: zcard keeps_def)

lemma solo_runJob:
  assumes "0 < millis (jc_JobTTL cfg)" "rd_get R (jobKey cfg (jr_ID a)) (ss_redis st) = Some (Job a)" "idOk (jr_ID a)"
  obtains st' c where "solo R env (runJob cfg message a fin) st = solo R env fin st'" "attempted a (so_agent env (executionInput a)) c"
    "rd_get R (jobKey cfg (jr_ID a)) (ss_redis st') = Some (Job c)" "noted (sm_ID message) c st st'"
    "keeps R {jobKey cfg (jr_ID a), sourceKeyOf cfg a} (ss_redis st) (ss_redis st')"
proof -
  let ?now = "so_clock env (ss_count st)"
  let ?a = "startedRecord ?now a" and ?b = "bump a (startedRecord ?now a)"
  have f: "jr_ID ?a = jr_ID a" "jr_Version ?a = jr_Version a" "sourceKeyOf cfg ?a = sourceKeyOf cfg a" "jr_ID ?b = jr_ID a"
    "sourceKeyOf cfg ?b = sourceKeyOf cfg a" "?a \<lparr> jr_Version := jr_Version ?a + 1 \<rparr> = ?b"
    by (simp_all add: startedRecord_def sourceKeyOf_def bump_def)
  obtain r1 where r1: "solo R env (saveJob cfg ?a) (counted st) = ((None, ?b), counted st \<lparr> ss_redis := r1 \<rparr>)"
    "rd_get R (jobKey cfg (jr_ID a)) r1 = Some (Job ?b)" "keeps R {jobKey cfg (jr_ID a), sourceKeyOf cfg a} (ss_redis st) r1"
    using solo_saveJob [of cfg ?a "counted st" a env] assms f by (metis counted_simps(1))
  have g: "rd_get R (jobKey cfg (jr_ID ?b)) (ss_redis (counted st \<lparr> ss_redis := r1 \<rparr>)) = Some (Job ?b)" using r1(2) by (simp add: f)
  obtain st' c where fin: "solo R env (finishJob cfg message ?b (so_agent env (executionInput a)) fin) (counted st \<lparr> ss_redis := r1 \<rparr>) = solo R env fin st'"
    "finished ?b (so_agent env (executionInput a)) c" "rd_get R (jobKey cfg (jr_ID a)) (ss_redis st') = Some (Job c)"
    "noted (sm_ID message) c (counted st \<lparr> ss_redis := r1 \<rparr>) st'"
    "keeps R {jobKey cfg (jr_ID a), sourceKeyOf cfg a} r1 (ss_redis st')"
    using solo_finishJob [OF assms(1) g, of env message "so_agent env (executionInput a)" fin] assms(3) f by (auto simp del: bump_def)
  show thesis
  proof (rule that)
    show "solo R env (runJob cfg message a fin) st = solo R env fin st'"
      by (simp add: runJob_def solo_andThen r1(1) started_input fin(1))
    show "attempted a (so_agent env (executionInput a)) c" using fin(2) by (auto simp: attempted_def)
    show "noted (sm_ID message) c st st'" using fin(4) by (simp add: noted_def)
    show "keeps R {jobKey cfg (jr_ID a), sourceKeyOf cfg a} (ss_redis st) (ss_redis st')" using keeps_trans [OF r1(3) fin(5)] by simp
  qed (rule fin(3))
qed

text \<open>The locks and the slot around it: taken, kept while the job runs, gone at the end.\<close>

lemma solo_process:
  assumes "jobCfgOk cfg" "jc_Enabled cfg" "idOk (jr_ID a)" "TrimSpace (sm_JobID message) = jr_ID a"
    and "rd_get R (jobKey cfg (jr_ID a)) (ss_redis st) = Some (Job a)" "ready cfg R (so_clock env) a (ss_redis st)"
  obtains st' c where "solo R env (processMessage cfg message) st = ((), st')" "attempted a (so_agent env (executionInput a)) c"
    "rd_get R (jobKey cfg (jr_ID a)) (ss_redis st') = Some (Job c)" "noted (sm_ID message) c st st'"
    "rd_get R (claimKey cfg (jr_ID a)) (ss_redis st') = None" "rd_get R (reviewExecutionKey cfg a) (ss_redis st') = None"
    "\<And>k m. k = globalKey cfg \<or> k = scopeConcurrencyKey cfg a \<Longrightarrow> rd_zscore R k m (ss_redis st') \<noteq> None \<Longrightarrow> rd_zscore R k m (ss_redis st) \<noteq> None"
proof -
  let ?j = "jobKey cfg (jr_ID a)" and ?c = "claimKey cfg (jr_ID a)" and ?v = "reviewExecutionKey cfg a"
    and ?g = "globalKey cfg" and ?s = "scopeConcurrencyKey cfg a"
  note ttl = assms(1) [unfolded jobCfgOk_def]
  note keys = key_families key_families [symmetric] job_key_families [OF assms(3)] job_key_families [OF assms(3), symmetric]
    lock_keys_differ lock_keys_differ [symmetric]
  obtain sid where sid: "sourceKeyOf cfg a = sourceEventKey cfg sid" using sourceKeyOf_ex by blast
  have ready: "\<not> rd_exists R ?c (ss_redis st)" "\<not> rd_exists R ?v (ss_redis st)" "rd_get R ?g (ss_redis st) = None" "rd_get R ?s (ss_redis st) = None"
    "rd_zcard R ?g (ss_redis st) < jc_GlobalConcurrency cfg" "rd_zcard R ?s (ss_redis st) < jc_ScopeConcurrency cfg"
    "jr_Status a = Pending \<or> jr_Status a = Retrying \<and> (\<forall>n. jr_UpdatedAt a + jc_RetryBackoff cfg \<le> so_clock env n)"
    using assms(6) by (simp_all add: ready_def)
  let ?t = "so_id env (ss_count st)" and ?fin = "releaseToken ?c (so_id env (ss_count st))"
  have p: "solo R env (processMessage cfg message) st = solo R env (SetNXC ?c ?t (claimTTL cfg) (\<lambda>claimed.
      if claimed \<noteq> Inr True then Ret () else processClaimed cfg message (jr_ID a) ?fin)) (counted st)"
    using assms(3) by (simp add: processMessage_def assms(4) idOk_def Let_def)
  have e0: "\<not> rd_exists R ?c (ss_redis (counted st))" using ready(1) by simp
  obtain r1 where set1: "\<And>k :: bool result \<Rightarrow> unit Prog. solo R env (SetNXC ?c ?t (claimTTL cfg) k) (counted st) = solo R env (k (Inr True)) (counted st \<lparr> ss_redis := r1 \<rparr>)"
    and r1: "rd_get R ?c r1 = Some (Text ?t)" "keeps R {?c} (ss_redis st) r1" "\<And>k'. k' \<noteq> ?c \<Longrightarrow> rd_exists R k' r1 = rd_exists R k' (ss_redis st)"
    using solo_setNX [OF e0, of "claimTTL cfg" env ?t] ttl unfolding counted_simps by blast
  have j1: "rd_get R ?j r1 = Some (Job a)" using keepsD(1) [OF r1(2), of ?j] keys assms(5) by simp
  define st1 where "st1 = (if jr_Status a = Retrying then counted (counted st \<lparr> ss_redis := r1 \<rparr>) else counted st \<lparr> ss_redis := r1 \<rparr>)"
  have st1: "ss_redis st1 = r1" "ss_acked st1 = ss_acked st" "ss_dead st1 = ss_dead st" by (simp_all add: st1_def)
  have due: "jr_Status a = Retrying \<Longrightarrow> \<not> so_clock env n < jr_UpdatedAt a + jc_RetryBackoff cfg" for n using ready(7) by (auto simp: not_less)
  have claimed: "solo R env (processClaimed cfg message (jr_ID a) ?fin) (counted st \<lparr> ss_redis := r1 \<rparr>) = solo R env (withReview cfg message a ?fin) st1"
    using ready(7) due j1 assms(2,3) by (auto simp: processClaimed_def GetJob_def idOk_def isTerminal_def resume_def solo_andThen st1_def)
  let ?t' = "so_id env (ss_count st1)"
  let ?fin' = "andThen (releaseToken ?v ?t') (\<lambda>_. ?fin)"
  have e1: "\<not> rd_exists R ?v (ss_redis (counted st1))" using r1(3) [of ?v] ready(2) keys st1 by simp
  have p2: "solo R env (withReview cfg message a ?fin) st1 = solo R env (SetNXC ?v ?t' (claimTTL cfg) (\<lambda>claimed.
      if claimed \<noteq> Inr True then ?fin else withSlot cfg message a ?fin')) (counted st1)"
    by (simp add: withReview_def)
  obtain r2 where set2: "\<And>k :: bool result \<Rightarrow> unit Prog. solo R env (SetNXC ?v ?t' (claimTTL cfg) k) (counted st1) = solo R env (k (Inr True)) (counted st1 \<lparr> ss_redis := r2 \<rparr>)"
    and r2: "rd_get R ?v r2 = Some (Text ?t')" "keeps R {?v} r1 r2"
    using solo_setNX [OF e1, of "claimTTL cfg" env ?t'] ttl unfolding counted_simps st1 by blast
  define st2 where "st2 = counted (counted st1 \<lparr> ss_redis := r2 \<rparr>)"
  have st2: "ss_redis st2 = r2" "ss_acked st2 = ss_acked st" "ss_dead st2 = ss_dead st" by (simp_all add: st2_def st1)
  let ?t'' = "so_id env (ss_count (counted st1 \<lparr> ss_redis := r2 \<rparr>))"
  let ?fin'' = "andThen (releaseConcurrency cfg a ?t'') (\<lambda>_. ?fin')"
  have k2: "keeps R {?c, ?v} (ss_redis st) r2" using keeps_trans [OF r1(2) r2(2)] by (simp add: insert_commute)
  have s2: "rd_zcard R ?g (ss_redis st2) < jc_GlobalConcurrency cfg" "rd_zcard R ?s (ss_redis st2) < jc_ScopeConcurrency cfg"
    "rd_get R ?g (ss_redis st2) = None" "rd_get R ?s (ss_redis st2) = None"
    using zcard_keeps [OF k2, of ?g] zcard_keeps [OF k2, of ?s] keepsD(1) [OF k2, of ?g] keepsD(1) [OF k2, of ?s] keys ready st2 by auto
  obtain r3 where r3: "solo R env (acquireConcurrency cfg a ?t'') st2 = (Inr True, counted st2 \<lparr> ss_redis := r3 \<rparr>)"
    "\<And>k. rd_get R k r3 = rd_get R k r2" "keeps R {?g, ?s} r2 r3"
    "\<And>k m. rd_zscore R k m r3 \<noteq> None \<Longrightarrow> m \<noteq> ?t'' \<Longrightarrow> rd_zscore R k m r2 \<noteq> None"
    using solo_acquire [of cfg st2 a env ?t''] ttl s2 st2 by auto
  have slot: "solo R env (withSlot cfg message a ?fin') (counted st1 \<lparr> ss_redis := r2 \<rparr>) = solo R env (runJob cfg message a ?fin'') (counted st2 \<lparr> ss_redis := r3 \<rparr>)"
    using r3(1) by (simp add: withSlot_def solo_andThen st2_def)
  have j3: "rd_get R ?j (ss_redis (counted st2 \<lparr> ss_redis := r3 \<rparr>)) = Some (Job a)"
    using keepsD(1) [OF k2, of ?j] keys assms(5) by (simp add: r3(2))
  obtain st4 c where st4: "solo R env (runJob cfg message a ?fin'') (counted st2 \<lparr> ss_redis := r3 \<rparr>) = solo R env ?fin'' st4"
    "attempted a (so_agent env (executionInput a)) c" "rd_get R ?j (ss_redis st4) = Some (Job c)"
    "noted (sm_ID message) c (counted st2 \<lparr> ss_redis := r3 \<rparr>) st4" "keeps R {?j, sourceKeyOf cfg a} r3 (ss_redis st4)"
    using solo_runJob [OF _ j3 assms(3), of env message ?fin''] ttl by auto
  have t4: "rd_get R ?c (ss_redis st4) = Some (Text ?t)" "rd_get R ?v (ss_redis st4) = Some (Text ?t')"
    using keepsD(1) [OF st4(5), of ?c] keepsD(1) [OF st4(5), of ?v] keepsD(1) [OF r2(2), of ?c] r1(1) r2(1) keys by (auto simp: r3(2) sid)
  obtain r5 where r5: "solo R env ?fin'' st4 = ((), st4 \<lparr> ss_redis := r5 \<rparr>)" "rd_get R ?c r5 = None" "rd_get R ?v r5 = None"
    "rd_zscore R ?g ?t'' r5 = None" "rd_zscore R ?s ?t'' r5 = None"
    "\<And>k m. rd_zscore R k m r5 \<noteq> None \<Longrightarrow> k \<noteq> ?c \<Longrightarrow> k \<noteq> ?v \<Longrightarrow> rd_zscore R k m (ss_redis st4) \<noteq> None"
    "\<And>k. k \<noteq> ?c \<Longrightarrow> k \<noteq> ?v \<Longrightarrow> rd_get R k r5 = rd_get R k (ss_redis st4)"
    using solo_release [OF t4, of cfg a env ?t''] keys by auto
  show thesis
  proof (rule that [of "st4 \<lparr> ss_redis := r5 \<rparr>" c])
    show "solo R env (processMessage cfg message) st = ((), st4 \<lparr> ss_redis := r5 \<rparr>)" using st4(1) r5(1) slot by (simp add: p set1 claimed p2 set2 del: solo.simps)
    show "noted (sm_ID message) c st (st4 \<lparr> ss_redis := r5 \<rparr>)" using st4(4) st2 by (simp add: noted_def)
    show "rd_get R ?j (ss_redis (st4 \<lparr> ss_redis := r5 \<rparr>)) = Some (Job c)" using r5(7) [of ?j] st4(3) keys by simp
    fix k m
    assume k: "k = ?g \<or> k = ?s" and z: "rd_zscore R k m (ss_redis (st4 \<lparr> ss_redis := r5 \<rparr>)) \<noteq> None"
    have kk: "k \<notin> {?j, sourceKeyOf cfg a}" "k \<notin> {?c, ?v}" "k \<noteq> ?c" "k \<noteq> ?v" using k keys by (auto simp: sid)
    have z5: "rd_zscore R k m r5 \<noteq> None" using z by simp
    have "m \<noteq> ?t''" using k z5 r5(4,5) by auto
    moreover have "rd_zscore R k m r3 \<noteq> None" using r5(6) [OF z5 kk(3,4)] unfolding keepsD(2) [OF st4(5) kk(1)] .
    ultimately have "rd_zscore R k m r2 \<noteq> None" using r3(4) by blast
    then show "rd_zscore R k m (ss_redis st) \<noteq> None" unfolding keepsD(2) [OF k2 kk(2)] .
  qed (use st4(2) r5(2,3) in simp_all)
qed

lemma solo_workerTurn:
  assumes "waiting R env st = message # ms"
  shows "solo R env (workerTurn cfg consumer) st = solo R env (processMessage cfg message) (delivered1 R env st)"
  using assms by (simp add: workerTurn_def)

text \<open>\<open>Submit\<close> with fresh ids.\<close>

lemma solo_sessionOf: "\<exists>x n. solo R env (sessionOf req) st = (x, st \<lparr> ss_count := n \<rparr>) \<and> ss_count st \<le> n"
proof -
  have "st = st \<lparr> ss_count := ss_count st \<rparr>" by simp
  then show ?thesis by (auto simp: sessionOf_def Let_def counted_def intro: exI [of _ "ss_count st"])
qed

lemma solo_executionOf: "\<exists>x n. solo R env (executionOf req) st = (x, st \<lparr> ss_count := n \<rparr>) \<and> ss_count st \<le> n"
proof -
  have "st = st \<lparr> ss_count := ss_count st \<rparr>" by simp
  then show ?thesis by (auto simp: executionOf_def counted_def intro: exI [of _ "ss_count st"])
qed

lemma solo_Submit:
  assumes "0 < millis (jc_JobTTL cfg)" "validateRequest cfg req0 = Inr req"
    and "\<forall>n \<ge> ss_count st. idOk (so_id env n) \<and> \<not> rd_exists R (jobKey cfg (so_id env n)) (ss_redis st)"
    and "TrimSpace (rq_SourceEventID req) \<noteq> [] \<longrightarrow> rd_get R (sourceEventKey cfg (TrimSpace (rq_SourceEventID req))) (ss_redis st) = None"
    and "streamAt R (queueKey cfg) (ss_redis st)"
  obtains n sessionID executionID now st' where
    "solo R env (Submit cfg req0) st = (Inr (newRecord cfg req (so_id env n) sessionID executionID now), st')"
    "rd_get R (jobKey cfg (so_id env n)) (ss_redis st') = Some (Job (newRecord cfg req (so_id env n) sessionID executionID now))"
    "rd_queue R (queueKey cfg) (ss_redis st') = rd_queue R (queueKey cfg) (ss_redis st) @ [so_id env n]"
    "\<And>k. k \<noteq> jobKey cfg (so_id env n) \<Longrightarrow> k \<noteq> queueKey cfg \<Longrightarrow>
       TrimSpace (rq_SourceEventID req) = [] \<or> k \<noteq> sourceEventKey cfg (TrimSpace (rq_SourceEventID req)) \<Longrightarrow>
       rd_get R k (ss_redis st') = rd_get R k (ss_redis st) \<and> rd_exists R k (ss_redis st') = rd_exists R k (ss_redis st) \<and>
       (\<forall>m. rd_zscore R k m (ss_redis st') = rd_zscore R k m (ss_redis st))"
    "streamAt R (queueKey cfg) (ss_redis st')" "ss_count st \<le> n" "ss_count st' = Suc n" "ss_next st' = ss_next st"
proof -
  obtain sessionID n1 where s: "solo R env (sessionOf req) st = (sessionID, st \<lparr> ss_count := n1 \<rparr>)" "ss_count st \<le> n1" using solo_sessionOf by blast
  obtain executionID n2 where e: "solo R env (executionOf req) (st \<lparr> ss_count := n1 \<rparr>) = (executionID, st \<lparr> ss_count := n2 \<rparr>)" "n1 \<le> n2"
    using solo_executionOf [of env req "st \<lparr> ss_count := n1 \<rparr>"] by auto
  let ?rec = "newRecord cfg req (so_id env (Suc n2)) sessionID executionID (so_clock env n2)"
  let ?use = "jr_SourceEventID ?rec \<noteq> []"
  let ?r1 = "rd_set R (jobKey cfg (so_id env (Suc n2))) (Job ?rec) (millis (jc_JobTTL cfg)) (ss_redis st)"
  let ?r2 = "if ?use then rd_set R (sourceKeyOf cfg ?rec) (Text (so_id env (Suc n2))) (millis (jc_JobTTL cfg)) ?r1 else ?r1"
  let ?r3 = "rd_xadd R (queueKey cfg) (so_id env (Suc n2)) ?r2"
  have n: "ss_count st \<le> Suc n2" using s(2) e(2) by simp
  have id: "jr_ID ?rec = so_id env (Suc n2)" "jr_SourceEventID ?rec = TrimSpace (rq_SourceEventID req)" by (simp_all add: newRecord_def)
  have "?use \<Longrightarrow> rd_get R (sourceKeyOf cfg ?rec) (ss_redis st) = None"
    using assms(4) by (simp add: sourceKeyOf_def id)
  then have script: "createJobScript R (jobKey cfg (jr_ID ?rec)) (sourceKeyOf cfg ?rec) (queueKey cfg) ?rec (millis (jc_JobTTL cfg)) ?use (jobPrefix cfg) (ss_redis st)
      = (EPair 1 (so_id env (Suc n2)), ?r3)"
    using assms(3) n by (simp add: createJobScript_def id Let_def)
  have cr: "solo R env (createAndEnqueue cfg ?rec) (st \<lparr> ss_count := Suc (Suc n2) \<rparr>) = (Inr (True, so_id env (Suc n2)), st \<lparr> ss_count := Suc (Suc n2), ss_redis := ?r3 \<rparr>)"
    using script by (simp add: createAndEnqueue_def runScript_def del: id)
  obtain sid where sid: "sourceKeyOf cfg ?rec = sourceEventKey cfg sid" using sourceKeyOf_ex by blast
  have ok: "idOk (so_id env (Suc n2))" using assms(3) n by blast
  have nq: "queueKey cfg \<noteq> jobKey cfg (so_id env (Suc n2))" "queueKey cfg \<noteq> sourceKeyOf cfg ?rec"
    using job_key_families(6) [OF ok, of cfg] queue_key_differs(5) [of cfg sid] sid by metis+
  have stream: "streamAt R (queueKey cfg) ?r2"
    using assms(1,5) nq by (simp add: streamAt_def get_set zscore_set)
  show thesis
  proof (rule that [of "Suc n2" sessionID executionID "so_clock env n2"])
    show "solo R env (Submit cfg req0) st = (Inr ?rec, st \<lparr> ss_count := Suc (Suc n2), ss_redis := ?r3 \<rparr>)"
      using cr by (simp add: Submit_def assms(2) solo_andThen s e counted_def enqueueOrGet_def)
    show "rd_get R (jobKey cfg (so_id env (Suc n2))) (ss_redis (st \<lparr> ss_count := Suc (Suc n2), ss_redis := ?r3 \<rparr>)) = Some (Job ?rec)"
      using assms(1) job_key_families(5) [OF ok, of cfg sid] by (simp add: get_xadd get_set sid)
    show "rd_queue R (queueKey cfg) (ss_redis (st \<lparr> ss_count := Suc (Suc n2), ss_redis := ?r3 \<rparr>)) =
        rd_queue R (queueKey cfg) (ss_redis st) @ [so_id env (Suc n2)]"
      using nq queue_xadd [OF stream] by (simp add: queue_set)
    show "streamAt R (queueKey cfg) (ss_redis (st \<lparr> ss_count := Suc (Suc n2), ss_redis := ?r3 \<rparr>))"
      using stream by (simp add: streamAt_def get_xadd zscore_xadd)
    fix k
    assume k: "k \<noteq> jobKey cfg (so_id env (Suc n2))" "k \<noteq> queueKey cfg"
      "TrimSpace (rq_SourceEventID req) = [] \<or> k \<noteq> sourceEventKey cfg (TrimSpace (rq_SourceEventID req))"
    have "?use \<Longrightarrow> k \<noteq> sourceKeyOf cfg ?rec" using k(3) by (simp add: sourceKeyOf_def id)
    then show "rd_get R k (ss_redis (st \<lparr> ss_count := Suc (Suc n2), ss_redis := ?r3 \<rparr>)) = rd_get R k (ss_redis st) \<and>
        rd_exists R k (ss_redis (st \<lparr> ss_count := Suc (Suc n2), ss_redis := ?r3 \<rparr>)) = rd_exists R k (ss_redis st) \<and>
        (\<forall>m. rd_zscore R k m (ss_redis (st \<lparr> ss_count := Suc (Suc n2), ss_redis := ?r3 \<rparr>)) = rd_zscore R k m (ss_redis st))"
      using assms(1) k(1,2) by (simp add: get_xadd get_set exists_xadd exists_set zscore_xadd zscore_set)
  qed (use n in simp_all)
qed

end

end
