(* ===== verification/Lock_Safety.thy ===== *)
theory Lock_Safety
  imports Resilience Job_Solo
begin

text \<open>
  What the lock of \<open>internal/resilience/lock.go\<close> promises. Its methods are the programs \<open>lockAcquire\<close>,
  \<open>lockRenew\<close> and \<open>lockRelease\<close> of \<open>Resilience\<close>, run over Redis by \<open>solo\<close> of \<open>Job_Solo\<close>. Between two calls of
  the holder the other clients may call them in any order under their own tokens, on any key of the prefix,
  and time may pass, as long as the lock has not expired.
\<close>

section \<open>The others\<close>

inductive others :: "'r Redis \<Rightarrow> DistributedLock \<Rightarrow> gostring \<Rightarrow> gostring \<Rightarrow> 'r SoloState \<Rightarrow> 'r SoloState \<Rightarrow> bool" for R l key t st where
  nothing: "others R l key t st st"
| acquire: "\<lbrakk>others R l key t st st1; t' \<noteq> t\<rbrakk> \<Longrightarrow> others R l key t st (snd (solo R env (lockAcquire l key' (Inr t')) st1))"
| renew: "\<lbrakk>others R l key t st st1; t' \<noteq> t\<rbrakk> \<Longrightarrow> others R l key t st (snd (solo R env (lockRenew l key' t') st1))"
| release: "\<lbrakk>others R l key t st st1; t' \<noteq> t\<rbrakk> \<Longrightarrow> others R l key t st (snd (solo R env (lockRelease l key' t') st1))"
| wait: "\<lbrakk>others R l key t st st1; rd_get R (lk_prefix l @ key) (rd_tick R d (ss_redis st1)) \<noteq> None\<rbrakk> \<Longrightarrow>
    others R l key t st (st1 \<lparr> ss_redis := rd_tick R d (ss_redis st1) \<rparr>)"

definition holds :: "'r Redis \<Rightarrow> DistributedLock \<Rightarrow> gostring \<Rightarrow> gostring \<Rightarrow> 'r SoloState \<Rightarrow> bool" where
  "holds R l key t st \<longleftrightarrow> rd_get R (lk_prefix l @ key) (ss_redis st) = Some (Text t)"

lemma solo_lockAcquire:
  "solo R env (lockAcquire l key (Inr t)) st =
     (let (ok, r) = setNX R (lk_prefix l @ key) t (millis (lk_ttl l)) (ss_redis st) in (Inr (if ok then t else [], ok), st \<lparr> ss_redis := r \<rparr>))"
  by (simp add: lockAcquire_def split_beta)

lemma solo_lockRenew:
  "solo R env (lockRenew l key t) st =
     (let (reply, r) = renewTokenLeaseScript R (lk_prefix l @ key) t (millis (lk_ttl l)) (ss_redis st) in (Inr (reply = EInt 1), st \<lparr> ss_redis := r \<rparr>))"
  by (auto simp: lockRenew_def runScript_def split_beta split: EvalReply.split)

lemma solo_lockRelease:
  "solo R env (lockRelease l key t) st =
     (None, st \<lparr> ss_redis := snd (releaseTokenScript R (lk_prefix l @ key) t (ss_redis st)) \<rparr>)"
  by (simp add: lockRelease_def runScript_def split_beta)

context redis_exists begin

lemma acquired_holds:
  "\<lbrakk>0 < millis (lk_ttl l); solo R env (lockAcquire l key (Inr t)) st0 = (Inr (x, True), st)\<rbrakk> \<Longrightarrow> holds R l key t st"
  by (auto simp: solo_lockAcquire holds_def setNX_def get_set split: if_splits)

lemma others_keep:
  assumes "others R l key t st st'" "0 < millis (lk_ttl l)" "holds R l key t st"
  shows "holds R l key t st'"
  using assms(1)
proof (induction rule: others.induct)
  case nothing
  show ?case by (rule assms(3))
next
  case (acquire st1 t' env key')
  have "rd_exists R (lk_prefix l @ key) (ss_redis st1)" using get_exists acquire.IH by (simp add: holds_def)
  then show ?case using acquire.IH assms(2) by (auto simp: holds_def solo_lockAcquire setNX_def get_set split_beta Let_def)
next
  case (renew st1 t' env key')
  then show ?case using assms(2) by (auto simp: holds_def solo_lockRenew renewTokenLeaseScript_def get_pexpire split_beta Let_def)
next
  case (release st1 t' env key')
  then show ?case by (auto simp: holds_def solo_lockRelease releaseTokenScript_def get_del)
next
  case (wait st1 d)
  then show ?case using get_tick [of "lk_prefix l @ key" d "ss_redis st1"] by (auto simp: holds_def)
qed

lemma holder_alone:
  assumes "0 < millis (lk_ttl l)" "holds R l key t st" "t' \<noteq> t"
  shows "fst (solo R env (lockAcquire l key (Inr t')) st) = Inr ([], False) \<and>
    fst (solo R env (lockRenew l key t') st) = Inr False \<and> fst (solo R env (lockRenew l key t) st) = Inr True \<and>
    holds R l key t (snd (solo R env (lockRelease l key t') st)) \<and>
    fst (solo R env (lockRelease l key t) st) = None \<and>
    fst (solo R env (lockAcquire l key (Inr t')) (snd (solo R env (lockRelease l key t) st))) = Inr (t', True)"
proof -
  let ?k = "lk_prefix l @ key"
  have get: "rd_get R ?k (ss_redis st) = Some (Text t)" and ex: "rd_exists R ?k (ss_redis st)"
    using assms(2) get_exists by (simp_all add: holds_def)
  have renew: "fst (rd_pexpire R ?k (millis (lk_ttl l)) (ss_redis st)) = 1" using pexpire_reply [OF assms(1)] ex by simp
  show ?thesis using get ex assms(3) renew
    by (simp add: solo_lockAcquire solo_lockRenew solo_lockRelease setNX_def renewTokenLeaseScript_def releaseTokenScript_def
        holds_def exists_del split_beta Let_def)
qed

end

section \<open>Properties\<close>

text \<open>C38: the lock has one holder at a time. Once a client has acquired it, whatever the other clients call under
  their own tokens and whatever time passes, as long as the lock has not expired nobody else acquires it,
  renews it or releases it: \<open>Acquire\<close> of another token answers false, \<open>Renew\<close> of another token answers false,
  and after \<open>Release\<close> of another token the holder still has it; \<open>Renew\<close> of the holder answers true, and \<open>Release\<close> of the
  holder frees it, so that the next \<open>Acquire\<close> succeeds.\<close>

theorem lock_mutual_exclusion:
  assumes "redis_exists R" "0 < millis (lk_ttl l)" "solo R env0 (lockAcquire l key (Inr t)) st0 = (Inr (t, True), st)"
    and "others R l key t st st'" "t' \<noteq> t"
  shows "fst (solo R env (lockAcquire l key (Inr t')) st') = Inr ([], False) \<and>
    fst (solo R env (lockRenew l key t') st') = Inr False \<and> fst (solo R env (lockRenew l key t) st') = Inr True \<and>
    rd_get R (lk_prefix l @ key) (ss_redis (snd (solo R env (lockRelease l key t') st'))) = Some (Text t) \<and>
    fst (solo R env (lockRelease l key t) st') = None \<and>
    fst (solo R env (lockAcquire l key (Inr t')) (snd (solo R env (lockRelease l key t) st'))) = Inr (t', True)"
proof -
  have "holds R l key t st'"
    by (rule redis_exists.others_keep [OF assms(1,4,2) redis_exists.acquired_holds [OF assms(1-3)]])
  from redis_exists.holder_alone [OF assms(1,2) this assms(5), of env] show ?thesis by (simp add: holds_def)
qed

section \<open>Witnesses\<close>

definition lockEnv :: Solo where
  "lockEnv = \<lparr>so_agent = (\<lambda>_. Inl []), so_clock = int, so_id = (\<lambda>_. []), so_today = [], so_stream = [], so_message = (\<lambda>_. [])\<rparr>"

definition lockStart :: "Keyspace SoloState" where
  "lockStart = \<lparr>ss_redis = \<lparr>ks_now = 0, ks_entries = (\<lambda>_. None), ks_queues = []\<rparr>, ss_count = 0, ss_next = 0, ss_acked = [], ss_dead = []\<rparr>"

definition lockHeld :: "Keyspace SoloState" where
  "lockHeld = snd (solo keyspace lockEnv (lockAcquire (NewDistributedLock ''l:'' (secs 5)) ''k'' (Inr ''holder'')) lockStart)"

lemma lock_mutual_exclusion_witness:
  "\<exists>st'. others keyspace (NewDistributedLock ''l:'' (secs 5)) ''k'' ''holder'' lockHeld st' \<and> ks_now (ss_redis st') = 2000 \<and>
     fst (solo keyspace lockEnv (lockAcquire (NewDistributedLock ''l:'' (secs 5)) ''k'' (Inr ''other'')) st') = Inr ([], False)"
proof -
  let ?l = "NewDistributedLock ''l:'' (secs 5)"
  have l: "lk_prefix ?l = ''l:''" "millis (lk_ttl ?l) = 5000" by (simp_all add: NewDistributedLock_def secs_def millis_def)
  have start: "solo keyspace lockEnv (lockAcquire ?l ''k'' (Inr ''holder'')) lockStart = (Inr (''holder'', True), lockHeld)"
    by (simp add: lockHeld_def solo_lockAcquire lockStart_def setNX_def keyspace_def)
  define st1 where "st1 = snd (solo keyspace lockEnv (lockRelease ?l ''k'' ''other'') lockHeld)"
  define st2 where "st2 = st1 \<lparr> ss_redis := rd_tick keyspace 2000 (ss_redis st1) \<rparr>"
  have same: "st1 = lockHeld"
    by (simp add: st1_def solo_lockRelease releaseTokenScript_def lockHeld_def solo_lockAcquire lockStart_def setNX_def keyspace_def ksStr_def ksPut_def l)
  have alive: "rd_get keyspace (lk_prefix ?l @ ''k'') (rd_tick keyspace 2000 (ss_redis st1)) \<noteq> None"
    by (simp add: same lockHeld_def solo_lockAcquire lockStart_def setNX_def keyspace_def ksStr_def ksPut_def ksTick_def l)
  have o: "others keyspace ?l ''k'' ''holder'' lockHeld st2"
    unfolding st2_def by (rule others.wait [OF _ alive]) (unfold st1_def, rule others.release [OF others.nothing], simp)
  have "ks_now (ss_redis st2) = 2000"
    by (simp add: st2_def same lockHeld_def solo_lockAcquire lockStart_def setNX_def keyspace_def ksPut_def ksTick_def)
  with o lock_mutual_exclusion [OF keyspace_exists.redis_exists_axioms _ start o, of "''other''" lockEnv] show ?thesis by (auto simp: l)
qed

end
