(* ===== verification/Config.thy ===== *)
theory Config
  imports Go_Json_Struct Memory_Store
begin

text \<open>
  \<open>internal/config/config.go\<close>: the settings of the process: defaults, the JSON file over the defaults, the
  environment over both, and the check that ends \<open>Load\<close>. The environment is a function from names to
  values (the empty text for an unset variable), the file is what reading it gave. A \<open>float64\<close> is the decimal
  literal it was read from, or an infinity or a NaN, which only the environment can give. Not modelled: the
  hexadecimal form and the underscores that \<open>strconv.ParseFloat\<close> also takes.
\<close>

section \<open>Settings\<close>

datatype gofloat = FDec int int | FInf bool | FNaN

text \<open>\<open>f <= 0\<close>: false of a NaN; a literal too small for a double is zero.\<close>

definition floatLe0 :: "gofloat \<Rightarrow> bool" where
  "floatLe0 f = (case f of FDec m e \<Rightarrow> m \<le> 0 \<or> (case f64_of_lit m e of Some (n, k) \<Rightarrow> n = 0 | None \<Rightarrow> False)
     | FInf neg \<Rightarrow> neg | FNaN \<Rightarrow> False)"

record AppConfig =
  ap_Name :: gostring
  ap_Env :: gostring
  ap_Version :: gostring

record HTTPConfig =
  ht_Host :: gostring
  ht_Port :: int
  ht_ReadTimeoutSeconds :: int
  ht_WriteTimeoutSeconds :: int
  ht_IdleTimeoutSeconds :: int
  ht_ShutdownTimeoutSeconds :: int

record LogConfig =
  lg_Level :: gostring
  lg_Format :: gostring
  lg_AddSource :: bool

record LLMConfig =
  lm_Provider :: gostring
  lm_BaseURL :: gostring
  lm_APIKey :: gostring
  lm_Model :: gostring
  lm_TimeoutSeconds :: int
  lm_MaxTokens :: int
  lm_Temperature :: gofloat

record AgentSettings =
  as_MaxSteps :: int
  as_ToolCallTimeoutSeconds :: int

record AgentJobConfig =
  aj_Enabled :: bool
  aj_WorkerCount :: int
  aj_GlobalConcurrency :: int
  aj_ScopeConcurrency :: int
  aj_MaxRetries :: int
  aj_JobTTLSeconds :: int
  aj_QueueWaitSeconds :: int
  aj_RunTimeoutSeconds :: int
  aj_RetryBackoffSeconds :: int
  aj_MaxBatchSize :: int

record MemorySettings =
  me_MaxSessions :: int
  me_MaxRecentSteps :: int
  me_MaxSummaryChars :: int
  me_SessionTTLSeconds :: int

record PromptBudgetConfig =
  pb_MaxPromptTokens :: int
  pb_MaxRecentSteps :: int
  pb_MaxSummaryChars :: int

record CouponPolicyConfig =
  cc_Path :: gostring
  cc_HotReload :: bool
  cc_ReloadSeconds :: int
  cc_DefaultValidity :: int

record ServiceEndpointConfig =
  se_BaseURL :: gostring
  se_TimeoutSeconds :: int

record SeckillServiceConfig =
  sk_Enabled :: bool
  sk_BaseURL :: gostring
  sk_GrantPath :: gostring
  sk_TimeoutSeconds :: int

record RedisSettings =
  rc_Enabled :: bool
  rc_Addr :: gostring
  rc_Password :: gostring
  rc_DB :: int
  rc_KeyPrefix :: gostring

record RateLimitConfig =
  rl_Enabled :: bool
  rl_RatePerSecond :: gofloat
  rl_Burst :: int
  rl_WaitTimeoutMS :: int

record CircuitBreakerConfig =
  cb_Enabled :: bool
  cb_MaxRequests :: int
  cb_IntervalSeconds :: int
  cb_TimeoutSeconds :: int
  cb_FailureThreshold :: int
  cb_ConsecutiveSuccesses :: int

record DecisionLockConfig =
  dl_Enabled :: bool
  dl_TTLSeconds :: int
  dl_KeyPrefix :: gostring

record ResilienceConfig =
  re_LLMRateLimit :: RateLimitConfig
  re_LLMCircuitBreaker :: CircuitBreakerConfig
  re_DecisionLock :: DecisionLockConfig

record ObservabilityConfig =
  ob_Enabled :: bool
  ob_ServiceName :: gostring
  ob_Env :: gostring
  ob_OTELEndpoint :: gostring
  ob_SampleRatio :: gofloat
  ob_EnableMetrics :: bool
  ob_MetricsAddr :: gostring

record AppSettings =
  cg_App :: AppConfig
  cg_HTTP :: HTTPConfig
  cg_Log :: LogConfig
  cg_LLM :: LLMConfig
  cg_Agent :: AgentSettings
  cg_AgentJob :: AgentJobConfig
  cg_Memory :: MemorySettings
  cg_PromptBudget :: PromptBudgetConfig
  cg_CouponPolicy :: CouponPolicyConfig
  cg_Redis :: RedisSettings
  cg_Resilience :: ResilienceConfig
  cg_Observability :: ObservabilityConfig
  cg_ReviewService :: ServiceEndpointConfig
  cg_ReviewJob :: ServiceEndpointConfig
  cg_SeckillService :: SeckillServiceConfig

section \<open>The file\<close>

definition gofloat_f :: "((gofloat \<Rightarrow> gofloat) \<Rightarrow> 'a \<Rightarrow> 'a) \<Rightarrow> 'a fdec" where
  "gofloat_f upd v a = (case v of
     JNum m e \<Rightarrow> if f64_overflow m e then (a, False) else (upd (\<lambda>_. FDec m e) a, True)
   | JNull \<Rightarrow> (a, True)
   | _ \<Rightarrow> (a, False))"

definition appConfigFields :: "AppConfig fields" where
  "appConfigFields = [(''name'', str_f ap_Name_update), (''env'', str_f ap_Env_update), (''version'', str_f ap_Version_update)]"

definition httpConfigFields :: "HTTPConfig fields" where
  "httpConfigFields = [(''host'', str_f ht_Host_update), (''port'', int64_f ht_Port_update),
     (''read_timeout_seconds'', int64_f ht_ReadTimeoutSeconds_update),
     (''write_timeout_seconds'', int64_f ht_WriteTimeoutSeconds_update),
     (''idle_timeout_seconds'', int64_f ht_IdleTimeoutSeconds_update),
     (''shutdown_timeout_seconds'', int64_f ht_ShutdownTimeoutSeconds_update)]"

definition logConfigFields :: "LogConfig fields" where
  "logConfigFields = [(''level'', str_f lg_Level_update), (''format'', str_f lg_Format_update),
     (''add_source'', bool_f lg_AddSource_update)]"

definition llmConfigFields :: "LLMConfig fields" where
  "llmConfigFields = [(''provider'', str_f lm_Provider_update), (''base_url'', str_f lm_BaseURL_update),
     (''api_key'', str_f lm_APIKey_update), (''model'', str_f lm_Model_update),
     (''timeout_seconds'', int64_f lm_TimeoutSeconds_update), (''max_tokens'', int64_f lm_MaxTokens_update),
     (''temperature'', gofloat_f lm_Temperature_update)]"

definition agentSettingsFields :: "AgentSettings fields" where
  "agentSettingsFields = [(''max_steps'', int64_f as_MaxSteps_update),
     (''tool_call_timeout_seconds'', int64_f as_ToolCallTimeoutSeconds_update)]"

definition agentJobConfigFields :: "AgentJobConfig fields" where
  "agentJobConfigFields = [(''enabled'', bool_f aj_Enabled_update), (''worker_count'', int64_f aj_WorkerCount_update),
     (''global_concurrency'', int64_f aj_GlobalConcurrency_update), (''scope_concurrency'', int64_f aj_ScopeConcurrency_update),
     (''max_retries'', int64_f aj_MaxRetries_update), (''job_ttl_seconds'', int64_f aj_JobTTLSeconds_update),
     (''queue_wait_seconds'', int64_f aj_QueueWaitSeconds_update), (''run_timeout_seconds'', int64_f aj_RunTimeoutSeconds_update),
     (''retry_backoff_seconds'', int64_f aj_RetryBackoffSeconds_update), (''max_batch_size'', int64_f aj_MaxBatchSize_update)]"

definition memorySettingsFields :: "MemorySettings fields" where
  "memorySettingsFields = [(''max_sessions'', int64_f me_MaxSessions_update),
     (''max_recent_steps'', int64_f me_MaxRecentSteps_update), (''max_summary_chars'', int64_f me_MaxSummaryChars_update),
     (''session_ttl_seconds'', int64_f me_SessionTTLSeconds_update)]"

definition promptBudgetConfigFields :: "PromptBudgetConfig fields" where
  "promptBudgetConfigFields = [(''max_prompt_tokens'', int64_f pb_MaxPromptTokens_update),
     (''max_recent_steps'', int64_f pb_MaxRecentSteps_update), (''max_summary_chars'', int64_f pb_MaxSummaryChars_update)]"

definition couponPolicyConfigFields :: "CouponPolicyConfig fields" where
  "couponPolicyConfigFields = [(''path'', str_f cc_Path_update), (''hot_reload'', bool_f cc_HotReload_update),
     (''reload_seconds'', int64_f cc_ReloadSeconds_update), (''default_validity_days'', int64_f cc_DefaultValidity_update)]"

definition serviceEndpointConfigFields :: "ServiceEndpointConfig fields" where
  "serviceEndpointConfigFields = [(''base_url'', str_f se_BaseURL_update), (''timeout_seconds'', int64_f se_TimeoutSeconds_update)]"

definition seckillServiceConfigFields :: "SeckillServiceConfig fields" where
  "seckillServiceConfigFields = [(''enabled'', bool_f sk_Enabled_update), (''base_url'', str_f sk_BaseURL_update),
     (''grant_path'', str_f sk_GrantPath_update), (''timeout_seconds'', int64_f sk_TimeoutSeconds_update)]"

definition redisSettingsFields :: "RedisSettings fields" where
  "redisSettingsFields = [(''enabled'', bool_f rc_Enabled_update), (''addr'', str_f rc_Addr_update),
     (''password'', str_f rc_Password_update), (''db'', int64_f rc_DB_update), (''key_prefix'', str_f rc_KeyPrefix_update)]"

definition rateLimitConfigFields :: "RateLimitConfig fields" where
  "rateLimitConfigFields = [(''enabled'', bool_f rl_Enabled_update), (''rate_per_second'', gofloat_f rl_RatePerSecond_update),
     (''burst'', int64_f rl_Burst_update), (''wait_timeout_ms'', int64_f rl_WaitTimeoutMS_update)]"

definition circuitBreakerConfigFields :: "CircuitBreakerConfig fields" where
  "circuitBreakerConfigFields = [(''enabled'', bool_f cb_Enabled_update), (''max_requests'', int64_f cb_MaxRequests_update),
     (''interval_seconds'', int64_f cb_IntervalSeconds_update), (''timeout_seconds'', int64_f cb_TimeoutSeconds_update),
     (''failure_threshold'', int64_f cb_FailureThreshold_update), (''consecutive_successes'', int64_f cb_ConsecutiveSuccesses_update)]"

definition decisionLockConfigFields :: "DecisionLockConfig fields" where
  "decisionLockConfigFields = [(''enabled'', bool_f dl_Enabled_update), (''ttl_seconds'', int64_f dl_TTLSeconds_update),
     (''key_prefix'', str_f dl_KeyPrefix_update)]"

definition resilienceConfigFields :: "ResilienceConfig fields" where
  "resilienceConfigFields = [(''llm_rate_limit'', struct_f rateLimitConfigFields re_LLMRateLimit re_LLMRateLimit_update),
     (''llm_circuit_breaker'', struct_f circuitBreakerConfigFields re_LLMCircuitBreaker re_LLMCircuitBreaker_update),
     (''decision_lock'', struct_f decisionLockConfigFields re_DecisionLock re_DecisionLock_update)]"

definition observabilityConfigFields :: "ObservabilityConfig fields" where
  "observabilityConfigFields = [(''enabled'', bool_f ob_Enabled_update), (''service_name'', str_f ob_ServiceName_update),
     (''env'', str_f ob_Env_update), (''otel_endpoint'', str_f ob_OTELEndpoint_update),
     (''sample_ratio'', gofloat_f ob_SampleRatio_update), (''enable_metrics'', bool_f ob_EnableMetrics_update),
     (''metrics_addr'', str_f ob_MetricsAddr_update)]"

definition appSettingsFields :: "AppSettings fields" where
  "appSettingsFields = [(''app'', struct_f appConfigFields cg_App cg_App_update),
     (''http'', struct_f httpConfigFields cg_HTTP cg_HTTP_update), (''log'', struct_f logConfigFields cg_Log cg_Log_update),
     (''llm'', struct_f llmConfigFields cg_LLM cg_LLM_update), (''agent'', struct_f agentSettingsFields cg_Agent cg_Agent_update),
     (''agent_job'', struct_f agentJobConfigFields cg_AgentJob cg_AgentJob_update),
     (''memory'', struct_f memorySettingsFields cg_Memory cg_Memory_update),
     (''prompt_budget'', struct_f promptBudgetConfigFields cg_PromptBudget cg_PromptBudget_update),
     (''coupon_policy'', struct_f couponPolicyConfigFields cg_CouponPolicy cg_CouponPolicy_update),
     (''redis'', struct_f redisSettingsFields cg_Redis cg_Redis_update),
     (''resilience'', struct_f resilienceConfigFields cg_Resilience cg_Resilience_update),
     (''observability'', struct_f observabilityConfigFields cg_Observability cg_Observability_update),
     (''review_service'', struct_f serviceEndpointConfigFields cg_ReviewService cg_ReviewService_update),
     (''review_job'', struct_f serviceEndpointConfigFields cg_ReviewJob cg_ReviewJob_update),
     (''seckill_service'', struct_f seckillServiceConfigFields cg_SeckillService cg_SeckillService_update)]"

section \<open>The environment\<close>

definition setString :: "gostring \<Rightarrow> gostring \<Rightarrow> gostring" where
  "setString target value = (if TrimSpace value \<noteq> [] then value else target)"

definition setInt :: "int \<Rightarrow> gostring \<Rightarrow> int" where
  "setInt target value = (if TrimSpace value = [] then target
     else case ParseInt64 value of (parsed, ok) \<Rightarrow> if ok then parsed else target)"

text \<open>\<open>strconv.ParseBool\<close>\<close>

definition ParseBool :: "gostring \<Rightarrow> bool option" where
  "ParseBool s = (if s \<in> set [''1'', ''t'', ''T'', ''true'', ''TRUE'', ''True''] then Some True
     else if s \<in> set [''0'', ''f'', ''F'', ''false'', ''FALSE'', ''False''] then Some False else None)"

definition setBool :: "bool \<Rightarrow> gostring \<Rightarrow> bool" where
  "setBool target value = (if TrimSpace value = [] then target
     else case ParseBool value of Some parsed \<Rightarrow> parsed | None \<Rightarrow> target)"

text \<open>\<open>strconv.ParseFloat\<close> on decimal literals, infinities and NaN; \<open>None\<close> for a syntax or range error.\<close>

definition splitSign :: "gostring \<Rightarrow> bool \<times> gostring" where
  "splitSign s = (case s of [] \<Rightarrow> (False, [])
     | c # cs \<Rightarrow> if c = CHR ''-'' then (True, cs) else if c = CHR ''+'' then (False, cs) else (False, s))"

definition parseExp :: "gostring \<Rightarrow> int option" where
  "parseExp s = (if s = [] then Some 0
     else if hd s \<noteq> CHR ''e'' \<and> hd s \<noteq> CHR ''E'' then None
     else let (neg, ds) = splitSign (tl s) in
       if ds = [] \<or> \<not> list_all is_digit ds then None else Some (if neg then - int (read_nat ds) else int (read_nat ds)))"

definition ParseFloat :: "gostring \<Rightarrow> gofloat option" where
  "ParseFloat s = (let (neg, t) = splitSign s in
     if ToLower s = ''nan'' then Some FNaN
     else if ToLower t = ''inf'' \<or> ToLower t = ''infinity'' then Some (FInf neg)
     else let ds = takeWhile is_digit t; r1 = dropWhile is_digit t;
              (fs, r2) = (if r1 \<noteq> [] \<and> hd r1 = CHR ''.'' then (takeWhile is_digit (tl r1), dropWhile is_digit (tl r1)) else ([], r1))
          in if ds @ fs = [] then None
             else case parseExp r2 of None \<Rightarrow> None
               | Some x \<Rightarrow> (let m = int (read_nat (ds @ fs)); m' = (if neg then - m else m); e = x - int (length fs)
                   in if f64_overflow m' e then None else Some (FDec m' e)))"

definition setFloat :: "gofloat \<Rightarrow> gostring \<Rightarrow> gofloat" where
  "setFloat target value = (if TrimSpace value = [] then target
     else case ParseFloat value of Some parsed \<Rightarrow> parsed | None \<Rightarrow> target)"

definition overrideApp :: "(gostring \<Rightarrow> gostring) \<Rightarrow> AppConfig \<Rightarrow> AppConfig" where
  "overrideApp env c = c \<lparr> ap_Name := setString (ap_Name c) (env ''SECKILL_AGENT_APP_NAME''),
     ap_Env := setString (ap_Env c) (env ''SECKILL_AGENT_APP_ENV''),
     ap_Version := setString (ap_Version c) (env ''SECKILL_AGENT_APP_VERSION'') \<rparr>"

definition overrideHTTP :: "(gostring \<Rightarrow> gostring) \<Rightarrow> HTTPConfig \<Rightarrow> HTTPConfig" where
  "overrideHTTP env c = c \<lparr> ht_Host := setString (ht_Host c) (env ''SECKILL_AGENT_HTTP_HOST''),
     ht_Port := setInt (ht_Port c) (env ''SECKILL_AGENT_HTTP_PORT''),
     ht_ReadTimeoutSeconds := setInt (ht_ReadTimeoutSeconds c) (env ''SECKILL_AGENT_HTTP_READ_TIMEOUT_SECONDS''),
     ht_WriteTimeoutSeconds := setInt (ht_WriteTimeoutSeconds c) (env ''SECKILL_AGENT_HTTP_WRITE_TIMEOUT_SECONDS''),
     ht_IdleTimeoutSeconds := setInt (ht_IdleTimeoutSeconds c) (env ''SECKILL_AGENT_HTTP_IDLE_TIMEOUT_SECONDS''),
     ht_ShutdownTimeoutSeconds := setInt (ht_ShutdownTimeoutSeconds c) (env ''SECKILL_AGENT_HTTP_SHUTDOWN_TIMEOUT_SECONDS'') \<rparr>"

definition overrideLog :: "(gostring \<Rightarrow> gostring) \<Rightarrow> LogConfig \<Rightarrow> LogConfig" where
  "overrideLog env c = c \<lparr> lg_Level := setString (lg_Level c) (env ''SECKILL_AGENT_LOG_LEVEL''),
     lg_Format := setString (lg_Format c) (env ''SECKILL_AGENT_LOG_FORMAT''),
     lg_AddSource := setBool (lg_AddSource c) (env ''SECKILL_AGENT_LOG_ADD_SOURCE'') \<rparr>"

definition overrideLLM :: "(gostring \<Rightarrow> gostring) \<Rightarrow> LLMConfig \<Rightarrow> LLMConfig" where
  "overrideLLM env c = c \<lparr> lm_Provider := setString (lm_Provider c) (env ''SECKILL_AGENT_LLM_PROVIDER''),
     lm_BaseURL := setString (lm_BaseURL c) (env ''SECKILL_AGENT_LLM_BASE_URL''),
     lm_APIKey := setString (lm_APIKey c) (env ''SECKILL_AGENT_LLM_API_KEY''),
     lm_Model := setString (lm_Model c) (env ''SECKILL_AGENT_LLM_MODEL''),
     lm_TimeoutSeconds := setInt (lm_TimeoutSeconds c) (env ''SECKILL_AGENT_LLM_TIMEOUT_SECONDS''),
     lm_MaxTokens := setInt (lm_MaxTokens c) (env ''SECKILL_AGENT_LLM_MAX_TOKENS''),
     lm_Temperature := setFloat (lm_Temperature c) (env ''SECKILL_AGENT_LLM_TEMPERATURE'') \<rparr>"

definition overrideAgent :: "(gostring \<Rightarrow> gostring) \<Rightarrow> AgentSettings \<Rightarrow> AgentSettings" where
  "overrideAgent env c = c \<lparr> as_MaxSteps := setInt (as_MaxSteps c) (env ''SECKILL_AGENT_AGENT_MAX_STEPS''),
     as_ToolCallTimeoutSeconds := setInt (as_ToolCallTimeoutSeconds c) (env ''SECKILL_AGENT_AGENT_TOOL_CALL_TIMEOUT_SECONDS'') \<rparr>"

definition overrideAgentJob :: "(gostring \<Rightarrow> gostring) \<Rightarrow> AgentJobConfig \<Rightarrow> AgentJobConfig" where
  "overrideAgentJob env c = c \<lparr> aj_Enabled := setBool (aj_Enabled c) (env ''SECKILL_AGENT_JOB_ENABLED''),
     aj_WorkerCount := setInt (aj_WorkerCount c) (env ''SECKILL_AGENT_JOB_WORKER_COUNT''),
     aj_GlobalConcurrency := setInt (aj_GlobalConcurrency c) (env ''SECKILL_AGENT_JOB_GLOBAL_CONCURRENCY''),
     aj_ScopeConcurrency := setInt (aj_ScopeConcurrency c) (env ''SECKILL_AGENT_JOB_SCOPE_CONCURRENCY''),
     aj_MaxRetries := setInt (aj_MaxRetries c) (env ''SECKILL_AGENT_JOB_MAX_RETRIES''),
     aj_JobTTLSeconds := setInt (aj_JobTTLSeconds c) (env ''SECKILL_AGENT_JOB_TTL_SECONDS''),
     aj_QueueWaitSeconds := setInt (aj_QueueWaitSeconds c) (env ''SECKILL_AGENT_JOB_QUEUE_WAIT_SECONDS''),
     aj_RunTimeoutSeconds := setInt (aj_RunTimeoutSeconds c) (env ''SECKILL_AGENT_JOB_RUN_TIMEOUT_SECONDS''),
     aj_RetryBackoffSeconds := setInt (aj_RetryBackoffSeconds c) (env ''SECKILL_AGENT_JOB_RETRY_BACKOFF_SECONDS''),
     aj_MaxBatchSize := setInt (aj_MaxBatchSize c) (env ''SECKILL_AGENT_JOB_MAX_BATCH_SIZE'') \<rparr>"

definition overrideMemory :: "(gostring \<Rightarrow> gostring) \<Rightarrow> MemorySettings \<Rightarrow> MemorySettings" where
  "overrideMemory env c = c \<lparr> me_MaxSessions := setInt (me_MaxSessions c) (env ''SECKILL_AGENT_MEMORY_MAX_SESSIONS''),
     me_MaxRecentSteps := setInt (me_MaxRecentSteps c) (env ''SECKILL_AGENT_MEMORY_MAX_RECENT_STEPS''),
     me_MaxSummaryChars := setInt (me_MaxSummaryChars c) (env ''SECKILL_AGENT_MEMORY_MAX_SUMMARY_CHARS''),
     me_SessionTTLSeconds := setInt (me_SessionTTLSeconds c) (env ''SECKILL_AGENT_MEMORY_SESSION_TTL_SECONDS'') \<rparr>"

definition overridePromptBudget :: "(gostring \<Rightarrow> gostring) \<Rightarrow> PromptBudgetConfig \<Rightarrow> PromptBudgetConfig" where
  "overridePromptBudget env c = c \<lparr> pb_MaxPromptTokens := setInt (pb_MaxPromptTokens c) (env ''SECKILL_AGENT_PROMPT_BUDGET_MAX_PROMPT_TOKENS''),
     pb_MaxRecentSteps := setInt (pb_MaxRecentSteps c) (env ''SECKILL_AGENT_PROMPT_BUDGET_MAX_RECENT_STEPS''),
     pb_MaxSummaryChars := setInt (pb_MaxSummaryChars c) (env ''SECKILL_AGENT_PROMPT_BUDGET_MAX_SUMMARY_CHARS'') \<rparr>"

definition overrideCouponPolicy :: "(gostring \<Rightarrow> gostring) \<Rightarrow> CouponPolicyConfig \<Rightarrow> CouponPolicyConfig" where
  "overrideCouponPolicy env c = c \<lparr> cc_Path := setString (cc_Path c) (env ''SECKILL_AGENT_COUPON_POLICY_PATH''),
     cc_HotReload := setBool (cc_HotReload c) (env ''SECKILL_AGENT_COUPON_POLICY_HOT_RELOAD''),
     cc_ReloadSeconds := setInt (cc_ReloadSeconds c) (env ''SECKILL_AGENT_COUPON_POLICY_RELOAD_SECONDS''),
     cc_DefaultValidity := setInt (cc_DefaultValidity c) (env ''SECKILL_AGENT_COUPON_POLICY_DEFAULT_VALIDITY_DAYS'') \<rparr>"

definition overrideRedis :: "(gostring \<Rightarrow> gostring) \<Rightarrow> RedisSettings \<Rightarrow> RedisSettings" where
  "overrideRedis env c = c \<lparr> rc_Enabled := setBool (rc_Enabled c) (env ''SECKILL_AGENT_REDIS_ENABLED''),
     rc_Addr := setString (rc_Addr c) (env ''SECKILL_AGENT_REDIS_ADDR''),
     rc_Password := setString (rc_Password c) (env ''SECKILL_AGENT_REDIS_PASSWORD''),
     rc_DB := setInt (rc_DB c) (env ''SECKILL_AGENT_REDIS_DB''),
     rc_KeyPrefix := setString (rc_KeyPrefix c) (env ''SECKILL_AGENT_REDIS_KEY_PREFIX'') \<rparr>"

definition overrideLLMRateLimit :: "(gostring \<Rightarrow> gostring) \<Rightarrow> RateLimitConfig \<Rightarrow> RateLimitConfig" where
  "overrideLLMRateLimit env c = c \<lparr> rl_Enabled := setBool (rl_Enabled c) (env ''SECKILL_AGENT_LLM_RATE_LIMIT_ENABLED''),
     rl_RatePerSecond := setFloat (rl_RatePerSecond c) (env ''SECKILL_AGENT_LLM_RATE_LIMIT_RATE_PER_SECOND''),
     rl_Burst := setInt (rl_Burst c) (env ''SECKILL_AGENT_LLM_RATE_LIMIT_BURST''),
     rl_WaitTimeoutMS := setInt (rl_WaitTimeoutMS c) (env ''SECKILL_AGENT_LLM_RATE_LIMIT_WAIT_TIMEOUT_MS'') \<rparr>"

definition overrideLLMCircuitBreaker :: "(gostring \<Rightarrow> gostring) \<Rightarrow> CircuitBreakerConfig \<Rightarrow> CircuitBreakerConfig" where
  "overrideLLMCircuitBreaker env c = c \<lparr> cb_Enabled := setBool (cb_Enabled c) (env ''SECKILL_AGENT_LLM_CIRCUIT_BREAKER_ENABLED''),
     cb_MaxRequests := setInt (cb_MaxRequests c) (env ''SECKILL_AGENT_LLM_CIRCUIT_BREAKER_MAX_REQUESTS''),
     cb_IntervalSeconds := setInt (cb_IntervalSeconds c) (env ''SECKILL_AGENT_LLM_CIRCUIT_BREAKER_INTERVAL_SECONDS''),
     cb_TimeoutSeconds := setInt (cb_TimeoutSeconds c) (env ''SECKILL_AGENT_LLM_CIRCUIT_BREAKER_TIMEOUT_SECONDS''),
     cb_FailureThreshold := setInt (cb_FailureThreshold c) (env ''SECKILL_AGENT_LLM_CIRCUIT_BREAKER_FAILURE_THRESHOLD''),
     cb_ConsecutiveSuccesses := setInt (cb_ConsecutiveSuccesses c) (env ''SECKILL_AGENT_LLM_CIRCUIT_BREAKER_CONSECUTIVE_SUCCESSES'') \<rparr>"

definition overrideDecisionLock :: "(gostring \<Rightarrow> gostring) \<Rightarrow> DecisionLockConfig \<Rightarrow> DecisionLockConfig" where
  "overrideDecisionLock env c = c \<lparr> dl_Enabled := setBool (dl_Enabled c) (env ''SECKILL_AGENT_DECISION_LOCK_ENABLED''),
     dl_TTLSeconds := setInt (dl_TTLSeconds c) (env ''SECKILL_AGENT_DECISION_LOCK_TTL_SECONDS''),
     dl_KeyPrefix := setString (dl_KeyPrefix c) (env ''SECKILL_AGENT_DECISION_LOCK_KEY_PREFIX'') \<rparr>"

definition overrideObservability :: "(gostring \<Rightarrow> gostring) \<Rightarrow> ObservabilityConfig \<Rightarrow> ObservabilityConfig" where
  "overrideObservability env c = c \<lparr> ob_Enabled := setBool (ob_Enabled c) (env ''SECKILL_AGENT_OBSERVABILITY_ENABLED''),
     ob_ServiceName := setString (ob_ServiceName c) (env ''SECKILL_AGENT_OBSERVABILITY_SERVICE_NAME''),
     ob_Env := setString (ob_Env c) (env ''SECKILL_AGENT_OBSERVABILITY_ENV''),
     ob_OTELEndpoint := setString (ob_OTELEndpoint c) (env ''SECKILL_AGENT_OBSERVABILITY_OTEL_ENDPOINT''),
     ob_SampleRatio := setFloat (ob_SampleRatio c) (env ''SECKILL_AGENT_OBSERVABILITY_SAMPLE_RATIO''),
     ob_EnableMetrics := setBool (ob_EnableMetrics c) (env ''SECKILL_AGENT_OBSERVABILITY_ENABLE_METRICS''),
     ob_MetricsAddr := setString (ob_MetricsAddr c) (env ''SECKILL_AGENT_OBSERVABILITY_METRICS_ADDR'') \<rparr>"

definition overrideReviewService :: "(gostring \<Rightarrow> gostring) \<Rightarrow> ServiceEndpointConfig \<Rightarrow> ServiceEndpointConfig" where
  "overrideReviewService env c = c \<lparr> se_BaseURL := setString (se_BaseURL c) (env ''SECKILL_AGENT_REVIEW_SERVICE_BASE_URL''),
     se_TimeoutSeconds := setInt (se_TimeoutSeconds c) (env ''SECKILL_AGENT_REVIEW_SERVICE_TIMEOUT_SECONDS'') \<rparr>"

definition overrideReviewJob :: "(gostring \<Rightarrow> gostring) \<Rightarrow> ServiceEndpointConfig \<Rightarrow> ServiceEndpointConfig" where
  "overrideReviewJob env c = c \<lparr> se_BaseURL := setString (se_BaseURL c) (env ''SECKILL_AGENT_REVIEW_JOB_BASE_URL''),
     se_TimeoutSeconds := setInt (se_TimeoutSeconds c) (env ''SECKILL_AGENT_REVIEW_JOB_TIMEOUT_SECONDS'') \<rparr>"

definition overrideSeckillService :: "(gostring \<Rightarrow> gostring) \<Rightarrow> SeckillServiceConfig \<Rightarrow> SeckillServiceConfig" where
  "overrideSeckillService env c = c \<lparr> sk_Enabled := setBool (sk_Enabled c) (env ''SECKILL_AGENT_SECKILL_SERVICE_ENABLED''),
     sk_BaseURL := setString (sk_BaseURL c) (env ''SECKILL_AGENT_SECKILL_SERVICE_BASE_URL''),
     sk_GrantPath := setString (sk_GrantPath c) (env ''SECKILL_AGENT_SECKILL_SERVICE_GRANT_PATH''),
     sk_TimeoutSeconds := setInt (sk_TimeoutSeconds c) (env ''SECKILL_AGENT_SECKILL_SERVICE_TIMEOUT_SECONDS'') \<rparr>"

definition overrideFromEnv :: "(gostring \<Rightarrow> gostring) \<Rightarrow> AppSettings \<Rightarrow> AppSettings" where
  "overrideFromEnv env cfg = cfg \<lparr>
     cg_App := overrideApp env (cg_App cfg),
     cg_HTTP := overrideHTTP env (cg_HTTP cfg),
     cg_Log := overrideLog env (cg_Log cfg),
     cg_LLM := overrideLLM env (cg_LLM cfg),
     cg_Agent := overrideAgent env (cg_Agent cfg),
     cg_AgentJob := overrideAgentJob env (cg_AgentJob cfg),
     cg_Memory := overrideMemory env (cg_Memory cfg),
     cg_PromptBudget := overridePromptBudget env (cg_PromptBudget cfg),
     cg_CouponPolicy := overrideCouponPolicy env (cg_CouponPolicy cfg),
     cg_Redis := overrideRedis env (cg_Redis cfg),
     cg_Resilience := (cg_Resilience cfg) \<lparr> re_LLMRateLimit := overrideLLMRateLimit env (re_LLMRateLimit (cg_Resilience cfg)), re_LLMCircuitBreaker := overrideLLMCircuitBreaker env (re_LLMCircuitBreaker (cg_Resilience cfg)), re_DecisionLock := overrideDecisionLock env (re_DecisionLock (cg_Resilience cfg)) \<rparr>,
     cg_Observability := overrideObservability env (cg_Observability cfg),
     cg_ReviewService := overrideReviewService env (cg_ReviewService cfg),
     cg_ReviewJob := overrideReviewJob env (cg_ReviewJob cfg),
     cg_SeckillService := overrideSeckillService env (cg_SeckillService cfg) \<rparr>"

section \<open>Defaults and the check\<close>

definition defaultConfig :: AppSettings where
  "defaultConfig = \<lparr>cg_App = \<lparr>ap_Name = ''seckill-agent'', ap_Env = ''local'', ap_Version = ''0.1.0''\<rparr>,
    cg_HTTP = \<lparr>ht_Host = ''0.0.0.0'',
      ht_Port = 8080,
      ht_ReadTimeoutSeconds = 5,
      ht_WriteTimeoutSeconds = 180,
      ht_IdleTimeoutSeconds = 30,
      ht_ShutdownTimeoutSeconds = 10\<rparr>,
    cg_Log = \<lparr>lg_Level = ''info'', lg_Format = ''text'', lg_AddSource = True\<rparr>,
    cg_LLM = \<lparr>lm_Provider = ''deepseek'',
      lm_BaseURL = ''https://api.deepseek.com'',
      lm_APIKey = [],
      lm_Model = ''deepseek-chat'',
      lm_TimeoutSeconds = 20,
      lm_MaxTokens = 1024,
      lm_Temperature = FDec 2 (-1)\<rparr>,
    cg_Agent = \<lparr>as_MaxSteps = 5, as_ToolCallTimeoutSeconds = 10\<rparr>,
    cg_AgentJob = \<lparr>aj_Enabled = False,
      aj_WorkerCount = 2,
      aj_GlobalConcurrency = 6,
      aj_ScopeConcurrency = 2,
      aj_MaxRetries = 2,
      aj_JobTTLSeconds = 86400,
      aj_QueueWaitSeconds = 2,
      aj_RunTimeoutSeconds = 180,
      aj_RetryBackoffSeconds = 2,
      aj_MaxBatchSize = 50\<rparr>,
    cg_Memory = \<lparr>me_MaxSessions = 1000,
      me_MaxRecentSteps = 24,
      me_MaxSummaryChars = 4800,
      me_SessionTTLSeconds = 1800\<rparr>,
    cg_PromptBudget = \<lparr>pb_MaxPromptTokens = 2000, pb_MaxRecentSteps = 6, pb_MaxSummaryChars = 1200\<rparr>,
    cg_CouponPolicy = \<lparr>cc_Path = ''configs/coupon_policy.json'',
      cc_HotReload = True,
      cc_ReloadSeconds = 30,
      cc_DefaultValidity = 14\<rparr>,
    cg_Redis = \<lparr>rc_Enabled = False,
      rc_Addr = ''127.0.0.1:6380'',
      rc_Password = ''change-me-local'',
      rc_DB = 0,
      rc_KeyPrefix = ''seckill-agent:''\<rparr>,
    cg_Resilience = \<lparr>re_LLMRateLimit = \<lparr>rl_Enabled = True, rl_RatePerSecond = FDec 2 0, rl_Burst = 4, rl_WaitTimeoutMS = 1500\<rparr>,
      re_LLMCircuitBreaker = \<lparr>cb_Enabled = True,
        cb_MaxRequests = 2,
        cb_IntervalSeconds = 30,
        cb_TimeoutSeconds = 20,
        cb_FailureThreshold = 5,
        cb_ConsecutiveSuccesses = 2\<rparr>,
      re_DecisionLock = \<lparr>dl_Enabled = True, dl_TTLSeconds = 120, dl_KeyPrefix = ''seckill-agent:lock:''\<rparr>\<rparr>,
    cg_Observability = \<lparr>ob_Enabled = True,
      ob_ServiceName = ''seckill-agent'',
      ob_Env = ''dev'',
      ob_OTELEndpoint = ''127.0.0.1:4317'',
      ob_SampleRatio = FDec 1 0,
      ob_EnableMetrics = True,
      ob_MetricsAddr = ''0.0.0.0:2113''\<rparr>,
    cg_ReviewService = \<lparr>se_BaseURL = ''http://127.0.0.1:8000'', se_TimeoutSeconds = 5\<rparr>,
    cg_ReviewJob = \<lparr>se_BaseURL = ''http://127.0.0.1:8082'', se_TimeoutSeconds = 5\<rparr>,
    cg_SeckillService = \<lparr>sk_Enabled = False,
      sk_BaseURL = ''http://127.0.0.1:8001'',
      sk_GrantPath = ''/api/v1/seckill/coupon/review/grant'',
      sk_TimeoutSeconds = 3\<rparr>\<rparr>"

definition Validate :: "AppSettings \<Rightarrow> gerror option" where
  "Validate c =
     (if ap_Name (cg_App c) = [] then Some ''app.name is required''
      else if ht_Host (cg_HTTP c) = [] then Some ''http.host is required''
      else if ht_Port (cg_HTTP c) \<le> 0 then Some ''http.port must be greater than 0''
      else if lg_Level (cg_Log c) = [] then Some ''log.level is required''
      else if lm_Provider (cg_LLM c) = [] then Some ''llm.provider is required''
      else if lm_BaseURL (cg_LLM c) = [] then Some ''llm.base_url is required''
      else if lm_APIKey (cg_LLM c) = [] then Some ''llm.api_key is required''
      else if lm_Model (cg_LLM c) = [] then Some ''llm.model is required''
      else if as_MaxSteps (cg_Agent c) \<le> 0 then Some ''agent.max_steps must be greater than 0''
      else if as_ToolCallTimeoutSeconds (cg_Agent c) \<le> 0 then Some ''agent.tool_call_timeout_seconds must be greater than 0''
      else if aj_Enabled (cg_AgentJob c) \<and> \<not> rc_Enabled (cg_Redis c) then Some ''redis.enabled must be true when agent_job.enabled=true''
      else if aj_Enabled (cg_AgentJob c) \<and> aj_WorkerCount (cg_AgentJob c) \<le> 0 then Some ''agent_job.worker_count must be greater than 0''
      else if aj_Enabled (cg_AgentJob c) \<and> aj_MaxRetries (cg_AgentJob c) < 0 then Some ''agent_job.max_retries must not be negative''
      else if aj_Enabled (cg_AgentJob c) \<and> aj_MaxBatchSize (cg_AgentJob c) \<le> 0 then Some ''agent_job.max_batch_size must be greater than 0''
      else if aj_Enabled (cg_AgentJob c) \<and> aj_GlobalConcurrency (cg_AgentJob c) \<le> 0 then Some ''agent_job.global_concurrency must be greater than 0''
      else if aj_Enabled (cg_AgentJob c) \<and> aj_ScopeConcurrency (cg_AgentJob c) \<le> 0 then Some ''agent_job.scope_concurrency must be greater than 0''
      else if me_MaxSessions (cg_Memory c) \<le> 0 then Some ''memory.max_sessions must be greater than 0''
      else if me_MaxRecentSteps (cg_Memory c) \<le> 0 then Some ''memory.max_recent_steps must be greater than 0''
      else if me_MaxSummaryChars (cg_Memory c) \<le> 0 then Some ''memory.max_summary_chars must be greater than 0''
      else if me_SessionTTLSeconds (cg_Memory c) \<le> 0 then Some ''memory.session_ttl_seconds must be greater than 0''
      else if pb_MaxPromptTokens (cg_PromptBudget c) \<le> 0 then Some ''prompt_budget.max_prompt_tokens must be greater than 0''
      else if pb_MaxRecentSteps (cg_PromptBudget c) \<le> 0 then Some ''prompt_budget.max_recent_steps must be greater than 0''
      else if pb_MaxSummaryChars (cg_PromptBudget c) \<le> 0 then Some ''prompt_budget.max_summary_chars must be greater than 0''
      else if rc_Enabled (cg_Redis c) \<and> rc_Addr (cg_Redis c) = [] then Some ''redis.addr is required when redis.enabled=true''
      else if rl_Enabled (re_LLMRateLimit (cg_Resilience c)) \<and> floatLe0 (rl_RatePerSecond (re_LLMRateLimit (cg_Resilience c))) then Some ''resilience.llm_rate_limit.rate_per_second must be greater than 0''
      else if rl_Enabled (re_LLMRateLimit (cg_Resilience c)) \<and> rl_Burst (re_LLMRateLimit (cg_Resilience c)) \<le> 0 then Some ''resilience.llm_rate_limit.burst must be greater than 0''
      else if dl_Enabled (re_DecisionLock (cg_Resilience c)) \<and> \<not> rc_Enabled (cg_Redis c) then Some ''redis.enabled must be true when decision_lock.enabled=true''
      else if se_BaseURL (cg_ReviewService c) = [] then Some ''review_service.base_url is required''
      else if se_TimeoutSeconds (cg_ReviewService c) \<le> 0 then Some ''review_service.timeout_seconds must be greater than 0''
      else if se_BaseURL (cg_ReviewJob c) = [] then Some ''review_job.base_url is required''
      else if se_TimeoutSeconds (cg_ReviewJob c) \<le> 0 then Some ''review_job.timeout_seconds must be greater than 0''
      else None)"

section \<open>Load\<close>

datatype FileRead = NotExist | ReadError gerror | Contents gostring

definition defaultConfigPath :: gostring where
  "defaultConfigPath = ''configs/config.json''"

text \<open>\<open>None\<close> for a missing file, else the settings with the members of the file stored over them, and whether
  all of it was read.\<close>

definition loadFromFile :: "FileRead \<Rightarrow> AppSettings \<Rightarrow> (AppSettings \<times> gerror option) option" where
  "loadFromFile file cfg = (case file of
       NotExist \<Rightarrow> None
     | ReadError err \<Rightarrow> Some (cfg, Some err)
     | Contents data \<Rightarrow> (let (cfg', ok) = unmarshal appSettingsFields data cfg in Some (cfg', if ok then None else Some ''invalid config json'')))"

definition LoadConfig :: "(gostring \<Rightarrow> FileRead) \<Rightarrow> (gostring \<Rightarrow> gostring) \<Rightarrow> AppSettings result" where
  "LoadConfig files env =
     (let path0 = TrimSpace (env ''SECKILL_AGENT_CONFIG''); path = (if path0 = [] then defaultConfigPath else path0)
      in case loadFromFile (files path) defaultConfig of
           Some (cfg, Some err) \<Rightarrow> Inl (''read config file '' @ path @ '': '' @ err)
         | r \<Rightarrow> (let cfg = overrideFromEnv env (case r of Some (c, _) \<Rightarrow> c | None \<Rightarrow> defaultConfig)
             in case Validate cfg of Some err \<Rightarrow> Inl err | None \<Rightarrow> Inr cfg))"

section \<open>Lemmas\<close>

lemma set_blank [simp]:
  "TrimSpace v = [] \<Longrightarrow> setString a v = a" "TrimSpace v = [] \<Longrightarrow> setInt i v = i"
  "TrimSpace v = [] \<Longrightarrow> setBool b v = b" "TrimSpace v = [] \<Longrightarrow> setFloat f v = f"
  by (simp_all add: setString_def setInt_def setBool_def setFloat_def)

lemma default_fields:
  "cg_App defaultConfig = \<lparr>ap_Name = ''seckill-agent'', ap_Env = ''local'', ap_Version = ''0.1.0''\<rparr>"
  "cg_HTTP defaultConfig = \<lparr>ht_Host = ''0.0.0.0'',
      ht_Port = 8080,
      ht_ReadTimeoutSeconds = 5,
      ht_WriteTimeoutSeconds = 180,
      ht_IdleTimeoutSeconds = 30,
      ht_ShutdownTimeoutSeconds = 10\<rparr>"
  "cg_Log defaultConfig = \<lparr>lg_Level = ''info'', lg_Format = ''text'', lg_AddSource = True\<rparr>"
  "cg_LLM defaultConfig = \<lparr>lm_Provider = ''deepseek'',
      lm_BaseURL = ''https://api.deepseek.com'',
      lm_APIKey = [],
      lm_Model = ''deepseek-chat'',
      lm_TimeoutSeconds = 20,
      lm_MaxTokens = 1024,
      lm_Temperature = FDec 2 (-1)\<rparr>"
  "cg_Agent defaultConfig = \<lparr>as_MaxSteps = 5, as_ToolCallTimeoutSeconds = 10\<rparr>"
  "cg_AgentJob defaultConfig = \<lparr>aj_Enabled = False,
      aj_WorkerCount = 2,
      aj_GlobalConcurrency = 6,
      aj_ScopeConcurrency = 2,
      aj_MaxRetries = 2,
      aj_JobTTLSeconds = 86400,
      aj_QueueWaitSeconds = 2,
      aj_RunTimeoutSeconds = 180,
      aj_RetryBackoffSeconds = 2,
      aj_MaxBatchSize = 50\<rparr>"
  "cg_Memory defaultConfig = \<lparr>me_MaxSessions = 1000,
      me_MaxRecentSteps = 24,
      me_MaxSummaryChars = 4800,
      me_SessionTTLSeconds = 1800\<rparr>"
  "cg_PromptBudget defaultConfig = \<lparr>pb_MaxPromptTokens = 2000, pb_MaxRecentSteps = 6, pb_MaxSummaryChars = 1200\<rparr>"
  "cg_CouponPolicy defaultConfig = \<lparr>cc_Path = ''configs/coupon_policy.json'',
      cc_HotReload = True,
      cc_ReloadSeconds = 30,
      cc_DefaultValidity = 14\<rparr>"
  "cg_Redis defaultConfig = \<lparr>rc_Enabled = False,
      rc_Addr = ''127.0.0.1:6380'',
      rc_Password = ''change-me-local'',
      rc_DB = 0,
      rc_KeyPrefix = ''seckill-agent:''\<rparr>"
  "cg_Resilience defaultConfig = \<lparr>re_LLMRateLimit = \<lparr>rl_Enabled = True, rl_RatePerSecond = FDec 2 0, rl_Burst = 4, rl_WaitTimeoutMS = 1500\<rparr>,
      re_LLMCircuitBreaker = \<lparr>cb_Enabled = True,
        cb_MaxRequests = 2,
        cb_IntervalSeconds = 30,
        cb_TimeoutSeconds = 20,
        cb_FailureThreshold = 5,
        cb_ConsecutiveSuccesses = 2\<rparr>,
      re_DecisionLock = \<lparr>dl_Enabled = True, dl_TTLSeconds = 120, dl_KeyPrefix = ''seckill-agent:lock:''\<rparr>\<rparr>"
  "cg_Observability defaultConfig = \<lparr>ob_Enabled = True,
      ob_ServiceName = ''seckill-agent'',
      ob_Env = ''dev'',
      ob_OTELEndpoint = ''127.0.0.1:4317'',
      ob_SampleRatio = FDec 1 0,
      ob_EnableMetrics = True,
      ob_MetricsAddr = ''0.0.0.0:2113''\<rparr>"
  "cg_ReviewService defaultConfig = \<lparr>se_BaseURL = ''http://127.0.0.1:8000'', se_TimeoutSeconds = 5\<rparr>"
  "cg_ReviewJob defaultConfig = \<lparr>se_BaseURL = ''http://127.0.0.1:8082'', se_TimeoutSeconds = 5\<rparr>"
  "cg_SeckillService defaultConfig = \<lparr>sk_Enabled = False,
      sk_BaseURL = ''http://127.0.0.1:8001'',
      sk_GrantPath = ''/api/v1/seckill/coupon/review/grant'',
      sk_TimeoutSeconds = 3\<rparr>"
  by (simp_all add: defaultConfig_def)

lemmas override_defs = overrideApp_def overrideHTTP_def overrideLog_def overrideLLM_def overrideAgent_def overrideAgentJob_def overrideMemory_def overridePromptBudget_def overrideCouponPolicy_def overrideRedis_def overrideLLMRateLimit_def overrideLLMCircuitBreaker_def overrideDecisionLock_def overrideObservability_def overrideReviewService_def overrideReviewJob_def overrideSeckillService_def

text \<open>Without settings in the environment nothing changes.\<close>

lemma override_blank: "(\<And>v. TrimSpace (env v) = []) \<Longrightarrow> overrideFromEnv env cfg = cfg"
  by (simp add: overrideFromEnv_def override_defs)

text \<open>An integer printed into the environment is read back.\<close>

lemma digit_text_not_blank: "s \<noteq> [] \<Longrightarrow> (\<forall>c \<in> set s. byte c < 0x80 \<and> \<not> isSpace (byte c)) \<Longrightarrow> TrimSpace s \<noteq> []"
  unfolding blank_def [symmetric] blank_iff by (cases s) (auto simp: runes_def chunks_ascii simp del: chunks.simps)

lemma show_int_chars: "c \<in> set (show_int n) \<Longrightarrow> byte c < 0x80 \<and> \<not> isSpace (byte c)"
proof -
  assume "c \<in> set (show_int n)"
  then have "c = CHR ''-'' \<or> is_digit c" using show_nat_digits by (auto simp: show_int_def split: if_splits)
  then show ?thesis by (auto simp: is_digit_def in_rng_def isSpace_def)
qed

lemma ParseInt64_show: "ParseInt64 (show_int n) = clamp_int64 n"
proof -
  have digits: "list_all is_digit (show_nat k)" for k using show_nat_digits by (simp add: list_all_iff)
  have first: "hd (show_nat k) \<noteq> CHR ''-'' \<and> hd (show_nat k) \<noteq> CHR ''+''" for k
    using show_nat_digits [of "hd (show_nat k)" k] by (auto simp: is_digit_def in_rng_def)
  show ?thesis
  proof (cases "n < 0")
    case True
    then show ?thesis using digits [of "nat (- n)"] by (simp add: ParseInt64_def show_int_def read_show_nat)
  next
    case False
    obtain c cs where s: "show_nat (nat n) = c # cs" by (metis show_nat_nonempty list.exhaust)
    have "list_all is_digit (c # cs)" "c \<noteq> CHR ''-''" "c \<noteq> CHR ''+''" "read_nat (c # cs) = nat n"
      using digits [of "nat n"] first [of "nat n"] read_show_nat [of "nat n"] by (simp_all add: s)
    with False show ?thesis by (simp add: ParseInt64_def show_int_def s)
  qed
qed

lemma setInt_show: "min_int64 \<le> n \<Longrightarrow> n \<le> max_int64 \<Longrightarrow> setInt t (show_int n) = n"
  using digit_text_not_blank [of "show_int n"] show_int_chars by (simp add: setInt_def ParseInt64_show clamp_int64_def)

end
