(* ===== verification/Bootstrap.thy ===== *)
theory Bootstrap
  imports Config Resilience Redis_Store Job_Safety Agent_Run
begin

text \<open>
  \<open>internal/bootstrap/app.go\<close>, \<open>NewApp\<close>: which components the settings make, with which settings of their own;
  with \<open>pkg/logx/logger.go\<close>. The answer of Redis to the ping, the clock and the file system are parameters. The
  result lists what \<open>NewApp\<close> wires together; the clients of the services keep their address and timeout.
\<close>

section \<open>The logger\<close>

datatype LogLevel = LevelDebug | LevelInfo | LevelWarn | LevelError

definition parseLevel :: "gostring \<Rightarrow> LogLevel result" where
  "parseLevel level = (let l = ToLower level in
     if l = ''debug'' then Inr LevelDebug
     else if l = ''info'' \<or> l = [] then Inr LevelInfo
     else if l = ''warn'' \<or> l = ''warning'' then Inr LevelWarn
     else if l = ''error'' then Inr LevelError
     else Inl (''unsupported log level: '' @ level))"

datatype LogFormat = JSONHandler | TextHandler

definition NewLogger :: "LogConfig \<Rightarrow> (LogLevel \<times> LogFormat \<times> bool) result" where
  "NewLogger cfg = (case parseLevel (lg_Level cfg) of
       Inl err \<Rightarrow> Inl err
     | Inr level \<Rightarrow> (let f = ToLower (lg_Format cfg) in
         if f = ''json'' then Inr (level, JSONHandler, lg_AddSource cfg)
         else if f = ''text'' \<or> f = [] then Inr (level, TextHandler, lg_AddSource cfg)
         else Inl (''unsupported log format: '' @ lg_Format cfg)))"

section \<open>Settings of the components\<close>

definition millisecondsDur :: "int \<Rightarrow> int" where
  "millisecondsDur n = wrap_int64 (n * 1000000)"

definition toUint32 :: "int \<Rightarrow> int" where
  "toUint32 n = n mod 2 ^ 32"

text \<open>The finite \<open>float64\<close>s as real numbers.\<close>

definition floatReal :: "gofloat \<Rightarrow> real option" where
  "floatReal f = (case f of
       FDec m e \<Rightarrow> (case f64_of_lit m e of
           Some (n, k) \<Rightarrow> Some ((if m < 0 then -1 else 1) * of_nat n * 2 powi k)
         | None \<Rightarrow> None)
     | _ \<Rightarrow> None)"

definition guardConfigOf :: "real \<Rightarrow> AppSettings \<Rightarrow> LLMGuardConfig" where
  "guardConfigOf rate cfg = (let l = re_LLMRateLimit (cg_Resilience cfg); b = re_LLMCircuitBreaker (cg_Resilience cfg) in
     \<lparr>lg_RatePerSecond = rate, lg_Burst = rl_Burst l, lg_WaitTimeout = millisecondsDur (rl_WaitTimeoutMS l),
      lg_CircuitMaxRequests = toUint32 (cb_MaxRequests b), lg_CircuitInterval = seconds (cb_IntervalSeconds b),
      lg_CircuitTimeout = seconds (cb_TimeoutSeconds b), lg_FailureThreshold = toUint32 (cb_FailureThreshold b),
      lg_ConsecutiveSuccess = toUint32 (cb_ConsecutiveSuccesses b), lg_DisableRateLimiter = \<not> rl_Enabled l,
      lg_DisableCircuitBreak = \<not> cb_Enabled b\<rparr>)"

definition memoryConfigOf :: "AppSettings \<Rightarrow> MemConfig" where
  "memoryConfigOf cfg = (let m = cg_Memory cfg in \<lparr>mc_MaxSessions = me_MaxSessions m, mc_MaxRecentSteps = me_MaxRecentSteps m,
     mc_MaxSummaryChars = me_MaxSummaryChars m, mc_SessionTTLSeconds = me_SessionTTLSeconds m\<rparr>)"

definition budgetOf :: "AppSettings \<Rightarrow> Budget" where
  "budgetOf cfg = (let b = cg_PromptBudget cfg in \<lparr>b_MaxPromptTokens = pb_MaxPromptTokens b, b_MaxRecentSteps = pb_MaxRecentSteps b,
     b_MaxSummaryChars = pb_MaxSummaryChars b\<rparr>)"

definition jobConfigOf :: "AppSettings \<Rightarrow> JobConfig" where
  "jobConfigOf cfg = (let j = cg_AgentJob cfg in
     \<lparr>jc_Enabled = aj_Enabled j, jc_KeyPrefix = rc_KeyPrefix (cg_Redis cfg), jc_WorkerCount = aj_WorkerCount j,
      jc_MaxRetries = aj_MaxRetries j, jc_JobTTL = seconds (aj_JobTTLSeconds j), jc_QueueWait = seconds (aj_QueueWaitSeconds j),
      jc_RunTimeout = seconds (aj_RunTimeoutSeconds j), jc_RetryBackoff = seconds (aj_RetryBackoffSeconds j),
      jc_MaxBatchSize = aj_MaxBatchSize j, jc_GlobalConcurrency = aj_GlobalConcurrency j,
      jc_ScopeConcurrency = aj_ScopeConcurrency j\<rparr>)"

section \<open>The agent\<close>

text \<open>\<open>agent.New\<close> with the options \<open>NewApp\<close> gives it.\<close>

record AgentParts =
  pa_budget :: Budget
  pa_maxSteps :: int
  pa_llmTimeout :: int
  pa_toolTimeout :: int

definition withTimeouts :: "int \<Rightarrow> int \<Rightarrow> AgentParts \<Rightarrow> AgentParts" where
  "withTimeouts llm tool a = a \<lparr> pa_llmTimeout := (if llm > 0 then llm else pa_llmTimeout a),
     pa_toolTimeout := (if tool > 0 then tool else pa_toolTimeout a) \<rparr>"

definition agentOf :: "AppSettings \<Rightarrow> AgentParts" where
  "agentOf cfg = (let a = withTimeouts (seconds (lm_TimeoutSeconds (cg_LLM cfg))) (seconds (as_ToolCallTimeoutSeconds (cg_Agent cfg)))
       \<lparr>pa_budget = memoryBudget (budgetOf cfg), pa_maxSteps = as_MaxSteps (cg_Agent cfg), pa_llmTimeout = seconds 20, pa_toolTimeout = seconds 10\<rparr>
     in a \<lparr> pa_maxSteps := agentMaxSteps (pa_maxSteps a) \<rparr>)"

section \<open>NewApp\<close>

datatype SessionStore = InProcess InMemoryStore | OverRedis "MemConfig" gostring

record App =
  app_cfg :: AppSettings
  app_logger :: "LogLevel \<times> LogFormat \<times> bool"
  app_guard :: "LLMGuardConfig option"
  app_reviewService :: "gostring \<times> int"
  app_reviewJob :: "gostring \<times> int"
  app_seckill :: "(gostring \<times> gostring \<times> int) option"
  app_redis :: "(gostring \<times> gostring \<times> int) option"
  app_store :: SessionStore
  app_lock :: "DistributedLock option"
  app_tools :: "gostring list"
  app_finalizer :: ReviewCouponFinalizer
  app_agent :: AgentParts
  app_jobs :: "JobConfig option"

text \<open>\<open>app_guard\<close> is \<open>None\<close> for a rate that is infinite or no number.\<close>

definition registeredTools :: "AppSettings \<Rightarrow> gostring list" where
  "registeredTools cfg = [''get_review_evidence'', ''get_review_stats'', ''retrieve_rag''] @
     (if sk_Enabled (cg_SeckillService cfg) then [''get_campaign_context''] else [])"

definition buildApp :: "int \<Rightarrow> Disk \<Rightarrow> AppSettings \<Rightarrow> LogLevel \<times> LogFormat \<times> bool \<Rightarrow> App" where
  "buildApp now disk cfg logger =
     (let redis = rc_Enabled (cg_Redis cfg); dl = re_DecisionLock (cg_Resilience cfg); sk = cg_SeckillService cfg; cp = cg_CouponPolicy cfg;
          lock = (if redis \<and> dl_Enabled dl then Some (NewDistributedLock (dl_KeyPrefix dl) (seconds (dl_TTLSeconds dl))) else None);
          policy = NewCouponPolicyProvider now disk (cc_Path cp) (cc_HotReload cp) (seconds (cc_ReloadSeconds cp))
      in \<lparr>app_cfg = cfg, app_logger = logger,
          app_guard = map_option (\<lambda>rate. guardDefaults (guardConfigOf rate cfg)) (floatReal (rl_RatePerSecond (re_LLMRateLimit (cg_Resilience cfg)))),
          app_reviewService = (se_BaseURL (cg_ReviewService cfg), seconds (se_TimeoutSeconds (cg_ReviewService cfg))),
          app_reviewJob = (se_BaseURL (cg_ReviewJob cfg), seconds (se_TimeoutSeconds (cg_ReviewJob cfg))),
          app_seckill = (if sk_Enabled sk then Some (sk_BaseURL sk, sk_GrantPath sk, seconds (sk_TimeoutSeconds sk)) else None),
          app_redis = (if redis then Some (rc_Addr (cg_Redis cfg), rc_Password (cg_Redis cfg), rc_DB (cg_Redis cfg)) else None),
          app_store = (if redis then OverRedis (rs_config (NewRedisStore (memoryConfigOf cfg) (rc_KeyPrefix (cg_Redis cfg) @ ''session:'') ()))
              (rs_prefix (NewRedisStore (memoryConfigOf cfg) (rc_KeyPrefix (cg_Redis cfg) @ ''session:'') ()))
            else InProcess (NewInMemoryStore (memoryConfigOf cfg))),
          app_lock = lock, app_tools = registeredTools cfg,
          app_finalizer = NewReviewCouponFinalizer now disk True (lock \<noteq> None) (sk_Enabled sk) (Some policy),
          app_agent = agentOf cfg,
          app_jobs = (if aj_Enabled (cg_AgentJob cfg) \<and> redis then Some (NewService (jobConfigOf cfg)) else None)\<rparr>)"

text \<open>\<open>ping\<close> is the error of the ping of Redis.\<close>

definition NewApp :: "(gostring \<Rightarrow> FileRead) \<Rightarrow> (gostring \<Rightarrow> gostring) \<Rightarrow> gerror option \<Rightarrow> int \<Rightarrow> Disk \<Rightarrow> App result" where
  "NewApp files env ping now disk = (case LoadConfig files env of
       Inl err \<Rightarrow> Inl err
     | Inr cfg \<Rightarrow> (case NewLogger (cg_Log cfg) of
           Inl err \<Rightarrow> Inl err
         | Inr logger \<Rightarrow>
             (case (if rc_Enabled (cg_Redis cfg) then ping else None) of
                Some err \<Rightarrow> Inl err
              | None \<Rightarrow> Inr (buildApp now disk cfg logger))))"

section \<open>What a loaded configuration guarantees\<close>

lemma if_Some_None: "(if b then Some x else y) = None \<longleftrightarrow> \<not> b \<and> y = None"
  by simp

lemma LoadConfig_valid: "LoadConfig files env = Inr cfg \<Longrightarrow> Validate cfg = None"
  by (auto simp: LoadConfig_def Let_def split: option.splits prod.splits)

lemma NewApp_Inr: "NewApp files env ping now disk = Inr app \<Longrightarrow> \<exists>cfg logger. LoadConfig files env = Inr cfg \<and>
    NewLogger (cg_Log cfg) = Inr logger \<and> app = buildApp now disk cfg logger"
  by (auto simp: NewApp_def split: sum.splits option.splits)

lemma buildApp_fields [simp]:
  "app_cfg (buildApp now disk cfg logger) = cfg" "app_tools (buildApp now disk cfg logger) = registeredTools cfg"
  "app_agent (buildApp now disk cfg logger) = agentOf cfg"
  "app_jobs (buildApp now disk cfg logger) = (if aj_Enabled (cg_AgentJob cfg) \<and> rc_Enabled (cg_Redis cfg) then Some (NewService (jobConfigOf cfg)) else None)"
  "app_store (buildApp now disk cfg logger) = (if rc_Enabled (cg_Redis cfg)
      then OverRedis (rs_config (NewRedisStore (memoryConfigOf cfg) (rc_KeyPrefix (cg_Redis cfg) @ ''session:'') ()))
              (rs_prefix (NewRedisStore (memoryConfigOf cfg) (rc_KeyPrefix (cg_Redis cfg) @ ''session:'') ()))
      else InProcess (NewInMemoryStore (memoryConfigOf cfg)))"
  by (simp_all add: buildApp_def Let_def)

lemma buildApp_guard: "app_guard (buildApp now disk cfg logger) =
    map_option (\<lambda>rate. guardDefaults (guardConfigOf rate cfg)) (floatReal (rl_RatePerSecond (re_LLMRateLimit (cg_Resilience cfg))))"
  by (simp add: buildApp_def Let_def)

lemma buildApp_clients:
  "app_redis (buildApp now disk cfg logger) =
     (if rc_Enabled (cg_Redis cfg) then Some (rc_Addr (cg_Redis cfg), rc_Password (cg_Redis cfg), rc_DB (cg_Redis cfg)) else None)"
  "app_reviewService (buildApp now disk cfg logger) = (se_BaseURL (cg_ReviewService cfg), seconds (se_TimeoutSeconds (cg_ReviewService cfg)))"
  "app_reviewJob (buildApp now disk cfg logger) = (se_BaseURL (cg_ReviewJob cfg), seconds (se_TimeoutSeconds (cg_ReviewJob cfg)))"
  by (simp_all add: buildApp_def Let_def)

lemma wired_finalizer:
  "fz_hasStore (app_finalizer (buildApp now disk cfg logger))"
  "fz_hasGrant (app_finalizer (buildApp now disk cfg logger)) = sk_Enabled (cg_SeckillService cfg)"
  "fz_hasLock (app_finalizer (buildApp now disk cfg logger)) = (rc_Enabled (cg_Redis cfg) \<and> dl_Enabled (re_DecisionLock (cg_Resilience cfg)))"
  by (simp_all add: buildApp_def Let_def NewReviewCouponFinalizer_def)

lemma valid_memory: "Validate cfg = None \<Longrightarrow> memConfigDefaults (memoryConfigOf cfg) = memoryConfigOf cfg \<and> cfgOk (memoryConfigOf cfg)"
  by (simp add: Validate_def if_Some_None memConfigDefaults_def memoryConfigOf_def cfgOk_def Let_def)

lemma valid_agent: "Validate cfg = None \<Longrightarrow> pa_maxSteps (agentOf cfg) = as_MaxSteps (cg_Agent cfg) \<and> 0 < as_MaxSteps (cg_Agent cfg) \<and>
    pa_budget (agentOf cfg) = budgetOf cfg \<and> 0 < b_MaxPromptTokens (budgetOf cfg)"
  by (simp add: Validate_def if_Some_None agentOf_def withTimeouts_def agentMaxSteps_def memoryBudget_def budgetOf_def Let_def)

lemma timeouts_positive: "0 < pa_llmTimeout (agentOf cfg) \<and> 0 < pa_toolTimeout (agentOf cfg)"
  by (simp add: agentOf_def withTimeouts_def Let_def seconds_def wrap_int64_def)

lemma seconds_small: "0 \<le> n \<Longrightarrow> n \<le> 9000000000 \<Longrightarrow> seconds n = secs n"
  by (simp add: seconds_def wrap_int64_def secs_def)

lemma jobs_ok:
  assumes "Validate cfg = None" "aj_Enabled (cg_AgentJob cfg)" "\<bar>aj_JobTTLSeconds (cg_AgentJob cfg)\<bar> \<le> 9000000000"
    "\<bar>aj_RunTimeoutSeconds (cg_AgentJob cfg)\<bar> \<le> 9000000000"
  shows "jobCfgOk (NewService (jobConfigOf cfg)) \<and> jc_WorkerCount (NewService (jobConfigOf cfg)) = aj_WorkerCount (cg_AgentJob cfg) \<and>
    jc_GlobalConcurrency (NewService (jobConfigOf cfg)) = aj_GlobalConcurrency (cg_AgentJob cfg) \<and>
    jc_ScopeConcurrency (NewService (jobConfigOf cfg)) = aj_ScopeConcurrency (cg_AgentJob cfg) \<and>
    jc_MaxRetries (NewService (jobConfigOf cfg)) = aj_MaxRetries (cg_AgentJob cfg) \<and>
    jc_MaxBatchSize (NewService (jobConfigOf cfg)) = aj_MaxBatchSize (cg_AgentJob cfg)"
proof -
  let ?j = "cg_AgentJob cfg"
  have v: "0 < aj_WorkerCount ?j" "0 < aj_GlobalConcurrency ?j" "0 < aj_ScopeConcurrency ?j" "0 \<le> aj_MaxRetries ?j" "0 < aj_MaxBatchSize ?j"
    using assms(1,2) by (simp_all add: Validate_def if_Some_None)
  have dur: "posOr (seconds n) (secs d) = (if n \<le> 0 then secs d else secs n)"
    if "\<bar>n\<bar> \<le> 9000000000" for n d
    using that by (simp add: posOr_def seconds_def wrap_int64_def secs_def)
  have "0 < millis (posOr (seconds (aj_JobTTLSeconds ?j)) (secs (24 * 3600)))"
    unfolding dur [OF assms(3)] by (auto simp: millis_def secs_def)
  moreover have "0 < millis (wrap_int64 (posOr (seconds (aj_RunTimeoutSeconds ?j)) (secs 120) + secs 30))"
    unfolding dur [OF assms(4)] using assms(4) by (auto simp: millis_def secs_def wrap_int64_def)
  ultimately show ?thesis
    using v by (simp add: jobCfgOk_def NewService_def jobConfigOf_def Let_def claimTTL_def) (simp add: posOr_def)
qed

text \<open>Everything the check of the settings is there for, section by section.\<close>

definition settingsOk :: "AppSettings \<Rightarrow> bool" where
  "settingsOk c \<longleftrightarrow> ap_Name (cg_App c) \<noteq> [] \<and> ht_Host (cg_HTTP c) \<noteq> [] \<and> 0 < ht_Port (cg_HTTP c) \<and> lg_Level (cg_Log c) \<noteq> [] \<and>
     lm_Provider (cg_LLM c) \<noteq> [] \<and> lm_BaseURL (cg_LLM c) \<noteq> [] \<and> lm_APIKey (cg_LLM c) \<noteq> [] \<and> lm_Model (cg_LLM c) \<noteq> [] \<and>
     0 < as_MaxSteps (cg_Agent c) \<and> 0 < as_ToolCallTimeoutSeconds (cg_Agent c) \<and>
     (aj_Enabled (cg_AgentJob c) \<longrightarrow> rc_Enabled (cg_Redis c) \<and> 0 < aj_WorkerCount (cg_AgentJob c) \<and> 0 \<le> aj_MaxRetries (cg_AgentJob c) \<and>
        0 < aj_MaxBatchSize (cg_AgentJob c) \<and> 0 < aj_GlobalConcurrency (cg_AgentJob c) \<and> 0 < aj_ScopeConcurrency (cg_AgentJob c)) \<and>
     0 < me_MaxSessions (cg_Memory c) \<and> 0 < me_MaxRecentSteps (cg_Memory c) \<and> 0 < me_MaxSummaryChars (cg_Memory c) \<and>
     0 < me_SessionTTLSeconds (cg_Memory c) \<and>
     0 < pb_MaxPromptTokens (cg_PromptBudget c) \<and> 0 < pb_MaxRecentSteps (cg_PromptBudget c) \<and> 0 < pb_MaxSummaryChars (cg_PromptBudget c) \<and>
     (rc_Enabled (cg_Redis c) \<longrightarrow> rc_Addr (cg_Redis c) \<noteq> []) \<and>
     (rl_Enabled (re_LLMRateLimit (cg_Resilience c)) \<longrightarrow>
        \<not> floatLe0 (rl_RatePerSecond (re_LLMRateLimit (cg_Resilience c))) \<and> 0 < rl_Burst (re_LLMRateLimit (cg_Resilience c))) \<and>
     (dl_Enabled (re_DecisionLock (cg_Resilience c)) \<longrightarrow> rc_Enabled (cg_Redis c)) \<and>
     se_BaseURL (cg_ReviewService c) \<noteq> [] \<and> 0 < se_TimeoutSeconds (cg_ReviewService c) \<and>
     se_BaseURL (cg_ReviewJob c) \<noteq> [] \<and> 0 < se_TimeoutSeconds (cg_ReviewJob c)"

lemma valid_settings: "Validate c = None \<Longrightarrow> settingsOk c"
  unfolding Validate_def if_Some_None settingsOk_def by (intro conjI impI) (simp_all add: not_le not_less)

lemma floatReal_pos: "floatReal f = Some x \<Longrightarrow> \<not> floatLe0 f \<Longrightarrow> 0 < x"
  by (auto simp: floatReal_def floatLe0_def split: gofloat.splits option.splits)

lemma posOr_pos: "0 < d \<Longrightarrow> 0 < posOr v d"
  by (simp add: posOr_def)

text \<open>The guard of the model: the limiter as it is configured, a breaker with positive numbers.\<close>

lemma guard_ok:
  assumes "settingsOk cfg" "floatReal (rl_RatePerSecond (re_LLMRateLimit (cg_Resilience cfg))) = Some rate"
  defines "g \<equiv> guardDefaults (guardConfigOf rate cfg)"
  shows "(lg_DisableRateLimiter g \<longleftrightarrow> \<not> rl_Enabled (re_LLMRateLimit (cg_Resilience cfg))) \<and>
    (rl_Enabled (re_LLMRateLimit (cg_Resilience cfg)) \<longrightarrow>
       lg_RatePerSecond g = rate \<and> 0 < rate \<and> lg_Burst g = rl_Burst (re_LLMRateLimit (cg_Resilience cfg)) \<and> 0 < lg_Burst g) \<and>
    (lg_DisableCircuitBreak g \<longleftrightarrow> \<not> cb_Enabled (re_LLMCircuitBreaker (cg_Resilience cfg))) \<and>
    0 < lg_CircuitMaxRequests g \<and> 0 < lg_CircuitInterval g \<and> 0 < lg_CircuitTimeout g \<and> 0 < lg_FailureThreshold g"
  using assms(1) floatReal_pos [OF assms(2)]
  by (auto simp: g_def settingsOk_def guardDefaults_def guardConfigOf_def Let_def posOr_pos secs_def) (simp_all add: posOr_def)

text \<open>The agent as its loop sees it.\<close>

definition runConfigOf :: "App \<Rightarrow> AgentConfig" where
  "runConfigOf app = \<lparr>ac_budget = pa_budget (app_agent app), ac_maxSteps = pa_maxSteps (app_agent app), ac_hasFinalizer = True\<rparr>"

lemma default_with_key:
  assumes "\<forall>v. v \<noteq> ''SECKILL_AGENT_LLM_API_KEY'' \<longrightarrow> env v = []" "TrimSpace (env ''SECKILL_AGENT_LLM_API_KEY'') \<noteq> []"
  shows "overrideFromEnv env defaultConfig =
    defaultConfig \<lparr> cg_LLM := (cg_LLM defaultConfig) \<lparr> lm_APIKey := env ''SECKILL_AGENT_LLM_API_KEY'' \<rparr> \<rparr>"
  using assms(2) by (simp add: overrideFromEnv_def override_defs assms(1) setString_def)

lemma two_positive: "\<not> floatLe0 (FDec 2 0)"
  by code_simp

section \<open>Properties\<close>

text \<open>With no file and nothing but an API key in the environment the program does not start: the default of the
  decision lock needs a Redis that is off by default.\<close>

theorem defaults_need_redis:
  assumes "\<forall>v. v \<noteq> ''SECKILL_AGENT_LLM_API_KEY'' \<longrightarrow> env v = []" "TrimSpace (env ''SECKILL_AGENT_LLM_API_KEY'') \<noteq> []"
  shows "NewApp (\<lambda>_. NotExist) env ping now disk = Inl ''redis.enabled must be true when decision_lock.enabled=true''"
proof -
  have "env ''SECKILL_AGENT_LLM_API_KEY'' \<noteq> []" using assms(2) by auto
  then have "Validate (overrideFromEnv env defaultConfig) = Some ''redis.enabled must be true when decision_lock.enabled=true''"
    unfolding default_with_key [OF assms] by (simp add: Validate_def default_fields two_positive)
  then show ?thesis by (simp add: NewApp_def LoadConfig_def loadFromFile_def Let_def)
qed

text \<open>C40: a program that starts runs on settings its components accept, whatever else the file and the environment
  say. Every section of the settings passes its check (\<open>settingsOk\<close>: names and addresses present, numbers
  positive, Redis switched on where the jobs or the lock need it). And the components get them: the session
  store has the configured limits and its invariant; the agent has the configured rounds, prompt budget and
  tool timeout; the guard has the configured rate and burst, which are positive, and a breaker with positive
  numbers (a rate that is infinite or no number aside); Redis has an address; the clients of the review services have an
  address and a positive timeout; the finalizer stores decisions, locks exactly when the lock is configured, and grants
  exactly when the campaign tool is registered; the job service, if any, has the configured workers,
  concurrency, retries and batch size and leases that last. Assumed of the settings: the four durations in
  seconds named in the hypothesis are below 9000000000 (285 years), where their product with a second
  does not overflow, and so is the timeout of a tool call.\<close>

theorem app_settings_accepted:
  assumes "NewApp files env ping now disk = Inr app" "cfg = app_cfg app"
    and "\<forall>n \<in> {aj_JobTTLSeconds (cg_AgentJob cfg), aj_RunTimeoutSeconds (cg_AgentJob cfg), se_TimeoutSeconds (cg_ReviewService cfg),
      se_TimeoutSeconds (cg_ReviewJob cfg), as_ToolCallTimeoutSeconds (cg_Agent cfg)}. \<bar>n\<bar> \<le> 9000000000"
  shows "settingsOk cfg \<and>
    (case app_store app of InProcess s \<Rightarrow> memInv s \<and> im_cfg s = memoryConfigOf cfg | OverRedis c pre \<Rightarrow> c = memoryConfigOf cfg \<and> pre \<noteq> []) \<and>
    ac_maxSteps (runConfigOf app) = as_MaxSteps (cg_Agent cfg) \<and> ac_budget (runConfigOf app) = budgetOf cfg \<and>
    0 < pa_llmTimeout (app_agent app) \<and> pa_toolTimeout (app_agent app) = secs (as_ToolCallTimeoutSeconds (cg_Agent cfg)) \<and>
    (case app_guard app of
       None \<Rightarrow> floatReal (rl_RatePerSecond (re_LLMRateLimit (cg_Resilience cfg))) = None
     | Some g \<Rightarrow> (lg_DisableRateLimiter g \<longleftrightarrow> \<not> rl_Enabled (re_LLMRateLimit (cg_Resilience cfg))) \<and>
         (rl_Enabled (re_LLMRateLimit (cg_Resilience cfg)) \<longrightarrow>
            floatReal (rl_RatePerSecond (re_LLMRateLimit (cg_Resilience cfg))) = Some (lg_RatePerSecond g) \<and> 0 < lg_RatePerSecond g \<and>
            lg_Burst g = rl_Burst (re_LLMRateLimit (cg_Resilience cfg)) \<and> 0 < lg_Burst g) \<and>
         (lg_DisableCircuitBreak g \<longleftrightarrow> \<not> cb_Enabled (re_LLMCircuitBreaker (cg_Resilience cfg))) \<and>
         0 < lg_CircuitMaxRequests g \<and> 0 < lg_CircuitInterval g \<and> 0 < lg_CircuitTimeout g \<and> 0 < lg_FailureThreshold g) \<and>
    (case app_redis app of None \<Rightarrow> \<not> rc_Enabled (cg_Redis cfg) | Some (addr, password, db) \<Rightarrow> addr = rc_Addr (cg_Redis cfg) \<and> addr \<noteq> []) \<and>
    app_reviewService app = (se_BaseURL (cg_ReviewService cfg), secs (se_TimeoutSeconds (cg_ReviewService cfg))) \<and>
    app_reviewJob app = (se_BaseURL (cg_ReviewJob cfg), secs (se_TimeoutSeconds (cg_ReviewJob cfg))) \<and>
    fz_hasStore (app_finalizer app) \<and> (fz_hasLock (app_finalizer app) \<longleftrightarrow> dl_Enabled (re_DecisionLock (cg_Resilience cfg))) \<and>
    (''get_campaign_context'' \<in> set (app_tools app) \<longleftrightarrow> fz_hasGrant (app_finalizer app)) \<and>
    (case app_jobs app of
       None \<Rightarrow> \<not> aj_Enabled (cg_AgentJob cfg)
     | Some jc \<Rightarrow> jobCfgOk jc \<and> jc_WorkerCount jc = aj_WorkerCount (cg_AgentJob cfg) \<and> jc_GlobalConcurrency jc = aj_GlobalConcurrency (cg_AgentJob cfg) \<and>
         jc_ScopeConcurrency jc = aj_ScopeConcurrency (cg_AgentJob cfg) \<and> jc_MaxRetries jc = aj_MaxRetries (cg_AgentJob cfg) \<and>
         jc_MaxBatchSize jc = aj_MaxBatchSize (cg_AgentJob cfg))"
proof -
  obtain logger where app: "LoadConfig files env = Inr cfg" "app = buildApp now disk cfg logger"
    using NewApp_Inr [OF assms(1)] assms(2) buildApp_fields(1) by metis
  have v: "Validate cfg = None" by (rule LoadConfig_valid [OF app(1)])
  have ok: "settingsOk cfg" by (rule valid_settings [OF v])
  have dep: "aj_Enabled (cg_AgentJob cfg) \<Longrightarrow> rc_Enabled (cg_Redis cfg)" "dl_Enabled (re_DecisionLock (cg_Resilience cfg)) \<Longrightarrow> rc_Enabled (cg_Redis cfg)"
    and addr: "rc_Enabled (cg_Redis cfg) \<Longrightarrow> rc_Addr (cg_Redis cfg) \<noteq> []" and pos: "0 < se_TimeoutSeconds (cg_ReviewService cfg)"
      "0 < se_TimeoutSeconds (cg_ReviewJob cfg)" "0 < as_ToolCallTimeoutSeconds (cg_Agent cfg)"
    using ok by (simp_all add: settingsOk_def)
  note mem = valid_memory [OF v] and small = seconds_small [OF less_imp_le]
  have le: "se_TimeoutSeconds (cg_ReviewService cfg) \<le> 9000000000" "se_TimeoutSeconds (cg_ReviewJob cfg) \<le> 9000000000"
    "as_ToolCallTimeoutSeconds (cg_Agent cfg) \<le> 9000000000" using assms(3) by auto
  show ?thesis
  proof (intro conjI)
    show "case app_store app of InProcess s \<Rightarrow> memInv s \<and> im_cfg s = memoryConfigOf cfg | OverRedis c pre \<Rightarrow> c = memoryConfigOf cfg \<and> pre \<noteq> []"
      using mem New_inv [of "memoryConfigOf cfg"] by (simp add: app(2) NewRedisStore_cfg) (simp add: NewInMemoryStore_def NewRedisStore_def)
    show "ac_maxSteps (runConfigOf app) = as_MaxSteps (cg_Agent cfg)" "ac_budget (runConfigOf app) = budgetOf cfg"
      using valid_agent [OF v] by (simp_all add: runConfigOf_def app(2))
    show "0 < pa_llmTimeout (app_agent app)" using timeouts_positive by (simp add: app(2))
    show "pa_toolTimeout (app_agent app) = secs (as_ToolCallTimeoutSeconds (cg_Agent cfg))"
      using pos(3) small [OF pos(3) le(3)] by (simp add: app(2) agentOf_def withTimeouts_def Let_def secs_def)
    show "case app_guard app of
       None \<Rightarrow> floatReal (rl_RatePerSecond (re_LLMRateLimit (cg_Resilience cfg))) = None
     | Some g \<Rightarrow> (lg_DisableRateLimiter g \<longleftrightarrow> \<not> rl_Enabled (re_LLMRateLimit (cg_Resilience cfg))) \<and>
         (rl_Enabled (re_LLMRateLimit (cg_Resilience cfg)) \<longrightarrow>
            floatReal (rl_RatePerSecond (re_LLMRateLimit (cg_Resilience cfg))) = Some (lg_RatePerSecond g) \<and> 0 < lg_RatePerSecond g \<and>
            lg_Burst g = rl_Burst (re_LLMRateLimit (cg_Resilience cfg)) \<and> 0 < lg_Burst g) \<and>
         (lg_DisableCircuitBreak g \<longleftrightarrow> \<not> cb_Enabled (re_LLMCircuitBreaker (cg_Resilience cfg))) \<and>
         0 < lg_CircuitMaxRequests g \<and> 0 < lg_CircuitInterval g \<and> 0 < lg_CircuitTimeout g \<and> 0 < lg_FailureThreshold g"
      unfolding app(2) buildApp_guard using guard_ok [OF ok]
      by (cases "floatReal (rl_RatePerSecond (re_LLMRateLimit (cg_Resilience cfg)))") auto
    show "case app_redis app of None \<Rightarrow> \<not> rc_Enabled (cg_Redis cfg) | Some (addr, password, db) \<Rightarrow> addr = rc_Addr (cg_Redis cfg) \<and> addr \<noteq> []"
      using addr by (simp add: app(2) buildApp_clients)
    show "app_reviewService app = (se_BaseURL (cg_ReviewService cfg), secs (se_TimeoutSeconds (cg_ReviewService cfg)))"
      "app_reviewJob app = (se_BaseURL (cg_ReviewJob cfg), secs (se_TimeoutSeconds (cg_ReviewJob cfg)))"
      using small [OF pos(1) le(1)] small [OF pos(2) le(2)] by (simp_all add: app(2) buildApp_clients)
    show "fz_hasStore (app_finalizer app)" "fz_hasLock (app_finalizer app) \<longleftrightarrow> dl_Enabled (re_DecisionLock (cg_Resilience cfg))"
      using dep(2) by (auto simp: app(2) wired_finalizer)
    show "''get_campaign_context'' \<in> set (app_tools app) \<longleftrightarrow> fz_hasGrant (app_finalizer app)"
      unfolding app(2) wired_finalizer by (simp add: registeredTools_def)
    show "case app_jobs app of
       None \<Rightarrow> \<not> aj_Enabled (cg_AgentJob cfg)
     | Some jc \<Rightarrow> jobCfgOk jc \<and> jc_WorkerCount jc = aj_WorkerCount (cg_AgentJob cfg) \<and> jc_GlobalConcurrency jc = aj_GlobalConcurrency (cg_AgentJob cfg) \<and>
         jc_ScopeConcurrency jc = aj_ScopeConcurrency (cg_AgentJob cfg) \<and> jc_MaxRetries jc = aj_MaxRetries (cg_AgentJob cfg) \<and>
         jc_MaxBatchSize jc = aj_MaxBatchSize (cg_AgentJob cfg)"
      using dep(1) jobs_ok [OF v] assms(3) by (simp add: app(2))
  qed (rule ok)
qed

section \<open>Witnesses\<close>

lemma defaults_need_redis_witness:
  "NewApp (\<lambda>_. NotExist) (\<lambda>v. if v = ''SECKILL_AGENT_LLM_API_KEY'' then ''key'' else []) None 0 (\<lparr>dk_Stat = \<lambda>_. Inl ''no file'', dk_ReadFile = \<lambda>_. Inl ''no file''\<rparr>)
   = Inl ''redis.enabled must be true when decision_lock.enabled=true''"
  by (rule defaults_need_redis) (simp, code_simp)

text \<open>A start over the defaults with Redis switched on in the environment and the job queue as well.\<close>

definition demoEnv :: "gostring \<Rightarrow> gostring" where
  "demoEnv v = (if v = ''SECKILL_AGENT_LLM_API_KEY'' then ''key'' else if v = ''SECKILL_AGENT_REDIS_ENABLED'' then ''true''
     else if v = ''SECKILL_AGENT_JOB_ENABLED'' then ''1'' else if v = ''SECKILL_AGENT_AGENT_MAX_STEPS'' then ''7'' else [])"

definition demoDisk :: Disk where
  "demoDisk = \<lparr>dk_Stat = \<lambda>_. Inl ''no file'', dk_ReadFile = \<lambda>_. Inl ''no file''\<rparr>"

lemma demo_blank: "TrimSpace ''key'' \<noteq> []" "setBool a ''true''" "setBool a ''1''" "setInt n ''7'' = 7"
  by code_simp+

lemma demo_overridden: "overrideFromEnv demoEnv defaultConfig = defaultConfig
   \<lparr> cg_LLM := (cg_LLM defaultConfig) \<lparr> lm_APIKey := ''key'' \<rparr>, cg_Agent := (cg_Agent defaultConfig) \<lparr> as_MaxSteps := 7 \<rparr>,
     cg_AgentJob := (cg_AgentJob defaultConfig) \<lparr> aj_Enabled := True \<rparr>, cg_Redis := (cg_Redis defaultConfig) \<lparr> rc_Enabled := True \<rparr> \<rparr>"
  by (simp add: overrideFromEnv_def override_defs demoEnv_def setString_def demo_blank)

lemma demo_levels: "parseLevel ''info'' = Inr LevelInfo" "ToLower ''text'' = ''text''"
  by code_simp+

lemma demo_app: "\<exists>app. NewApp (\<lambda>_. NotExist) demoEnv None 0 demoDisk = Inr app \<and> as_MaxSteps (cg_Agent (app_cfg app)) = 7 \<and>
    aj_JobTTLSeconds (cg_AgentJob (app_cfg app)) = 86400 \<and> aj_RunTimeoutSeconds (cg_AgentJob (app_cfg app)) = 180 \<and>
    se_TimeoutSeconds (cg_ReviewService (app_cfg app)) = 5 \<and> se_TimeoutSeconds (cg_ReviewJob (app_cfg app)) = 5 \<and>
    as_ToolCallTimeoutSeconds (cg_Agent (app_cfg app)) = 10"
proof -
  have "Validate (overrideFromEnv demoEnv defaultConfig) = None"
    unfolding demo_overridden by (simp add: Validate_def default_fields two_positive)
  moreover have "NewLogger (cg_Log defaultConfig) = Inr (LevelInfo, TextHandler, True)"
    by (simp add: NewLogger_def default_fields demo_levels)
  moreover have "demoEnv ''SECKILL_AGENT_CONFIG'' = []" by (simp add: demoEnv_def)
  ultimately show ?thesis
    by (simp add: NewApp_def LoadConfig_def loadFromFile_def Let_def demo_overridden default_fields)
qed

lemma app_settings_accepted_witness:
  "\<exists>app. NewApp (\<lambda>_. NotExist) demoEnv None 0 demoDisk = Inr app \<and> ac_maxSteps (runConfigOf app) = 7"
  using demo_app app_settings_accepted [OF _ refl, of "\<lambda>_. NotExist" demoEnv None 0 demoDisk] by fastforce

end
