(* ===== verification/Service_Clients.thy ===== *)
theory Service_Clients
  imports Finalizer
begin

text \<open>
  The clients of the three services: \<open>internal/client/reviewservice\<close> (the evidence of a review),
  \<open>internal/client/reviewjob\<close> (statistics, RAG history, stored decisions) and \<open>internal/client/seckill\<close>
  (campaigns and coupon grants). An HTTP exchange is the parameter \<open>http\<close>: method, address and body to what came of
  it, over a world \<open>'w\<close>; the deadline of the context and the timeout of the client show as its errors. What the
  clients send and how they read an answer is modelled on the text of the bodies. The text of an error of
  \<open>encoding/json\<close> is always \<open>jsonError\<close>; the sign of a zero and the time stamp of a chunk, which nothing reads,
  are not kept.
\<close>

section \<open>HTTP\<close>

datatype HttpReply =
    NoRequest gerror
  | NoResponse gerror
  | NoBody gerror
  | Response int gostring

type_synonym 'w http = "gostring \<Rightarrow> gostring \<Rightarrow> gostring \<Rightarrow> 'w \<Rightarrow> HttpReply \<times> 'w"

definition jsonError :: gerror where
  "jsonError = ''invalid json''"

section \<open>Fields\<close>

text \<open>A slice of strings that may be nil.\<close>

definition nil_strs_f :: "((gostring list option \<Rightarrow> gostring list option) \<Rightarrow> 'a \<Rightarrow> 'a) \<Rightarrow> 'a fdec" where
  "nil_strs_f upd v a = (case v of
     JArr vs \<Rightarrow> (let ws = map (\<lambda>w. str_f id w []) vs in (upd (\<lambda>_. Some (map fst ws)) a, list_all snd ws))
   | JNull \<Rightarrow> (upd (\<lambda>_. None) a, True)
   | _ \<Rightarrow> (a, False))"

definition nilStrsJson :: "gostring list option \<Rightarrow> json" where
  "nilStrsJson xs = (case xs of None \<Rightarrow> JNull | Some ys \<Rightarrow> JArr (map JStr ys))"

definition omitEmpty :: "gostring \<Rightarrow> gostring \<Rightarrow> jobject" where
  "omitEmpty name s = (if s = [] then [] else [(name, JStr s)])"

text \<open>A pointer: null makes it nil, anything else is decoded into what it points to.\<close>

definition ptr_f :: "'b fdec \<Rightarrow> 'b \<Rightarrow> ('a \<Rightarrow> 'b option) \<Rightarrow> (('b option \<Rightarrow> 'b option) \<Rightarrow> 'a \<Rightarrow> 'a) \<Rightarrow> 'a fdec" where
  "ptr_f dec zero get upd v a = (case v of
     JNull \<Rightarrow> (upd (\<lambda>_. None) a, True)
   | _ \<Rightarrow> (let (b, ok) = dec v (case get a of Some b \<Rightarrow> b | None \<Rightarrow> zero) in (upd (\<lambda>_. Some b) a, ok)))"

text \<open>\<open>jsonInt64.UnmarshalJSON\<close>: a number or a text of one.\<close>

definition jsonInt64_f :: "((int \<Rightarrow> int) \<Rightarrow> 'a \<Rightarrow> 'a) \<Rightarrow> 'a fdec" where
  "jsonInt64_f upd v a = (case v of
     JNull \<Rightarrow> (upd (\<lambda>_. 0) a, True)
   | JStr s \<Rightarrow> if TrimSpace s = [] then (upd (\<lambda>_. 0) a, True)
       else (let (i, ok) = ParseInt64 s in if ok then (upd (\<lambda>_. i) a, True) else (a, False))
   | JNum m e \<Rightarrow> if e = 0 \<and> min_int64 \<le> m \<and> m \<le> max_int64 then (upd (\<lambda>_. m) a, True) else (a, False)
   | _ \<Rightarrow> (a, False))"

text \<open>The strict RFC 3339 of \<open>time.Time\<close>.\<close>

definition numIn :: "nat \<Rightarrow> nat \<Rightarrow> gostring \<Rightarrow> bool" where
  "numIn lo hi s \<longleftrightarrow> s \<noteq> [] \<and> list_all is_digit s \<and> lo \<le> read_nat s \<and> read_nat s \<le> hi"

definition daysIn :: "nat \<Rightarrow> nat \<Rightarrow> nat" where
  "daysIn year month = (if month = 2 then (if year mod 4 = 0 \<and> (year mod 100 \<noteq> 0 \<or> year mod 400 = 0) then 29 else 28)
     else if month \<in> {4, 6, 9, 11} then 30 else 31)"

definition zoneOk :: "gostring \<Rightarrow> bool" where
  "zoneOk s \<longleftrightarrow> s = ''Z'' \<or> (length s = 6 \<and> (s ! 0 = CHR ''+'' \<or> s ! 0 = CHR ''-'') \<and> s ! 3 = CHR '':'' \<and>
     numIn 0 23 (take 2 (drop 1 s)) \<and> numIn 0 59 (drop 4 s))"

definition rfc3339 :: "gostring \<Rightarrow> bool" where
  "rfc3339 s \<longleftrightarrow> 20 \<le> length s \<and> s ! 4 = CHR ''-'' \<and> s ! 7 = CHR ''-'' \<and> s ! 10 = CHR ''T'' \<and> s ! 13 = CHR '':'' \<and>
     s ! 16 = CHR '':'' \<and> numIn 0 9999 (take 4 s) \<and> numIn 1 12 (take 2 (drop 5 s)) \<and>
     numIn 1 (daysIn (read_nat (take 4 s)) (read_nat (take 2 (drop 5 s)))) (take 2 (drop 8 s)) \<and>
     numIn 0 23 (take 2 (drop 11 s)) \<and> numIn 0 59 (take 2 (drop 14 s)) \<and> numIn 0 59 (take 2 (drop 17 s)) \<and>
     (case drop 19 s of
        c # cs \<Rightarrow> if c = CHR ''.'' then takeWhile is_digit cs \<noteq> [] \<and> zoneOk (dropWhile is_digit cs) else zoneOk (c # cs)
      | [] \<Rightarrow> False)"

definition time_f :: "'a fdec" where
  "time_f v a = (case v of JNull \<Rightarrow> (a, True) | JStr s \<Rightarrow> (a, rfc3339 s) | _ \<Rightarrow> (a, False))"

text \<open>The envelope of the answers.\<close>

record 'a envelope =
  en_Code :: int
  en_Message :: gostring
  en_Data :: 'a

definition envelopeFields :: "'a fdec \<Rightarrow> 'a envelope fields" where
  "envelopeFields dec = [(''code'', int64_f en_Code_update), (''message'', str_f en_Message_update),
     (''data'', \<lambda>v e. let (d, ok) = dec v (en_Data e) in (e \<lparr> en_Data := d \<rparr>, ok))]"

definition zeroEnvelope :: "'a \<Rightarrow> 'a envelope" where
  "zeroEnvelope d = \<lparr>en_Code = 0, en_Message = [], en_Data = d\<rparr>"

section \<open>reviewjob\<close>

record ReviewJobClient =
  rj_baseURL :: gostring
  rj_timeout :: int

definition NewReviewJobClient :: "gostring \<Rightarrow> int \<Rightarrow> ReviewJobClient" where
  "NewReviewJobClient baseURL timeout = \<lparr>rj_baseURL = trimRightChar (CHR ''/'') baseURL,
     rj_timeout = (if timeout \<le> 0 then seconds 5 else timeout)\<rparr>"

record ReviewStatsRequest =
  sq_ReviewID :: int
  sq_StoreID :: int
  sq_UserID :: int
  sq_SkuID :: int
  sq_SpuID :: int
  sq_WindowDays :: int

definition statsRequestJson :: "ReviewStatsRequest \<Rightarrow> json" where
  "statsRequestJson r = JObj (
     [(''review_id'', intJson (sq_ReviewID r)), (''store_id'', intJson (sq_StoreID r)),
      (''user_id'', intJson (sq_UserID r)), (''sku_id'', intJson (sq_SkuID r)), (''spu_id'', intJson (sq_SpuID r)),
      (''window_days'', intJson (sq_WindowDays r))])"

record ReviewStatsResponse =
  vs_ReviewID :: int
  vs_StoreNegativeCount :: int
  vs_StoreNegativeCountWindow :: int
  vs_SkuNegativeCountWindow :: int
  vs_UserLowScoreCount30d :: int
  vs_UnrepliedNegativeCount :: int
  vs_LogisticsIssueCount :: int
  vs_ServiceIssueCount :: int
  vs_LogisticsIssueRatio :: decimal
  vs_ServiceIssueRatio :: decimal
  vs_RiskLevel :: gostring
  vs_SignalTags :: "gostring list option"

definition zeroStats :: ReviewStatsResponse where
  "zeroStats = \<lparr>
   vs_ReviewID = 0, vs_StoreNegativeCount = 0, vs_StoreNegativeCountWindow = 0, vs_SkuNegativeCountWindow = 0,
   vs_UserLowScoreCount30d = 0, vs_UnrepliedNegativeCount = 0, vs_LogisticsIssueCount = 0, vs_ServiceIssueCount = 0,
   vs_LogisticsIssueRatio = (0, 0), vs_ServiceIssueRatio = (0, 0), vs_RiskLevel = [], vs_SignalTags = None\<rparr>"

definition statsFields :: "ReviewStatsResponse fields" where
  "statsFields = [
   (''review_id'', int64_f vs_ReviewID_update), (''store_negative_count'', int64_f vs_StoreNegativeCount_update),
   (''store_negative_count_window'', int64_f vs_StoreNegativeCountWindow_update),
   (''sku_negative_count_window'', int64_f vs_SkuNegativeCountWindow_update),
   (''user_low_score_count_30d'', int64_f vs_UserLowScoreCount30d_update),
   (''unreplied_negative_count'', int64_f vs_UnrepliedNegativeCount_update),
   (''logistics_issue_count'', int64_f vs_LogisticsIssueCount_update),
   (''service_issue_count'', int64_f vs_ServiceIssueCount_update),
   (''logistics_issue_ratio'', float_f vs_LogisticsIssueRatio_update),
   (''service_issue_ratio'', float_f vs_ServiceIssueRatio_update), (''risk_level'', str_f vs_RiskLevel_update),
   (''signal_tags'', nil_strs_f vs_SignalTags_update)]"

definition statsJson :: "ReviewStatsResponse \<Rightarrow> json" where
  "statsJson r = JObj (
     [(''review_id'', intJson (vs_ReviewID r)), (''store_negative_count'', intJson (vs_StoreNegativeCount r)),
      (''store_negative_count_window'', intJson (vs_StoreNegativeCountWindow r)),
      (''sku_negative_count_window'', intJson (vs_SkuNegativeCountWindow r)),
      (''user_low_score_count_30d'', intJson (vs_UserLowScoreCount30d r)),
      (''unreplied_negative_count'', intJson (vs_UnrepliedNegativeCount r)),
      (''logistics_issue_count'', intJson (vs_LogisticsIssueCount r)),
      (''service_issue_count'', intJson (vs_ServiceIssueCount r)),
      (''logistics_issue_ratio'', float_json (fst (vs_LogisticsIssueRatio r)) (snd (vs_LogisticsIssueRatio r))),
      (''service_issue_ratio'', float_json (fst (vs_ServiceIssueRatio r)) (snd (vs_ServiceIssueRatio r))),
      (''risk_level'', JStr (vs_RiskLevel r)), (''signal_tags'', nilStrsJson (vs_SignalTags r))])"

record RAGRetrieveRequest =
  gq_QueryText :: gostring
  gq_RetrievalMode :: gostring
  gq_RetrievalScope :: gostring
  gq_ReviewID :: int
  gq_StoreID :: int
  gq_UserID :: int
  gq_SkuID :: int
  gq_SpuID :: int
  gq_ActivityID :: gostring
  gq_PolicyVersion :: gostring
  gq_TopK :: int
  gq_ChunkTypes :: "gostring list"
  gq_Aspects :: "gostring list"

text \<open>The tool never leaves the two slices nil.\<close>

definition ragRequestJson :: "RAGRetrieveRequest \<Rightarrow> json" where
  "ragRequestJson r = JObj (
     [(''query_text'', JStr (gq_QueryText r)), (''retrieval_mode'', JStr (gq_RetrievalMode r)),
      (''retrieval_scope'', JStr (gq_RetrievalScope r)), (''review_id'', intJson (gq_ReviewID r)),
      (''store_id'', intJson (gq_StoreID r)), (''user_id'', intJson (gq_UserID r)),
      (''sku_id'', intJson (gq_SkuID r)), (''spu_id'', intJson (gq_SpuID r)),
      (''activity_id'', JStr (gq_ActivityID r)), (''policy_version'', JStr (gq_PolicyVersion r)),
      (''top_k'', intJson (gq_TopK r)), (''chunk_types'', JArr (map JStr (gq_ChunkTypes r))),
      (''aspects'', JArr (map JStr (gq_Aspects r)))])"

record RAGChunkDTO =
  ck_ChunkID :: gostring
  ck_ReviewID :: int
  ck_StoreID :: int
  ck_UserID :: int
  ck_SkuID :: int
  ck_SpuID :: int
  ck_ChunkType :: gostring
  ck_Aspect :: gostring
  ck_Text :: gostring
  ck_Metadata :: "jobject option"
  ck_EvidenceVersion :: int

definition zeroChunk :: RAGChunkDTO where
  "zeroChunk = \<lparr>
   ck_ChunkID = [], ck_ReviewID = 0, ck_StoreID = 0, ck_UserID = 0, ck_SkuID = 0, ck_SpuID = 0, ck_ChunkType = [],
   ck_Aspect = [], ck_Text = [], ck_Metadata = None, ck_EvidenceVersion = 0\<rparr>"

definition chunkFields :: "RAGChunkDTO fields" where
  "chunkFields = [
   (''chunk_id'', str_f ck_ChunkID_update), (''review_id'', int64_f ck_ReviewID_update),
   (''store_id'', int64_f ck_StoreID_update), (''user_id'', int64_f ck_UserID_update),
   (''sku_id'', int64_f ck_SkuID_update), (''spu_id'', int64_f ck_SpuID_update),
   (''chunk_type'', str_f ck_ChunkType_update), (''aspect'', str_f ck_Aspect_update), (''text'', str_f ck_Text_update),
   (''metadata'', map_f ck_Metadata_update), (''evidence_version'', int64_f ck_EvidenceVersion_update), (''created_at'', time_f)]"

text \<open>A \<open>RAGRetrieveResponse\<close> is its list of chunks, each a pointer that may be nil.\<close>

definition chunk_f :: "RAGChunkDTO option fdec" where
  "chunk_f = ptr_f (decode_obj chunkFields) zeroChunk id (\<lambda>f. f)"

definition ragFields :: "RAGChunkDTO option list fields" where
  "ragFields = [(''chunks'', list_f chunk_f None (\<lambda>f. f))]"

definition storeResponseFields :: "StoreDecisionResponse fields" where
  "storeResponseFields = [(''decision_id'', str_f sr_DecisionID_update), (''stored'', bool_f sr_Stored_update)]"

definition postJSON :: "'w http \<Rightarrow> ReviewJobClient \<Rightarrow> gostring \<Rightarrow> json \<Rightarrow> 'a fields \<Rightarrow> 'a \<Rightarrow> 'w \<Rightarrow> 'a result \<times> 'w" where
  "postJSON http c path reqBody fs out w = (let (reply, w1) = http ''POST'' (rj_baseURL c @ path) (json_text reqBody) w in
     (case reply of
        NoRequest err \<Rightarrow> Inl (''create request: '' @ err)
      | NoResponse err \<Rightarrow> Inl (''call review-job: '' @ err)
      | NoBody err \<Rightarrow> Inl (''read review-job response: '' @ err)
      | Response status body \<Rightarrow>
          if status \<ge> 400 then Inl (''review-job returned status '' @ show_int status @ '': '' @ body)
          else (let (a, ok) = unmarshal fs body out in if ok then Inr a else Inl (''unmarshal review-job response: '' @ jsonError)), w1))"

text \<open>The end of the three calls: the code of the envelope decides; \<open>what\<close> names the call.\<close>

definition unwrap :: "gostring \<Rightarrow> 'a envelope result \<Rightarrow> 'a result" where
  "unwrap what r = (case r of
       Inl err \<Rightarrow> Inl err
     | Inr out \<Rightarrow> if en_Code out \<noteq> 0
         then Inl (''review-job '' @ what @ '' api error: code='' @ show_int (en_Code out) @ '' message='' @ en_Message out)
         else Inr (en_Data out))"

definition GetReviewStats :: "'w http \<Rightarrow> ReviewJobClient \<Rightarrow> ReviewStatsRequest \<Rightarrow> 'w \<Rightarrow> ReviewStatsResponse result \<times> 'w" where
  "GetReviewStats http c req0 w =
     (let req = (if sq_WindowDays req0 \<le> 0 then req0 \<lparr> sq_WindowDays := 7 \<rparr> else req0);
          (r, w1) = postJSON http c ''/v1/agent/review/search/stats'' (statsRequestJson req)
            (envelopeFields (decode_obj statsFields)) (zeroEnvelope zeroStats) w
      in (unwrap ''stats'' r, w1))"

definition RetrieveRAG :: "'w http \<Rightarrow> ReviewJobClient \<Rightarrow> RAGRetrieveRequest \<Rightarrow> 'w \<Rightarrow> RAGChunkDTO option list result \<times> 'w" where
  "RetrieveRAG http c req0 w =
     (let req = (if gq_TopK req0 \<le> 0 then req0 \<lparr> gq_TopK := 5 \<rparr> else req0);
          (r, w1) = postJSON http c ''/v1/agent/rag/retrieve'' (ragRequestJson req)
            (envelopeFields (decode_obj ragFields)) (zeroEnvelope []) w
      in (unwrap ''rag'' r, w1))"

definition StoreDecision :: "'w http \<Rightarrow> ReviewJobClient \<Rightarrow> StoreDecisionRequest \<Rightarrow> 'w \<Rightarrow> StoreDecisionResponse result \<times> 'w" where
  "StoreDecision http c req w =
     (let (r, w1) = postJSON http c ''/v1/agent/review/decision/store'' (storeRequestJson req)
            (envelopeFields (decode_obj storeResponseFields)) (zeroEnvelope \<lparr>sr_DecisionID = [], sr_Stored = False\<rparr>) w
      in (unwrap ''store decision'' r, w1))"

section \<open>seckill\<close>

record SeckillClient =
  kc_baseURL :: gostring
  kc_path :: gostring
  kc_timeout :: int

definition NewSeckillClient :: "gostring \<Rightarrow> gostring \<Rightarrow> int \<Rightarrow> SeckillClient" where
  "NewSeckillClient baseURL path timeout = \<lparr>kc_baseURL = trimRightChar (CHR ''/'') baseURL,
     kc_path = (if TrimSpace path = [] then ''/api/v1/seckill/coupon/review/grant'' else path),
     kc_timeout = (if timeout \<le> 0 then seconds 3 else timeout)\<rparr>"

definition grantRequestJson :: "GrantRequest \<Rightarrow> json" where
  "grantRequestJson r = JObj (
     [(''store_id'', intJson (gr_StoreID r)), (''user_id'', intJson (gr_UserID r)),
      (''review_id'', intJson (gr_ReviewID r))] @ omitEmpty ''order_no'' (gr_OrderNo r) @
      omitZero ''product_id'' (gr_ProductID r) @ [(''rating'', intJson (gr_Rating r)),
      (''has_image'', JBool (gr_HasImage r)), (''is_first_review'', JBool (gr_IsFirstReview r)),
      (''scene'', JStr (gr_Scene r)), (''activity_id'', JStr (gr_ActivityID r)),
      (''policy_version'', JStr (gr_PolicyVersion r))] @ omitZero ''evidence_version'' (gr_EvidenceVersion r) @
      [(''coupon_template_id'', JStr (gr_CouponTemplateID r)), (''idempotency_key'', JStr (gr_IdempotencyKey r))])"

text \<open>The reply with its coupon, which may be nil; the finalizer reads a nil coupon as an empty one.\<close>

record GrantCouponByReviewReply =
  gp_Success :: bool
  gp_Message :: gostring
  gp_Coupon :: "jobject option"
  gp_Duplicated :: bool

definition zeroReply :: GrantCouponByReviewReply where
  "zeroReply = \<lparr>
   gp_Success = False, gp_Message = [], gp_Coupon = None, gp_Duplicated = False\<rparr>"

definition replyFields :: "GrantCouponByReviewReply fields" where
  "replyFields = [
   (''success'', bool_f gp_Success_update), (''message'', str_f gp_Message_update),
   (''coupon'', map_f gp_Coupon_update), (''duplicated'', bool_f gp_Duplicated_update)]"

definition toGrantReply :: "GrantCouponByReviewReply \<Rightarrow> GrantReply" where
  "toGrantReply r = \<lparr>rp_Success = gp_Success r, rp_Message = gp_Message r,
     rp_Coupon = (case gp_Coupon r of Some m \<Rightarrow> m | None \<Rightarrow> []), rp_Duplicated = gp_Duplicated r\<rparr>"

text \<open>How the body of an answer is read: as the reply itself first, then as an envelope.\<close>

definition readGrantReply :: "gostring \<Rightarrow> GrantCouponByReviewReply result" where
  "readGrantReply body = (let (direct, ok) = unmarshal replyFields body zeroReply in
     if ok \<and> (gp_Success direct \<or> gp_Message direct \<noteq> [] \<or> gp_Coupon direct \<noteq> None) then Inr direct
     else (let (e, ok') = unmarshal (envelopeFields (decode_obj replyFields)) body (zeroEnvelope zeroReply) in
       if \<not> ok' then Inl (''unmarshal seckill grant coupon response: '' @ jsonError)
       else if en_Code e \<noteq> 0 then Inl (''seckill grant coupon api error: code='' @ show_int (en_Code e) @ '' message='' @ en_Message e)
       else Inr (en_Data e)))"

definition GrantCouponByReview :: "'w http \<Rightarrow> SeckillClient \<Rightarrow> GrantRequest \<Rightarrow> 'w \<Rightarrow> GrantCouponByReviewReply result \<times> 'w" where
  "GrantCouponByReview http c req w =
     (if kc_baseURL c = [] then (Inl ''seckill base_url is empty'', w)
      else let (reply, w1) = http ''POST'' (kc_baseURL c @ kc_path c) (json_text (grantRequestJson req)) w in
        (case reply of
           NoRequest err \<Rightarrow> Inl (''create grant coupon request: '' @ err)
         | NoResponse err \<Rightarrow> Inl (''call seckill grant coupon: '' @ err)
         | NoBody err \<Rightarrow> Inl (''read seckill grant coupon response: '' @ err)
         | Response status body \<Rightarrow>
             if status \<ge> 400 then Inl (''seckill grant coupon returned status '' @ show_int status @ '': '' @ body)
             else readGrantReply body, w1))"

record CampaignContextRequest =
  cq_StoreID :: int
  cq_ActivityID :: gostring
  cq_UserID :: int
  cq_SkuID :: int
  cq_SpuID :: int

definition campaignRequestJson :: "CampaignContextRequest \<Rightarrow> json" where
  "campaignRequestJson r = JObj (
     [(''store_id'', intJson (cq_StoreID r))] @ omitEmpty ''activity_id'' (cq_ActivityID r) @
      [(''user_id'', intJson (cq_UserID r))] @ omitZero ''sku_id'' (cq_SkuID r) @ omitZero ''spu_id'' (cq_SpuID r))"

record CampaignContext =
  cx_ActivityID :: gostring
  cx_StoreID :: int
  cx_Status :: gostring
  cx_PolicyVersion :: gostring
  cx_CouponTemplateID :: gostring
  cx_RemainingStock :: int
  cx_RemainingBudgetCent :: int
  cx_UserGrantLimit :: int
  cx_UserGrantedCount :: int
  cx_ProductEligible :: bool
  cx_UserEligible :: bool

definition zeroCampaign :: CampaignContext where
  "zeroCampaign = \<lparr>
   cx_ActivityID = [], cx_StoreID = 0, cx_Status = [], cx_PolicyVersion = [], cx_CouponTemplateID = [],
   cx_RemainingStock = 0, cx_RemainingBudgetCent = 0, cx_UserGrantLimit = 0, cx_UserGrantedCount = 0,
   cx_ProductEligible = False, cx_UserEligible = False\<rparr>"

definition campaignFields :: "CampaignContext fields" where
  "campaignFields = [
   (''activity_id'', str_f cx_ActivityID_update), (''store_id'', int64_f cx_StoreID_update),
   (''status'', str_f cx_Status_update), (''policy_version'', str_f cx_PolicyVersion_update),
   (''coupon_template_id'', str_f cx_CouponTemplateID_update), (''remaining_stock'', int64_f cx_RemainingStock_update),
   (''remaining_budget_cent'', int64_f cx_RemainingBudgetCent_update),
   (''user_grant_limit'', int32_f cx_UserGrantLimit_update),
   (''user_granted_count'', int32_f cx_UserGrantedCount_update),
   (''product_eligible'', bool_f cx_ProductEligible_update), (''user_eligible'', bool_f cx_UserEligible_update)]"

definition campaignJson :: "CampaignContext \<Rightarrow> json" where
  "campaignJson r = JObj (
     [(''activity_id'', JStr (cx_ActivityID r)), (''store_id'', intJson (cx_StoreID r)),
      (''status'', JStr (cx_Status r)), (''policy_version'', JStr (cx_PolicyVersion r)),
      (''coupon_template_id'', JStr (cx_CouponTemplateID r)), (''remaining_stock'', intJson (cx_RemainingStock r)),
      (''remaining_budget_cent'', intJson (cx_RemainingBudgetCent r)),
      (''user_grant_limit'', intJson (cx_UserGrantLimit r)),
      (''user_granted_count'', intJson (cx_UserGrantedCount r)), (''product_eligible'', JBool (cx_ProductEligible r)),
      (''user_eligible'', JBool (cx_UserEligible r))])"

definition readCampaignReply :: "gostring \<Rightarrow> CampaignContext result" where
  "readCampaignReply raw = (let (direct, ok) = unmarshal campaignFields raw zeroCampaign in
     if ok \<and> cx_ActivityID direct \<noteq> [] then Inr direct
     else (let (e, ok') = unmarshal (envelopeFields (decode_obj campaignFields)) raw (zeroEnvelope zeroCampaign) in
       if \<not> ok' then Inl jsonError
       else if en_Code e \<noteq> 0 then Inl (''campaign context api error: '' @ en_Message e)
       else Inr (en_Data e)))"

definition GetCampaignContext :: "'w http \<Rightarrow> SeckillClient \<Rightarrow> CampaignContextRequest \<Rightarrow> 'w \<Rightarrow> CampaignContext result \<times> 'w" where
  "GetCampaignContext http c req w =
     (if kc_baseURL c = [] then (Inl ''seckill base_url is empty'', w)
      else let (reply, w1) = http ''POST'' (kc_baseURL c @ ''/api/v1/seckill/coupon/activity/context'')
             (json_text (campaignRequestJson req)) w in
        (case reply of
           NoRequest err \<Rightarrow> Inl err
         | NoResponse err \<Rightarrow> Inl (''call campaign context: '' @ err)
         | NoBody err \<Rightarrow> Inl err
         | Response status raw \<Rightarrow>
             if status \<ge> 400 then Inl (''campaign context returned status '' @ show_int status @ '': '' @ raw)
             else readCampaignReply raw, w1))"

section \<open>reviewservice\<close>

record ReviewServiceClient =
  rv_baseURL :: gostring
  rv_timeout :: int

definition NewReviewServiceClient :: "gostring \<Rightarrow> int \<Rightarrow> ReviewServiceClient" where
  "NewReviewServiceClient baseURL timeout = \<lparr>rv_baseURL = trimRightChar (CHR ''/'') baseURL,
     rv_timeout = (if timeout \<le> 0 then seconds 5 else timeout)\<rparr>"

record ReviewEvidence =
  ev_ReviewID :: int
  ev_OrderID :: int
  ev_StoreID :: int
  ev_UserID :: int
  ev_SkuID :: int
  ev_SpuID :: int
  ev_Score :: int
  ev_ServiceScore :: int
  ev_ExpressScore :: int
  ev_Content :: gostring
  ev_PicInfo :: gostring
  ev_VideoInfo :: gostring
  ev_HasMedia :: bool
  ev_ReviewStatus :: int
  ev_AuditPassed :: bool
  ev_IsHidden :: bool
  ev_HasReply :: bool
  ev_ReplyContent :: gostring
  ev_HasAppeal :: bool
  ev_AppealReason :: gostring
  ev_AppealContent :: gostring
  ev_AppealStatus :: int
  ev_IsFirstReview :: bool
  ev_UserTotalReviews :: int
  ev_UserAvgScore :: decimal
  ev_UserLowScoreRate :: decimal
  ev_ReviewCreatedAt :: gostring
  ev_ReviewUpdatedAt :: gostring
  ev_EvidenceVersion :: int

definition evidenceJson :: "ReviewEvidence \<Rightarrow> json" where
  "evidenceJson r = JObj (
     [(''reviewId'', intJson (ev_ReviewID r)), (''orderId'', intJson (ev_OrderID r)),
      (''storeId'', intJson (ev_StoreID r)), (''userId'', intJson (ev_UserID r)), (''skuId'', intJson (ev_SkuID r)),
      (''spuId'', intJson (ev_SpuID r)), (''score'', intJson (ev_Score r)),
      (''serviceScore'', intJson (ev_ServiceScore r)), (''expressScore'', intJson (ev_ExpressScore r)),
      (''content'', JStr (ev_Content r)), (''picInfo'', JStr (ev_PicInfo r)), (''videoInfo'', JStr (ev_VideoInfo r)),
      (''hasMedia'', JBool (ev_HasMedia r)), (''reviewStatus'', intJson (ev_ReviewStatus r)),
      (''auditPassed'', JBool (ev_AuditPassed r)), (''isHidden'', JBool (ev_IsHidden r)),
      (''hasReply'', JBool (ev_HasReply r)), (''replyContent'', JStr (ev_ReplyContent r)),
      (''hasAppeal'', JBool (ev_HasAppeal r)), (''appealReason'', JStr (ev_AppealReason r)),
      (''appealContent'', JStr (ev_AppealContent r)), (''appealStatus'', intJson (ev_AppealStatus r)),
      (''isFirstReview'', JBool (ev_IsFirstReview r)), (''userTotalReviews'', intJson (ev_UserTotalReviews r)),
      (''userAvgScore'', float_json (fst (ev_UserAvgScore r)) (snd (ev_UserAvgScore r))),
      (''userLowScoreRate'', float_json (fst (ev_UserLowScoreRate r)) (snd (ev_UserLowScoreRate r))),
      (''reviewCreatedAt'', JStr (ev_ReviewCreatedAt r)), (''reviewUpdatedAt'', JStr (ev_ReviewUpdatedAt r)),
      (''evidenceVersion'', intJson (ev_EvidenceVersion r))])"

record reviewEvidenceWire =
  rw_ReviewID :: int
  rw_OrderID :: int
  rw_StoreID :: int
  rw_UserID :: int
  rw_SkuID :: int
  rw_SpuID :: int
  rw_Score :: int
  rw_ServiceScore :: int
  rw_ExpressScore :: int
  rw_Content :: gostring
  rw_PicInfo :: gostring
  rw_VideoInfo :: gostring
  rw_HasMedia :: bool
  rw_ReviewStatus :: int
  rw_AuditPassed :: bool
  rw_IsHidden :: bool
  rw_HasReply :: bool
  rw_ReplyContent :: gostring
  rw_HasAppeal :: bool
  rw_AppealReason :: gostring
  rw_AppealContent :: gostring
  rw_AppealStatus :: int
  rw_IsFirstReview :: bool
  rw_UserTotalReviews :: int
  rw_UserAvgScore :: decimal
  rw_UserLowScoreRate :: decimal
  rw_ReviewCreatedAt :: gostring
  rw_ReviewUpdatedAt :: gostring
  rw_EvidenceVersion :: int

definition zeroWire :: reviewEvidenceWire where
  "zeroWire = \<lparr>
   rw_ReviewID = 0, rw_OrderID = 0, rw_StoreID = 0, rw_UserID = 0, rw_SkuID = 0, rw_SpuID = 0, rw_Score = 0,
   rw_ServiceScore = 0, rw_ExpressScore = 0, rw_Content = [], rw_PicInfo = [], rw_VideoInfo = [], rw_HasMedia = False,
   rw_ReviewStatus = 0, rw_AuditPassed = False, rw_IsHidden = False, rw_HasReply = False, rw_ReplyContent = [],
   rw_HasAppeal = False, rw_AppealReason = [], rw_AppealContent = [], rw_AppealStatus = 0, rw_IsFirstReview = False,
   rw_UserTotalReviews = 0, rw_UserAvgScore = (0, 0), rw_UserLowScoreRate = (0, 0), rw_ReviewCreatedAt = [],
   rw_ReviewUpdatedAt = [], rw_EvidenceVersion = 0\<rparr>"

definition wireFields :: "reviewEvidenceWire fields" where
  "wireFields = [
   (''reviewId'', jsonInt64_f rw_ReviewID_update), (''orderId'', jsonInt64_f rw_OrderID_update),
   (''storeId'', jsonInt64_f rw_StoreID_update), (''userId'', jsonInt64_f rw_UserID_update),
   (''skuId'', jsonInt64_f rw_SkuID_update), (''spuId'', jsonInt64_f rw_SpuID_update),
   (''score'', int32_f rw_Score_update), (''serviceScore'', int32_f rw_ServiceScore_update),
   (''expressScore'', int32_f rw_ExpressScore_update), (''content'', str_f rw_Content_update),
   (''picInfo'', str_f rw_PicInfo_update), (''videoInfo'', str_f rw_VideoInfo_update),
   (''hasMedia'', bool_f rw_HasMedia_update), (''reviewStatus'', int32_f rw_ReviewStatus_update),
   (''auditPassed'', bool_f rw_AuditPassed_update), (''isHidden'', bool_f rw_IsHidden_update),
   (''hasReply'', bool_f rw_HasReply_update), (''replyContent'', str_f rw_ReplyContent_update),
   (''hasAppeal'', bool_f rw_HasAppeal_update), (''appealReason'', str_f rw_AppealReason_update),
   (''appealContent'', str_f rw_AppealContent_update), (''appealStatus'', int32_f rw_AppealStatus_update),
   (''isFirstReview'', bool_f rw_IsFirstReview_update), (''userTotalReviews'', jsonInt64_f rw_UserTotalReviews_update),
   (''userAvgScore'', float_f rw_UserAvgScore_update), (''userLowScoreRate'', float_f rw_UserLowScoreRate_update),
   (''reviewCreatedAt'', str_f rw_ReviewCreatedAt_update), (''reviewUpdatedAt'', str_f rw_ReviewUpdatedAt_update),
   (''evidenceVersion'', jsonInt64_f rw_EvidenceVersion_update)]"

definition toDomain :: "reviewEvidenceWire option \<Rightarrow> ReviewEvidence option" where
  "toDomain = map_option (\<lambda>w. \<lparr>
   ev_ReviewID = rw_ReviewID w, ev_OrderID = rw_OrderID w, ev_StoreID = rw_StoreID w, ev_UserID = rw_UserID w,
   ev_SkuID = rw_SkuID w, ev_SpuID = rw_SpuID w, ev_Score = rw_Score w, ev_ServiceScore = rw_ServiceScore w,
   ev_ExpressScore = rw_ExpressScore w, ev_Content = rw_Content w, ev_PicInfo = rw_PicInfo w,
   ev_VideoInfo = rw_VideoInfo w, ev_HasMedia = rw_HasMedia w, ev_ReviewStatus = rw_ReviewStatus w,
   ev_AuditPassed = rw_AuditPassed w, ev_IsHidden = rw_IsHidden w, ev_HasReply = rw_HasReply w,
   ev_ReplyContent = rw_ReplyContent w, ev_HasAppeal = rw_HasAppeal w, ev_AppealReason = rw_AppealReason w,
   ev_AppealContent = rw_AppealContent w, ev_AppealStatus = rw_AppealStatus w, ev_IsFirstReview = rw_IsFirstReview w,
   ev_UserTotalReviews = rw_UserTotalReviews w, ev_UserAvgScore = rw_UserAvgScore w,
   ev_UserLowScoreRate = rw_UserLowScoreRate w, ev_ReviewCreatedAt = rw_ReviewCreatedAt w,
   ev_ReviewUpdatedAt = rw_ReviewUpdatedAt w, ev_EvidenceVersion = rw_EvidenceVersion w\<rparr>)"

text \<open>\<open>GetReviewEvidenceResponse.UnmarshalJSON\<close>; the response is its one pointer.\<close>

definition evidenceResponse :: "gostring \<Rightarrow> ReviewEvidence option \<times> bool" where
  "evidenceResponse data = (let (w, ok) = unmarshal [(''evidence'', ptr_f (decode_obj wireFields) zeroWire id (\<lambda>f. f))] data None
     in if ok then (toDomain w, True) else (None, False))"

definition GetReviewEvidence :: "'w http \<Rightarrow> ReviewServiceClient \<Rightarrow> int \<Rightarrow> 'w \<Rightarrow> ReviewEvidence result \<times> 'w" where
  "GetReviewEvidence http c reviewID w =
     (if reviewID \<le> 0 then (Inl ''review_id must be greater than 0'', w)
      else let (reply, w1) = http ''GET'' (rv_baseURL c @ ''/v1/agent/review/evidence/'' @ show_int reviewID) [] w in
        (case reply of
           NoRequest err \<Rightarrow> Inl (''create review evidence request: '' @ err)
         | NoResponse err \<Rightarrow> Inl (''call review-service: '' @ err)
         | NoBody err \<Rightarrow> Inl (''read review-service response: '' @ err)
         | Response status body \<Rightarrow>
             if status \<ge> 400 then Inl (''review-service returned status '' @ show_int status @ '': '' @ body)
             else (let (out, ok) = evidenceResponse body in
               if \<not> ok then Inl (''unmarshal review-service response: '' @ jsonError)
               else (case out of None \<Rightarrow> Inl ''review evidence is empty'' | Some ev \<Rightarrow> Inr ev)), w1))"


end
