(* ===== verification/Tools.thy ===== *)
theory Tools
  imports Service_Clients
begin

text \<open>
  \<open>internal/tool\<close>: the registry and the tools the agent may call. A tool reads its arguments from JSON, checks
  and completes them, asks one service and prints what it got as the observation. The clock \<open>now\<close> and the HTTP
  exchange are parameters over the world \<open>'w\<close>. A description is written as its UTF-8 bytes.
\<close>

section \<open>The registry\<close>

record Info =
  if_Name :: gostring
  if_Description :: gostring
  if_InputSchema :: gostring

record 'w Tool =
  tl_Info :: Info
  tl_Execute :: "gostring \<Rightarrow> 'w \<Rightarrow> gostring result \<times> 'w"

type_synonym 'w Registry = "(gostring \<times> 'w Tool) list"

definition NewRegistry :: "'w Registry" where
  "NewRegistry = []"

fun Register :: "'w Tool \<Rightarrow> 'w Registry \<Rightarrow> 'w Registry" where
  "Register t [] = [(if_Name (tl_Info t), t)]"
| "Register t (it # items) = (if fst it = if_Name (tl_Info t) then (if_Name (tl_Info t), t) # items else it # Register t items)"

definition GetTool :: "gostring \<Rightarrow> 'w Registry \<Rightarrow> 'w Tool option" where
  "GetTool name r = map_of r name"

text \<open>\<open>MustGet\<close>; its panic is the left value.\<close>

definition MustGet :: "gostring \<Rightarrow> 'w Registry \<Rightarrow> 'w Tool result" where
  "MustGet name r = (case GetTool name r of None \<Rightarrow> Inl (''tool not found: '' @ name) | Some t \<Rightarrow> Inr t)"

text \<open>\<open>List\<close>: Go walks the map in any order and sorts by the names, which differ.\<close>

definition ListTools :: "'w Registry \<Rightarrow> Info list" where
  "ListTools r = sort_key if_Name (map (tl_Info \<circ> snd) r)"

text \<open>A schema is written with back quotes for its double quotes.\<close>

definition quoted :: "gostring \<Rightarrow> gostring" where
  "quoted s = replaceChar (CHR 0x60) (CHR 0x22) s"

section \<open>get_review_evidence\<close>

definition evidenceInput :: "gostring \<Rightarrow> int \<times> bool" where
  "evidenceInput input = unmarshal [(''review_id'', int64_f (\<lambda>f. f))] input 0"

definition evidenceObservation :: "int \<Rightarrow> int \<Rightarrow> ReviewEvidence \<Rightarrow> json" where
  "evidenceObservation ms reviewID ev = mapobj [(''tool'', JStr ''get_review_evidence''), (''source'', JStr ''review-service''),
     (''latency_ms'', intJson ms), (''review_id'', intJson reviewID), (''evidence'', evidenceJson ev)]"

definition executeEvidence :: "('w \<Rightarrow> int) \<Rightarrow> 'w http \<Rightarrow> ReviewServiceClient \<Rightarrow> gostring \<Rightarrow> 'w \<Rightarrow> gostring result \<times> 'w" where
  "executeEvidence now http c input w = (let (reviewID, ok) = evidenceInput input in
     if \<not> ok then (Inl (''invalid review evidence input: '' @ jsonError), w)
     else if reviewID \<le> 0 then (Inl ''review_id must be greater than 0'', w)
     else let (r, w1) = GetReviewEvidence http c reviewID w in
       (case r of Inl err \<Rightarrow> Inl err
        | Inr ev \<Rightarrow> Inr (json_text (evidenceObservation (durationMS (now w) (now w1)) reviewID ev)), w1))"

definition evidenceInfo :: Info where
  "evidenceInfo = \<lparr>if_Name = ''get_review_evidence'',
   if_Description = bytes [
     0xE8, 0x8E, 0xB7, 0xE5, 0x8F, 0x96, 0xE8, 0xAF, 0x84, 0xE4, 0xBB, 0xB7, 0xE4, 0xBA, 0x8B, 0xE5, 0xAE, 0x9E,
     0xE8, 0xAF, 0x81, 0xE6, 0x8D, 0xAE, 0xEF, 0xBC, 0x8C, 0xE5, 0x8C, 0x85, 0xE5, 0x90, 0xAB, 0xE8, 0xAF, 0x84,
     0xE5, 0x88, 0x86, 0xE3, 0x80, 0x81, 0xE5, 0x86, 0x85, 0xE5, 0xAE, 0xB9, 0xE3, 0x80, 0x81, 0xE5, 0x9B, 0x9E,
     0xE5, 0xA4, 0x8D, 0xE3, 0x80, 0x81, 0xE7, 0x94, 0xB3, 0xE8, 0xAF, 0x89, 0xE4, 0xB8, 0x8E, 0xE7, 0x94, 0xA8,
     0xE6, 0x88, 0xB7, 0xE8, 0xAF, 0x84, 0xE4, 0xBB, 0xB7, 0xE7, 0x94, 0xBB, 0xE5, 0x83, 0x8F, 0xEF, 0xBC, 0x8C,
     0xE7, 0x94, 0xA8, 0xE4, 0xBA, 0x8E, 0x41, 0x67, 0x65, 0x6E, 0x74, 0xE7, 0xAC, 0xAC, 0xE4, 0xB8, 0x80, 0xE6,
     0xAD, 0xA5, 0xE7, 0x90, 0x86, 0xE8, 0xA7, 0xA3, 0xE4, 0xBA, 0x8B, 0xE5, 0xAE, 0x9E, 0xE3, 0x80, 0x82],
   if_InputSchema = quoted (''{`review_id`:1001}'')\<rparr>"

definition NewReviewEvidenceTool :: "('w \<Rightarrow> int) \<Rightarrow> 'w http \<Rightarrow> ReviewServiceClient \<Rightarrow> 'w Tool" where
  "NewReviewEvidenceTool now http c = \<lparr>tl_Info = evidenceInfo, tl_Execute = executeEvidence now http c\<rparr>"

section \<open>get_review_stats\<close>

record ReviewStatsInput =
  si_ReviewID :: int
  si_StoreID :: int
  si_UserID :: int
  si_SkuID :: int
  si_SpuID :: int
  si_WindowDays :: int

definition zeroStatsInput :: ReviewStatsInput where
  "zeroStatsInput = \<lparr>
   si_ReviewID = 0, si_StoreID = 0, si_UserID = 0, si_SkuID = 0, si_SpuID = 0, si_WindowDays = 0\<rparr>"

definition statsInputFields :: "ReviewStatsInput fields" where
  "statsInputFields = [
   (''review_id'', int64_f si_ReviewID_update), (''store_id'', int64_f si_StoreID_update),
   (''user_id'', int64_f si_UserID_update), (''sku_id'', int64_f si_SkuID_update),
   (''spu_id'', int64_f si_SpuID_update), (''window_days'', int64_f si_WindowDays_update)]"

definition statsInputJson :: "ReviewStatsInput \<Rightarrow> json" where
  "statsInputJson r = JObj (
     [(''review_id'', intJson (si_ReviewID r)), (''store_id'', intJson (si_StoreID r)),
      (''user_id'', intJson (si_UserID r)), (''sku_id'', intJson (si_SkuID r)), (''spu_id'', intJson (si_SpuID r)),
      (''window_days'', intJson (si_WindowDays r))])"

definition statsRequestOf :: "ReviewStatsInput \<Rightarrow> ReviewStatsRequest" where
  "statsRequestOf req = \<lparr>sq_ReviewID = si_ReviewID req, sq_StoreID = si_StoreID req, sq_UserID = si_UserID req,
     sq_SkuID = si_SkuID req, sq_SpuID = si_SpuID req, sq_WindowDays = si_WindowDays req\<rparr>"

definition executeStats :: "('w \<Rightarrow> int) \<Rightarrow> 'w http \<Rightarrow> ReviewJobClient \<Rightarrow> gostring \<Rightarrow> 'w \<Rightarrow> gostring result \<times> 'w" where
  "executeStats now http c input w = (let (req0, ok) = unmarshal statsInputFields input zeroStatsInput in
     if \<not> ok then (Inl (''invalid review stats input: '' @ jsonError), w)
     else if si_StoreID req0 \<le> 0 then (Inl ''store_id must be greater than 0'', w)
     else let req = (if si_WindowDays req0 \<le> 0 then req0 \<lparr> si_WindowDays := 7 \<rparr> else req0);
              (r, w1) = GetReviewStats http c (statsRequestOf req) w in
       (case r of Inl err \<Rightarrow> Inl err
        | Inr resp \<Rightarrow> Inr (json_text (mapobj [(''tool'', JStr ''get_review_stats''), (''source'', JStr ''review-job''),
            (''latency_ms'', intJson (durationMS (now w) (now w1))), (''request'', statsInputJson req), (''stats'', statsJson resp)])), w1))"

definition statsInfo :: Info where
  "statsInfo = \<lparr>if_Name = ''get_review_stats'',
   if_Description = bytes [
     0xE8, 0x8E, 0xB7, 0xE5, 0x8F, 0x96, 0x45, 0x53, 0xE7, 0xBB, 0x93, 0xE6, 0x9E, 0x84, 0xE5, 0x8C, 0x96, 0xE9,
     0xA3, 0x8E, 0xE9, 0x99, 0xA9, 0xE7, 0xBB, 0x9F, 0xE8, 0xAE, 0xA1, 0xEF, 0xBC, 0x8C, 0xE5, 0x8C, 0x85, 0xE6,
     0x8B, 0xAC, 0xE5, 0xB7, 0xAE, 0xE8, 0xAF, 0x84, 0xE7, 0xAA, 0x97, 0xE5, 0x8F, 0xA3, 0xE3, 0x80, 0x81, 0xE6,
     0x9C, 0xAA, 0xE5, 0x9B, 0x9E, 0xE5, 0xA4, 0x8D, 0xE5, 0xB7, 0xAE, 0xE8, 0xAF, 0x84, 0xE3, 0x80, 0x81, 0xE7,
     0x89, 0xA9, 0xE6, 0xB5, 0x81, 0x2F, 0xE6, 0x9C, 0x8D, 0xE5, 0x8A, 0xA1, 0xE9, 0x97, 0xAE, 0xE9, 0xA2, 0x98,
     0xE5, 0x8D, 0xA0, 0xE6, 0xAF, 0x94, 0xE5, 0x92, 0x8C, 0x70, 0x6F, 0x6C, 0x69, 0x63, 0x79, 0x20, 0x74, 0x61,
     0x67, 0x73, 0xEF, 0xBC, 0x8C, 0xE7, 0x94, 0xA8, 0xE4, 0xBA, 0x8E, 0xE7, 0xAC, 0xAC, 0xE4, 0xBA, 0x8C, 0xE6,
     0xAD, 0xA5, 0xE5, 0x86, 0xB3, 0xE7, 0xAD, 0x96, 0xE3, 0x80, 0x82],
   if_InputSchema = quoted (''{`review_id`:1001,`store_id`:3001,`user_id`:2001,`sku_id`:5001,`spu_id`:6001,`window_days`:7}'')\<rparr>"

definition NewReviewStatsTool :: "('w \<Rightarrow> int) \<Rightarrow> 'w http \<Rightarrow> ReviewJobClient \<Rightarrow> 'w Tool" where
  "NewReviewStatsTool now http c = \<lparr>tl_Info = statsInfo, tl_Execute = executeStats now http c\<rparr>"

section \<open>retrieve_rag\<close>

record RAGRetrieveInput =
  ri_QueryText :: gostring
  ri_ReviewID :: int
  ri_StoreID :: int
  ri_UserID :: int
  ri_SkuID :: int
  ri_SpuID :: int
  ri_ActivityID :: gostring
  ri_PolicyVersion :: gostring
  ri_TopK :: int
  ri_ChunkTypes :: "gostring list"
  ri_Aspects :: "gostring list"

definition zeroRAGInput :: RAGRetrieveInput where
  "zeroRAGInput = \<lparr>
   ri_QueryText = [], ri_ReviewID = 0, ri_StoreID = 0, ri_UserID = 0, ri_SkuID = 0, ri_SpuID = 0, ri_ActivityID = [],
   ri_PolicyVersion = [], ri_TopK = 0, ri_ChunkTypes = [], ri_Aspects = []\<rparr>"

definition ragInputFields :: "RAGRetrieveInput fields" where
  "ragInputFields = [
   (''query_text'', str_f ri_QueryText_update), (''review_id'', int64_f ri_ReviewID_update),
   (''store_id'', int64_f ri_StoreID_update), (''user_id'', int64_f ri_UserID_update),
   (''sku_id'', int64_f ri_SkuID_update), (''spu_id'', int64_f ri_SpuID_update),
   (''activity_id'', str_f ri_ActivityID_update), (''policy_version'', str_f ri_PolicyVersion_update),
   (''top_k'', int32_f ri_TopK_update), (''chunk_types'', strs_f ri_ChunkTypes_update),
   (''aspects'', strs_f ri_Aspects_update)]"

definition ragInputJson :: "RAGRetrieveInput \<Rightarrow> json" where
  "ragInputJson r = JObj (
     [(''query_text'', JStr (ri_QueryText r)), (''review_id'', intJson (ri_ReviewID r)),
      (''store_id'', intJson (ri_StoreID r)), (''user_id'', intJson (ri_UserID r)),
      (''sku_id'', intJson (ri_SkuID r)), (''spu_id'', intJson (ri_SpuID r)),
      (''activity_id'', JStr (ri_ActivityID r)), (''policy_version'', JStr (ri_PolicyVersion r)),
      (''top_k'', intJson (ri_TopK r)), (''chunk_types'', JArr (map JStr (ri_ChunkTypes r))),
      (''aspects'', JArr (map JStr (ri_Aspects r)))])"

definition buildFallbackRAGQuery :: "RAGRetrieveInput \<Rightarrow> gostring" where
  "buildFallbackRAGQuery req = ''review_id='' @ show_int (ri_ReviewID req) @ '' store_id='' @ show_int (ri_StoreID req) @
     '' '' @ bytes [0xE4, 0xBC, 0x98, 0xE6, 0x83, 0xA0, 0xE5, 0x88, 0xB8, 0xE7, 0xAD, 0x96, 0xE7, 0x95, 0xA5]
     @ '' '' @ bytes [0xE5, 0x8E, 0x86, 0xE5, 0x8F, 0xB2, 0xE6, 0xA1, 0x88, 0xE4, 0xBE, 0x8B] @ '' '' @ bytes
     [0xE8, 0xAF, 0x84, 0xE4, 0xBB, 0xB7, 0xE4, 0xBA, 0x8B, 0xE5, 0xAE, 0x9E] @ '' ES'' @ bytes
     [0xE7, 0xBB, 0x9F, 0xE8, 0xAE, 0xA1] @ '' RAG'' @ bytes [0xE5, 0x8F, 0xAC, 0xE5, 0x9B, 0x9E]"

definition defaultRAGChunkTypes :: "gostring list" where
  "defaultRAGChunkTypes = [''review_summary'', ''review_aspect'', ''coupon_decision'']"

definition defaultRAGAspects :: "gostring list" where
  "defaultRAGAspects = [''SUMMARY'', ''DECISION'', ''LOGISTICS'', ''SERVICE'', ''QUALITY'', ''PRICE'', ''REPEAT'', ''RECOMMEND'']"

text \<open>The loops keep the list so far and the upper-case keys seen.\<close>

definition addNew :: "gostring \<Rightarrow> gostring list \<times> gostring list \<Rightarrow> gostring list \<times> gostring list" where
  "addNew item st = (let key = ToUpper item in if key \<in> set (snd st) then st else (fst st @ [item], key # snd st))"

definition addTrimmed :: "gostring \<Rightarrow> gostring list \<times> gostring list \<Rightarrow> gostring list \<times> gostring list" where
  "addTrimmed item st = (let trimmed = TrimSpace item in if trimmed = [] then st else addNew trimmed st)"

definition appendMissingUpperish :: "gostring list \<Rightarrow> gostring list \<Rightarrow> gostring list" where
  "appendMissingUpperish xs required = fst (fold addNew required (fold addTrimmed xs ([], [])))"

definition normalizeRAGChunkTypes :: "gostring list \<Rightarrow> gostring list" where
  "normalizeRAGChunkTypes xs = appendMissingUpperish xs [''review_summary'', ''review_aspect'', ''coupon_decision'']"

definition addAspectItem :: "gostring \<Rightarrow> gostring list \<times> gostring list \<Rightarrow> gostring list \<times> gostring list" where
  "addAspectItem item0 st = (let item = TrimSpace item0 in
     if item = [] then st else addNew (if EqualFold item ''REPURCHASE'' then ''REPEAT'' else item) st)"

definition normalizeRAGAspects :: "gostring list \<Rightarrow> gostring list" where
  "normalizeRAGAspects xs = appendMissingUpperish (fst (fold addAspectItem xs ([], []))) [''SUMMARY'', ''DECISION'']"

text \<open>The arguments as the tool completes them, from the check of the store on.\<close>

definition completeRAGInput :: "RAGRetrieveInput \<Rightarrow> RAGRetrieveInput" where
  "completeRAGInput req0 =
     (let k0 = (if ri_TopK req0 \<le> 0 then 5 else ri_TopK req0);
          k1 = (if k0 < 10 then 10 else k0);
          k2 = (if k1 > 20 then 20 else k1);
          req1 = req0 \<lparr> ri_TopK := k2 \<rparr>;
          req2 = (if TrimSpace (ri_QueryText req1) = [] then req1 \<lparr> ri_QueryText := buildFallbackRAGQuery req1 \<rparr> else req1);
          types = (if ri_ChunkTypes req2 = [] then defaultRAGChunkTypes else ri_ChunkTypes req2);
          aspects = (if ri_Aspects req2 = [] then defaultRAGAspects else ri_Aspects req2)
      in req2 \<lparr> ri_ChunkTypes := normalizeRAGChunkTypes types, ri_Aspects := normalizeRAGAspects aspects \<rparr>)"

definition ragRequestOf :: "RAGRetrieveInput \<Rightarrow> RAGRetrieveRequest" where
  "ragRequestOf req = \<lparr>gq_QueryText = ri_QueryText req, gq_RetrievalMode = ''decision_support'', gq_RetrievalScope = ''store'',
     gq_ReviewID = ri_ReviewID req, gq_StoreID = ri_StoreID req, gq_UserID = ri_UserID req, gq_SkuID = ri_SkuID req,
     gq_SpuID = ri_SpuID req, gq_ActivityID = ri_ActivityID req, gq_PolicyVersion = ri_PolicyVersion req,
     gq_TopK = ri_TopK req, gq_ChunkTypes = ri_ChunkTypes req, gq_Aspects = ri_Aspects req\<rparr>"

record compactRAGChunk =
  cr_ChunkID :: gostring
  cr_ReviewID :: int
  cr_StoreID :: int
  cr_ChunkType :: gostring
  cr_Aspect :: gostring
  cr_Text :: gostring

definition compactChunkJson :: "compactRAGChunk \<Rightarrow> json" where
  "compactChunkJson r = JObj (
     [(''chunk_id'', JStr (cr_ChunkID r)), (''review_id'', intJson (cr_ReviewID r)),
      (''store_id'', intJson (cr_StoreID r)), (''chunk_type'', JStr (cr_ChunkType r)),
      (''aspect'', JStr (cr_Aspect r)), (''text'', JStr (cr_Text r))])"

definition compactRAGChunks :: "RAGChunkDTO option list \<Rightarrow> compactRAGChunk list" where
  "compactRAGChunks found = map (\<lambda>c. \<lparr>cr_ChunkID = ck_ChunkID c, cr_ReviewID = ck_ReviewID c, cr_StoreID = ck_StoreID c,
     cr_ChunkType = ck_ChunkType c, cr_Aspect = ck_Aspect c, cr_Text = ck_Text c\<rparr>) (map the (filter (\<lambda>c. c \<noteq> None) found))"

definition ragObservation :: "int \<Rightarrow> RAGRetrieveInput \<Rightarrow> RAGChunkDTO option list \<Rightarrow> json" where
  "ragObservation ms req found = mapobj [(''tool'', JStr ''retrieve_rag''), (''source'', JStr ''review-job''),
     (''latency_ms'', intJson ms), (''request'', ragInputJson req),
     (''rag'', mapobj [(''chunks'', JArr (map compactChunkJson (compactRAGChunks found)))])]"

definition executeRAG :: "('w \<Rightarrow> int) \<Rightarrow> 'w http \<Rightarrow> ReviewJobClient \<Rightarrow> gostring \<Rightarrow> 'w \<Rightarrow> gostring result \<times> 'w" where
  "executeRAG now http c input w = (let (req0, ok) = unmarshal ragInputFields input zeroRAGInput in
     if \<not> ok then (Inl (''invalid rag retrieve input: '' @ jsonError), w)
     else if ri_StoreID req0 \<le> 0 then (Inl ''store_id must be greater than 0'', w)
     else let req = completeRAGInput req0; (r, w1) = RetrieveRAG http c (ragRequestOf req) w in
       (case r of Inl err \<Rightarrow> Inl err
        | Inr found \<Rightarrow> Inr (json_text (ragObservation (durationMS (now w) (now w1)) req found)), w1))"

definition ragInfo :: Info where
  "ragInfo = \<lparr>if_Name = ''retrieve_rag'',
   if_Description = bytes [
     0xE5, 0x8F, 0xAC, 0xE5, 0x9B, 0x9E, 0x52, 0x41, 0x47, 0xE5, 0x8E, 0x86, 0xE5, 0x8F, 0xB2, 0xE6, 0xA1, 0x88,
     0xE4, 0xBE, 0x8B, 0xE3, 0x80, 0x81, 0xE7, 0x9B, 0xB8, 0xE4, 0xBC, 0xBC, 0xE8, 0xAF, 0x84, 0xE4, 0xBB, 0xB7,
     0xE5, 0x92, 0x8C, 0xE5, 0x8E, 0x86, 0xE5, 0x8F, 0xB2, 0xE5, 0x86, 0xB3, 0xE7, 0xAD, 0x96, 0x63, 0x68, 0x75,
     0x6E, 0x6B, 0xEF, 0xBC, 0x8C, 0xE7, 0x94, 0xA8, 0xE4, 0xBA, 0x8E, 0xE7, 0xAC, 0xAC, 0xE4, 0xB8, 0x89, 0xE6,
     0xAD, 0xA5, 0xE8, 0xAE, 0xA9, 0x41, 0x67, 0x65, 0x6E, 0x74, 0xE5, 0x8F, 0x82, 0xE8, 0x80, 0x83, 0xE5, 0x8E,
     0x86, 0xE5, 0x8F, 0xB2, 0xE7, 0xBB, 0x8F, 0xE9, 0xAA, 0x8C, 0xEF, 0xBC, 0x9B, 0x71, 0x75, 0x65, 0x72, 0x79,
     0x5F, 0x74, 0x65, 0x78, 0x74, 0xE5, 0x8F, 0xAF, 0xE4, 0xB8, 0xBA, 0xE7, 0xA9, 0xBA, 0xEF, 0xBC, 0x8C, 0xE5,
     0xB7, 0xA5, 0xE5, 0x85, 0xB7, 0xE4, 0xBC, 0x9A, 0xE8, 0x87, 0xAA, 0xE5, 0x8A, 0xA8, 0xE6, 0x9E, 0x84, 0xE9,
     0x80, 0xA0, 0xE5, 0x9B, 0x9E, 0xE9, 0x80, 0x80, 0xE6, 0xA3, 0x80, 0xE7, 0xB4, 0xA2, 0xE8, 0xAF, 0x8D, 0xE3,
     0x80, 0x82],
   if_InputSchema = quoted (''{`query_text`:`'' @ bytes [
     0xE7, 0x89, 0xA9, 0xE6, 0xB5, 0x81, 0xE5, 0xA4, 0xAA, 0xE6, 0x85, 0xA2, 0xEF, 0xBC, 0x8C, 0xE5, 0xAE, 0xA2,
     0xE6, 0x9C, 0x8D, 0xE6, 0x80, 0x81, 0xE5, 0xBA, 0xA6, 0xE5, 0xB7, 0xAE] @
     ''`,`review_id`:1001,`store_id`:3001,`activity_id`:`campaign-2026-07`,`policy_version`:`v2`,`top_'' @
     ''k`:10,`chunk_types`:[`review_summary`,`review_aspect`,`coupon_decision`],`aspects`:[`SUMMARY`,`'' @
     ''DECISION`,`LOGISTICS`,`SERVICE`]}'')\<rparr>"

definition NewRAGRetrieveTool :: "('w \<Rightarrow> int) \<Rightarrow> 'w http \<Rightarrow> ReviewJobClient \<Rightarrow> 'w Tool" where
  "NewRAGRetrieveTool now http c = \<lparr>tl_Info = ragInfo, tl_Execute = executeRAG now http c\<rparr>"

section \<open>get_campaign_context\<close>

record CampaignContextInput =
  ci_StoreID :: int
  ci_ActivityID :: gostring
  ci_UserID :: int
  ci_SkuID :: int
  ci_SpuID :: int

definition zeroCampaignInput :: CampaignContextInput where
  "zeroCampaignInput = \<lparr>
   ci_StoreID = 0, ci_ActivityID = [], ci_UserID = 0, ci_SkuID = 0, ci_SpuID = 0\<rparr>"

definition campaignInputFields :: "CampaignContextInput fields" where
  "campaignInputFields = [
   (''store_id'', int64_f ci_StoreID_update), (''activity_id'', str_f ci_ActivityID_update),
   (''user_id'', int64_f ci_UserID_update), (''sku_id'', int64_f ci_SkuID_update), (''spu_id'', int64_f ci_SpuID_update)]"

definition campaignInputJson :: "CampaignContextInput \<Rightarrow> json" where
  "campaignInputJson r = JObj (
     [(''store_id'', intJson (ci_StoreID r))] @ omitEmpty ''activity_id'' (ci_ActivityID r) @
      [(''user_id'', intJson (ci_UserID r))] @ omitZero ''sku_id'' (ci_SkuID r) @ omitZero ''spu_id'' (ci_SpuID r))"

definition campaignRequestOf :: "CampaignContextInput \<Rightarrow> CampaignContextRequest" where
  "campaignRequestOf req = \<lparr>cq_StoreID = ci_StoreID req, cq_ActivityID = ci_ActivityID req, cq_UserID = ci_UserID req,
     cq_SkuID = ci_SkuID req, cq_SpuID = ci_SpuID req\<rparr>"

definition campaignObservation :: "int \<Rightarrow> CampaignContextInput \<Rightarrow> CampaignContext \<Rightarrow> json" where
  "campaignObservation ms req cx = mapobj [(''tool'', JStr ''get_campaign_context''), (''source'', JStr ''seckill-service''),
     (''latency_ms'', intJson ms), (''request'', campaignInputJson req), (''campaign'', campaignJson cx)]"

definition executeCampaign :: "('w \<Rightarrow> int) \<Rightarrow> 'w http \<Rightarrow> SeckillClient option \<Rightarrow> gostring \<Rightarrow> 'w \<Rightarrow> gostring result \<times> 'w" where
  "executeCampaign now http client input w = (let (req, ok) = unmarshal campaignInputFields input zeroCampaignInput in
     if \<not> ok then (Inl (''invalid campaign context input: '' @ jsonError), w)
     else if ci_StoreID req \<le> 0 \<or> ci_UserID req \<le> 0 then (Inl ''campaign context requires store_id and user_id'', w)
     else (case client of
         None \<Rightarrow> (Inl ''campaign context client is not configured'', w)
       | Some c \<Rightarrow> (let (r, w1) = GetCampaignContext http c (campaignRequestOf req) w in
           (case r of Inl err \<Rightarrow> Inl err
            | Inr cx \<Rightarrow> Inr (json_text (campaignObservation (durationMS (now w) (now w1)) req cx)), w1))))"

definition campaignInfo :: Info where
  "campaignInfo = \<lparr>if_Name = ''get_campaign_context'',
   if_Description = bytes [
     0xE6, 0x9F, 0xA5, 0xE8, 0xAF, 0xA2, 0xE5, 0xBA, 0x97, 0xE9, 0x93, 0xBA, 0xE6, 0xB4, 0xBB, 0xE5, 0x8A, 0xA8,
     0xE3, 0x80, 0x81, 0xE5, 0x95, 0x86, 0xE5, 0x93, 0x81, 0xE8, 0xB5, 0x84, 0xE6, 0xA0, 0xBC, 0xE3, 0x80, 0x81,
     0xE7, 0x94, 0xA8, 0xE6, 0x88, 0xB7, 0xE9, 0xA2, 0x86, 0xE5, 0x8F, 0x96, 0xE4, 0xB8, 0x8A, 0xE9, 0x99, 0x90,
     0xE3, 0x80, 0x81, 0xE5, 0x89, 0xA9, 0xE4, 0xBD, 0x99, 0xE5, 0xBA, 0x93, 0xE5, 0xAD, 0x98, 0xE5, 0x92, 0x8C,
     0xE9, 0xA2, 0x84, 0xE7, 0xAE, 0x97, 0xEF, 0xBC, 0x9B, 0xE8, 0xBF, 0x99, 0xE6, 0x98, 0xAF, 0xE5, 0x8F, 0x91,
     0xE5, 0x88, 0xB8, 0xE7, 0x9A, 0x84, 0xE7, 0xA1, 0xAC, 0xE7, 0xBA, 0xA6, 0xE6, 0x9D, 0x9F, 0xE3, 0x80, 0x82],
   if_InputSchema = quoted (''{`store_id`:1001,`activity_id`:`A20260714`,`user_id`:2001,`sku_id`:3001,`spu_id`:4001}'')\<rparr>"

definition NewCampaignContextTool :: "('w \<Rightarrow> int) \<Rightarrow> 'w http \<Rightarrow> SeckillClient option \<Rightarrow> 'w Tool" where
  "NewCampaignContextTool now http c = \<lparr>tl_Info = campaignInfo, tl_Execute = executeCampaign now http c\<rparr>"

section \<open>The tools nothing registers\<close>

definition executeWarmup :: "gostring \<Rightarrow> gostring result" where
  "executeWarmup input = (let (campaignID, ok) = unmarshal [(''campaign_id'', str_f (\<lambda>f. f))] input [] in
     if \<not> ok then Inl (''invalid warmup input: '' @ jsonError)
     else Inr (json_text (mapobj [(''campaign_id'', JStr (if campaignID = [] then ''campaign_demo'' else campaignID)),
       (''status'', JStr ''warmup_triggered'')])))"

record CommentAnalysisInput =
  ca_Days :: int
  ca_Sentiment :: gostring

definition executeCommentAnalysis :: "gostring \<Rightarrow> gostring result" where
  "executeCommentAnalysis input =
     (let (req, ok) = unmarshal [(''days'', int64_f ca_Days_update), (''sentiment'', str_f ca_Sentiment_update)] input
            \<lparr>ca_Days = 0, ca_Sentiment = []\<rparr> in
     if \<not> ok then Inl (''invalid comment analysis input: '' @ jsonError)
     else Inr (json_text (mapobj [(''days'', intJson (if ca_Days req \<le> 0 then 7 else ca_Days req)),
       (''sentiment'', JStr (if ca_Sentiment req = [] then ''positive'' else ca_Sentiment req)),
       (''users'', JArr [mapobj [(''user_id'', intJson 1001), (''nickname'', JStr ''alice''), (''score'', float_json 96 (-2))],
          mapobj [(''user_id'', intJson 1002), (''nickname'', JStr ''bob''), (''score'', float_json 92 (-2))]])])))"

record CouponPlanInput =
  cn_UserCount :: int
  cn_Discount :: decimal

text \<open>A \<open>float64\<close> that is not strictly between 0 and 1.\<close>

definition discountInvalid :: "decimal \<Rightarrow> bool" where
  "discountInvalid d = (case f64_of_lit (fst d) (snd d) of
     Some (n, k) \<Rightarrow> fst d < 0 \<or> n = 0 \<or> (if k \<ge> 0 then True else n \<ge> 2 ^ nat (- k))
   | None \<Rightarrow> True)"

definition executeCouponPlan :: "gostring \<Rightarrow> gostring result" where
  "executeCouponPlan input =
     (let (req, ok) = unmarshal [(''user_count'', int64_f cn_UserCount_update), (''discount'', float_f cn_Discount_update)] input
            \<lparr>cn_UserCount = 0, cn_Discount = (0, 0)\<rparr> in
     if \<not> ok then Inl (''invalid coupon plan input: '' @ jsonError)
     else if cn_UserCount req \<le> 0 then Inl ''user_count must be greater than 0''
     else let d = (if discountInvalid (cn_Discount req) then (8, -1) else cn_Discount req) in
       Inr (json_text (mapobj [(''target_user_count'', intJson (cn_UserCount req)), (''discount'', float_json (fst d) (snd d)),
         (''coupon_count'', intJson (cn_UserCount req)), (''strategy'', JStr ''one coupon per target user'')])))"

definition warmupInfo :: Info where
  "warmupInfo = \<lparr>if_Name = ''trigger_seckill_warmup'',
   if_Description = bytes [
     0xE8, 0xA7, 0xA6, 0xE5, 0x8F, 0x91, 0xE7, 0xA7, 0x92, 0xE6, 0x9D, 0x80, 0xE9, 0xA2, 0x84, 0xE7, 0x83, 0xAD,
     0xE6, 0xB5, 0x81, 0xE7, 0xA8, 0x8B, 0xEF, 0xBC, 0x8C, 0xE9, 0x80, 0x9A, 0xE7, 0x9F, 0xA5, 0xE7, 0xA7, 0x92,
     0xE6, 0x9D, 0x80, 0xE6, 0x9C, 0x8D, 0xE5, 0x8A, 0xA1, 0xE8, 0xBF, 0x9B, 0xE5, 0x85, 0xA5, 0xE9, 0xA2, 0x84,
     0xE7, 0x83, 0xAD, 0xE7, 0x8A, 0xB6, 0xE6, 0x80, 0x81, 0xE3, 0x80, 0x82],
   if_InputSchema = quoted (''{`campaign_id`:`campaign_001`}'')\<rparr>"

definition commentAnalysisInfo :: Info where
  "commentAnalysisInfo = \<lparr>if_Name = ''analyze_comments'',
   if_Description = bytes [
     0xE5, 0x88, 0x86, 0xE6, 0x9E, 0x90, 0xE6, 0x9C, 0x80, 0xE8, 0xBF, 0x91, 0xE8, 0xAF, 0x84, 0xE8, 0xAE, 0xBA,
     0xE5, 0x8C, 0xBA, 0xE5, 0x8F, 0x8D, 0xE9, 0xA6, 0x88, 0xEF, 0xBC, 0x8C, 0xE8, 0xBF, 0x94, 0xE5, 0x9B, 0x9E,
     0xE7, 0xAC, 0xA6, 0xE5, 0x90, 0x88, 0xE6, 0x9D, 0xA1, 0xE4, 0xBB, 0xB6, 0xE7, 0x9A, 0x84, 0xE7, 0x94, 0xA8,
     0xE6, 0x88, 0xB7, 0xE7, 0x94, 0xBB, 0xE5, 0x83, 0x8F, 0xE5, 0x92, 0x8C, 0xE5, 0x80, 0x99, 0xE9, 0x80, 0x89,
     0xE5, 0x88, 0x97, 0xE8, 0xA1, 0xA8, 0xE3, 0x80, 0x82],
   if_InputSchema = quoted (''{`days`:7,`sentiment`:`positive`}'')\<rparr>"

definition couponPlanInfo :: Info where
  "couponPlanInfo = \<lparr>if_Name = ''plan_coupon_quota'',
   if_Description = bytes [
     0xE6, 0xA0, 0xB9, 0xE6, 0x8D, 0xAE, 0xE5, 0x80, 0x99, 0xE9, 0x80, 0x89, 0xE7, 0x94, 0xA8, 0xE6, 0x88, 0xB7,
     0xE6, 0x95, 0xB0, 0xE9, 0x87, 0x8F, 0xE5, 0x92, 0x8C, 0xE6, 0x8A, 0x98, 0xE6, 0x89, 0xA3, 0xEF, 0xBC, 0x8C,
     0xE8, 0xAE, 0xA1, 0xE7, 0xAE, 0x97, 0xE7, 0xA7, 0x92, 0xE6, 0x9D, 0x80, 0xE5, 0x88, 0xB8, 0xE9, 0x85, 0x8D,
     0xE9, 0xA2, 0x9D, 0xE6, 0x96, 0xB9, 0xE6, 0xA1, 0x88, 0xE3, 0x80, 0x82],
   if_InputSchema = quoted (''{`user_count`:100,`discount`:0.8}'')\<rparr>"

definition MockWarmupTool :: "'w Tool" where
  "MockWarmupTool = \<lparr>tl_Info = warmupInfo, tl_Execute = (\<lambda>input w. (executeWarmup input, w))\<rparr>"

definition MockCommentAnalysisTool :: "'w Tool" where
  "MockCommentAnalysisTool = \<lparr>tl_Info = commentAnalysisInfo, tl_Execute = (\<lambda>input w. (executeCommentAnalysis input, w))\<rparr>"

definition MockCouponPlanTool :: "'w Tool" where
  "MockCouponPlanTool = \<lparr>tl_Info = couponPlanInfo, tl_Execute = (\<lambda>input w. (executeCouponPlan input, w))\<rparr>"

end
