(* ===== verification/Json_Facts.thy ===== *)
theory Json_Facts
  imports Finalizer
begin

text \<open>
  What the components share about JSON: texts that were read are valid UTF-8, decoding a struct keeps what
  every field keeps, names of fields are compared without regard to case only where case differs, and a printed map is
  read back entry by entry (\<open>unmarshal_mapobj\<close>).
\<close>

section \<open>Texts read from JSON are valid UTF-8\<close>

fun utf8_json :: "json \<Rightarrow> bool" where
  "utf8_json (JStr s) \<longleftrightarrow> valid_utf8 s"
| "utf8_json (JArr vs) \<longleftrightarrow> (\<forall>v \<in> set vs. utf8_json v)"
| "utf8_json (JObj kvs) \<longleftrightarrow> (\<forall>kv \<in> set kvs. valid_utf8 (fst kv) \<and> utf8_json (snd kv))"
| "utf8_json v \<longleftrightarrow> True"

lemma sanitize_valid [simp]: "valid_utf8 (sanitize s)"
  using chunks_valid by (simp add: valid_utf8_def sanitize_def runes_of_runes)

lemma pstring_valid: "pstring s = Some (x, r) \<Longrightarrow> valid_utf8 x"
  by (auto simp: pstring_def)

lemma pnum_utf8: "pnum s = Some (v, r) \<Longrightarrow> utf8_json v"
  by (auto simp: pnum_def Let_def split: option.splits prod.splits if_splits)

lemma pword_utf8: "pword w v s = Some (u, r) \<Longrightarrow> utf8_json v \<Longrightarrow> utf8_json u"
  by (auto simp: pword_def split: if_splits)

lemma parser_utf8:
  "pvalue n s = Some (v, r) \<Longrightarrow> utf8_json v"
  "pelems n s = Some (vs, r) \<Longrightarrow> \<forall>v \<in> set vs. utf8_json v"
  "pmembers n s = Some (kvs, r) \<Longrightarrow> \<forall>kv \<in> set kvs. valid_utf8 (fst kv) \<and> utf8_json (snd kv)"
proof (induction n s and n s and n s arbitrary: v r and vs r and kvs r rule: pvalue_pelems_pmembers.induct)
  case (2 n s)
  then show ?case
    by (auto split: list.splits if_splits option.splits simp del: pelems.simps pmembers.simps pvalue.simps(1)
        dest: pstring_valid pnum_utf8 pword_utf8)
next
  case (4 n s)
  then show ?case
    by (fastforce split: option.splits prod.splits)
next
  case (6 n s)
  then show ?case
    by (fastforce split: option.splits prod.splits dest: pstring_valid)
qed simp_all

lemma json_parse_utf8: "json_parse s = Some v \<Longrightarrow> utf8_json v"
  by (auto simp: json_parse_def split: option.splits if_splits prod.splits dest: parser_utf8(1) simp del: pvalue.simps)

text \<open>What every decoder of the fields keeps, decoding a struct keeps.\<close>

lemma decode_obj_keeps:
  assumes "\<forall>f \<in> set fs. \<forall>v a. utf8_json v \<longrightarrow> P a \<longrightarrow> P (fst (snd f v a))" "utf8_json v" "P a"
  shows "P (fst (decode_obj fs v a))"
proof -
  have step: "P (fst (decode_member fs k w st))" if "utf8_json w" "P (fst st)" for k w st
  proof (cases "find (\<lambda>f. EqualFold k (fst f)) fs")
    case None
    with that show ?thesis by (simp add: decode_member_def)
  next
    case (Some f)
    then have "f \<in> set fs" by (auto simp: find_Some_iff)
    with Some that assms(1) show ?thesis by (simp add: decode_member_def Let_def split: prod.splits) (metis fst_conv)
  qed
  have fold: "P (fst (foldl (\<lambda>st (k, w). decode_member fs k w st) st kvs))" if "\<forall>kv \<in> set kvs. utf8_json (snd kv)" "P (fst st)" for st kvs
    using that
  proof (induction kvs arbitrary: st)
    case (Cons kv kvs)
    then show ?case using step [of "snd kv" st "fst kv"] Cons.IH [of "decode_member fs (fst kv) (snd kv) st"] by (cases kv) simp
  qed simp
  show ?thesis
    using assms(2,3) fold [of _ "(a, True)"] by (cases v) (auto simp: decode_obj_def)
qed

lemma unmarshal_keeps:
  assumes "\<forall>f \<in> set fs. \<forall>v a. utf8_json v \<longrightarrow> P a \<longrightarrow> P (fst (snd f v a))" "P a"
  shows "P (fst (unmarshal fs s a))"
  using decode_obj_keeps [OF assms(1) _ assms(2)] assms(2) json_parse_utf8 by (auto simp: unmarshal_def split: option.splits)

section \<open>Field names\<close>

text \<open>Between names of lower-case letters and underscores \<open>EqualFold\<close> is equality.\<close>

definition plainName :: "gostring \<Rightarrow> bool" where
  "plainName s \<longleftrightarrow> list_all (\<lambda>c. c = CHR ''_'' \<or> in_rng 97 122 (byte c)) s"

lemma plain_runes: "plainName s \<Longrightarrow> map foldRune (runes s) = map byte s"
  by (induction s) (auto simp: plainName_def runes_def chunks_ascii in_rng_def foldRune_def simp del: chunks.simps(2))

lemma EqualFold_plain: "plainName s \<Longrightarrow> plainName t \<Longrightarrow> EqualFold s t \<longleftrightarrow> s = t"
proof -
  have inj: "inj byte" by (rule inj_of_char)
  assume "plainName s" "plainName t"
  then show ?thesis by (simp add: EqualFold_def plain_runes inj_map_eq_map [OF inj])
qed

lemma find_plain: "plainName k \<Longrightarrow> list_all plainName (map fst fs) \<Longrightarrow> find (\<lambda>f. EqualFold k (fst f)) fs = find (\<lambda>f. k = fst f) fs"
  by (induction fs) (auto simp: EqualFold_plain)

section \<open>Printed objects\<close>

lemma assoc_last_map: "assoc_last (map (\<lambda>k. (k, f k)) ks) k = (if k \<in> set ks then Some (f k) else None)"
  by (induction ks) auto

lemma jget_map_entries: "jget (map_entries kvs) k = jget kvs k"
proof -
  have "k \<notin> fst ` set kvs \<Longrightarrow> assoc_last kvs k = None" by (simp add: assoc_last_def map_of_eq_None_iff)
  then show ?thesis by (auto simp: jget_def map_entries_def assoc_last_map)
qed

lemma assoc_last_canon: "assoc_last (map (\<lambda>kv. (fst kv, f (snd kv))) kvs) k = map_option f (assoc_last kvs k)"
  by (induction kvs) (auto split: option.split)

lemma jget_canon: "jget (map (\<lambda>kv. (fst kv, canon (snd kv))) kvs) k = canon (jget kvs k)"
  by (simp add: jget_def assoc_last_canon split: option.split)

text \<open>The values that a print and a parse keep for \<open>map[string]any\<close>.\<close>

fun goodJson :: "json \<Rightarrow> bool" where
  "goodJson (JNum m e) \<longleftrightarrow> (m \<noteq> 0 \<or> e \<le> 0) \<and> snd (conv_any (canonNum m e))"
| "goodJson (JStr s) \<longleftrightarrow> valid_utf8 s"
| "goodJson (JArr vs) \<longleftrightarrow> (\<forall>v \<in> set vs. goodJson v)"
| "goodJson (JObj kvs) \<longleftrightarrow> (\<forall>kv \<in> set kvs. valid_utf8 (fst kv) \<and> goodJson (snd kv))"
| "goodJson v \<longleftrightarrow> True"

lemma goodJson_wf: "goodJson v \<Longrightarrow> wf_json v"
proof (induction v)
  case (JObj kvs)
  then show ?case by fastforce
qed auto

lemma goodJson_conv: "goodJson v \<Longrightarrow> snd (conv_any (canon v))"
proof (induction v)
  case (JObj kvs)
  then show ?case by (fastforce simp: list_all_iff Let_def)
qed (auto simp: list_all_iff Let_def)

lemma conv_any_id: "snd (conv_any v) \<Longrightarrow> conv_any v = (v, True)"
proof (induction v)
  case (JArr vs)
  then have "\<forall>w \<in> set vs. conv_any w = (w, True)" by (auto simp: Let_def list_all_iff)
  then show ?case by (auto simp: Let_def list_all_iff map_idI)
next
  case (JObj kvs)
  then have "\<forall>kv \<in> set kvs. conv_any (snd kv) = (snd kv, True)" by (fastforce simp: Let_def list_all_iff)
  then show ?case by (auto simp: Let_def list_all_iff intro!: map_idI)
qed (auto split: if_splits)

lemma unmarshal_printed:
  assumes "goodJson (JObj kvs)"
  shows "unmarshal_map (json_text (JObj kvs)) = (map (\<lambda>kv. (fst kv, canon (snd kv))) kvs, True)"
  using json_parse_text [OF goodJson_wf [OF assms]] conv_any_id [OF goodJson_conv [OF assms]]
  by (simp add: unmarshal_map_def del: conv_any.simps)

lemma goodJson_mapobj: "\<forall>kv \<in> set kvs. valid_utf8 (fst kv) \<and> goodJson (snd kv) \<Longrightarrow> goodJson (mapobj kvs)"
proof -
  assume a: "\<forall>kv \<in> set kvs. valid_utf8 (fst kv) \<and> goodJson (snd kv)"
  have "goodJson (jget kvs k)" for k
    using a by (fastforce simp: jget_def assoc_last_def split: option.split dest!: map_of_SomeD)
  with a show ?thesis by (auto simp: mapobj_def map_entries_def)
qed

lemma unmarshal_mapobj:
  assumes "\<forall>kv \<in> set kvs. valid_utf8 (fst kv) \<and> goodJson (snd kv)"
  shows "\<exists>m. unmarshal_map (json_text (mapobj kvs)) = (m, True) \<and> (\<forall>k. jget m k = canon (jget kvs k))"
  using unmarshal_printed [OF goodJson_mapobj [OF assms, unfolded mapobj_def]]
  by (simp add: mapobj_def jget_canon jget_map_entries)

lemma ascii_runes: "list_all (\<lambda>c. byte c < 128) s \<Longrightarrow> runes s = map byte s"
  by (induction s) (auto simp: runes_def chunks_ascii simp del: chunks.simps(2))

lemma ascii_valid: "list_all (\<lambda>c. byte c < 128) s \<Longrightarrow> valid_utf8 s"
proof -
  assume a: "list_all (\<lambda>c. byte c < 128) s"
  then have "concat (map (encodeRune \<circ> byte) s) = s" by (induction s) (auto simp: encodeRune_ascii)
  with ascii_runes [OF a] show ?thesis by (simp add: valid_utf8_def sanitize_def of_runes_def)
qed

lemma rne_le: "rne num den \<le> num + 1"
  using div_le_dividend [of num den] by (auto simp: rne_def Let_def le_SucI)

lemma f64_of_frac_nat:
  assumes "0 < n"
  shows "f64_of_frac n 1 = (let k = max (int (bitlen n) - 53) (- 1074);
      m = (if k \<ge> 0 then rne n (2 ^ nat k) else rne (n * 2 ^ nat (- k)) 1)
    in if int (bitlen m) + k > 1024 then None else Some (m, k))"
proof -
  have b: "0 < bitlen n" "2 ^ (bitlen n - 1) \<le> n" using bitlen_bounds [OF assms] by auto
  have pred: "nat (int k - 1) = k - 1" for k :: nat by linarith
  have one: "int (bitlen 1) = 1" by (simp add: bitlen.simps)
  have nb: "(n < 2 ^ nat (int (bitlen n) - int (bitlen 1))) = False" using b(2) unfolding one pred by simp
  have l0: "(int (bitlen n) - int (bitlen 1) \<ge> 0) = True" using b(1) unfolding one by simp
  have e: "int (bitlen n) - int (bitlen 1) - 52 = int (bitlen n) - 53" unfolding one by simp
  have n0: "(n = 0) = False" using assms by simp
  show ?thesis unfolding f64_of_frac_def Let_def mult_1 n0 l0 if_True if_False nb e ..
qed

lemma f64_overflow_int: "\<bar>i\<bar> < 2 ^ 64 \<Longrightarrow> \<not> f64_overflow i 0"
proof (cases "i = 0")
  case True
  then show ?thesis by (simp add: f64_overflow_def f64_of_lit_def f64_of_frac_def)
next
  case False
  assume i: "\<bar>i\<bar> < 2 ^ 64"
  define n where "n = nat \<bar>i\<bar>"
  define k where "k = int (bitlen n) - 53"
  define m where "m = (if k \<ge> 0 then rne n (2 ^ nat k) else rne (n * 2 ^ nat (- k)) 1)"
  have n: "0 < n" "n < 2 ^ 64" using i False by (simp_all add: n_def nat_less_iff)
  have k: "k \<le> 11" "- 53 \<le> k" using bitlen_le [OF n(2)] by (simp_all add: k_def)
  have "m < 2 ^ 118"
  proof (cases "k \<ge> 0")
    case True
    then have "m \<le> n + 1" using rne_le by (simp add: m_def)
    also have "\<dots> < 2 ^ 118" using n by simp
    finally show ?thesis .
  next
    case F: False
    then have "nat (- k) \<le> 53" using k by linarith
    then have "(2 :: nat) ^ nat (- k) \<le> 2 ^ 53" by (intro power_increasing) simp_all
    then have "n * 2 ^ nat (- k) \<le> 2 ^ 64 * 2 ^ 53" using n by (intro mult_mono) simp_all
    then show ?thesis using F by (simp add: m_def rne_one)
  qed
  then have "bitlen m \<le> 118" by (rule bitlen_le)
  moreover have "max (int (bitlen n) - 53) (- 1074) = k" using k by (simp add: k_def)
  ultimately have "f64_of_frac n 1 = Some (m, k)"
    using k by (simp add: f64_of_frac_nat [OF n(1), unfolded One_nat_def] m_def [symmetric, unfolded One_nat_def] Let_def)
  then show ?thesis by (simp add: f64_overflow_def f64_of_lit_def n_def)
qed

lemma goodJson_int [simp]: "\<bar>i\<bar> < 2 ^ 64 \<Longrightarrow> goodJson (intJson i)"
  using f64_overflow_int [of i] by (simp add: intJson_def)

section \<open>Decoding a printed value\<close>

lemma unmarshal_text: "wf_json v \<Longrightarrow> unmarshal fs (json_text v) a = decode_obj fs (canon v) a"
  by (simp add: unmarshal_def json_parse_text)

lemma find_name: "find (EqualFold k) (map fst fs) = Some k \<Longrightarrow> find (\<lambda>f. EqualFold k (fst f)) fs = find (\<lambda>f. fst f = k) fs"
  by (induction fs) (auto split: if_splits)

end
