(* ===== verification/Tool_Facts.thy ===== *)
theory Tool_Facts
  imports Tools Json_Facts Agent_Tools
begin

text \<open>
  From the answers of the services to the finalizer: what the clients accept, the tools print and the agent
  reads again, through two JSON texts, is what the services said; and what the agent asks the tools for on its own
  is what they ask the services for.
\<close>

section \<open>The evidence\<close>

definition in32 :: "int \<Rightarrow> bool" where "in32 i \<longleftrightarrow> - (2 ^ 31) \<le> i \<and> i \<le> 2 ^ 31 - 1"
definition in64 :: "int \<Rightarrow> bool" where "in64 i \<longleftrightarrow> min_int64 \<le> i \<and> i \<le> max_int64"

definition wireOk :: "reviewEvidenceWire \<Rightarrow> bool" where
  "wireOk w \<longleftrightarrow> list_all valid_utf8 [rw_Content w, rw_PicInfo w, rw_VideoInfo w, rw_ReplyContent w, rw_AppealReason w,
       rw_AppealContent w, rw_ReviewCreatedAt w, rw_ReviewUpdatedAt w] \<and>
     list_all in32 [rw_Score w, rw_ServiceScore w, rw_ExpressScore w, rw_ReviewStatus w, rw_AppealStatus w] \<and>
     list_all in64 [rw_ReviewID w, rw_OrderID w, rw_StoreID w, rw_UserID w, rw_SkuID w, rw_SpuID w, rw_UserTotalReviews w, rw_EvidenceVersion w]"

definition evOk :: "ReviewEvidence \<Rightarrow> bool" where
  "evOk w \<longleftrightarrow> list_all valid_utf8 [ev_Content w, ev_PicInfo w, ev_VideoInfo w, ev_ReplyContent w, ev_AppealReason w,
       ev_AppealContent w, ev_ReviewCreatedAt w, ev_ReviewUpdatedAt w] \<and>
     list_all in32 [ev_Score w, ev_ServiceScore w, ev_ExpressScore w, ev_ReviewStatus w, ev_AppealStatus w] \<and>
     list_all in64 [ev_ReviewID w, ev_OrderID w, ev_StoreID w, ev_UserID w, ev_SkuID w, ev_SpuID w, ev_UserTotalReviews w, ev_EvidenceVersion w]"

lemma field_keeps:
  "\<lbrakk>P a; \<And>s. valid_utf8 s \<Longrightarrow> P (upd_s (\<lambda>_. s) a); utf8_json v\<rbrakk> \<Longrightarrow> P (fst (str_f upd_s v a))"
  "\<lbrakk>P a; \<And>b. P (upd_b (\<lambda>_. b) a)\<rbrakk> \<Longrightarrow> P (fst (bool_f upd_b v a))"
  "\<lbrakk>P a; \<And>d. P (upd_f (\<lambda>_. d) a)\<rbrakk> \<Longrightarrow> P (fst (float_f upd_f v a))"
  "\<lbrakk>P a; \<And>i. in32 i \<Longrightarrow> P (upd_i (\<lambda>_. i) a)\<rbrakk> \<Longrightarrow> P (fst (int32_f upd_i v a))"
  "\<lbrakk>P a; \<And>i. in64 i \<Longrightarrow> P (upd_i (\<lambda>_. i) a)\<rbrakk> \<Longrightarrow> P (fst (int64_f upd_i v a))"
  "\<lbrakk>P a; \<And>i. in64 i \<Longrightarrow> P (upd_i (\<lambda>_. i) a)\<rbrakk> \<Longrightarrow> P (fst (jsonInt64_f upd_i v a))"
  subgoal by (auto simp: str_f_def split: json.split)
  subgoal by (auto simp: bool_f_def split: json.split)
  subgoal by (auto simp: float_f_def split: json.split)
  subgoal by (auto simp: int_f_def in32_def split: json.split)
  subgoal by (auto simp: int_f_def in64_def split: json.split)
  subgoal using ParseInt64_bounds
    by (auto simp: jsonInt64_f_def in64_def min_int64_def max_int64_def prod_eq_iff split: json.split prod.split)
  done

lemma wireFields_keep: "\<forall>f \<in> set wireFields. \<forall>v a. utf8_json v \<longrightarrow> wireOk a \<longrightarrow> wireOk (fst (snd f v a))"
  unfolding wireFields_def
  by (simp only: list.set ball_simps insert_iff snd_conv) (intro conjI allI impI TrueI; (rule field_keeps [where P = wireOk]; simp add: wireOk_def)?)

lemma ptr_obj: "v \<noteq> JNull \<Longrightarrow> ptr_f dec zero get upd v a =
    (let (b, ok) = dec v (case get a of Some b \<Rightarrow> b | None \<Rightarrow> zero) in (upd (\<lambda>_. Some b) a, ok))"
  by (cases v) (simp_all add: ptr_f_def)

lemma ptr_keeps:
  assumes "\<And>v a. utf8_json v \<Longrightarrow> Q a \<Longrightarrow> Q (fst (dec v a))" "Q zero" "utf8_json v" "\<forall>w. a = Some w \<longrightarrow> Q w"
  shows "\<forall>w. fst (ptr_f dec zero id (\<lambda>f. f) v a) = Some w \<longrightarrow> Q w"
proof -
  have "Q (fst (dec v (case a of Some b \<Rightarrow> b | None \<Rightarrow> zero)))"
    using assms(2,3,4) by (intro assms(1)) (auto split: option.split)
  then show ?thesis by (cases v) (simp_all add: ptr_f_def case_prod_beta Let_def)
qed

lemma evidenceResponse_ok: "evidenceResponse body = (Some ev, True) \<Longrightarrow> evOk ev"
proof -
  assume r: "evidenceResponse body = (Some ev, True)"
  let ?fs = "[(''evidence'', ptr_f (decode_obj wireFields) zeroWire id (\<lambda>f. f))]"
  let ?P = "\<lambda>o'. \<forall>w. o' = Some w \<longrightarrow> wireOk w"
  have z: "wireOk zeroWire"
    by (simp add: wireOk_def zeroWire_def in32_def in64_def min_int64_def max_int64_def valid_utf8_def sanitize_def)
  have "\<forall>f \<in> set ?fs. \<forall>v a. utf8_json v \<longrightarrow> ?P a \<longrightarrow> ?P (fst (snd f v a))"
    using ptr_keeps [of wireOk "decode_obj wireFields" zeroWire, OF decode_obj_keeps [OF wireFields_keep] z] by simp
  then have "?P (fst (unmarshal ?fs body None))" by (rule unmarshal_keeps) simp
  moreover obtain w where "fst (unmarshal ?fs body None) = Some w" "ev = the (toDomain (Some w))"
    using r by (cases "fst (unmarshal ?fs body None)") (auto simp: evidenceResponse_def toDomain_def Let_def split: prod.splits if_splits)
  ultimately show ?thesis by (simp add: wireOk_def evOk_def toDomain_def)
qed

lemma GetReviewEvidence_ok: "GetReviewEvidence http c i w = (Inr ev, w1) \<Longrightarrow> evOk ev"
  by (auto simp: GetReviewEvidence_def Let_def split: if_splits prod.splits HttpReply.splits option.splits dest: evidenceResponse_ok)

text \<open>A number of the averages that prints as a number a \<open>float64\<close> can hold.\<close>

definition floatPrints :: "decimal \<Rightarrow> bool" where
  "floatPrints d \<longleftrightarrow> goodJson (float_json (fst d) (snd d))"

lemma in64_int [simp]: "in64 i \<Longrightarrow> goodJson (intJson i)"
  by (rule goodJson_int) (auto simp: in64_def min_int64_def max_int64_def)

lemma in32_int [simp]: "in32 i \<Longrightarrow> goodJson (intJson i)"
  by (rule goodJson_int) (auto simp: in32_def)

lemma evidence_good: "evOk ev \<Longrightarrow> floatPrints (ev_UserAvgScore ev) \<Longrightarrow> floatPrints (ev_UserLowScoreRate ev) \<Longrightarrow> goodJson (evidenceJson ev)"
  by (simp add: evidenceJson_def evOk_def floatPrints_def ascii_valid)

text \<open>What the agent finds in an observation that is the print of a map.\<close>

lemma payload_of_map:
  assumes "sr_Output item = json_text (mapobj kvs)" "\<forall>kv \<in> set kvs. valid_utf8 (fst kv) \<and> goodJson (snd kv)"
  shows "\<exists>m. stepPayload item = Some m \<and> (\<forall>k. jget m k = canon (jget kvs k))"
proof -
  obtain m where m: "unmarshal_map (json_text (mapobj kvs)) = (m, True)" "\<forall>k. jget m k = canon (jget kvs k)"
    using unmarshal_mapobj [OF assms(2)] by blast
  have "\<not> blank (json_text (mapobj kvs))"
    unfolding blank_iff mapobj_def json_text.simps append_Cons append_Nil runes_def
    by (subst chunks_ascii) (simp_all add: isSpace_def in_rng_def)
  with m assms(1) show ?thesis by (simp add: stepPayload_def)
qed

abbreviation canonObj :: "jobject \<Rightarrow> jobject" where
  "canonObj kvs \<equiv> map (\<lambda>kv. (fst kv, canon (snd kv))) kvs"

definition small :: "int \<Rightarrow> bool" where "small i \<longleftrightarrow> \<bar>i\<bar> < 2 ^ 53"

lemma anyInt64_small: "small i \<Longrightarrow> anyInt64 (canon (intJson i)) = i"
  by (simp add: intJson_def anyInt64_def int64_of_num_def int64_of_lit_int small_def)

lemma any_simps [simp]: "anyInt64 JNull = 0" "anyBool (JBool b) = b" "anyBool JNull = False" "anyString (JStr s) = s" "anyString JNull = []"
  by (simp_all add: anyInt64_def anyBool_def anyString_def)

definition evObj :: "ReviewEvidence \<Rightarrow> jobject" where
  "evObj ev = canonObj (the (as_obj (evidenceJson ev)))"

definition smallIds :: "ReviewEvidence \<Rightarrow> bool" where
  "smallIds ev \<longleftrightarrow> small (ev_ReviewID ev) \<and> small (ev_OrderID ev) \<and> small (ev_StoreID ev) \<and> small (ev_UserID ev) \<and> small (ev_SkuID ev) \<and>
     small (ev_SpuID ev) \<and> small (ev_EvidenceVersion ev)"

lemma firstInt64_0: "0 \<le> c \<Longrightarrow> firstInt64 c [i, 0] = firstInt64 c [i]"
  by simp

lemma in32_score: "in32 i \<Longrightarrow> to_int32 (anyInt64 (canon (intJson i))) = i"
  by (subst anyInt64_small) (auto simp: in32_def small_def to_int32_id)

lemma evObj_fields:
  assumes "smallIds ev" "evOk ev"
  shows "fieldInt64 (evObj ev) ''reviewId'' = ev_ReviewID ev" "fieldInt64 (evObj ev) ''review_id'' = 0"
    "fieldInt64 (evObj ev) ''orderId'' = ev_OrderID ev" "fieldInt64 (evObj ev) ''order_id'' = 0"
    "fieldInt64 (evObj ev) ''storeId'' = ev_StoreID ev" "fieldInt64 (evObj ev) ''store_id'' = 0"
    "fieldInt64 (evObj ev) ''userId'' = ev_UserID ev" "fieldInt64 (evObj ev) ''user_id'' = 0"
    "fieldInt64 (evObj ev) ''skuId'' = ev_SkuID ev" "fieldInt64 (evObj ev) ''sku_id'' = 0"
    "fieldInt64 (evObj ev) ''spuId'' = ev_SpuID ev" "fieldInt64 (evObj ev) ''spu_id'' = 0"
    "fieldInt64 (evObj ev) ''evidenceVersion'' = ev_EvidenceVersion ev" "fieldInt64 (evObj ev) ''evidence_version'' = 0"
    "to_int32 (fieldInt64 (evObj ev) ''score'') = ev_Score ev" "fieldString (evObj ev) ''content'' = ev_Content ev"
    "fieldBool (evObj ev) ''hasMedia'' = ev_HasMedia ev" "fieldBool (evObj ev) ''has_media'' = False"
    "fieldBool (evObj ev) ''isFirstReview'' = ev_IsFirstReview ev" "fieldBool (evObj ev) ''is_first_review'' = False"
  using assms
  by (simp_all add: evObj_def evidenceJson_def fieldInt64_def fieldString_def fieldBool_def jget_def smallIds_def evOk_def
      anyInt64_small in32_score)

lemma executeEvidence_Inr: "executeEvidence now http c input w = (Inr obs, w1) \<Longrightarrow> \<exists>rid ev. evidenceInput input = (rid, True) \<and>
    0 < rid \<and> in64 rid \<and> GetReviewEvidence http c rid w = (Inr ev, w1) \<and>
    obs = json_text (evidenceObservation (durationMS (now w) (now w1)) rid ev)"
proof -
  assume e: "executeEvidence now http c input w = (Inr obs, w1)"
  have "in64 (fst (evidenceInput input))"
    unfolding evidenceInput_def
    by (rule unmarshal_keeps) (auto simp: int_f_def in64_def min_int64_def max_int64_def split: json.split)
  with e show ?thesis
    by (cases "evidenceInput input") (auto simp: executeEvidence_def Let_def split: if_splits prod.splits sum.splits)
qed

lemma duration_small: "in64 a \<Longrightarrow> in64 b \<Longrightarrow> \<bar>durationMS a b\<bar> < 2 ^ 64"
  by (auto simp: durationMS_def in64_def min_int64_def max_int64_def)

lemma evidence_read:
  assumes "executeEvidence now http c input w = (Inr obs, w1)" "\<forall>w. in64 (now w)"
    and "sr_ToolName item = ''get_review_evidence''" "sr_Output item = obs"
    and "\<forall>ev. fst (GetReviewEvidence http c (fst (evidenceInput input)) w) = Inr ev \<longrightarrow>
      smallIds ev \<and> floatPrints (ev_UserAvgScore ev) \<and> floatPrints (ev_UserLowScoreRate ev)"
  shows "\<exists>ev. GetReviewEvidence http c (fst (evidenceInput input)) w = (Inr ev, w1) \<and> smallIds ev \<and> evOk ev \<and>
    (\<forall>st. contextStep item st = readEvidence (evObj ev) st)"
proof -
  obtain rid ev where e: "evidenceInput input = (rid, True)" "in64 rid" "GetReviewEvidence http c rid w = (Inr ev, w1)"
    "obs = json_text (evidenceObservation (durationMS (now w) (now w1)) rid ev)"
    using executeEvidence_Inr [OF assms(1)] by blast
  have ev: "smallIds ev" "floatPrints (ev_UserAvgScore ev)" "floatPrints (ev_UserLowScoreRate ev)" using assms(5) e(1,3) by auto
  have ok: "evOk ev" by (rule GetReviewEvidence_ok [OF e(3)])
  let ?kvs = "[(''tool'', JStr ''get_review_evidence''), (''source'', JStr ''review-service''),
     (''latency_ms'', intJson (durationMS (now w) (now w1))), (''review_id'', intJson rid), (''evidence'', evidenceJson ev)]"
  have "sr_Output item = json_text (mapobj ?kvs)" using assms(4) e(4) by (simp add: evidenceObservation_def)
  moreover have "\<forall>kv \<in> set ?kvs. valid_utf8 (fst kv) \<and> goodJson (snd kv)"
    using evidence_good [OF ok ev(2,3)] duration_small assms(2) e(2) by (simp add: ascii_valid)
  ultimately obtain m where m: "stepPayload item = Some m" "\<forall>k. jget m k = canon (jget ?kvs k)"
    using payload_of_map by blast
  have "jget ?kvs ''evidence'' = evidenceJson ev" by (simp add: jget_def)
  then have "objField m ''evidence'' = Some (evObj ev)"
    using m(2) by (simp add: objField_def evObj_def evidenceJson_def)
  then have "\<forall>st. contextStep item st = readEvidence (evObj ev) st" by (simp add: contextStep_def m(1) assms(3))
  with e(1,3) ev(1) ok show ?thesis by auto
qed

section \<open>The campaign\<close>

definition cxOk :: "CampaignContext \<Rightarrow> bool" where
  "cxOk x \<longleftrightarrow> list_all valid_utf8 [cx_ActivityID x, cx_Status x, cx_PolicyVersion x, cx_CouponTemplateID x] \<and>
     list_all in32 [cx_UserGrantLimit x, cx_UserGrantedCount x] \<and>
     list_all in64 [cx_StoreID x, cx_RemainingStock x, cx_RemainingBudgetCent x]"

lemma campaignFields_keep: "\<forall>f \<in> set campaignFields. \<forall>v a. utf8_json v \<longrightarrow> cxOk a \<longrightarrow> cxOk (fst (snd f v a))"
  unfolding campaignFields_def
  by (simp only: list.set ball_simps insert_iff snd_conv) (intro conjI allI impI TrueI; (rule field_keeps [where P = cxOk]; simp add: cxOk_def)?)

lemma zeroCampaign_ok: "cxOk zeroCampaign"
  by (simp add: cxOk_def zeroCampaign_def in32_def in64_def min_int64_def max_int64_def valid_utf8_def sanitize_def)

lemma envelope_keeps:
  assumes "\<And>v a. utf8_json v \<Longrightarrow> P a \<Longrightarrow> P (fst (dec v a))" "P zero"
  shows "P (en_Data (fst (unmarshal (envelopeFields dec) s (zeroEnvelope zero))))"
proof (rule unmarshal_keeps [where P = "\<lambda>e. P (en_Data e)"])
  show "\<forall>f \<in> set (envelopeFields dec). \<forall>v a. utf8_json v \<longrightarrow> P (en_Data a) \<longrightarrow> P (en_Data (fst (snd f v a)))"
    using assms(1) by (auto simp: envelopeFields_def int_f_def str_f_def Let_def case_prod_beta split: json.split)
qed (simp add: zeroEnvelope_def assms(2))

lemma campaignEnvelope_ok:
  "cxOk (en_Data (fst (unmarshal (envelopeFields (decode_obj campaignFields)) raw (zeroEnvelope zeroCampaign))))"
  by (rule envelope_keeps [where P = cxOk, OF decode_obj_keeps [where P = cxOk, OF campaignFields_keep] zeroCampaign_ok])

lemma readCampaignReply_ok: "readCampaignReply raw = Inr cx \<Longrightarrow> cxOk cx"
  using unmarshal_keeps [where P = cxOk, OF campaignFields_keep zeroCampaign_ok, where s = raw] campaignEnvelope_ok [of raw]
  by (auto simp: readCampaignReply_def Let_def split: if_splits prod.splits)

lemma GetCampaignContext_ok: "GetCampaignContext http c req w = (Inr cx, w1) \<Longrightarrow> cxOk cx"
  by (auto simp: GetCampaignContext_def Let_def split: if_splits prod.splits HttpReply.splits dest: readCampaignReply_ok)

definition cxObj :: "CampaignContext \<Rightarrow> jobject" where
  "cxObj cx = canonObj (the (as_obj (campaignJson cx)))"

lemma campaignInputFields_keep: "\<forall>f \<in> set campaignInputFields. \<forall>v a. utf8_json v \<longrightarrow>
    (valid_utf8 (ci_ActivityID a) \<and> list_all in64 [ci_StoreID a, ci_UserID a, ci_SkuID a, ci_SpuID a]) \<longrightarrow>
    (valid_utf8 (ci_ActivityID (fst (snd f v a))) \<and>
     list_all in64 [ci_StoreID (fst (snd f v a)), ci_UserID (fst (snd f v a)), ci_SkuID (fst (snd f v a)), ci_SpuID (fst (snd f v a))])"
  by (auto simp: campaignInputFields_def str_f_def int_f_def in64_def split: json.splits)

lemma campaignInput_good: "goodJson (campaignInputJson (fst (unmarshal campaignInputFields input zeroCampaignInput)))"
proof -
  let ?P = "\<lambda>a. valid_utf8 (ci_ActivityID a) \<and> list_all in64 [ci_StoreID a, ci_UserID a, ci_SkuID a, ci_SpuID a]"
  have "?P (fst (unmarshal campaignInputFields input zeroCampaignInput))"
    by (rule unmarshal_keeps [where P = ?P, OF campaignInputFields_keep])
      (simp add: zeroCampaignInput_def in64_def min_int64_def max_int64_def valid_utf8_def sanitize_def)
  then show ?thesis by (simp add: campaignInputJson_def omitEmpty_def omitZero_def ascii_valid)
qed

lemma campaign_good: "cxOk cx \<Longrightarrow> goodJson (campaignJson cx)"
  by (simp add: campaignJson_def cxOk_def ascii_valid)

lemma executeCampaign_Inr: "executeCampaign now http (Some c) input w = (Inr obs, w1) \<Longrightarrow> \<exists>req cx.
    unmarshal campaignInputFields input zeroCampaignInput = (req, True) \<and> 0 < ci_StoreID req \<and> 0 < ci_UserID req \<and>
    GetCampaignContext http c (campaignRequestOf req) w = (Inr cx, w1) \<and>
    obs = json_text (campaignObservation (durationMS (now w) (now w1)) req cx)"
  by (auto simp: executeCampaign_def Let_def split: if_splits prod.splits sum.splits)

lemma campaign_read:
  assumes "executeCampaign now http (Some c) input w = (Inr obs, w1)" "\<forall>w. in64 (now w)"
    and "sr_ToolName item = ''get_campaign_context''" "sr_Output item = obs"
  shows "\<exists>req cx. unmarshal campaignInputFields input zeroCampaignInput = (req, True) \<and>
    GetCampaignContext http c (campaignRequestOf req) w = (Inr cx, w1) \<and> cxOk cx \<and>
    (\<forall>st. contextStep item st = apfst (readCampaign (cxObj cx)) st)"
proof -
  obtain req cx where e: "unmarshal campaignInputFields input zeroCampaignInput = (req, True)"
    "GetCampaignContext http c (campaignRequestOf req) w = (Inr cx, w1)"
    "obs = json_text (campaignObservation (durationMS (now w) (now w1)) req cx)"
    using executeCampaign_Inr [OF assms(1)] by blast
  have ok: "cxOk cx" by (rule GetCampaignContext_ok [OF e(2)])
  let ?kvs = "[(''tool'', JStr ''get_campaign_context''), (''source'', JStr ''seckill-service''),
     (''latency_ms'', intJson (durationMS (now w) (now w1))), (''request'', campaignInputJson req), (''campaign'', campaignJson cx)]"
  have "sr_Output item = json_text (mapobj ?kvs)" using assms(4) e(3) by (simp add: campaignObservation_def)
  moreover have "\<forall>kv \<in> set ?kvs. valid_utf8 (fst kv) \<and> goodJson (snd kv)"
    using campaign_good [OF ok] campaignInput_good [of input] duration_small assms(2) e(1) by (simp add: ascii_valid)
  ultimately obtain m where m: "stepPayload item = Some m" "\<forall>k. jget m k = canon (jget ?kvs k)"
    using payload_of_map by blast
  have "jget ?kvs ''campaign'' = campaignJson cx" by (simp add: jget_def)
  then have "objField m ''campaign'' = Some (cxObj cx)"
    using m(2) by (simp add: objField_def cxObj_def campaignJson_def)
  then have "\<forall>st. contextStep item st = apfst (readCampaign (cxObj cx)) st" by (simp add: contextStep_def m(1) assms(3))
  with e(1,2) ok show ?thesis by auto
qed

definition smallCampaign :: "CampaignContext \<Rightarrow> bool" where
  "smallCampaign cx \<longleftrightarrow> small (cx_RemainingStock cx) \<and> small (cx_RemainingBudgetCent cx)"

lemma readCampaign_cxObj:
  assumes "smallCampaign cx" "cxOk cx"
  shows "readCampaign (cxObj cx) dc = dc \<lparr>
     dc_ActivityID := defaultIfBlank (dc_ActivityID dc) (cx_ActivityID cx),
     dc_PolicyVersion := defaultIfBlank (dc_PolicyVersion dc) (cx_PolicyVersion cx),
     dc_CouponTemplateID := defaultIfBlank (dc_CouponTemplateID dc) (cx_CouponTemplateID cx),
     dc_CampaignActive := EqualFold (cx_Status cx) ''ACTIVE'', dc_ProductEligible := cx_ProductEligible cx,
     dc_UserEligible := cx_UserEligible cx, dc_RemainingStock := cx_RemainingStock cx,
     dc_RemainingBudgetCent := cx_RemainingBudgetCent cx, dc_UserGrantLimit := cx_UserGrantLimit cx,
     dc_UserGrantedCount := cx_UserGrantedCount cx \<rparr>"
  using assms
  by (simp add: readCampaign_def cxObj_def campaignJson_def fieldInt64_def fieldString_def fieldBool_def jget_def
      smallCampaign_def cxOk_def anyInt64_small in32_score)

lemma evidenceFields_evObj:
  assumes "smallIds ev" "evOk ev"
  shows "evidenceFields (evObj ev) zeroContext = zeroContext \<lparr>
     dc_ReviewID := max 0 (ev_ReviewID ev), dc_StoreID := max 0 (ev_StoreID ev), dc_UserID := max 0 (ev_UserID ev),
     dc_OrderID := max 0 (ev_OrderID ev), dc_SkuID := max 0 (ev_SkuID ev), dc_SpuID := max 0 (ev_SpuID ev),
     dc_Score := ev_Score ev, dc_Content := ev_Content ev, dc_HasMedia := ev_HasMedia ev,
     dc_IsFirstReview := ev_IsFirstReview ev, dc_EvidenceVersion := max 0 (ev_EvidenceVersion ev) \<rparr>"
  by (simp add: evidenceFields_def evObj_fields [OF assms] zeroContext_def max_def)

section \<open>What the services said is what the coupon is requested for\<close>

lemma context_rag: "\<exists>ids seen. contextStep r st = (fst st \<lparr> dc_EvidenceIDs := ids \<rparr>, seen)" if "sr_ToolName r = ''retrieve_rag''"
proof -
  have chunk: "\<exists>ids seen. addChunkID x st = (fst st \<lparr> dc_EvidenceIDs := ids \<rparr>, seen)" for x and st :: "decisionContext \<times> gostring list"
    by (cases st) (auto simp: addChunkID_def addEvidenceID_def Let_def intro: exI [of _ "dc_EvidenceIDs (fst st)"])
  have "\<exists>ids seen. fold addChunkID vs st = (fst st \<lparr> dc_EvidenceIDs := ids \<rparr>, seen)" for vs and st :: "decisionContext \<times> gostring list"
  proof (induction vs arbitrary: st)
    case Nil
    show ?case by (intro exI [of _ "dc_EvidenceIDs (fst st)"] exI [of _ "snd st"]) simp
  next
    case (Cons v vs)
    obtain ids seen where c: "addChunkID v st = (fst st \<lparr> dc_EvidenceIDs := ids \<rparr>, seen)" using chunk by blast
    show ?case using Cons.IH [of "addChunkID v st"] by (auto simp: c)
  qed
  then show ?thesis using that
    by (cases st) (auto simp: contextStep_def collectRAGEvidenceIDs_def split: option.split intro: exI [of _ "dc_EvidenceIDs (fst st)"])
qed

lemma same_evidence_ids: "dc \<lparr> dc_EvidenceIDs := dc_EvidenceIDs dc \<rparr> = dc" for dc :: decisionContext
  by (cases dc) simp

lemma context_evidence: "\<exists>ids seen. readEvidence kvs st = (evidenceFields kvs (fst st) \<lparr> dc_EvidenceIDs := ids \<rparr>, seen)"
proof -
  have "\<exists>ids seen. addEvidenceID eid (dc, l) = (dc \<lparr> dc_EvidenceIDs := ids \<rparr>, seen)" for eid and dc :: decisionContext and l
    by (auto simp: addEvidenceID_def intro: exI [of _ "dc_EvidenceIDs dc"] simp: same_evidence_ids)
  moreover have "\<exists>ids. dc = dc \<lparr> dc_EvidenceIDs := ids \<rparr>" for dc :: decisionContext
    by (rule exI [of _ "dc_EvidenceIDs dc"]) (simp add: same_evidence_ids)
  ultimately show ?thesis by (cases st) (simp add: readEvidence_def Let_def)
qed

lemma context_stats: "sr_ToolName s = ''get_review_stats'' \<Longrightarrow> contextStep s st = st"
  by (simp add: contextStep_def split: option.split)

text \<open>C31: in the history the agent writes (evidence, statistics, RAG cases, campaign context) the finalizer reads what the
  services said: the coupon is requested for the review, user, store and product of the evidence, under the campaign
  the seckill service named, and only when that campaign is active, its product and user are eligible, and stock,
  budget and the limit of the user are not used up. The numbers pass through \<open>float64\<close>, hence the bound on them.\<close>

theorem facts_reach_grant:
  assumes tools: "executeEvidence now http rv input w = (Inr obs, w1)" "executeCampaign now http (Some k) input' w' = (Inr obs', w2)"
    and history: "fi_History fin = [e, s, r, c]" "map sr_ToolName [e, s, r, c] = [''get_review_evidence'', ''get_review_stats'', ''retrieve_rag'', ''get_campaign_context'']"
      "sr_Output e = obs" "sr_Output c = obs'"
    and clock: "\<forall>w. in64 (now w)"
    and small: "\<forall>ev. fst (GetReviewEvidence http rv (fst (evidenceInput input)) w) = Inr ev \<longrightarrow>
        smallIds ev \<and> floatPrints (ev_UserAvgScore ev) \<and> floatPrints (ev_UserLowScoreRate ev)"
      "\<forall>cx. fst (GetCampaignContext http k (campaignRequestOf (fst (unmarshal campaignInputFields input' zeroCampaignInput))) w') = Inr cx \<longrightarrow>
        smallCampaign cx"
  shows "\<exists>ev cx. fst (GetReviewEvidence http rv (fst (evidenceInput input)) w) = Inr ev \<and>
    fst (GetCampaignContext http k (campaignRequestOf (fst (unmarshal campaignInputFields input' zeroCampaignInput))) w') = Inr cx \<and>
    (let req = grantRequest (finalizeContext fin) scene in
       gr_ReviewID req = max 0 (ev_ReviewID ev) \<and> gr_StoreID req = max 0 (ev_StoreID ev) \<and> gr_UserID req = max 0 (ev_UserID ev) \<and>
       gr_ProductID req = (if 0 < ev_SkuID ev then ev_SkuID ev else max 0 (ev_SpuID ev)) \<and> gr_Rating req = ev_Score ev \<and>
       gr_HasImage req = ev_HasMedia ev \<and> gr_IsFirstReview req = ev_IsFirstReview ev \<and>
       gr_EvidenceVersion req = max 0 (ev_EvidenceVersion ev) \<and> gr_CouponTemplateID req = TrimSpace (cx_CouponTemplateID cx) \<and>
       (TrimSpace (cx_ActivityID cx) = cx_ActivityID cx \<and> cx_ActivityID cx \<noteq> [] \<longrightarrow> gr_ActivityID req = cx_ActivityID cx)) \<and>
    (grantPrecheck True d (finalizeContext fin) = None \<longrightarrow>
       EqualFold (cx_Status cx) ''ACTIVE'' \<and> cx_ProductEligible cx \<and> cx_UserEligible cx \<and> 0 < cx_RemainingStock cx \<and>
       0 < cx_RemainingBudgetCent cx \<and> \<not> (0 < cx_UserGrantLimit cx \<and> cx_UserGrantLimit cx \<le> cx_UserGrantedCount cx))"
proof -
  have names: "sr_ToolName e = ''get_review_evidence''" "sr_ToolName s = ''get_review_stats''" "sr_ToolName r = ''retrieve_rag''"
    "sr_ToolName c = ''get_campaign_context''" using history(2) by simp_all
  obtain ev where ev: "GetReviewEvidence http rv (fst (evidenceInput input)) w = (Inr ev, w1)" "smallIds ev" "evOk ev"
    "\<forall>st. contextStep e st = readEvidence (evObj ev) st"
    using evidence_read [OF tools(1) clock names(1) history(3) small(1)] by blast
  obtain cx where cx: "GetCampaignContext http k (campaignRequestOf (fst (unmarshal campaignInputFields input' zeroCampaignInput))) w' = (Inr cx, w2)"
    "cxOk cx" "\<forall>st. contextStep c st = apfst (readCampaign (cxObj cx)) st"
    using campaign_read [OF tools(2) clock names(4) history(4)] by force
  have sc: "smallCampaign cx" using small(2) cx(1) by simp
  obtain ids seen where r: "contextStep r (readEvidence (evObj ev) (zeroContext, [])) =
      (fst (readEvidence (evObj ev) (zeroContext, [])) \<lparr> dc_EvidenceIDs := ids \<rparr>, seen)"
    using context_rag [OF names(3)] by blast
  obtain ids' where e: "fst (readEvidence (evObj ev) (zeroContext, [])) = evidenceFields (evObj ev) zeroContext \<lparr> dc_EvidenceIDs := ids' \<rparr>"
    using context_evidence [of "evObj ev" "(zeroContext, [])"] by auto
  have "fst (fold contextStep [e, s, r, c] (zeroContext, [])) = readCampaign (cxObj cx) (evidenceFields (evObj ev) zeroContext \<lparr> dc_EvidenceIDs := ids \<rparr>)"
    by (simp add: ev(4) context_stats [OF names(2)] r cx(3) e)
  then have "extractDecisionContext (fi_History fin) =
      readCampaign (cxObj cx) (evidenceFields (evObj ev) zeroContext \<lparr> dc_EvidenceIDs := ids \<rparr>)"
    by (simp add: extractDecisionContext_def history(1))
  note dc = this [unfolded readCampaign_cxObj [OF sc cx(2)] evidenceFields_evObj [OF ev(2,3)]]
  let ?dc = "finalizeContext fin"
  have z: "dc_ActivityID zeroContext = []" "dc_CouponTemplateID zeroContext = []" by (simp_all add: zeroContext_def)
  have f: "dc_ReviewID ?dc = max 0 (ev_ReviewID ev)" "dc_StoreID ?dc = max 0 (ev_StoreID ev)" "dc_UserID ?dc = max 0 (ev_UserID ev)"
    "dc_SkuID ?dc = max 0 (ev_SkuID ev)" "dc_SpuID ?dc = max 0 (ev_SpuID ev)" "dc_Score ?dc = ev_Score ev" "dc_HasMedia ?dc = ev_HasMedia ev"
    "dc_IsFirstReview ?dc = ev_IsFirstReview ev" "dc_EvidenceVersion ?dc = max 0 (ev_EvidenceVersion ev)"
    "dc_CouponTemplateID ?dc = TrimSpace (cx_CouponTemplateID cx)"
    "TrimSpace (cx_ActivityID cx) = cx_ActivityID cx \<Longrightarrow> cx_ActivityID cx \<noteq> [] \<Longrightarrow> dc_ActivityID ?dc = cx_ActivityID cx"
    "dc_CampaignActive ?dc = EqualFold (cx_Status cx) ''ACTIVE''" "dc_ProductEligible ?dc = cx_ProductEligible cx"
    "dc_UserEligible ?dc = cx_UserEligible cx" "dc_RemainingStock ?dc = cx_RemainingStock cx"
    "dc_RemainingBudgetCent ?dc = cx_RemainingBudgetCent cx" "dc_UserGrantLimit ?dc = cx_UserGrantLimit cx"
    "dc_UserGrantedCount ?dc = cx_UserGrantedCount cx"
    by (simp_all add: finalizeContext_def dc Let_def defaultIfBlank_def z)
  have g: "gr_ReviewID (grantRequest ?dc scene) = dc_ReviewID ?dc" "gr_StoreID (grantRequest ?dc scene) = dc_StoreID ?dc"
    "gr_UserID (grantRequest ?dc scene) = dc_UserID ?dc" "gr_ProductID (grantRequest ?dc scene) = firstInt64 0 [dc_SkuID ?dc, dc_SpuID ?dc]"
    "gr_Rating (grantRequest ?dc scene) = dc_Score ?dc" "gr_HasImage (grantRequest ?dc scene) = dc_HasMedia ?dc"
    "gr_IsFirstReview (grantRequest ?dc scene) = dc_IsFirstReview ?dc" "gr_EvidenceVersion (grantRequest ?dc scene) = dc_EvidenceVersion ?dc"
    "gr_CouponTemplateID (grantRequest ?dc scene) = dc_CouponTemplateID ?dc" "gr_ActivityID (grantRequest ?dc scene) = dc_ActivityID ?dc"
    by (simp_all add: grantRequest_def)
  have p: "firstInt64 0 [max 0 (ev_SkuID ev), max 0 (ev_SpuID ev)] = (if 0 < ev_SkuID ev then ev_SkuID ev else max 0 (ev_SpuID ev))" by simp
  have pre: "grantPrecheck True d ?dc = None \<Longrightarrow> dc_CampaignActive ?dc \<and> dc_ProductEligible ?dc \<and> dc_UserEligible ?dc \<and>
      0 < dc_RemainingStock ?dc \<and> 0 < dc_RemainingBudgetCent ?dc \<and> \<not> (0 < dc_UserGrantLimit ?dc \<and> dc_UserGrantLimit ?dc \<le> dc_UserGrantedCount ?dc)"
    by (auto simp: grantPrecheck_def split: if_splits)
  show ?thesis
    unfolding Let_def g
    by (intro exI [of _ ev] exI [of _ cx] conjI impI) (use ev(1) cx(1) f p pre in \<open>simp_all\<close>)
qed

section \<open>Witness\<close>

definition demoEvidenceJson :: json where
  "demoEvidenceJson = (JObj [(''evidence'', JObj [(''reviewId'', JStr ''1001''), (''storeId'', JNum 3001 0), (''userId'', JNum 2001 0),
     (''skuId'', JNum 5001 0), (''score'', JNum 5 0)])])"

definition demoCampaignJson :: json where
  "demoCampaignJson = (JObj [(''activity_id'', JStr ''A1''), (''status'', JStr ''ACTIVE''), (''remaining_stock'', JNum 3 0),
     (''remaining_budget_cent'', JNum 900 0), (''product_eligible'', JBool True), (''user_eligible'', JBool True)])"

definition demoHttp :: "unit http" where
  "demoHttp m u b w = (Response 200 (if m = ''GET'' then json_text demoEvidenceJson else json_text demoCampaignJson), w)"

definition demoRV :: ReviewServiceClient where "demoRV = NewReviewServiceClient ''http://review'' 0"
definition demoSK :: SeckillClient where "demoSK = NewSeckillClient ''http://seckill'' [] 0"

definition demoEv :: ReviewEvidence where
  "demoEv = the (toDomain (Some (zeroWire \<lparr> rw_ReviewID := 1001, rw_StoreID := 3001, rw_UserID := 2001, rw_SkuID := 5001, rw_Score := 5 \<rparr>)))"

definition wireNames :: "gostring list" where "wireNames = map fst wireFields"

lemma wireNames_eq: "wireNames = [''reviewId'', ''orderId'', ''storeId'', ''userId'', ''skuId'', ''spuId'', ''score'', ''serviceScore'', ''expressScore'',
  ''content'', ''picInfo'', ''videoInfo'', ''hasMedia'', ''reviewStatus'', ''auditPassed'', ''isHidden'', ''hasReply'', ''replyContent'', ''hasAppeal'',
  ''appealReason'', ''appealContent'', ''appealStatus'', ''isFirstReview'', ''userTotalReviews'', ''userAvgScore'', ''userLowScoreRate'',
  ''reviewCreatedAt'', ''reviewUpdatedAt'', ''evidenceVersion'']"
  by (simp add: wireNames_def wireFields_def)

lemma demo_names: "list_all (\<lambda>k. find (EqualFold k) wireNames = Some k) [''reviewId'', ''storeId'', ''userId'', ''skuId'', ''score'']"
  unfolding wireNames_eq by code_simp

lemma wire_find: "list_all (\<lambda>k. find (\<lambda>f. EqualFold k (fst f)) wireFields = find (\<lambda>f. fst f = k) wireFields) [''reviewId'', ''storeId'', ''userId'', ''skuId'', ''score'']"
  using demo_names by (auto simp: wireNames_def intro!: find_name)

lemma demo_numbers: "TrimSpace ''1001'' = ''1001''" "ParseInt64 ''1001'' = (1001, True)" by code_simp+

lemma demo_members: "decode_obj wireFields (canon (snd (hd (the (as_obj demoEvidenceJson))))) zeroWire = (zeroWire \<lparr> rw_ReviewID := 1001, rw_StoreID := 3001, rw_UserID := 2001, rw_SkuID := 5001, rw_Score := 5 \<rparr>, True)"
  using wire_find
  by (simp add: demoEvidenceJson_def decode_obj_def decode_member_def wireFields_def jsonInt64_f_def int_f_def float_f_def demo_numbers min_int64_def max_int64_def)

lemma demo_evidence: "evidenceResponse (json_text demoEvidenceJson) = (Some demoEv, True)"
proof -
  have wf: "wf_json demoEvidenceJson" by (simp add: demoEvidenceJson_def ascii_valid)
  have c: "canon demoEvidenceJson = JObj [(''evidence'', canon (snd (hd (the (as_obj demoEvidenceJson)))))]" by (simp add: demoEvidenceJson_def)
  have n: "canon (snd (hd (the (as_obj demoEvidenceJson)))) \<noteq> JNull" by (simp add: demoEvidenceJson_def)
  show ?thesis
    unfolding evidenceResponse_def unmarshal_text [OF wf] c
    using n by (simp add: decode_obj_def [of "[_]"] decode_member_def ptr_obj demo_members demoEv_def toDomain_def)
qed

lemma demo_cx: "readCampaignReply (json_text demoCampaignJson) = Inr (zeroCampaign \<lparr> cx_ActivityID := ''A1'', cx_Status := ''ACTIVE'', cx_RemainingStock := 3, cx_RemainingBudgetCent := 900,
  cx_ProductEligible := True, cx_UserEligible := True \<rparr>)" 
proof -
  have wf: "wf_json demoCampaignJson" by (simp add: demoCampaignJson_def ascii_valid)
  have pl: "list_all plainName (map fst campaignFields)" unfolding campaignFields_def by (simp only: list.map fst_conv) code_simp
  have pk: "list_all plainName [''activity_id'', ''status'', ''remaining_stock'', ''remaining_budget_cent'', ''product_eligible'', ''user_eligible'']" by code_simp
  have u: "unmarshal campaignFields (json_text demoCampaignJson) zeroCampaign = (zeroCampaign \<lparr> cx_ActivityID := ''A1'', cx_Status := ''ACTIVE'', cx_RemainingStock := 3, cx_RemainingBudgetCent := 900,
  cx_ProductEligible := True, cx_UserEligible := True \<rparr>, True)"
    unfolding unmarshal_text [OF wf] using pk
    by (simp add: demoCampaignJson_def decode_obj_def decode_member_def find_plain [OF _ pl]) (simp add: campaignFields_def str_f_def int_f_def bool_f_def min_int64_def max_int64_def)
  show ?thesis by (simp add: readCampaignReply_def u)
qed

lemma demo_input: "evidenceInput (json_text (mapobj [(''review_id'', intJson 1001)])) = (1001, True)"
proof -
  have m: "mapobj [(''review_id'', intJson 1001)] = JObj [(''review_id'', intJson 1001)]" by (simp add: mapobj_def map_entries_def jget_def)
  have wf: "wf_json (JObj [(''review_id'', intJson 1001)])" by (simp add: intJson_def ascii_valid)
  show ?thesis unfolding evidenceInput_def m unmarshal_text [OF wf]
    by (simp add: decode_obj_def decode_member_def int_f_def intJson_def min_int64_def max_int64_def)
qed
lemma demo_floats: "floatPrints (0, 0)" by (simp add: floatPrints_def float_json_def f64_of_lit_def f64_of_frac_def shortest_def read_nat_def f64_overflow_def)


definition demoBusiness :: ExecutionInput where
  "demoBusiness = \<lparr>ei_SessionID = ''s'', ei_ExecutionID = ''x'', ei_ParentExecutionID = [], ei_Task = ''t'', ei_ReviewID = 0,
     ei_EvidenceVersion = 0, ei_StoreID = 0, ei_UserID = 0, ei_SkuID = 0, ei_SpuID = 0, ei_ActivityID = [], ei_PolicyVersion = []\<rparr>"

definition demoFin :: "gostring \<Rightarrow> gostring \<Rightarrow> FinalizeInput" where
  "demoFin obs obs' = \<lparr>fi_SessionID = ''s'', fi_ExecutionID = ''x'', fi_ParentExecutionID = [], fi_Task = ''t'', fi_Decision = zeroDecision,
     fi_History = map (\<lambda>(name, out). \<lparr>sr_Step = 1, sr_ToolName = name, sr_Action = ''tool_call'', sr_Arguments = [], sr_Output = out, sr_Error = []\<rparr>)
       [(''get_review_evidence'', obs), (''get_review_stats'', []), (''retrieve_rag'', []), (''get_campaign_context'', obs')],
     fi_BusinessContext = demoBusiness\<rparr>"

lemma demo_calls: "GetReviewEvidence demoHttp demoRV 1001 w = (Inr demoEv, w)"
    "GetCampaignContext demoHttp demoSK req w = (Inr (zeroCampaign \<lparr> cx_ActivityID := ''A1'', cx_Status := ''ACTIVE'', cx_RemainingStock := 3, cx_RemainingBudgetCent := 900,
  cx_ProductEligible := True, cx_UserEligible := True \<rparr>), w)"
  by (simp_all add: GetReviewEvidence_def GetCampaignContext_def demoHttp_def demo_evidence demo_cx demoSK_def NewSeckillClient_def trimRightChar_def)

lemma demo_campaign_input: "unmarshal campaignInputFields (json_text (mapobj [(''store_id'', intJson 3001), (''user_id'', intJson 2001)])) zeroCampaignInput
   = (zeroCampaignInput \<lparr> ci_StoreID := 3001, ci_UserID := 2001 \<rparr>, True)"
proof -
  have m: "mapobj [(''store_id'', intJson 3001), (''user_id'', intJson 2001)] = JObj [(''store_id'', intJson 3001), (''user_id'', intJson 2001)]"
    by (simp add: mapobj_def map_entries_def jget_def)
  have wf: "wf_json (JObj [(''store_id'', intJson 3001), (''user_id'', intJson 2001)])" by (simp add: intJson_def ascii_valid)
  have pl: "list_all plainName (map fst campaignInputFields)" unfolding campaignInputFields_def by (simp only: list.map fst_conv) code_simp
  have pk: "list_all plainName [''store_id'', ''user_id'']" by code_simp
  show ?thesis unfolding m unmarshal_text [OF wf] using pk
    by (simp add: decode_obj_def decode_member_def find_plain [OF _ pl]) (simp add: campaignInputFields_def int_f_def intJson_def min_int64_def max_int64_def)
qed

lemma facts_reach_grant_witness:
  "\<exists>obs obs'. executeEvidence (\<lambda>_. 0) demoHttp demoRV (json_text (mapobj [(''review_id'', intJson 1001)])) () = (Inr obs, ()) \<and>
     executeCampaign (\<lambda>_. 0) demoHttp (Some demoSK) (json_text (mapobj [(''store_id'', intJson 3001), (''user_id'', intJson 2001)])) () = (Inr obs', ()) \<and>
     gr_ReviewID (grantRequest (finalizeContext (demoFin obs obs')) ''GOOD_REVIEW'') = 1001 \<and>
     gr_StoreID (grantRequest (finalizeContext (demoFin obs obs')) ''GOOD_REVIEW'') = 3001"
proof -
  obtain obs where o: "executeEvidence (\<lambda>_. 0) demoHttp demoRV (json_text (mapobj [(''review_id'', intJson 1001)])) () = (Inr obs, ())"
    by (simp add: executeEvidence_def demo_input demo_calls)
  obtain obs' where o': "executeCampaign (\<lambda>_. 0) demoHttp (Some demoSK) (json_text (mapobj [(''store_id'', intJson 3001), (''user_id'', intJson 2001)])) () = (Inr obs', ())"
    by (simp add: executeCampaign_def demo_campaign_input demo_calls)
  have "smallIds demoEv \<and> floatPrints (ev_UserAvgScore demoEv) \<and> floatPrints (ev_UserLowScoreRate demoEv)"
    using demo_floats by (simp add: smallIds_def small_def demoEv_def toDomain_def zeroWire_def)
  moreover have "ev_ReviewID demoEv = 1001" "ev_StoreID demoEv = 3001" by (simp_all add: demoEv_def toDomain_def)
  moreover obtain e s r c where h: "fi_History (demoFin obs obs') = [e, s, r, c]" "map sr_ToolName [e, s, r, c] =
      [''get_review_evidence'', ''get_review_stats'', ''retrieve_rag'', ''get_campaign_context'']" "sr_Output e = obs" "sr_Output c = obs'"
    by (simp add: demoFin_def)
  ultimately show ?thesis
    using o o' facts_reach_grant [OF o o' h, where scene = "''GOOD_REVIEW''" and d = zeroDecision]
    by (auto simp: demo_input demo_calls in64_def min_int64_def max_int64_def smallCampaign_def small_def zeroCampaign_def Let_def)
qed

end
