(* ===== verification/Tool_Calls.thy ===== *)
theory Tool_Calls
  imports Tool_Facts
begin

text \<open>
  What the tools ask the services: the requests of \<open>retrieve_rag\<close>, the reply of a grant that comes in an envelope, and the
  arguments the agent builds on its own, which the tools accept and pass on.
\<close>

section \<open>The arguments of retrieve_rag\<close>

text \<open>The list so far has the keys seen, each once, and no empty item.\<close>

definition seenInv :: "gostring list \<times> gostring list \<Rightarrow> bool" where
  "seenInv st \<longleftrightarrow> set (snd st) = ToUpper ` set (fst st) \<and> distinct (map ToUpper (fst st)) \<and> [] \<notin> set (fst st)"

lemma addNew_inv: "seenInv st \<Longrightarrow> item \<noteq> [] \<Longrightarrow> seenInv (addNew item st)"
  by (auto simp: seenInv_def addNew_def Let_def)

lemma addNew_has: "seenInv st \<Longrightarrow> ToUpper item \<in> ToUpper ` set (fst (addNew item st))"
  by (auto simp: seenInv_def addNew_def Let_def)

lemma addNew_mono: "set (fst st) \<subseteq> set (fst (addNew item st))"
  by (auto simp: addNew_def Let_def)

lemma fold_addNew:
  "seenInv st \<Longrightarrow> [] \<notin> set xs \<Longrightarrow> seenInv (fold addNew xs st) \<and> set (fst st) \<subseteq> set (fst (fold addNew xs st)) \<and>
     ToUpper ` set xs \<subseteq> ToUpper ` set (fst (fold addNew xs st))"
proof (induction xs arbitrary: st)
  case (Cons x xs)
  then have s: "seenInv (addNew x st)" "[] \<notin> set xs" using addNew_inv [of st x] by auto
  note IH = Cons.IH [OF s]
  have "ToUpper x \<in> ToUpper ` set (fst (fold addNew xs (addNew x st)))"
    using addNew_has [OF Cons.prems(1), of x] IH by blast
  with IH show ?case using addNew_mono [of st x] by auto
qed simp

lemma appendMissing:
  assumes "[] \<notin> set required"
  shows "distinct (map ToUpper (appendMissingUpperish xs required)) \<and> [] \<notin> set (appendMissingUpperish xs required) \<and>
    ToUpper ` set required \<subseteq> ToUpper ` set (appendMissingUpperish xs required)"
proof -
  have "seenInv (fold addTrimmed ys st)" if "seenInv st" for ys st
    using that by (induction ys arbitrary: st) (auto simp: addTrimmed_def Let_def addNew_inv)
  then have "seenInv (fold addTrimmed xs ([], []))" by (simp add: seenInv_def)
  from fold_addNew [OF this assms] show ?thesis by (simp add: appendMissingUpperish_def seenInv_def)
qed

lemma fallback_not_blank: "TrimSpace (buildFallbackRAGQuery req) \<noteq> []"
proof -
  have "\<not> blank (CHR ''r'' # s)" for s
    unfolding blank_iff runes_def by (subst chunks_ascii) (simp_all add: isSpace_def in_rng_def)
  then show ?thesis by (simp add: buildFallbackRAGQuery_def blank_def)
qed

text \<open>C34: \<open>retrieve_rag\<close> asks review-job only for a positive store, for 10 to 20 cases, with a query that is not blank, and
  with chunk types and aspects that are given once each, whatever their case, and contain the required ones; a request it does
  not send costs an error and nothing else.\<close>

theorem rag_request_wellformed:
  "(\<exists>err. executeRAG now http c input w = (Inl err, w)) \<or>
   (\<exists>req f. executeRAG now http c input w = (let (r, w1) = RetrieveRAG http c req w in (map_sum id (f w1) r, w1)) \<and>
      0 < gq_StoreID req \<and> 10 \<le> gq_TopK req \<and> gq_TopK req \<le> 20 \<and> TrimSpace (gq_QueryText req) \<noteq> [] \<and>
      gq_RetrievalScope req = ''store'' \<and>
      distinct (map ToUpper (gq_Aspects req)) \<and> {''SUMMARY'', ''DECISION''} \<subseteq> ToUpper ` set (gq_Aspects req) \<and>
      distinct (map ToUpper (gq_ChunkTypes req)) \<and> {''REVIEW_SUMMARY'', ''REVIEW_ASPECT'', ''COUPON_DECISION''} \<subseteq> ToUpper ` set (gq_ChunkTypes req) \<and>
      [] \<notin> set (gq_Aspects req) \<union> set (gq_ChunkTypes req))"
proof -
  obtain req0 ok where u: "unmarshal ragInputFields input zeroRAGInput = (req0, ok)" by fastforce
  show ?thesis
  proof (cases "ok \<and> 0 < ri_StoreID req0")
    case False
    then show ?thesis using u by (auto simp: executeRAG_def)
  next
    case True
    let ?in = "completeRAGInput req0"
    let ?req = "ragRequestOf ?in"
    have up: "map ToUpper [''SUMMARY'', ''DECISION''] = [''SUMMARY'', ''DECISION'']"
      "map ToUpper [''review_summary'', ''review_aspect'', ''coupon_decision''] = [''REVIEW_SUMMARY'', ''REVIEW_ASPECT'', ''COUPON_DECISION'']"
      by code_simp+
    have a: "gq_Aspects ?req = appendMissingUpperish xs [''SUMMARY'', ''DECISION'']" if "xs = fst (fold addAspectItem (if ri_Aspects req0 = [] then defaultRAGAspects else ri_Aspects req0) ([], []))" for xs
      by (simp add: ragRequestOf_def completeRAGInput_def Let_def normalizeRAGAspects_def that)
    have t: "gq_ChunkTypes ?req = appendMissingUpperish xs [''review_summary'', ''review_aspect'', ''coupon_decision'']" if "xs = (if ri_ChunkTypes req0 = [] then defaultRAGChunkTypes else ri_ChunkTypes req0)" for xs
      by (simp add: ragRequestOf_def completeRAGInput_def Let_def normalizeRAGChunkTypes_def that)
    have wf: "0 < gq_StoreID ?req \<and> 10 \<le> gq_TopK ?req \<and> gq_TopK ?req \<le> 20 \<and> TrimSpace (gq_QueryText ?req) \<noteq> [] \<and> gq_RetrievalScope ?req = ''store''"
      using True fallback_not_blank by (simp add: ragRequestOf_def completeRAGInput_def Let_def)
    have run: "executeRAG now http c input w = (let (r, w1) = RetrieveRAG http c ?req w in
        (map_sum id (\<lambda>found. json_text (ragObservation (durationMS (now w) (now w1)) ?in found)) r, w1))"
      using True by (auto simp: executeRAG_def u Let_def split: prod.split sum.split)
    have "{''SUMMARY'', ''DECISION''} \<subseteq> ToUpper ` set (gq_Aspects ?req)" "distinct (map ToUpper (gq_Aspects ?req))" "[] \<notin> set (gq_Aspects ?req)"
      using appendMissing [of "[''SUMMARY'', ''DECISION'']"] up(1) unfolding a [OF refl] by simp_all
    moreover have "{''REVIEW_SUMMARY'', ''REVIEW_ASPECT'', ''COUPON_DECISION''} \<subseteq> ToUpper ` set (gq_ChunkTypes ?req)" "distinct (map ToUpper (gq_ChunkTypes ?req))" "[] \<notin> set (gq_ChunkTypes ?req)"
      using appendMissing [of "[''review_summary'', ''review_aspect'', ''coupon_decision'']"] up(2) unfolding t [OF refl] by simp_all
    ultimately have "0 < gq_StoreID ?req \<and> 10 \<le> gq_TopK ?req \<and> gq_TopK ?req \<le> 20 \<and> TrimSpace (gq_QueryText ?req) \<noteq> [] \<and>
      gq_RetrievalScope ?req = ''store'' \<and>
      distinct (map ToUpper (gq_Aspects ?req)) \<and> {''SUMMARY'', ''DECISION''} \<subseteq> ToUpper ` set (gq_Aspects ?req) \<and>
      distinct (map ToUpper (gq_ChunkTypes ?req)) \<and> {''REVIEW_SUMMARY'', ''REVIEW_ASPECT'', ''COUPON_DECISION''} \<subseteq> ToUpper ` set (gq_ChunkTypes ?req) \<and>
      [] \<notin> set (gq_Aspects ?req) \<union> set (gq_ChunkTypes ?req)" using wf by blast
    with run show ?thesis by (intro disjI2 exI [of _ ?req] exI) (rule conjI)
  qed
qed

section \<open>Reading the reply of a grant\<close>

lemma reply_names: "list_all plainName (map fst replyFields)"
  unfolding replyFields_def by (simp only: list.map fst_conv) code_simp

lemma envelope_keys: "list_all plainName [''code'', ''message'', ''data'']"
  by code_simp

lemma enveloped_as_direct:
  "decode_obj replyFields (JObj [(''code'', JNum c 0), (''message'', JStr m), (''data'', d)]) zeroReply =
     (zeroReply \<lparr> gp_Message := m \<rparr>, True)"
  using envelope_keys
  by (simp add: decode_obj_def decode_member_def find_plain [OF _ reply_names]) (simp add: replyFields_def str_f_def)

text \<open>C35: an answer in the envelope, with any message, is taken for the reply itself: whatever its code and
  whatever its data say, even a granted coupon, the client reports a reply without success and without a coupon.\<close>

theorem grant_envelope_misread:
  assumes "json_parse body = Some (JObj [(''code'', JNum c 0), (''message'', JStr m), (''data'', d)])" "m \<noteq> []"
    and "kc_baseURL k \<noteq> []" "\<And>method url text w. http method url text w = (Response 200 body, w)"
  shows "\<exists>r. GrantCouponByReview http k req w = (Inr r, w) \<and> \<not> gp_Success r \<and> gp_Message r = m \<and> gp_Coupon r = None"
  using assms enveloped_as_direct [of c m d]
  by (simp add: GrantCouponByReview_def readGrantReply_def unmarshal_def zeroReply_def)

section \<open>The arguments the agent builds\<close>

lemma TrimSpace_valid: "valid_utf8 s \<Longrightarrow> valid_utf8 (TrimSpace s)"
proof -
  assume v: "valid_utf8 s"
  let ?P = "\<lambda>rb :: nat \<times> gostring. isSpace (fst rb)"
  let ?rs = "trim_while isSpace (runes s)"
  have "trim_while ?P (map (\<lambda>r. (r, encodeRune r)) rs) = map (\<lambda>r. (r, encodeRune r)) (trim_while isSpace rs)" for rs
    by (simp add: trim_while_def dropWhile_map rev_map comp_def)
  then have "TrimSpace s = of_runes ?rs"
    by (simp add: TrimSpace_def chunks_valid_utf8 [OF v] of_runes_def comp_def)
  moreover have "set ?rs \<subseteq> set (runes s)" by (auto simp: trim_while_def dest!: set_dropWhileD)
  then have "runes (of_runes ?rs) = ?rs" using chunks_valid by (intro runes_of_runes) blast
  ultimately show ?thesis by (simp add: valid_utf8_def sanitize_def)
qed

lemma firstInt64_in64: "\<forall>x \<in> set cs. x \<le> max_int64 \<Longrightarrow> in64 (firstInt64 0 cs)"
  using firstInt64_nonneg [of 0 cs] firstInt64_range [of 0 cs] by (simp add: in64_def min_int64_def max_int64_def)

lemma pe_in64:
  "in64 (pe_ReviewID (parseEvidenceForParallel raw))" "in64 (pe_StoreID (parseEvidenceForParallel raw))"
  "in64 (pe_UserID (parseEvidenceForParallel raw))" "in64 (pe_SkuID (parseEvidenceForParallel raw))"
  "in64 (pe_SpuID (parseEvidenceForParallel raw))"
  unfolding parseEvidenceForParallel_def Let_def
  by (simp_all only: reviewEvidenceForParallel.simps, safe intro!: firstInt64_in64) (auto simp: fieldInt64_def anyInt64_int64)

lemma int64_f_in64: "in64 i \<Longrightarrow> int64_f upd (intJson i) a = (upd (\<lambda>_. i) a, True)"
  by (simp add: int_f_def intJson_def in64_def)

lemma sorted_keys: "sort (remdups [''review_id'', ''store_id'', ''user_id'', ''sku_id'', ''spu_id'', ''window_days'']) =
    [''review_id'', ''sku_id'', ''spu_id'', ''store_id'', ''user_id'', ''window_days'']"
  "sort (remdups [''store_id'', ''activity_id'', ''user_id'', ''sku_id'', ''spu_id'']) = [''activity_id'', ''sku_id'', ''spu_id'', ''store_id'', ''user_id'']"
  "sort (remdups [''query_text'', ''review_id'', ''store_id'', ''user_id'', ''sku_id'', ''spu_id'', ''activity_id'', ''policy_version'', ''top_k'', ''chunk_types'', ''aspects'']) =
    [''activity_id'', ''aspects'', ''chunk_types'', ''policy_version'', ''query_text'', ''review_id'', ''sku_id'', ''spu_id'', ''store_id'', ''top_k'', ''user_id'']"
  by code_simp+

lemma plain_args: "list_all plainName (map fst statsInputFields)" "list_all plainName (map fst campaignInputFields)" "list_all plainName (map fst ragInputFields)"
  "list_all plainName [''activity_id'', ''aspects'', ''chunk_types'', ''policy_version'', ''query_text'', ''review_id'', ''sku_id'', ''spu_id'', ''store_id'', ''top_k'', ''user_id'', ''window_days'']"
  unfolding statsInputFields_def campaignInputFields_def ragInputFields_def by (simp_all only: list.map fst_conv) code_simp+

lemma stats_args_read:
  assumes "in64 (pe_ReviewID e)" "in64 (pe_StoreID e)" "in64 (pe_UserID e)" "in64 (pe_SkuID e)" "in64 (pe_SpuID e)"
  shows "unmarshal statsInputFields (json_text (mapobj (buildStatsArgs e))) zeroStatsInput =
    (\<lparr>si_ReviewID = pe_ReviewID e, si_StoreID = pe_StoreID e, si_UserID = pe_UserID e, si_SkuID = pe_SkuID e, si_SpuID = pe_SpuID e, si_WindowDays = 7\<rparr>, True)"
proof -
  have m: "mapobj (buildStatsArgs e) = JObj [(''review_id'', intJson (pe_ReviewID e)), (''sku_id'', intJson (pe_SkuID e)), (''spu_id'', intJson (pe_SpuID e)),
      (''store_id'', intJson (pe_StoreID e)), (''user_id'', intJson (pe_UserID e)), (''window_days'', intJson 7)]"
    unfolding mapobj_def map_entries_def buildStatsArgs_def by (simp only: list.map fst_conv sorted_keys) (simp add: jget_def)
  have c: "canon (intJson i) = intJson i" for i by (simp add: intJson_def)
  have s7: "in64 7" by (simp add: in64_def min_int64_def max_int64_def)
  have wf: "wf_json (mapobj (buildStatsArgs e))" unfolding m by (simp add: intJson_def ascii_valid)
  show ?thesis unfolding unmarshal_text [OF wf] unfolding m using plain_args(4) assms s7
    by (simp add: decode_obj_def decode_member_def find_plain [OF _ plain_args(1)] c)
       (simp add: statsInputFields_def int64_f_in64 zeroStatsInput_def)
qed

lemma campaign_args_read:
  assumes "in64 (pe_StoreID e)" "in64 (pe_UserID e)" "in64 (pe_SkuID e)" "in64 (pe_SpuID e)" "valid_utf8 (ei_ActivityID input)"
  shows "unmarshal campaignInputFields (json_text (mapobj (buildCampaignArgs e input))) zeroCampaignInput =
    (\<lparr>ci_StoreID = pe_StoreID e, ci_ActivityID = ei_ActivityID input, ci_UserID = pe_UserID e, ci_SkuID = pe_SkuID e, ci_SpuID = pe_SpuID e\<rparr>, True)"
proof -
  have m: "mapobj (buildCampaignArgs e input) = JObj [(''activity_id'', JStr (ei_ActivityID input)), (''sku_id'', intJson (pe_SkuID e)),
      (''spu_id'', intJson (pe_SpuID e)), (''store_id'', intJson (pe_StoreID e)), (''user_id'', intJson (pe_UserID e))]"
    unfolding mapobj_def map_entries_def buildCampaignArgs_def by (simp only: list.map fst_conv sorted_keys) (simp add: jget_def)
  have c: "canon (intJson i) = intJson i" for i by (simp add: intJson_def)
  have wf: "wf_json (mapobj (buildCampaignArgs e input))" unfolding m using assms(5) by (simp add: intJson_def ascii_valid)
  show ?thesis unfolding unmarshal_text [OF wf] unfolding m using plain_args(4) assms
    by (simp add: decode_obj_def decode_member_def find_plain [OF _ plain_args(2)] c)
       (simp add: campaignInputFields_def int64_f_in64 str_f_def zeroCampaignInput_def)
qed

lemma strs_f_read: "xs \<noteq> [] \<Longrightarrow> strs_f upd (canon (strsJson xs)) a = (upd (\<lambda>_. xs) a, True)"
  by (simp add: strsJson_def list_f_def str_f_def comp_def list_all_iff)

definition ragInput :: "((gostring \<times> gostring) list \<Rightarrow> (gostring \<times> gostring) list) \<Rightarrow> reviewEvidenceForParallel \<Rightarrow> ExecutionInput \<Rightarrow> RAGRetrieveInput" where
  "ragInput mapOrder e input = \<lparr>ri_QueryText = TrimSpace (pe_Content e), ri_ReviewID = pe_ReviewID e, ri_StoreID = pe_StoreID e,
     ri_UserID = pe_UserID e, ri_SkuID = pe_SkuID e, ri_SpuID = pe_SpuID e, ri_ActivityID = ei_ActivityID input,
     ri_PolicyVersion = ei_PolicyVersion input, ri_TopK = 10, ri_ChunkTypes = [''review_summary'', ''review_aspect'', ''coupon_decision''],
     ri_Aspects = inferRAGAspects mapOrder (pe_Content e)\<rparr>"

lemma aspects_ascii:
  assumes "\<And>kvs. set (mapOrder kvs) \<subseteq> set kvs"
  shows "\<forall>x \<in> set (inferRAGAspects mapOrder content). valid_utf8 x" "inferRAGAspects mapOrder content \<noteq> []"
proof -
  have keep: "\<forall>x \<in> set (fold (\<lambda>(k, a) l. if Contains content k then addAspect a l else l) kvs l). valid_utf8 x"
    if "\<forall>x \<in> set l. valid_utf8 x" "\<forall>kv \<in> set kvs. valid_utf8 (snd kv)" for kvs l
    using that
  proof (induction kvs arbitrary: l)
    case (Cons kv kvs)
    let ?l = "if Contains content (fst kv) then addAspect (snd kv) l else l"
    have "\<forall>x \<in> set ?l. valid_utf8 x" using Cons.prems by (simp add: addAspect_def)
    with Cons.IH [of ?l] Cons.prems show ?case by (simp add: case_prod_beta)
  qed simp
  have "\<forall>kv \<in> set aspectKeywords. snd kv \<in> set [''LOGISTICS'', ''SERVICE'', ''QUALITY'', ''PRICE'', ''REPEAT'', ''RECOMMEND'']"
    by (simp add: aspectKeywords_def)
  moreover have "\<forall>a \<in> set [''LOGISTICS'', ''SERVICE'', ''QUALITY'', ''PRICE'', ''REPEAT'', ''RECOMMEND'']. valid_utf8 a"
    by (simp add: ascii_valid)
  ultimately have "\<forall>kv \<in> set aspectKeywords. valid_utf8 (snd kv)" by blast
  then have "\<forall>kv \<in> set (mapOrder aspectKeywords). valid_utf8 (snd kv)" using assms [of aspectKeywords] by blast
  then show "\<forall>x \<in> set (inferRAGAspects mapOrder content). valid_utf8 x"
    unfolding inferRAGAspects_def by (intro keep) (simp_all add: ascii_valid)
  have "fold (\<lambda>(k, a) l. if Contains content k then addAspect a l else l) kvs l \<noteq> []" if "l \<noteq> []" for kvs l
    using that
  proof (induction kvs arbitrary: l)
    case (Cons kv kvs)
    have "(if Contains content (fst kv) then addAspect (snd kv) l else l) \<noteq> []" using Cons.prems by (simp add: addAspect_def)
    from Cons.IH [OF this] show ?case by (simp add: case_prod_beta)
  qed simp
  then show "inferRAGAspects mapOrder content \<noteq> []" unfolding inferRAGAspects_def by simp
qed

lemma rag_members:
  "decode_member ragInputFields ''query_text'' v (a, True) = str_f ri_QueryText_update v a"
  "decode_member ragInputFields ''review_id'' v (a, True) = int64_f ri_ReviewID_update v a"
  "decode_member ragInputFields ''store_id'' v (a, True) = int64_f ri_StoreID_update v a"
  "decode_member ragInputFields ''user_id'' v (a, True) = int64_f ri_UserID_update v a"
  "decode_member ragInputFields ''sku_id'' v (a, True) = int64_f ri_SkuID_update v a"
  "decode_member ragInputFields ''spu_id'' v (a, True) = int64_f ri_SpuID_update v a"
  "decode_member ragInputFields ''activity_id'' v (a, True) = str_f ri_ActivityID_update v a"
  "decode_member ragInputFields ''policy_version'' v (a, True) = str_f ri_PolicyVersion_update v a"
  "decode_member ragInputFields ''top_k'' v (a, True) = int32_f ri_TopK_update v a"
  "decode_member ragInputFields ''chunk_types'' v (a, True) = strs_f ri_ChunkTypes_update v a"
  "decode_member ragInputFields ''aspects'' v (a, True) = strs_f ri_Aspects_update v a"
  using plain_args(4) by (simp_all add: decode_member_def find_plain [OF _ plain_args(3)]) (simp_all add: ragInputFields_def)

lemma rag_args_read:
  assumes "in64 (pe_ReviewID e)" "in64 (pe_StoreID e)" "in64 (pe_UserID e)" "in64 (pe_SkuID e)" "in64 (pe_SpuID e)"
    "valid_utf8 (ei_ActivityID input)" "valid_utf8 (ei_PolicyVersion input)" "valid_utf8 (pe_Content e)" "\<And>kvs. set (mapOrder kvs) \<subseteq> set kvs"
  shows "unmarshal ragInputFields (json_text (mapobj (buildRAGArgs mapOrder e input))) zeroRAGInput = (ragInput mapOrder e input, True)"
proof -
  have asp: "\<forall>x \<in> set (inferRAGAspects mapOrder (pe_Content e)). valid_utf8 x" "inferRAGAspects mapOrder (pe_Content e) \<noteq> []"
    using aspects_ascii [of mapOrder "pe_Content e"] assms(9) by auto
  let ?types = "[''review_summary'', ''review_aspect'', ''coupon_decision'']"
  have m: "mapobj (buildRAGArgs mapOrder e input) = JObj [(''activity_id'', JStr (ei_ActivityID input)),
      (''aspects'', strsJson (inferRAGAspects mapOrder (pe_Content e))), (''chunk_types'', strsJson ?types),
      (''policy_version'', JStr (ei_PolicyVersion input)), (''query_text'', JStr (TrimSpace (pe_Content e))), (''review_id'', intJson (pe_ReviewID e)),
      (''sku_id'', intJson (pe_SkuID e)), (''spu_id'', intJson (pe_SpuID e)), (''store_id'', intJson (pe_StoreID e)), (''top_k'', intJson 10),
      (''user_id'', intJson (pe_UserID e))]"
    unfolding mapobj_def map_entries_def buildRAGArgs_def by (simp only: list.map fst_conv sorted_keys) (simp add: jget_def)
  have c: "canon (intJson i) = intJson i" for i by (simp add: intJson_def)
  have k: "int_f (- 2147483648) 2147483647 upd (intJson 10) a = (upd (\<lambda>_. 10) a, True)" for upd and a :: RAGRetrieveInput by (simp add: int_f_def intJson_def)
  have wf: "wf_json (mapobj (buildRAGArgs mapOrder e input))" unfolding m
    using assms(6,7) TrimSpace_valid [OF assms(8)] asp by (simp add: intJson_def strsJson_def ascii_valid)
  show ?thesis unfolding unmarshal_text [OF wf] unfolding m
    by (simp add: decode_obj_def rag_members c int64_f_in64 assms(1-5) str_f_def strs_f_read asp(2) k) (simp add: zeroRAGInput_def ragInput_def)
qed

text \<open>C33: the calls the agent makes on its own pass their tools' checks and reach the services with the ids of the evidence:
  the statistics over a week, the cases of the same store, campaign and policy, ten at most, and (with a user) the context of
  the same campaign.\<close>

theorem auto_calls_reach_services:
  assumes "e = parseEvidenceForParallel raw" "0 < pe_StoreID e" "valid_utf8 (pe_Content e)"
    and "valid_utf8 (ei_ActivityID input)" "valid_utf8 (ei_PolicyVersion input)" "\<And>kvs. set (mapOrder kvs) \<subseteq> set kvs"
  shows "(\<exists>f. executeStats now http rj (json_text (mapobj (buildStatsArgs e))) w =
      (let (r, w1) = GetReviewStats http rj \<lparr>sq_ReviewID = pe_ReviewID e, sq_StoreID = pe_StoreID e, sq_UserID = pe_UserID e,
          sq_SkuID = pe_SkuID e, sq_SpuID = pe_SpuID e, sq_WindowDays = 7\<rparr> w in (map_sum id (f w1) r, w1))) \<and>
    (\<exists>req f. executeRAG now http rj (json_text (mapobj (buildRAGArgs mapOrder e input))) w =
        (let (r, w1) = RetrieveRAG http rj req w in (map_sum id (f w1) r, w1)) \<and>
      gq_StoreID req = pe_StoreID e \<and> gq_ReviewID req = pe_ReviewID e \<and> gq_ActivityID req = ei_ActivityID input \<and>
      gq_PolicyVersion req = ei_PolicyVersion input \<and> gq_TopK req = 10) \<and>
    (0 < pe_UserID e \<longrightarrow> (\<exists>f. executeCampaign now http (Some k) (json_text (mapobj (buildCampaignArgs e input))) w =
      (let (r, w1) = GetCampaignContext http k \<lparr>cq_StoreID = pe_StoreID e, cq_ActivityID = ei_ActivityID input,
          cq_UserID = pe_UserID e, cq_SkuID = pe_SkuID e, cq_SpuID = pe_SpuID e\<rparr> w in (map_sum id (f w1) r, w1))))"
proof -
  note r = pe_in64 [of raw, folded assms(1)]
  note st = stats_args_read [OF r] and ca = campaign_args_read [OF r(2-5) assms(4)] and ra = rag_args_read [OF r assms(4,5,3,6)]
  have 1: "executeStats now http rj (json_text (mapobj (buildStatsArgs e))) w =
      (let (x, w1) = GetReviewStats http rj \<lparr>sq_ReviewID = pe_ReviewID e, sq_StoreID = pe_StoreID e, sq_UserID = pe_UserID e,
          sq_SkuID = pe_SkuID e, sq_SpuID = pe_SpuID e, sq_WindowDays = 7\<rparr> w in
       (map_sum id (\<lambda>resp. json_text (mapobj [(''tool'', JStr ''get_review_stats''), (''source'', JStr ''review-job''),
            (''latency_ms'', intJson (durationMS (now w) (now w1))), (''request'', statsInputJson (fst (unmarshal statsInputFields (json_text (mapobj (buildStatsArgs e))) zeroStatsInput))),
            (''stats'', statsJson resp)])) x, w1))"
    using assms(2) by (simp add: executeStats_def st statsRequestOf_def split: prod.split sum.split)
  let ?req = "completeRAGInput (ragInput mapOrder e input)"
  have 2: "executeRAG now http rj (json_text (mapobj (buildRAGArgs mapOrder e input))) w =
      (let (x, w1) = RetrieveRAG http rj (ragRequestOf ?req) w in
        (map_sum id (\<lambda>found. json_text (ragObservation (durationMS (now w) (now w1)) ?req found)) x, w1))"
    using assms(2) by (simp add: executeRAG_def ra Let_def split: prod.split sum.split) (simp add: ragInput_def)
  have 3: "gq_StoreID (ragRequestOf ?req) = pe_StoreID e" "gq_ReviewID (ragRequestOf ?req) = pe_ReviewID e" "gq_TopK (ragRequestOf ?req) = 10"
    "gq_ActivityID (ragRequestOf ?req) = ei_ActivityID input" "gq_PolicyVersion (ragRequestOf ?req) = ei_PolicyVersion input"
    by (simp_all add: ragRequestOf_def completeRAGInput_def ragInput_def Let_def)
  have 4: "executeCampaign now http (Some k) (json_text (mapobj (buildCampaignArgs e input))) w =
      (let (x, w1) = GetCampaignContext http k \<lparr>cq_StoreID = pe_StoreID e, cq_ActivityID = ei_ActivityID input,
          cq_UserID = pe_UserID e, cq_SkuID = pe_SkuID e, cq_SpuID = pe_SpuID e\<rparr> w in
        (map_sum id (\<lambda>cx. json_text (campaignObservation (durationMS (now w) (now w1))
           (fst (unmarshal campaignInputFields (json_text (mapobj (buildCampaignArgs e input))) zeroCampaignInput)) cx)) x, w1))" if "0 < pe_UserID e"
    using that assms(2) by (simp add: executeCampaign_def ca campaignRequestOf_def split: prod.split sum.split)
  show ?thesis
    by (intro conjI impI exI) (rule 1, rule 2, (rule 3)+, rule 4)
qed

section \<open>Witnesses\<close>

definition demoEnvelope :: json where
  "demoEnvelope = JObj [(''code'', JNum 0 0), (''message'', JStr ''ok''), (''data'', JObj [(''success'', JBool True)])]"

lemma grant_envelope_misread_witness:
  "\<forall>req. \<exists>r. GrantCouponByReview (\<lambda>_ _ _ w. (Response 200 (json_text demoEnvelope), w)) demoSK req () = (Inr r, ()) \<and> \<not> gp_Success r"
proof (rule allI)
  fix req
  have "wf_json demoEnvelope" by (simp add: demoEnvelope_def ascii_valid)
  then have "json_parse (json_text demoEnvelope) = Some (JObj [(''code'', JNum 0 0), (''message'', JStr ''ok''), (''data'', JObj [(''success'', JBool True)])])"
    by (simp add: json_parse_text) (simp add: demoEnvelope_def)
  from grant_envelope_misread [OF this, of demoSK "\<lambda>_ _ _ w. (Response 200 (json_text demoEnvelope), w)" req "()"]
  show "\<exists>r. GrantCouponByReview (\<lambda>_ _ _ w. (Response 200 (json_text demoEnvelope), w)) demoSK req () = (Inr r, ()) \<and> \<not> gp_Success r"
    by (auto simp: demoSK_def NewSeckillClient_def trimRightChar_def)
qed

definition demoObservation :: json where
  "demoObservation = JObj [(''evidence'', JObj [(''reviewId'', JNum 1001 0), (''storeId'', JNum 3001 0), (''userId'', JNum 2001 0), (''content'', JStr ''good'')])]"

lemma demo_pe: "pe_StoreID (parseEvidenceForParallel (json_text demoObservation)) = 3001" "pe_UserID (parseEvidenceForParallel (json_text demoObservation)) = 2001"
  "pe_Content (parseEvidenceForParallel (json_text demoObservation)) = ''good''"
proof -
  have i: "goodJson (JNum i 0)" if "\<bar>i\<bar> < 2 ^ 64" for i using goodJson_int [OF that] by (simp add: intJson_def)
  have g: "goodJson demoObservation" unfolding demoObservation_def by (simp add: ascii_valid i del: goodJson.simps(1))
  have u: "unmarshal_map (json_text demoObservation) = ([(''evidence'', JObj [(''reviewId'', JNum 1001 0), (''storeId'', JNum 3001 0), (''userId'', JNum 2001 0), (''content'', JStr ''good'')])], True)"
    using unmarshal_printed [of "the (as_obj demoObservation)"] g by (simp add: demoObservation_def)
  have n: "anyInt64 (JNum i 0) = i" if "small i" for i using anyInt64_small [OF that] by (simp add: intJson_def)
  show "pe_StoreID (parseEvidenceForParallel (json_text demoObservation)) = 3001" "pe_UserID (parseEvidenceForParallel (json_text demoObservation)) = 2001"
    "pe_Content (parseEvidenceForParallel (json_text demoObservation)) = ''good''"
    by (simp_all add: parseEvidenceForParallel_def u objFieldOrNil_def objField_def jget_def fieldInt64_def fieldString_def n small_def)
qed

lemma auto_calls_reach_services_witness:
  "\<exists>f. executeCampaign (\<lambda>_. 0) demoHttp (Some demoSK) (json_text (mapobj (buildCampaignArgs (parseEvidenceForParallel (json_text demoObservation)) demoBusiness))) () =
    (let (r, w1) = GetCampaignContext demoHttp demoSK \<lparr>cq_StoreID = 3001, cq_ActivityID = [], cq_UserID = 2001,
       cq_SkuID = pe_SkuID (parseEvidenceForParallel (json_text demoObservation)), cq_SpuID = pe_SpuID (parseEvidenceForParallel (json_text demoObservation))\<rparr> () in
     (map_sum id (f w1) r, w1))"
proof -
  let ?e = "parseEvidenceForParallel (json_text demoObservation)"
  have "valid_utf8 (pe_Content ?e)" "valid_utf8 (ei_ActivityID demoBusiness)" "valid_utf8 (ei_PolicyVersion demoBusiness)"
    by (simp_all add: demo_pe demoBusiness_def ascii_valid)
  from auto_calls_reach_services [OF refl _ this, of id "\<lambda>_. 0" demoHttp _ "()" demoSK]
  show ?thesis by (simp add: demo_pe demoBusiness_def)
qed

end
