(* ===== verification/Prompts.thy ===== *)
theory Prompts
  imports Tools Context_Compose Json_Facts
begin

text \<open>
  \<open>internal/prompt/template.go\<close>: the two prompts of a round. The templates come from files, read once and kept in
  the cache of the manager, with texts of the program in their place when a file is missing or blank; \<open>files\<close> is the
  content of a file or \<open>None\<close>. The user prompt is JSON with indentation. The texts in Chinese are written as their
  UTF-8 bytes.
\<close>

section \<open>Paths\<close>

text \<open>\<open>filepath.Join\<close>: a lexical clean-up of the parts.\<close>

fun splitSlash :: "gostring \<Rightarrow> gostring list" where
  "splitSlash [] = [[]]"
| "splitSlash (c # cs) = (if c = CHR ''/'' then [] # splitSlash cs
     else (case splitSlash cs of s # ss \<Rightarrow> (c # s) # ss | [] \<Rightarrow> [[c]]))"

definition cleanPart :: "bool \<Rightarrow> gostring \<Rightarrow> gostring list \<Rightarrow> gostring list" where
  "cleanPart rooted part out = (if part = [] \<or> part = ''.'' then out
     else if part = ''..'' then
       (case out of p # ps \<Rightarrow> if p = ''..'' then ''..'' # out else ps | [] \<Rightarrow> if rooted then [] else [''..''])
     else part # out)"

definition cleanPath :: "gostring \<Rightarrow> gostring" where
  "cleanPath s = (let rooted = (case s of c # cs \<Rightarrow> c = CHR ''/'' | [] \<Rightarrow> False);
       out = rev (fold (cleanPart rooted) (splitSlash s) [])
     in if rooted then ''/'' @ Join out ''/'' else if out = [] then ''.'' else Join out ''/'')"

definition joinPath :: "gostring \<Rightarrow> gostring \<Rightarrow> gostring" where
  "joinPath dir name = (if dir = [] then (if name = [] then [] else cleanPath name)
     else if name = [] then cleanPath dir else cleanPath (dir @ ''/'' @ name))"

section \<open>Texts\<close>

text \<open>What stands in for the system prompt, the guidance on RAG, the policy rules and the decision schema.\<close>

definition fallbackSystemPrompt :: gostring where
  "fallbackSystemPrompt = bytes [
     0xE4, 0xBD, 0xA0, 0xE6, 0x98, 0xAF, 0xE7, 0xA7, 0x92, 0xE6, 0x9D, 0x80, 0xE4, 0xBC, 0x98, 0xE6, 0x83, 0xA0,
     0xE5, 0x88, 0xB8, 0x41, 0x67, 0x65, 0x6E, 0x74, 0xE5, 0xA4, 0xA7, 0xE8, 0x84, 0x91, 0xE3, 0x80, 0x82, 0x0A,
     0xE4, 0xBD, 0xA0, 0xE7, 0x9A, 0x84, 0xE8, 0x81, 0x8C, 0xE8, 0xB4, 0xA3, 0xE6, 0x98, 0xAF, 0xE5, 0x9F, 0xBA,
     0xE4, 0xBA, 0x8E, 0xE8, 0xAF, 0x84, 0xE4, 0xBB, 0xB7, 0xE4, 0xBA, 0x8B, 0xE5, 0xAE, 0x9E, 0xE3, 0x80, 0x81,
     0x45, 0x53, 0xE7, 0xBB, 0x9F, 0xE8, 0xAE, 0xA1, 0xE5, 0x92, 0x8C, 0xE5, 0x8E, 0x86, 0xE5, 0x8F, 0xB2, 0xE6,
     0xA1, 0x88, 0xE4, 0xBE, 0x8B, 0xEF, 0xBC, 0x8C, 0xE7, 0x94, 0x9F, 0xE6, 0x88, 0x90, 0xE6, 0x98, 0xAF, 0xE5,
     0x90, 0xA6, 0xE5, 0x8F, 0x91, 0xE5, 0x88, 0xB8, 0xE3, 0x80, 0x81, 0xE4, 0xB8, 0xBA, 0xE4, 0xBB, 0x80, 0xE4,
     0xB9, 0x88, 0xE5, 0x8F, 0x91, 0xE5, 0x88, 0xB8, 0xE7, 0x9A, 0x84, 0xE7, 0xBB, 0x93, 0xE6, 0x9E, 0x84, 0xE5,
     0x8C, 0x96, 0xE5, 0x86, 0xB3, 0xE7, 0xAD, 0x96, 0xE3, 0x80, 0x82, 0x0A, 0xE5, 0xBF, 0x85, 0xE9, 0xA1, 0xBB,
     0xE9, 0x81, 0xB5, 0xE5, 0xBE, 0xAA, 0xE6, 0xB8, 0x90, 0xE8, 0xBF, 0x9B, 0xE5, 0xBC, 0x8F, 0xE6, 0x8A, 0xAB,
     0xE9, 0x9C, 0xB2, 0xEF, 0xBC, 0x9A, 0x67, 0x65, 0x74, 0x5F, 0x72, 0x65, 0x76, 0x69, 0x65, 0x77, 0x5F, 0x65,
     0x76, 0x69, 0x64, 0x65, 0x6E, 0x63, 0x65, 0x20, 0x2D, 0x3E, 0x20, 0x67, 0x65, 0x74, 0x5F, 0x72, 0x65, 0x76,
     0x69, 0x65, 0x77, 0x5F, 0x73, 0x74, 0x61, 0x74, 0x73, 0x20, 0x2D, 0x3E, 0x20, 0x72, 0x65, 0x74, 0x72, 0x69,
     0x65, 0x76, 0x65, 0x5F, 0x72, 0x61, 0x67, 0x20, 0x2D, 0x3E, 0x20, 0x66, 0x69, 0x6E, 0x61, 0x6C, 0xE3, 0x80,
     0x82, 0x0A, 0xE5, 0xBD, 0x93, 0x77, 0x6F, 0x72, 0x6B, 0x66, 0x6C, 0x6F, 0x77, 0x5F, 0x73, 0x74, 0x61, 0x67,
     0x65, 0xE4, 0xB8, 0x8D, 0xE6, 0x98, 0xAF, 0x64, 0x65, 0x63, 0x69, 0x73, 0x69, 0x6F, 0x6E, 0x5F, 0x72, 0x65,
     0x61, 0x64, 0x79, 0xE6, 0x97, 0xB6, 0xEF, 0xBC, 0x8C, 0xE7, 0xA6, 0x81, 0xE6, 0xAD, 0xA2, 0xE8, 0xBE, 0x93,
     0xE5, 0x87, 0xBA, 0x66, 0x69, 0x6E, 0x61, 0x6C, 0xEF, 0xBC, 0x8C, 0xE5, 0xBF, 0x85, 0xE9, 0xA1, 0xBB, 0xE8,
     0xBE, 0x93, 0xE5, 0x87, 0xBA, 0xE5, 0xBD, 0x93, 0xE5, 0x89, 0x8D, 0xE9, 0x98, 0xB6, 0xE6, 0xAE, 0xB5, 0xE6,
     0x89, 0x80, 0xE9, 0x9C, 0x80, 0x74, 0x6F, 0x6F, 0x6C, 0x5F, 0x63, 0x61, 0x6C, 0x6C, 0xE3, 0x80, 0x82, 0x0A,
     0xE5, 0xBD, 0x93, 0x77, 0x6F, 0x72, 0x6B, 0x66, 0x6C, 0x6F, 0x77, 0x5F, 0x73, 0x74, 0x61, 0x67, 0x65, 0xE6,
     0x98, 0xAF, 0x64, 0x65, 0x63, 0x69, 0x73, 0x69, 0x6F, 0x6E, 0x5F, 0x72, 0x65, 0x61, 0x64, 0x79, 0xE6, 0x97,
     0xB6, 0xEF, 0xBC, 0x8C, 0xE7, 0xA6, 0x81, 0xE6, 0xAD, 0xA2, 0xE7, 0xBB, 0xA7, 0xE7, 0xBB, 0xAD, 0xE8, 0xB0,
     0x83, 0xE7, 0x94, 0xA8, 0x74, 0x6F, 0x6F, 0x6C, 0x5F, 0x63, 0x61, 0x6C, 0x6C, 0xEF, 0xBC, 0x8C, 0xE5, 0xBF,
     0x85, 0xE9, 0xA1, 0xBB, 0xE7, 0x9B, 0xB4, 0xE6, 0x8E, 0xA5, 0xE8, 0xBE, 0x93, 0xE5, 0x87, 0xBA, 0x66, 0x69,
     0x6E, 0x61, 0x6C, 0xE3, 0x80, 0x82, 0x0A, 0xE5, 0x8F, 0xAA, 0xE6, 0x9C, 0x89, 0xE6, 0xB4, 0xBB, 0xE5, 0x8A,
     0xA8, 0xE4, 0xB8, 0x8A, 0xE4, 0xB8, 0x8B, 0xE6, 0x96, 0x87, 0xE7, 0xA1, 0xAE, 0xE8, 0xAE, 0xA4, 0xE8, 0xAF,
     0x84, 0xE4, 0xBB, 0xB7, 0xE6, 0x89, 0x80, 0xE5, 0xB1, 0x9E, 0xE5, 0xBA, 0x97, 0xE9, 0x93, 0xBA, 0xE3, 0x80,
     0x81, 0xE5, 0xAF, 0xB9, 0xE5, 0xBA, 0x94, 0xE5, 0x95, 0x86, 0xE5, 0x93, 0x81, 0xE3, 0x80, 0x81, 0xE6, 0xB4,
     0xBB, 0xE5, 0x8A, 0xA8, 0xE5, 0x92, 0x8C, 0xE7, 0x94, 0xA8, 0xE6, 0x88, 0xB7, 0xE5, 0x9D, 0x87, 0xE6, 0xBB,
     0xA1, 0xE8, 0xB6, 0xB3, 0xE8, 0xB5, 0x84, 0xE6, 0xA0, 0xBC, 0xE6, 0x97, 0xB6, 0xEF, 0xBC, 0x8C, 0xE6, 0x89,
     0x8D, 0xE5, 0x8F, 0xAF, 0xE5, 0xBB, 0xBA, 0xE8, 0xAE, 0xAE, 0x47, 0x52, 0x41, 0x4E, 0x54, 0x5F, 0x43, 0x4F,
     0x55, 0x50, 0x4F, 0x4E, 0xE3, 0x80, 0x82, 0x0A, 0xE5, 0x90, 0x8C, 0xE4, 0xB8, 0x80, 0xE8, 0xAF, 0x84, 0xE4,
     0xBB, 0xB7, 0xE5, 0xAF, 0xB9, 0xE5, 0x90, 0x8C, 0xE4, 0xB8, 0x80, 0xE5, 0xBA, 0x97, 0xE9, 0x93, 0xBA, 0xE5,
     0x92, 0x8C, 0xE5, 0x85, 0xB7, 0xE4, 0xBD, 0x93, 0xE5, 0x95, 0x86, 0xE5, 0x93, 0x81, 0xE6, 0x9C, 0x80, 0xE5,
     0xA4, 0x9A, 0xE5, 0xAE, 0x9E, 0xE9, 0x99, 0x85, 0xE5, 0x8F, 0x91, 0xE5, 0x88, 0xB8, 0xE4, 0xB8, 0x80, 0xE6,
     0xAC, 0xA1, 0xEF, 0xBC, 0x9B, 0xE6, 0xB4, 0xBB, 0xE5, 0x8A, 0xA8, 0xE3, 0x80, 0x81, 0xE5, 0x9C, 0xBA, 0xE6,
     0x99, 0xAF, 0xE5, 0x92, 0x8C, 0xE7, 0xAD, 0x96, 0xE7, 0x95, 0xA5, 0xE7, 0x89, 0x88, 0xE6, 0x9C, 0xAC, 0xE5,
     0x8F, 0xAA, 0xE8, 0x83, 0xBD, 0xE7, 0x94, 0xA8, 0xE4, 0xBA, 0x8E, 0xE9, 0x80, 0x89, 0xE6, 0x8B, 0xA9, 0xE5,
     0x92, 0x8C, 0xE5, 0xAE, 0xA1, 0xE8, 0xAE, 0xA1, 0xEF, 0xBC, 0x8C, 0xE4, 0xB8, 0x8D, 0xE8, 0x83, 0xBD, 0xE4,
     0xBA, 0xA7, 0xE7, 0x94, 0x9F, 0xE6, 0x96, 0xB0, 0xE7, 0x9A, 0x84, 0xE5, 0x8F, 0x91, 0xE5, 0x88, 0xB8, 0xE8,
     0xB5, 0x84, 0xE6, 0xA0, 0xBC, 0xE3, 0x80, 0x82, 0x0A, 0xE8, 0xAF, 0xB7, 0xE4, 0xB8, 0xA5, 0xE6, 0xA0, 0xBC,
     0xE8, 0xBE, 0x93, 0xE5, 0x87, 0xBA, 0x4A, 0x53, 0x4F, 0x4E, 0xEF, 0xBC, 0x8C, 0xE4, 0xB8, 0x8D, 0xE8, 0xA6,
     0x81, 0xE8, 0xBE, 0x93, 0xE5, 0x87, 0xBA, 0xE5, 0xA4, 0x9A, 0xE4, 0xBD, 0x99, 0xE8, 0xA7, 0xA3, 0xE9, 0x87,
     0x8A, 0xE3, 0x80, 0x82]"

definition fallbackRAGGuidance :: gostring where
  "fallbackRAGGuidance = bytes [
     0xE8, 0xB0, 0x83, 0xE7, 0x94, 0xA8, 0x72, 0x65, 0x74, 0x72, 0x69, 0x65, 0x76, 0x65, 0x5F, 0x72, 0x61, 0x67,
     0xE6, 0x97, 0xB6, 0xEF, 0xBC, 0x8C, 0x63, 0x68, 0x75, 0x6E, 0x6B, 0x5F, 0x74, 0x79, 0x70, 0x65, 0x73, 0xE5,
     0x9B, 0xBA, 0xE5, 0xAE, 0x9A, 0xE8, 0xA6, 0x86, 0xE7, 0x9B, 0x96, 0x72, 0x65, 0x76, 0x69, 0x65, 0x77, 0x5F,
     0x73, 0x75, 0x6D, 0x6D, 0x61, 0x72, 0x79, 0xE3, 0x80, 0x81, 0x72, 0x65, 0x76, 0x69, 0x65, 0x77, 0x5F, 0x61,
     0x73, 0x70, 0x65, 0x63, 0x74, 0xE3, 0x80, 0x81, 0x63, 0x6F, 0x75, 0x70, 0x6F, 0x6E, 0x5F, 0x64, 0x65, 0x63,
     0x69, 0x73, 0x69, 0x6F, 0x6E, 0xEF, 0xBC, 0x9B, 0x61, 0x73, 0x70, 0x65, 0x63, 0x74, 0x73, 0xE5, 0x8C, 0x85,
     0xE5, 0x90, 0xAB, 0x53, 0x55, 0x4D, 0x4D, 0x41, 0x52, 0x59, 0xE5, 0x92, 0x8C, 0x44, 0x45, 0x43, 0x49, 0x53,
     0x49, 0x4F, 0x4E, 0xEF, 0xBC, 0x8C, 0xE5, 0x86, 0x8D, 0xE6, 0x8C, 0x89, 0xE5, 0x9C, 0xBA, 0xE6, 0x99, 0xAF,
     0xE8, 0xBF, 0xBD, 0xE5, 0x8A, 0xA0, 0x4C, 0x4F, 0x47, 0x49, 0x53, 0x54, 0x49, 0x43, 0x53, 0xE3, 0x80, 0x81,
     0x53, 0x45, 0x52, 0x56, 0x49, 0x43, 0x45, 0xE3, 0x80, 0x81, 0x51, 0x55, 0x41, 0x4C, 0x49, 0x54, 0x59, 0xE3,
     0x80, 0x81, 0x50, 0x52, 0x49, 0x43, 0x45, 0xE3, 0x80, 0x81, 0x52, 0x45, 0x50, 0x45, 0x41, 0x54, 0xE3, 0x80,
     0x81, 0x52, 0x45, 0x43, 0x4F, 0x4D, 0x4D, 0x45, 0x4E, 0x44, 0xE3, 0x80, 0x82, 0x52, 0x45, 0x50, 0x45, 0x41,
     0x54, 0xE8, 0xA1, 0xA8, 0xE7, 0xA4, 0xBA, 0xE5, 0xA4, 0x8D, 0xE8, 0xB4, 0xAD, 0xE6, 0x84, 0x8F, 0xE5, 0x9B,
     0xBE, 0xEF, 0xBC, 0x8C, 0x52, 0x45, 0x50, 0x55, 0x52, 0x43, 0x48, 0x41, 0x53, 0x45, 0xE4, 0xBB, 0x85, 0xE4,
     0xBD, 0x9C, 0xE4, 0xB8, 0xBA, 0xE5, 0x85, 0xBC, 0xE5, 0xAE, 0xB9, 0xE5, 0x88, 0xAB, 0xE5, 0x90, 0x8D, 0xE3,
     0x80, 0x82, 0x52, 0x41, 0x47, 0xE7, 0x94, 0xA8, 0xE4, 0xBA, 0x8E, 0xE5, 0x8E, 0x86, 0xE5, 0x8F, 0xB2, 0xE5,
     0x8F, 0x82, 0xE8, 0x80, 0x83, 0xEF, 0xBC, 0x8C, 0xE4, 0xB8, 0x8D, 0xE5, 0xBE, 0x97, 0xE6, 0x9C, 0xBA, 0xE6,
     0xA2, 0xB0, 0xE7, 0x85, 0xA7, 0xE6, 0x90, 0xAC, 0xE3, 0x80, 0x82]"

definition fallbackPolicyRules :: gostring where
  "fallbackPolicyRules = bytes [
     0x72, 0x75, 0x6C, 0x65, 0x73, 0x3A, 0x0A, 0x20, 0x20, 0x2D, 0x20, 0x68, 0x61, 0x73, 0x5F, 0x61, 0x70, 0x70,
     0x65, 0x61, 0x6C, 0x3D, 0x74, 0x72, 0x75, 0x65, 0xE6, 0x97, 0xB6, 0xE4, 0xB8, 0x8D, 0xE5, 0xBE, 0x97, 0xE8,
     0x87, 0xAA, 0xE5, 0x8A, 0xA8, 0xE5, 0x8F, 0x91, 0xE5, 0x88, 0xB8, 0x0A, 0x20, 0x20, 0x2D, 0x20, 0xE8, 0xB4,
     0xA8, 0xE9, 0x87, 0x8F, 0xE9, 0x97, 0xAE, 0xE9, 0xA2, 0x98, 0xE4, 0xB8, 0x94, 0x73, 0x63, 0x6F, 0x72, 0x65,
     0x3C, 0x3D, 0x32, 0xE6, 0x97, 0xB6, 0xE4, 0xB8, 0x8D, 0xE5, 0xBE, 0x97, 0xE8, 0x87, 0xAA, 0xE5, 0x8A, 0xA8,
     0xE5, 0x8F, 0x91, 0xE5, 0x88, 0xB8, 0x0A, 0x20, 0x20, 0x2D, 0x20, 0x4D, 0x41, 0x4E, 0x55, 0x41, 0x4C, 0x5F,
     0x52, 0x45, 0x56, 0x49, 0x45, 0x57, 0xE4, 0xB8, 0x8D, 0xE5, 0xBE, 0x97, 0xE6, 0xA0, 0x87, 0xE8, 0xAE, 0xB0,
     0xE4, 0xB8, 0xBA, 0xE5, 0xB7, 0xB2, 0xE5, 0x8F, 0x91, 0xE5, 0x88, 0xB8, 0x0A, 0x20, 0x20, 0x2D, 0x20, 0xE8,
     0x87, 0xAA, 0xE5, 0x8A, 0xA8, 0xE5, 0x8F, 0x91, 0xE5, 0x88, 0xB8, 0xE5, 0xBF, 0x85, 0xE9, 0xA1, 0xBB, 0xE7,
     0xA1, 0xAE, 0xE8, 0xAE, 0xA4, 0xE5, 0xBA, 0x97, 0xE9, 0x93, 0xBA, 0xE3, 0x80, 0x81, 0xE5, 0x95, 0x86, 0xE5,
     0x93, 0x81, 0xE3, 0x80, 0x81, 0xE6, 0xB4, 0xBB, 0xE5, 0x8A, 0xA8, 0xE5, 0x92, 0x8C, 0xE7, 0x94, 0xA8, 0xE6,
     0x88, 0xB7, 0xE8, 0xB5, 0x84, 0xE6, 0xA0, 0xBC, 0xEF, 0xBC, 0x8C, 0xE4, 0xB8, 0x94, 0xE5, 0x90, 0x8C, 0xE4,
     0xB8, 0x80, 0xE8, 0xAF, 0x84, 0xE4, 0xBB, 0xB7, 0xE5, 0xAF, 0xB9, 0xE5, 0x90, 0x8C, 0xE4, 0xB8, 0x80, 0xE5,
     0xBA, 0x97, 0xE9, 0x93, 0xBA, 0xE5, 0x92, 0x8C, 0xE5, 0x85, 0xB7, 0xE4, 0xBD, 0x93, 0xE5, 0x95, 0x86, 0xE5,
     0x93, 0x81, 0xE5, 0x8F, 0xAA, 0xE8, 0x83, 0xBD, 0xE5, 0xAE, 0x9E, 0xE9, 0x99, 0x85, 0xE5, 0x8F, 0x91, 0xE5,
     0x88, 0xB8, 0xE4, 0xB8, 0x80, 0xE6, 0xAC, 0xA1, 0x0A, 0x20, 0x20, 0x2D, 0x20, 0x45, 0x53, 0x20, 0x72, 0x69,
     0x73, 0x6B, 0x5F, 0x6C, 0x65, 0x76, 0x65, 0x6C, 0xE4, 0xBB, 0xA3, 0xE8, 0xA1, 0xA8, 0xE7, 0xBB, 0x9F, 0xE8,
     0xAE, 0xA1, 0xE9, 0xA3, 0x8E, 0xE9, 0x99, 0xA9, 0xEF, 0xBC, 0x8C, 0xE4, 0xB8, 0x8D, 0xE7, 0xAD, 0x89, 0xE4,
     0xBA, 0x8E, 0xE5, 0x8D, 0x95, 0xE6, 0x9D, 0xA1, 0xE8, 0xAF, 0x84, 0xE4, 0xBB, 0xB7, 0xE4, 0xB8, 0xA5, 0xE9,
     0x87, 0x8D, 0xE7, 0xA8, 0x8B, 0xE5, 0xBA, 0xA6]"

definition fallbackDecisionSchema :: gostring where
  "fallbackDecisionSchema = bytes [
     0x7B, 0x22, 0x74, 0x79, 0x70, 0x65, 0x22, 0x3A, 0x22, 0x66, 0x69, 0x6E, 0x61, 0x6C, 0x22, 0x2C, 0x22, 0x66,
     0x69, 0x6E, 0x61, 0x6C, 0x5F, 0x61, 0x6E, 0x73, 0x77, 0x65, 0x72, 0x22, 0x3A, 0x22, 0x2E, 0x2E, 0x2E, 0x22,
     0x2C, 0x22, 0x61, 0x63, 0x74, 0x69, 0x6F, 0x6E, 0x22, 0x3A, 0x22, 0x47, 0x52, 0x41, 0x4E, 0x54, 0x5F, 0x43,
     0x4F, 0x55, 0x50, 0x4F, 0x4E, 0x7C, 0x4E, 0x4F, 0x5F, 0x43, 0x4F, 0x55, 0x50, 0x4F, 0x4E, 0x7C, 0x4D, 0x41,
     0x4E, 0x55, 0x41, 0x4C, 0x5F, 0x52, 0x45, 0x56, 0x49, 0x45, 0x57, 0x22, 0x2C, 0x22, 0x73, 0x63, 0x65, 0x6E,
     0x65, 0x22, 0x3A, 0x22, 0x2E, 0x2E, 0x2E, 0x22, 0x2C, 0x22, 0x72, 0x69, 0x73, 0x6B, 0x5F, 0x6C, 0x65, 0x76,
     0x65, 0x6C, 0x22, 0x3A, 0x22, 0x6C, 0x6F, 0x77, 0x7C, 0x6D, 0x65, 0x64, 0x69, 0x75, 0x6D, 0x7C, 0x68, 0x69,
     0x67, 0x68, 0x22, 0x2C, 0x22, 0x72, 0x65, 0x61, 0x73, 0x6F, 0x6E, 0x22, 0x3A, 0x22, 0x2E, 0x2E, 0x2E, 0x22,
     0x2C, 0x22, 0x72, 0x65, 0x61, 0x73, 0x6F, 0x6E, 0x69, 0x6E, 0x67, 0x22, 0x3A, 0x22, 0x2E, 0x2E, 0x2E, 0x22,
     0x2C, 0x22, 0x63, 0x6F, 0x6E, 0x66, 0x69, 0x64, 0x65, 0x6E, 0x63, 0x65, 0x22, 0x3A, 0x30, 0x2E, 0x38, 0x35,
     0x2C, 0x22, 0x63, 0x6F, 0x75, 0x70, 0x6F, 0x6E, 0x5F, 0x73, 0x75, 0x67, 0x67, 0x65, 0x73, 0x74, 0x69, 0x6F,
     0x6E, 0x22, 0x3A, 0x22, 0x2E, 0x2E, 0x2E, 0x22, 0x2C, 0x22, 0x70, 0x6F, 0x6C, 0x69, 0x63, 0x79, 0x5F, 0x74,
     0x61, 0x67, 0x73, 0x22, 0x3A, 0x5B, 0x22, 0x2E, 0x2E, 0x2E, 0x22, 0x5D, 0x2C, 0x22, 0x6E, 0x65, 0x65, 0x64,
     0x5F, 0x68, 0x75, 0x6D, 0x61, 0x6E, 0x5F, 0x72, 0x65, 0x76, 0x69, 0x65, 0x77, 0x22, 0x3A, 0x66, 0x61, 0x6C,
     0x73, 0x65, 0x7D]"

definition evidenceGuidance :: gostring where
  "evidenceGuidance = bytes [
     0xE5, 0xBD, 0x93, 0xE5, 0x89, 0x8D, 0xE5, 0x8F, 0xAA, 0xE5, 0x85, 0x81, 0xE8, 0xAE, 0xB8, 0xE8, 0x8E, 0xB7,
     0xE5, 0x8F, 0x96, 0xE8, 0xAF, 0x84, 0xE4, 0xBB, 0xB7, 0xE4, 0xBA, 0x8B, 0xE5, 0xAE, 0x9E, 0xE8, 0xAF, 0x81,
     0xE6, 0x8D, 0xAE, 0xEF, 0xBC, 0x8C, 0xE7, 0xA1, 0xAE, 0xE8, 0xAE, 0xA4, 0x72, 0x65, 0x76, 0x69, 0x65, 0x77,
     0x5F, 0x69, 0x64, 0xE3, 0x80, 0x81, 0xE8, 0xAF, 0x84, 0xE5, 0x88, 0x86, 0xE3, 0x80, 0x81, 0xE5, 0x86, 0x85,
     0xE5, 0xAE, 0xB9, 0xE3, 0x80, 0x81, 0xE5, 0x9B, 0x9E, 0xE5, 0xA4, 0x8D, 0x2F, 0xE7, 0x94, 0xB3, 0xE8, 0xAF,
     0x89, 0xE7, 0x8A, 0xB6, 0xE6, 0x80, 0x81, 0xE3, 0x80, 0x82, 0xE4, 0xB8, 0x8D, 0xE5, 0xBE, 0x97, 0xE7, 0x9B,
     0xB4, 0xE6, 0x8E, 0xA5, 0x66, 0x69, 0x6E, 0x61, 0x6C, 0xE3, 0x80, 0x82]"

definition statisticsGuidance :: gostring where
  "statisticsGuidance = bytes [
     0xE5, 0xBD, 0x93, 0xE5, 0x89, 0x8D, 0xE5, 0xB7, 0xB2, 0xE8, 0x8E, 0xB7, 0xE5, 0xBE, 0x97, 0xE8, 0xAF, 0x84,
     0xE4, 0xBB, 0xB7, 0xE4, 0xBA, 0x8B, 0xE5, 0xAE, 0x9E, 0xEF, 0xBC, 0x8C, 0xE4, 0xB8, 0x8B, 0xE4, 0xB8, 0x80,
     0xE6, 0xAD, 0xA5, 0xE8, 0x8E, 0xB7, 0xE5, 0x8F, 0x96, 0x45, 0x53, 0xE7, 0xBB, 0x93, 0xE6, 0x9E, 0x84, 0xE5,
     0x8C, 0x96, 0xE7, 0xBB, 0x9F, 0xE8, 0xAE, 0xA1, 0xEF, 0xBC, 0x8C, 0xE7, 0x94, 0xA8, 0xE4, 0xBA, 0x8E, 0xE5,
     0x88, 0xA4, 0xE6, 0x96, 0xAD, 0xE5, 0xBA, 0x97, 0xE9, 0x93, 0xBA, 0x2F, 0xE7, 0x94, 0xA8, 0xE6, 0x88, 0xB7,
     0xE9, 0xA3, 0x8E, 0xE9, 0x99, 0xA9, 0xE3, 0x80, 0x81, 0xE8, 0xBF, 0x91, 0x37, 0x2F, 0x33, 0x30, 0xE5, 0xA4,
     0xA9, 0xE5, 0xB7, 0xAE, 0xE8, 0xAF, 0x84, 0xE5, 0x92, 0x8C, 0xE6, 0x94, 0xBF, 0xE7, 0xAD, 0x96, 0xE6, 0xA0,
     0x87, 0xE7, 0xAD, 0xBE, 0xE3, 0x80, 0x82, 0xE4, 0xB8, 0x8D, 0xE5, 0xBE, 0x97, 0xE7, 0x9B, 0xB4, 0xE6, 0x8E,
     0xA5, 0x66, 0x69, 0x6E, 0x61, 0x6C, 0xE3, 0x80, 0x82]"

definition ragGuidance :: gostring where
  "ragGuidance = bytes [
     0xE5, 0xBD, 0x93, 0xE5, 0x89, 0x8D, 0xE5, 0xB7, 0xB2, 0xE8, 0x8E, 0xB7, 0xE5, 0xBE, 0x97, 0xE8, 0xAF, 0x84,
     0xE4, 0xBB, 0xB7, 0xE4, 0xBA, 0x8B, 0xE5, 0xAE, 0x9E, 0xE5, 0x92, 0x8C, 0x45, 0x53, 0xE7, 0xBB, 0x9F, 0xE8,
     0xAE, 0xA1, 0xE3, 0x80, 0x82, 0xE8, 0x8B, 0xA5, 0xE8, 0xAF, 0x84, 0xE4, 0xBB, 0xB7, 0xE6, 0xB6, 0x89, 0xE5,
     0x8F, 0x8A, 0xE5, 0x8F, 0x91, 0xE5, 0x88, 0xB8, 0xE3, 0x80, 0x81, 0xE6, 0x8B, 0xA6, 0xE6, 0x88, 0xAA, 0xE3,
     0x80, 0x81, 0xE4, 0xBA, 0xBA, 0xE5, 0xB7, 0xA5, 0xE5, 0xA4, 0x8D, 0xE6, 0xA0, 0xB8, 0xE6, 0x88, 0x96, 0xE9,
     0x9C, 0x80, 0xE8, 0xA6, 0x81, 0xE5, 0x8E, 0x86, 0xE5, 0x8F, 0xB2, 0xE5, 0x8F, 0x82, 0xE8, 0x80, 0x83, 0xEF,
     0xBC, 0x8C, 0xE8, 0xB0, 0x83, 0xE7, 0x94, 0xA8, 0x72, 0x65, 0x74, 0x72, 0x69, 0x65, 0x76, 0x65, 0x5F, 0x72,
     0x61, 0x67, 0xE3, 0x80, 0x82, 0x61, 0x73, 0x70, 0x65, 0x63, 0x74, 0x73, 0xE5, 0xBF, 0x85, 0xE9, 0xA1, 0xBB,
     0xE5, 0x8C, 0x85, 0xE5, 0x90, 0xAB, 0x53, 0x55, 0x4D, 0x4D, 0x41, 0x52, 0x59, 0xE5, 0x92, 0x8C, 0x44, 0x45,
     0x43, 0x49, 0x53, 0x49, 0x4F, 0x4E, 0xEF, 0xBC, 0x8C, 0xE5, 0xB9, 0xB6, 0xE6, 0x8C, 0x89, 0xE5, 0x9C, 0xBA,
     0xE6, 0x99, 0xAF, 0xE8, 0xBF, 0xBD, 0xE5, 0x8A, 0xA0, 0xE5, 0xAF, 0xB9, 0xE5, 0xBA, 0x94, 0x61, 0x73, 0x70,
     0x65, 0x63, 0x74, 0xEF, 0xBC, 0x9B, 0x74, 0x6F, 0x70, 0x5F, 0x6B, 0xE5, 0xBB, 0xBA, 0xE8, 0xAE, 0xAE, 0xE4,
     0xB8, 0xBA, 0x31, 0x30, 0xE3, 0x80, 0x82, 0xE4, 0xB8, 0x8D, 0xE5, 0xBE, 0x97, 0xE7, 0x9B, 0xB4, 0xE6, 0x8E,
     0xA5, 0x66, 0x69, 0x6E, 0x61, 0x6C, 0xE3, 0x80, 0x82]"

definition decisionGuidance :: gostring where
  "decisionGuidance = bytes [
     0xE5, 0xBD, 0x93, 0xE5, 0x89, 0x8D, 0xE4, 0xBF, 0xA1, 0xE6, 0x81, 0xAF, 0xE5, 0xB7, 0xB2, 0xE8, 0xB6, 0xB3,
     0xE5, 0xA4, 0x9F, 0xEF, 0xBC, 0x8C, 0xE7, 0xBB, 0x93, 0xE5, 0x90, 0x88, 0xE4, 0xBA, 0x8B, 0xE5, 0xAE, 0x9E,
     0xE3, 0x80, 0x81, 0xE7, 0xBB, 0x9F, 0xE8, 0xAE, 0xA1, 0xE5, 0x92, 0x8C, 0xE5, 0x8E, 0x86, 0xE5, 0x8F, 0xB2,
     0xE6, 0xA1, 0x88, 0xE4, 0xBE, 0x8B, 0xE8, 0xBE, 0x93, 0xE5, 0x87, 0xBA, 0xE6, 0x9C, 0x80, 0xE7, 0xBB, 0x88,
     0xE7, 0xA7, 0x92, 0xE6, 0x9D, 0x80, 0xE4, 0xBC, 0x98, 0xE6, 0x83, 0xA0, 0xE5, 0x88, 0xB8, 0xE5, 0x86, 0xB3,
     0xE7, 0xAD, 0x96, 0xE3, 0x80, 0x82, 0xE5, 0x8F, 0xAA, 0xE8, 0xBE, 0x93, 0xE5, 0x87, 0xBA, 0x66, 0x69, 0x6E,
     0x61, 0x6C, 0x20, 0x4A, 0x53, 0x4F, 0x4E, 0xEF, 0xBC, 0x8C, 0xE4, 0xB8, 0x8D, 0xE8, 0xA6, 0x81, 0xE7, 0xBB,
     0xA7, 0xE7, 0xBB, 0xAD, 0xE8, 0xB0, 0x83, 0xE7, 0x94, 0xA8, 0xE5, 0xB7, 0xA5, 0xE5, 0x85, 0xB7, 0xE3, 0x80,
     0x82]"

definition defaultGuidance :: gostring where
  "defaultGuidance = bytes [
     0xE6, 0x8C, 0x89, 0xE6, 0xB8, 0x90, 0xE8, 0xBF, 0x9B, 0xE5, 0xBC, 0x8F, 0xE6, 0x8A, 0xAB, 0xE9, 0x9C, 0xB2,
     0xE9, 0xA1, 0xBA, 0xE5, 0xBA, 0x8F, 0xE8, 0xB0, 0x83, 0xE7, 0x94, 0xA8, 0xE5, 0xB7, 0xA5, 0xE5, 0x85, 0xB7,
     0xEF, 0xBC, 0x8C, 0xE9, 0x81, 0xBF, 0xE5, 0x85, 0x8D, 0xE4, 0xB8, 0x80, 0xE6, 0xAC, 0xA1, 0xE6, 0x80, 0xA7,
     0xE6, 0x9A, 0xB4, 0xE9, 0x9C, 0xB2, 0xE8, 0xBF, 0x87, 0xE5, 0xA4, 0x9A, 0xE4, 0xB8, 0x8A, 0xE4, 0xB8, 0x8B,
     0xE6, 0x96, 0x87, 0xE3, 0x80, 0x82]"

text \<open>No case for the campaign stage: it gets the default.\<close>

definition stageGuidance :: "gostring \<Rightarrow> gostring" where
  "stageGuidance stage = (if stage = ''collect_review_evidence'' then evidenceGuidance
     else if stage = ''collect_es_statistics'' then statisticsGuidance
     else if stage = ''collect_rag_history'' then ragGuidance
     else if stage = ''decision_ready'' then decisionGuidance else defaultGuidance)"

section \<open>The manager\<close>

record Manager =
  pm_baseDir :: gostring
  pm_cache :: "gostring \<rightharpoonup> gostring"

definition defaultPromptDir :: gostring where
  "defaultPromptDir = ''prompts/coupon_agent''"

definition NewManager :: Manager where
  "NewManager = \<lparr>pm_baseDir = defaultPromptDir, pm_cache = (\<lambda>_. None)\<rparr>"

definition NewManagerWithDir :: "gostring \<Rightarrow> Manager" where
  "NewManagerWithDir dir = \<lparr>pm_baseDir = (if TrimSpace dir = [] then defaultPromptDir else TrimSpace dir), pm_cache = (\<lambda>_. None)\<rparr>"

type_synonym files = "gostring \<Rightarrow> gostring option"

definition loadTemplate :: "files \<Rightarrow> gostring \<Rightarrow> gostring \<Rightarrow> Manager \<Rightarrow> gostring \<times> Manager" where
  "loadTemplate files name fallback m = (case pm_cache m name of
       Some v \<Rightarrow> (v, m)
     | None \<Rightarrow> (case files (joinPath (pm_baseDir m) name) of
           None \<Rightarrow> (fallback, m \<lparr> pm_cache := (pm_cache m)(name \<mapsto> fallback) \<rparr>)
         | Some text \<Rightarrow> (let v = (if TrimSpace text = [] then fallback else TrimSpace text)
             in (v, m \<lparr> pm_cache := (pm_cache m)(name \<mapsto> v) \<rparr>))))"

definition nl :: gostring where
  "nl = bytes [0x0A]"

definition heading :: "gostring \<Rightarrow> gostring" where
  "heading title = nl @ nl @ ''## '' @ title @ nl"

definition toolLines :: "Info \<Rightarrow> gostring" where
  "toolLines t = ''- name: '' @ if_Name t @ nl @ ''  description: '' @ if_Description t @ nl @ ''  input_schema: '' @ if_InputSchema t @ nl"

definition BuildSystemPrompt :: "files \<Rightarrow> Info list \<Rightarrow> Manager \<Rightarrow> gostring \<times> Manager" where
  "BuildSystemPrompt files tools m0 =
     (let (system, m1) = loadTemplate files ''system_v1.md'' fallbackSystemPrompt m0;
          (rag, m2) = loadTemplate files ''rag_guidance_v1.md'' fallbackRAGGuidance m1;
          (rules, m3) = loadTemplate files ''policy_rules_v1.yaml'' fallbackPolicyRules m2;
          (schema, m4) = loadTemplate files ''decision_schema_v1.json'' fallbackDecisionSchema m3
      in (system @ heading ''RAG Guidance'' @ rag @ heading ''Policy Rules'' @ rules @ heading ''Decision Schema'' @ schema @
          heading ''Tools'' @ concat (map toolLines tools), m4))"

section \<open>The user prompt\<close>

definition stepRecordJson :: "StepRecord \<Rightarrow> json" where
  "stepRecordJson s = JObj ([(''step'', intJson (sr_Step s))] @ omitEmpty ''tool_name'' (sr_ToolName s) @
     [(''action'', JStr (sr_Action s))] @ omitEmpty ''arguments'' (sr_Arguments s) @ omitEmpty ''output'' (sr_Output s) @
     omitEmpty ''error'' (sr_Error s))"

definition userPayload :: "gostring \<Rightarrow> gostring \<Rightarrow> gostring \<Rightarrow> bool \<Rightarrow> gostring \<Rightarrow> StepRecord list \<Rightarrow> json" where
  "userPayload task stage required allowFinal summary history = JObj (
     [(''task'', JStr task), (''workflow_stage'', JStr stage)] @ omitEmpty ''required_next_tool'' required @
     [(''allow_final'', JBool allowFinal), (''guidance'', JStr (stageGuidance stage))] @ omitEmpty ''summary'' summary @
     [(''history'', JArr (map stepRecordJson history))])"

text \<open>\<open>json.MarshalIndent\<close> with two spaces a level; an empty array or object stays on one line.\<close>

definition newline :: "nat \<Rightarrow> gostring" where
  "newline d = nl @ replicate (2 * d) (CHR '' '')"

fun indentText :: "nat \<Rightarrow> json \<Rightarrow> gostring" where
  "indentText d (JArr vs) = (if vs = [] then ''[]''
     else ''['' @ newline (Suc d) @ Join (map (indentText (Suc d)) vs) ('','' @ newline (Suc d)) @ newline d @ '']'')"
| "indentText d (JObj kvs) = (if kvs = [] then ''{}''
     else ''{'' @ newline (Suc d) @ Join (map (\<lambda>kv. json_string (fst kv) @ '': '' @ indentText (Suc d) (snd kv)) kvs) ('','' @ newline (Suc d)) @
       newline d @ ''}'')"
| "indentText d v = json_text v"

definition BuildUserPrompt :: "gostring \<Rightarrow> gostring \<Rightarrow> gostring \<Rightarrow> bool \<Rightarrow> gostring \<Rightarrow> StepRecord list \<Rightarrow> gostring" where
  "BuildUserPrompt task stage required allowFinal summary history =
     indentText 0 (userPayload task stage required allowFinal summary history)"

section \<open>The prompt is read back\<close>

lemma spaces_newline: "spaces (newline d)"
  by (simp add: newline_def nl_def bytes_def is_ws_def list_all_iff)

lemma reads_indent: "wf_json v \<Longrightarrow> reads (indentText d v) (canon v)"
proof (induction v arbitrary: d)
  case (JArr vs)
  then have "\<forall>v \<in> set vs. reads (indentText (Suc d) v) (canon v)" by auto
  then show ?case using reads_array [of vs "indentText (Suc d)" canon "newline (Suc d)" "newline d"] reads_empty(1) spaces_newline
    by (cases "vs = []") (auto simp del: spaces_newline)
next
  case (JObj kvs)
  then have "\<forall>kv \<in> set kvs. valid_utf8 (fst kv) \<and> reads (indentText (Suc d) (snd kv)) (canon (snd kv))" by fastforce
  then show ?case using reads_object [of kvs "indentText (Suc d)" canon "newline (Suc d)" "newline d" "'' ''"] reads_empty(2) spaces_newline
    by (cases "kvs = []") (auto simp: is_ws_def)
qed (simp only: indentText.simps, rule reads_atom; simp)+

lemma canon_intJson [simp]: "canon (intJson i) = intJson i"
  by (simp add: intJson_def)

lemma canon_step: "canon (stepRecordJson s) = stepRecordJson s"
  by (simp add: stepRecordJson_def omitEmpty_def)

lemma canon_payload: "canon (userPayload task stage required allowFinal summary history) = userPayload task stage required allowFinal summary history"
  by (simp add: userPayload_def omitEmpty_def canon_step comp_def)

text \<open>The texts of a step are valid UTF-8.\<close>

definition stepUtf8 :: "StepRecord \<Rightarrow> bool" where
  "stepUtf8 s \<longleftrightarrow> valid_utf8 (sr_ToolName s) \<and> valid_utf8 (sr_Action s) \<and> valid_utf8 (sr_Arguments s) \<and> valid_utf8 (sr_Output s) \<and>
     valid_utf8 (sr_Error s)"

lemma guidance_valid: "valid_utf8 (stageGuidance stage)"
proof -
  have "valid_utf8 evidenceGuidance" "valid_utf8 statisticsGuidance" "valid_utf8 ragGuidance" "valid_utf8 decisionGuidance" "valid_utf8 defaultGuidance"
    by code_simp+
  then show ?thesis by (simp add: stageGuidance_def)
qed

lemma step_wf: "stepUtf8 s \<Longrightarrow> wf_json (stepRecordJson s)"
  by (auto simp: stepUtf8_def stepRecordJson_def omitEmpty_def intJson_def ascii_valid)

text \<open>What a reader finds in an object under a name; a text that is empty is left out.\<close>

definition reads_text :: "(gostring \<times> json) list \<Rightarrow> gostring \<Rightarrow> gostring \<Rightarrow> bool" where
  "reads_text kvs name s \<longleftrightarrow> map_of kvs name = (if s = [] then None else Some (JStr s))"

definition reads_step :: "json \<Rightarrow> StepRecord \<Rightarrow> bool" where
  "reads_step j s \<longleftrightarrow> (case j of
       JObj fs \<Rightarrow> map_of fs ''step'' = Some (JNum (sr_Step s) 0) \<and> map_of fs ''action'' = Some (JStr (sr_Action s)) \<and>
         reads_text fs ''tool_name'' (sr_ToolName s) \<and> reads_text fs ''arguments'' (sr_Arguments s) \<and>
         reads_text fs ''output'' (sr_Output s) \<and> reads_text fs ''error'' (sr_Error s)
     | _ \<Rightarrow> False)"

lemma step_reads: "reads_step (stepRecordJson s) s"
  by (simp add: reads_step_def reads_text_def stepRecordJson_def omitEmpty_def intJson_def)

lemma prompt_parsed:
  assumes "valid_utf8 task" "valid_utf8 stage" "valid_utf8 required" "valid_utf8 summary" "\<forall>s \<in> set history. stepUtf8 s"
  shows "json_parse (BuildUserPrompt task stage required allowFinal summary history) =
    Some (userPayload task stage required allowFinal summary history)"
proof -
  have "wf_json (userPayload task stage required allowFinal summary history)"
    using assms guidance_valid step_wf by (auto simp: userPayload_def omitEmpty_def ascii_valid)
  from reads_parse [OF reads_indent [OF this]] show ?thesis by (simp add: BuildUserPrompt_def canon_payload)
qed

text \<open>C32: the user prompt is a JSON object in which a reader finds the task, the stage, whether a final answer is
  allowed, the guidance of the stage, the required tool and the summary (left out when empty), and under
  \<open>history\<close> an array with one object per step, in order, with the number, the action, the tool, the
  arguments, the output and the error of that step (the last four left out when empty), whatever valid
  UTF-8 texts they are made of.\<close>

theorem user_prompt_roundtrip:
  assumes "valid_utf8 task" "valid_utf8 stage" "valid_utf8 required" "valid_utf8 summary" "\<forall>s \<in> set history. stepUtf8 s"
  shows "\<exists>kvs items. json_parse (BuildUserPrompt task stage required allowFinal summary history) = Some (JObj kvs) \<and>
    distinct (map fst kvs) \<and> map_of kvs ''task'' = Some (JStr task) \<and> map_of kvs ''workflow_stage'' = Some (JStr stage) \<and>
    map_of kvs ''allow_final'' = Some (JBool allowFinal) \<and> map_of kvs ''guidance'' = Some (JStr (stageGuidance stage)) \<and>
    reads_text kvs ''required_next_tool'' required \<and> reads_text kvs ''summary'' summary \<and>
    map_of kvs ''history'' = Some (JArr items) \<and> length items = length history \<and>
    (\<forall>i < length history. reads_step (items ! i) (history ! i))"
proof -
  define kvs where "kvs = [(''task'', JStr task), (''workflow_stage'', JStr stage)] @ omitEmpty ''required_next_tool'' required @
     [(''allow_final'', JBool allowFinal), (''guidance'', JStr (stageGuidance stage))] @ omitEmpty ''summary'' summary @
     [(''history'', JArr (map stepRecordJson history))]"
  have "userPayload task stage required allowFinal summary history = JObj kvs" by (simp add: userPayload_def kvs_def)
  moreover have "distinct (map fst kvs)" by (simp add: kvs_def omitEmpty_def)
  ultimately show ?thesis using prompt_parsed [OF assms] step_reads
    by (intro exI [of _ kvs] exI [of _ "map stepRecordJson history"]) (simp add: kvs_def omitEmpty_def reads_text_def)
qed

definition demoPromptStep :: StepRecord where
  "demoPromptStep = \<lparr>sr_Step = 1, sr_ToolName = ''retrieve_rag'', sr_Action = ''tool_call'', sr_Arguments = [], sr_Output = quoted ''{`x`: <1>}'', sr_Error = []\<rparr>"

lemma user_prompt_roundtrip_witness:
  "\<exists>kvs item. json_parse (BuildUserPrompt ''decide'' ''decision_ready'' [] True ''seen'' [demoPromptStep]) = Some (JObj kvs) \<and>
     map_of kvs ''task'' = Some (JStr ''decide'') \<and> map_of kvs ''history'' = Some (JArr [item]) \<and> reads_step item demoPromptStep"
proof -
  have "quoted ''{`x`: <1>}'' = [CHR ''{'', CHR 0x22, CHR ''x'', CHR 0x22, CHR '':'', CHR '' '', CHR ''<'', CHR ''1'', CHR ''>'', CHR ''}'']"
    by code_simp
  then have s: "\<forall>s \<in> set [demoPromptStep]. stepUtf8 s" by (simp add: stepUtf8_def demoPromptStep_def ascii_valid)
  have v: "valid_utf8 ''decide''" "valid_utf8 ''decision_ready''" "valid_utf8 []" "valid_utf8 ''seen''" by (simp_all add: ascii_valid)
  from user_prompt_roundtrip [OF v s, of True] obtain kvs items where r:
    "json_parse (BuildUserPrompt ''decide'' ''decision_ready'' [] True ''seen'' [demoPromptStep]) = Some (JObj kvs)"
    "map_of kvs ''task'' = Some (JStr ''decide'')" "map_of kvs ''history'' = Some (JArr items)" "length items = length [demoPromptStep]"
    "\<forall>i < length [demoPromptStep]. reads_step (items ! i) ([demoPromptStep] ! i)" by blast
  from r(4) obtain item where item: "items = [item]" by (auto simp: length_Suc_conv)
  have "reads_step item demoPromptStep" using r(5) [rule_format, of 0] by (simp add: item)
  with r(1-3) show ?thesis by (auto simp: item)
qed

end
