(* ===== verification/Llm_Client.thy ===== *)
theory Llm_Client
  imports Prompts Config Resilience
begin

text \<open>
  \<open>internal/llm\<close> and \<open>internal/llm/deepseek/client.go\<close>: a question to the model as one HTTP exchange, and its answer
  read from the text of the body. The exchange is the parameter \<open>http\<close> of \<open>Service_Clients\<close>, which here also gets
  the value of the \<open>Authorization\<close> header. A temperature that is infinite or no number makes \<open>json.Marshal\<close> fail.
\<close>

record ChatRequest =
  lq_SystemPrompt :: gostring
  lq_UserPrompt :: gostring

record ChatResponse =
  la_ID :: gostring
  la_Model :: gostring
  la_Content :: gostring

section \<open>The client\<close>

record DeepseekClient =
  ds_baseURL :: gostring
  ds_apiKey :: gostring
  ds_model :: gostring
  ds_maxTokens :: int
  ds_temperature :: gofloat
  ds_timeout :: int

definition NewDeepseekClient :: "LLMConfig \<Rightarrow> DeepseekClient" where
  "NewDeepseekClient cfg = \<lparr>ds_baseURL = trimRightChar (CHR ''/'') (lm_BaseURL cfg), ds_apiKey = lm_APIKey cfg,
     ds_model = lm_Model cfg, ds_maxTokens = lm_MaxTokens cfg, ds_temperature = lm_Temperature cfg,
     ds_timeout = seconds (lm_TimeoutSeconds cfg)\<rparr>"

text \<open>\<open>omitempty\<close> of a \<open>float64\<close>: left out when it is zero.\<close>

definition omitZeroFloat :: "gostring \<Rightarrow> gofloat \<Rightarrow> jobject option" where
  "omitZeroFloat name f = (case f of
       FDec m e \<Rightarrow> (case f64_of_lit m e of
           None \<Rightarrow> None
         | Some (n, k) \<Rightarrow> Some (if n = 0 then [] else [(name, float_json m e)]))
     | _ \<Rightarrow> None)"

definition messageJson :: "gostring \<Rightarrow> gostring \<Rightarrow> json" where
  "messageJson role content = JObj [(''role'', JStr role), (''content'', JStr content)]"

definition chatPayload :: "DeepseekClient \<Rightarrow> ChatRequest \<Rightarrow> json option" where
  "chatPayload c req = map_option (\<lambda>temperature. JObj ([(''model'', JStr (ds_model c)),
       (''messages'', JArr [messageJson ''system'' (lq_SystemPrompt req), messageJson ''user'' (lq_UserPrompt req)])] @
       omitZero ''max_tokens'' (ds_maxTokens c) @ temperature))
     (omitZeroFloat ''temperature'' (ds_temperature c))"

section \<open>The answer\<close>

record chatMessage =
  cm_Role :: gostring
  cm_Content :: gostring

definition messageFields :: "chatMessage fields" where
  "messageFields = [(''role'', str_f cm_Role_update), (''content'', str_f cm_Content_update)]"

definition zeroMessage :: chatMessage where
  "zeroMessage = \<lparr>cm_Role = [], cm_Content = []\<rparr>"

text \<open>A choice is its one message; of the error object only the message is read, but both its fields are checked.\<close>

record chatCompletionResponse =
  cc_ID :: gostring
  cc_Model :: gostring
  cc_Choices :: "chatMessage list"
  cc_Error :: "(gostring \<times> gostring) option"

definition errorFields :: "(gostring \<times> gostring) fields" where
  "errorFields = [(''message'', str_f apfst), (''type'', str_f apsnd)]"

definition completionFields :: "chatCompletionResponse fields" where
  "completionFields = [(''id'', str_f cc_ID_update), (''model'', str_f cc_Model_update),
     (''choices'', list_f (decode_obj [(''message'', decode_obj messageFields)]) zeroMessage cc_Choices_update),
     (''error'', ptr_f (decode_obj errorFields) ([], []) cc_Error cc_Error_update)]"

definition zeroCompletion :: chatCompletionResponse where
  "zeroCompletion = \<lparr>cc_ID = [], cc_Model = [], cc_Choices = [], cc_Error = None\<rparr>"

definition readCompletion :: "gostring \<Rightarrow> ChatResponse result" where
  "readCompletion body = (let (res, ok) = unmarshal completionFields body zeroCompletion in
     if \<not> ok then Inl (''unmarshal deepseek response: '' @ jsonError)
     else (case cc_Error res of
         Some (message, kind) \<Rightarrow> Inl (''deepseek api error: '' @ message)
       | None \<Rightarrow> (case cc_Choices res of
             [] \<Rightarrow> Inl ''deepseek response missing choices''
           | choice # _ \<Rightarrow> Inr \<lparr>la_ID = cc_ID res, la_Model = cc_Model res, la_Content = cm_Content choice\<rparr>)))"

definition Chat :: "(gostring \<Rightarrow> 'w http) \<Rightarrow> DeepseekClient \<Rightarrow> ChatRequest \<Rightarrow> 'w \<Rightarrow> ChatResponse result \<times> 'w" where
  "Chat http c req w = (case chatPayload c req of
       None \<Rightarrow> (Inl (''marshal deepseek request: '' @ jsonError), w)
     | Some payload \<Rightarrow>
         (let (reply, w1) = http (''Bearer '' @ ds_apiKey c) ''POST'' (ds_baseURL c @ ''/chat/completions'') (json_text payload) w in
           (case reply of
              NoRequest err \<Rightarrow> Inl (''create deepseek request: '' @ err)
            | NoResponse err \<Rightarrow> Inl (''call deepseek api: '' @ err)
            | NoBody err \<Rightarrow> Inl (''read deepseek response: '' @ err)
            | Response status body \<Rightarrow>
                if status \<ge> 400 then Inl (''deepseek api returned status '' @ show_int status @ '': '' @ body)
                else readCompletion body, w1)))"

end
