(* ===== verification/Http_Server.thy ===== *)
theory Http_Server
  imports Job_Solo Llm_Client Bootstrap Json_Facts Job_Demo
begin

text \<open>
  \<open>internal/server/http\<close>: the routes, the handlers and what they write. A handler gets the text of the body; those
  that use the jobs or the agent are programs of \<open>Job_Worker\<close>. The clock texts of the two time formats the handlers use are
  parameters. \<open>json.Encoder\<close> puts a line feed after the value. The text of the error of a body that was broken off is
  that of the part received.
\<close>

section \<open>Answers\<close>

record HttpAnswer =
  ha_Status :: int
  ha_Body :: gostring

definition writeJSON :: "int \<Rightarrow> json \<Rightarrow> HttpAnswer" where
  "writeJSON status payload = \<lparr>ha_Status = status, ha_Body = json_text payload @ nl\<rparr>"

definition writeError :: "int \<Rightarrow> gostring \<Rightarrow> HttpAnswer" where
  "writeError status message = writeJSON status (JObj [(''error'', JStr message)])"

section \<open>Bodies\<close>

text \<open>\<open>json.Decoder.Decode\<close> reads the first value; what follows it is never looked at.\<close>

definition decodeBody :: "'a fields \<Rightarrow> gostring \<Rightarrow> 'a \<Rightarrow> 'a \<times> bool" where
  "decodeBody fs body a = (case pvalue (json_fuel body) body of None \<Rightarrow> (a, False) | Some (v, rest) \<Rightarrow> decode_obj fs v a)"

definition chatDebugFields :: "ChatRequest fields" where
  "chatDebugFields = [(''system_prompt'', str_f lq_SystemPrompt_update), (''user_prompt'', str_f lq_UserPrompt_update)]"

record agentRunRequest =
  aq_SessionID :: gostring
  aq_ExecutionID :: gostring
  aq_ParentExecutionID :: gostring
  aq_Task :: gostring

definition zeroRun :: agentRunRequest where
  "zeroRun = \<lparr>aq_SessionID = [], aq_ExecutionID = [], aq_ParentExecutionID = [], aq_Task = []\<rparr>"

definition agentRunFields :: "agentRunRequest fields" where
  "agentRunFields = [(''session_id'', str_f aq_SessionID_update), (''execution_id'', str_f aq_ExecutionID_update),
     (''parent_execution_id'', str_f aq_ParentExecutionID_update), (''task'', str_f aq_Task_update)]"

definition zeroRequest :: Request where
  "zeroRequest = \<lparr>rq_SessionID = [], rq_ExecutionID = [], rq_ParentExecutionID = [], rq_StoreID = 0, rq_ReviewID = 0,
     rq_EvidenceVersion = 0, rq_UserID = 0, rq_SkuID = 0, rq_SpuID = 0, rq_SourceEventID = [], rq_CampaignID = [],
     rq_ActivityID = [], rq_PolicyVersion = [], rq_Scene = [], rq_TriggerType = [], rq_Window = [], rq_Task = [],
     rq_MaxRetries = None\<rparr>"

definition requestFields :: "Request fields" where
  "requestFields = [(''session_id'', str_f rq_SessionID_update), (''execution_id'', str_f rq_ExecutionID_update),
     (''parent_execution_id'', str_f rq_ParentExecutionID_update), (''store_id'', int64_f rq_StoreID_update),
     (''review_id'', int64_f rq_ReviewID_update), (''evidence_version'', int64_f rq_EvidenceVersion_update),
     (''user_id'', int64_f rq_UserID_update), (''sku_id'', int64_f rq_SkuID_update), (''spu_id'', int64_f rq_SpuID_update),
     (''source_event_id'', str_f rq_SourceEventID_update), (''campaign_id'', str_f rq_CampaignID_update),
     (''activity_id'', str_f rq_ActivityID_update), (''policy_version'', str_f rq_PolicyVersion_update),
     (''scene'', str_f rq_Scene_update), (''trigger_type'', str_f rq_TriggerType_update), (''window'', str_f rq_Window_update),
     (''task'', str_f rq_Task_update), (''max_retries'', ptr_f (int64_f (\<lambda>f. f)) 0 rq_MaxRetries rq_MaxRetries_update)]"

definition batchFields :: "Request list fields" where
  "batchFields = [(''items'', list_f (decode_obj requestFields) zeroRequest (\<lambda>f. f))]"

section \<open>Payloads\<close>

definition healthJson :: "AppConfig \<Rightarrow> gostring \<Rightarrow> json" where
  "healthJson app timestamp = JObj [(''status'', JStr ''ok''), (''service'', JStr (ap_Name app)), (''env'', JStr (ap_Env app)),
     (''version'', JStr (ap_Version app)), (''timestamp'', JStr timestamp)]"

definition chatDebugJson :: "ChatResponse \<Rightarrow> json" where
  "chatDebugJson resp = JObj [(''trace_id'', JStr (la_ID resp)), (''model'', JStr (la_Model resp)), (''output'', JStr (la_Content resp))]"

definition stepJson :: "Step \<Rightarrow> json" where
  "stepJson s = JObj ([(''step'', intJson (st_Step s))] @ omitEmpty ''tool_name'' (st_ToolName s) @
     omitEmpty ''arguments'' (st_Arguments s) @ omitEmpty ''observation'' (st_Observation s) @ omitEmpty ''error'' (st_Error s) @
     omitZero ''duration_ms'' (st_DurationMS s))"

definition agentRunJson :: "Result \<Rightarrow> json" where
  "agentRunJson r = JObj ([(''session_id'', JStr (rs_SessionID r))] @ omitEmpty ''execution_id'' (rs_ExecutionID r) @
     omitEmpty ''parent_execution_id'' (rs_ParentExecutionID r) @ [(''task'', JStr (rs_Task r)), (''final_answer'', JStr (rs_FinalAnswer r))] @
     omitEmpty ''summary'' (rs_Summary r) @ [(''steps'', JArr (map stepJson (rs_Steps r)))])"

definition submitJson :: "Record \<Rightarrow> json" where
  "submitJson rec = JObj ([(''job_id'', JStr (jr_ID rec)), (''session_id'', JStr (jr_SessionID rec)),
     (''execution_id'', JStr (jr_ExecutionID rec))] @ omitEmpty ''parent_execution_id'' (jr_ParentExecutionID rec) @
     [(''status'', JStr (statusName (jr_Status rec)))])"

text \<open>A job record with its result and its attempts; \<open>stamp\<close> prints a time as RFC 3339 with nanoseconds.\<close>

definition resultJson :: "Result \<Rightarrow> json" where
  "resultJson r = JObj ([(''session_id'', JStr (rs_SessionID r))] @ omitEmpty ''execution_id'' (rs_ExecutionID r) @
     omitEmpty ''parent_execution_id'' (rs_ParentExecutionID r) @ [(''task'', JStr (rs_Task r)), (''final_answer'', JStr (rs_FinalAnswer r)),
      (''steps'', JArr (map stepJson (rs_Steps r)))] @ omitEmpty ''summary'' (rs_Summary r) @ [(''completed'', JBool (rs_Completed r))])"

definition timeOpt :: "(int \<Rightarrow> gostring) \<Rightarrow> gostring \<Rightarrow> int option \<Rightarrow> jobject" where
  "timeOpt stamp name t = (case t of None \<Rightarrow> [] | Some t \<Rightarrow> [(name, JStr (stamp t))])"

definition attemptJson :: "(int \<Rightarrow> gostring) \<Rightarrow> ExecutionAttempt \<Rightarrow> json" where
  "attemptJson stamp a = JObj ([(''attempt'', intJson (at_Attempt a)), (''execution_id'', JStr (at_ExecutionID a))] @
     omitEmpty ''parent_execution_id'' (at_ParentExecutionID a) @ [(''status'', JStr (statusName (at_Status a)))] @
     omitEmpty ''error'' (at_Error a) @ [(''started_at'', JStr (stamp (at_StartedAt a)))] @ timeOpt stamp ''finished_at'' (at_FinishedAt a))"

definition recordJson :: "(int \<Rightarrow> gostring) \<Rightarrow> Record \<Rightarrow> json" where
  "recordJson stamp r = JObj ([(''job_id'', JStr (jr_ID r)), (''session_id'', JStr (jr_SessionID r)),
      (''execution_id'', JStr (jr_ExecutionID r))] @ omitEmpty ''parent_execution_id'' (jr_ParentExecutionID r) @
     omitZero ''store_id'' (jr_StoreID r) @ omitZero ''review_id'' (jr_ReviewID r) @ omitZero ''evidence_version'' (jr_EvidenceVersion r) @
     omitZero ''user_id'' (jr_UserID r) @ omitZero ''sku_id'' (jr_SkuID r) @ omitZero ''spu_id'' (jr_SpuID r) @
     omitEmpty ''source_event_id'' (jr_SourceEventID r) @ omitEmpty ''campaign_id'' (jr_CampaignID r) @
     omitEmpty ''activity_id'' (jr_ActivityID r) @ omitEmpty ''policy_version'' (jr_PolicyVersion r) @
     omitEmpty ''scene'' (jr_Scene r) @ omitEmpty ''trigger_type'' (jr_TriggerType r) @ omitEmpty ''window'' (jr_Window r) @
     [(''task'', JStr (jr_Task r)), (''status'', JStr (statusName (jr_Status r))), (''attempts'', intJson (jr_Attempts r)),
      (''max_retries'', intJson (jr_MaxRetries r))] @ omitEmpty ''error'' (jr_Error r) @
     (case jr_Result r of None \<Rightarrow> [] | Some res \<Rightarrow> [(''result'', resultJson res)]) @
     (if jr_Executions r = [] then [] else [(''executions'', JArr (map (attemptJson stamp) (jr_Executions r)))]) @
     [(''created_at'', JStr (stamp (jr_CreatedAt r))), (''updated_at'', JStr (stamp (jr_UpdatedAt r)))] @
     timeOpt stamp ''started_at'' (jr_StartedAt r) @ timeOpt stamp ''finished_at'' (jr_FinishedAt r) @
     [(''version'', intJson (jr_Version r))])"

section \<open>Handlers\<close>

text \<open>What the handlers keep: the settings, the job service (\<open>None\<close> for the nil pointer), and from outside the answers
  of the model and the formats of times.\<close>

record Handler =
  hd_cfg :: AppSettings
  hd_jobs :: "JobConfig option"
  hd_chat :: "ChatRequest \<Rightarrow> ChatResponse result"
  hd_health :: "int \<Rightarrow> gostring"
  hd_compact :: "int \<Rightarrow> gostring"
  hd_stamp :: "int \<Rightarrow> gostring"

definition handleHealth :: "Handler \<Rightarrow> HttpAnswer Prog" where
  "handleHealth h = NowC (\<lambda>now. Ret (writeJSON 200 (healthJson (cg_App (hd_cfg h)) (hd_health h now))))"

definition handleChatDebug :: "Handler \<Rightarrow> gostring \<Rightarrow> HttpAnswer Prog" where
  "handleChatDebug h body = (let (req, ok) = decodeBody chatDebugFields body \<lparr>lq_SystemPrompt = [], lq_UserPrompt = []\<rparr> in
     Ret (if \<not> ok then writeError 400 ''invalid json body''
       else if lq_UserPrompt req = [] then writeError 400 ''user_prompt is required''
       else (case hd_chat h req of
           Inl err \<Rightarrow> writeError 502 err
         | Inr resp \<Rightarrow> writeJSON 200 (chatDebugJson resp))))"

definition runInput :: "Handler \<Rightarrow> agentRunRequest \<Rightarrow> (ExecutionInput \<Rightarrow> HttpAnswer Prog) \<Rightarrow> HttpAnswer Prog" where
  "runInput h req k =
     (let sessionID = (if TrimSpace (aq_SessionID req) = [] then ''sync:default'' else TrimSpace (aq_SessionID req));
          input = (\<lambda>executionID. \<lparr>ei_SessionID = sessionID, ei_ExecutionID = executionID,
            ei_ParentExecutionID = TrimSpace (aq_ParentExecutionID req), ei_Task = aq_Task req, ei_ReviewID = 0, ei_EvidenceVersion = 0,
            ei_StoreID = 0, ei_UserID = 0, ei_SkuID = 0, ei_SpuID = 0, ei_ActivityID = [], ei_PolicyVersion = []\<rparr>)
      in if TrimSpace (aq_ExecutionID req) = [] then NowC (\<lambda>now. k (input (''sync:'' @ hd_compact h now)))
         else k (input (TrimSpace (aq_ExecutionID req))))"

definition handleAgentRun :: "Handler \<Rightarrow> gostring \<Rightarrow> HttpAnswer Prog" where
  "handleAgentRun h body = (let (req, ok) = decodeBody agentRunFields body zeroRun in
     if \<not> ok then Ret (writeError 400 ''invalid json body'')
     else if TrimSpace (aq_Task req) = [] then Ret (writeError 400 ''task is required'')
     else runInput h req (\<lambda>input. RunC input (\<lambda>res. Ret (case res of
         Inl err \<Rightarrow> writeError 502 err
       | Inr r \<Rightarrow> writeJSON 200 (agentRunJson r)))))"

text \<open>The check the three handlers of jobs begin with.\<close>

definition withJobs :: "Handler \<Rightarrow> (JobConfig \<Rightarrow> HttpAnswer Prog) \<Rightarrow> HttpAnswer Prog" where
  "withJobs h k = (case hd_jobs h of
       None \<Rightarrow> Ret (writeError 503 ''agent job queue is not enabled'')
     | Some cfg \<Rightarrow> if \<not> jc_Enabled cfg then Ret (writeError 503 ''agent job queue is not enabled'') else k cfg)"

definition handleAgentJobSubmit :: "Handler \<Rightarrow> gostring \<Rightarrow> HttpAnswer Prog" where
  "handleAgentJobSubmit h body = withJobs h (\<lambda>cfg. let (req, ok) = decodeBody requestFields body zeroRequest in
     if \<not> ok then Ret (writeError 400 ''invalid json body'')
     else andThen (Submit cfg req) (\<lambda>r. Ret (case r of
         Inl err \<Rightarrow> writeError 400 err
       | Inr rec \<Rightarrow> writeJSON 202 (submitJson rec))))"

primrec submitItems :: "JobConfig \<Rightarrow> json list \<Rightarrow> Request list \<Rightarrow> HttpAnswer Prog" where
  "submitItems cfg jobs [] = Ret (writeJSON 202 (JObj [(''jobs'', JArr jobs)]))"
| "submitItems cfg jobs (item # items) = andThen (Submit cfg item) (\<lambda>r. case r of
       Inl err \<Rightarrow> Ret (writeError 400 err)
     | Inr rec \<Rightarrow> submitItems cfg (jobs @ [submitJson rec]) items)"

definition handleAgentJobBatchSubmit :: "Handler \<Rightarrow> gostring \<Rightarrow> HttpAnswer Prog" where
  "handleAgentJobBatchSubmit h body = withJobs h (\<lambda>cfg. let (items, ok) = decodeBody batchFields body [] in
     if \<not> ok then Ret (writeError 400 ''invalid json body'')
     else if items = [] then Ret (writeError 400 ''items is required'')
     else if aj_MaxBatchSize (cg_AgentJob (hd_cfg h)) < int (length items) then Ret (writeError 400 ''items exceeds max_batch_size'')
     else submitItems cfg [] items)"

text \<open>\<open>pathValue\<close> is the segment of the path that stands for the job.\<close>

definition handleAgentJobGet :: "Handler \<Rightarrow> gostring \<Rightarrow> HttpAnswer Prog" where
  "handleAgentJobGet h pathValue = withJobs h (\<lambda>cfg. let jid = TrimSpace pathValue in
     if jid = [] then Ret (writeError 400 ''job_id is required'')
     else andThen (GetJob cfg jid) (\<lambda>r. Ret (case r of
         Inl err \<Rightarrow> writeError 502 err
       | Inr None \<Rightarrow> writeError 404 ''job not found''
       | Inr (Some rec) \<Rightarrow> writeJSON 200 (recordJson (hd_stamp h) rec))))"

section \<open>Routes\<close>

text \<open>A request as the multiplexer sees it: the method and the unescaped segments of its clean path. A pattern for GET
  also takes HEAD; a path without a pattern is 404, a path with patterns for other methods only is 405.\<close>

datatype Endpoint = Health | ChatDebug | AgentRun | JobSubmit | JobGet gostring

definition endpoints :: "gostring list \<Rightarrow> (gostring \<times> Endpoint) option" where
  "endpoints segments =
     (if segments = [''healthz''] then Some (''GET'', Health)
      else if segments = [''api'', ''v1'', ''llm'', ''chat''] then Some (''POST'', ChatDebug)
      else if segments = [''api'', ''v1'', ''agent'', ''run''] then Some (''POST'', AgentRun)
      else if segments = [''api'', ''v1'', ''agent'', ''jobs''] then Some (''POST'', JobSubmit)
      else (case segments of
          [a, b, c, d, jid] \<Rightarrow> if [a, b, c, d] = [''api'', ''v1'', ''agent'', ''jobs''] \<and> jid \<noteq> [] then Some (''GET'', JobGet jid) else None
        | _ \<Rightarrow> None))"

definition matches :: "gostring \<Rightarrow> gostring \<Rightarrow> bool" where
  "matches pattern methodName \<longleftrightarrow> methodName = pattern \<or> (pattern = ''GET'' \<and> methodName = ''HEAD'')"

definition Routes :: "Handler \<Rightarrow> gostring \<Rightarrow> gostring list \<Rightarrow> gostring \<Rightarrow> HttpAnswer Prog" where
  "Routes h methodName segments body =
     (if methodName = ''POST'' \<and> segments = [''api'', ''v1'', ''agent'', ''jobs'', ''batch''] then handleAgentJobBatchSubmit h body
      else (case endpoints segments of
          None \<Rightarrow> Ret \<lparr>ha_Status = 404, ha_Body = ''404 page not found'' @ nl\<rparr>
        | Some (pattern, e) \<Rightarrow>
            if \<not> matches pattern methodName then Ret \<lparr>ha_Status = 405, ha_Body = ''Method Not Allowed'' @ nl\<rparr>
            else (case e of
                Health \<Rightarrow> handleHealth h
              | ChatDebug \<Rightarrow> handleChatDebug h body
              | AgentRun \<Rightarrow> handleAgentRun h body
              | JobSubmit \<Rightarrow> handleAgentJobSubmit h body
              | JobGet jid \<Rightarrow> handleAgentJobGet h jid)))"

section \<open>The access log\<close>

text \<open>The id of a request: what the caller sent, or a fresh one.\<close>

definition RequestIDFromHTTP :: "gostring \<Rightarrow> gostring \<Rightarrow> gostring \<Rightarrow> gostring" where
  "RequestIDFromHTTP xRequestId xTraceId fresh = (if xRequestId \<noteq> [] then xRequestId else if xTraceId \<noteq> [] then xTraceId else fresh)"

definition WithRequestID :: "gostring \<Rightarrow> gostring \<Rightarrow> gostring" where
  "WithRequestID requestID fresh = (if requestID = [] then fresh else requestID)"

record AccessLog =
  al_RequestID :: gostring
  al_Method :: gostring
  al_Path :: gostring
  al_Status :: int
  al_DurationMS :: int
  al_RemoteAddr :: gostring

text \<open>The status of the line is the one the handler wrote; every answer above writes one.\<close>

definition withLogging :: "gostring \<Rightarrow> gostring \<Rightarrow> gostring \<Rightarrow> gostring \<Rightarrow> HttpAnswer Prog \<Rightarrow> (HttpAnswer \<times> AccessLog) Prog" where
  "withLogging requestID methodName path remote handler = NowC (\<lambda>start. andThen handler (\<lambda>a. NowC (\<lambda>now.
     Ret (a, \<lparr>al_RequestID = requestID, al_Method = methodName, al_Path = path, al_Status = ha_Status a,
       al_DurationMS = durationMS start now, al_RemoteAddr = remote\<rparr>))))"

section \<open>The server\<close>

record HttpServer =
  sv_Addr :: gostring
  sv_ReadTimeout :: int
  sv_WriteTimeout :: int
  sv_IdleTimeout :: int
  sv_ReadHeaderTimeout :: int

definition NewServer :: "HTTPConfig \<Rightarrow> HttpServer" where
  "NewServer cfg = \<lparr>sv_Addr = ht_Host cfg @ '':'' @ show_int (ht_Port cfg), sv_ReadTimeout = seconds (ht_ReadTimeoutSeconds cfg),
     sv_WriteTimeout = seconds (ht_WriteTimeoutSeconds cfg), sv_IdleTimeout = seconds (ht_IdleTimeoutSeconds cfg),
     sv_ReadHeaderTimeout = 3000000000\<rparr>"

section \<open>From the request to the result\<close>

lemma newRecord_keys:
  "reviewExecutionKey cfg (newRecord cfg req jid s e t) = reviewExecutionKey cfg (newRecord cfg req [] [] [] 0)"
  "scopeConcurrencyKey cfg (newRecord cfg req jid s e t) = scopeConcurrencyKey cfg (newRecord cfg req [] [] [] 0)"
  by (simp_all add: reviewExecutionKey_def scopeConcurrencyKey_def jobScope_def newRecord_def)

text \<open>Redis has room for the request: no key of an id to come, of its source event or of a lock of its review, and a
  free slot.\<close>

definition vacant :: "JobConfig \<Rightarrow> 'r Redis \<Rightarrow> Solo \<Rightarrow> Request \<Rightarrow> 'r \<Rightarrow> bool" where
  "vacant cfg R env req r \<longleftrightarrow> (\<forall>n. idOk (so_id env n) \<and> \<not> rd_exists R (jobKey cfg (so_id env n)) r \<and> \<not> rd_exists R (claimKey cfg (so_id env n)) r) \<and>
     rd_get R (sourceEventKey cfg (TrimSpace (rq_SourceEventID req))) r = None \<and> streamAt R (queueKey cfg) r \<and>
     (let a = newRecord cfg req [] [] [] 0 in \<not> rd_exists R (reviewExecutionKey cfg a) r \<and>
        rd_get R (globalKey cfg) r = None \<and> rd_get R (scopeConcurrencyKey cfg a) r = None \<and>
        rd_zcard R (globalKey cfg) r < jc_GlobalConcurrency cfg \<and> rd_zcard R (scopeConcurrencyKey cfg a) r < jc_ScopeConcurrency cfg)"

context redis_exists begin

lemma submitted_is_ready:
  assumes "jobCfgOk cfg" "validateRequest cfg req0 = Inr req" "vacant cfg R env req (ss_redis st)"
  obtains a st1 where "solo R env (Submit cfg req0) st = (Inr a, st1)" "rd_get R (jobKey cfg (jr_ID a)) (ss_redis st1) = Some (Job a)"
    "\<And>clock. ready cfg R clock a (ss_redis st1)" "idOk (jr_ID a)" "jr_Status a = Pending" "jr_ReviewID a = rq_ReviewID req"
    "jr_StoreID a = rq_StoreID req" "jr_Task a = rq_Task req"
    "rd_queue R (queueKey cfg) (ss_redis st1) = rd_queue R (queueKey cfg) (ss_redis st) @ [jr_ID a]" "ss_next st1 = ss_next st"
    "jr_Attempts a = 0"
proof -
  have v: "\<forall>n \<ge> ss_count st. idOk (so_id env n) \<and> \<not> rd_exists R (jobKey cfg (so_id env n)) (ss_redis st)"
    "rd_get R (sourceEventKey cfg (TrimSpace (rq_SourceEventID req))) (ss_redis st) = None" "streamAt R (queueKey cfg) (ss_redis st)"
    and fresh: "\<And>n. idOk (so_id env n)"
    using assms(3) by (simp_all add: vacant_def)
  have ttl: "0 < millis (jc_JobTTL cfg)" using assms(1) by (simp add: jobCfgOk_def)
  obtain n sess exec now st1 where run: "solo R env (Submit cfg req0) st = (Inr (newRecord cfg req (so_id env n) sess exec now), st1)"
    "rd_get R (jobKey cfg (so_id env n)) (ss_redis st1) = Some (Job (newRecord cfg req (so_id env n) sess exec now))"
    "rd_queue R (queueKey cfg) (ss_redis st1) = rd_queue R (queueKey cfg) (ss_redis st) @ [so_id env n]"
    "\<And>k. k \<noteq> jobKey cfg (so_id env n) \<Longrightarrow> k \<noteq> queueKey cfg \<Longrightarrow>
       TrimSpace (rq_SourceEventID req) = [] \<or> k \<noteq> sourceEventKey cfg (TrimSpace (rq_SourceEventID req)) \<Longrightarrow>
       rd_get R k (ss_redis st1) = rd_get R k (ss_redis st) \<and> rd_exists R k (ss_redis st1) = rd_exists R k (ss_redis st) \<and>
       (\<forall>m. rd_zscore R k m (ss_redis st1) = rd_zscore R k m (ss_redis st))" "ss_next st1 = ss_next st"
    using solo_Submit [OF ttl assms(2) v(1) impI [OF v(2)] v(3)] by metis
  let ?a = "newRecord cfg req (so_id env n) sess exec now"
  have id: "jr_ID ?a = so_id env n" "idOk (so_id env n)" using fresh by (simp_all add: newRecord_def)
  note keys = key_families [symmetric] job_key_families [OF id(2), symmetric] queue_key_differs
  have same: "rd_get R k (ss_redis st1) = rd_get R k (ss_redis st) \<and> rd_exists R k (ss_redis st1) = rd_exists R k (ss_redis st) \<and>
      rd_zcard R k (ss_redis st1) = rd_zcard R k (ss_redis st)"
    if "k \<in> {claimKey cfg (so_id env n), reviewExecutionKey cfg ?a, globalKey cfg, scopeConcurrencyKey cfg ?a}" for k
    using run(4) [of k] that keys by (auto simp: zcard)
  show thesis
  proof (rule that [OF run(1)])
    fix clock
    show "ready cfg R clock ?a (ss_redis st1)"
      using same assms(3) unfolding vacant_def ready_def id newRecord_keys [of cfg req "so_id env n" sess exec now] Let_def
      by (simp add: newRecord_def)
  qed (use run id in \<open>simp_all add: newRecord_def\<close>)
qed

lemma posted_is_served:
  assumes "jobCfgOk cfg" "hd_jobs h = Some cfg"
    and "decodeBody requestFields body zeroRequest = (req0, True)" "validateRequest cfg req0 = Inr req"
    and "vacant cfg R env req (ss_redis st)" "ss_next st = length (rd_queue R (queueKey cfg) (ss_redis st))"
  shows "\<exists>a st1. solo R env (handleAgentJobSubmit h body) st = (writeJSON 202 (submitJson a), st1) \<and>
    jr_Status a = Pending \<and> ei_ReviewID (executionInput a) = rq_ReviewID req0 \<and> ei_StoreID (executionInput a) = rq_StoreID req0 \<and>
    ei_Task (executionInput a) = TrimSpace (rq_Task req0) \<and> rd_get R (jobKey cfg (jr_ID a)) (ss_redis st1) = Some (Job a) \<and>
    rd_queue R (queueKey cfg) (ss_redis st1) = rd_queue R (queueKey cfg) (ss_redis st) @ [jr_ID a] \<and>
    (\<forall>env' consumer. so_stream env' = queueKey cfg \<longrightarrow>
      (\<exists>c st2. solo R env' (workerTurn cfg consumer) st1 = ((), st2) \<and> attempted a (so_agent env' (executionInput a)) c \<and>
        (\<forall>result. so_agent env' (executionInput a) = Inr result \<longrightarrow>
           jr_Status c = (if rs_Completed result then Succeeded else Incomplete) \<and> jr_Result c = Some result) \<and>
        (\<forall>err. so_agent env' (executionInput a) = Inl err \<longrightarrow> jr_Status c = (if 1 \<le> jr_MaxRetries a then Retrying else Failed)) \<and>
        noted (so_message env' (ss_next st)) c st1 st2 \<and> rd_get R (claimKey cfg (jr_ID a)) (ss_redis st2) = None \<and>
        rd_get R (reviewExecutionKey cfg a) (ss_redis st2) = None \<and>
        (\<forall>m. rd_zscore R (globalKey cfg) m (ss_redis st2) \<noteq> None \<longrightarrow> rd_zscore R (globalKey cfg) m (ss_redis st1) \<noteq> None) \<and>
        (\<forall>env''. solo R env'' (handleAgentJobGet h (jr_ID a)) st2 = (writeJSON 200 (recordJson (hd_stamp h) c), st2))))"
proof -
  have en: "jc_Enabled cfg" "rq_ReviewID req = rq_ReviewID req0" "rq_StoreID req = rq_StoreID req0" "rq_Task req = TrimSpace (rq_Task req0)"
    using assms(4) by (auto simp: validateRequest_def split: if_splits)
  obtain a st1 where a: "solo R env (Submit cfg req0) st = (Inr a, st1)" "rd_get R (jobKey cfg (jr_ID a)) (ss_redis st1) = Some (Job a)"
    "\<And>clock. ready cfg R clock a (ss_redis st1)" "idOk (jr_ID a)" "jr_Status a = Pending" "jr_ReviewID a = rq_ReviewID req"
    "jr_StoreID a = rq_StoreID req" "jr_Task a = rq_Task req"
    "rd_queue R (queueKey cfg) (ss_redis st1) = rd_queue R (queueKey cfg) (ss_redis st) @ [jr_ID a]" "ss_next st1 = ss_next st"
    "jr_Attempts a = 0"
    using submitted_is_ready [OF assms(1,4,5)] by metis
  have id: "TrimSpace (jr_ID a) = jr_ID a" "jr_ID a \<noteq> []" using a(4) by (simp_all add: idOk_def)
  have post: "solo R env (handleAgentJobSubmit h body) st = (writeJSON 202 (submitJson a), st1)"
    using assms(2,3) en(1) by (simp add: handleAgentJobSubmit_def withJobs_def solo_andThen a(1))
  have turn: "\<exists>c st2. solo R env' (workerTurn cfg consumer) st1 = ((), st2) \<and> attempted a (so_agent env' (executionInput a)) c \<and>
        noted (so_message env' (ss_next st)) c st1 st2 \<and> rd_get R (claimKey cfg (jr_ID a)) (ss_redis st2) = None \<and>
        rd_get R (reviewExecutionKey cfg a) (ss_redis st2) = None \<and>
        (\<forall>m. rd_zscore R (globalKey cfg) m (ss_redis st2) \<noteq> None \<longrightarrow> rd_zscore R (globalKey cfg) m (ss_redis st1) \<noteq> None) \<and>
        (\<forall>env''. solo R env'' (handleAgentJobGet h (jr_ID a)) st2 = (writeJSON 200 (recordJson (hd_stamp h) c), st2))"
    if q: "so_stream env' = queueKey cfg" for env' consumer
  proof -
    have w: "waiting R env' st1 = [entryAt R env' st1 (ss_next st)]"
      using a(9,10) assms(6) by (simp add: waiting_def q)
    define message where "message = entryAt R env' st1 (ss_next st)"
    have msg: "sm_ID message = so_message env' (ss_next st)" "sm_JobID message = jr_ID a"
      using a(9) assms(6) by (simp_all add: message_def entryAt_def q)
    have trim: "TrimSpace (sm_JobID message) = jr_ID a" using msg(2) id by simp
    let ?st = "delivered1 R env' st1"
    have st: "ss_redis ?st = ss_redis st1" "noted mid c ?st = noted mid c st1" for mid c
      by (simp_all add: delivered1_def noted_def fun_eq_iff)
    obtain st2 c where p: "solo R env' (processMessage cfg message) ?st = ((), st2)" "attempted a (so_agent env' (executionInput a)) c"
      "rd_get R (jobKey cfg (jr_ID a)) (ss_redis st2) = Some (Job c)" "noted (sm_ID message) c ?st st2"
      "rd_get R (claimKey cfg (jr_ID a)) (ss_redis st2) = None" "rd_get R (reviewExecutionKey cfg a) (ss_redis st2) = None"
      "\<And>k m. k = globalKey cfg \<or> k = scopeConcurrencyKey cfg a \<Longrightarrow> rd_zscore R k m (ss_redis st2) \<noteq> None \<Longrightarrow> rd_zscore R k m (ss_redis ?st) \<noteq> None"
      using solo_process [OF assms(1) en(1) a(4) trim, of ?st env'] a(2,3) by (metis st(1))
    have "solo R env'' (handleAgentJobGet h (jr_ID a)) st2 = (writeJSON 200 (recordJson (hd_stamp h) c), st2)" for env''
      using p(3) assms(2) en(1) id by (simp add: handleAgentJobGet_def withJobs_def GetJob_def)
    with p show ?thesis unfolding solo_workerTurn [OF w, folded message_def] st msg(1) by blast
  qed
  have outcome: "(\<forall>result. res = Inr result \<longrightarrow> jr_Status c = (if rs_Completed result then Succeeded else Incomplete) \<and> jr_Result c = Some result) \<and>
      (\<forall>err. res = Inl err \<longrightarrow> jr_Status c = (if 1 \<le> jr_MaxRetries a then Retrying else Failed))" if "attempted a res c" for res c
    using that a(11) by (cases res) (auto simp: attempted_def finished_def record_defs)
  have input: "ei_ReviewID (executionInput a) = rq_ReviewID req0" "ei_StoreID (executionInput a) = rq_StoreID req0"
    "ei_Task (executionInput a) = TrimSpace (rq_Task req0)" using a(6-8) en(2-4) by (simp_all add: executionInput_def)
  show ?thesis
  proof (rule exI [of _ a], rule exI [of _ st1], intro conjI allI impI)
    fix env' :: Solo and consumer
    assume "so_stream env' = queueKey cfg"
    from turn [OF this, of consumer] outcome show "\<exists>c st2. solo R env' (workerTurn cfg consumer) st1 = ((), st2) \<and> attempted a (so_agent env' (executionInput a)) c \<and>
        (\<forall>result. so_agent env' (executionInput a) = Inr result \<longrightarrow>
           jr_Status c = (if rs_Completed result then Succeeded else Incomplete) \<and> jr_Result c = Some result) \<and>
        (\<forall>err. so_agent env' (executionInput a) = Inl err \<longrightarrow> jr_Status c = (if 1 \<le> jr_MaxRetries a then Retrying else Failed)) \<and>
        noted (so_message env' (ss_next st)) c st1 st2 \<and> rd_get R (claimKey cfg (jr_ID a)) (ss_redis st2) = None \<and>
        rd_get R (reviewExecutionKey cfg a) (ss_redis st2) = None \<and>
        (\<forall>m. rd_zscore R (globalKey cfg) m (ss_redis st2) \<noteq> None \<longrightarrow> rd_zscore R (globalKey cfg) m (ss_redis st1) \<noteq> None) \<and>
        (\<forall>env''. solo R env'' (handleAgentJobGet h (jr_ID a)) st2 = (writeJSON 200 (recordJson (hd_stamp h) c), st2))" by metis
  qed (use post a(2,5,9) input in simp_all)
qed

end

text \<open>A list of valid requests one after the other: room for their jobs (ids that are fresh, no job of their source
  events, a stream under the key of the queue), and what is stored for each.\<close>

definition sourceKeys :: "JobConfig \<Rightarrow> Request list \<Rightarrow> gostring list" where
  "sourceKeys cfg reqs = map (\<lambda>g. sourceEventKey cfg (TrimSpace (rq_SourceEventID g))) (filter (\<lambda>g. TrimSpace (rq_SourceEventID g) \<noteq> []) reqs)"

definition roomFor :: "JobConfig \<Rightarrow> 'r Redis \<Rightarrow> Solo \<Rightarrow> Request list \<Rightarrow> 'r SoloState \<Rightarrow> bool" where
  "roomFor cfg R env reqs st \<longleftrightarrow> inj (so_id env) \<and>
     (\<forall>n \<ge> ss_count st. idOk (so_id env n) \<and> \<not> rd_exists R (jobKey cfg (so_id env n)) (ss_redis st)) \<and>
     distinct (sourceKeys cfg reqs) \<and> (\<forall>k \<in> set (sourceKeys cfg reqs). rd_get R k (ss_redis st) = None) \<and>
     streamAt R (queueKey cfg) (ss_redis st)"

definition storedFor :: "JobConfig \<Rightarrow> 'r Redis \<Rightarrow> 'r \<Rightarrow> Request \<Rightarrow> Record \<Rightarrow> bool" where
  "storedFor cfg R r g a \<longleftrightarrow> jr_ReviewID a = rq_ReviewID g \<and> jr_StoreID a = rq_StoreID g \<and> jr_Task a = TrimSpace (rq_Task g) \<and>
     jr_Status a = Pending \<and> rd_get R (jobKey cfg (jr_ID a)) r = Some (Job a)"

context redis_exists begin

lemma roomFor_step:
  assumes "0 < millis (jc_JobTTL cfg)" "roomFor cfg R env (g # gs) st" "validateRequest cfg g = Inr req"
  obtains a st1 n where "solo R env (Submit cfg g) st = (Inr a, st1)" "roomFor cfg R env gs st1" "storedFor cfg R (ss_redis st1) g a"
    "rd_queue R (queueKey cfg) (ss_redis st1) = rd_queue R (queueKey cfg) (ss_redis st) @ [jr_ID a]" "jr_ID a = so_id env n"
    "ss_count st \<le> n" "n < ss_count st1"
    "\<And>m. m < ss_count st \<Longrightarrow> idOk (so_id env m) \<Longrightarrow> rd_get R (jobKey cfg (so_id env m)) (ss_redis st1) = rd_get R (jobKey cfg (so_id env m)) (ss_redis st)"
proof -
  have req: "rq_ReviewID req = rq_ReviewID g" "rq_StoreID req = rq_StoreID g" "rq_Task req = TrimSpace (rq_Task g)"
    "rq_SourceEventID req = rq_SourceEventID g"
    using assms(3) by (auto simp: validateRequest_def split: if_splits)
  let ?src = "TrimSpace (rq_SourceEventID g)"
  have room: "\<forall>n \<ge> ss_count st. idOk (so_id env n) \<and> \<not> rd_exists R (jobKey cfg (so_id env n)) (ss_redis st)"
    "TrimSpace (rq_SourceEventID req) \<noteq> [] \<longrightarrow> rd_get R (sourceEventKey cfg (TrimSpace (rq_SourceEventID req))) (ss_redis st) = None"
    "streamAt R (queueKey cfg) (ss_redis st)" and inj: "inj (so_id env)" and keys: "distinct (sourceKeys cfg gs)"
    and others: "\<And>k. k \<in> set (sourceKeys cfg gs) \<Longrightarrow> rd_get R k (ss_redis st) = None \<and> (?src = [] \<or> k \<noteq> sourceEventKey cfg ?src)"
    using assms(2) by (auto simp: roomFor_def sourceKeys_def req(4) image_iff split: if_splits)
  obtain n sess exec now st1 where run: "solo R env (Submit cfg g) st = (Inr (newRecord cfg req (so_id env n) sess exec now), st1)"
    "rd_get R (jobKey cfg (so_id env n)) (ss_redis st1) = Some (Job (newRecord cfg req (so_id env n) sess exec now))"
    "rd_queue R (queueKey cfg) (ss_redis st1) = rd_queue R (queueKey cfg) (ss_redis st) @ [so_id env n]"
    "\<And>k. k \<noteq> jobKey cfg (so_id env n) \<Longrightarrow> k \<noteq> queueKey cfg \<Longrightarrow> ?src = [] \<or> k \<noteq> sourceEventKey cfg ?src \<Longrightarrow>
       rd_get R k (ss_redis st1) = rd_get R k (ss_redis st) \<and> rd_exists R k (ss_redis st1) = rd_exists R k (ss_redis st)"
    "streamAt R (queueKey cfg) (ss_redis st1)" "ss_count st \<le> n" "ss_count st1 = Suc n"
    using solo_Submit [OF assms(1,3) room] unfolding req(4) by metis
  have job: "rd_get R (jobKey cfg (so_id env m)) (ss_redis st1) = rd_get R (jobKey cfg (so_id env m)) (ss_redis st) \<and>
      rd_exists R (jobKey cfg (so_id env m)) (ss_redis st1) = rd_exists R (jobKey cfg (so_id env m)) (ss_redis st)"
    if "m \<noteq> n" "idOk (so_id env m)" for m
    using that inj job_key_families(5,6) [OF that(2), of cfg] by (intro run(4)) (auto dest: injD)
  have src: "rd_get R k (ss_redis st1) = None" if k: "k \<in> set (sourceKeys cfg gs)" for k
  proof -
    obtain s where s: "k = sourceEventKey cfg s" using k by (auto simp: sourceKeys_def)
    have "k \<noteq> jobKey cfg (so_id env n)" "k \<noteq> queueKey cfg" using key_families(5) [of cfg s] queue_key_differs(5) [of cfg s] by (simp_all add: s)
    then show ?thesis using run(4) [of k] others [OF k] by simp
  qed
  show thesis
  proof (rule that [OF run(1)])
    show "roomFor cfg R env gs st1"
      using inj keys src run(5-7) room(1) job by (simp add: roomFor_def)
    show "storedFor cfg R (ss_redis st1) g (newRecord cfg req (so_id env n) sess exec now)"
      using run(2) req by (simp add: storedFor_def newRecord_def)
    show "n < ss_count st1" by (simp only: run(7) lessI)
  qed (use run(3,6) job in \<open>simp_all add: newRecord_def\<close>)
qed

lemma batch_run:
  assumes "0 < millis (jc_JobTTL cfg)" "\<forall>g \<in> set gs. \<exists>req. validateRequest cfg g = Inr req" "roomFor cfg R env gs st"
  shows "\<exists>as st1. (\<forall>jobs rest. solo R env (submitItems cfg jobs (gs @ rest)) st = solo R env (submitItems cfg (jobs @ map submitJson as) rest) st1) \<and>
    list_all2 (storedFor cfg R (ss_redis st1)) gs as \<and>
    rd_queue R (queueKey cfg) (ss_redis st1) = rd_queue R (queueKey cfg) (ss_redis st) @ map jr_ID as \<and>
    (\<forall>m < ss_count st. idOk (so_id env m) \<longrightarrow> rd_get R (jobKey cfg (so_id env m)) (ss_redis st1) = rd_get R (jobKey cfg (so_id env m)) (ss_redis st))"
  using assms(2,3)
proof (induction gs arbitrary: st)
  case Nil
  show ?case by (intro exI [of _ "[]"] exI [of _ st]) simp
next
  case (Cons g gs)
  obtain req where req: "validateRequest cfg g = Inr req" using Cons.prems(1) by auto
  obtain a st1 n where a: "solo R env (Submit cfg g) st = (Inr a, st1)" "roomFor cfg R env gs st1" "storedFor cfg R (ss_redis st1) g a"
    "rd_queue R (queueKey cfg) (ss_redis st1) = rd_queue R (queueKey cfg) (ss_redis st) @ [jr_ID a]" "jr_ID a = so_id env n"
    "ss_count st \<le> n" "n < ss_count st1"
    "\<And>m. m < ss_count st \<Longrightarrow> idOk (so_id env m) \<Longrightarrow> rd_get R (jobKey cfg (so_id env m)) (ss_redis st1) = rd_get R (jobKey cfg (so_id env m)) (ss_redis st)"
    using roomFor_step [OF assms(1) Cons.prems(2) req] by metis
  obtain as st2 where as: "\<And>jobs rest. solo R env (submitItems cfg jobs (gs @ rest)) st1 = solo R env (submitItems cfg (jobs @ map submitJson as) rest) st2"
    "list_all2 (storedFor cfg R (ss_redis st2)) gs as"
    "rd_queue R (queueKey cfg) (ss_redis st2) = rd_queue R (queueKey cfg) (ss_redis st1) @ map jr_ID as"
    "\<And>m. m < ss_count st1 \<Longrightarrow> idOk (so_id env m) \<Longrightarrow> rd_get R (jobKey cfg (so_id env m)) (ss_redis st2) = rd_get R (jobKey cfg (so_id env m)) (ss_redis st1)"
    using Cons.IH [OF _ a(2)] Cons.prems(1) by auto
  have "idOk (so_id env n)" using Cons.prems(2) a(6) by (simp add: roomFor_def)
  then have "storedFor cfg R (ss_redis st2) g a" using a(3,5) as(4) [OF a(7)] by (simp add: storedFor_def)
  moreover have "solo R env (submitItems cfg jobs ((g # gs) @ rest)) st = solo R env (submitItems cfg (jobs @ map submitJson (a # as)) rest) st2" for jobs rest
    by (simp add: solo_andThen a(1) as(1))
  ultimately show ?case using as(2-4) a(4,6-8) by (intro exI [of _ "a # as"] exI [of _ st2]) auto
qed

end

text \<open>C26: a valid job that is posted is answered with 202, its id, and stored as pending, and its id is the new last
  entry of the stream. If the group has read all entries before it, the next turn of any worker is given this
  entry and attempts the job once: it runs the agent on the ids and the task of the request and stores the
  job as the answer of the agent says (succeeded or incomplete with the result; on an error waiting for a retry if the job has
  retries, failed otherwise), acknowledges the entry exactly if the job is finished, leaves no lock and no slot behind, and the job is
  read back over HTTP as the worker left it.\<close>

theorem posted_job_is_served:
  assumes "redis_exists R" "jobCfgOk cfg" "hd_jobs h = Some cfg"
    and "decodeBody requestFields body zeroRequest = (req0, True)" "validateRequest cfg req0 = Inr req"
    and "vacant cfg R env req (ss_redis st)" "ss_next st = length (rd_queue R (queueKey cfg) (ss_redis st))"
  shows "\<exists>a st1. solo R env (handleAgentJobSubmit h body) st = (writeJSON 202 (submitJson a), st1) \<and>
    jr_Status a = Pending \<and> ei_ReviewID (executionInput a) = rq_ReviewID req0 \<and> ei_StoreID (executionInput a) = rq_StoreID req0 \<and>
    ei_Task (executionInput a) = TrimSpace (rq_Task req0) \<and> rd_get R (jobKey cfg (jr_ID a)) (ss_redis st1) = Some (Job a) \<and>
    rd_queue R (queueKey cfg) (ss_redis st1) = rd_queue R (queueKey cfg) (ss_redis st) @ [jr_ID a] \<and>
    (\<forall>env' consumer. so_stream env' = queueKey cfg \<longrightarrow>
      (\<exists>c st2. solo R env' (workerTurn cfg consumer) st1 = ((), st2) \<and> attempted a (so_agent env' (executionInput a)) c \<and>
        (\<forall>result. so_agent env' (executionInput a) = Inr result \<longrightarrow>
           jr_Status c = (if rs_Completed result then Succeeded else Incomplete) \<and> jr_Result c = Some result) \<and>
        (\<forall>err. so_agent env' (executionInput a) = Inl err \<longrightarrow> jr_Status c = (if 1 \<le> jr_MaxRetries a then Retrying else Failed)) \<and>
        noted (so_message env' (ss_next st)) c st1 st2 \<and> rd_get R (claimKey cfg (jr_ID a)) (ss_redis st2) = None \<and>
        rd_get R (reviewExecutionKey cfg a) (ss_redis st2) = None \<and>
        (\<forall>m. rd_zscore R (globalKey cfg) m (ss_redis st2) \<noteq> None \<longrightarrow> rd_zscore R (globalKey cfg) m (ss_redis st1) \<noteq> None) \<and>
        (\<forall>env''. solo R env'' (handleAgentJobGet h (jr_ID a)) st2 = (writeJSON 200 (recordJson (hd_stamp h) c), st2))))"
  by (rule redis_exists.posted_is_served [OF assms])

text \<open>C27: a batch is not atomic: if any item is bad, the whole request is answered with 400 and the error of the first
  bad item, but every item before it stays submitted: the job of each is stored and pending, and their ids are
  the new entries of the stream, in order. The answer does not name them.\<close>

theorem batch_not_atomic:
  assumes "redis_exists R" "jobCfgOk cfg" "hd_jobs h = Some cfg" "jc_Enabled cfg"
    and "decodeBody batchFields body [] = (goods @ bad # rest, True)"
    and "int (length (goods @ bad # rest)) \<le> aj_MaxBatchSize (cg_AgentJob (hd_cfg h))"
    and "\<forall>g \<in> set goods. \<exists>req. validateRequest cfg g = Inr req" "validateRequest cfg bad = Inl err" "roomFor cfg R env goods st"
  shows "\<exists>as st1. solo R env (handleAgentJobBatchSubmit h body) st = (writeError 400 err, st1) \<and>
    length as = length goods \<and>
    (\<forall>i < length goods. jr_ReviewID (as ! i) = rq_ReviewID (goods ! i) \<and> jr_StoreID (as ! i) = rq_StoreID (goods ! i) \<and>
       jr_Task (as ! i) = TrimSpace (rq_Task (goods ! i)) \<and> jr_Status (as ! i) = Pending \<and>
       rd_get R (jobKey cfg (jr_ID (as ! i))) (ss_redis st1) = Some (Job (as ! i))) \<and>
    rd_queue R (queueKey cfg) (ss_redis st1) = rd_queue R (queueKey cfg) (ss_redis st) @ map jr_ID as"
proof -
  have ttl: "0 < millis (jc_JobTTL cfg)" using assms(2) by (simp add: jobCfgOk_def)
  obtain as st1 where as: "\<And>jobs rest. solo R env (submitItems cfg jobs (goods @ rest)) st = solo R env (submitItems cfg (jobs @ map submitJson as) rest) st1"
    "list_all2 (storedFor cfg R (ss_redis st1)) goods as"
    "rd_queue R (queueKey cfg) (ss_redis st1) = rd_queue R (queueKey cfg) (ss_redis st) @ map jr_ID as"
    using redis_exists.batch_run [OF assms(1) ttl assms(7,9)] by blast
  have "Submit cfg bad = Ret (Inl err)" by (simp add: Submit_def assms(8))
  then have "solo R env (handleAgentJobBatchSubmit h body) st = (writeError 400 err, st1)"
    using assms(3-6) as(1) by (simp add: handleAgentJobBatchSubmit_def withJobs_def)
  with as(2,3) show ?thesis by (auto simp: list_all2_conv_all_nth storedFor_def)
qed

section \<open>Witnesses\<close>

lemma decodeBody_text: "wf_json v \<Longrightarrow> decodeBody fs (json_text v) a = decode_obj fs (canon v) a"
  using json_parse_text [of v] by (auto simp: decodeBody_def json_parse_def split: option.splits prod.splits if_splits)

definition demoPost :: json where
  "demoPost = JObj [(''store_id'', JNum 3 0), (''review_id'', JNum 7 0), (''evidence_version'', JNum 1 0), (''task'', JStr ''t'')]"

definition demoItem :: Request where
  "demoItem = zeroRequest \<lparr> rq_StoreID := 3, rq_ReviewID := 7, rq_EvidenceVersion := 1, rq_Task := ''t'' \<rparr>"

definition demoHandler :: Handler where
  "demoHandler = \<lparr>hd_cfg = defaultConfig, hd_jobs = Some demoJobCfg, hd_chat = (\<lambda>_. Inl ''no model''), hd_health = (\<lambda>_. []),
     hd_compact = (\<lambda>_. []), hd_stamp = (\<lambda>_. [])\<rparr>"

definition demoSolo :: Solo where
  "demoSolo = \<lparr>so_agent = (\<lambda>_. Inl ''no model''), so_clock = int, so_id = (\<lambda>n. replicate (Suc n) (CHR ''a'')), so_today = ''20260101'',
     so_stream = queueKey demoJobCfg, so_message = (\<lambda>n. show_int (int n))\<rparr>"

definition demoSoloState :: "Keyspace SoloState" where
  "demoSoloState = \<lparr>ss_redis = demoRedis, ss_count = 0, ss_next = 0, ss_acked = [], ss_dead = []\<rparr>"

lemma request_names: "list_all plainName (map fst requestFields)"
  "list_all plainName [''store_id'', ''review_id'', ''evidence_version'', ''task'', ''items'']"
  unfolding requestFields_def by (simp_all only: list.map fst_conv) code_simp+

lemma demo_decode: "decode_obj requestFields demoPost zeroRequest = (demoItem, True)" "canon demoPost = demoPost" "wf_json demoPost"
proof -
  have f: "find (\<lambda>f. EqualFold k (fst f)) requestFields = find (\<lambda>f. k = fst f) requestFields"
    if "k \<in> {''store_id'', ''review_id'', ''evidence_version'', ''task''}" for k
    using find_plain [OF _ request_names(1), of k] request_names(2) that by auto
  show "decode_obj requestFields demoPost zeroRequest = (demoItem, True)"
    by (simp add: decode_obj_def demoPost_def decode_member_def f)
      (simp add: requestFields_def int_f_def str_f_def demoItem_def zeroRequest_def min_int64_def max_int64_def)
  show "canon demoPost = demoPost" "wf_json demoPost" by (simp_all add: demoPost_def ascii_valid)
qed

lemma demo_item: "validateRequest demoJobCfg demoItem = Inr demoItem" "validateRequest demoJobCfg zeroRequest = Inl ''task is required''"
  by (simp_all add: validateRequest_def demoItem_def zeroRequest_def demoJobCfg_def demo_trims)

lemma demo_hex_ids: "idOk (replicate (Suc n) (CHR ''a''))"
proof -
  have c: "chunks (replicate k (CHR ''a'')) = replicate k (97, ''a'')" for k by (induction k) (simp_all add: decodeRune_def)
  have "concat (replicate k ''a'') = replicate k (CHR ''a'')" for k by (induction k) simp_all
  then have "TrimSpace (replicate k (CHR ''a'')) = replicate k (CHR ''a'')" for k
    by (simp add: TrimSpace_def c trim_while_def isSpace_def in_rng_def dropWhile_replicate)
  from this [of "Suc n"] show ?thesis by (simp add: idOk_def del: replicate_Suc) simp
qed

lemma demo_empty: "rd_get keyspace k demoRedis = None" "rd_exists keyspace k demoRedis = False" "rd_zcard keyspace k demoRedis = 0"
  "streamAt keyspace k demoRedis" "rd_queue keyspace k demoRedis = []"
  by (simp_all add: streamAt_def demoRedis_def keyspace_def ksStr_def ksZSet_def)

lemma demo_vacant: "vacant demoJobCfg keyspace demoSolo demoItem (ss_redis demoSoloState)"
  using demo_hex_ids by (simp add: vacant_def demoSolo_def demoSoloState_def demo_empty demoJobCfg_def Let_def)

lemma demo_room: "roomFor demoJobCfg keyspace demoSolo [demoItem, demoItem] demoSoloState"
proof -
  have "TrimSpace [] = []" by code_simp
  then have "sourceKeys demoJobCfg [demoItem, demoItem] = []" by (simp add: sourceKeys_def demoItem_def zeroRequest_def)
  moreover have "inj (\<lambda>n. replicate (Suc n) (CHR ''a''))" by (rule injI) (metis Suc_inject length_replicate)
  ultimately show ?thesis using demo_hex_ids by (simp add: roomFor_def demoSolo_def demoSoloState_def demo_empty)
qed

lemma posted_job_is_served_witness:
  "\<exists>a st1 c st2. solo keyspace demoSolo (handleAgentJobSubmit demoHandler (json_text demoPost)) demoSoloState = (writeJSON 202 (submitJson a), st1) \<and>
    rd_queue keyspace (queueKey demoJobCfg) (ss_redis st1) = [jr_ID a] \<and>
    solo keyspace demoSolo (workerTurn demoJobCfg ''c'') st1 = ((), st2) \<and>
    solo keyspace demoSolo (handleAgentJobGet demoHandler (jr_ID a)) st2 = (writeJSON 200 (recordJson (\<lambda>_. []) c), st2)"
proof -
  have d: "decodeBody requestFields (json_text demoPost) zeroRequest = (demoItem, True)"
    by (simp add: decodeBody_text demo_decode)
  have h: "hd_jobs demoHandler = Some demoJobCfg" "hd_stamp demoHandler = (\<lambda>_. [])" by (simp_all add: demoHandler_def)
  have q: "rd_queue keyspace (queueKey demoJobCfg) (ss_redis demoSoloState) = []"
    "ss_next demoSoloState = length (rd_queue keyspace (queueKey demoJobCfg) (ss_redis demoSoloState))"
    by (simp_all add: demoSoloState_def demo_empty)
  from posted_job_is_served [OF keyspace_exists.redis_exists_axioms demo_cfg h(1) d demo_item(1) demo_vacant q(2)]
  obtain a st1 where a: "solo keyspace demoSolo (handleAgentJobSubmit demoHandler (json_text demoPost)) demoSoloState = (writeJSON 202 (submitJson a), st1)"
    "rd_queue keyspace (queueKey demoJobCfg) (ss_redis st1) = rd_queue keyspace (queueKey demoJobCfg) (ss_redis demoSoloState) @ [jr_ID a]"
    and turn: "\<And>env' consumer. so_stream env' = queueKey demoJobCfg \<Longrightarrow>
      \<exists>c st2. solo keyspace env' (workerTurn demoJobCfg consumer) st1 = ((), st2) \<and>
        (\<forall>env''. solo keyspace env'' (handleAgentJobGet demoHandler (jr_ID a)) st2 = (writeJSON 200 (recordJson (hd_stamp demoHandler) c), st2))"
    by (elim exE conjE) (rule that, assumption, assumption, blast)
  from turn [of demoSolo "''c''"] a h(2) q(1) show ?thesis by (auto simp: demoSolo_def)
qed

lemma batch_not_atomic_witness:
  "\<exists>a (b :: Record) st1. solo keyspace demoSolo (handleAgentJobBatchSubmit demoHandler (json_text (JObj [(''items'', JArr [demoPost, demoPost, JObj []])]))) demoSoloState =
      (writeError 400 ''task is required'', st1) \<and> rd_queue keyspace (queueKey demoJobCfg) (ss_redis st1) = [jr_ID a, jr_ID b] \<and>
      rd_get keyspace (jobKey demoJobCfg (jr_ID a)) (ss_redis st1) = Some (Job a)"
proof -
  have w: "wf_json (JObj [(''items'', JArr [demoPost, demoPost, JObj []])])" using demo_decode(3) by (simp add: ascii_valid)
  have "list_all plainName (map fst batchFields)" using request_names(2) by (simp add: batchFields_def)
  then have f: "find (\<lambda>f. EqualFold ''items'' (fst f)) batchFields = find (\<lambda>f. ''items'' = fst f) batchFields"
    using find_plain [of "''items''" batchFields] request_names(2) by simp
  have d: "decodeBody batchFields (json_text (JObj [(''items'', JArr [demoPost, demoPost, JObj []])])) [] = ([demoItem, demoItem] @ [zeroRequest], True)"
    unfolding decodeBody_text [OF w] using demo_decode(1,2)
    by (simp add: decode_obj_def [of batchFields] decode_member_def f) (simp add: batchFields_def list_f_def decode_obj_def)
  have h: "hd_jobs demoHandler = Some demoJobCfg" "int (length ([demoItem, demoItem] @ [zeroRequest])) \<le> aj_MaxBatchSize (cg_AgentJob (hd_cfg demoHandler))"
    by (simp_all add: demoHandler_def defaultConfig_def)
  have v: "\<forall>g \<in> set [demoItem, demoItem]. \<exists>req. validateRequest demoJobCfg g = Inr req" using demo_item(1) by simp
  from batch_not_atomic [OF keyspace_exists.redis_exists_axioms demo_cfg h(1) demo_fields(2) d h(2) v demo_item(2) demo_room]
  obtain as st1 where as: "solo keyspace demoSolo (handleAgentJobBatchSubmit demoHandler (json_text (JObj [(''items'', JArr [demoPost, demoPost, JObj []])]))) demoSoloState =
      (writeError 400 ''task is required'', st1)" "length as = length [demoItem, demoItem]"
    "\<forall>i < length [demoItem, demoItem]. rd_get keyspace (jobKey demoJobCfg (jr_ID (as ! i))) (ss_redis st1) = Some (Job (as ! i))"
    "rd_queue keyspace (queueKey demoJobCfg) (ss_redis st1) = rd_queue keyspace (queueKey demoJobCfg) (ss_redis demoSoloState) @ map jr_ID as"
    by blast
  from as(2) obtain a b where ab: "as = [a, b]" by (auto simp: length_Suc_conv)
  have "rd_get keyspace (jobKey demoJobCfg (jr_ID a)) (ss_redis st1) = Some (Job a)" using as(3) [rule_format, of 0] by (simp add: ab)
  moreover have "rd_queue keyspace (queueKey demoJobCfg) (ss_redis st1) = [jr_ID a, jr_ID b]"
    using as(4) by (simp add: ab demoSoloState_def demo_empty)
  ultimately show ?thesis using as(1) by blast
qed

end
