(* ===== verification/Agent_Invariant.thy ===== *)
theory Agent_Invariant
  imports Agent_Safety
begin

text \<open>
  Invariants of an execution. Whatever holds of the events, the world and the memory at the start and is kept by every
  question to the model, call of a tool, finalization and access to the memory holds at the end. The locale states
  what has to be kept. Three of its parameters narrow that down: the records the agent may come to write
  (\<open>okRecord\<close>), the stages it may find itself in (\<open>okStage\<close>; it only finalizes when the stage of a decision is one of
  them), and whether an evidence call may succeed at all (\<open>okAuto\<close>; the three automatic calls follow it).
\<close>

definition toolRecord :: "nat \<Rightarrow> gostring \<Rightarrow> gostring \<Rightarrow> gostring result \<Rightarrow> StepRecord" where
  "toolRecord n name args r = \<lparr>sr_Step = int n, sr_ToolName = name, sr_Action = ''tool_call'', sr_Arguments = args,
     sr_Output = (case r of Inl _ \<Rightarrow> [] | Inr obs \<Rightarrow> obs), sr_Error = (case r of Inl err \<Rightarrow> err | Inr _ \<Rightarrow> [])\<rparr>"

locale agent_invariant =
  fixes env :: "'w AgentEnv" and mem :: "'s MemOps" and scope :: gostring
    and I :: "AgentEvent list \<Rightarrow> 'w \<Rightarrow> 's \<Rightarrow> bool" and okRecord :: "StepRecord \<Rightarrow> bool" and okStage :: "WorkflowStage \<Rightarrow> bool" and okAuto :: bool
  assumes stage: "I t w s \<Longrightarrow> mo_Snapshot mem (ae_now env w) scope s = (v, s') \<Longrightarrow> okStage (workflowStage (v_RecentSteps v))"
    and snapshot: "I t w s \<Longrightarrow> mo_Snapshot mem (ae_now env w) scope s = (v, s') \<Longrightarrow> I t w s'"
    and append: "I t w s \<Longrightarrow> okRecord r \<Longrightarrow> I (t @ [AeAppend r]) w (mo_Append mem (ae_now env w) scope r s)"
    and chat: "I t w s \<Longrightarrow> ae_chat env c w = (reply, w') \<Longrightarrow> I (t @ [AeChat c]) w' s"
    and tool: "I t w s \<Longrightarrow> ae_registered env name \<Longrightarrow> ae_tool env name args w = (res, w') \<Longrightarrow>
          I (t @ [AeTool name args]) w' s \<and> okRecord (toolRecord n name args res)"
    and evidence: "I t w s \<Longrightarrow> ae_registered env name \<Longrightarrow> EqualFold name ''get_review_evidence'' \<Longrightarrow> ae_tool env name args w = (res, w') \<Longrightarrow>
          okAuto \<or> (\<exists>err. res = Inl err \<and> err \<noteq> [])"
    and auto_tool: "okAuto \<Longrightarrow> I t w s \<Longrightarrow> ae_tool env name args w = (res, w') \<Longrightarrow> I (t @ [AeAuto name args]) w' s"
    and auto_record: "okAuto \<Longrightarrow> okRecord r"
    and other_record: "sr_Action r \<noteq> ''tool_call'' \<Longrightarrow> okRecord r"
    and finalize: "okStage DecisionReady \<Longrightarrow> I t w s \<Longrightarrow> ae_finalize env fin w = (d, w') \<Longrightarrow> I (t @ [AeFinalize fin d]) w' s"

definition agOk :: "(AgentEvent list \<Rightarrow> 'w \<Rightarrow> 's \<Rightarrow> bool) \<Rightarrow> ('w, 's) AgentState \<Rightarrow> bool" where
  "agOk I st \<longleftrightarrow> I (ag_trace st) (ag_w st) (ag_mem st)"

lemma fold_keeps: "(\<And>x y. P y \<Longrightarrow> P (f x y)) \<Longrightarrow> P y \<Longrightarrow> P (fold f xs y)"
  by (induction xs arbitrary: y) auto

context agent_invariant begin

lemma appendStep_ok: "agOk I st \<Longrightarrow> okRecord r \<Longrightarrow> agOk I (appendStep env mem scope r st)"
  using append by (simp add: agOk_def appendStep_def log_def)

lemma snapshot_ok:
  assumes "agOk I st" "Agent_Tools.snapshot env mem scope st = (v, st')"
  shows "agOk I st'" "okStage (workflowStage (v_RecentSteps v))"
  using assms stage snapshot by (auto simp: agOk_def snapshot_def split: prod.splits)

lemma snapshot_ok': "agOk I st \<Longrightarrow> agOk I (snd (Agent_Tools.snapshot env mem scope st))"
  using snapshot_ok(1) by (metis surjective_pairing)

lemma runAutoTool_ok: "okAuto \<Longrightarrow> agOk I st \<Longrightarrow> agOk I (snd (runAutoToolObservation env name args fb st))"
  using auto_tool [of "ag_trace st" "ag_w st" "ag_mem st" name "json_text (mapobj args)"]
  by (auto simp: agOk_def runAutoToolObservation_def log_def Let_def split: prod.splits sum.splits)

lemma runAuto_ok: "okAuto \<Longrightarrow> agOk I (snd y) \<Longrightarrow> agOk I (snd (runAuto env cs i y))"
proof -
  obtain n ar fb where c: "cs ! i = (n, ar, fb)" by (metis surj_pair)
  obtain obs err ms st where "runAutoToolObservation env n ar fb (snd y) = ((obs, err, ms), st)" by (metis surj_pair)
  then show "okAuto \<Longrightarrow> agOk I (snd y) \<Longrightarrow> agOk I (snd (runAuto env cs i y))"
    using runAutoTool_ok [of "snd y" n ar fb] by (simp add: runAuto_def c)
qed

lemma appendAuto_ok: "okAuto \<Longrightarrow> agOk I (snd y) \<Longrightarrow> agOk I (snd (appendAuto env mem scope item y))"
  by (simp add: appendAuto_def appendAutoToolResult_def split_beta Let_def appendStep_ok auto_record snapshot_ok')

lemma fold_snd_ok: "(\<And>x y. agOk I (snd y) \<Longrightarrow> agOk I (snd (f x y))) \<Longrightarrow> agOk I (snd y) \<Longrightarrow> agOk I (snd (fold f xs y))"
  using fold_keeps [of "\<lambda>y. agOk I (snd y)"] .

lemma auto_ok: "okAuto \<Longrightarrow> agOk I st \<Longrightarrow> agOk I (snd (runStatsRAGAndCampaignAfterEvidence env mem scope obs input st))"
  by (simp add: runStatsRAGAndCampaignAfterEvidence_def split_beta Let_def fold_snd_ok [OF appendAuto_ok] fold_snd_ok [OF runAuto_ok])

lemma executeTool_ok:
  assumes "agOk I st" "executeTool env mem scope n name args st = (step, st')"
  shows "agOk I st'" "st_Error step = [] \<Longrightarrow> EqualFold name ''get_review_evidence'' \<Longrightarrow> okAuto"
proof -
  obtain r w where r: "ae_tool env name args (ag_w st) = (r, w)" by (metis surj_pair)
  let ?st1 = "log (AeTool name args) (st \<lparr> ag_w := w \<rparr>)"
  have run: "(step, st') = (\<lparr>st_Step = int n, st_ToolName = name, st_Arguments = args, st_Observation = sr_Output (toolRecord n name args r),
      st_Error = sr_Error (toolRecord n name args r), st_DurationMS = durationMS (ae_now env (ag_w st)) (ae_now env w)\<rparr>,
      appendStep env mem scope (toolRecord n name args r) ?st1)" if "ae_registered env name"
    using assms(2) that by (auto simp: executeTool_def Let_def r toolRecord_def split: sum.splits)
  have stop: "st' = st \<and> st_Error step \<noteq> []" if "\<not> ae_registered env name"
    using assms(2) that by (auto simp: executeTool_def Let_def)
  show "agOk I st'"
  proof (cases "ae_registered env name")
    case True
    have "agOk I ?st1" "okRecord (toolRecord n name args r)" using tool [OF _ True r] assms(1) by (simp_all add: agOk_def log_def)
    then show ?thesis using run [OF True] appendStep_ok by simp
  qed (use stop assms(1) in simp)
  show "st_Error step = [] \<Longrightarrow> EqualFold name ''get_review_evidence'' \<Longrightarrow> okAuto"
    using evidence [OF _ _ _ r] assms(1) stop run by (fastforce simp: agOk_def toolRecord_def)
qed

lemma callTool_ok:
  assumes "agOk I st" "ex_Scope ex = scope"
  shows "agOk I (snd (callTool env mem ex n steps d st))"
proof -
  obtain step st1 where s: "executeTool env mem scope n (d_ToolName d) (d_Arguments d) st = (step, st1)" by (metis surj_pair)
  show ?thesis using executeTool_ok [OF assms(1) s] auto_ok by (auto simp: callTool_def assms(2) s split_beta)
qed

lemma finishDecision_ok:
  assumes "okStage DecisionReady" "agOk I st" "ex_Scope ex = scope"
  shows "agOk I (snd (finishDecision env mem cfg ex n stg d steps st))"
proof -
  have ask: "agOk I (snd (askFinalizer env cfg fin st))" if "agOk I st" for fin and st :: "('w, 's) AgentState"
    using finalize [OF assms(1)] that by (auto simp: askFinalizer_def agOk_def log_def split: prod.splits)
  have rec: "agOk I (recordDecision env mem ex n stg d ds st)" if "agOk I st" for d ds st
    using that by (simp add: recordDecision_def Let_def appendStep_ok other_record assms(3) split: option.split)
  have comp: "agOk I (snd (completed env mem ex d steps st))" if "agOk I st" for d steps st
    using that by (simp add: completed_def split_beta Let_def snapshot_ok' assms(3) split: option.split)
  show ?thesis using assms(2)
    by (simp add: finishDecision_def split_beta Let_def ask rec comp snapshot_ok' assms(3) split: option.split)
qed

lemma handle_ok:
  assumes "okStage stg" "agOk I st" "ex_Scope ex = scope"
  shows "agOk I (snd (handleDecision env mem cfg ex n stg steps d st))"
proof -
  have "agOk I (snd (correct env mem ex n stg' steps reason st))" for stg' reason
    using assms(2) by (simp add: correct_def appendStep_ok other_record assms(3) correctionRecord_def)
  moreover have "agOk I (snd (callTool env mem ex n steps d st))" by (rule callTool_ok [OF assms(2,3)])
  moreover have "agOk I (snd (finishDecision env mem cfg ex n DecisionReady d steps st))" if "stg = DecisionReady"
    using assms that by (simp add: finishDecision_ok)
  ultimately show ?thesis by (auto simp: handleDecision_def split_beta)
qed

lemma round_ok:
  assumes "agOk I st" "ex_Scope ex = scope"
  shows "agOk I (snd (round env mem cfg ex n steps st))"
proof -
  obtain v st1 where v: "Agent_Tools.snapshot env mem scope st = (v, st1)" by (metis surj_pair)
  obtain v' st2 where v': "Agent_Tools.snapshot env mem scope st1 = (v', st2)" by (metis surj_pair)
  let ?c = "chatInput cfg ex (workflowStage (v_RecentSteps v)) v'"
  obtain r w where r: "ae_chat env ?c (ag_w st2) = (r, w)" by (metis surj_pair)
  have st2: "agOk I st2" using snapshot_ok [OF snapshot_ok(1) [OF assms(1) v] v'] by simp
  have st3: "agOk I (log (AeChat ?c) (st2 \<lparr> ag_w := w \<rparr>))" using chat [OF _ r] st2 by (simp add: agOk_def log_def)
  show ?thesis
    using assms handle_ok [OF snapshot_ok(2) [OF assms(1) v] st3 assms(2)] st3
    by (simp add: round_def v v' r Let_def split: option.split sum.split)
qed

lemma rounds_ok: "agOk I st \<Longrightarrow> ex_Scope ex = scope \<Longrightarrow> agOk I (snd (rounds env mem cfg ex n left steps st))"
proof (induction left arbitrary: n steps st)
  case 0
  then show ?case by (simp add: split_beta Let_def snapshot_ok' split: option.split)
next
  case (Suc left)
  obtain r st1 where r: "round env mem cfg ex n steps st = (r, st1)" by (metis surj_pair)
  with round_ok [OF Suc.prems, of cfg n steps] have "agOk I st1" by simp
  with r Suc show ?case by (simp split: sum.split)
qed

text \<open>An execution starts over in its scope of the memory; one that is refused its input changes nothing.\<close>

lemma run_ok:
  assumes "executionScopeID (TrimSpace (ei_SessionID input)) (TrimSpace (ei_ExecutionID input)) = scope"
    and "\<And>sid ex task. sid \<noteq> [] \<Longrightarrow> I (ag_trace st) (ag_w st) (mo_Save mem (ae_now env (ag_w st))
          (emptyState \<lparr> ss_MemoryKey := scope, ss_SessionID := sid, ss_ExecutionID := ex, ss_Task := task \<rparr>) (ag_mem st))"
  shows "snd (RunExecution env mem cfg input st) = st \<or> agOk I (snd (RunExecution env mem cfg input st))"
proof -
  have "agOk I (bootstrapExecution env mem ex st)" if "ex_Scope ex = scope" "ex_SessionID ex \<noteq> []" for ex
    using that assms(2) by (simp add: bootstrapExecution_def agOk_def)
  then show ?thesis using assms(1) by (simp add: RunExecution_def Let_def rounds_ok split: option.split)
qed

end

end
