(* ===== verification/Wiring.thy ===== *)
theory Wiring
  imports Agent_Invariant Tool_Calls Llm_Client Bootstrap Agent_Memory Finalizer_Safety
begin

text \<open>
  The program as \<open>NewApp\<close> puts it together: the agent with the prompts and the guarded client of the model, the
  registered tools over the clients of the three services, and the finalizer over the same clients. What lies outside
  is the record \<open>Outside\<close>: clocks, HTTP, files, the lock in Redis, the circuit breaker, the rounding of the rate
  limiter, the schedule of the goroutines. A \<open>Plant\<close> is the outside world with the state the program keeps between
  calls; \<open>pl_sent\<close> records the calls of the finalizer.
\<close>

section \<open>Outside and plant\<close>

record ('w, 'b) Outside =
  ou_now :: "'w \<Rightarrow> int"
  ou_http :: "'w http"
  ou_llmHttp :: "gostring \<Rightarrow> 'w http"
  ou_files :: "'w \<Rightarrow> files"
  ou_disk :: "'w \<Rightarrow> Disk"
  ou_acquire :: "gostring \<Rightarrow> 'w \<Rightarrow> (gostring \<times> bool) result \<times> 'w"
  ou_lease :: "gostring \<Rightarrow> gostring \<Rightarrow> 'w \<Rightarrow> 'w"
  ou_release :: "gostring \<Rightarrow> gostring \<Rightarrow> 'w \<Rightarrow> 'w"
  ou_stopLease :: "'w \<Rightarrow> 'w"
  ou_wait :: "int \<Rightarrow> 'w \<Rightarrow> gerror option \<times> 'w"
  ou_rnd :: "real \<Rightarrow> real"
  ou_execute :: "('w, 'b, ChatResponse) execute"
  ou_sched :: "'w \<Rightarrow> nat list"
  ou_mapOrder :: "'w \<Rightarrow> (gostring \<times> gostring) list \<Rightarrow> (gostring \<times> gostring) list"

record ('w, 'b) Plant =
  pl_world :: 'w
  pl_prompts :: Manager
  pl_llm :: "'b GuardedLLM"
  pl_finalizer :: ReviewCouponFinalizer
  pl_sent :: "Event list"

section \<open>The parts\<close>

definition reviewServiceOf :: "AppSettings \<Rightarrow> ReviewServiceClient" where
  "reviewServiceOf cfg = NewReviewServiceClient (se_BaseURL (cg_ReviewService cfg)) (seconds (se_TimeoutSeconds (cg_ReviewService cfg)))"

definition reviewJobOf :: "AppSettings \<Rightarrow> ReviewJobClient" where
  "reviewJobOf cfg = NewReviewJobClient (se_BaseURL (cg_ReviewJob cfg)) (seconds (se_TimeoutSeconds (cg_ReviewJob cfg)))"

definition seckillOf :: "AppSettings \<Rightarrow> SeckillClient" where
  "seckillOf cfg = (let sk = cg_SeckillService cfg in NewSeckillClient (sk_BaseURL sk) (sk_GrantPath sk) (seconds (sk_TimeoutSeconds sk)))"

definition registryOf :: "('w, 'b) Outside \<Rightarrow> AppSettings \<Rightarrow> 'w Registry" where
  "registryOf out cfg =
     (let r1 = Register (NewReviewEvidenceTool (ou_now out) (ou_http out) (reviewServiceOf cfg)) NewRegistry;
          r2 = Register (NewReviewStatsTool (ou_now out) (ou_http out) (reviewJobOf cfg)) r1;
          r3 = Register (NewRAGRetrieveTool (ou_now out) (ou_http out) (reviewJobOf cfg)) r2
      in if sk_Enabled (cg_SeckillService cfg)
         then Register (NewCampaignContextTool (ou_now out) (ou_http out) (Some (seckillOf cfg))) r3 else r3)"

definition finalizerEnv :: "('w, 'b) Outside \<Rightarrow> AppSettings \<Rightarrow> 'w Env" where
  "finalizerEnv out cfg = \<lparr>env_now = ou_now out, env_disk = ou_disk out, env_acquire = ou_acquire out, env_lease = ou_lease out,
     env_grant = (\<lambda>req w. let (r, w1) = GrantCouponByReview (ou_http out) (seckillOf cfg) req w in (map_sum id toGrantReply r, w1)),
     env_wait = ou_wait out, env_store = StoreDecision (ou_http out) (reviewJobOf cfg), env_release = ou_release out,
     env_stopLease = ou_stopLease out\<rparr>"

text \<open>\<open>chat\<close>: the two prompts, then the guarded client; only the content of the answer is used.\<close>

definition agentChat :: "('w, 'b) Outside \<Rightarrow> AppSettings \<Rightarrow> ChatInput \<Rightarrow> ('w, 'b) Plant \<Rightarrow> gostring result \<times> ('w, 'b) Plant" where
  "agentChat out cfg c p =
     (let (system, m) = BuildSystemPrompt (ou_files out (pl_world p)) (ListTools (registryOf out cfg)) (pl_prompts p);
          user = BuildUserPrompt (ch_Task c) (stageName (ch_Stage c)) (ch_RequiredTool c) (ch_AllowFinal c)
            (cc_Summary (ch_Context c)) (cc_RecentSteps (ch_Context c));
          (r, g, w) = guardedChat (ou_rnd out) (ou_execute out)
            (Chat (ou_llmHttp out) (NewDeepseekClient (cg_LLM cfg)) \<lparr>lq_SystemPrompt = system, lq_UserPrompt = user\<rparr>)
            (ou_now out (pl_world p)) (pl_llm p) (pl_world p)
      in (map_sum id la_Content r, p \<lparr> pl_world := w, pl_prompts := m, pl_llm := g \<rparr>))"

definition agentTool :: "('w, 'b) Outside \<Rightarrow> AppSettings \<Rightarrow> gostring \<Rightarrow> gostring \<Rightarrow> ('w, 'b) Plant \<Rightarrow> gostring result \<times> ('w, 'b) Plant" where
  "agentTool out cfg name args p = (case GetTool name (registryOf out cfg) of
       None \<Rightarrow> (Inl (''tool not found: '' @ name), p)
     | Some t \<Rightarrow> (let (r, w) = tl_Execute t args (pl_world p) in (r, p \<lparr> pl_world := w \<rparr>)))"

definition agentFinalize :: "('w, 'b) Outside \<Rightarrow> AppSettings \<Rightarrow> FinalizeInput \<Rightarrow> ('w, 'b) Plant \<Rightarrow> (Decision \<times> Step option) \<times> ('w, 'b) Plant" where
  "agentFinalize out cfg input p =
     (let (res, f, (w, sent)) = Finalize (finalizerEnv out cfg) (pl_finalizer p) input (pl_world p, [])
      in (res, p \<lparr> pl_world := w, pl_finalizer := f, pl_sent := pl_sent p @ sent \<rparr>))"

definition wiredEnv :: "('w, 'b) Outside \<Rightarrow> AppSettings \<Rightarrow> ('w, 'b) Plant AgentEnv" where
  "wiredEnv out cfg = \<lparr>ae_now = ou_now out \<circ> pl_world, ae_chat = agentChat out cfg,
     ae_registered = (\<lambda>name. GetTool name (registryOf out cfg) \<noteq> None), ae_tool = agentTool out cfg,
     ae_finalize = agentFinalize out cfg, ae_sched = ou_sched out \<circ> pl_world, ae_mapOrder = ou_mapOrder out \<circ> pl_world\<rparr>"

definition wiredConfig :: "AppSettings \<Rightarrow> AgentConfig" where
  "wiredConfig cfg = \<lparr>ac_budget = pa_budget (agentOf cfg), ac_maxSteps = pa_maxSteps (agentOf cfg), ac_hasFinalizer = True\<rparr>"

text \<open>The plant at the start, over a breaker \<open>newBreaker\<close> makes.\<close>

definition startPlant :: "('w, 'b) Outside \<Rightarrow> (LLMGuardConfig \<Rightarrow> 'b) \<Rightarrow> real \<Rightarrow> AppSettings \<Rightarrow> LogLevel \<times> LogFormat \<times> bool \<Rightarrow> 'w \<Rightarrow> ('w, 'b) Plant" where
  "startPlant out newBreaker rate cfg logger w =
     \<lparr>pl_world = w, pl_prompts = NewManager,
      pl_llm = NewGuardedLLMClient (ou_rnd out) newBreaker (guardConfigOf rate cfg) (ou_now out w),
      pl_finalizer = app_finalizer (buildApp (ou_now out w) (ou_disk out w) cfg logger), pl_sent = []\<rparr>"

lemma info_names: "if_Name evidenceInfo = ''get_review_evidence''" "if_Name statsInfo = ''get_review_stats''" "if_Name ragInfo = ''retrieve_rag''"
  "if_Name campaignInfo = ''get_campaign_context''"
  by (simp_all only: evidenceInfo_def statsInfo_def ragInfo_def campaignInfo_def Info.simps)

lemma tool_infos: "tl_Info (NewReviewEvidenceTool now http rv) = evidenceInfo" "tl_Info (NewReviewStatsTool now http rj) = statsInfo"
  "tl_Info (NewRAGRetrieveTool now http rj) = ragInfo" "tl_Info (NewCampaignContextTool now http k) = campaignInfo"
  by (simp_all add: NewReviewEvidenceTool_def NewReviewStatsTool_def NewRAGRetrieveTool_def NewCampaignContextTool_def)

lemma registry_names: "map fst (registryOf out cfg) = registeredTools cfg"
  by (simp add: registryOf_def NewRegistry_def Let_def registeredTools_def tool_infos info_names)

lemma registered_tools: "ae_registered (wiredEnv out cfg) name \<longleftrightarrow> name \<in> set (registeredTools cfg)"
  unfolding registry_names [of out cfg, symmetric] by (simp add: wiredEnv_def GetTool_def map_of_eq_None_iff)

section \<open>No coupon without cause\<close>

text \<open>What the facts and the decision handed to the finalizer have to be for a grant request.\<close>

definition justifies :: "FinalizeInput \<Rightarrow> GrantRequest \<Rightarrow> bool" where
  "justifies input req \<longleftrightarrow> \<not> df_HasAppeal (extractDecisionFacts (fi_History input)) \<and>
    \<not> lowQuality (extractDecisionFacts (fi_History input)) \<and>
    (EqualFold (d_Action (fi_Decision input)) ''GRANT_COUPON'' \<or> EqualFold (d_Action (fi_Decision input)) ''SUGGEST_COUPON'') \<and>
    \<not> d_NeedHumanReview (fi_Decision input) \<and>
    (let dc = finalizeContext input in
      0 < dc_StoreID dc \<and> 0 < dc_UserID dc \<and> 0 < firstInt64 0 [dc_SkuID dc, dc_SpuID dc] \<and> dc_ActivityID dc \<noteq> [] \<and>
      dc_CampaignActive dc \<and> dc_ProductEligible dc \<and> dc_UserEligible dc \<and>
      0 < dc_RemainingStock dc \<and> 0 < dc_RemainingBudgetCent dc \<and>
      (dc_UserGrantLimit dc \<le> 0 \<or> dc_UserGrantedCount dc < dc_UserGrantLimit dc) \<and>
      (\<exists>scene. scene \<noteq> [] \<and> req = grantRequest dc scene))"

definition grantsJustified :: "AgentEvent list \<Rightarrow> ('w, 'b) Plant \<Rightarrow> bool" where
  "grantsJustified t p \<longleftrightarrow> (\<forall>(req, r) \<in> set (grantsOf (pl_sent p)). \<exists>fin res. AeFinalize fin res \<in> set t \<and> justifies fin req)"

lemma calls_justified: "(req, r) \<in> set (grantsOf (calls fenv f fin w)) \<Longrightarrow> justifies fin req"
  unfolding justifies_def by (rule grant_allowed)

lemma justified_mono: "grantsJustified t p \<Longrightarrow> pl_sent p' = pl_sent p \<Longrightarrow> grantsJustified (t @ es) p'"
  by (fastforce simp: grantsJustified_def)

lemma justified_finalize:
  assumes "grantsJustified t p" "pl_sent p' = pl_sent p @ calls fenv f fin w"
  shows "grantsJustified (t @ [AeFinalize fin res]) p'"
  unfolding grantsJustified_def
proof (safe)
  fix req r
  assume "(req, r) \<in> set (grantsOf (pl_sent p'))"
  then consider "(req, r) \<in> set (grantsOf (pl_sent p))" | "(req, r) \<in> set (grantsOf (calls fenv f fin w))" by (auto simp: assms(2))
  then show "\<exists>fin' res'. AeFinalize fin' res' \<in> set (t @ [AeFinalize fin res]) \<and> justifies fin' req"
  proof cases
    case 1
    with assms(1) show ?thesis by (fastforce simp: grantsJustified_def)
  next
    case 2
    then show ?thesis using calls_justified by (intro exI [of _ fin] exI [of _ res]) auto
  qed
qed

text \<open>Who sends what: only the finalizer sends through the plant.\<close>

lemma chat_sends: "ae_chat (wiredEnv out cfg) c p = (r, p') \<Longrightarrow> pl_sent p' = pl_sent p"
  by (auto simp: wiredEnv_def agentChat_def split: prod.splits)

lemma tool_sends: "ae_tool (wiredEnv out cfg) name args p = (r, p') \<Longrightarrow> pl_sent p' = pl_sent p"
  by (auto simp: wiredEnv_def agentTool_def split: prod.splits option.splits)

lemma finalize_sends: "ae_finalize (wiredEnv out cfg) fin p = (d, p') \<Longrightarrow>
    pl_sent p' = pl_sent p @ calls (finalizerEnv out cfg) (pl_finalizer p) fin (pl_world p)"
  by (auto simp: wiredEnv_def agentFinalize_def calls_def split: prod.splits)

interpretation wired: agent_invariant "wiredEnv out cfg" mem scope "\<lambda>t p _. grantsJustified t p" "\<lambda>_. True" "\<lambda>_. True" True
  for out :: "('w, 'b) Outside" and cfg and mem :: "'s MemOps" and scope
  by unfold_locales (auto intro: justified_mono justified_finalize chat_sends tool_sends finalize_sends)

text \<open>C2: the whole program, whatever the model answers, the services say and the memory is: every grant request
  that leaves an execution comes from a finalization of this execution, whose facts, read from the answers of the
  services, show no appeal and no low quality, an active campaign with stock and budget, an eligible product and user,
  and whose model decision asks for a coupon and not for a human.\<close>

theorem wired_grants_justified:
  "grantsJustified (events (wiredEnv out cfg) mem acfg input (startPlant out newBreaker rate cfg logger w) m)
     (ag_w (snd (RunExecution (wiredEnv out cfg) mem acfg input \<lparr>ag_w = startPlant out newBreaker rate cfg logger w, ag_mem = m, ag_trace = []\<rparr>)))"
proof -
  let ?st = "\<lparr>ag_w = startPlant out newBreaker rate cfg logger w, ag_mem = m, ag_trace = []\<rparr>"
  have start: "grantsJustified [] (startPlant out newBreaker rate cfg logger w)" by (simp add: grantsJustified_def startPlant_def)
  then have "snd (RunExecution (wiredEnv out cfg) mem acfg input ?st) = ?st \<or>
      agOk (\<lambda>t p _. grantsJustified t p) (snd (RunExecution (wiredEnv out cfg) mem acfg input ?st))"
    by (intro wired.run_ok [OF refl]) simp
  with start show ?thesis by (auto simp: agOk_def events_def)
qed

section \<open>No evidence, no coupon\<close>

text \<open>No review service: nothing comes back from it.\<close>

definition reviewServiceDown :: "'w http \<Rightarrow> bool" where
  "reviewServiceDown http \<longleftrightarrow> (\<forall>u b w. \<exists>err w'. http ''GET'' u b w = (NoResponse err, w'))"

abbreviation noEvidence :: "StepRecord \<Rightarrow> bool" where
  "noEvidence \<equiv> \<lambda>r. \<not> toolDone ''get_review_evidence'' r"

definition stuck :: "gostring set \<Rightarrow> int set \<Rightarrow> nat \<Rightarrow> gostring \<Rightarrow> AgentEvent list \<Rightarrow> ('w, 'b) Plant \<Rightarrow> InMemoryStore \<Rightarrow> bool" where
  "stuck K T cap scope t p s \<longleftrightarrow> filter isFinalize t = [] \<and> pl_sent p = [] \<and> fitsMem K T cap s \<and> list_all noEvidence (hist scope s)"

lemma lastN_list_all: "list_all P xs \<Longrightarrow> list_all P (lastN n xs)"
  by (simp add: lastN_def list_all_iff) (meson in_set_dropD)

lemma not_blank: "byte c < 0x80 \<Longrightarrow> \<not> isSpace (byte c) \<Longrightarrow> \<not> blank (c # s)"
  by (simp add: blank_iff runes_def chunks_ascii del: chunks.simps)

lemma down_evidence:
  assumes "reviewServiceDown http" "executeEvidence now http c input w = (r, w')"
  shows "\<exists>err. r = Inl err \<and> \<not> blank err"
proof -
  have b: "\<not> blank (''invalid review evidence input: '' @ e) \<and> \<not> blank (''call review-service: '' @ e)
      \<and> \<not> blank ''review_id must be greater than 0''" for e
    by (simp add: not_blank isSpace_def in_rng_def)
  have g: "\<exists>e w'. GetReviewEvidence http c id w = (Inl (''call review-service: '' @ e), w')" if "0 < id" for id
  proof -
    obtain e w' where "http ''GET'' (rv_baseURL c @ ''/v1/agent/review/evidence/'' @ show_int id) [] w = (NoResponse e, w')"
      using assms(1) unfolding reviewServiceDown_def by blast
    then show ?thesis using that by (simp add: GetReviewEvidence_def)
  qed
  obtain id ok where i: "evidenceInput input = (id, ok)" by (metis surj_pair)
  show ?thesis
  proof (cases "ok \<and> 0 < id")
    case True
    then obtain e w1 where "GetReviewEvidence http c id w = (Inl (''call review-service: '' @ e), w1)" using g by blast
    with True i assms(2) b show ?thesis by (auto simp: executeEvidence_def)
  next
    case False
    with i assms(2) b show ?thesis by (auto simp: executeEvidence_def split: if_splits)
  qed
qed

lemma fold_names: "name \<in> set (registeredTools cfg) \<Longrightarrow> EqualFold name ''get_review_evidence'' \<Longrightarrow> name = ''get_review_evidence''"
proof -
  have "\<not> EqualFold ''get_review_stats'' ''get_review_evidence''" "\<not> EqualFold ''retrieve_rag'' ''get_review_evidence''"
    "\<not> EqualFold ''get_campaign_context'' ''get_review_evidence''" by code_simp+
  then show "name \<in> set (registeredTools cfg) \<Longrightarrow> EqualFold name ''get_review_evidence'' \<Longrightarrow> name = ''get_review_evidence''"
    by (auto simp: registeredTools_def split: if_splits)
qed

lemma evidence_lookup: "GetTool ''get_review_evidence'' (registryOf out cfg) = Some (NewReviewEvidenceTool (ou_now out) (ou_http out) (reviewServiceOf cfg))"
  by (simp add: registryOf_def NewRegistry_def Let_def GetTool_def tool_infos info_names)

lemma down_tool:
  assumes "reviewServiceDown (ou_http out)" "ae_tool (wiredEnv out cfg) ''get_review_evidence'' args p = (r, p')"
  shows "\<exists>err. r = Inl err \<and> \<not> blank err"
  using assms(2) down_evidence [OF assms(1)]
  by (auto simp: wiredEnv_def agentTool_def evidence_lookup NewReviewEvidenceTool_def split: prod.splits)

lemma stuck_stage: "list_all noEvidence h \<Longrightarrow> workflowStage h = CollectReviewEvidence"
  by (auto simp: workflowStage_def list_all_iff list_ex_iff)

lemma down_invariant:
  fixes out :: "('w, 'b) Outside"
  assumes down: "reviewServiceDown (ou_http out)" and env: "goodEnv T (wiredEnv out cfg)" and k: "scope \<in> K"
  shows "agent_invariant (wiredEnv out cfg) (inMemoryOps ord) scope (stuck K T cap scope) noEvidence (\<lambda>st. st = CollectReviewEvidence) False"
proof
  fix t and p :: "('w, 'b) Plant" and s v s' name args res p'
  have now: "ae_now (wiredEnv out cfg) p \<in> T" for p using env by (simp add: goodEnv_def)
  have fits: "fitsMem K T cap s" if "stuck K T cap scope t p s" for t and p :: "('w, 'b) Plant" and s using that by (simp add: stuck_def)
  have snap: "v_RecentSteps v = hist scope s \<and> s' = s"
    if "stuck K T cap scope t p s" "mo_Snapshot (inMemoryOps ord) (ae_now (wiredEnv out cfg) p) scope s = (v, s')" for t and p :: "('w, 'b) Plant" and s v s'
    using that(2) Snapshot_fits [OF fits [OF that(1)] k now [of p]] by (simp add: inMemoryOps_def)
  show "workflowStage (v_RecentSteps v) = CollectReviewEvidence"
    if "stuck K T cap scope t p s" "mo_Snapshot (inMemoryOps ord) (ae_now (wiredEnv out cfg) p) scope s = (v, s')"
    using snap [OF that] that(1) stuck_stage by (simp add: stuck_def)
  show "stuck K T cap scope t p s'"
    if "stuck K T cap scope t p s" "mo_Snapshot (inMemoryOps ord) (ae_now (wiredEnv out cfg) p) scope s = (v, s')"
    using snap [OF that] that(1) by simp
  show "stuck K T cap scope (t @ [AeAppend r]) p (mo_Append (inMemoryOps ord) (ae_now (wiredEnv out cfg) p) scope r s)"
    if "stuck K T cap scope t p s" "noEvidence r" for r
    using that hist_append [OF fits [OF that(1)] k now] by (simp add: stuck_def inMemoryOps_def isFinalize_def lastN_list_all)
  show "stuck K T cap scope (t @ [AeChat c]) p' s" if "stuck K T cap scope t p s" "ae_chat (wiredEnv out cfg) c p = (reply, p')" for c reply
    using that chat_sends [OF that(2)] by (auto simp: stuck_def isFinalize_def)
  show "stuck K T cap scope (t @ [AeTool name args]) p' s \<and> noEvidence (toolRecord n name args res)"
    if "stuck K T cap scope t p s" "ae_tool (wiredEnv out cfg) name args p = (res, p')" for n
  proof -
    note called = that(2)
    have "noEvidence (toolRecord n name args res)"
    proof (cases "name = ''get_review_evidence''")
      case True
      then obtain err where "res = Inl err" "\<not> blank err" using down_tool [OF down] called by blast
      then show ?thesis by (simp add: toolDone_def toolRecord_def)
    qed (simp add: toolDone_def toolRecord_def)
    with that(1) tool_sends [OF that(2)] show ?thesis by (simp add: stuck_def isFinalize_def)
  qed
  show "False \<or> (\<exists>err. res = Inl err \<and> err \<noteq> [])"
    if "ae_registered (wiredEnv out cfg) name" "EqualFold name ''get_review_evidence''" "ae_tool (wiredEnv out cfg) name args p = (res, p')"
  proof -
    note called = that(3)
    have "name = ''get_review_evidence''" using fold_names that(1,2) registered_tools by blast
    then obtain err where "res = Inl err" "\<not> blank err" using down_tool [OF down] called by blast
    then show ?thesis by auto
  qed
qed (auto simp: toolDone_def)

text \<open>C3: it fails closed: while the review service does not answer, an execution of the whole program on the in-memory
  store reaches no decision and sends no request for a coupon, whatever the model says and the other services answer.\<close>

theorem wired_fails_closed:
  assumes "reviewServiceDown (ou_http out)" "fitsMem K T cap m" "goodEnv T (wiredEnv out cfg)"
    and "executionScopeID (TrimSpace (ei_SessionID input)) (TrimSpace (ei_ExecutionID input)) \<in> K"
  shows "filter isFinalize (events (wiredEnv out cfg) (inMemoryOps ord) acfg input (startPlant out newBreaker rate cfg logger w) m) = [] \<and>
    pl_sent (ag_w (snd (RunExecution (wiredEnv out cfg) (inMemoryOps ord) acfg input
      \<lparr>ag_w = startPlant out newBreaker rate cfg logger w, ag_mem = m, ag_trace = []\<rparr>))) = []"
proof -
  let ?p = "startPlant out newBreaker rate cfg logger w"
  let ?scope = "executionScopeID (TrimSpace (ei_SessionID input)) (TrimSpace (ei_ExecutionID input))"
  let ?st = "\<lparr>ag_w = ?p, ag_mem = m, ag_trace = []\<rparr>"
  have "stuck K T cap ?scope [] ?p (Save ord (ae_now (wiredEnv out cfg) ?p)
      (emptyState \<lparr> ss_MemoryKey := ?scope, ss_SessionID := sid, ss_ExecutionID := ex, ss_Task := task \<rparr>) m)" if "sid \<noteq> []" for sid ex task
    using assms(3) that by (simp add: stuck_def startPlant_def Save_fits [OF assms(2,4)] goodEnv_def emptyState_def)
  then have "snd (RunExecution (wiredEnv out cfg) (inMemoryOps ord) acfg input ?st) = ?st \<or>
      agOk (stuck K T cap ?scope) (snd (RunExecution (wiredEnv out cfg) (inMemoryOps ord) acfg input ?st))"
    by (intro agent_invariant.run_ok [OF down_invariant [OF assms(1,3,4)] refl]) (simp add: inMemoryOps_def)
  then show ?thesis by (auto simp: agOk_def events_def stuck_def startPlant_def)
qed

section \<open>Witness\<close>

text \<open>A review service that is down; every other service answers \<open>{}\<close>, the clock stands, no lock is granted.\<close>

definition demoOutside :: "(unit, unit) Outside" where
  "demoOutside = \<lparr>ou_now = (\<lambda>_. 0), ou_http = (\<lambda>m _ _ w. (if m = ''GET'' then NoResponse ''refused'' else Response 200 ''{}'', w)),
     ou_llmHttp = (\<lambda>_ _ _ _ w. (Response 200 ''{}'', w)), ou_files = (\<lambda>_ _. None), ou_disk = (\<lambda>_. noDisk),
     ou_acquire = (\<lambda>_ w. (Inl ''no redis'', w)), ou_lease = (\<lambda>_ _ w. w), ou_release = (\<lambda>_ _ w. w), ou_stopLease = id,
     ou_wait = (\<lambda>_ w. (None, w)), ou_rnd = id, ou_execute = (\<lambda>call b w. let (r, w1) = call w in (r, b, w1)),
     ou_sched = (\<lambda>_. [0, 1, 2]), ou_mapOrder = (\<lambda>_ xs. xs)\<rparr>"

lemma wired_fails_closed_witness:
  "filter isFinalize (events (wiredEnv demoOutside defaultConfig) (inMemoryOps rev) (wiredConfig defaultConfig) demoAgentInput
      (startPlant demoOutside (\<lambda>_. ()) 1 defaultConfig (LevelInfo, TextHandler, True) ()) demoAgentStore) = [] \<and>
   pl_sent (ag_w (snd (RunExecution (wiredEnv demoOutside defaultConfig) (inMemoryOps rev) (wiredConfig defaultConfig) demoAgentInput
      \<lparr>ag_w = startPlant demoOutside (\<lambda>_. ()) 1 defaultConfig (LevelInfo, TextHandler, True) (), ag_mem = demoAgentStore, ag_trace = []\<rparr>))) = []"
proof (rule wired_fails_closed)
  show "reviewServiceDown (ou_http demoOutside)" by (simp add: reviewServiceDown_def demoOutside_def)
  show "fitsMem {''s:execution:e''} {0} 8 demoAgentStore" by (rule demo_fits) simp
  show "goodEnv {0} (wiredEnv demoOutside defaultConfig)" by (simp add: goodEnv_def wiredEnv_def demoOutside_def)
  show "executionScopeID (TrimSpace (ei_SessionID demoAgentInput)) (TrimSpace (ei_ExecutionID demoAgentInput)) \<in> {''s:execution:e''}"
    by (simp only: demo_scope insertI1)
qed

end
