(* ===== verification/App_Run.thy ===== *)
theory App_Run
  imports Http_Server
begin

text \<open>
  The edges of the program: the Redis client of \<open>internal/redisx\<close>, which turns the answers of the library into what
  the other components are given (\<open>rd_\<close>, lock, store and job commands), the life of the application in
  \<open>App.Run\<close> and \<open>main\<close>. What the library answers, how the HTTP server stops and how closing Redis ends are parameters.
\<close>

section \<open>redisx\<close>

record RedisOptions =
  ro_Addr :: gostring
  ro_Password :: gostring
  ro_DB :: int

definition redisOf :: "AppSettings \<Rightarrow> RedisOptions" where
  "redisOf cfg = \<lparr>ro_Addr = rc_Addr (cg_Redis cfg), ro_Password = rc_Password (cg_Redis cfg), ro_DB = rc_DB (cg_Redis cfg)\<rparr>"

text \<open>An answer of the library: the error \<open>redis.Nil\<close>, another error, a result. An entry of a stream has a map of fields.\<close>

datatype 'a RedisReply = RedisNil | RedisErr gerror | RedisOk 'a

record XMessage =
  xm_ID :: gostring
  xm_Values :: "(gostring \<times> gostring) list"

record XStream =
  xs_Stream :: gostring
  xs_Messages :: "XMessage list"

definition redisGet :: "gostring RedisReply \<Rightarrow> gostring result" where
  "redisGet reply = (case reply of RedisNil \<Rightarrow> Inr [] | RedisErr err \<Rightarrow> Inl err | RedisOk v \<Rightarrow> Inr v)"

definition flattenMessages :: "XMessage list \<Rightarrow> StreamMessage list" where
  "flattenMessages ms = concat (map (\<lambda>m. case map_of (xm_Values m) ''job_id'' of None \<Rightarrow> []
     | Some jobID \<Rightarrow> [\<lparr>sm_ID = xm_ID m, sm_JobID = jobID\<rparr>]) ms)"

definition flattenStreamMessages :: "XStream list \<Rightarrow> StreamMessage list" where
  "flattenStreamMessages streams = concat (map (flattenMessages \<circ> xs_Messages) streams)"

definition redisXReadGroup :: "XStream list RedisReply \<Rightarrow> StreamMessage list result" where
  "redisXReadGroup reply = (case reply of RedisNil \<Rightarrow> Inr [] | RedisErr err \<Rightarrow> Inl err
     | RedisOk streams \<Rightarrow> Inr (flattenStreamMessages streams))"

text \<open>\<open>XAutoClaim\<close>: the place to go on from, the messages, the error.\<close>

definition redisXAutoClaim :: "gostring \<Rightarrow> (XMessage list \<times> gostring) RedisReply \<Rightarrow> gostring \<times> StreamMessage list \<times> gerror option" where
  "redisXAutoClaim start reply = (case reply of RedisNil \<Rightarrow> (start, [], None) | RedisErr err \<Rightarrow> (start, [], Some err)
     | RedisOk (ms, nxt) \<Rightarrow> (nxt, flattenStreamMessages [\<lparr>xs_Stream = [], xs_Messages = ms\<rparr>], None))"

text \<open>The fields \<open>XAdd\<close> writes for a job come back as its message, in the order of the stream; what has no \<open>job_id\<close> is
  left out.\<close>

lemma flatten_append [simp]: "flattenMessages (xs @ ys) = flattenMessages xs @ flattenMessages ys"
  by (simp add: flattenMessages_def)

lemma flatten_written: "flattenMessages (map (\<lambda>m. \<lparr>xm_ID = sm_ID m, xm_Values = [(''job_id'', sm_JobID m)]\<rparr>) ms) = ms"
  by (induction ms) (simp_all add: flattenMessages_def)

lemma flatten_ids: "m \<in> set (flattenMessages ms) \<Longrightarrow> \<exists>x \<in> set ms. sm_ID m = xm_ID x \<and> map_of (xm_Values x) ''job_id'' = Some (sm_JobID m)"
  by (auto simp: flattenMessages_def split: option.splits)

section \<open>The life of the application\<close>

text \<open>What \<open>Run\<close> waits for: the signal that cancels its context, or the end of \<open>ListenAndServe\<close> with its error.\<close>

datatype Stop = Signalled | Served gerror

datatype RunEvent = StartJobs JobConfig | Listen gostring | Shutdown int | CloseRedis

definition closeResources :: "App \<Rightarrow> RunEvent list" where
  "closeResources app = (if app_redis app = None then [] else [CloseRedis])"

definition Run :: "App \<Rightarrow> (int \<Rightarrow> gerror option) \<Rightarrow> Stop \<Rightarrow> RunEvent list \<times> gerror option" where
  "Run app shutdown stop =
     (let start = (case app_jobs app of None \<Rightarrow> [] | Some jobs \<Rightarrow> [StartJobs jobs]) @ [Listen (sv_Addr (NewServer (cg_HTTP (app_cfg app))))]
      in case stop of
           Signalled \<Rightarrow> (let window = seconds (ht_ShutdownTimeoutSeconds (cg_HTTP (app_cfg app)))
             in (start @ [Shutdown window] @ closeResources app, shutdown window))
         | Served err \<Rightarrow> (start @ closeResources app, Some err))"

definition ErrServerClosed :: gerror where
  "ErrServerClosed = ''http: Server closed''"

text \<open>\<open>main\<close>: what it did and the error it died with.\<close>

definition mainProgram :: "App result \<Rightarrow> (int \<Rightarrow> gerror option) \<Rightarrow> Stop \<Rightarrow> RunEvent list \<times> gerror option" where
  "mainProgram newApp shutdown stop = (case newApp of
       Inl err \<Rightarrow> ([], Some (''bootstrap application failed: '' @ err))
     | Inr app \<Rightarrow> (case Run app shutdown stop of
           (events, Some err) \<Rightarrow> (events, if err = ErrServerClosed then None else Some (''run application failed: '' @ err))
         | (events, None) \<Rightarrow> (events, None)))"

text \<open>The job workers start before the server listens and Redis is closed last, once, on every way out.\<close>

lemma run_events: "app_redis app \<noteq> None \<Longrightarrow> \<exists>es. fst (Run app shutdown stop) = es @ [CloseRedis] \<and> CloseRedis \<notin> set es"
  by (auto simp: Run_def closeResources_def Let_def split: Stop.split option.split)

lemma main_closes: "NewApp files env ping now disk = Inr app \<Longrightarrow> rc_Enabled (cg_Redis (app_cfg app)) \<Longrightarrow>
    \<exists>es. fst (mainProgram (Inr app) shutdown stop) = es @ [CloseRedis] \<and> CloseRedis \<notin> set es"
proof -
  assume "NewApp files env ping now disk = Inr app" "rc_Enabled (cg_Redis (app_cfg app))"
  then have "app_redis app \<noteq> None" using NewApp_Inr by (fastforce simp: buildApp_def Let_def)
  from run_events [OF this, of shutdown stop] show ?thesis
    by (auto simp: mainProgram_def split: prod.splits option.splits)
qed

end
