(* ===== verification/Spec2Isabelle.thy ===== *)
theory Spec2Isabelle
  imports Context_Compose Memory_Store Coupon_Policy Decision_Guard Finalizer_Safety Agent_Safety Agent_Memory Go_Json_Print Job_Demo Redis_Store Resilience Lock_Safety Bootstrap Tool_Calls Http_Server Wiring App_Run
begin

text \<open>
  \<^bold>\<open>seckill-agent: verification development\<close>

  The program is a service in Go. Given a review of a purchase it decides whether the customer gets a coupon, grants
  the coupon and stores the decision. A language model proposes, deterministic code disposes: the agent runs a fixed
  workflow (evidence of the review, statistics, similar cases, campaign), a guard corrects the decision of the model, a
  finalizer executes it under a lock. Executions come over HTTP, at once or as jobs in Redis that workers pick up.

  \<^bold>\<open>Theories and code.\<close> Definitions keep the names of the functions and types of the code where HOL allows it; the
  fields of a record get a prefix.

  \<^item> \<open>Prelude\<close>: strings as lists of bytes, results (\<open>gerror + 'a\<close>), integers of 64 bits where they wrap, lists.
  \<^item> \<open>Go_Strings\<close>: what the code uses of \<open>strings\<close>, \<open>unicode/utf8\<close> and \<open>fmt\<close>. \<open>Go_Json\<close>, \<open>Go_Json_Struct\<close>,
    \<open>Go_Json_Print\<close>, \<open>Json_Facts\<close>: what it uses of \<open>encoding/json\<close>, on texts: the parser with Go's errors, decoding into
    maps and structs, printing, and that a printed value is read back.
  \<^item> \<open>Context_Compose\<close>: \<open>internal/contextx\<close>. \<open>Session_Memory\<close>: the contract of a session memory (a locale), which
    \<open>Memory_Store\<close> (\<open>internal/memory/store.go\<close>) and \<open>Redis_Store\<close> (\<open>redis_store.go\<close>) fulfil.
  \<^item> \<open>Decision_Context\<close>, \<open>Decision_Guard\<close>, \<open>Coupon_Policy\<close>, \<open>Finalizer\<close>: the files of these names in \<open>internal/agent\<close>; a
    call of a service is an event of the run. \<open>Finalizer_Safety\<close>: what a run may do.
  \<^item> \<open>Agent_Tools\<close> (\<open>parallel_tools.go\<close>), \<open>Agent_Run\<close> (\<open>agent.go\<close>): an execution of the agent over a record of what it
    calls. \<open>Agent_Safety\<close>: its events; \<open>Agent_Memory\<close>: its history on the in-memory store; \<open>Agent_Invariant\<close>: a locale for
    invariants of an execution.
  \<^item> \<open>Service_Clients\<close> (\<open>internal/client\<close>), \<open>Tools\<close> (\<open>internal/tool\<close>), \<open>Prompts\<close> (\<open>internal/prompt\<close>), \<open>Llm_Client\<close>
    (\<open>internal/llm\<close>): down to the text of the HTTP bodies. \<open>Tool_Facts\<close>, \<open>Tool_Calls\<close>: from the answer of a service through
    the observation to the finalizer, and from the agent to the requests.
  \<^item> \<open>Job_Types\<close>, \<open>Job_Redis\<close>, \<open>Job_Worker\<close>: \<open>internal/job/service.go\<close> and \<open>agent/session_scope.go\<close>: the records, the Lua
    scripts over the commands of Redis, the methods as programs of commands. \<open>Job_System\<close>, \<open>Job_Safety\<close>, \<open>Job_Claims\<close>:
    any number of these programs interleaved, with failures and crashes, where the messages are the entries that \<open>XADD\<close>
    added to the stream; \<open>Job_Demo\<close>: a run of the system. \<open>Job_Solo\<close>: one worker that nobody disturbs, reading the stream.
  \<^item> \<open>Resilience\<close> (\<open>internal/resilience\<close>) and \<open>Lock_Safety\<close> (its lock run over Redis), \<open>Config\<close> (\<open>internal/config\<close>), \<open>Bootstrap\<close> (\<open>internal/bootstrap\<close>, \<open>pkg/logx\<close>),
    \<open>Http_Server\<close> (\<open>internal/server/http\<close>), \<open>App_Run\<close> (\<open>internal/redisx\<close>, \<open>App.Run\<close>, \<open>main.go\<close>).
  \<^item> \<open>Wiring\<close>: the agent, the prompts, the guarded model, the tools, the clients and the finalizer put together as
    \<open>NewApp\<close> does, with everything outside the program as a parameter.

  \<^bold>\<open>What is shown.\<close> The claims C1 to C40 stand in the theories of their components.

  \<^item> Coupons: a grant is requested only for a decision that the facts, the policy and the campaign allow
    (\<open>grant_only_if_allowed\<close>), for the whole program whatever surrounds it (\<open>wired_grants_justified\<close>) and not at all
    without evidence (\<open>wired_fails_closed\<close>); at most three times, with one key, under the lock; what is stored is what
    happened; the guard forces a human review exactly when it should.
  \<^item> Workflow: only the tool of the stage runs, a final decision needs a complete history, an execution ends after
    \<open>maxSteps\<close> questions, and it completes when the model cooperates.
  \<^item> Memory and prompts: both stores implement bounded histories per execution; the context is the longest suffix
    that fits both limits; a reader finds every part of the history in the user prompt.
  \<^item> Data: the ids in a grant request are those the services answered, through two JSON texts; the automatic calls
    reach the services with the ids of the evidence.
  \<^item> Jobs: the life cycle, versions, no lost job, bounded slots, the agent run under the locks of the job it was claimed
    for, locks released on every path, consistent records; a posted job is put into the stream and attempted by the next
    turn of a worker.
  \<^item> Operation: mutual exclusion of the lock, the rate of the token bucket up to an error of rounding that is stated, a
    program that starts runs on settings that passed every check.
  \<^item> Behaviour that surprises is stated as it is, among others \<open>refused_grant_keeps_action\<close>, \<open>grant_envelope_misread\<close>,
    \<open>redis_read_error_loses_history\<close>, \<open>batch_not_atomic\<close>.

  \<^bold>\<open>Termination and bounds.\<close> Loops are structural recursions: over the rounds left (\<open>rounds\<close>), the attempts of a grant
  (three), the steps to drop, the items of a batch; \<open>waitBucket\<close> has a measure. The JSON parser takes fuel, twice
  the length of the text and two, which is enough for every text (\<open>pvalue_enough\<close> in \<open>Go_Json\<close>). The endless loops of a worker
  and of the recovery are sequences of turns. Identifiers and settings are Go's integers with their range where the code
  can leave it; counters that cannot come near it are plain integers.

  \<^bold>\<open>Parameters.\<close> HTTP exchanges, the clock, random ids, files, environment variables, the order of goroutines and of map
  iterations, the Redis commands (laws in the locales \<open>redis\<close>, \<open>redis_exists\<close> and \<open>kv_laws\<close>, shown to hold of small models),
  the circuit breaker, the rounding of floating-point numbers (locales \<open>rounding\<close> and \<open>rounding_error\<close>), date formats, the multiplexer's clean
  path. Cancellation and deadlines show as errors of the calls.

  \<^bold>\<open>Not modelled.\<close> Log lines; the methods of \<open>internal/redisx\<close> that only hand a command to the library; the serving and
  draining of the HTTP server; data races (the prompt cache is written without a lock); the fakes of the tests.
\<close>

end
